(* ===== verification/Text.thy ===== *)
theory Text imports Prelude begin

text \<open>
  The operations of Rust's \<open>str\<close> and \<open>char\<close> the program uses. A text is a list of characters,
  each read as the Unicode scalar value of its code (U+0000 to U+00FF), on which every operation
  below agrees with the standard library: white space, alphabetic and lower-case follow the Unicode
  tables of that block, and \<open>str_len\<close> is the length in UTF-8 bytes. Decimal printing and parsing
  of unsigned integers follow \<open>Display\<close> and \<open>FromStr\<close>.
\<close>

section \<open>Characters\<close>

definition code_point :: "char \<Rightarrow> nat" where
  "code_point c = of_char c"

definition is_whitespace :: "char \<Rightarrow> bool" where
  "is_whitespace c =
     (let n = code_point c in (9 \<le> n \<and> n \<le> 13) \<or> n = 32 \<or> n = 133 \<or> n = 160)"

definition is_ascii_digit :: "char \<Rightarrow> bool" where
  "is_ascii_digit c = (let n = code_point c in 48 \<le> n \<and> n \<le> 57)"

definition is_alphabetic :: "char \<Rightarrow> bool" where
  "is_alphabetic c =
     (let n = code_point c in
        (65 \<le> n \<and> n \<le> 90) \<or> (97 \<le> n \<and> n \<le> 122) \<or> n = 170 \<or> n = 181 \<or> n = 186
        \<or> (192 \<le> n \<and> n \<le> 214) \<or> (216 \<le> n \<and> n \<le> 246) \<or> (248 \<le> n \<and> n \<le> 255))"

definition ascii_lower_char :: "char \<Rightarrow> char" where
  "ascii_lower_char c =
     (let n = code_point c in if 65 \<le> n \<and> n \<le> 90 then char_of (n + 32) else c)"

definition lower_char :: "char \<Rightarrow> char" where
  "lower_char c =
     (let n = code_point c in
        if (65 \<le> n \<and> n \<le> 90) \<or> (192 \<le> n \<and> n \<le> 222 \<and> n \<noteq> 215) then char_of (n + 32) else c)"

definition utf8_len :: "char \<Rightarrow> nat" where
  "utf8_len c = (if code_point c < 128 then 1 else 2)"

section \<open>Texts\<close>

definition str_len :: "string \<Rightarrow> nat" where
  "str_len s = sum_list (map utf8_len s)"

definition trim_end_by :: "(char \<Rightarrow> bool) \<Rightarrow> string \<Rightarrow> string" where
  "trim_end_by P s = rev (dropWhile P (rev s))"

definition trim :: "string \<Rightarrow> string" where
  "trim s = trim_end_by is_whitespace (dropWhile is_whitespace s)"

definition to_ascii_lowercase :: "string \<Rightarrow> string" where
  "to_ascii_lowercase s = map ascii_lower_char s"

definition to_lowercase :: "string \<Rightarrow> string" where
  "to_lowercase s = map lower_char s"

definition eq_ignore_ascii_case :: "string \<Rightarrow> string \<Rightarrow> bool" where
  "eq_ignore_ascii_case a b = (to_ascii_lowercase a = to_ascii_lowercase b)"

definition starts_with :: "string \<Rightarrow> string \<Rightarrow> bool" where
  "starts_with s p = prefix p s"

definition ends_with :: "string \<Rightarrow> string \<Rightarrow> bool" where
  "ends_with s p = prefix (rev p) (rev s)"

fun contains :: "string \<Rightarrow> string \<Rightarrow> bool" where
  "contains [] p = (p = [])"
| "contains (c # s) p = (prefix p (c # s) \<or> contains s p)"

definition strip_prefix :: "string \<Rightarrow> string \<Rightarrow> string option" where
  "strip_prefix p s = (if prefix p s then Some (drop (length p) s) else None)"

fun split_once :: "char \<Rightarrow> string \<Rightarrow> (string \<times> string) option" where
  "split_once d [] = None"
| "split_once d (c # s) =
     (if c = d then Some ([], s)
      else map_option (\<lambda>(a, b). (c # a, b)) (split_once d s))"

fun split_on :: "char \<Rightarrow> string \<Rightarrow> string list" where
  "split_on d [] = [[]]"
| "split_on d (c # s) =
     (if c = d then [] # split_on d s
      else (case split_on d s of [] \<Rightarrow> [[c]] | w # ws \<Rightarrow> (c # w) # ws))"

fun join :: "string \<Rightarrow> string list \<Rightarrow> string" where
  "join sep [] = []"
| "join sep [w] = w"
| "join sep (w # ws) = w @ sep @ join sep ws"

fun split_whitespace_aux :: "string \<Rightarrow> string \<Rightarrow> string list" where
  "split_whitespace_aux acc [] = (if acc = [] then [] else [rev acc])"
| "split_whitespace_aux acc (c # s) =
     (if is_whitespace c
      then (if acc = [] then split_whitespace_aux [] s else rev acc # split_whitespace_aux [] s)
      else split_whitespace_aux (c # acc) s)"

definition split_whitespace :: "string \<Rightarrow> string list" where
  "split_whitespace s = split_whitespace_aux [] s"

section \<open>Decimal numbers\<close>

definition digit_char :: "nat \<Rightarrow> char" where
  "digit_char d = char_of (48 + d)"

fun show_nat :: "nat \<Rightarrow> string" where
  "show_nat n = (if n < 10 then [digit_char n] else show_nat (n div 10) @ [digit_char (n mod 10)])"

declare show_nat.simps [simp del]

text \<open>The format \<open>{:02}\<close>.\<close>

definition show_pad2 :: "nat \<Rightarrow> string" where
  "show_pad2 n = (if n < 10 then ''0'' @ show_nat n else show_nat n)"

fun digits_value :: "nat \<Rightarrow> string \<Rightarrow> nat option" where
  "digits_value acc [] = Some acc"
| "digits_value acc (c # s) =
     (if is_ascii_digit c then digits_value (10 * acc + (code_point c - 48)) s else None)"

text \<open>
  \<open>FromStr\<close> of an unsigned integer: one leading \<open>+\<close> is accepted, no sign and no digit is an
  error, and so is a value above the bound of the type.
\<close>

definition parse_unsigned :: "nat \<Rightarrow> string \<Rightarrow> nat option" where
  "parse_unsigned bound s =
     (let body = (case s of c # t \<Rightarrow> if c = CHR ''+'' then t else s | [] \<Rightarrow> [])
      in if body = [] then None
         else (case digits_value 0 body of
                 None \<Rightarrow> None
               | Some n \<Rightarrow> if n \<le> bound then Some n else None))"

section \<open>Lemmas\<close>

lemma trim_empty [simp]: "trim [] = []"
  by (simp add: trim_def trim_end_by_def)

lemma code_point_char_of: "n < 256 \<Longrightarrow> code_point (char_of n) = n"
  by (simp add: code_point_def)

lemma code_point_digit [simp]: "d < 10 \<Longrightarrow> code_point (digit_char d) = 48 + d"
  by (simp add: digit_char_def code_point_char_of)

lemma is_ascii_digit_digit [simp]: "d < 10 \<Longrightarrow> is_ascii_digit (digit_char d)"
  by (simp add: is_ascii_digit_def)

lemma digits_value_append:
  "digits_value a (s @ t) = (case digits_value a s of None \<Rightarrow> None | Some b \<Rightarrow> digits_value b t)"
  by (induction s arbitrary: a) auto

lemma digits_value_show_nat: "digits_value 0 (show_nat n) = Some n"
proof (induction n rule: show_nat.induct)
  case (1 n)
  show ?case
  proof (cases "n < 10")
    case True
    then show ?thesis by (simp add: show_nat.simps [of n])
  next
    case False
    then have "digits_value 0 (show_nat (n div 10)) = Some (n div 10)" by (rule 1)
    then show ?thesis using False by (simp add: show_nat.simps [of n] digits_value_append)
  qed
qed

lemma show_nat_nonempty [simp]: "show_nat n \<noteq> []"
  by (subst show_nat.simps) simp

lemma digits_only: "digits_value a s = Some v \<Longrightarrow> c \<in> set s \<Longrightarrow> is_ascii_digit c"
  by (induction s arbitrary: a) (auto split: if_splits)

lemma show_nat_digits: "c \<in> set (show_nat n) \<Longrightarrow> is_ascii_digit c"
  by (rule digits_only [OF digits_value_show_nat])

lemma plus_not_digit [simp]: "\<not> is_ascii_digit CHR ''+''"
  by code_simp

lemma comma_not_digit [simp]: "\<not> is_ascii_digit CHR '',''"
  by code_simp

lemma colon_not_digit [simp]: "\<not> is_ascii_digit CHR '':''"
  by code_simp

lemma digits_ascii: "is_ascii_digit c \<Longrightarrow> utf8_len c = 1"
  by (simp add: is_ascii_digit_def utf8_len_def Let_def)

lemma parse_digits:
  assumes "digits_value 0 s = Some n" "s \<noteq> []"
  shows "parse_unsigned bound s = (if n \<le> bound then Some n else None)"
proof -
  obtain c t where s: "s = c # t" using assms(2) by (cases s) auto
  have "is_ascii_digit c" using digits_only [OF assms(1)] s by simp
  then have "c \<noteq> CHR ''+''" using plus_not_digit by metis
  then show ?thesis using assms s by (simp add: parse_unsigned_def)
qed

lemma parse_show_nat: "n \<le> bound \<Longrightarrow> parse_unsigned bound (show_nat n) = Some n"
  using parse_digits [OF digits_value_show_nat show_nat_nonempty] by simp

lemma parse_unsigned_bound: "parse_unsigned bound s = Some n \<Longrightarrow> n \<le> bound"
  by (auto simp: parse_unsigned_def Let_def split: if_splits option.splits)

lemma digits_value_zero: "digits_value 0 (CHR ''0'' # s) = digits_value 0 s"
proof -
  have "is_ascii_digit CHR ''0''" "code_point CHR ''0'' = 48" by code_simp+
  then show ?thesis by simp
qed

lemma parse_show_pad2: "n \<le> bound \<Longrightarrow> parse_unsigned bound (show_pad2 n) = Some n"
  by (simp add: show_pad2_def parse_show_nat digits_value_zero
      parse_digits [OF trans [OF digits_value_zero digits_value_show_nat]])

lemma show_nat_two: "10 \<le> n \<Longrightarrow> n < 100 \<Longrightarrow> length (show_nat n) = 2"
  by (subst show_nat.simps) (simp add: show_nat.simps [of "n div 10"])

lemma length_show_pad2: "n < 100 \<Longrightarrow> length (show_pad2 n) = 2"
proof (cases "n < 10")
  case True
  then show ?thesis by (simp add: show_pad2_def show_nat.simps [of n])
next
  case False
  moreover assume "n < 100"
  ultimately show ?thesis by (simp add: show_pad2_def show_nat_two)
qed

lemma show_pad2_digits: "c \<in> set (show_pad2 n) \<Longrightarrow> is_ascii_digit c"
proof -
  have "is_ascii_digit CHR ''0''" by code_simp
  then show "c \<in> set (show_pad2 n) \<Longrightarrow> is_ascii_digit c"
    by (auto simp: show_pad2_def show_nat_digits split: if_splits)
qed

lemma str_len_ascii: "(\<And>c. c \<in> set s \<Longrightarrow> utf8_len c = 1) \<Longrightarrow> str_len s = length s"
  unfolding str_len_def by (induction s) auto

lemma str_len_show_pad2: "n < 100 \<Longrightarrow> str_len (show_pad2 n) = 2"
  by (simp add: str_len_ascii digits_ascii show_pad2_digits length_show_pad2)

lemma split_once_first: "d \<notin> set a \<Longrightarrow> split_once d (a @ d # b) = Some (a, b)"
  by (induction a) auto

lemma split_once_Some: "split_once d s = Some (a, b) \<Longrightarrow> s = a @ d # b \<and> d \<notin> set a"
  by (induction s arbitrary: a b) (auto split: if_splits)

lemma split_on_nonempty [simp]: "split_on d s \<noteq> []"
  by (induction s) (auto split: list.splits)

lemma split_on_single: "d \<notin> set w \<Longrightarrow> split_on d w = [w]"
  by (induction w) (auto split: list.splits)

lemma split_on_append: "d \<notin> set w \<Longrightarrow> split_on d (w @ d # s) = w # split_on d s"
  by (induction w) (auto split: list.splits)

lemma split_on_join:
  "ws \<noteq> [] \<Longrightarrow> (\<And>w. w \<in> set ws \<Longrightarrow> d \<notin> set w) \<Longrightarrow> split_on d (join [d] ws) = ws"
  by (induction "[d]" ws rule: join.induct) (auto simp: split_on_single split_on_append)

lemma split_whitespace_aux_word:
  "(\<And>c. c \<in> set w \<Longrightarrow> \<not> is_whitespace c) \<Longrightarrow>
   split_whitespace_aux acc (w @ s) = split_whitespace_aux (rev w @ acc) s"
  by (induction w arbitrary: acc) auto

lemma split_whitespace_aux_words:
  "list_all (\<lambda>c. \<not> is_whitespace c) acc \<Longrightarrow>
   list_all (\<lambda>w. w \<noteq> [] \<and> list_all (\<lambda>c. \<not> is_whitespace c) w) (split_whitespace_aux acc s)"
  by (induction acc s rule: split_whitespace_aux.induct) simp_all

lemma split_whitespace_words:
  "w \<in> set (split_whitespace s) \<Longrightarrow> w \<noteq> [] \<and> (\<forall>c\<in>set w. \<not> is_whitespace c)"
  using split_whitespace_aux_words [of "[]" s] by (simp add: split_whitespace_def list_all_iff)

lemma space_is_whitespace [simp]: "is_whitespace CHR '' ''"
  by code_simp

lemma split_whitespace_join:
  "(\<forall>w\<in>set ws. w \<noteq> [] \<and> (\<forall>c\<in>set w. \<not> is_whitespace c)) \<Longrightarrow>
   split_whitespace (join '' '' ws) = ws"
proof (induction ws)
  case Nil
  show ?case by (simp add: split_whitespace_def)
next
  case (Cons w ws)
  then have w: "w \<noteq> []" "\<And>c. c \<in> set w \<Longrightarrow> \<not> is_whitespace c" by auto
  have aux: "split_whitespace_aux [] (w @ s) = split_whitespace_aux (rev w) s" for s
    using split_whitespace_aux_word [of w "[]" s, OF w(2)] by simp
  show ?case
  proof (cases ws)
    case Nil
    then show ?thesis using aux [of "[]"] w(1) by (simp add: split_whitespace_def)
  next
    case (Cons v vs)
    then have "split_whitespace_aux [] (join '' '' ws) = ws"
      using Cons.IH Cons.prems by (simp add: split_whitespace_def)
    then show ?thesis using aux [of "'' '' @ join '' '' ws"] w(1) Cons
      by (simp add: split_whitespace_def)
  qed
qed

lemma trim_fixed_nonempty: "trim s = s \<Longrightarrow> s \<noteq> [] \<Longrightarrow> \<not> is_whitespace (hd s)"
proof
  assume t: "trim s = s" "s \<noteq> []" "is_whitespace (hd s)"
  then obtain c u where s: "s = c # u" by (cases s) auto
  have "length (trim s) \<le> length (dropWhile is_whitespace s)"
    unfolding trim_def trim_end_by_def by (simp add: length_dropWhile_le) (metis length_dropWhile_le length_rev)
  also have "\<dots> < length s" using t s by (simp add: le_imp_less_Suc length_dropWhile_le)
  finally show False using t by simp
qed

end
