(* ===== verification/Types.thy ===== *)
theory Types imports Text begin

text \<open>
  The data of \<^verbatim>\<open>focus-core\<close>: the configuration records and enums of \<^verbatim>\<open>config.rs\<close>, the decisions, sessions and
  states of \<^verbatim>\<open>types.rs\<close>, and the errors of \<^verbatim>\<open>error.rs\<close>. A \<open>DateTime<Utc>\<close> is its instant, in nanoseconds
  from the epoch; a \<open>DateTime<FixedOffset>\<close> adds the offset in seconds. An error that the source
  carries as a formatted message is a constructor with the values the message shows. The operations
  of the two external crates the core computes with (\<^verbatim>\<open>url\<close> and the calendar of \<^verbatim>\<open>chrono\<close>) are the
  fields of a record that every definition using them takes as an argument.
\<close>

section \<open>Instants and local times\<close>

type_synonym instant = int

definition nanos_per_second :: int where
  "nanos_per_second = 1000000000"

definition nanos_per_minute :: int where
  "nanos_per_minute = 60000000000"

definition nanos_per_day :: int where
  "nanos_per_day = 86400000000000"

record datetime =
  dt_utc :: instant
  dt_offset :: int

definition local_nanos :: "datetime \<Rightarrow> int" where
  "local_nanos now = dt_utc now + dt_offset now * nanos_per_second"

text \<open>The civil day of a local time, counted from 1970-01-01, and the time of day within it.\<close>

definition day_number :: "int \<Rightarrow> int" where
  "day_number ns = ns div nanos_per_day"

definition local_hour :: "datetime \<Rightarrow> int" where
  "local_hour now = (local_nanos now mod nanos_per_day) div (60 * nanos_per_minute)"

definition local_minute :: "datetime \<Rightarrow> int" where
  "local_minute now = ((local_nanos now mod nanos_per_day) div nanos_per_minute) mod 60"

text \<open>\<open>Duration::num_seconds\<close> of the span between two instants: whole seconds, towards zero.\<close>

definition num_seconds :: "int \<Rightarrow> int" where
  "num_seconds d = (if 0 \<le> d then d div nanos_per_second else - ((- d) div nanos_per_second))"

section \<open>Configuration\<close>

datatype rule_tier = Hard | ScheduledBlock | ControlledAccess

datatype list_mode = Blocklist | Allowlist

datatype rule_pattern_kind = Domain | ExactUrl | UrlPrefix | UrlContains | PathPrefix

datatype app_matcher_kind =
  ExecutablePath | ExecutableBasename | CommandName | DesktopId | WindowTitleExact | WindowTitleContains

datatype weekday = Mon | Tue | Wed | Thu | Fri | Sat | Sun

datatype chrono_weekday = CMon | CTue | CWed | CThu | CFri | CSat | CSun

datatype schedule_day =
  Everyday | Workdays | Weekend | OnMon | OnTue | OnWed | OnThu | OnFri | OnSat | OnSun

datatype time_of_day = TimeOfDay (tod_hour: u8) (tod_minute: u8)

record rule_pattern_config =
  rp_kind :: rule_pattern_kind
  rp_value :: string
  rp_match_subdomains :: bool

record app_matcher_config =
  am_kind :: app_matcher_kind
  am_value :: string

record rule_config =
  rc_id :: string
  rc_name :: string
  rc_tier :: rule_tier
  rc_enabled :: bool
  rc_mode :: list_mode
  rc_patterns :: "rule_pattern_config list"
  rc_schedule_ids :: "string list"
  rc_allowance_id :: "string option"

record app_rule_config =
  ac_id :: string
  ac_name :: string
  ac_tier :: rule_tier
  ac_enabled :: bool
  ac_mode :: list_mode
  ac_matchers :: "app_matcher_config list"
  ac_schedule_ids :: "string list"
  ac_allowance_id :: "string option"

record schedule_window =
  sw_weekday :: schedule_day
  sw_start :: time_of_day
  sw_end :: time_of_day

record schedule_config =
  sc_id :: string
  sc_name :: "string option"
  sc_windows :: "schedule_window list"

record allowance_config =
  al_id :: string
  al_name :: "string option"
  al_daily_minutes :: u32

record strict_mode_config =
  sm_require_firefox_extension :: bool
  sm_require_chrome_extension :: bool
  sm_kill_supported_browser_if_extension_stale :: bool
  sm_block_unsupported_browsers :: bool
  sm_grace_seconds :: u32

record config =
  cfg_rules :: "rule_config list"
  cfg_app_rules :: "app_rule_config list"
  cfg_schedules :: "schedule_config list"
  cfg_allowances :: "allowance_config list"
  cfg_strict_mode :: strict_mode_config

section \<open>Errors\<close>

datatype time_error =
  NotHourMinute string | NotZeroPadded string | InvalidHour string | InvalidMinute string
| InvalidTimeOfDay u8 u8

text \<open>One constructor per message of \<open>ConfigError::Validation\<close>, with the values it names.\<close>

datatype validation_error =
  EmptyId string
| UntrimmedId string string
| DuplicateId string string
| GraceSecondsZero
| EmptyWindow string time_of_day
| EmptyName string string
| NoPatterns string
| EmptyPattern string
| UntrimmedPattern string
| DomainNotHost string string
| NotStructuralHost string string
| NoRegistrableSuffix string string
| InvalidUrlPattern string string string
| BadPathPrefix string string
| MissingSchedule string string string
| AllowlistIsHard string string
| AllowlistDisabled string string
| MissingAllowance string string string
| AllowanceLinkedTwice string string string string
| TierWithAllowance rule_tier string string
| ConflictsWithSiteRule string
| NoMatchers string
| EmptyMatcher string
| UntrimmedMatcher string
| NotAbsolutePath string string
| MatcherHasSlash app_matcher_kind string string
| UnknownTier string
| UnknownMode string
| UnknownPatternKind string
| UnknownMatcherKind string
| UnknownScheduleDay string
| OutOfRange string int
| BadTime time_error
| UnlockWithoutRule

datatype config_error =
  CfgIo string | CfgParse string | CfgSerialize string | CfgValidation validation_error

datatype unlock_error =
  EmptyTarget
| EmptyReason
| ReasonTooShort nat nat
| ReasonAlreadyUsed
| UnknownTarget string
| TargetIsHardBlocked string
| TargetIsScheduledBlocked string
| TargetInActiveDetox string string instant
| UnlockAlreadyActive string instant
| HourlyQuotaExceeded u32

text \<open>
  What \<open>rusqlite\<close> reports: a statement SQLite could not run, or a constraint of the schema broken.
\<close>

datatype db_error = StatementFailed string | ConstraintViolated string | NoRow

datatype error =
  ErrIo string
| ErrConfig config_error
| ErrDatabase db_error
| ErrUrl string
| ErrTime string
| ErrUnlock unlock_error
| Panicked string

section \<open>Decisions and runtime states\<close>

datatype detox_target_kind = SiteRuleTarget | AppRuleTarget

datatype controlled_block_reason = NoAllowance | AllowanceExhausted | UnlockRequired

text \<open>\<open>RuntimeError\<close> carries the error itself where the code carries its text.\<close>

datatype block_reason =
  InvalidUrl string
| Detox string "string option" string string detox_target_kind instant
| HardBlock string string
| ScheduledBlockReason string string
| ControlledAccessReason string string controlled_block_reason
| RuntimeError error

datatype decision = Allow | Block block_reason

definition is_allow :: "decision \<Rightarrow> bool" where
  "is_allow d = (case d of Allow \<Rightarrow> True | Block _ \<Rightarrow> False)"

definition is_block :: "decision \<Rightarrow> bool" where
  "is_block d = (case d of Allow \<Rightarrow> False | Block _ \<Rightarrow> True)"

record detox_session =
  ds_id :: string
  ds_name :: "string option"
  ds_starts_at :: instant
  ds_ends_at :: instant
  ds_cancelled_at :: "instant option"
  ds_site_rule_ids :: "string list"
  ds_app_rule_ids :: "string list"

record unlock_state =
  us_id :: int
  us_target :: string
  us_rule_id :: string
  us_rule_ids :: "string list"
  us_minutes :: u32
  us_reason :: string
  us_started_at :: instant
  us_expires_at :: instant

record visit_state =
  vs_id :: int
  vs_target :: string
  vs_rule_id :: "string option"
  vs_url :: string
  vs_tab_id :: string
  vs_started_at :: instant
  vs_last_heartbeat_at :: instant
  vs_ended_at :: "instant option"

record allowance_status =
  as_rule_id :: string
  as_rule_name :: string
  as_remaining_seconds :: int

record process_identity =
  pi_pid :: "u32 option"
  pi_executable_path :: "string option"
  pi_executable_basename :: "string option"
  pi_command_name :: "string option"
  pi_desktop_id :: "string option"
  pi_window_titles :: "string list"

section \<open>External operations\<close>

text \<open>
  \<open>url_parse\<close> is \<open>Url::parse\<close> with its error message, \<open>url_without_fragment\<close> the effect of
  \<open>set_fragment(None)\<close>, the next three read the parsed URL; \<open>day_weekday\<close> is the weekday of a civil
  day, and \<open>first_day\<close>, \<open>last_day\<close> are the ends of the calendar (\<open>NaiveDate::MIN\<close> and \<open>MAX\<close>).
\<close>

record 'u lib =
  url_parse :: "string \<Rightarrow> string + 'u"
  url_without_fragment :: "'u \<Rightarrow> 'u"
  url_host_str :: "'u \<Rightarrow> string option"
  url_path :: "'u \<Rightarrow> string"
  url_to_string :: "'u \<Rightarrow> string"
  day_weekday :: "int \<Rightarrow> chrono_weekday"
  first_day :: int
  last_day :: int

section \<open>Lemmas\<close>

lemma is_allow_simps [simp]: "is_allow Allow" "\<not> is_allow (Block r)"
  by (simp_all add: is_allow_def)

lemma is_block_simps [simp]: "is_block (Block r)" "\<not> is_block Allow"
  by (simp_all add: is_block_def)

lemma not_is_block [simp]: "\<not> is_block d \<longleftrightarrow> d = Allow"
  by (cases d) simp_all

lemmas nanos_defs = nanos_per_second_def nanos_per_minute_def nanos_per_day_def

lemma num_seconds_bounds:
  assumes "0 \<le> d"
  shows "0 \<le> num_seconds d" "num_seconds d * nanos_per_second \<le> d"
    "d < (num_seconds d + 1) * nanos_per_second"
  using assms by (simp_all add: num_seconds_def nanos_per_second_def)

lemma num_seconds_exact: "0 \<le> n \<Longrightarrow> num_seconds (n * nanos_per_second) = n"
  by (simp add: num_seconds_def nanos_per_second_def)

end
