(* ===== verification/Config.thy ===== *)
theory Config imports Types begin

text \<open>
  \<^verbatim>\<open>focus-core/src/config.rs\<close>: days and times of day, the checks of \<open>Config::validate\<close> in the order
  the code runs them, and the repair of website allowlists in older policies. Validation is proved
  equivalent to the declarative predicate \<open>config_ok\<close>, which is what every later component
  assumes of a policy; times of day round-trip through their text.
\<close>

section \<open>Weekdays\<close>

fun weekday_from :: "chrono_weekday \<Rightarrow> weekday" where
  "weekday_from CMon = Mon"
| "weekday_from CTue = Tue"
| "weekday_from CWed = Wed"
| "weekday_from CThu = Thu"
| "weekday_from CFri = Fri"
| "weekday_from CSat = Sat"
| "weekday_from CSun = Sun"

fun previous :: "weekday \<Rightarrow> weekday" where
  "previous Mon = Sun"
| "previous Tue = Mon"
| "previous Wed = Tue"
| "previous Thu = Wed"
| "previous Fri = Thu"
| "previous Sat = Fri"
| "previous Sun = Sat"

fun day_includes :: "schedule_day \<Rightarrow> weekday \<Rightarrow> bool" where
  "day_includes Everyday w = True"
| "day_includes Workdays w = (w \<in> {Mon, Tue, Wed, Thu, Fri})"
| "day_includes Weekend w = (w \<in> {Sat, Sun})"
| "day_includes OnMon w = (w = Mon)"
| "day_includes OnTue w = (w = Tue)"
| "day_includes OnWed w = (w = Wed)"
| "day_includes OnThu w = (w = Thu)"
| "day_includes OnFri w = (w = Fri)"
| "day_includes OnSat w = (w = Sat)"
| "day_includes OnSun w = (w = Sun)"

section \<open>Times of day\<close>

definition tod_new :: "u8 \<Rightarrow> u8 \<Rightarrow> time_error + time_of_day" where
  "tod_new hour minute =
     (if hour > 23 \<or> minute > 59 then Inl (InvalidTimeOfDay hour minute)
      else Inr (TimeOfDay hour minute))"

definition minutes_after_midnight :: "time_of_day \<Rightarrow> u16" where
  "minutes_after_midnight t = ucast (tod_hour t) * 60 + ucast (tod_minute t)"

definition parse_u8 :: "string \<Rightarrow> u8 option" where
  "parse_u8 s = map_option of_nat (parse_unsigned 255 s)"

definition tod_from_str :: "string \<Rightarrow> time_error + time_of_day" where
  "tod_from_str value =
     (case split_once CHR '':'' value of
        None \<Rightarrow> Inl (NotHourMinute value)
      | Some (hour, minute) \<Rightarrow>
          if str_len hour \<noteq> 2 \<or> str_len minute \<noteq> 2 then Inl (NotZeroPadded value)
          else (case parse_u8 hour of
                  None \<Rightarrow> Inl (InvalidHour value)
                | Some h \<Rightarrow>
                    (case parse_u8 minute of
                       None \<Rightarrow> Inl (InvalidMinute value)
                     | Some m \<Rightarrow> tod_new h m)))"

definition tod_to_string :: "time_of_day \<Rightarrow> string" where
  "tod_to_string t = show_pad2 (unat (tod_hour t)) @ '':'' @ show_pad2 (unat (tod_minute t))"

text \<open>The derived order compares the hours, then the minutes.\<close>

instantiation time_of_day :: linorder
begin

definition less_eq_time_of_day :: "time_of_day \<Rightarrow> time_of_day \<Rightarrow> bool" where
  "less_eq_time_of_day a b \<longleftrightarrow>
     tod_hour a < tod_hour b \<or> (tod_hour a = tod_hour b \<and> tod_minute a \<le> tod_minute b)"

definition less_time_of_day :: "time_of_day \<Rightarrow> time_of_day \<Rightarrow> bool" where
  "less_time_of_day a b \<longleftrightarrow>
     tod_hour a < tod_hour b \<or> (tod_hour a = tod_hour b \<and> tod_minute a < tod_minute b)"

instance
  by standard (auto simp: less_eq_time_of_day_def less_time_of_day_def time_of_day.expand)

end

text \<open>The values \<open>TimeOfDay::new\<close> lets through; the fields are private to the module.\<close>

definition tod_valid :: "time_of_day \<Rightarrow> bool" where
  "tod_valid t \<longleftrightarrow> tod_hour t \<le> 23 \<and> tod_minute t \<le> 59"

definition config_times_valid :: "config \<Rightarrow> bool" where
  "config_times_valid c \<longleftrightarrow>
     (\<forall>s\<in>set (cfg_schedules c). \<forall>w\<in>set (sc_windows s). tod_valid (sw_start w) \<and> tod_valid (sw_end w))"

section \<open>Defaults\<close>

definition default_enabled :: bool where
  "default_enabled = True"

definition default_strict_grace_seconds :: u32 where
  "default_strict_grace_seconds = 60"

definition default_strict_mode :: strict_mode_config where
  "default_strict_mode =
     \<lparr>sm_require_firefox_extension = True, sm_require_chrome_extension = True,
      sm_kill_supported_browser_if_extension_stale = True, sm_block_unsupported_browsers = True,
      sm_grace_seconds = default_strict_grace_seconds\<rparr>"

definition default_config :: config where
  "default_config = \<lparr>cfg_rules = [], cfg_app_rules = [], cfg_schedules = [], cfg_allowances = [],
     cfg_strict_mode = default_strict_mode\<rparr>"

section \<open>Identifiers and patterns\<close>

definition require_identifier :: "string \<Rightarrow> string \<Rightarrow> validation_error + unit" where
  "require_identifier label ident =
     (let trimmed = trim ident in
      if trimmed = [] then Inl (EmptyId label)
      else if trimmed \<noteq> ident then Inl (UntrimmedId label ident)
      else Inr ())"

fun ensure_unique_ids_from :: "string \<Rightarrow> string list \<Rightarrow> string list \<Rightarrow> validation_error + unit" where
  "ensure_unique_ids_from label seen [] = Inr ()"
| "ensure_unique_ids_from label seen (ident # ids) =
     and_then (require_identifier label ident) (\<lambda>_.
       if ident \<in> set seen then Inl (DuplicateId label ident)
       else ensure_unique_ids_from label (ident # seen) ids)"

definition ensure_unique_ids :: "string \<Rightarrow> string list \<Rightarrow> validation_error + unit" where
  "ensure_unique_ids label ids = ensure_unique_ids_from label [] ids"

definition validate_host_like :: "string \<Rightarrow> string \<Rightarrow> validation_error + unit" where
  "validate_host_like rule_id value =
     (if starts_with value ''.'' \<or> ends_with value ''.'' \<or> CHR ''*'' \<in> set value
      then Inl (NotStructuralHost value rule_id)
      else if CHR ''.'' \<notin> set value then Inl (NoRegistrableSuffix value rule_id)
      else Inr ())"

definition validate_pattern ::
  "'u lib \<Rightarrow> string \<Rightarrow> rule_pattern_config \<Rightarrow> validation_error + unit" where
  "validate_pattern L rule_id pattern =
     (let value = trim (rp_value pattern) in
      if value = [] then Inl (EmptyPattern rule_id)
      else if value \<noteq> rp_value pattern then Inl (UntrimmedPattern rule_id)
      else (case rp_kind pattern of
              Domain \<Rightarrow>
                if CHR ''/'' \<in> set value \<or> contains value ''://''
                then Inl (DomainNotHost value rule_id)
                else validate_host_like rule_id value
            | ExactUrl \<Rightarrow>
                and_then (map_err (InvalidUrlPattern value rule_id) (url_parse L value)) (\<lambda>_. Inr ())
            | UrlPrefix \<Rightarrow>
                and_then (map_err (InvalidUrlPattern value rule_id) (url_parse L value)) (\<lambda>_. Inr ())
            | UrlContains \<Rightarrow> Inr ()
            | PathPrefix \<Rightarrow>
                if \<not> starts_with value ''/'' \<and> CHR ''/'' \<notin> set value
                then Inl (BadPathPrefix value rule_id)
                else Inr ()))"

definition validate_app_matcher :: "string \<Rightarrow> app_matcher_config \<Rightarrow> validation_error + unit" where
  "validate_app_matcher rule_id matcher =
     (let value = trim (am_value matcher) in
      if value = [] then Inl (EmptyMatcher rule_id)
      else if value \<noteq> am_value matcher then Inl (UntrimmedMatcher rule_id)
      else (case am_kind matcher of
              ExecutablePath \<Rightarrow>
                if \<not> starts_with value ''/'' then Inl (NotAbsolutePath value rule_id) else Inr ()
            | WindowTitleExact \<Rightarrow> Inr ()
            | WindowTitleContains \<Rightarrow> Inr ()
            | kind \<Rightarrow>
                if CHR ''/'' \<in> set value then Inl (MatcherHasSlash kind value rule_id) else Inr ()))"

definition matches_case_insensitively :: "app_matcher_kind \<Rightarrow> bool" where
  "matches_case_insensitively k \<longleftrightarrow> k \<in> {ExecutableBasename, CommandName, DesktopId}"

section \<open>Validation of a policy\<close>

definition validate_schedule :: "schedule_config \<Rightarrow> validation_error + unit" where
  "validate_schedule schedule =
     and_then (require_identifier ''schedule'' (sc_id schedule)) (\<lambda>_.
       try_for (sc_windows schedule) (\<lambda>window.
         ensure (sw_start window \<noteq> sw_end window) (EmptyWindow (sc_id schedule) (sw_start window))))"

text \<open>The schedules a list is attached to exist.\<close>

definition check_schedule_ids ::
  "string \<Rightarrow> string \<Rightarrow> string list \<Rightarrow> string list \<Rightarrow> validation_error + unit" where
  "check_schedule_ids label owner known ids =
     try_for ids (\<lambda>schedule_id.
       ensure (schedule_id \<in> set known) (MissingSchedule label owner schedule_id))"

text \<open>An allowlist is Tier 2 or Tier 3 and never disabled.\<close>

definition check_allowlist ::
  "string \<Rightarrow> string \<Rightarrow> list_mode \<Rightarrow> rule_tier \<Rightarrow> bool \<Rightarrow> validation_error + unit" where
  "check_allowlist label owner mode tier enabled =
     (if mode = Allowlist
      then (if tier = Hard then Inl (AllowlistIsHard label owner)
            else if \<not> enabled then Inl (AllowlistDisabled label owner)
            else Inr ())
      else Inr ())"

text \<open>
  The allowance a list names exists and no list before it names it: \<open>links\<close> is the
  \<open>allowance_links\<close> hash map, from an allowance to the list linked to it.
\<close>

definition check_allowance_link ::
  "string \<Rightarrow> string \<Rightarrow> string list \<Rightarrow> string option \<Rightarrow> (string \<rightharpoonup> string)
     \<Rightarrow> validation_error + (string \<rightharpoonup> string)" where
  "check_allowance_link label owner known allowance links =
     (case allowance of
        None \<Rightarrow> Inr links
      | Some allowance_id \<Rightarrow>
          if allowance_id \<notin> set known then Inl (MissingAllowance label owner allowance_id)
          else (case links allowance_id of
                  Some existing \<Rightarrow> Inl (AllowanceLinkedTwice allowance_id existing label owner)
                | None \<Rightarrow> Inr (links(allowance_id \<mapsto> owner))))"

definition check_tier_allowance ::
  "string \<Rightarrow> string \<Rightarrow> rule_tier \<Rightarrow> string option \<Rightarrow> validation_error + unit" where
  "check_tier_allowance label owner tier allowance =
     (case tier of
        ControlledAccess \<Rightarrow> Inr ()
      | _ \<Rightarrow> ensure (allowance = None) (TierWithAllowance tier label owner))"

definition validate_rule ::
  "'u lib \<Rightarrow> string list \<Rightarrow> string list \<Rightarrow> rule_config \<Rightarrow> (string \<rightharpoonup> string)
     \<Rightarrow> validation_error + (string \<rightharpoonup> string)" where
  "validate_rule L schedule_ids allowance_ids rule links =
     and_then (require_identifier ''rule'' (rc_id rule)) (\<lambda>_.
     and_then (ensure (trim (rc_name rule) \<noteq> []) (EmptyName ''rule'' (rc_id rule))) (\<lambda>_.
     and_then (ensure (rc_patterns rule \<noteq> []) (NoPatterns (rc_id rule))) (\<lambda>_.
     and_then (try_for (rc_patterns rule) (validate_pattern L (rc_id rule))) (\<lambda>_.
     and_then (check_schedule_ids ''rule'' (rc_id rule) schedule_ids (rc_schedule_ids rule)) (\<lambda>_.
     and_then (check_allowlist ''website'' (rc_id rule) (rc_mode rule) (rc_tier rule) (rc_enabled rule)) (\<lambda>_.
     and_then (check_allowance_link ''rule'' (rc_id rule) allowance_ids (rc_allowance_id rule) links) (\<lambda>links'.
     and_then (check_tier_allowance ''rule'' (rc_id rule) (rc_tier rule) (rc_allowance_id rule)) (\<lambda>_.
       Inr links'))))))))"

definition validate_app_rule ::
  "string list \<Rightarrow> string list \<Rightarrow> string list \<Rightarrow> app_rule_config \<Rightarrow> (string \<rightharpoonup> string)
     \<Rightarrow> validation_error + (string \<rightharpoonup> string)" where
  "validate_app_rule site_rule_ids schedule_ids allowance_ids rule links =
     and_then (require_identifier ''app rule'' (ac_id rule)) (\<lambda>_.
     and_then (ensure (ac_id rule \<notin> set site_rule_ids) (ConflictsWithSiteRule (ac_id rule))) (\<lambda>_.
     and_then (ensure (trim (ac_name rule) \<noteq> []) (EmptyName ''app rule'' (ac_id rule))) (\<lambda>_.
     and_then (check_allowlist ''application'' (ac_id rule) (ac_mode rule) (ac_tier rule) (ac_enabled rule)) (\<lambda>_.
     and_then (ensure (ac_matchers rule \<noteq> []) (NoMatchers (ac_id rule))) (\<lambda>_.
     and_then (try_for (ac_matchers rule) (validate_app_matcher (ac_id rule))) (\<lambda>_.
     and_then (check_schedule_ids ''app rule'' (ac_id rule) schedule_ids (ac_schedule_ids rule)) (\<lambda>_.
     and_then (check_allowance_link ''app rule'' (ac_id rule) allowance_ids (ac_allowance_id rule) links) (\<lambda>links'.
     and_then (check_tier_allowance ''app rule'' (ac_id rule) (ac_tier rule) (ac_allowance_id rule)) (\<lambda>_.
       Inr links')))))))))"

definition validate :: "'u lib \<Rightarrow> config \<Rightarrow> validation_error + unit" where
  "validate L c =
     and_then (ensure_unique_ids ''rule'' (map rc_id (cfg_rules c))) (\<lambda>_.
     and_then (ensure_unique_ids ''app rule'' (map ac_id (cfg_app_rules c))) (\<lambda>_.
     and_then (ensure_unique_ids ''schedule'' (map sc_id (cfg_schedules c))) (\<lambda>_.
     and_then (ensure_unique_ids ''allowance'' (map al_id (cfg_allowances c))) (\<lambda>_.
     let schedule_ids = map sc_id (cfg_schedules c);
         site_rule_ids = map rc_id (cfg_rules c);
         allowance_ids = map al_id (cfg_allowances c)
     in
     and_then (ensure (sm_grace_seconds (cfg_strict_mode c) \<noteq> 0) GraceSecondsZero) (\<lambda>_.
     and_then (try_for (cfg_schedules c) validate_schedule) (\<lambda>_.
     and_then (try_for (cfg_allowances c) (\<lambda>a. require_identifier ''allowance'' (al_id a))) (\<lambda>_.
     and_then (try_fold (validate_rule L schedule_ids allowance_ids) (cfg_rules c) Map.empty) (\<lambda>links.
     and_then (try_fold (validate_app_rule site_rule_ids schedule_ids allowance_ids)
                 (cfg_app_rules c) links) (\<lambda>_.
       Inr ())))))))))"

definition validate_config :: "'u lib \<Rightarrow> config \<Rightarrow> error + unit" where
  "validate_config L c = map_err (\<lambda>e. ErrConfig (CfgValidation e)) (validate L c)"

section \<open>Older policies\<close>

text \<open>
  \<open>normalize_legacy_website_allowlists\<close>: what a recovery snapshot of an older version goes through
  before it is validated.
\<close>

definition normalize_legacy_rule :: "rule_config \<Rightarrow> rule_config" where
  "normalize_legacy_rule rule =
     (if rc_mode rule = Allowlist
      then (let rule = rule\<lparr>rc_enabled := True\<rparr>;
                rule = (if rc_tier rule = Hard then rule\<lparr>rc_tier := ScheduledBlock\<rparr> else rule)
            in if rc_tier rule = ScheduledBlock then rule\<lparr>rc_allowance_id := None\<rparr> else rule)
      else rule)"

definition normalize_legacy_website_allowlists :: "config \<Rightarrow> config" where
  "normalize_legacy_website_allowlists c = c\<lparr>cfg_rules := map normalize_legacy_rule (cfg_rules c)\<rparr>"

section \<open>What a valid policy is\<close>

definition identifier_ok :: "string \<Rightarrow> bool" where
  "identifier_ok s \<longleftrightarrow> s \<noteq> [] \<and> trim s = s"

definition pattern_ok :: "'u lib \<Rightarrow> rule_pattern_config \<Rightarrow> bool" where
  "pattern_ok L p \<longleftrightarrow>
     identifier_ok (rp_value p) \<and>
     (case rp_kind p of
        Domain \<Rightarrow> CHR ''/'' \<notin> set (rp_value p) \<and> \<not> contains (rp_value p) ''://''
          \<and> \<not> starts_with (rp_value p) ''.'' \<and> \<not> ends_with (rp_value p) ''.''
          \<and> CHR ''*'' \<notin> set (rp_value p) \<and> CHR ''.'' \<in> set (rp_value p)
      | ExactUrl \<Rightarrow> (\<exists>u. url_parse L (rp_value p) = Inr u)
      | UrlPrefix \<Rightarrow> (\<exists>u. url_parse L (rp_value p) = Inr u)
      | UrlContains \<Rightarrow> True
      | PathPrefix \<Rightarrow> starts_with (rp_value p) ''/'' \<or> CHR ''/'' \<in> set (rp_value p))"

definition matcher_ok :: "app_matcher_config \<Rightarrow> bool" where
  "matcher_ok m \<longleftrightarrow>
     identifier_ok (am_value m) \<and>
     (am_kind m = ExecutablePath \<longrightarrow> starts_with (am_value m) ''/'') \<and>
     (matches_case_insensitively (am_kind m) \<longrightarrow> CHR ''/'' \<notin> set (am_value m))"

definition rule_ok :: "'u lib \<Rightarrow> string set \<Rightarrow> string set \<Rightarrow> rule_config \<Rightarrow> bool" where
  "rule_ok L schedules allowances r \<longleftrightarrow>
     trim (rc_name r) \<noteq> [] \<and> rc_patterns r \<noteq> [] \<and> (\<forall>p\<in>set (rc_patterns r). pattern_ok L p)
     \<and> set (rc_schedule_ids r) \<subseteq> schedules
     \<and> (rc_mode r = Allowlist \<longrightarrow> rc_tier r \<noteq> Hard \<and> rc_enabled r)
     \<and> set_option (rc_allowance_id r) \<subseteq> allowances
     \<and> (rc_tier r \<noteq> ControlledAccess \<longrightarrow> rc_allowance_id r = None)"

definition app_rule_ok :: "string set \<Rightarrow> string set \<Rightarrow> string set \<Rightarrow> app_rule_config \<Rightarrow> bool" where
  "app_rule_ok site_ids schedules allowances r \<longleftrightarrow>
     ac_id r \<notin> site_ids \<and> trim (ac_name r) \<noteq> [] \<and> ac_matchers r \<noteq> []
     \<and> (\<forall>m\<in>set (ac_matchers r). matcher_ok m)
     \<and> set (ac_schedule_ids r) \<subseteq> schedules
     \<and> (ac_mode r = Allowlist \<longrightarrow> ac_tier r \<noteq> Hard \<and> ac_enabled r)
     \<and> set_option (ac_allowance_id r) \<subseteq> allowances
     \<and> (ac_tier r \<noteq> ControlledAccess \<longrightarrow> ac_allowance_id r = None)"

definition linked_allowances :: "config \<Rightarrow> string list" where
  "linked_allowances c =
     filter_map rc_allowance_id (cfg_rules c) @ filter_map ac_allowance_id (cfg_app_rules c)"

definition unique_ids :: "string list \<Rightarrow> bool" where
  "unique_ids ids \<longleftrightarrow> distinct ids \<and> (\<forall>i\<in>set ids. identifier_ok i)"

definition config_ok :: "'u lib \<Rightarrow> config \<Rightarrow> bool" where
  "config_ok L c \<longleftrightarrow>
     unique_ids (map rc_id (cfg_rules c)) \<and> unique_ids (map ac_id (cfg_app_rules c))
     \<and> unique_ids (map sc_id (cfg_schedules c)) \<and> unique_ids (map al_id (cfg_allowances c))
     \<and> sm_grace_seconds (cfg_strict_mode c) \<noteq> 0
     \<and> (\<forall>s\<in>set (cfg_schedules c). \<forall>w\<in>set (sc_windows s). sw_start w \<noteq> sw_end w)
     \<and> (\<forall>r\<in>set (cfg_rules c).
          rule_ok L (sc_id ` set (cfg_schedules c)) (al_id ` set (cfg_allowances c)) r)
     \<and> (\<forall>r\<in>set (cfg_app_rules c).
          app_rule_ok (rc_id ` set (cfg_rules c)) (sc_id ` set (cfg_schedules c))
            (al_id ` set (cfg_allowances c)) r)
     \<and> distinct (linked_allowances c)"

section \<open>Lemmas on identifiers, patterns and lists\<close>

lemma require_identifier_iff [simp]: "require_identifier l s = Inr u \<longleftrightarrow> identifier_ok s"
  by (auto simp: require_identifier_def identifier_ok_def Let_def)

lemma ensure_unique_ids_from_iff:
  "ensure_unique_ids_from l seen ids = Inr u \<longleftrightarrow> unique_ids ids \<and> set ids \<inter> set seen = {}"
  by (induction l seen ids rule: ensure_unique_ids_from.induct)
     (auto simp: unique_ids_def and_then_Inr_iff)

lemma ensure_unique_ids_iff [simp]: "ensure_unique_ids l ids = Inr u \<longleftrightarrow> unique_ids ids"
  by (simp add: ensure_unique_ids_def ensure_unique_ids_from_iff)

lemma validate_pattern_iff [simp]: "validate_pattern L rid p = Inr u \<longleftrightarrow> pattern_ok L p"
  by (auto simp: validate_pattern_def pattern_ok_def identifier_ok_def validate_host_like_def Let_def
      and_then_Inr_iff split: rule_pattern_kind.splits)

lemma validate_app_matcher_iff [simp]: "validate_app_matcher rid m = Inr u \<longleftrightarrow> matcher_ok m"
  by (cases "am_kind m")
     (auto simp: validate_app_matcher_def matcher_ok_def identifier_ok_def Let_def
       matches_case_insensitively_def)

lemma validate_schedule_iff [simp]:
  "validate_schedule s = Inr u \<longleftrightarrow>
     identifier_ok (sc_id s) \<and> (\<forall>w\<in>set (sc_windows s). sw_start w \<noteq> sw_end w)"
  by (auto simp: validate_schedule_def and_then_Inr_iff try_for_Inr_iff)

lemma check_schedule_ids_iff [simp]:
  "check_schedule_ids l rid known ids = Inr u \<longleftrightarrow> set ids \<subseteq> set known"
  by (auto simp: check_schedule_ids_def try_for_Inr_iff)

lemma check_allowlist_iff [simp]:
  "check_allowlist l rid mode tier enabled = Inr u \<longleftrightarrow>
     (mode = Allowlist \<longrightarrow> tier \<noteq> Hard \<and> enabled)"
  by (auto simp: check_allowlist_def)

lemma check_tier_allowance_iff [simp]:
  "check_tier_allowance l rid tier a = Inr u \<longleftrightarrow> (tier \<noteq> ControlledAccess \<longrightarrow> a = None)"
  by (cases tier) (auto simp: check_tier_allowance_def)

lemma check_allowance_link_iff:
  "check_allowance_link l rid known a links = Inr links' \<longleftrightarrow>
     (case a of None \<Rightarrow> links' = links
      | Some x \<Rightarrow> x \<in> set known \<and> x \<notin> dom links \<and> links' = links(x \<mapsto> rid))"
  by (auto simp: check_allowance_link_def split: option.splits)

text \<open>The links a list of rules adds.\<close>

fun add_links :: "('r \<Rightarrow> string option) \<Rightarrow> ('r \<Rightarrow> string) \<Rightarrow> 'r list \<Rightarrow> (string \<rightharpoonup> string)
    \<Rightarrow> (string \<rightharpoonup> string)" where
  "add_links link owner [] links = links"
| "add_links link owner (r # rs) links =
     add_links link owner rs (case link r of None \<Rightarrow> links | Some x \<Rightarrow> links(x \<mapsto> owner r))"

text \<open>A fold over lists of rules accepts them all exactly when no allowance is linked twice.\<close>

lemma link_fold_iff:
  assumes step: "\<And>r links links'. f r links = Inr links' \<longleftrightarrow>
     ok r \<and> (case link r of None \<Rightarrow> links' = links
              | Some x \<Rightarrow> x \<notin> dom links \<and> links' = links(x \<mapsto> owner r))"
  shows "try_fold f rs links = Inr links' \<longleftrightarrow>
     (\<forall>r\<in>set rs. ok r) \<and> distinct (filter_map link rs)
     \<and> set (filter_map link rs) \<inter> dom links = {} \<and> links' = add_links link owner rs links"
proof (induction rs arbitrary: links)
  case (Cons r rs)
  show ?case
  proof (cases "link r")
    case None
    then show ?thesis using Cons.IH by (auto simp: and_then_Inr_iff step)
  next
    case (Some x)
    have "try_fold f (r # rs) links = Inr links' \<longleftrightarrow>
        ok r \<and> x \<notin> dom links \<and> try_fold f rs (links(x \<mapsto> owner r)) = Inr links'"
      by (auto simp: and_then_Inr_iff step Some)
    also have "\<dots> \<longleftrightarrow> ok r \<and> x \<notin> dom links \<and> (\<forall>r\<in>set rs. ok r) \<and> distinct (filter_map link rs)
        \<and> set (filter_map link rs) \<inter> insert x (dom links) = {}
        \<and> links' = add_links link owner rs (links(x \<mapsto> owner r))"
      unfolding Cons.IH by (simp add: dom_fun_upd del: fun_upd_apply)
    finally show ?thesis using Some by auto
  qed
qed auto

lemma dom_add_links: "dom (add_links link owner rs links) = dom links \<union> set (filter_map link rs)"
  by (induction rs arbitrary: links) (auto split: option.splits)

lemma validate_rule_iff:
  "validate_rule L sids aids r links = Inr links' \<longleftrightarrow>
     (identifier_ok (rc_id r) \<and> rule_ok L (set sids) (set aids) r)
     \<and> (case rc_allowance_id r of None \<Rightarrow> links' = links
         | Some x \<Rightarrow> x \<notin> dom links \<and> links' = links(x \<mapsto> rc_id r))"
  by (auto simp: validate_rule_def and_then_Inr_iff try_for_Inr_iff check_allowance_link_iff
      rule_ok_def split: option.splits)

lemma validate_app_rule_iff:
  "validate_app_rule rids sids aids r links = Inr links' \<longleftrightarrow>
     (identifier_ok (ac_id r) \<and> app_rule_ok (set rids) (set sids) (set aids) r)
     \<and> (case ac_allowance_id r of None \<Rightarrow> links' = links
         | Some x \<Rightarrow> x \<notin> dom links \<and> links' = links(x \<mapsto> ac_id r))"
  by (auto simp: validate_app_rule_def and_then_Inr_iff try_for_Inr_iff check_allowance_link_iff
      app_rule_ok_def split: option.splits)

lemmas validate_rules_iff = link_fold_iff [where ok = "\<lambda>r. identifier_ok (rc_id r) \<and> rule_ok L (set sids) (set aids) r"
    and link = rc_allowance_id and owner = rc_id and f = "validate_rule L sids aids" for L sids aids,
    OF validate_rule_iff]

lemmas validate_app_rules_iff = link_fold_iff [where ok = "\<lambda>r. identifier_ok (ac_id r) \<and> app_rule_ok (set rids) (set sids) (set aids) r"
    and link = ac_allowance_id and owner = ac_id and f = "validate_app_rule rids sids aids" for rids sids aids,
    OF validate_app_rule_iff]

lemma unique_ids_ok: "unique_ids (map f xs) \<Longrightarrow> x \<in> set xs \<Longrightarrow> identifier_ok (f x)"
  by (auto simp: unique_ids_def)

lemma validate_iff: "validate L c = Inr () \<longleftrightarrow> config_ok L c"
proof -
  have "validate L c = Inr () \<longleftrightarrow>
      unique_ids (map rc_id (cfg_rules c)) \<and> unique_ids (map ac_id (cfg_app_rules c))
      \<and> unique_ids (map sc_id (cfg_schedules c)) \<and> unique_ids (map al_id (cfg_allowances c))
      \<and> sm_grace_seconds (cfg_strict_mode c) \<noteq> 0
      \<and> (\<forall>s\<in>set (cfg_schedules c). identifier_ok (sc_id s) \<and> (\<forall>w\<in>set (sc_windows s). sw_start w \<noteq> sw_end w))
      \<and> (\<forall>a\<in>set (cfg_allowances c). identifier_ok (al_id a))
      \<and> (\<forall>r\<in>set (cfg_rules c). identifier_ok (rc_id r)
           \<and> rule_ok L (sc_id ` set (cfg_schedules c)) (al_id ` set (cfg_allowances c)) r)
      \<and> distinct (filter_map rc_allowance_id (cfg_rules c))
      \<and> (\<forall>r\<in>set (cfg_app_rules c). identifier_ok (ac_id r)
           \<and> app_rule_ok (rc_id ` set (cfg_rules c)) (sc_id ` set (cfg_schedules c))
               (al_id ` set (cfg_allowances c)) r)
      \<and> distinct (filter_map ac_allowance_id (cfg_app_rules c))
      \<and> set (filter_map ac_allowance_id (cfg_app_rules c))
           \<inter> set (filter_map rc_allowance_id (cfg_rules c)) = {}"
    by (auto simp: validate_def Let_def and_then_Inr_iff try_for_Inr_iff validate_rules_iff
        validate_app_rules_iff dom_add_links)
  then show ?thesis
    unfolding config_ok_def linked_allowances_def distinct_append
    by (auto dest: unique_ids_ok)
qed

text \<open>
  \<open>validate_config\<close> accepts a policy exactly when it is valid: identifiers unique and trimmed,
  the strict-mode grace positive, no empty schedule window, every list with a name, entries and
  attachments that exist, allowlists enabled and never Tier 1, allowances on Tier 3 lists only and
  each on one list.
\<close>

lemma validate_config_iff_config_ok: "validate_config L c = Inr () \<longleftrightarrow> config_ok L c"
  by (simp add: validate_config_def validate_iff)

section \<open>Text of times of day\<close>

lemma unat_u8_less: "unat (h :: u8) < 256"
  using unsigned_less [of h, where 'a = nat] by simp

lemma parse_u8_show_pad2: "parse_u8 (show_pad2 (unat h)) = Some h"
  using unat_u8_less [of h] by (simp add: parse_u8_def parse_show_pad2)

lemma parse_u8_bound: "parse_u8 s = Some h \<Longrightarrow> \<exists>n\<le>255. parse_unsigned 255 s = Some n \<and> unat h = n"
  using parse_unsigned_bound [of 255 s]
  by (auto simp: parse_u8_def unsigned_of_nat take_bit_eq_mod)

lemma digit_char_code: "is_ascii_digit c \<Longrightarrow> digit_char (code_point c - 48) = c"
  by (auto simp: is_ascii_digit_def digit_char_def code_point_def Let_def)

lemma code_point_sub_less: "is_ascii_digit c \<Longrightarrow> code_point c - 48 < 10"
  by (auto simp: is_ascii_digit_def Let_def)

lemma show_pad2_two_digits:
  assumes "is_ascii_digit a" "is_ascii_digit b"
  shows "show_pad2 (10 * (code_point a - 48) + (code_point b - 48)) = [a, b]"
proof -
  define x y where "x = code_point a - 48" and "y = code_point b - 48"
  have xy: "x < 10" "y < 10" "digit_char x = a" "digit_char y = b"
    using assms by (simp_all add: x_def y_def digit_char_code code_point_sub_less)
  have zero: "digit_char 0 = CHR ''0''" by code_simp
  show ?thesis
  proof (cases "x = 0")
    case True
    then show ?thesis using xy zero by (auto simp: show_pad2_def show_nat.simps [of y] x_def [symmetric] y_def [symmetric])
  next
    case False
    then have "\<not> 10 * x + y < 10" "(10 * x + y) div 10 = x" "(10 * x + y) mod 10 = y"
      using xy by auto
    then show ?thesis using xy
      by (simp add: show_pad2_def show_nat.simps [of "10 * x + y"] show_nat.simps [of x] x_def [symmetric] y_def [symmetric])
  qed
qed

lemma utf8_len_pos: "utf8_len c = 1 \<or> utf8_len c = 2"
  by (simp add: utf8_len_def)

lemma parse_u8_two:
  assumes "parse_u8 s = Some h" "str_len s = 2" "CHR ''+'' \<notin> set s"
  shows "show_pad2 (unat h) = s"
proof -
  obtain n where n: "parse_unsigned 255 s = Some n" "unat h = n"
    using parse_u8_bound [OF assms(1)] by blast
  have s: "s \<noteq> []" using assms(2) by (auto simp: str_len_def)
  have "digits_value 0 s = Some n"
    using n(1) assms(3) s
    by (cases s) (auto simp: parse_unsigned_def Let_def split: if_splits option.splits)
  moreover from digits_only [OF this] have "str_len s = length s"
    by (intro str_len_ascii) (simp add: digits_ascii)
  then obtain a b where "s = [a, b]" using assms(2)
    by (cases s; cases "tl s") auto
  ultimately show ?thesis using n(2) show_pad2_two_digits [of a b] by (auto split: if_splits)
qed

lemma tod_new_Inr: "tod_new h m = Inr t \<longleftrightarrow> t = TimeOfDay h m \<and> tod_valid t"
  by (auto simp: tod_new_def tod_valid_def not_less)

lemma tod_from_str_Inr:
  "tod_from_str s = Inr t \<longleftrightarrow>
     (\<exists>a b. split_once CHR '':'' s = Some (a, b) \<and> str_len a = 2 \<and> str_len b = 2
        \<and> parse_u8 a = Some (tod_hour t) \<and> parse_u8 b = Some (tod_minute t)) \<and> tod_valid t"
  by (cases t) (auto simp: tod_from_str_def tod_new_Inr split: option.splits prod.splits)

lemma tod_valid_digits: "tod_valid t \<Longrightarrow> unat (tod_hour t) \<le> 23 \<and> unat (tod_minute t) \<le> 59"
  by (simp add: tod_valid_def word_le_nat_alt)

lemma tod_from_to_string:
  assumes "tod_valid t"
  shows "tod_from_str (tod_to_string t) = Inr t"
proof -
  have v: "unat (tod_hour t) < 100" "unat (tod_minute t) < 100"
    using tod_valid_digits [OF assms] by auto
  have "CHR '':'' \<notin> set (show_pad2 n)" for n using show_pad2_digits colon_not_digit by blast
  then show ?thesis using assms
    by (simp add: tod_from_str_Inr tod_to_string_def split_once_first str_len_show_pad2 v parse_u8_show_pad2)
qed

text \<open>
  Times as text: a valid time of day read back from its text is the same time, and a text the
  parser accepts gives a valid time and is the text of that time,
  unless it contains a plus sign: the number parser underneath takes a sign, so \<open>+9:30\<close> is read as
  half past nine although the error message asks for two zero-padded digits.
\<close>

lemma tod_text_roundtrip:
  "(tod_valid t \<longrightarrow> tod_from_str (tod_to_string t) = Inr t)
   \<and> (tod_from_str s = Inr t \<longrightarrow> tod_valid t \<and> (CHR ''+'' \<notin> set s \<longrightarrow> tod_to_string t = s))"
proof (intro conjI impI)
  show "tod_from_str (tod_to_string t) = Inr t" if "tod_valid t" using that by (rule tod_from_to_string)
  assume p: "tod_from_str s = Inr t"
  then obtain a b where ab: "split_once CHR '':'' s = Some (a, b)" "str_len a = 2" "str_len b = 2"
    "parse_u8 a = Some (tod_hour t)" "parse_u8 b = Some (tod_minute t)" and v: "tod_valid t"
    by (auto simp: tod_from_str_Inr)
  then show "tod_valid t" by simp
  assume "CHR ''+'' \<notin> set s"
  moreover have "s = a @ CHR '':'' # b" using split_once_Some [OF ab(1)] by simp
  ultimately show "tod_to_string t = s"
    using parse_u8_two [OF ab(4,2)] parse_u8_two [OF ab(5,3)] by (simp add: tod_to_string_def)
qed

lemma tod_text_roundtrip_witness:
  "tod_from_str (tod_to_string (TimeOfDay 7 5)) = Inr (TimeOfDay 7 5)
   \<and> tod_valid (TimeOfDay 9 30) \<and> tod_to_string (TimeOfDay 9 30) = ''09:30''
   \<and> tod_from_str ''+9:30'' = Inr (TimeOfDay 9 30)"
proof -
  have "tod_valid (TimeOfDay 7 5)" by (simp add: tod_valid_def)
  then have "tod_from_str (tod_to_string (TimeOfDay 7 5)) = Inr (TimeOfDay 7 5)"
    using tod_text_roundtrip [of "TimeOfDay 7 5"] by blast
  moreover have "tod_from_str ''09:30'' = Inr (TimeOfDay 9 30)" by code_simp
  then have "tod_valid (TimeOfDay 9 30) \<and> tod_to_string (TimeOfDay 9 30) = ''09:30''"
    using tod_text_roundtrip [of "TimeOfDay 9 30" "''09:30''"] by simp
  moreover have "tod_from_str ''+9:30'' = Inr (TimeOfDay 9 30)" by code_simp
  ultimately show ?thesis by blast
qed

lemma minutes_after_midnight_unat:
  "unat (minutes_after_midnight t) = unat (tod_hour t) * 60 + unat (tod_minute t)"
proof -
  have b: "unat (tod_hour t) < 256" "unat (tod_minute t) < 256"
    by (rule unat_u8_less)+
  then show ?thesis
    by (simp add: minutes_after_midnight_def unat_word_ariths unsigned_ucast_eq take_bit_eq_mod)
qed

lemma tod_less_minutes:
  assumes "tod_valid t" "tod_valid u"
  shows "t < u \<longleftrightarrow> minutes_after_midnight t < minutes_after_midnight u"
proof -
  have "tod_hour t = tod_hour u \<longleftrightarrow> unat (tod_hour t) = unat (tod_hour u)"
    by (metis unsigned_word_eqI)
  then show ?thesis
    using tod_valid_digits [OF assms(1)] tod_valid_digits [OF assms(2)]
    by (auto simp: minutes_after_midnight_unat less_time_of_day_def word_less_nat_alt)
qed

text \<open>
  The 16-bit minute count of a time of day never wraps, stays below a day, and compares two
  valid times the way the derived order of \<open>TimeOfDay\<close> does, so the two comparisons the code mixes
  (\<open>window.start < window.end\<close> and the minute counts) agree.
\<close>

lemma minutes_after_midnight_exact:
  assumes "tod_valid t" "tod_valid u"
  shows "unat (minutes_after_midnight t) = unat (tod_hour t) * 60 + unat (tod_minute t)
    \<and> unat (minutes_after_midnight t) < 1440
    \<and> (t < u) = (minutes_after_midnight t < minutes_after_midnight u)"
  using tod_valid_digits [OF assms(1)] tod_less_minutes [OF assms]
  by (auto simp: minutes_after_midnight_unat)

lemma minutes_after_midnight_exact_witness:
  "unat (minutes_after_midnight (TimeOfDay 23 59)) = 1439
   \<and> (TimeOfDay 23 59 < TimeOfDay 0 1) = (minutes_after_midnight (TimeOfDay 23 59) < minutes_after_midnight (TimeOfDay 0 1))"
proof -
  have "tod_valid (TimeOfDay 23 59)" "tod_valid (TimeOfDay 0 1)" by (simp_all add: tod_valid_def)
  from minutes_after_midnight_exact [OF this] show ?thesis by simp
qed

section \<open>Older policies\<close>

lemma normalize_legacy_rule_allowlist:
  "rc_mode (normalize_legacy_rule r) = rc_mode r"
  "rc_mode r = Allowlist \<Longrightarrow> rc_enabled (normalize_legacy_rule r) \<and> rc_tier (normalize_legacy_rule r) \<noteq> Hard
     \<and> (rc_tier (normalize_legacy_rule r) = ScheduledBlock \<longrightarrow> rc_allowance_id (normalize_legacy_rule r) = None)"
  by (auto simp: normalize_legacy_rule_def Let_def)

lemma normalize_legacy_rule_idem: "normalize_legacy_rule (normalize_legacy_rule r) = normalize_legacy_rule r"
  by (auto simp: normalize_legacy_rule_def Let_def)

lemma normalize_legacy_rule_ok: "rule_ok L S A r \<Longrightarrow> normalize_legacy_rule r = r"
  by (cases r) (auto simp: normalize_legacy_rule_def rule_ok_def Let_def)

text \<open>
  The repair of an older policy makes every website allowlist enabled, never Tier 1 and without
  an allowance on Tier 2; applying it again changes nothing, and it leaves a valid policy as it is.
\<close>

lemma normalize_legacy_repairs:
  "(\<forall>r\<in>set (cfg_rules (normalize_legacy_website_allowlists c)). rc_mode r = Allowlist \<longrightarrow>
      rc_enabled r \<and> rc_tier r \<noteq> Hard \<and> (rc_tier r = ScheduledBlock \<longrightarrow> rc_allowance_id r = None))
   \<and> normalize_legacy_website_allowlists (normalize_legacy_website_allowlists c)
       = normalize_legacy_website_allowlists c
   \<and> (config_ok L c \<longrightarrow> normalize_legacy_website_allowlists c = c)"
proof -
  have "map normalize_legacy_rule (cfg_rules c) = cfg_rules c" if "config_ok L c"
    using that by (intro map_idI) (auto simp: config_ok_def intro: normalize_legacy_rule_ok)
  then show ?thesis
    using normalize_legacy_rule_allowlist
    by (auto simp: normalize_legacy_website_allowlists_def normalize_legacy_rule_idem)
qed

lemma normalize_legacy_repairs_witness:
  "\<exists>r. cfg_rules (normalize_legacy_website_allowlists (default_config\<lparr>cfg_rules := [r]\<rparr>)) \<noteq> [r]
    \<and> rc_tier (hd (cfg_rules (normalize_legacy_website_allowlists (default_config\<lparr>cfg_rules := [r]\<rparr>)))) \<noteq> Hard"
proof -
  let ?r = "\<lparr>rc_id = ''a'', rc_name = ''A'', rc_tier = Hard, rc_enabled = False, rc_mode = Allowlist,
    rc_patterns = [], rc_schedule_ids = [], rc_allowance_id = Some ''x''\<rparr>"
  have "\<forall>r\<in>set (cfg_rules (normalize_legacy_website_allowlists (default_config\<lparr>cfg_rules := [?r]\<rparr>))).
      rc_mode r = Allowlist \<longrightarrow> rc_enabled r \<and> rc_tier r \<noteq> Hard"
    using normalize_legacy_repairs [of "default_config\<lparr>cfg_rules := [?r]\<rparr>"] by blast
  then show ?thesis
    by (intro exI [of _ ?r]) (simp add: normalize_legacy_website_allowlists_def normalize_legacy_rule_def Let_def)
qed

end
