(* ===== verification/Schedule.thy ===== *)
theory Schedule imports Config begin

text \<open>
  Schedules in time. \<open>schedule_is_active\<close> decides whether a schedule is on at a moment; the other
  routines list the windows that overlap a span of time and add up the union of intervals. Both are
  related here to one set: the instants at which a window covers the local time. The loops of the
  code over civil days and over sorted intervals are \<open>fold_days\<close> and \<open>merge_loop\<close>; the first ends at
  the last day of the calendar, as \<open>succ_opt\<close> makes it.
  (\<^verbatim>\<open>focus-core/src/policy.rs\<close>, \<^verbatim>\<open>focus-core/src/db.rs\<close>)
\<close>

section \<open>Is a schedule active now\<close>

definition current_weekday :: "'u lib \<Rightarrow> datetime \<Rightarrow> weekday" where
  "current_weekday L now = weekday_from (day_weekday L (day_number (local_nanos now)))"

definition current_minute :: "datetime \<Rightarrow> u16" where
  "current_minute now = of_int (local_hour now) * 60 + of_int (local_minute now)"

definition window_is_active :: "weekday \<Rightarrow> u16 \<Rightarrow> schedule_window \<Rightarrow> bool" where
  "window_is_active weekday minute window =
     (let start = minutes_after_midnight (sw_start window);
          end_at = minutes_after_midnight (sw_end window)
      in if start < end_at
         then day_includes (sw_weekday window) weekday \<and> minute \<ge> start \<and> minute < end_at
         else (day_includes (sw_weekday window) weekday \<and> minute \<ge> start)
              \<or> (day_includes (sw_weekday window) (previous weekday) \<and> minute < end_at))"

definition schedule_is_active :: "'u lib \<Rightarrow> schedule_config \<Rightarrow> datetime \<Rightarrow> bool" where
  "schedule_is_active L schedule now =
     list_ex (window_is_active (current_weekday L now) (current_minute now)) (sc_windows schedule)"

text \<open>
  A list is active when one of its schedules is; an attachment to a schedule that does not exist
  counts as active, and with a tampered clock every attachment does.
\<close>

definition schedule_ids_are_active_at ::
  "'u lib \<Rightarrow> string list \<Rightarrow> config \<Rightarrow> datetime \<Rightarrow> bool \<Rightarrow> bool" where
  "schedule_ids_are_active_at L schedule_ids config now clock_tampered =
     (if clock_tampered then schedule_ids \<noteq> []
      else schedule_ids \<noteq> [] \<and>
        list_ex (\<lambda>schedule_id.
          case find (\<lambda>schedule. sc_id schedule = schedule_id) (cfg_schedules config) of
            None \<Rightarrow> True
          | Some schedule \<Rightarrow> schedule_is_active L schedule now) schedule_ids)"

section \<open>Days and intervals\<close>

type_synonym interval = "instant \<times> instant"

definition succ_opt :: "'u lib \<Rightarrow> int \<Rightarrow> int option" where
  "succ_opt L d = (if d < last_day L then Some (d + 1) else None)"

definition pred_opt :: "'u lib \<Rightarrow> int \<Rightarrow> int option" where
  "pred_opt L d = (if first_day L < d then Some (d - 1) else None)"

text \<open>\<open>with_ymd_and_hms\<close> of a civil day and a time of day, at a fixed offset in seconds.\<close>

definition local_instant :: "int \<Rightarrow> int \<Rightarrow> time_of_day \<Rightarrow> instant" where
  "local_instant off day t =
     day * nanos_per_day + (int (unat (tod_hour t)) * 60 + int (unat (tod_minute t))) * nanos_per_minute
     - off * nanos_per_second"

text \<open>
  The part of one window of one day that lies in a span. A window that does not end after it
  started ends the next day, which panics on the last day of the calendar.
\<close>

definition window_overlap ::
  "'u lib \<Rightarrow> int \<Rightarrow> instant \<Rightarrow> instant \<Rightarrow> int \<Rightarrow> schedule_window \<Rightarrow> error + interval list" where
  "window_overlap L off start end_at date window =
     (if \<not> day_includes (sw_weekday window) (weekday_from (day_weekday L date)) then Inr []
      else and_then
        (if sw_start window < sw_end window then Inr date
         else (case succ_opt L date of
                 Some d \<Rightarrow> Inr d
               | None \<Rightarrow> Inl (Panicked ''schedule dates remain representable'')))
        (\<lambda>window_end_date.
          let overlap_start = max (local_instant off date (sw_start window)) start;
              overlap_end = min (local_instant off window_end_date (sw_end window)) end_at
          in if overlap_end > overlap_start then Inr [(overlap_start, overlap_end)] else Inr []))"

lemma and_then_cong [fundef_cong]:
  "r = r' \<Longrightarrow> (\<And>x. r' = Inr x \<Longrightarrow> f x = g x) \<Longrightarrow> and_then r f = and_then r' g"
  by (cases r') auto

text \<open>The loop \<open>while date <= final_date\<close> of both metering routines.\<close>

function fold_days ::
  "'u lib \<Rightarrow> (int \<Rightarrow> 's \<Rightarrow> error + 's) \<Rightarrow> int \<Rightarrow> int \<Rightarrow> 's \<Rightarrow> error + 's" where
  "fold_days L f final_date date s =
     (if date \<le> final_date
      then and_then (f date s) (\<lambda>s'.
        case succ_opt L date of
          None \<Rightarrow> Inr s'
        | Some next_date \<Rightarrow> fold_days L f final_date next_date s')
      else Inr s)"
  by pat_completeness auto
termination
  by (relation "measure (\<lambda>(L, f, final_date, date, s). nat (final_date + 1 - date))")
     (auto simp: succ_opt_def split: if_splits)

declare fold_days.simps [simp del]

text \<open>
  The sum of a list of intervals sorted by their starts, touching and overlapping intervals taken
  together: the second argument is the total so far, the third the interval being extended.
\<close>

fun merge_loop :: "interval list \<Rightarrow> int \<Rightarrow> interval option \<Rightarrow> int" where
  "merge_loop [] tot None = tot"
| "merge_loop [] tot (Some (active_start, active_end)) =
     saturating_add_i64 tot (num_seconds (active_end - active_start))"
| "merge_loop ((s, e) # rest) tot (Some (active_start, active_end)) =
     (if s \<le> active_end then merge_loop rest tot (Some (active_start, max active_end e))
      else merge_loop rest
             (saturating_add_i64 tot (num_seconds (active_end - active_start))) (Some (s, e)))"
| "merge_loop ((s, e) # rest) tot None = merge_loop rest tot (Some (s, e))"

definition merge_seconds :: "interval list \<Rightarrow> int \<Rightarrow> int" where
  "merge_seconds intervals tot = merge_loop (sort_key fst intervals) tot None"

text \<open>
  The body of \<open>rule_active_seconds_between\<close>, once the Detox intervals of the list are read: the
  windows of the attached schedules on every day from the one before the start to the last, all
  merged together.
\<close>

definition attached_schedules :: "config \<Rightarrow> string list \<Rightarrow> schedule_config list" where
  "attached_schedules config ids = filter (\<lambda>s. sc_id s \<in> set ids) (cfg_schedules config)"

definition day_overlaps ::
  "'u lib \<Rightarrow> schedule_config list \<Rightarrow> int \<Rightarrow> instant \<Rightarrow> instant \<Rightarrow> int \<Rightarrow> error + interval list" where
  "day_overlaps L schedules off start end_at date =
     and_then (try_map (window_overlap L off start end_at date) (concat (map sc_windows schedules)))
       (\<lambda>found. Inr (concat found))"

definition first_date :: "'u lib \<Rightarrow> instant \<Rightarrow> int \<Rightarrow> int" where
  "first_date L start off =
     (let day = day_number (start + off * nanos_per_second)
      in case pred_opt L day of Some d \<Rightarrow> d | None \<Rightarrow> day)"

definition active_seconds_between ::
  "'u lib \<Rightarrow> schedule_config list \<Rightarrow> interval list \<Rightarrow> instant \<Rightarrow> instant \<Rightarrow> int \<Rightarrow> error + int" where
  "active_seconds_between L schedules detox_intervals start end_at off =
     (let final_date = day_number (end_at + off * nanos_per_second) in
      and_then
        (fold_days L (\<lambda>date intervals.
           and_then (day_overlaps L schedules off start end_at date) (\<lambda>found. Inr (intervals @ found)))
           final_date (first_date L start off) detox_intervals)
        (\<lambda>intervals. Inr (merge_seconds intervals 0)))"

text \<open>
  The statistics routine \<open>schedule_active_seconds_between\<close> of \<^verbatim>\<open>db.rs\<close>: the same windows of one
  schedule, but merged day by day.
\<close>

definition schedule_active_seconds_between ::
  "'u lib \<Rightarrow> schedule_config \<Rightarrow> datetime \<Rightarrow> datetime \<Rightarrow> error + int" where
  "schedule_active_seconds_between L schedule start end_at =
     (if dt_utc end_at \<le> dt_utc start then Inr 0
      else fold_days L (\<lambda>date tot.
        and_then (day_overlaps L [schedule] (dt_offset start) (dt_utc start) (dt_utc end_at) date)
          (\<lambda>intervals. Inr (merge_seconds intervals tot)))
        (day_number (local_nanos end_at)) (first_date L (dt_utc start) (dt_offset start)) 0)"

section \<open>The instants a schedule covers\<close>

text \<open>What the code relies on of the calendar: each day's weekday follows the previous day's.\<close>

definition calendar_ok :: "'u lib \<Rightarrow> bool" where
  "calendar_ok L \<longleftrightarrow>
     (\<forall>d. weekday_from (day_weekday L (d - 1)) = previous (weekday_from (day_weekday L d)))"

definition window_end :: "int \<Rightarrow> int \<Rightarrow> schedule_window \<Rightarrow> instant" where
  "window_end off d w = local_instant off (if sw_start w < sw_end w then d else d + 1) (sw_end w)"

definition window_covers :: "'u lib \<Rightarrow> int \<Rightarrow> schedule_window \<Rightarrow> instant \<Rightarrow> bool" where
  "window_covers L off w t \<longleftrightarrow>
     (\<exists>d. day_includes (sw_weekday w) (weekday_from (day_weekday L d))
        \<and> local_instant off d (sw_start w) \<le> t \<and> t < window_end off d w)"

definition schedule_valid :: "schedule_config \<Rightarrow> bool" where
  "schedule_valid s \<longleftrightarrow> (\<forall>w\<in>set (sc_windows s). tod_valid (sw_start w) \<and> tod_valid (sw_end w))"

definition at_offset :: "int \<Rightarrow> instant \<Rightarrow> datetime" where
  "at_offset off t = \<lparr>dt_utc = t, dt_offset = off\<rparr>"

lemma at_offset_simps [simp]: "dt_utc (at_offset off t) = t" "dt_offset (at_offset off t) = off"
  by (simp_all add: at_offset_def)

definition tod_minutes :: "time_of_day \<Rightarrow> int" where
  "tod_minutes t = int (unat (minutes_after_midnight t))"

lemma tod_minutes_bounds:
  assumes "tod_valid t"
  shows "0 \<le> tod_minutes t \<and> tod_minutes t \<le> 1439"
proof -
  have "unat (minutes_after_midnight t) \<le> 1439"
    using tod_valid_digits [OF assms] by (simp add: minutes_after_midnight_unat)
  then show ?thesis unfolding tod_minutes_def by linarith
qed

lemma local_instant_minutes:
  "local_instant off d t = d * nanos_per_day + tod_minutes t * nanos_per_minute - off * nanos_per_second"
  by (simp add: local_instant_def tod_minutes_def minutes_after_midnight_unat)

text \<open>The minute of the day, as an integer and as the 16-bit count of the code.\<close>

definition minute_of_day :: "int \<Rightarrow> int" where
  "minute_of_day ns = (ns mod nanos_per_day) div nanos_per_minute"

lemma minute_of_day_bounds: "0 \<le> minute_of_day ns" "minute_of_day ns < 1440"
  by (simp_all add: minute_of_day_def nanos_defs)

lemma current_minute_value: "int (unat (current_minute now)) = minute_of_day (local_nanos now)"
proof -
  let ?m = "minute_of_day (local_nanos now)"
  have h: "local_hour now = ?m div 60" and m: "local_minute now = ?m mod 60"
    by (simp_all add: local_hour_def local_minute_def minute_of_day_def nanos_per_minute_def zdiv_zmult2_eq)
  have "current_minute now = of_int (?m div 60 * 60 + ?m mod 60)"
    by (simp only: current_minute_def h m of_int_add of_int_mult of_int_numeral)
  also have "?m div 60 * 60 + ?m mod 60 = ?m" by simp
  finally show ?thesis using minute_of_day_bounds [of "local_nanos now"]
    by (simp add: unsigned_of_int take_bit_eq_mod)
qed

lemma local_nanos_split:
  "local_nanos now = day_number (local_nanos now) * nanos_per_day + local_nanos now mod nanos_per_day"
  by (simp add: day_number_def)

text \<open>A moment is after a time of its own day exactly when its minute count is.\<close>

lemma after_same_day:
  "d * nanos_per_day + m * nanos_per_minute \<le> ns \<longleftrightarrow> m \<le> minute_of_day ns"
  if "d = day_number ns" "0 \<le> m" "m \<le> 1439"
proof -
  have ns: "ns = d * nanos_per_day + ns mod nanos_per_day" using that by (simp add: day_number_def)
  have "d * nanos_per_day + m * nanos_per_minute \<le> ns \<longleftrightarrow> m * nanos_per_minute \<le> ns mod nanos_per_day"
    by (subst ns) simp
  also have "\<dots> \<longleftrightarrow> m \<le> minute_of_day ns"
    unfolding minute_of_day_def nanos_per_minute_def by linarith
  finally show ?thesis .
qed

lemma day_number_bounds:
  "day_number ns * nanos_per_day \<le> ns" "ns < day_number ns * nanos_per_day + nanos_per_day"
  unfolding day_number_def nanos_per_day_def by linarith+

text \<open>A window of day \<open>d\<close> covers a moment only if the moment lies on that day or the next.\<close>

lemma window_covers_day:
  assumes v: "tod_valid (sw_start w)" "tod_valid (sw_end w)"
  shows "local_instant off d (sw_start w) \<le> t \<and> t < window_end off d w \<longleftrightarrow>
     (let ns = t + off * nanos_per_second; m = minute_of_day ns;
          s = tod_minutes (sw_start w); e = tod_minutes (sw_end w)
      in if s < e then d = day_number ns \<and> s \<le> m \<and> m < e
         else (d = day_number ns \<and> s \<le> m) \<or> (d = day_number ns - 1 \<and> m < e))"
proof -
  define ns where "ns = t + off * nanos_per_second"
  define k where "k = day_number ns"
  define s where "s = tod_minutes (sw_start w)"
  define e where "e = tod_minutes (sw_end w)"
  have b: "0 \<le> s" "s \<le> 1439" "0 \<le> e" "e \<le> 1439"
    using tod_minutes_bounds v by (auto simp: s_def e_def)
  have k: "k * nanos_per_day \<le> ns" "ns < k * nanos_per_day + nanos_per_day"
    using day_number_bounds by (auto simp: k_def)
  have order: "sw_start w < sw_end w \<longleftrightarrow> s < e"
    using tod_less_minutes [OF v] by (simp add: s_def e_def tod_minutes_def word_less_def)
  have lo: "local_instant off d (sw_start w) \<le> t \<longleftrightarrow> d * nanos_per_day + s * nanos_per_minute \<le> ns"
    unfolding local_instant_minutes ns_def s_def by linarith
  have hi: "t < window_end off d w \<longleftrightarrow>
      \<not> (if s < e then d else d + 1) * nanos_per_day + e * nanos_per_minute \<le> ns"
    unfolding window_end_def local_instant_minutes ns_def order e_def by (auto simp: not_le algebra_simps)
  have start: "k * nanos_per_day + s * nanos_per_minute \<le> ns \<longleftrightarrow> s \<le> minute_of_day ns"
    and stop: "k * nanos_per_day + e * nanos_per_minute \<le> ns \<longleftrightarrow> e \<le> minute_of_day ns"
    using after_same_day k_def b by auto
  consider "d < k - 1" | "d = k - 1" | "d = k" | "k < d" by linarith
  then have "d * nanos_per_day + s * nanos_per_minute \<le> ns
      \<and> \<not> (if s < e then d else d + 1) * nanos_per_day + e * nanos_per_minute \<le> ns \<longleftrightarrow>
      (if s < e then d = k \<and> s \<le> minute_of_day ns \<and> minute_of_day ns < e
       else (d = k \<and> s \<le> minute_of_day ns) \<or> (d = k - 1 \<and> minute_of_day ns < e))"
  proof cases
    case 1
    then show ?thesis using k b by (simp add: nanos_defs)
  next
    case 2
    then show ?thesis using k b stop by (simp add: nanos_defs) linarith
  next
    case 3
    then show ?thesis using k b start stop by (auto simp: nanos_defs)
  next
    case 4
    then show ?thesis using k b by (simp add: nanos_defs)
  qed
  then show ?thesis unfolding lo hi Let_def ns_def [symmetric] k_def [symmetric] s_def [symmetric] e_def [symmetric] .
qed

lemma window_is_active_iff_covers:
  assumes cal: "calendar_ok L" and v: "tod_valid (sw_start w)" "tod_valid (sw_end w)"
  shows "window_is_active (current_weekday L now) (current_minute now) w \<longleftrightarrow>
     window_covers L (dt_offset now) w (dt_utc now)"
proof -
  define ns where "ns = local_nanos now"
  have ns: "dt_utc now + dt_offset now * nanos_per_second = ns" by (simp add: ns_def local_nanos_def)
  have prev: "previous (current_weekday L now) = weekday_from (day_weekday L (day_number ns - 1))"
    using cal by (simp add: calendar_ok_def current_weekday_def ns_def)
  have cmp: "minutes_after_midnight a \<le> current_minute now \<longleftrightarrow> tod_minutes a \<le> minute_of_day ns"
    "current_minute now < minutes_after_midnight a \<longleftrightarrow> minute_of_day ns < tod_minutes a"
    "minutes_after_midnight a < minutes_after_midnight b \<longleftrightarrow> tod_minutes a < tod_minutes b" for a b
    using current_minute_value [of now]
    by (simp_all add: tod_minutes_def ns_def word_le_def word_less_def)
  show ?thesis
    unfolding window_covers_def window_covers_day [OF v] ns Let_def window_is_active_def cmp prev
    by (auto simp: current_weekday_def ns_def)
qed

definition schedule_covers :: "'u lib \<Rightarrow> int \<Rightarrow> schedule_config \<Rightarrow> instant \<Rightarrow> bool" where
  "schedule_covers L off s t \<longleftrightarrow> (\<exists>w\<in>set (sc_windows s). window_covers L off w t)"

lemma schedule_active_covers:
  assumes "calendar_ok L" "schedule_valid s"
  shows "schedule_is_active L s now \<longleftrightarrow> schedule_covers L (dt_offset now) s (dt_utc now)"
  using window_is_active_iff_covers [OF assms(1)] assms(2)
  unfolding schedule_is_active_def schedule_covers_def schedule_valid_def list_ex_iff by blast

end
