(* ===== verification/Metering.thy ===== *)
theory Metering imports Schedule begin

text \<open>
  What the metering loops of \<^verbatim>\<open>Schedule\<close> compute. The merge of sorted intervals is specified by the
  set of instants the intervals cover: the merged blocks are disjoint and cover the same set, so the
  seconds reported are the measure of the union and nothing is counted twice. The day loop collects
  the windows of all days that can reach into the span, so the covered set is exactly the set of
  instants at which a schedule is active or a Detox interval runs.
\<close>

section \<open>Merging\<close>

definition covered :: "interval list \<Rightarrow> instant set" where
  "covered ivs = (\<Union>(s, e)\<in>set ivs. {s..<e})"

lemma covered_simps [simp]:
  "covered [] = {}" "covered ((s, e) # ivs) = {s..<e} \<union> covered ivs"
  "covered (xs @ ys) = covered xs \<union> covered ys"
  by (auto simp: covered_def)

lemma covered_iff: "t \<in> covered ivs \<longleftrightarrow> (\<exists>(s, e)\<in>set ivs. s \<le> t \<and> t < e)"
  by (fastforce simp: covered_def)

lemma finite_covered [simp]: "finite (covered ivs)"
  by (auto simp: covered_def)

text \<open>The blocks the loop adds up.\<close>

fun merged :: "interval list \<Rightarrow> interval option \<Rightarrow> interval list" where
  "merged [] None = []"
| "merged [] (Some b) = [b]"
| "merged ((s, e) # rest) (Some (bs, be)) =
     (if s \<le> be then merged rest (Some (bs, max be e)) else (bs, be) # merged rest (Some (s, e)))"
| "merged ((s, e) # rest) None = merged rest (Some (s, e))"

definition add_block :: "interval \<Rightarrow> int \<Rightarrow> int" where
  "add_block b tot = saturating_add_i64 tot (num_seconds (snd b - fst b))"

lemma merge_loop_merged: "merge_loop ivs tot b = fold add_block (merged ivs b) tot"
  by (induction ivs tot b rule: merge_loop.induct) (auto simp: add_block_def)

definition block_seconds :: "interval list \<Rightarrow> int" where
  "block_seconds bs = (\<Sum>(s, e)\<leftarrow>bs. num_seconds (e - s))"

definition proper :: "interval list \<Rightarrow> bool" where
  "proper ivs \<longleftrightarrow> (\<forall>(s, e)\<in>set ivs. s \<le> e)"

lemma proper_simps [simp]:
  "proper []" "proper ((s, e) # ivs) \<longleftrightarrow> s \<le> e \<and> proper ivs"
  "proper (xs @ ys) \<longleftrightarrow> proper xs \<and> proper ys"
  by (auto simp: proper_def)

lemma block_seconds_simps [simp]:
  "block_seconds [] = 0" "block_seconds ((s, e) # bs) = num_seconds (e - s) + block_seconds bs"
  by (simp_all add: block_seconds_def)

lemma block_seconds_nonneg: "proper bs \<Longrightarrow> 0 \<le> block_seconds bs"
  by (induction bs) (auto simp: num_seconds_bounds)

lemma fold_add_block:
  assumes "proper bs" "0 \<le> tot" "tot \<le> i64_max"
  shows "fold add_block bs tot = min i64_max (tot + block_seconds bs)"
  using assms
proof (induction bs arbitrary: tot)
  case (Cons b bs)
  obtain s e where b: "b = (s, e)" by (cases b)
  have n: "0 \<le> num_seconds (e - s)" using Cons.prems b by (simp add: num_seconds_bounds)
  have step: "add_block b tot = min i64_max (tot + num_seconds (e - s))"
    using Cons.prems n by (simp add: add_block_def b saturating_add_i64_def i64_min_def i64_max_def)
  have "0 \<le> add_block b tot" "add_block b tot \<le> i64_max"
    using step Cons.prems n by (auto simp: i64_max_def)
  then show ?case
    using Cons.IH [of "add_block b tot"] Cons.prems step block_seconds_nonneg [of bs]
    by (auto simp: b min_def)
qed simp

text \<open>Blocks kept apart: each ends before the next one starts.\<close>

fun apart :: "interval list \<Rightarrow> bool" where
  "apart [] = True"
| "apart ((s, e) # bs) = (s \<le> e \<and> (\<forall>b\<in>set bs. e < fst b) \<and> apart bs)"

definition block_of :: "interval option \<Rightarrow> interval list" where
  "block_of b = (case b of None \<Rightarrow> [] | Some x \<Rightarrow> [x])"

lemma merged_starts:
  assumes "sorted (map fst ivs)" "\<forall>b\<in>set ivs. lo \<le> fst b" "\<forall>x\<in>set_option act. lo \<le> fst x"
  shows "\<forall>b\<in>set (merged ivs act). lo \<le> fst b"
  using assms by (induction ivs act rule: merged.induct) auto

lemma merged_spec:
  assumes "sorted (map fst ivs)" "proper ivs"
    "\<forall>x\<in>set_option act. fst x \<le> snd x \<and> (\<forall>b\<in>set ivs. fst x \<le> fst b)"
  shows "apart (merged ivs act) \<and> covered (merged ivs act) = covered (block_of act @ ivs)"
  using assms
proof (induction ivs act rule: merged.induct)
  case (3 s e rest bs be)
  show ?case
  proof (cases "s \<le> be")
    case True
    then have "{bs..<max be e} = {bs..<be} \<union> {s..<e}" using 3(3-) by auto
    then show ?thesis using 3(1) 3(3-) True by (auto simp: block_of_def)
  next
    case False
    have starts: "\<forall>b\<in>set (merged rest (Some (s, e))). s \<le> fst b"
      using 3(3-) by (intro merged_starts) auto
    have "apart (merged rest (Some (s, e)))
        \<and> covered (merged rest (Some (s, e))) = covered (block_of (Some (s, e)) @ rest)"
      using 3(2) [OF False] 3(3-) by auto
    then show ?thesis using False starts 3(3-) by (auto simp: block_of_def)
  qed
qed (auto simp: block_of_def)

lemma apart_proper: "apart bs \<Longrightarrow> proper bs"
  by (induction bs rule: apart.induct) auto

definition span_sum :: "interval list \<Rightarrow> int" where
  "span_sum bs = (\<Sum>(s, e)\<leftarrow>bs. e - s)"

lemma span_sum_simps [simp]:
  "span_sum [] = 0" "span_sum ((s, e) # bs) = e - s + span_sum bs"
  by (simp_all add: span_sum_def)

lemma apart_card: "apart bs \<Longrightarrow> int (card (covered bs)) = span_sum bs"
proof (induction bs rule: apart.induct)
  case (2 s e bs)
  have "\<forall>t\<in>covered bs. e \<le> t" using 2 by (fastforce simp: covered_iff)
  then have "{s..<e} \<inter> covered bs = {}" by auto
  then have "card ({s..<e} \<union> covered bs) = card {s..<e} + card (covered bs)"
    by (simp add: card_Un_disjoint)
  then show ?case using 2 by simp
qed simp

lemma block_seconds_measure:
  "proper bs \<Longrightarrow> block_seconds bs * nanos_per_second \<le> span_sum bs
     \<and> span_sum bs \<le> block_seconds bs * nanos_per_second + int (length bs) * (nanos_per_second - 1)"
proof (induction bs)
  case (Cons b bs)
  obtain s e where b: "b = (s, e)" by (cases b)
  from num_seconds_bounds [of "e - s"] Cons show ?case
    by (auto simp: b algebra_simps)
qed simp

lemma length_merged: "length (merged ivs act) \<le> length ivs + length (block_of act)"
  by (induction ivs act rule: merged.induct) (auto simp: block_of_def)

text \<open>The blocks of a list of intervals, sorted first as the code does.\<close>

definition blocks :: "interval list \<Rightarrow> interval list" where
  "blocks ivs = merged (sort_key fst ivs) None"

lemma covered_sort_key: "covered (sort_key fst ivs) = covered ivs"
  by (simp add: covered_def)

lemma proper_sort_key: "proper (sort_key fst ivs) = proper ivs"
  by (simp add: proper_def)

lemma blocks_spec:
  assumes "proper ivs"
  shows "apart (blocks ivs)" "covered (blocks ivs) = covered ivs" "length (blocks ivs) \<le> length ivs"
  using merged_spec [of "sort_key fst ivs" None] length_merged [of "sort_key fst ivs" None] assms
  by (simp_all add: blocks_def block_of_def covered_sort_key proper_sort_key)

lemma merge_seconds_blocks:
  assumes "proper ivs" "0 \<le> tot" "tot \<le> i64_max"
  shows "merge_seconds ivs tot = min i64_max (tot + block_seconds (blocks ivs))"
  using fold_add_block [OF apart_proper [OF blocks_spec(1) [OF assms(1)]] assms(2,3)]
  by (simp add: merge_seconds_def merge_loop_merged blocks_def)

lemma merge_seconds_range:
  assumes "proper ivs" "0 \<le> tot" "tot \<le> i64_max"
  shows "0 \<le> merge_seconds ivs tot" "merge_seconds ivs tot \<le> i64_max"
  using merge_seconds_blocks [OF assms] block_seconds_nonneg [OF apart_proper [OF blocks_spec(1) [OF assms(1)]]]
    assms by (auto simp: i64_max_def)

lemma block_seconds_covered:
  assumes "proper ivs"
  shows "block_seconds (blocks ivs) * nanos_per_second \<le> int (card (covered ivs))"
    "int (card (covered ivs)) \<le> block_seconds (blocks ivs) * nanos_per_second
       + int (length ivs) * (nanos_per_second - 1)"
proof -
  note spec = blocks_spec [OF assms]
  have eq: "int (card (covered ivs)) = span_sum (blocks ivs)"
    using apart_card [OF spec(1)] spec(2) by simp
  have m: "block_seconds (blocks ivs) * nanos_per_second \<le> span_sum (blocks ivs)
     \<and> span_sum (blocks ivs) \<le> block_seconds (blocks ivs) * nanos_per_second
         + int (length (blocks ivs)) * (nanos_per_second - 1)"
    by (rule block_seconds_measure [OF apart_proper [OF spec(1)]])
  have "int (length (blocks ivs)) * (nanos_per_second - 1) \<le> int (length ivs) * (nanos_per_second - 1)"
    using spec(3) by (intro mult_right_mono) (auto simp: nanos_per_second_def)
  then show "block_seconds (blocks ivs) * nanos_per_second \<le> int (card (covered ivs))"
    "int (card (covered ivs)) \<le> block_seconds (blocks ivs) * nanos_per_second
       + int (length ivs) * (nanos_per_second - 1)"
    using m eq by linarith+
qed

text \<open>
  The seconds the merge loop reports are the measure of the union of the intervals: overlapping and
  repeated intervals are counted once, the sum never exceeds the union, and it falls short of it by
  less than a second for each interval (the truncation of \<open>num_seconds\<close>), unless it saturates.
\<close>

lemma merge_seconds_measure:
  assumes "proper ivs"
  shows "0 \<le> merge_seconds ivs 0" "merge_seconds ivs 0 * nanos_per_second \<le> int (card (covered ivs))"
    "merge_seconds ivs 0 < i64_max \<Longrightarrow>
        int (card (covered ivs)) \<le> merge_seconds ivs 0 * nanos_per_second
          + int (length ivs) * (nanos_per_second - 1)"
proof -
  have m: "merge_seconds ivs 0 = min i64_max (block_seconds (blocks ivs))"
    using merge_seconds_blocks [OF assms, of 0] by (simp add: i64_max_def)
  have le: "merge_seconds ivs 0 * nanos_per_second \<le> block_seconds (blocks ivs) * nanos_per_second"
    using m by (intro mult_right_mono) (auto simp: nanos_per_second_def)
  show "0 \<le> merge_seconds ivs 0" using merge_seconds_range(1) [OF assms, of 0] by (simp add: i64_max_def)
  show "merge_seconds ivs 0 * nanos_per_second \<le> int (card (covered ivs))"
    using block_seconds_covered(1) [OF assms] le by linarith
  show "int (card (covered ivs)) \<le> merge_seconds ivs 0 * nanos_per_second
          + int (length ivs) * (nanos_per_second - 1)" if "merge_seconds ivs 0 < i64_max"
    using block_seconds_covered(2) [OF assms] m that by auto
qed

section \<open>The day loop\<close>

lemma fold_days_total:
  assumes "final_date \<le> last_day L"
    "\<And>d s. date \<le> d \<Longrightarrow> d \<le> final_date \<Longrightarrow> f d s = Inr (g d s)"
  shows "fold_days L f final_date date s = Inr (fold g [date..final_date] s)"
  using assms
proof (induction L f final_date date s rule: fold_days.induct)
  case (1 L f final_date date s)
  show ?case
  proof (cases "date \<le> final_date")
    case True
    then have step: "f date s = Inr (g date s)" using 1 by simp
    show ?thesis
    proof (cases "date < last_day L")
      case lt: True
      then have "fold_days L f final_date (date + 1) (g date s)
          = Inr (fold g [date + 1..final_date] (g date s))"
        using 1(1) [OF True, of "g date s" "date + 1"] 1(2,3) step by (simp add: succ_opt_def)
      then show ?thesis using True step lt
        by (simp add: fold_days.simps [of L f final_date date] succ_opt_def upto_rec1)
    next
      case False
      then have "date = final_date" using True 1(2) by simp
      then show ?thesis using step False fold_days.simps [of L f final_date final_date s]
        by (simp add: succ_opt_def)
    qed
  next
    case False
    then show ?thesis by (simp add: fold_days.simps [of L f final_date date])
  qed
qed

text \<open>The part of a window of a day in a span, when the calendar goes on.\<close>

definition window_part ::
  "'u lib \<Rightarrow> int \<Rightarrow> instant \<Rightarrow> instant \<Rightarrow> int \<Rightarrow> schedule_window \<Rightarrow> interval list" where
  "window_part L off start stop d w =
     (let a = max (local_instant off d (sw_start w)) start; b = min (window_end off d w) stop
      in if day_includes (sw_weekday w) (weekday_from (day_weekday L d)) \<and> a < b then [(a, b)] else [])"

lemma window_overlap_part:
  "d < last_day L \<Longrightarrow> window_overlap L off start stop d w = Inr (window_part L off start stop d w)"
  by (auto simp: window_overlap_def window_part_def window_end_def succ_opt_def Let_def)

definition day_part ::
  "'u lib \<Rightarrow> schedule_config list \<Rightarrow> int \<Rightarrow> instant \<Rightarrow> instant \<Rightarrow> int \<Rightarrow> interval list" where
  "day_part L schedules off start stop d =
     concat (map (window_part L off start stop d) (concat (map sc_windows schedules)))"

lemma day_overlaps_part:
  "d < last_day L \<Longrightarrow> day_overlaps L schedules off start stop d = Inr (day_part L schedules off start stop d)"
  unfolding day_overlaps_def day_part_def
  by (subst try_map_total [where g = "window_part L off start stop d"]) (auto simp: window_overlap_part)

lemma proper_concat: "(\<And>x. x \<in> set xs \<Longrightarrow> proper (f x)) \<Longrightarrow> proper (concat (map f xs))"
  by (fastforce simp: proper_def)

lemma proper_window_part: "proper (window_part L off start stop d w)"
  by (auto simp: window_part_def Let_def)

lemma proper_day_part: "proper (day_part L schedules off start stop d)"
  unfolding day_part_def by (intro proper_concat proper_window_part)

lemma covered_concat: "covered (concat (map f xs)) = (\<Union>x\<in>set xs. covered (f x))"
  by (induction xs) auto

lemma covered_window_part:
  "t \<in> covered (window_part L off start stop d w) \<longleftrightarrow>
     start \<le> t \<and> t < stop \<and> day_includes (sw_weekday w) (weekday_from (day_weekday L d))
     \<and> local_instant off d (sw_start w) \<le> t \<and> t < window_end off d w"
  by (auto simp: window_part_def Let_def)

lemma fold_append_map: "fold (\<lambda>d acc. acc @ f d) ds acc = acc @ concat (map f ds)"
  by (induction ds arbitrary: acc) auto

text \<open>Only the days from the one before the span's first to its last can reach into the span.\<close>

lemma covered_days:
  assumes v: "\<forall>s\<in>set schedules. schedule_valid s"
    and first: "first_date L start off = day_number (start + off * nanos_per_second) - 1"
  shows "t \<in> covered (concat (map (day_part L schedules off start stop)
            [first_date L start off..day_number (stop + off * nanos_per_second)]))
     \<longleftrightarrow> start \<le> t \<and> t < stop \<and> (\<exists>s\<in>set schedules. schedule_covers L off s t)"
proof
  assume "t \<in> covered (concat (map (day_part L schedules off start stop)
            [first_date L start off..day_number (stop + off * nanos_per_second)]))"
  then obtain d s w where "s \<in> set schedules" "w \<in> set (sc_windows s)"
    "t \<in> covered (window_part L off start stop d w)"
    by (auto simp: day_part_def covered_concat)
  then show "start \<le> t \<and> t < stop \<and> (\<exists>s\<in>set schedules. schedule_covers L off s t)"
    by (auto simp: covered_window_part schedule_covers_def window_covers_def)
next
  assume t: "start \<le> t \<and> t < stop \<and> (\<exists>s\<in>set schedules. schedule_covers L off s t)"
  then obtain s w d where s: "s \<in> set schedules" "w \<in> set (sc_windows s)"
    and d: "day_includes (sw_weekday w) (weekday_from (day_weekday L d))"
      "local_instant off d (sw_start w) \<le> t \<and> t < window_end off d w"
    by (auto simp: schedule_covers_def window_covers_def)
  have "tod_valid (sw_start w)" "tod_valid (sw_end w)"
    using v s by (auto simp: schedule_valid_def)
  from window_covers_day [OF this, of off d t] d(2)
  have "d = day_number (t + off * nanos_per_second) \<or> d = day_number (t + off * nanos_per_second) - 1"
    by (auto simp: Let_def split: if_splits)
  moreover have "day_number (start + off * nanos_per_second) \<le> day_number (t + off * nanos_per_second)"
    "day_number (t + off * nanos_per_second) \<le> day_number (stop + off * nanos_per_second)"
    using t by (auto simp: day_number_def nanos_per_day_def intro!: zdiv_mono1)
  ultimately have "d \<in> set [first_date L start off..day_number (stop + off * nanos_per_second)]"
    by (auto simp: first)
  then show "t \<in> covered (concat (map (day_part L schedules off start stop)
            [first_date L start off..day_number (stop + off * nanos_per_second)]))"
    using s d t by (force simp: covered_concat day_part_def covered_window_part)
qed

text \<open>A span lies inside the calendar, with a day to spare at both ends.\<close>

definition in_calendar :: "'u lib \<Rightarrow> int \<Rightarrow> instant \<Rightarrow> instant \<Rightarrow> bool" where
  "in_calendar L off start stop \<longleftrightarrow>
     first_day L < day_number (start + off * nanos_per_second)
     \<and> day_number (stop + off * nanos_per_second) < last_day L"

lemma first_date_in_calendar:
  "in_calendar L off start stop \<Longrightarrow> first_date L start off = day_number (start + off * nanos_per_second) - 1"
  by (simp add: first_date_def pred_opt_def in_calendar_def Let_def)

definition collected_intervals ::
  "'u lib \<Rightarrow> schedule_config list \<Rightarrow> interval list \<Rightarrow> instant \<Rightarrow> instant \<Rightarrow> int \<Rightarrow> interval list" where
  "collected_intervals L schedules detox start stop off =
     detox @ concat (map (day_part L schedules off start stop)
       [first_date L start off..day_number (stop + off * nanos_per_second)])"

lemma active_seconds_between_merge:
  assumes "in_calendar L off start stop"
  shows "active_seconds_between L schedules detox start stop off
     = Inr (merge_seconds (collected_intervals L schedules detox start stop off) 0)"
proof -
  let ?f = "\<lambda>date intervals. and_then (day_overlaps L schedules off start stop date) (\<lambda>found. Inr (intervals @ found))"
  have "fold_days L ?f (day_number (stop + off * nanos_per_second)) (first_date L start off) detox
      = Inr (fold (\<lambda>d acc. acc @ day_part L schedules off start stop d)
          [first_date L start off..day_number (stop + off * nanos_per_second)] detox)"
    using assms by (intro fold_days_total) (auto simp: in_calendar_def day_overlaps_part)
  then show ?thesis
    by (simp add: active_seconds_between_def Let_def fold_append_map collected_intervals_def)
qed

lemma proper_collected: "proper detox \<Longrightarrow> proper (collected_intervals L schedules detox start stop off)"
  unfolding collected_intervals_def proper_simps(3) by (intro conjI proper_concat proper_day_part)

text \<open>The instants of a span at which one of the schedules is active or a Detox interval runs.\<close>

definition active_instants ::
  "'u lib \<Rightarrow> schedule_config list \<Rightarrow> interval list \<Rightarrow> instant \<Rightarrow> instant \<Rightarrow> int \<Rightarrow> instant set" where
  "active_instants L schedules detox start stop off =
     {t. start \<le> t \<and> t < stop \<and>
        ((\<exists>s\<in>set schedules. schedule_is_active L s (at_offset off t))
         \<or> (\<exists>(a, b)\<in>set detox. a \<le> t \<and> t < b))}"

lemma covered_collected:
  assumes "calendar_ok L" "\<forall>s\<in>set schedules. schedule_valid s" "in_calendar L off start stop"
    "\<forall>(a, b)\<in>set detox. start \<le> a \<and> b \<le> stop"
  shows "covered (collected_intervals L schedules detox start stop off)
     = active_instants L schedules detox start stop off"
proof (rule set_eqI)
  fix t
  have "t \<in> covered detox \<longleftrightarrow> start \<le> t \<and> t < stop \<and> (\<exists>(a, b)\<in>set detox. a \<le> t \<and> t < b)"
    using assms(4) by (fastforce simp: covered_iff)
  then show "t \<in> covered (collected_intervals L schedules detox start stop off)
      \<longleftrightarrow> t \<in> active_instants L schedules detox start stop off"
    using covered_days [OF assms(2) first_date_in_calendar [OF assms(3)], of t]
      schedule_active_covers [OF assms(1), of _ "at_offset off t"] assms(2)
    by (auto simp: collected_intervals_def active_instants_def)
qed

lemma card_active_instants: "card (active_instants L schedules detox start stop off) \<le> nat (stop - start)"
proof -
  have "active_instants L schedules detox start stop off \<subseteq> {start..<stop}"
    by (auto simp: active_instants_def)
  then have "card (active_instants L schedules detox start stop off) \<le> card {start..<stop}"
    by (intro card_mono) auto
  then show ?thesis by simp
qed

section \<open>Properties\<close>

text \<open>A calendar for concrete checks: 1970-01-01 was a Thursday.\<close>

definition weekday_of_day :: "int \<Rightarrow> chrono_weekday" where
  "weekday_of_day d = [CThu, CFri, CSat, CSun, CMon, CTue, CWed] ! nat (d mod 7)"

lemma weekday_of_day_cases:
  "weekday_of_day d = (if d mod 7 = 0 then CThu else if d mod 7 = 1 then CFri else if d mod 7 = 2 then CSat
     else if d mod 7 = 3 then CSun else if d mod 7 = 4 then CMon else if d mod 7 = 5 then CTue else CWed)"
proof -
  have "d mod 7 = 0 \<or> d mod 7 = 1 \<or> d mod 7 = 2 \<or> d mod 7 = 3 \<or> d mod 7 = 4 \<or> d mod 7 = 5 \<or> d mod 7 = 6"
    by presburger
  then show ?thesis by (elim disjE) (simp_all add: weekday_of_day_def)
qed

lemma weekday_of_day_previous:
  "weekday_from (weekday_of_day (d - 1)) = previous (weekday_from (weekday_of_day d))"
proof -
  have "d mod 7 = 0 \<and> (d - 1) mod 7 = 6 \<or> d mod 7 = 1 \<and> (d - 1) mod 7 = 0 \<or> d mod 7 = 2 \<and> (d - 1) mod 7 = 1
    \<or> d mod 7 = 3 \<and> (d - 1) mod 7 = 2 \<or> d mod 7 = 4 \<and> (d - 1) mod 7 = 3 \<or> d mod 7 = 5 \<and> (d - 1) mod 7 = 4
    \<or> d mod 7 = 6 \<and> (d - 1) mod 7 = 5"
    by presburger
  then show ?thesis by (elim disjE) (simp_all add: weekday_of_day_cases)
qed

text \<open>
  A library for concrete checks: the calendar above, and URLs of the one scheme \<open>https\<close>, kept as text.
\<close>

definition sample_lib :: "string lib" where
  "sample_lib = \<lparr>
     url_parse = (\<lambda>s. if starts_with s ''https://'' then Inr s else Inl ''relative URL without a base''),
     url_without_fragment = (\<lambda>u. takeWhile (\<lambda>c. c \<noteq> CHR ''#'') u),
     url_host_str = (\<lambda>u. case takeWhile (\<lambda>c. c \<noteq> CHR ''/'' \<and> c \<noteq> CHR ''?'') (drop 8 u) of
        [] \<Rightarrow> None | h \<Rightarrow> Some h),
     url_path = (\<lambda>u. takeWhile (\<lambda>c. c \<noteq> CHR ''?'') (dropWhile (\<lambda>c. c \<noteq> CHR ''/'') (drop 8 u))),
     url_to_string = (\<lambda>u. u),
     day_weekday = weekday_of_day,
     first_day = - 95745399,
     last_day = 95026236\<rparr>"

lemma sample_calendar [simp]:
  "calendar_ok sample_lib" "day_weekday sample_lib = weekday_of_day"
  "first_day sample_lib = - 95745399" "last_day sample_lib = 95026236"
  by (simp_all add: calendar_ok_def sample_lib_def weekday_of_day_previous)

text \<open>
  C37. A schedule is active at a local moment exactly when one of its windows covers it: the window
  starts on a day its weekday selects and, when it does not end after it started, ends on the next
  day. The minute comparison on 16-bit counts, with the previous weekday for the part after
  midnight, decides this for every valid window.
\<close>

theorem schedule_is_active_iff_window_covers:
  assumes "calendar_ok L" "schedule_valid s"
  shows "schedule_is_active L s now \<longleftrightarrow>
    (\<exists>w\<in>set (sc_windows s). \<exists>d.
       day_includes (sw_weekday w) (weekday_from (day_weekday L d))
       \<and> local_instant (dt_offset now) d (sw_start w) \<le> dt_utc now
       \<and> dt_utc now < local_instant (dt_offset now) (if sw_start w < sw_end w then d else d + 1) (sw_end w))"
  unfolding schedule_active_covers [OF assms] schedule_covers_def window_covers_def window_end_def ..

definition night_schedule :: schedule_config where
  "night_schedule = \<lparr>sc_id = ''night'', sc_name = None,
     sc_windows = [\<lparr>sw_weekday = OnMon, sw_start = TimeOfDay 20 0, sw_end = TimeOfDay 10 0\<rparr>,
                   \<lparr>sw_weekday = OnTue, sw_start = TimeOfDay 8 0, sw_end = TimeOfDay 12 0\<rparr>]\<rparr>"

lemma night_schedule_valid [simp]: "schedule_valid night_schedule"
  by (simp add: schedule_valid_def night_schedule_def tod_valid_def)

text \<open>Tuesday 1970-01-06 at 08:00 and at 10:00 UTC.\<close>

definition tuesday_eight :: instant where
  "tuesday_eight = (5 * 24 + 8) * 60 * nanos_per_minute"

definition tuesday_ten :: instant where
  "tuesday_ten = (5 * 24 + 10) * 60 * nanos_per_minute"

theorem schedule_is_active_iff_window_covers_witness:
  "schedule_is_active sample_lib night_schedule (at_offset 0 tuesday_eight)"
  unfolding schedule_is_active_iff_window_covers [OF sample_calendar(1) night_schedule_valid]
  by (rule bexI [where x = "sc_windows night_schedule ! 0"], rule exI [where x = 4])
     (simp_all add: night_schedule_def tuesday_eight_def weekday_of_day_cases local_instant_def nanos_defs
       less_time_of_day_def)

text \<open>
  C36. The seconds the rule routine charges for a span are the measure of the instants at which an
  attached schedule is active or a Detox interval runs: never more than that set or than the span
  itself, and short of it by less than a second for each interval merged. The routine returns for
  every span inside the calendar.
\<close>

theorem active_seconds_measure_active_instants:
  assumes "calendar_ok L" "\<forall>s\<in>set schedules. schedule_valid s" "in_calendar L off start stop"
    and "proper detox" "\<forall>(a, b)\<in>set detox. start \<le> a \<and> b \<le> stop" "start \<le> stop"
  shows "\<exists>n. active_seconds_between L schedules detox start stop off = Inr n
    \<and> 0 \<le> n
    \<and> n * nanos_per_second \<le> int (card (active_instants L schedules detox start stop off))
    \<and> n \<le> num_seconds (stop - start)
    \<and> (n < i64_max \<longrightarrow> int (card (active_instants L schedules detox start stop off)) \<le> n * nanos_per_second
         + int (length (collected_intervals L schedules detox start stop off)) * (nanos_per_second - 1))"
proof -
  let ?ivs = "collected_intervals L schedules detox start stop off"
  let ?n = "merge_seconds ?ivs 0"
  have c: "covered ?ivs = active_instants L schedules detox start stop off"
    using assms by (intro covered_collected) auto
  note m = merge_seconds_measure [OF proper_collected [OF assms(4)], of L schedules start stop off, unfolded c]
  have "int (card (active_instants L schedules detox start stop off)) \<le> stop - start"
    using card_active_instants [of L schedules detox start stop off] assms(6) by linarith
  then have "?n * nanos_per_second \<le> stop - start" using m(2) by linarith
  then have "?n \<le> num_seconds (stop - start)"
    using assms(6) by (simp add: num_seconds_def nanos_per_second_def)
  then show ?thesis using m active_seconds_between_merge [OF assms(3)] by blast
qed

lemma sample_span [simp]: "in_calendar sample_lib 0 tuesday_eight tuesday_ten"
  by (simp add: in_calendar_def day_number_def tuesday_eight_def tuesday_ten_def nanos_defs)

theorem active_seconds_measure_active_instants_witness:
  "\<exists>n. active_seconds_between sample_lib [night_schedule] [] tuesday_eight tuesday_ten 0 = Inr n \<and> 0 \<le> n \<and> n \<le> 7200"
proof -
  have "num_seconds (tuesday_ten - tuesday_eight) = 7200" "tuesday_eight \<le> tuesday_ten"
    by (simp_all add: tuesday_eight_def tuesday_ten_def nanos_defs num_seconds_def)
  then show ?thesis using active_seconds_measure_active_instants
    [OF sample_calendar(1), of "[night_schedule]" 0 tuesday_eight tuesday_ten "[]"] by auto
qed

text \<open>
  The statistics routine of the database merges the windows of each day separately, so a window
  that runs past midnight is counted again where it overlaps a window of the next day: over the two
  hours from 08:00 to 10:00 it reports four hours of schedule activity, twice the time elapsed,
  while the rule routine reports the two hours.
\<close>

lemma schedule_statistics_count_overnight_twice:
  "schedule_active_seconds_between sample_lib night_schedule (at_offset 0 tuesday_eight) (at_offset 0 tuesday_ten)
     = Inr 14400
   \<and> active_seconds_between sample_lib [night_schedule] [] tuesday_eight tuesday_ten 0 = Inr 7200
   \<and> num_seconds (tuesday_ten - tuesday_eight) = 7200"
proof (intro conjI)
  have day4: "day_overlaps sample_lib [night_schedule] 0 tuesday_eight tuesday_ten 4
      = Inr [(tuesday_eight, tuesday_ten)]"
    and day5: "day_overlaps sample_lib [night_schedule] 0 tuesday_eight tuesday_ten 5
      = Inr [(tuesday_eight, tuesday_ten)]"
    by (simp_all add: day_overlaps_part day_part_def night_schedule_def window_part_def window_end_def
      weekday_of_day_cases tuesday_eight_def tuesday_ten_def local_instant_def nanos_defs less_time_of_day_def)
  have first: "first_date sample_lib tuesday_eight 0 = 4" "day_number tuesday_ten = 5"
    by (simp_all add: first_date_def pred_opt_def day_number_def tuesday_eight_def tuesday_ten_def nanos_defs)
  have days: "fold_days sample_lib f 5 4 s = and_then (f 4 s) (f 5)" for f and s :: "'s"
    by (simp add: fold_days.simps [of sample_lib f 5 4] fold_days.simps [of sample_lib f 5 5]
      fold_days.simps [of sample_lib f 5 6] succ_opt_def and_then_def split: sum.splits)
  have sum: "merge_seconds [(tuesday_eight, tuesday_ten)] n = n + 7200" if "0 \<le> n" "n \<le> 7200" for n
    using that by (simp add: merge_seconds_def saturating_add_i64_def i64_max_def i64_min_def num_seconds_def
      tuesday_eight_def tuesday_ten_def nanos_defs)
  show "schedule_active_seconds_between sample_lib night_schedule (at_offset 0 tuesday_eight)
      (at_offset 0 tuesday_ten) = Inr 14400"
    by (simp add: schedule_active_seconds_between_def first days day4 day5 sum local_nanos_def)
       (simp add: tuesday_eight_def tuesday_ten_def nanos_per_minute_def)
  show "active_seconds_between sample_lib [night_schedule] [] tuesday_eight tuesday_ten 0 = Inr 7200"
    by (simp add: active_seconds_between_def first days day4 day5 Let_def)
       (simp add: merge_seconds_def saturating_add_i64_def i64_max_def i64_min_def num_seconds_def
         tuesday_eight_def tuesday_ten_def nanos_defs)
  show "num_seconds (tuesday_ten - tuesday_eight) = 7200"
    by (simp add: num_seconds_def tuesday_eight_def tuesday_ten_def nanos_defs)
qed

end
