(* ===== verification/Store.thy ===== *)
theory Store imports Metering "HOL-Library.AList" "HOL-Library.Product_Lexorder" begin

text \<open>
  The database of \<^verbatim>\<open>focus-core/src/db.rs\<close>: one row record per table, the tables as lists in the order
  of their row ids, keyed tables without further structure as association lists. SQLite is modelled
  by what its statements do to the rows. A statement can fail: \<open>db_fault\<close> names the statements that
  do, by a tag, so the error paths and the rollback of transactions are part of every operation. An
  operation maps a database to its result and the database after it, since an error does not undo
  what earlier statements outside a transaction did. Timestamps are the fixed-width UTC texts
  \<open>format_time\<close> writes, whose order is the order of the instants they show: they are kept as the
  microseconds the text shows.
\<close>

section \<open>Timestamps\<close>

type_synonym stamp = int

definition format_time :: "instant \<Rightarrow> stamp" where
  "format_time value = value div 1000"

text \<open>A text written by \<open>format_time\<close> always parses.\<close>

definition parse_time :: "stamp \<Rightarrow> instant" where
  "parse_time value = value * 1000"

lemma format_parse_time [simp]: "format_time (parse_time s) = s"
  by (simp add: format_time_def parse_time_def)

lemma parse_format_time: "parse_time (format_time t) = t - t mod 1000"
  by (simp add: format_time_def parse_time_def minus_mod_eq_div_mult)

lemma format_time_mono: "t \<le> u \<Longrightarrow> format_time t \<le> format_time u"
  by (simp add: format_time_def zdiv_mono1)

lemma format_time_le_iff: "s \<le> format_time t \<longleftrightarrow> parse_time s \<le> t"
  unfolding format_time_def parse_time_def by linarith

lemma format_time_less_iff: "format_time t < s \<longleftrightarrow> t < parse_time s"
  unfolding format_time_def parse_time_def by linarith

section \<open>Rows\<close>

record unlock_row =
  ul_id :: int
  ul_target :: string
  ul_rule_id :: string
  ul_reason :: string
  ul_minutes :: int
  ul_started_at :: stamp
  ul_expires_at :: stamp

record unlock_target_row =
  ut_unlock_id :: int
  ut_rule_id :: string
  ut_position :: nat
  ut_revoked :: bool

record visit_row =
  v_id :: int
  v_rule_id :: "string option"
  v_target :: string
  v_url :: string
  v_tab_id :: string
  v_started_at :: stamp
  v_last_heartbeat_at :: stamp
  v_ended_at :: "stamp option"

record app_usage_row =
  au_id :: int
  au_rule_id :: string
  au_started_at :: stamp
  au_last_seen_at :: stamp
  au_ended_at :: "stamp option"

text \<open>The text of an event's details, with the values it shows where the code formats it.\<close>

datatype event_details =
  Details string
| QueuedDetails string string stamp
| DeliveryDetails int string string string

record event_row =
  ev_id :: int
  ev_kind :: string
  ev_target :: "string option"
  ev_details :: "event_details option"
  ev_created_at :: stamp

record outbox_row =
  ob_id :: int
  ob_kind :: string
  ob_title :: string
  ob_body :: string
  ob_dedupe_key :: string
  ob_created_at :: stamp
  ob_expires_at :: stamp
  ob_delivered_at :: "stamp option"

record attempt_row =
  at_notification_id :: int
  at_attempt_count :: int
  at_last_attempt_at :: stamp
  at_last_error :: "string option"

record preferences_row =
  pr_enabled :: bool
  pr_website_blocked :: bool
  pr_application_blocked :: bool
  pr_allowance_warnings :: bool
  pr_allowance_warning_minutes :: string
  pr_schedule_started :: bool
  pr_schedule_ended :: bool
  pr_detox_started :: bool
  pr_detox_ended :: bool

record detox_row =
  dx_id :: string
  dx_name :: "string option"
  dx_starts_at :: stamp
  dx_ends_at :: stamp
  dx_cancelled_at :: "stamp option"
  dx_created_at :: stamp

record detox_rule_row =
  dr_session_id :: string
  dr_rule_id :: string
  dr_position :: nat

section \<open>Rows of the stored policy\<close>

record strict_mode_row =
  smr_require_firefox_extension :: int
  smr_require_chrome_extension :: int
  smr_kill_supported_browser_if_extension_stale :: int
  smr_block_unsupported_browsers :: int
  smr_grace_seconds :: int

record allowance_row =
  alr_id :: string
  alr_name :: "string option"
  alr_daily_minutes :: int

record schedule_row =
  scr_id :: string
  scr_name :: "string option"

record window_row =
  wr_schedule_id :: string
  wr_weekday :: string
  wr_start_time :: string
  wr_end_time :: string
  wr_position :: nat

text \<open>A site list or an application list, its patterns or matchers, and its attachments.\<close>

record list_row =
  lr_id :: string
  lr_name :: string
  lr_tier :: string
  lr_enabled :: int
  lr_mode :: string
  lr_allowance_id :: "string option"

record entry_row =
  er_list_id :: string
  er_kind :: string
  er_value :: string
  er_match_subdomains :: int
  er_position :: nat

record attachment_row =
  ar_list_id :: string
  ar_schedule_id :: string
  ar_position :: nat

record policy_tables =
  pt_defaults :: "(int \<times> int \<times> int) option"
  pt_strict_mode :: "strict_mode_row option"
  pt_allowances :: "allowance_row list"
  pt_schedules :: "schedule_row list"
  pt_windows :: "window_row list"
  pt_site_lists :: "list_row list"
  pt_site_patterns :: "entry_row list"
  pt_site_schedules :: "attachment_row list"
  pt_app_rules :: "list_row list"
  pt_app_matchers :: "entry_row list"
  pt_app_schedules :: "attachment_row list"

section \<open>The database\<close>

record log_line =
  ll_created_at :: stamp
  ll_kind :: string
  ll_target :: "string option"
  ll_details :: "event_details option"

text \<open>
  \<open>db_seq\<close> gives the last row id of each table declared \<open>AUTOINCREMENT\<close>. The event log file is
  \<open>None\<close> until \<open>set_event_log_path\<close> names one; \<open>db_log_fault\<close> makes writing it fail.
\<close>

datatype auto_table = UnlockIds | VisitIds | AppUsageIds | EventIds | OutboxIds

record database =
  db_fault :: "string \<Rightarrow> db_error option"
  db_log_fault :: "string option"
  db_seq :: "auto_table \<Rightarrow> int"
  db_unlocks :: "unlock_row list"
  db_unlock_targets :: "unlock_target_row list"
  db_visits :: "visit_row list"
  db_app_usage :: "app_usage_row list"
  db_events :: "event_row list"
  db_event_totals :: "(string \<times> int) list"
  db_diagnostic_ids :: "(string \<times> int \<times> stamp) list"
  db_event_log :: "log_line list option"
  db_preferences :: "preferences_row option"
  db_outbox :: "outbox_row list"
  db_attempts :: "attempt_row list"
  db_allowance_states :: "(string \<times> string \<times> int \<times> stamp) list"
  db_lifecycle :: "((string \<times> string) \<times> bool \<times> stamp) list"
  db_schedule_totals :: "(string \<times> int \<times> stamp) list"
  db_heartbeats :: "(string \<times> stamp \<times> string option) list"
  db_service_state :: "(string \<times> string \<times> stamp) list"
  db_detox_sessions :: "detox_row list"
  db_detox_site_rules :: "detox_rule_row list"
  db_detox_app_rules :: "detox_rule_row list"
  db_policy :: policy_tables

definition no_faults :: "database \<Rightarrow> bool" where
  "no_faults db \<longleftrightarrow> (\<forall>tag. db_fault db tag = None)"

section \<open>Statements and transactions\<close>

type_synonym 'a operation = "database \<Rightarrow> (error + 'a) \<times> database"

definition db_return :: "'a \<Rightarrow> 'a operation" where
  "db_return x db = (Inr x, db)"

definition db_fail :: "error \<Rightarrow> 'a operation" where
  "db_fail e db = (Inl e, db)"

definition db_bind :: "'a operation \<Rightarrow> ('a \<Rightarrow> 'b operation) \<Rightarrow> 'b operation" where
  "db_bind m f db = (case m db of (Inl e, db') \<Rightarrow> (Inl e, db') | (Inr x, db') \<Rightarrow> f x db')"

text \<open>A query leaves the database alone; \<open>reading\<close> runs it among the operations.\<close>

definition query :: "string \<Rightarrow> (database \<Rightarrow> 'a) \<Rightarrow> database \<Rightarrow> error + 'a" where
  "query tag f db = (case db_fault db tag of Some e \<Rightarrow> Inl (ErrDatabase e) | None \<Rightarrow> Inr (f db))"

definition reading :: "(database \<Rightarrow> error + 'a) \<Rightarrow> 'a operation" where
  "reading q db = (q db, db)"

text \<open>A statement that writes; it can also break a constraint of the schema.\<close>

definition exec :: "string \<Rightarrow> (database \<Rightarrow> db_error + ('a \<times> database)) \<Rightarrow> 'a operation" where
  "exec tag f db =
     (case db_fault db tag of
        Some e \<Rightarrow> (Inl (ErrDatabase e), db)
      | None \<Rightarrow> (case f db of Inl e \<Rightarrow> (Inl (ErrDatabase e), db) | Inr (x, db') \<Rightarrow> (Inr x, db')))"

definition update_rows :: "string \<Rightarrow> (database \<Rightarrow> database) \<Rightarrow> unit operation" where
  "update_rows tag f = exec tag (\<lambda>db. Inr ((), f db))"

fun db_for :: "'a list \<Rightarrow> ('a \<Rightarrow> unit operation) \<Rightarrow> unit operation" where
  "db_for [] f = db_return ()"
| "db_for (x # xs) f = db_bind (f x) (\<lambda>_. db_for xs f)"

text \<open>A transaction dropped before its commit is rolled back.\<close>

definition transaction :: "'a operation \<Rightarrow> 'a operation" where
  "transaction m db =
     (case db_fault db ''BEGIN'' of
        Some e \<Rightarrow> (Inl (ErrDatabase e), db)
      | None \<Rightarrow>
          (case m db of
             (Inl e, _) \<Rightarrow> (Inl e, db)
           | (Inr x, db') \<Rightarrow>
               (case db_fault db' ''COMMIT'' of
                  Some e \<Rightarrow> (Inl (ErrDatabase e), db)
                | None \<Rightarrow> (Inr x, db'))))"

definition next_rowid :: "auto_table \<Rightarrow> database \<Rightarrow> int" where
  "next_rowid table db = db_seq db table + 1"

definition bump_rowid :: "auto_table \<Rightarrow> database \<Rightarrow> database" where
  "bump_rowid table db = db\<lparr>db_seq := (db_seq db)(table := next_rowid table db)\<rparr>"

lemma bump_rowid_sel [simp]: "db_fault (bump_rowid t db) = db_fault db"
  by (simp add: bump_rowid_def)

section \<open>Laws\<close>

lemma db_bind_return [simp]: "db_bind (db_return x) f = f x"
  by (simp add: db_bind_def db_return_def fun_eq_iff)

lemma db_return_apply [simp]: "db_return x db = (Inr x, db)"
  by (simp add: db_return_def)

lemma db_fail_apply [simp]: "db_fail e db = (Inl e, db)"
  by (simp add: db_fail_def)

lemma reading_apply [simp]: "reading q db = (q db, db)"
  by (simp add: reading_def)

lemma db_bind_apply: "db_bind m f db = (case fst (m db) of Inl e \<Rightarrow> (Inl e, snd (m db)) | Inr x \<Rightarrow> f x (snd (m db)))"
  by (cases "m db") (auto simp: db_bind_def split: sum.splits)

lemma db_bind_Inr:
  "db_bind m f db = (Inr y, db'') \<longleftrightarrow> (\<exists>x db'. m db = (Inr x, db') \<and> f x db' = (Inr y, db''))"
  by (auto simp: db_bind_def split: prod.splits sum.splits)

lemma db_bind_step: "m db = (Inr x, db') \<Longrightarrow> db_bind m f db = f x db'"
  by (simp add: db_bind_def)

lemma exec_no_fault [simp]:
  "db_fault db tag = None \<Longrightarrow> exec tag f db =
     (case f db of Inl e \<Rightarrow> (Inl (ErrDatabase e), db) | Inr (x, db') \<Rightarrow> (Inr x, db'))"
  by (simp add: exec_def)

lemma exec_Inr: "exec tag f db = (Inr x, db') \<longleftrightarrow> db_fault db tag = None \<and> f db = Inr (x, db')"
  by (auto simp: exec_def split: option.splits sum.splits)

lemma update_rows_no_fault [simp]:
  "db_fault db tag = None \<Longrightarrow> update_rows tag f db = (Inr (), f db)"
  by (simp add: update_rows_def)

lemma update_rows_Inr: "update_rows tag f db = (Inr x, db') \<longleftrightarrow> db_fault db tag = None \<and> db' = f db"
  by (auto simp: update_rows_def exec_Inr)

lemma query_no_fault [simp]: "db_fault db tag = None \<Longrightarrow> query tag f db = Inr (f db)"
  by (simp add: query_def)

lemma query_Inr: "query tag f db = Inr x \<longleftrightarrow> db_fault db tag = None \<and> x = f db"
  by (auto simp: query_def split: option.splits)

lemma transaction_rollback [fail_closed]: "transaction m db = (Inl e, db') \<Longrightarrow> db' = db"
  by (auto simp: transaction_def split: option.splits prod.splits sum.splits)

lemma transaction_Inr:
  "transaction m db = (Inr x, db') \<longleftrightarrow>
     db_fault db ''BEGIN'' = None \<and> m db = (Inr x, db') \<and> db_fault db' ''COMMIT'' = None"
  by (auto simp: transaction_def split: option.splits prod.splits sum.splits)

lemma transaction_step:
  "db_fault db ''BEGIN'' = None \<Longrightarrow> m db = (Inr x, db') \<Longrightarrow> db_fault db' ''COMMIT'' = None
   \<Longrightarrow> transaction m db = (Inr x, db')"
  by (simp add: transaction_Inr)

lemma no_faultsD [simp]: "no_faults db \<Longrightarrow> db_fault db tag = None"
  by (simp add: no_faults_def)

lemma no_faults_cong: "db_fault db' = db_fault db \<Longrightarrow> no_faults db' \<longleftrightarrow> no_faults db"
  by (simp add: no_faults_def)

lemma no_faults_update [simp]:
  "no_faults (db\<lparr>db_log_fault := x0\<rparr>) = no_faults db"
  "no_faults (db\<lparr>db_seq := x1\<rparr>) = no_faults db"
  "no_faults (db\<lparr>db_unlocks := x2\<rparr>) = no_faults db"
  "no_faults (db\<lparr>db_unlock_targets := x3\<rparr>) = no_faults db"
  "no_faults (db\<lparr>db_visits := x4\<rparr>) = no_faults db"
  "no_faults (db\<lparr>db_app_usage := x5\<rparr>) = no_faults db"
  "no_faults (db\<lparr>db_events := x6\<rparr>) = no_faults db"
  "no_faults (db\<lparr>db_event_totals := x7\<rparr>) = no_faults db"
  "no_faults (db\<lparr>db_diagnostic_ids := x8\<rparr>) = no_faults db"
  "no_faults (db\<lparr>db_event_log := x9\<rparr>) = no_faults db"
  "no_faults (db\<lparr>db_preferences := x10\<rparr>) = no_faults db"
  "no_faults (db\<lparr>db_outbox := x11\<rparr>) = no_faults db"
  "no_faults (db\<lparr>db_attempts := x12\<rparr>) = no_faults db"
  "no_faults (db\<lparr>db_allowance_states := x13\<rparr>) = no_faults db"
  "no_faults (db\<lparr>db_lifecycle := x14\<rparr>) = no_faults db"
  "no_faults (db\<lparr>db_schedule_totals := x15\<rparr>) = no_faults db"
  "no_faults (db\<lparr>db_heartbeats := x16\<rparr>) = no_faults db"
  "no_faults (db\<lparr>db_service_state := x17\<rparr>) = no_faults db"
  "no_faults (db\<lparr>db_detox_sessions := x18\<rparr>) = no_faults db"
  "no_faults (db\<lparr>db_detox_site_rules := x19\<rparr>) = no_faults db"
  "no_faults (db\<lparr>db_detox_app_rules := x20\<rparr>) = no_faults db"
  "no_faults (db\<lparr>db_policy := x21\<rparr>) = no_faults db"
  by (simp_all add: no_faults_def)

lemma no_faults_bump [simp]: "no_faults (bump_rowid t db) = no_faults db"
  by (simp add: no_faults_def)

text \<open>An operation keeps a property when every part of it does, with or without an error.\<close>

definition keeps :: "(database \<Rightarrow> bool) \<Rightarrow> 'a operation \<Rightarrow> bool" where
  "keeps P m \<longleftrightarrow> (\<forall>db. P db \<longrightarrow> P (snd (m db)))"

lemma keepsD: "keeps P m \<Longrightarrow> P db \<Longrightarrow> m db = (r, db') \<Longrightarrow> P db'"
  by (force simp: keeps_def)

lemma keeps_return [intro!]: "keeps P (db_return x)"
  by (simp add: keeps_def)

lemma keeps_fail [intro!]: "keeps P (db_fail e)"
  by (simp add: keeps_def)

lemma keeps_reading [intro!]: "keeps P (reading q)"
  by (simp add: keeps_def)

lemma keeps_bind: "keeps P m \<Longrightarrow> (\<And>x. keeps P (f x)) \<Longrightarrow> keeps P (db_bind m f)"
  by (auto simp: keeps_def db_bind_def split: prod.splits sum.splits)

lemma keeps_exec: "(\<And>db x db'. P db \<Longrightarrow> f db = Inr (x, db') \<Longrightarrow> P db') \<Longrightarrow> keeps P (exec tag f)"
  by (auto simp: keeps_def exec_def split: option.splits sum.splits)

lemma keeps_update_rows: "(\<And>db. P db \<Longrightarrow> P (f db)) \<Longrightarrow> keeps P (update_rows tag f)"
  unfolding update_rows_def by (rule keeps_exec) auto

lemma keeps_for: "(\<And>x. x \<in> set xs \<Longrightarrow> keeps P (f x)) \<Longrightarrow> keeps P (db_for xs f)"
  by (induction xs) (auto intro!: keeps_bind)

lemma keeps_transaction: "keeps P m \<Longrightarrow> keeps P (transaction m)"
  by (auto simp: keeps_def transaction_def split: option.splits prod.splits sum.splits)

text \<open>A loop of one writing statement: it runs through, or its first run fails.\<close>

lemma db_for_update_rows:
  assumes "\<And>x db. db_fault (f x db) = db_fault db"
  shows "db_for xs (\<lambda>x. update_rows tag (f x)) db =
    (if xs = [] then (Inr (), db)
     else case db_fault db tag of Some e \<Rightarrow> (Inl (ErrDatabase e), db) | None \<Rightarrow> (Inr (), fold f xs db))"
proof (cases "db_fault db tag")
  case None
  then show ?thesis
  proof (induction xs arbitrary: db)
    case (Cons x xs)
    then show ?case by (cases xs) (simp_all add: db_bind_def assms)
  qed simp
next
  case (Some e)
  then show ?thesis by (cases xs) (simp_all add: db_bind_def update_rows_def exec_def)
qed

lemmas keeps_rules = keeps_bind keeps_update_rows keeps_for keeps_transaction

end
