(* ===== verification/Keyed.thy ===== *)
theory Keyed imports Store begin

text \<open>
  The tables with one row per key: service state, heartbeats, the states behind the allowance and
  lifecycle notifications, and the schedule totals. All are written by one kind of statement
  (\<open>INSERT ... ON CONFLICT DO UPDATE\<close>), so their contract is stated once, as a locale over the lookup
  and the write of a table, and interpreted on each of them.
  (\<^verbatim>\<open>focus-core/src/db.rs\<close>)
\<close>

section \<open>Operations\<close>

text \<open>The row of the key is replaced in place, or a new one is appended.\<close>

definition upsert :: "'k \<Rightarrow> 'v \<Rightarrow> ('k \<times> 'v) list \<Rightarrow> ('k \<times> 'v) list" where
  "upsert k v rows = AList.update k v rows"

definition write_service_state :: "stamp \<Rightarrow> string \<times> string \<Rightarrow> unit operation" where
  "write_service_state updated_at kv =
     update_rows ''service_state.upsert''
       (\<lambda>db. db\<lparr>db_service_state := upsert (fst kv) (snd kv, updated_at) (db_service_state db)\<rparr>)"

definition set_service_states :: "(string \<times> string) list \<Rightarrow> instant \<Rightarrow> unit operation" where
  "set_service_states values now =
     transaction (db_for values (write_service_state (format_time now)))"

definition set_service_state :: "string \<Rightarrow> string \<Rightarrow> instant \<Rightarrow> unit operation" where
  "set_service_state key value now = set_service_states [(key, value)] now"

definition service_state :: "string \<Rightarrow> database \<Rightarrow> error + string option" where
  "service_state key = query ''service_state.select'' (\<lambda>db. map_option fst (map_of (db_service_state db) key))"

record heartbeat_state =
  hb_component :: string
  hb_last_seen_at :: instant
  hb_details :: "string option"

definition upsert_heartbeat :: "string \<Rightarrow> string option \<Rightarrow> instant \<Rightarrow> unit operation" where
  "upsert_heartbeat component details now =
     update_rows ''heartbeats.upsert''
       (\<lambda>db. db\<lparr>db_heartbeats := upsert component (format_time now, details) (db_heartbeats db)\<rparr>)"

definition heartbeat :: "string \<Rightarrow> database \<Rightarrow> error + heartbeat_state option" where
  "heartbeat component = query ''heartbeats.select'' (\<lambda>db.
     case map_of (db_heartbeats db) component of
       None \<Rightarrow> None
     | Some (last_seen_at, details) \<Rightarrow>
         Some \<lparr>hb_component = component, hb_last_seen_at = parse_time last_seen_at, hb_details = details\<rparr>)"

definition allowance_notification_state :: "string \<Rightarrow> database \<Rightarrow> error + (string \<times> int) option" where
  "allowance_notification_state rule_id = query ''notification_allowance_state.select'' (\<lambda>db.
     map_option (\<lambda>(local_day, remaining, _). (local_day, remaining)) (map_of (db_allowance_states db) rule_id))"

definition set_allowance_notification_state ::
  "string \<Rightarrow> string \<Rightarrow> int \<Rightarrow> instant \<Rightarrow> unit operation" where
  "set_allowance_notification_state rule_id local_day remaining_seconds now =
     update_rows ''notification_allowance_state.upsert'' (\<lambda>db.
       db\<lparr>db_allowance_states :=
         upsert rule_id (local_day, remaining_seconds, format_time now) (db_allowance_states db)\<rparr>)"

definition notification_lifecycle_states :: "string \<Rightarrow> database \<Rightarrow> error + (string \<times> bool) list" where
  "notification_lifecycle_states kind = query ''notification_lifecycle_state.select'' (\<lambda>db.
     map (\<lambda>((_, target_id), active, _). (target_id, active))
       (filter (\<lambda>row. fst (fst row) = kind) (db_lifecycle db)))"

definition set_notification_lifecycle_state ::
  "string \<Rightarrow> string \<Rightarrow> bool \<Rightarrow> instant \<Rightarrow> unit operation" where
  "set_notification_lifecycle_state kind target_id active now =
     update_rows ''notification_lifecycle_state.upsert'' (\<lambda>db.
       db\<lparr>db_lifecycle := upsert (kind, target_id) (active, format_time now) (db_lifecycle db)\<rparr>)"

definition delete_notification_lifecycle_state :: "string \<Rightarrow> string \<Rightarrow> unit operation" where
  "delete_notification_lifecycle_state kind target_id =
     update_rows ''notification_lifecycle_state.delete'' (\<lambda>db.
       db\<lparr>db_lifecycle := filter (\<lambda>row. fst row \<noteq> (kind, target_id)) (db_lifecycle db)\<rparr>)"

record schedule_activity_total =
  st_schedule_id :: string
  st_total_active_seconds :: int

text \<open>
  One schedule of \<open>sync_schedule_activity_totals\<close>: the elapsed activity is added and the row is
  accounted up to now, unless the clock did not move on. The \<open>CHECK\<close> of the table refuses a negative
  total; the metering routine panics past the end of the calendar.
\<close>

definition sync_schedule_total ::
  "'u lib \<Rightarrow> datetime \<Rightarrow> schedule_config \<Rightarrow> schedule_activity_total operation" where
  "sync_schedule_total L now schedule =
     db_bind (reading (query ''schedule_activity_totals.select''
                (\<lambda>db. map_of (db_schedule_totals db) (sc_id schedule)))) (\<lambda>previous.
     db_bind
       (case previous of
          Some (tot, accounted) \<Rightarrow>
            if dt_utc now \<le> parse_time accounted then db_return tot
            else db_bind
              (reading (\<lambda>_. schedule_active_seconds_between L schedule
                 \<lparr>dt_utc = parse_time accounted, dt_offset = dt_offset now\<rparr> now)) (\<lambda>elapsed.
              let tot' = saturating_add_i64 tot elapsed in
              exec ''schedule_activity_totals.update'' (\<lambda>db.
                if tot' < 0 then Inl (ConstraintViolated ''schedule_activity_totals'')
                else Inr (tot', db\<lparr>db_schedule_totals :=
                  upsert (sc_id schedule) (tot', format_time (dt_utc now)) (db_schedule_totals db)\<rparr>)))
        | None \<Rightarrow>
            exec ''schedule_activity_totals.insert'' (\<lambda>db.
              Inr (0, db\<lparr>db_schedule_totals :=
                upsert (sc_id schedule) (0, format_time (dt_utc now)) (db_schedule_totals db)\<rparr>)))
       (\<lambda>tot. db_return \<lparr>st_schedule_id = sc_id schedule, st_total_active_seconds = tot\<rparr>))"

fun db_map :: "('a \<Rightarrow> 'b operation) \<Rightarrow> 'a list \<Rightarrow> 'b list operation" where
  "db_map f [] = db_return []"
| "db_map f (x # xs) = db_bind (f x) (\<lambda>y. db_bind (db_map f xs) (\<lambda>ys. db_return (y # ys)))"

definition sync_schedule_activity_totals ::
  "'u lib \<Rightarrow> schedule_config list \<Rightarrow> datetime \<Rightarrow> schedule_activity_total list operation" where
  "sync_schedule_activity_totals L schedules now =
     transaction (db_map (sync_schedule_total L now) schedules)"

section \<open>The contract of a keyed table\<close>

locale keyed_table =
  fixes read :: "'s \<Rightarrow> 'k \<Rightarrow> 'v option"
    and put :: "'k \<Rightarrow> 'v \<Rightarrow> 's \<Rightarrow> 's"
  assumes read_put: "read (put k v s) k' = (if k' = k then Some v else read s k')"
begin

lemma read_put_same [simp]: "read (put k v s) k = Some v"
  by (simp add: read_put)

lemma read_put_other: "k' \<noteq> k \<Longrightarrow> read (put k v s) k' = read s k'"
  by (simp add: read_put)

lemma last_put_wins: "read (put k v (put k w s)) = read (put k v s)"
  by (rule ext) (simp add: read_put)

lemma put_commutes: "k \<noteq> l \<Longrightarrow> read (put k v (put l w s)) = read (put l w (put k v s))"
  by (rule ext) (simp add: read_put)

lemma read_fold_put: "read (fold (\<lambda>(k, v). put k v) kvs s) = read s ++ map_of (rev kvs)"
proof (induction kvs arbitrary: s)
  case (Cons kv kvs)
  then show ?case by (cases kv) (auto simp: map_add_def read_put fun_eq_iff split: option.splits)
qed simp

end

locale deletable_table = keyed_table read put
  for read :: "'s \<Rightarrow> 'k \<Rightarrow> 'v option" and put :: "'k \<Rightarrow> 'v \<Rightarrow> 's \<Rightarrow> 's" +
  fixes remove :: "'k \<Rightarrow> 's \<Rightarrow> 's"
  assumes read_remove: "read (remove k s) k' = (if k' = k then None else read s k')"
begin

lemma remove_put: "read (remove k (put k v s)) = read (remove k s)"
  by (rule ext) (simp add: read_remove read_put)

lemma put_after_remove: "read (put k v (remove k s)) = read (put k v s)"
  by (rule ext) (simp add: read_remove read_put)

end

lemma map_of_upsert [simp]: "map_of (upsert k v rows) k' = (if k' = k then Some v else map_of rows k')"
  by (simp add: upsert_def update_conv')

lemma distinct_upsert: "distinct (map fst rows) \<Longrightarrow> distinct (map fst (upsert k v rows))"
  by (simp add: upsert_def distinct_update)

lemma map_of_filter_key:
  "map_of (filter (\<lambda>row. fst row \<noteq> k) rows) k' = (if k' = k then None else map_of rows k')"
  by (induction rows) auto

interpretation table: deletable_table map_of upsert "\<lambda>k. filter (\<lambda>row. fst row \<noteq> k)"
  by unfold_locales (simp_all add: map_of_filter_key)

text \<open>The states as the database's clients see them.\<close>

interpretation services: keyed_table "\<lambda>db key. map_of (db_service_state db) key"
    "\<lambda>key value db. db\<lparr>db_service_state := upsert key value (db_service_state db)\<rparr>"
  by unfold_locales simp

interpretation lifecycle: deletable_table "\<lambda>db key. map_of (db_lifecycle db) key"
    "\<lambda>key value db. db\<lparr>db_lifecycle := upsert key value (db_lifecycle db)\<rparr>"
    "\<lambda>key db. db\<lparr>db_lifecycle := filter (\<lambda>row. fst row \<noteq> key) (db_lifecycle db)\<rparr>"
  by unfold_locales (simp_all add: map_of_filter_key)

section \<open>Service state\<close>

lemma fold_service_puts:
  "fold (\<lambda>kv db. db\<lparr>db_service_state := upsert (fst kv) (snd kv, t) (db_service_state db)\<rparr>) kvs db
   = fold (\<lambda>(key, value) db. db\<lparr>db_service_state := upsert key value (db_service_state db)\<rparr>)
       (map (\<lambda>(key, v). (key, v, t)) kvs) db"
  by (induction kvs arbitrary: db) auto

lemma map_of_stamped: "map_of (map (\<lambda>(key, v). (key, v, t)) kvs) key = map_option (\<lambda>v. (v, t)) (map_of kvs key)"
  by (induction kvs) auto

lemma fold_service_frame [frame]:
  "db_fault (fold (\<lambda>(key, value) db. db\<lparr>db_service_state := upsert key value (db_service_state db)\<rparr>) kvs db)
    = db_fault db"
  by (induction kvs arbitrary: db) auto

lemma service_state_after:
  "service_state key (fold (\<lambda>kv db. db\<lparr>db_service_state := upsert (fst kv) (snd kv, t) (db_service_state db)\<rparr>) kvs db)
   = (case map_of (rev kvs) key of
        Some v \<Rightarrow> query ''service_state.select'' (\<lambda>_. Some v) db
      | None \<Rightarrow> service_state key db)"
  unfolding fold_service_puts service_state_def query_def frame
  by (simp add: services.read_fold_put rev_map map_of_stamped map_add_def split: option.splits)

text \<open>
  Related pieces of service state are written together: either every pair is stored, the last
  value of a key being the one read back and every other key unchanged, or the operation fails and
  the database is as it was.
\<close>

lemma set_service_states_result:
  "case set_service_states kvs now db of
     (Inl e, db') \<Rightarrow> db' = db
   | (Inr _, db') \<Rightarrow> \<forall>key. service_state key db' =
       (case map_of (rev kvs) key of
          Some v \<Rightarrow> query ''service_state.select'' (\<lambda>_. Some v) db
        | None \<Rightarrow> service_state key db)"
proof -
  have loop: "db_for kvs (write_service_state (format_time now)) db =
    (if kvs = [] then (Inr (), db)
     else case db_fault db ''service_state.upsert'' of Some e \<Rightarrow> (Inl (ErrDatabase e), db)
      | None \<Rightarrow> (Inr (), fold (\<lambda>kv db. db\<lparr>db_service_state :=
          upsert (fst kv) (snd kv, format_time now) (db_service_state db)\<rparr>) kvs db))"
    unfolding write_service_state_def by (rule db_for_update_rows) simp
  show ?thesis unfolding set_service_states_def
    by (auto simp: loop service_state_after transaction_def split: prod.splits sum.splits option.splits if_splits)
qed

section \<open>Schedule totals\<close>

definition totals_ok :: "database \<Rightarrow> bool" where
  "totals_ok db \<longleftrightarrow> (\<forall>key tot acc. map_of (db_schedule_totals db) key = Some (tot, acc) \<longrightarrow> 0 \<le> tot \<and> tot \<le> i64_max)"

text \<open>The totals of one database are continued by another.\<close>

definition totals_grow :: "database \<Rightarrow> database \<Rightarrow> bool" where
  "totals_grow db db' \<longleftrightarrow>
     (\<forall>key tot acc. map_of (db_schedule_totals db) key = Some (tot, acc) \<longrightarrow>
        (\<exists>tot' acc'. map_of (db_schedule_totals db') key = Some (tot', acc') \<and> tot \<le> tot' \<and> acc \<le> acc'))"

lemma totals_grow_refl [simp]: "totals_grow db db"
  by (auto simp: totals_grow_def)

lemma totals_grow_trans: "totals_grow a b \<Longrightarrow> totals_grow b c \<Longrightarrow> totals_grow a c"
  unfolding totals_grow_def by (meson order_trans)

lemma saturating_add_grows:
  "0 \<le> a \<Longrightarrow> a \<le> i64_max \<Longrightarrow> 0 \<le> b \<Longrightarrow> a \<le> saturating_add_i64 a b \<and> saturating_add_i64 a b \<le> i64_max"
  by (auto simp: saturating_add_i64_def i64_max_def i64_min_def)

lemma totals_write:
  assumes "totals_ok db" "0 \<le> tot'" "tot' \<le> i64_max"
    and "\<And>tot acc. map_of (db_schedule_totals db) key = Some (tot, acc) \<Longrightarrow> tot \<le> tot' \<and> acc \<le> acc'"
  shows "totals_ok (db\<lparr>db_schedule_totals := upsert key (tot', acc') (db_schedule_totals db)\<rparr>)"
    and "totals_grow db (db\<lparr>db_schedule_totals := upsert key (tot', acc') (db_schedule_totals db)\<rparr>)"
  using assms by (auto simp: totals_ok_def totals_grow_def)

lemma sync_schedule_total_grows:
  assumes "totals_ok db" "sync_schedule_total L now schedule db = (r, db')"
    and nonneg: "\<And>a b n. schedule_active_seconds_between L schedule a b = Inr n \<Longrightarrow> 0 \<le> n"
  shows "totals_ok db' \<and> totals_grow db db'"
proof (cases "map_of (db_schedule_totals db) (sc_id schedule)")
  case None
  then show ?thesis using assms(2) totals_write [OF assms(1), of 0 "sc_id schedule"] assms(1)
    by (auto simp: sync_schedule_total_def db_bind_apply query_def exec_def i64_max_def split: option.splits)
next
  case (Some row)
  obtain tot acc where row: "row = (tot, acc)" by (cases row)
  have b: "0 \<le> tot" "tot \<le> i64_max" using assms(1) Some row by (auto simp: totals_ok_def)
  have step: "totals_ok (db\<lparr>db_schedule_totals :=
          upsert (sc_id schedule) (saturating_add_i64 tot n, format_time (dt_utc now)) (db_schedule_totals db)\<rparr>)
      \<and> totals_grow db (db\<lparr>db_schedule_totals :=
          upsert (sc_id schedule) (saturating_add_i64 tot n, format_time (dt_utc now)) (db_schedule_totals db)\<rparr>)"
    if "0 \<le> n" "\<not> dt_utc now \<le> parse_time acc" for n
    using totals_write [OF assms(1), of "saturating_add_i64 tot n" "sc_id schedule" "format_time (dt_utc now)"]
      saturating_add_grows [OF b that(1)] b that Some row format_time_le_iff by auto
  show ?thesis
    using assms(2) Some row assms(1) step [OF nonneg]
    by (auto simp: sync_schedule_total_def db_bind_apply query_def exec_def Let_def
      split: option.splits if_splits sum.splits)
qed

lemma fold_days_invariant:
  "fold_days L f final_date date s = Inr s' \<Longrightarrow> (\<And>d s s'. P s \<Longrightarrow> f d s = Inr s' \<Longrightarrow> P s') \<Longrightarrow> P s \<Longrightarrow> P s'"
proof (induction L f final_date date s rule: fold_days.induct)
  case (1 L f final_date date s)
  show ?case
  proof (cases "date \<le> final_date")
    case True
    then obtain x where x: "f date s = Inr x"
      and rest: "(case succ_opt L date of None \<Rightarrow> Inr x | Some d \<Rightarrow> fold_days L f final_date d x) = Inr s'"
      using 1(2) by (auto simp: fold_days.simps [of L f final_date date] and_then_Inr_iff)
    have px: "P x" using 1(3) [OF 1(4) x] .
    show ?thesis
    proof (cases "succ_opt L date")
      case (Some d)
      then have "fold_days L f final_date d x = Inr s'" using rest by simp
      from 1(1) [OF True x Some this 1(3) px] show ?thesis .
    qed (use rest px in simp)
  next
    case False
    then show ?thesis using 1(2,4) by (simp add: fold_days.simps [of L f final_date date])
  qed
qed

lemma window_overlap_proper: "window_overlap L off start stop date w = Inr ivs \<Longrightarrow> proper ivs"
  by (auto simp: window_overlap_def and_then_Inr_iff Let_def split: if_splits option.splits)

lemma day_overlaps_proper: "day_overlaps L schedules off start stop date = Inr ivs \<Longrightarrow> proper ivs"
proof -
  assume "day_overlaps L schedules off start stop date = Inr ivs"
  then obtain found where "try_map (window_overlap L off start stop date) (concat (map sc_windows schedules)) = Inr found"
    and ivs: "ivs = concat found" by (auto simp: day_overlaps_def and_then_Inr_iff)
  then have "\<forall>x\<in>set found. proper x"
    by (auto simp: try_map_Inr_iff list_all2_conv_all_nth in_set_conv_nth dest!: window_overlap_proper)
  then show ?thesis by (auto simp: ivs proper_def)
qed

lemma schedule_active_seconds_range:
  assumes "schedule_active_seconds_between L schedule a b = Inr n"
  shows "0 \<le> n \<and> n \<le> i64_max"
proof (cases "dt_utc b \<le> dt_utc a")
  case False
  let ?f = "\<lambda>date tot. and_then (day_overlaps L [schedule] (dt_offset a) (dt_utc a) (dt_utc b) date)
      (\<lambda>intervals. Inr (merge_seconds intervals tot))"
  have "fold_days L ?f (day_number (local_nanos b)) (first_date L (dt_utc a) (dt_offset a)) 0 = Inr n"
    using False assms by (simp add: schedule_active_seconds_between_def)
  then show ?thesis
  proof (rule fold_days_invariant)
    show "0 \<le> s' \<and> s' \<le> i64_max" if "0 \<le> s \<and> s \<le> i64_max" "?f d s = Inr s'" for d s s'
      using that by (auto simp: and_then_Inr_iff intro!: merge_seconds_range intro: day_overlaps_proper)
    show "0 \<le> (0::int) \<and> 0 \<le> i64_max" by (simp add: i64_max_def)
  qed
qed (use assms in \<open>auto simp: schedule_active_seconds_between_def i64_max_def\<close>)

lemma sync_totals_grow:
  "totals_ok db \<Longrightarrow> db_map (sync_schedule_total L now) schedules db = (r, db') \<Longrightarrow> totals_ok db' \<and> totals_grow db db'"
proof (induction schedules arbitrary: db r db')
  case (Cons s ss)
  obtain r1 db1 where 1: "sync_schedule_total L now s db = (r1, db1)" by fastforce
  have g: "totals_ok db1 \<and> totals_grow db db1"
    using sync_schedule_total_grows [OF Cons.prems(1) 1] schedule_active_seconds_range by blast
  obtain r2 db2 where 2: "db_map (sync_schedule_total L now) ss db1 = (r2, db2)" by fastforce
  have "totals_ok db2 \<and> totals_grow db1 db2" using Cons.IH 2 g by blast
  then show ?case using Cons.prems(2) 1 2 g totals_grow_trans
    by (auto simp: db_bind_apply split: sum.splits)
qed simp

text \<open>
  The stored totals of schedule activity only ever grow: whatever schedules are synchronised, at
  whatever time, and whether or not the operation succeeds, no total and no accounting time goes
  back, and the totals stay non-negative 64-bit values.
\<close>

lemma schedule_totals_never_decrease:
  assumes "totals_ok db" "sync_schedule_activity_totals L schedules now db = (r, db')"
  shows "totals_ok db' \<and> totals_grow db db'"
proof -
  obtain r1 db1 where 1: "db_map (sync_schedule_total L now) schedules db = (r1, db1)" by fastforce
  then have "totals_ok db1 \<and> totals_grow db db1" using sync_totals_grow assms(1) by blast
  then show ?thesis using assms 1
    by (auto simp: sync_schedule_activity_totals_def transaction_def split: option.splits sum.splits)
qed

text \<open>A database without rows whose statements do not fail.\<close>

definition empty_policy_tables :: policy_tables where
  "empty_policy_tables = \<lparr>pt_defaults = None, pt_strict_mode = None, pt_allowances = [], pt_schedules = [], pt_windows = [],
     pt_site_lists = [], pt_site_patterns = [], pt_site_schedules = [], pt_app_rules = [],
     pt_app_matchers = [], pt_app_schedules = []\<rparr>"

definition empty_database :: database where
  "empty_database = \<lparr>db_fault = (\<lambda>_. None), db_log_fault = None, db_seq = (\<lambda>_. 0), db_unlocks = [],
     db_unlock_targets = [], db_visits = [], db_app_usage = [], db_events = [], db_event_totals = [],
     db_diagnostic_ids = [], db_event_log = None, db_preferences = None, db_outbox = [], db_attempts = [],
     db_allowance_states = [], db_lifecycle = [], db_schedule_totals = [], db_heartbeats = [],
     db_service_state = [], db_detox_sessions = [], db_detox_site_rules = [], db_detox_app_rules = [],
     db_policy = empty_policy_tables\<rparr>"

lemma empty_database_no_faults [simp]: "no_faults empty_database"
  by (simp add: no_faults_def empty_database_def)

definition night_totals :: database where
  "night_totals = empty_database\<lparr>db_schedule_totals := [(''night'', 0, format_time tuesday_eight)]\<rparr>"

lemma schedule_totals_never_decrease_witness:
  "totals_ok (snd (sync_schedule_activity_totals sample_lib [night_schedule] (at_offset 0 tuesday_eight) night_totals))"
proof -
  have ok: "totals_ok night_totals" by (simp add: totals_ok_def night_totals_def i64_max_def)
  obtain r db' where r: "sync_schedule_activity_totals sample_lib [night_schedule] (at_offset 0 tuesday_eight) night_totals
     = (r, db')" by fastforce
  show ?thesis using schedule_totals_never_decrease [OF ok r] r by simp
qed

end
