(* ===== verification/Events.thy ===== *)
theory Events imports Keyed begin

text \<open>
  The event log of \<^verbatim>\<open>focus-core/src/db.rs\<close>: an event is a row and a unit of the running total of its
  kind, written in one transaction, and a line of the log file once a file is named. Diagnostic
  events carry the id of their source and are recorded once; retention deletes old rows, the ids of
  their sources with them, and rewrites the file, while the totals stay.
\<close>

section \<open>Operations\<close>

definition insert_event ::
  "string \<Rightarrow> string option \<Rightarrow> event_details option \<Rightarrow> stamp \<Rightarrow> int operation" where
  "insert_event kind target details created_at =
     db_bind
       (exec ''events.insert'' (\<lambda>db.
          let ident = next_rowid EventIds db in
          Inr (ident, (bump_rowid EventIds db)\<lparr>db_events := db_events db @
            [\<lparr>ev_id = ident, ev_kind = kind, ev_target = target, ev_details = details,
              ev_created_at = created_at\<rparr>]\<rparr>)))
       (\<lambda>ident. db_bind
         (update_rows ''event_totals.upsert'' (\<lambda>db. db\<lparr>db_event_totals :=
            upsert kind (case map_of (db_event_totals db) kind of None \<Rightarrow> 1 | Some n \<Rightarrow> n + 1)
              (db_event_totals db)\<rparr>))
         (\<lambda>_. db_return ident))"

text \<open>A line that cannot be appended is reported on standard error and lost.\<close>

definition append_event_log ::
  "stamp \<Rightarrow> string \<Rightarrow> string option \<Rightarrow> event_details option \<Rightarrow> database \<Rightarrow> database" where
  "append_event_log created_at kind target details db =
     (case db_event_log db of
        None \<Rightarrow> db
      | Some lines \<Rightarrow>
          if db_log_fault db = None
          then db\<lparr>db_event_log := Some (lines @
            [\<lparr>ll_created_at = created_at, ll_kind = kind, ll_target = target, ll_details = details\<rparr>])\<rparr>
          else db)"

definition record_event ::
  "string \<Rightarrow> string option \<Rightarrow> event_details option \<Rightarrow> instant \<Rightarrow> int operation" where
  "record_event kind target details now =
     db_bind (transaction (insert_event kind target details (format_time now))) (\<lambda>ident db.
       (Inr ident, append_event_log (format_time now) kind target details db))"

definition record_diagnostic_event ::
  "string \<Rightarrow> string \<Rightarrow> string \<Rightarrow> instant \<Rightarrow> bool operation" where
  "record_diagnostic_event source_event_id component details now =
     (let created_at = format_time now; target = Some component; text = Some (Details details) in
      db_bind
        (transaction
          (db_bind (reading (query ''diagnostic_event_ids.select''
                      (\<lambda>db. map_of (db_diagnostic_ids db) source_event_id))) (\<lambda>duplicate.
             if duplicate \<noteq> None then db_return False
             else db_bind (insert_event ''runtime_diagnostic'' target text created_at) (\<lambda>event_id.
               db_bind (exec ''diagnostic_event_ids.insert'' (\<lambda>db.
                  if event_id \<in> fst ` snd ` set (db_diagnostic_ids db)
                  then Inl (ConstraintViolated ''diagnostic_event_ids.event_id'')
                  else Inr ((), db\<lparr>db_diagnostic_ids :=
                    db_diagnostic_ids db @ [(source_event_id, event_id, created_at)]\<rparr>)))
                 (\<lambda>_. db_return True)))))
        (\<lambda>recorded db.
          (Inr recorded,
           if recorded then append_event_log created_at ''runtime_diagnostic'' target text db else db)))"

record event_summary =
  es_total_events :: int
  es_event_counts :: "(string \<times> int) list"

definition event_summary :: "database \<Rightarrow> error + event_summary" where
  "event_summary = query ''event_totals.select'' (\<lambda>db.
     \<lparr>es_total_events = sum_list (map snd (db_event_totals db)),
      es_event_counts = sort_key fst (db_event_totals db)\<rparr>)"

definition line_of_event :: "event_row \<Rightarrow> log_line" where
  "line_of_event e = \<lparr>ll_created_at = ev_created_at e, ll_kind = ev_kind e, ll_target = ev_target e,
     ll_details = ev_details e\<rparr>"

definition event_log_snapshot :: "database \<Rightarrow> error + log_line list" where
  "event_log_snapshot = query ''events.select'' (\<lambda>db.
     map line_of_event (sort_key (\<lambda>e. (ev_created_at e, ev_id e)) (db_events db)))"

text \<open>\<open>ON DELETE CASCADE\<close>: the source ids of the deleted events go with them.\<close>

definition delete_events_before :: "stamp \<Rightarrow> database \<Rightarrow> database" where
  "delete_events_before cutoff db =
     (let kept = filter (\<lambda>e. \<not> ev_created_at e < cutoff) (db_events db);
          gone = ev_id ` set (filter (\<lambda>e. ev_created_at e < cutoff) (db_events db))
      in db\<lparr>db_events := kept,
            db_diagnostic_ids := filter (\<lambda>row. fst (snd row) \<notin> gone) (db_diagnostic_ids db)\<rparr>)"

definition rewrite_event_log :: "log_line list \<Rightarrow> unit operation" where
  "rewrite_event_log contents db =
     (case db_log_fault db of
        Some e \<Rightarrow> (Inl (ErrIo e), db)
      | None \<Rightarrow> (Inr (), db\<lparr>db_event_log := Some contents\<rparr>))"

definition enforce_event_retention :: "instant \<Rightarrow> int \<Rightarrow> nat operation" where
  "enforce_event_retention now retention =
     db_bind
       (exec ''events.delete'' (\<lambda>db.
          let cutoff = format_time (now - retention) in
          Inr (length (filter (\<lambda>e. ev_created_at e < cutoff) (db_events db)), delete_events_before cutoff db)))
       (\<lambda>deleted db.
         if db_event_log db = None then (Inr deleted, db)
         else db_bind (reading event_log_snapshot) (\<lambda>snapshot.
                db_bind (rewrite_event_log snapshot) (\<lambda>_. db_return deleted)) db)"

text \<open>\<open>initialize_event_totals\<close> of the migrations: the totals of the rows there are, once.\<close>

definition count_events :: "string \<Rightarrow> database \<Rightarrow> int" where
  "count_events kind db = int (length (filter (\<lambda>e. ev_kind e = kind) (db_events db)))"

definition initialize_event_totals :: "instant \<Rightarrow> unit operation" where
  "initialize_event_totals now =
     db_bind (reading (service_state ''event_totals_initialized'')) (\<lambda>initialized.
       if initialized \<noteq> None then db_return ()
       else transaction
         (db_bind (update_rows ''event_totals.initialize'' (\<lambda>db. db\<lparr>db_event_totals :=
             fold (\<lambda>kind. upsert kind (count_events kind db)) (remdups (map ev_kind (db_events db)))
               (db_event_totals db)\<rparr>))
           (\<lambda>_. exec ''service_state.insert'' (\<lambda>db.
             if map_of (db_service_state db) ''event_totals_initialized'' \<noteq> None
             then Inl (ConstraintViolated ''service_state.key'')
             else Inr ((), db\<lparr>db_service_state :=
               upsert ''event_totals_initialized'' (''1'', format_time now) (db_service_state db)\<rparr>)))))"

section \<open>The invariant of the event tables\<close>

text \<open>
  Row ids are fresh, the ids of diagnostic sources and the keys of the totals are unique and refer to
  rows that exist, and the total of a kind counts at least the rows of the kind.
\<close>

definition total_of :: "database \<Rightarrow> string \<Rightarrow> int" where
  "total_of db kind = (case map_of (db_event_totals db) kind of None \<Rightarrow> 0 | Some n \<Rightarrow> n)"

definition events_ok :: "database \<Rightarrow> bool" where
  "events_ok db \<longleftrightarrow>
     (\<forall>e\<in>set (db_events db). ev_id e \<le> db_seq db EventIds)
     \<and> distinct (map ev_id (db_events db))
     \<and> distinct (map fst (db_diagnostic_ids db))
     \<and> distinct (map (fst \<circ> snd) (db_diagnostic_ids db))
     \<and> fst ` snd ` set (db_diagnostic_ids db) \<subseteq> ev_id ` set (db_events db)
     \<and> distinct (map fst (db_event_totals db))
     \<and> (\<forall>kind. count_events kind db \<le> total_of db kind)"

definition event_added :: "string \<Rightarrow> string option \<Rightarrow> event_details option \<Rightarrow> stamp \<Rightarrow> database \<Rightarrow> database" where
  "event_added kind target details created_at db =
     (bump_rowid EventIds db)\<lparr>db_events := db_events db @
        [\<lparr>ev_id = next_rowid EventIds db, ev_kind = kind, ev_target = target, ev_details = details,
          ev_created_at = created_at\<rparr>],
      db_event_totals := upsert kind (total_of db kind + 1) (db_event_totals db)\<rparr>"

lemma insert_event_Inr:
  "insert_event kind target details t db = (Inr ident, db') \<longleftrightarrow>
     db_fault db ''events.insert'' = None \<and> db_fault db ''event_totals.upsert'' = None
     \<and> ident = next_rowid EventIds db \<and> db' = event_added kind target details t db"
  by (auto simp: insert_event_def db_bind_Inr exec_Inr update_rows_Inr event_added_def Let_def total_of_def
      bump_rowid_def add.commute split: option.splits)

lemma total_of_added [simp]:
  "total_of (event_added kind target details t db) k = total_of db k + (if k = kind then 1 else 0)"
  by (simp add: total_of_def event_added_def)

lemma event_added_ok: "events_ok db \<Longrightarrow> events_ok (event_added kind target details t db)"
  by (fastforce simp: events_ok_def event_added_def count_events_def bump_rowid_def next_rowid_def
      total_of_def distinct_upsert)

lemma append_event_log_frame [frame, simp]:
  "db_fault (append_event_log t k g d db) = db_fault db"
  "db_seq (append_event_log t k g d db) = db_seq db"
  "db_events (append_event_log t k g d db) = db_events db"
  "db_event_totals (append_event_log t k g d db) = db_event_totals db"
  "db_diagnostic_ids (append_event_log t k g d db) = db_diagnostic_ids db"
  "db_outbox (append_event_log t k g d db) = db_outbox db"
  "db_attempts (append_event_log t k g d db) = db_attempts db"
  by (auto simp: append_event_log_def split: option.splits)

lemma events_ok_append_log [simp]: "events_ok (append_event_log t k g d db) = events_ok db"
  by (simp add: events_ok_def count_events_def total_of_def)

lemma record_event_cases:
  assumes "record_event kind target details now db = (r, db')"
  obtains e where "r = Inl e" "db' = db"
  | "r = Inr (next_rowid EventIds db)"
    "db' = append_event_log (format_time now) kind target details
       (event_added kind target details (format_time now) db)"
proof (cases r)
  case (Inl e)
  then have "transaction (insert_event kind target details (format_time now)) db = (Inl e, db')"
    using assms by (auto simp: record_event_def db_bind_def split: prod.splits sum.splits)
  then show ?thesis using that Inl transaction_rollback by blast
next
  case (Inr i)
  then show ?thesis using assms that
    by (auto simp: record_event_def db_bind_Inr transaction_Inr insert_event_Inr)
qed

lemma length_filter_conj: "length (filter (\<lambda>x. Q x \<and> P x) xs) \<le> length (filter P xs)"
  by (induction xs) auto

lemma delete_events_ok: "events_ok db \<Longrightarrow> events_ok (delete_events_before cutoff db)"
proof -
  assume ok: "events_ok db"
  let ?db = "delete_events_before cutoff db"
  have c: "count_events k ?db \<le> count_events k db" for k
    by (simp add: count_events_def delete_events_before_def Let_def length_filter_conj)
  have t: "total_of ?db k = total_of db k" for k
    by (simp add: total_of_def delete_events_before_def Let_def)
  have "count_events k ?db \<le> total_of ?db k" for k
    using c [of k] t [of k] ok order_trans unfolding events_ok_def by metis
  moreover have "fst ` snd ` set (db_diagnostic_ids ?db) \<subseteq> ev_id ` set (db_events ?db)"
  proof
    fix x
    assume "x \<in> fst ` snd ` set (db_diagnostic_ids ?db)"
    then have x: "x \<in> fst ` snd ` set (db_diagnostic_ids db)"
      "x \<notin> ev_id ` {e \<in> set (db_events db). ev_created_at e < cutoff}"
      by (auto simp: delete_events_before_def Let_def)
    have "fst ` snd ` set (db_diagnostic_ids db) \<subseteq> ev_id ` set (db_events db)"
      using ok by (simp only: events_ok_def)
    then have "x \<in> ev_id ` set (db_events db)" using x(1) by (rule subsetD)
    then obtain e where "e \<in> set (db_events db)" "x = ev_id e" by blast
    then show "x \<in> ev_id ` set (db_events ?db)" using x(2) by (auto simp: delete_events_before_def Let_def)
  qed
  moreover have "(\<forall>e\<in>set (db_events ?db). ev_id e \<le> db_seq ?db EventIds) \<and> distinct (map ev_id (db_events ?db))
      \<and> distinct (map fst (db_diagnostic_ids ?db)) \<and> distinct (map (fst \<circ> snd) (db_diagnostic_ids ?db))
      \<and> distinct (map fst (db_event_totals ?db))"
    using ok by (simp add: events_ok_def delete_events_before_def Let_def distinct_map_filter)
  ultimately show ?thesis by (simp add: events_ok_def)
qed

lemma total_of_delete [simp]: "total_of (delete_events_before cutoff db) k = total_of db k"
  by (simp add: total_of_def delete_events_before_def Let_def)

lemma record_diagnostic_event_cases:
  assumes "record_diagnostic_event source component details now db = (r, db')"
  obtains "r \<noteq> Inr True" "db' = db" "r = Inr False \<Longrightarrow> source \<in> fst ` set (db_diagnostic_ids db)"
  | "r = Inr True" "source \<notin> fst ` set (db_diagnostic_ids db)"
    "db' = append_event_log (format_time now) ''runtime_diagnostic'' (Some component) (Some (Details details))
       ((event_added ''runtime_diagnostic'' (Some component) (Some (Details details)) (format_time now) db)
          \<lparr>db_diagnostic_ids := db_diagnostic_ids db @ [(source, next_rowid EventIds db, format_time now)]\<rparr>)"
proof -
  obtain r0 db0 where t: "transaction
       (db_bind (reading (query ''diagnostic_event_ids.select'' (\<lambda>db. map_of (db_diagnostic_ids db) source))) (\<lambda>duplicate.
          if duplicate \<noteq> None then db_return False
          else db_bind (insert_event ''runtime_diagnostic'' (Some component) (Some (Details details)) (format_time now))
            (\<lambda>event_id. db_bind (exec ''diagnostic_event_ids.insert'' (\<lambda>db.
               if event_id \<in> fst ` snd ` set (db_diagnostic_ids db)
               then Inl (ConstraintViolated ''diagnostic_event_ids.event_id'')
               else Inr ((), db\<lparr>db_diagnostic_ids :=
                 db_diagnostic_ids db @ [(source, event_id, format_time now)]\<rparr>)))
              (\<lambda>_. db_return True)))) db = (r0, db0)" (is "transaction ?m db = _") by fastforce
  show ?thesis
  proof (cases r0)
    case (Inl e)
    then have "r = Inl e" "db' = db"
      using assms t transaction_rollback by (auto simp: record_diagnostic_event_def Let_def db_bind_def)
    then show ?thesis using that by simp
  next
    case (Inr b)
    then have m: "?m db = (Inr b, db0)" using t by (simp add: transaction_Inr)
    have r: "r = Inr b" "db' = (if b then append_event_log (format_time now) ''runtime_diagnostic'' (Some component)
         (Some (Details details)) db0 else db0)"
      using assms t Inr by (auto simp: record_diagnostic_event_def Let_def db_bind_def)
    show ?thesis
    proof (cases "map_of (db_diagnostic_ids db) source")
      case None
      then have "source \<notin> fst ` set (db_diagnostic_ids db)" by (simp add: map_of_eq_None_iff)
      then show ?thesis using m r that None
        by (auto simp: db_bind_Inr exec_Inr insert_event_Inr query_Inr event_added_def bump_rowid_def
            split: if_splits)
    next
      case (Some row)
      then have "source \<in> fst ` set (db_diagnostic_ids db)" by (force dest: map_of_SomeD)
      then show ?thesis using m r that Some by (auto simp: db_bind_Inr query_Inr split: if_splits)
    qed
  qed
qed

lemma diagnostic_added_ok:
  assumes "events_ok db" "source \<notin> fst ` set (db_diagnostic_ids db)"
  shows "events_ok ((event_added k t d now db)
     \<lparr>db_diagnostic_ids := db_diagnostic_ids db @ [(source, next_rowid EventIds db, now)]\<rparr>)"
proof -
  have "next_rowid EventIds db \<notin> fst ` snd ` set (db_diagnostic_ids db)"
    using assms(1) by (fastforce simp: events_ok_def next_rowid_def)
  then show ?thesis
    using event_added_ok [OF assms(1), of k t d now] assms
    by (fastforce simp: events_ok_def event_added_def count_events_def total_of_def bump_rowid_def image_image)
qed

lemma delete_events_log: "(delete_events_before cutoff db)\<lparr>db_event_log := db_event_log db\<rparr> = delete_events_before cutoff db"
  by (simp add: delete_events_before_def Let_def)

lemma enforce_event_retention_cases:
  assumes "enforce_event_retention now retention db = (r, db')"
  obtains e where "db' = db" "r = Inl e"
  | lines where "db' = (delete_events_before (format_time (now - retention)) db)\<lparr>db_event_log := lines\<rparr>"
proof -
  let ?d = "delete_events_before (format_time (now - retention)) db"
  have "db' = db \<and> (\<exists>e. r = Inl e) \<or> db' = ?d \<or> (\<exists>lines. db' = ?d\<lparr>db_event_log := lines\<rparr>)"
    using assms
    by (auto simp: enforce_event_retention_def db_bind_apply exec_def Let_def rewrite_event_log_def
      split: option.splits if_splits sum.splits)
  then show ?thesis using that delete_events_log by metis
qed

section \<open>Histories\<close>

text \<open>
  A run of the event operations, with the kinds of the events recorded on the way: operations may
  fail, diagnostics may be duplicates, and retention may run in between.
\<close>

inductive event_run :: "database \<Rightarrow> string list \<Rightarrow> database \<Rightarrow> bool" where
  run_done: "event_run db [] db"
| run_record: "record_event kind target details now db = (Inr ident, db1) \<Longrightarrow> event_run db1 kinds db2
    \<Longrightarrow> event_run db (kind # kinds) db2"
| run_record_failed: "record_event kind target details now db = (Inl e, db1) \<Longrightarrow> event_run db1 kinds db2
    \<Longrightarrow> event_run db kinds db2"
| run_diagnostic: "record_diagnostic_event source component detail now db = (Inr True, db1)
    \<Longrightarrow> event_run db1 kinds db2 \<Longrightarrow> event_run db (''runtime_diagnostic'' # kinds) db2"
| run_diagnostic_skipped: "record_diagnostic_event source component detail now db = (r, db1) \<Longrightarrow> r \<noteq> Inr True
    \<Longrightarrow> event_run db1 kinds db2 \<Longrightarrow> event_run db kinds db2"
| run_retention: "enforce_event_retention now retention db = (r, db1) \<Longrightarrow> event_run db1 kinds db2
    \<Longrightarrow> event_run db kinds db2"

inductive_cases event_run_Nil: "event_run db [] db'"

lemma events_ok_log [simp]: "events_ok (db\<lparr>db_event_log := l\<rparr>) = events_ok db"
  by (simp add: events_ok_def count_events_def total_of_def)

lemma total_of_frame [simp]:
  "total_of (db\<lparr>db_event_log := l\<rparr>) k = total_of db k"
  "total_of (append_event_log t kd g d db) k = total_of db k"
  "total_of (db\<lparr>db_diagnostic_ids := x\<rparr>) k = total_of db k"
  by (simp_all add: total_of_def)

lemma record_event_step:
  "record_event kind target details now db = (r, db') \<Longrightarrow> events_ok db \<Longrightarrow>
     events_ok db' \<and> (\<forall>k. total_of db' k = total_of db k + (if r \<in> range Inr \<and> k = kind then 1 else 0))"
  by (erule record_event_cases) (auto simp: event_added_ok)

lemma record_diagnostic_step:
  "record_diagnostic_event source component detail now db = (r, db') \<Longrightarrow> events_ok db \<Longrightarrow>
     events_ok db' \<and> (\<forall>k. total_of db' k = total_of db k + (if r = Inr True \<and> k = ''runtime_diagnostic'' then 1 else 0))"
  by (erule record_diagnostic_event_cases) (auto simp: diagnostic_added_ok)

lemma retention_step:
  "enforce_event_retention now retention db = (r, db') \<Longrightarrow> events_ok db \<Longrightarrow>
     events_ok db' \<and> (\<forall>k. total_of db' k = total_of db k)"
  by (erule enforce_event_retention_cases) (auto simp: delete_events_ok)

text \<open>
  All-time totals: over any run of recordings, duplicates, failures and retention, the total of
  a kind grows by exactly the number of events of the kind that were recorded, and the event tables
  stay well formed (fresh ids, unique diagnostic sources that refer to rows that exist, totals that
  count at least the rows left).
\<close>

lemma event_totals_count_recorded_events:
  assumes "event_run db kinds db'" "events_ok db"
  shows "events_ok db' \<and> (\<forall>kind. total_of db' kind = total_of db kind + int (count_list kinds kind))"
  using assms
proof (induction rule: event_run.induct)
  case (run_record kind target details now db ident db1 kinds db2)
  then show ?case using record_event_step [OF run_record.hyps(1)] by auto
next
  case (run_record_failed kind target details now db e db1 kinds db2)
  then show ?case using record_event_step [OF run_record_failed.hyps(1)] by auto
next
  case (run_diagnostic source component detail now db db1 kinds db2)
  then show ?case using record_diagnostic_step [OF run_diagnostic.hyps(1)] by auto
next
  case (run_diagnostic_skipped source component detail now db r db1 kinds db2)
  then show ?case using record_diagnostic_step [OF run_diagnostic_skipped.hyps(1)] by auto
next
  case (run_retention now retention db r db1 kinds db2)
  then show ?case using retention_step [OF run_retention.hyps(1)] by auto
qed simp

lemma empty_events_ok [simp]: "events_ok empty_database"
  by (simp add: events_ok_def empty_database_def count_events_def total_of_def)

lemma empty_total [simp]: "total_of empty_database kind = 0"
  by (simp add: empty_database_def total_of_def)

lemma event_totals_count_recorded_events_witness:
  "total_of (snd (enforce_event_retention 9000 1000
     (snd (record_event ''unlock'' None None 5000 empty_database)))) ''unlock'' = 1"
proof -
  obtain r1 db1 where 1: "record_event ''unlock'' None None 5000 empty_database = (r1, db1)" by fastforce
  then have r1: "r1 = Inr 1"
    by (simp add: record_event_def db_bind_def transaction_def insert_event_def exec_def update_rows_def
        empty_database_def next_rowid_def bump_rowid_def Let_def)
  obtain r2 db2 where 2: "enforce_event_retention 9000 1000 db1 = (r2, db2)" by fastforce
  have "event_run empty_database [''unlock''] db2"
    using run_record [OF 1 [unfolded r1] run_retention [OF 2 run_done]] .
  from event_totals_count_recorded_events [OF this] have "total_of db2 ''unlock'' = 1" by simp
  then show ?thesis using 1 2 by simp
qed

text \<open>
  A diagnostic event is recorded once per source id: recording an id again while the first
  record is kept reports a duplicate, or fails, and leaves the database as it was.
\<close>

lemma diagnostic_event_recorded_once:
  assumes "events_ok db"
    and "record_diagnostic_event source component detail now db = (Inr True, db1)"
    and "record_diagnostic_event source component' detail' now' db1 = (r, db2)"
  shows "r \<noteq> Inr True \<and> db2 = db1 \<and> source \<in> fst ` set (db_diagnostic_ids db1)"
proof -
  have src: "source \<in> fst ` set (db_diagnostic_ids db1)"
    using assms(2) by (rule record_diagnostic_event_cases) (auto simp: image_iff)
  show ?thesis using assms(3) by (rule record_diagnostic_event_cases) (use src in auto)
qed

lemma diagnostic_event_recorded_once_witness:
  "fst (record_diagnostic_event ''boot-1'' ''focusd'' ''ok'' 8000
     (snd (record_diagnostic_event ''boot-1'' ''focusd'' ''ok'' 5000 empty_database))) \<noteq> Inr True"
proof -
  obtain r1 db1 where 1: "record_diagnostic_event ''boot-1'' ''focusd'' ''ok'' 5000 empty_database = (r1, db1)"
    by fastforce
  then have r1: "r1 = Inr True"
    by (simp add: record_diagnostic_event_def db_bind_def transaction_def insert_event_def exec_def update_rows_def
        query_def empty_database_def next_rowid_def bump_rowid_def Let_def)
  obtain r2 db2 where 2: "record_diagnostic_event ''boot-1'' ''focusd'' ''ok'' 8000 db1 = (r2, db2)" by fastforce
  show ?thesis using diagnostic_event_recorded_once [OF empty_events_ok 1 [unfolded r1] 2] 1 2 by simp
qed

end
