(* ===== verification/Notifications.thy ===== *)
theory Notifications imports Events begin

text \<open>
  The notification outbox of \<^verbatim>\<open>focus-core/src/db.rs\<close>: preferences, queueing with a cooldown on a
  deduplication key, the pending list a desktop client polls, acknowledgement, and the attempts of
  failed deliveries. A row leaves the pending list when it is delivered, discarded or expired.
\<close>

section \<open>Preferences\<close>

record notification_preferences =
  np_enabled :: bool
  np_website_blocked :: bool
  np_application_blocked :: bool
  np_allowance_warnings :: bool
  np_allowance_warning_minutes :: "u32 list"
  np_schedule_started :: bool
  np_schedule_ended :: bool
  np_detox_started :: bool
  np_detox_ended :: bool

definition default_notification_preferences :: notification_preferences where
  "default_notification_preferences =
     \<lparr>np_enabled = True, np_website_blocked = True, np_application_blocked = True,
      np_allowance_warnings = True, np_allowance_warning_minutes = [5, 1], np_schedule_started = True,
      np_schedule_ended = True, np_detox_started = True, np_detox_ended = True\<rparr>"

definition parse_u32 :: "string \<Rightarrow> u32 option" where
  "parse_u32 s = map_option of_nat (parse_unsigned 4294967295 s)"

definition parse_thresholds :: "string \<Rightarrow> u32 list" where
  "parse_thresholds s = filter (\<lambda>v. v > 0) (filter_map parse_u32 (split_on CHR '','' s))"

definition load_preferences :: "preferences_row option \<Rightarrow> notification_preferences" where
  "load_preferences stored =
     (case stored of
        None \<Rightarrow> default_notification_preferences
      | Some row \<Rightarrow>
          \<lparr>np_enabled = pr_enabled row, np_website_blocked = pr_website_blocked row,
           np_application_blocked = pr_application_blocked row,
           np_allowance_warnings = pr_allowance_warnings row,
           np_allowance_warning_minutes = parse_thresholds (pr_allowance_warning_minutes row),
           np_schedule_started = pr_schedule_started row, np_schedule_ended = pr_schedule_ended row,
           np_detox_started = pr_detox_started row, np_detox_ended = pr_detox_ended row\<rparr>)"

definition notification_preferences :: "database \<Rightarrow> error + notification_preferences" where
  "notification_preferences =
     query ''notification_preferences.select'' (\<lambda>db. load_preferences (db_preferences db))"

definition preferences_row_of :: "notification_preferences \<Rightarrow> preferences_row" where
  "preferences_row_of p =
     \<lparr>pr_enabled = np_enabled p, pr_website_blocked = np_website_blocked p,
      pr_application_blocked = np_application_blocked p, pr_allowance_warnings = np_allowance_warnings p,
      pr_allowance_warning_minutes = join '','' (map (\<lambda>m. show_nat (unat m)) (np_allowance_warning_minutes p)),
      pr_schedule_started = np_schedule_started p, pr_schedule_ended = np_schedule_ended p,
      pr_detox_started = np_detox_started p, pr_detox_ended = np_detox_ended p\<rparr>"

definition set_notification_preferences :: "notification_preferences \<Rightarrow> unit operation" where
  "set_notification_preferences p =
     update_rows ''notification_preferences.upsert'' (\<lambda>db. db\<lparr>db_preferences := Some (preferences_row_of p)\<rparr>)"

section \<open>The outbox\<close>

definition deliver_rows :: "stamp \<Rightarrow> (outbox_row \<Rightarrow> bool) \<Rightarrow> database \<Rightarrow> database" where
  "deliver_rows delivered_at P db =
     db\<lparr>db_outbox := map (\<lambda>row. if ob_delivered_at row = None \<and> P row
                               then row\<lparr>ob_delivered_at := Some delivered_at\<rparr> else row) (db_outbox db)\<rparr>"

text \<open>Deleting a row deletes its delivery attempts.\<close>

definition delete_outbox :: "(outbox_row \<Rightarrow> bool) \<Rightarrow> database \<Rightarrow> database" where
  "delete_outbox P db =
     db\<lparr>db_outbox := filter (\<lambda>row. \<not> P row) (db_outbox db),
        db_attempts := filter (\<lambda>a. at_notification_id a \<notin> ob_id ` set (filter P (db_outbox db))) (db_attempts db)\<rparr>"

definition disabled_kinds :: "notification_preferences \<Rightarrow> string list" where
  "disabled_kinds p =
     concat (map (\<lambda>(enabled, kind). if enabled then [] else [kind])
       [(np_website_blocked p, ''website_blocked''), (np_application_blocked p, ''application_blocked''),
        (np_allowance_warnings p, ''allowance_warning''), (np_schedule_started p, ''schedule_started''),
        (np_schedule_ended p, ''schedule_ended''), (np_detox_started p, ''detox_started''),
        (np_detox_ended p, ''detox_ended'')])"

definition discard_disabled_notifications :: "notification_preferences \<Rightarrow> instant \<Rightarrow> unit operation" where
  "discard_disabled_notifications preferences now =
     (if \<not> np_enabled preferences
      then update_rows ''notification_outbox.discard_all'' (deliver_rows (format_time now) (\<lambda>_. True))
      else db_for (disabled_kinds preferences) (\<lambda>kind.
             update_rows ''notification_outbox.discard_kind''
               (deliver_rows (format_time now) (\<lambda>row. ob_kind row = kind))))"

definition show_id :: "int \<Rightarrow> string" where
  "show_id i = (if i < 0 then CHR ''-'' # show_nat (nat (- i)) else show_nat (nat i))"

definition enqueue_notification ::
  "string \<Rightarrow> string \<Rightarrow> string \<Rightarrow> string \<Rightarrow> instant \<Rightarrow> int \<Rightarrow> int \<Rightarrow> int option operation" where
  "enqueue_notification kind title body dedupe_key now cooldown time_to_live =
     db_bind (reading (query ''notification_outbox.select_duplicate'' (\<lambda>db.
         find (\<lambda>row. ob_dedupe_key row = dedupe_key \<and> ob_created_at row \<ge> format_time (now - cooldown))
           (rev (db_outbox db))))) (\<lambda>existing.
       if existing \<noteq> None then db_return None
       else db_bind
         (exec ''notification_outbox.insert'' (\<lambda>db.
            let ident = next_rowid OutboxIds db in
            Inr (ident, (bump_rowid OutboxIds db)\<lparr>db_outbox := db_outbox db @
              [\<lparr>ob_id = ident, ob_kind = kind, ob_title = title, ob_body = body, ob_dedupe_key = dedupe_key,
                ob_created_at = format_time now, ob_expires_at = format_time (now + time_to_live),
                ob_delivered_at = None\<rparr>]\<rparr>)))
         (\<lambda>ident. db_bind
            (record_event ''notification_queued'' (Some (kind @ '':'' @ show_id ident))
               (Some (QueuedDetails title body (format_time (now + time_to_live)))) now)
            (\<lambda>_. db_return (Some ident))))"

definition is_block_kind :: "string \<Rightarrow> bool" where
  "is_block_kind kind \<longleftrightarrow> kind \<in> {''website_blocked'', ''application_blocked''}"

definition discard_historical_block_notifications :: "instant \<Rightarrow> instant \<Rightarrow> nat operation" where
  "discard_historical_block_notifications before now =
     exec ''notification_outbox.discard_historical'' (\<lambda>db.
       let P = (\<lambda>row. is_block_kind (ob_kind row) \<and> ob_created_at row < format_time before)
       in Inr (length (filter (\<lambda>row. ob_delivered_at row = None \<and> P row) (db_outbox db)),
               deliver_rows (format_time now) P db))"

record notification_event =
  ne_id :: int
  ne_kind :: string
  ne_title :: string
  ne_body :: string
  ne_created_at :: instant
  ne_expires_at :: instant

definition event_of_row :: "outbox_row \<Rightarrow> notification_event" where
  "event_of_row row = \<lparr>ne_id = ob_id row, ne_kind = ob_kind row, ne_title = ob_title row, ne_body = ob_body row,
     ne_created_at = parse_time (ob_created_at row), ne_expires_at = parse_time (ob_expires_at row)\<rparr>"

definition last_attempt :: "database \<Rightarrow> int \<Rightarrow> stamp option" where
  "last_attempt db ident =
     map_option at_last_attempt_at (find (\<lambda>a. at_notification_id a = ident) (db_attempts db))"

definition is_pending :: "instant \<Rightarrow> database \<Rightarrow> outbox_row \<Rightarrow> bool" where
  "is_pending now db row \<longleftrightarrow>
     ob_delivered_at row = None \<and> ob_expires_at row > format_time now
     \<and> (case last_attempt db (ob_id row) of
          None \<Rightarrow> True
        | Some at \<Rightarrow> at \<le> format_time (now - nanos_per_minute))"

definition select_pending :: "instant \<Rightarrow> u32 \<Rightarrow> database \<Rightarrow> notification_event list" where
  "select_pending now limit db =
     map event_of_row (take (unat limit) (sort_key ob_id (filter (is_pending now db) (db_outbox db))))"

definition pending_notifications :: "instant \<Rightarrow> u32 \<Rightarrow> notification_event list operation" where
  "pending_notifications now limit =
     db_bind (discard_historical_block_notifications (now - 60 * nanos_per_second) now) (\<lambda>_.
     db_bind (update_rows ''notification_outbox.delete_expired''
                (delete_outbox (\<lambda>row. ob_delivered_at row = None \<and> ob_expires_at row \<le> format_time now))) (\<lambda>_.
     db_bind (update_rows ''notification_outbox.delete_delivered''
                (delete_outbox (\<lambda>row. case ob_delivered_at row of
                    None \<Rightarrow> False
                  | Some at \<Rightarrow> at \<le> format_time (now - 7 * nanos_per_day)))) (\<lambda>_.
       reading (query ''notification_outbox.select_pending'' (select_pending now limit)))))"

definition acknowledge_notifications :: "int list \<Rightarrow> instant \<Rightarrow> unit operation" where
  "acknowledge_notifications ids now =
     transaction (db_for ids (\<lambda>ident.
       update_rows ''notification_outbox.acknowledge'' (deliver_rows (format_time now) (\<lambda>row. ob_id row = ident))))"

text \<open>A failed delivery adds one to the attempts of the notification.\<close>

definition count_attempt :: "int \<Rightarrow> stamp \<Rightarrow> string option \<Rightarrow> attempt_row list \<Rightarrow> attempt_row list" where
  "count_attempt ident now detail rows =
     (if ident \<in> at_notification_id ` set rows
      then map (\<lambda>a. if at_notification_id a = ident
                    then a\<lparr>at_attempt_count := at_attempt_count a + 1, at_last_attempt_at := now,
                           at_last_error := detail\<rparr>
                    else a) rows
      else rows @ [\<lparr>at_notification_id = ident, at_attempt_count = 1, at_last_attempt_at = now,
                    at_last_error = detail\<rparr>])"

definition attempt_count :: "int \<Rightarrow> database \<Rightarrow> int option" where
  "attempt_count ident db =
     map_option at_attempt_count (find (\<lambda>a. at_notification_id a = ident) (db_attempts db))"

definition record_notification_delivery_result ::
  "int \<Rightarrow> bool \<Rightarrow> string option \<Rightarrow> instant \<Rightarrow> bool operation" where
  "record_notification_delivery_result ident delivered detail now =
     db_bind (reading (query ''notification_outbox.select'' (\<lambda>db.
         find (\<lambda>row. ob_id row = ident) (db_outbox db)))) (\<lambda>notification.
       case notification of
         None \<Rightarrow> db_return False
       | Some row \<Rightarrow>
           db_bind
             (if delivered
              then db_bind (reading (query ''notification_delivery_attempts.select'' (attempt_count ident)))
                     (\<lambda>previous. db_bind (acknowledge_notifications [ident] now) (\<lambda>_.
                        db_bind (update_rows ''notification_delivery_attempts.delete'' (\<lambda>db. db\<lparr>db_attempts :=
                            filter (\<lambda>a. at_notification_id a \<noteq> ident) (db_attempts db)\<rparr>))
                          (\<lambda>_. db_return ((case previous of None \<Rightarrow> 0 | Some n \<Rightarrow> n) + 1))))
              else db_bind (update_rows ''notification_delivery_attempts.upsert'' (\<lambda>db. db\<lparr>db_attempts :=
                       count_attempt ident (format_time now) detail (db_attempts db)\<rparr>))
                     (\<lambda>_. db_bind (reading (query ''notification_delivery_attempts.select_count'' (attempt_count ident)))
                       (\<lambda>n. case n of None \<Rightarrow> db_fail (ErrDatabase NoRow) | Some n \<Rightarrow> db_return n)))
             (\<lambda>attempt. db_bind
               (record_event
                  (if delivered then ''notification_accepted'' else ''notification_delivery_failed'')
                  (Some (ob_kind row @ '':'' @ show_id ident))
                  (Some (DeliveryDetails attempt (ob_title row) (ob_body row)
                     (case detail of
                        Some d \<Rightarrow> d
                      | None \<Rightarrow> if delivered then ''accepted by desktop notification service''
                                else ''no error detail supplied''))) now)
               (\<lambda>_. db_return True)))"

section \<open>Preferences read back\<close>

lemma parse_u32_show: "parse_u32 (show_nat (unat (m :: u32))) = Some m"
proof -
  have "unat m < 2 ^ 32" using unsigned_less [of m] by simp
  then have "unat m \<le> 4294967295" by simp
  then show ?thesis by (simp add: parse_u32_def parse_show_nat)
qed

lemma filter_map_parse_show: "filter_map parse_u32 (map (\<lambda>m. show_nat (unat (m :: u32))) ms) = ms"
  by (induction ms) (auto simp: parse_u32_show)

lemma comma_show_nat [simp]: "CHR '','' \<notin> set (show_nat n)"
  using show_nat_digits comma_not_digit by blast

lemma parse_thresholds_join:
  "parse_thresholds (join '','' (map (\<lambda>m. show_nat (unat m)) ms)) = filter (\<lambda>m. m > 0) ms"
proof (cases ms)
  case Nil
  then show ?thesis by (simp add: parse_thresholds_def parse_u32_def parse_unsigned_def)
next
  case (Cons m rest)
  have "split_on CHR '','' (join '','' (map (\<lambda>m. show_nat (unat m)) ms)) = map (\<lambda>m. show_nat (unat m)) ms"
    by (rule split_on_join) (use Cons in auto)
  then show ?thesis by (simp add: parse_thresholds_def filter_map_parse_show)
qed

text \<open>
  Preferences survive the store: what is read back after a successful write is what was written,
  except that warning thresholds of zero minutes are dropped.
\<close>

lemma preferences_roundtrip:
  assumes "set_notification_preferences p db = (Inr (), db')"
    and "db_fault db ''notification_preferences.select'' = None"
  shows "notification_preferences db' =
    Inr (p\<lparr>np_allowance_warning_minutes := filter (\<lambda>m. m > 0) (np_allowance_warning_minutes p)\<rparr>)"
  using assms
  by (auto simp: set_notification_preferences_def update_rows_Inr notification_preferences_def load_preferences_def
      preferences_row_of_def parse_thresholds_join)

lemma preferences_roundtrip_witness:
  "notification_preferences (snd (set_notification_preferences default_notification_preferences empty_database))
     = Inr default_notification_preferences"
proof -
  have "set_notification_preferences default_notification_preferences empty_database
      = (Inr (), empty_database\<lparr>db_preferences := Some (preferences_row_of default_notification_preferences)\<rparr>)"
    by (simp add: set_notification_preferences_def)
  from preferences_roundtrip [OF this] show ?thesis
    by (simp add: set_notification_preferences_def default_notification_preferences_def)
qed

section \<open>Delivered once\<close>

text \<open>
  A notification id that was issued and is not pending any more: its row is delivered or gone.
\<close>

definition settled :: "int \<Rightarrow> database \<Rightarrow> bool" where
  "settled ident db \<longleftrightarrow>
     ident \<le> db_seq db OutboxIds
     \<and> (\<forall>row\<in>set (db_outbox db). ob_id row = ident \<longrightarrow> ob_delivered_at row \<noteq> None)"

lemma settled_deliver [simp]: "settled ident db \<Longrightarrow> settled ident (deliver_rows t P db)"
  by (auto simp: settled_def deliver_rows_def)

lemma settled_delete [simp]: "settled ident db \<Longrightarrow> settled ident (delete_outbox P db)"
  by (auto simp: settled_def delete_outbox_def)

lemma settled_frame [simp]:
  "settled ident (db\<lparr>db_attempts := a\<rparr>) = settled ident db"
  "settled ident (append_event_log t k g d db) = settled ident db"
  by (simp_all add: settled_def)

lemma event_added_outbox [frame, simp]:
  "db_outbox (event_added k t d now db) = db_outbox db"
  "db_attempts (event_added k t d now db) = db_attempts db"
  "db_fault (event_added k t d now db) = db_fault db"
  "db_seq (event_added k t d now db) OutboxIds = db_seq db OutboxIds"
  by (simp_all add: event_added_def bump_rowid_def)

lemma keeps_settled_record_event: "keeps (settled ident) (record_event kind target details now)"
  unfolding keeps_def
proof (intro allI impI)
  fix db
  assume s: "settled ident db"
  obtain r db' where e: "record_event kind target details now db = (r, db')" by fastforce
  from e have "settled ident db'" by (rule record_event_cases) (use s in \<open>auto simp: settled_def\<close>)
  then show "settled ident (snd (record_event kind target details now db))" using e by simp
qed

lemma keeps_settled_enqueue: "keeps (settled ident) (enqueue_notification kind title body key now cooldown ttl)"
  unfolding enqueue_notification_def
  by (intro keeps_rules keeps_settled_record_event keeps_exec | simp split del: if_split | rule keeps_reading keeps_return)+
     (auto simp: settled_def bump_rowid_def next_rowid_def Let_def split: if_splits
       intro!: keeps_rules keeps_exec keeps_settled_record_event)

lemma keeps_settled_acknowledge: "keeps (settled ident) (acknowledge_notifications ids now)"
  unfolding acknowledge_notifications_def by (intro keeps_rules) simp

lemma keeps_settled_discard_disabled: "keeps (settled ident) (discard_disabled_notifications p now)"
  unfolding discard_disabled_notifications_def by (auto intro!: keeps_rules)

lemma keeps_settled_discard_historical: "keeps (settled ident) (discard_historical_block_notifications before now)"
  unfolding discard_historical_block_notifications_def by (auto intro!: keeps_exec simp: Let_def)

lemma keeps_settled_pending: "keeps (settled ident) (pending_notifications now limit)"
  unfolding pending_notifications_def
  by (intro keeps_rules keeps_settled_discard_historical keeps_reading) simp_all

lemma keeps_settled_delivery: "keeps (settled ident) (record_notification_delivery_result i delivered detail now)"
  unfolding record_notification_delivery_result_def
  by (auto intro!: keeps_rules keeps_settled_acknowledge keeps_settled_record_event split: option.splits)

text \<open>Any sequence of the operations on the outbox, successful or not.\<close>

inductive outbox_run :: "database \<Rightarrow> database \<Rightarrow> bool" where
  outbox_done: "outbox_run db db"
| outbox_enqueue: "outbox_run db db1
    \<Longrightarrow> outbox_run db (snd (enqueue_notification kind title body key now cooldown ttl db1))"
| outbox_pending: "outbox_run db db1 \<Longrightarrow> outbox_run db (snd (pending_notifications now limit db1))"
| outbox_acknowledge: "outbox_run db db1 \<Longrightarrow> outbox_run db (snd (acknowledge_notifications ids now db1))"
| outbox_delivery: "outbox_run db db1
    \<Longrightarrow> outbox_run db (snd (record_notification_delivery_result i delivered detail now db1))"
| outbox_disabled: "outbox_run db db1 \<Longrightarrow> outbox_run db (snd (discard_disabled_notifications p now db1))"
| outbox_historical: "outbox_run db db1
    \<Longrightarrow> outbox_run db (snd (discard_historical_block_notifications before now db1))"
| outbox_event: "outbox_run db db1 \<Longrightarrow> outbox_run db (snd (record_event kind target details now db1))"

lemma outbox_run_settled: "outbox_run db db' \<Longrightarrow> settled ident db \<Longrightarrow> settled ident db'"
  by (induction rule: outbox_run.induct)
     (auto intro: keeps_settled_enqueue [unfolded keeps_def, rule_format]
        keeps_settled_pending [unfolded keeps_def, rule_format]
        keeps_settled_acknowledge [unfolded keeps_def, rule_format]
        keeps_settled_delivery [unfolded keeps_def, rule_format]
        keeps_settled_discard_disabled [unfolded keeps_def, rule_format]
        keeps_settled_discard_historical [unfolded keeps_def, rule_format]
        keeps_settled_record_event [unfolded keeps_def, rule_format])

definition outbox_ok :: "database \<Rightarrow> bool" where
  "outbox_ok db \<longleftrightarrow>
     distinct (map ob_id (db_outbox db)) \<and> (\<forall>row\<in>set (db_outbox db). ob_id row \<le> db_seq db OutboxIds)"

definition after_pending :: "instant \<Rightarrow> database \<Rightarrow> database" where
  "after_pending now db =
     delete_outbox (\<lambda>row. case ob_delivered_at row of
         None \<Rightarrow> False | Some at \<Rightarrow> at \<le> format_time (now - 7 * nanos_per_day))
       (delete_outbox (\<lambda>row. ob_delivered_at row = None \<and> ob_expires_at row \<le> format_time now)
         (deliver_rows (format_time now)
           (\<lambda>row. is_block_kind (ob_kind row) \<and> ob_created_at row < format_time (now - 60 * nanos_per_second)) db))"

lemma deliver_fault [simp]: "db_fault (deliver_rows t P db) = db_fault db"
  by (simp add: deliver_rows_def)

lemma delete_fault [simp]: "db_fault (delete_outbox P db) = db_fault db"
  by (simp add: delete_outbox_def)

lemma pending_no_faults:
  "no_faults db \<Longrightarrow> pending_notifications now limit db
     = (Inr (select_pending now limit (after_pending now db)), after_pending now db)"
  by (simp add: pending_notifications_def discard_historical_block_notifications_def db_bind_def Let_def
      after_pending_def)

text \<open>What the pending list contains.\<close>

lemma pending_events:
  assumes "pending_notifications now limit db = (Inr events, db')" "e \<in> set events"
  obtains row where "row \<in> set (db_outbox db')" "e = event_of_row row" "is_pending now db' row"
proof -
  have "events = select_pending now limit db'"
    using assms(1) by (auto simp: pending_notifications_def db_bind_Inr query_Inr)
  then obtain row where row: "e = event_of_row row"
    "row \<in> set (take (unat limit) (sort_key ob_id (filter (is_pending now db') (db_outbox db'))))"
    using assms(2) unfolding select_pending_def by auto
  from in_set_takeD [OF row(2)] have "row \<in> set (filter (is_pending now db') (db_outbox db'))"
    by (simp only: set_sort)
  then show ?thesis using that [of row] row(1) by simp
qed

lemma deliver_settles:
  assumes "ident \<le> db_seq db OutboxIds"
  shows "settled ident (deliver_rows t (\<lambda>row. ob_id row = ident) db)"
  unfolding settled_def
proof (intro conjI ballI impI)
  fix row
  assume row: "row \<in> set (db_outbox (deliver_rows t (\<lambda>row. ob_id row = ident) db))" and "ob_id row = ident"
  from row have "row \<in> (\<lambda>r. if ob_delivered_at r = None \<and> ob_id r = ident
      then r\<lparr>ob_delivered_at := Some t\<rparr> else r) ` set (db_outbox db)"
    by (simp add: deliver_rows_def)
  then obtain r where "row = (if ob_delivered_at r = None \<and> ob_id r = ident then r\<lparr>ob_delivered_at := Some t\<rparr> else r)"
    by (rule imageE)
  then show "ob_delivered_at row \<noteq> None" using \<open>ob_id row = ident\<close> by (simp split: if_splits)
qed (use assms in \<open>simp add: deliver_rows_def\<close>)

lemma acknowledge_settles:
  assumes "db_for ids (\<lambda>ident. update_rows tag (deliver_rows t (\<lambda>row. ob_id row = ident))) db = (Inr (), db')"
    and "ident \<in> set ids" "ident \<le> db_seq db OutboxIds"
  shows "settled ident db'"
  using assms
proof (induction ids arbitrary: db)
  case (Cons i ids)
  then have rest: "db_for ids (\<lambda>ident. update_rows tag (deliver_rows t (\<lambda>row. ob_id row = ident)))
      (deliver_rows t (\<lambda>row. ob_id row = i) db) = (Inr (), db')"
    by (auto simp: db_bind_Inr update_rows_Inr)
  show ?case
  proof (cases "ident = i")
    case True
    then have "settled ident (deliver_rows t (\<lambda>row. ob_id row = i) db)" using deliver_settles Cons.prems(3) by simp
    moreover have "keeps (settled ident) (db_for ids (\<lambda>ident. update_rows tag (deliver_rows t (\<lambda>row. ob_id row = ident))))"
      by (intro keeps_rules) simp
    ultimately show ?thesis using keepsD rest by blast
  next
    case False
    then show ?thesis using Cons.IH [OF rest] Cons.prems(2,3) by (simp add: deliver_rows_def)
  qed
qed simp

text \<open>
  A notification that was acknowledged is never offered again: after a successful
  acknowledgement of ids the outbox has issued, no later poll, whatever operations ran in between,
  returns one of them, since a delivered row stays delivered until it is deleted and ids are not
  reused.
\<close>

lemma acknowledged_never_pending:
  assumes "acknowledge_notifications ids now db = (Inr (), db1)"
    and "\<forall>ident\<in>set ids. ident \<le> db_seq db OutboxIds"
    and "outbox_run db1 db2" "pending_notifications now' limit db2 = (Inr events, db3)"
  shows "set ids \<inter> ne_id ` set events = {}"
proof -
  have "ident \<notin> ne_id ` set events" if "ident \<in> set ids" for ident
  proof
    have "settled ident db1"
      using assms(1) that assms(2) unfolding acknowledge_notifications_def transaction_Inr
      by (auto intro: acknowledge_settles)
    then have "settled ident db3"
      using keepsD [OF keeps_settled_pending outbox_run_settled [OF assms(3)] assms(4)] by blast
    assume "ident \<in> ne_id ` set events"
    then obtain e where "e \<in> set events" "ident = ne_id e" by blast
    with assms(4) obtain row where "row \<in> set (db_outbox db3)" "ob_id row = ident" "ob_delivered_at row = None"
      by (elim pending_events) (auto simp: event_of_row_def is_pending_def)
    then show False using \<open>settled ident db3\<close> by (auto simp: settled_def)
  qed
  then show ?thesis by blast
qed

definition outbox_sample :: database where
  "outbox_sample = empty_database\<lparr>db_seq := (\<lambda>_. 1), db_outbox :=
     [\<lparr>ob_id = 1, ob_kind = ''detox_started'', ob_title = ''Detox'', ob_body = ''Started'', ob_dedupe_key = ''d'',
       ob_created_at = 0, ob_expires_at = 60000000, ob_delivered_at = None\<rparr>]\<rparr>"

lemma outbox_sample_no_faults [simp]: "no_faults outbox_sample"
  by (simp add: outbox_sample_def no_faults_def empty_database_def)

lemma acknowledged_never_pending_witness:
  "case pending_notifications 2000 10 (snd (acknowledge_notifications [1] 1000 outbox_sample)) of
     (Inr events, _) \<Rightarrow> 1 \<notin> ne_id ` set events
   | (Inl _, _) \<Rightarrow> False"
proof -
  let ?db1 = "deliver_rows (format_time 1000) (\<lambda>row. ob_id row = 1) outbox_sample"
  have a: "acknowledge_notifications [1] 1000 outbox_sample = (Inr (), ?db1)"
    by (simp add: acknowledge_notifications_def transaction_Inr db_bind_def)
  have "no_faults ?db1" using outbox_sample_no_faults by (simp add: no_faults_def)
  note p = pending_no_faults [OF this, of 2000 10]
  have "\<forall>ident\<in>set [1]. ident \<le> db_seq outbox_sample OutboxIds" by (simp add: outbox_sample_def)
  from acknowledged_never_pending [OF a this outbox_done p]
  show ?thesis by (simp add: a p)
qed

section \<open>The pending list and the cooldown\<close>

lemma undelivered_recent:
  assumes "row \<in> set (db_outbox (after_pending now db))" "ob_delivered_at row = None" "is_block_kind (ob_kind row)"
  shows "format_time (now - 60 * nanos_per_second) \<le> ob_created_at row"
proof -
  have "row \<in> (\<lambda>r. if ob_delivered_at r = None \<and> is_block_kind (ob_kind r)
        \<and> ob_created_at r < format_time (now - 60 * nanos_per_second)
      then r\<lparr>ob_delivered_at := Some (format_time now)\<rparr> else r) ` set (db_outbox db)"
    using assms(1) by (auto simp: after_pending_def delete_outbox_def deliver_rows_def)
  then obtain r where "row = (if ob_delivered_at r = None \<and> is_block_kind (ob_kind r)
        \<and> ob_created_at r < format_time (now - 60 * nanos_per_second)
      then r\<lparr>ob_delivered_at := Some (format_time now)\<rparr> else r)"
    by (rule imageE)
  then show ?thesis using assms(2,3) by (simp split: if_splits)
qed

lemma pending_database:
  "pending_notifications now limit db = (Inr events, db') \<Longrightarrow> events = select_pending now limit db' \<and> db' = after_pending now db"
  by (auto simp: pending_notifications_def discard_historical_block_notifications_def db_bind_Inr query_Inr exec_Inr
      update_rows_Inr Let_def after_pending_def)

text \<open>
  A poll returns at most the number asked for, in the order they were queued, and only rows that
  are not delivered, not expired and not tried in the last minute; notifications of blocked sites
  and applications are offered for one minute only.
\<close>

lemma pending_notifications_are_due:
  assumes "pending_notifications now limit db = (Inr events, db')"
  shows "length events \<le> unat limit \<and> sorted (map ne_id events)
    \<and> (\<forall>e\<in>set events. \<exists>row\<in>set (db_outbox db'). e = event_of_row row \<and> ob_delivered_at row = None
         \<and> format_time now < ob_expires_at row
         \<and> (\<forall>at. last_attempt db' (ob_id row) = Some at \<longrightarrow> at \<le> format_time (now - nanos_per_minute))
         \<and> (is_block_kind (ne_kind e) \<longrightarrow> format_time (now - 60 * nanos_per_second) \<le> ob_created_at row))"
proof (intro conjI ballI)
  note ev = pending_database [OF assms]
  show "length events \<le> unat limit" using ev by (simp add: select_pending_def)
  have "map ne_id events = take (unat limit) (map ob_id (sort_key ob_id (filter (is_pending now db') (db_outbox db'))))"
    using ev by (simp add: select_pending_def event_of_row_def take_map comp_def)
  then show "sorted (map ne_id events)" by (simp add: sorted_wrt_take)
  fix e
  assume "e \<in> set events"
  with assms obtain row where row: "row \<in> set (db_outbox db')" "e = event_of_row row" "is_pending now db' row"
    by (rule pending_events)
  moreover have "is_block_kind (ne_kind e) \<longrightarrow> format_time (now - 60 * nanos_per_second) \<le> ob_created_at row"
    using undelivered_recent [of row now db] row ev by (auto simp: event_of_row_def is_pending_def)
  ultimately show "\<exists>row\<in>set (db_outbox db'). e = event_of_row row \<and> ob_delivered_at row = None
         \<and> format_time now < ob_expires_at row
         \<and> (\<forall>at. last_attempt db' (ob_id row) = Some at \<longrightarrow> at \<le> format_time (now - nanos_per_minute))
         \<and> (is_block_kind (ne_kind e) \<longrightarrow> format_time (now - 60 * nanos_per_second) \<le> ob_created_at row)"
    by (intro bexI [of _ row]) (auto simp: is_pending_def)
qed

lemma pending_notifications_are_due_witness:
  "length (select_pending 2000 10 (after_pending 2000 outbox_sample)) \<le> 10"
  using pending_notifications_are_due [OF pending_no_faults [OF outbox_sample_no_faults], of 2000 10] by simp

lemma enqueue_Some:
  assumes "enqueue_notification kind title body key now cooldown ttl db = (Inr (Some ident), db')"
  shows "\<exists>row\<in>set (db_outbox db'). ob_dedupe_key row = key \<and> ob_created_at row = format_time now"
proof -
  obtain db1 i where "record_event ''notification_queued'' (Some (kind @ '':'' @ show_id ident))
      (Some (QueuedDetails title body (format_time (now + ttl)))) now db1 = (Inr i, db')"
    and "db_outbox db1 = db_outbox db @
      [\<lparr>ob_id = ident, ob_kind = kind, ob_title = title, ob_body = body, ob_dedupe_key = key,
        ob_created_at = format_time now, ob_expires_at = format_time (now + ttl), ob_delivered_at = None\<rparr>]"
    using assms by (auto simp: enqueue_notification_def db_bind_Inr exec_Inr Let_def split: if_splits)
  then show ?thesis by (auto elim!: record_event_cases)
qed

text \<open>
  The cooldown: once a notification is queued, queueing another with the same deduplication key
  before its cooldown has passed queues nothing and changes nothing.
\<close>

lemma enqueue_respects_cooldown:
  assumes "enqueue_notification kind title body key now cooldown ttl db = (Inr (Some ident), db1)"
    and "now' - cooldown' \<le> now"
    and "enqueue_notification kind' title' body' key now' cooldown' ttl' db1 = (r, db2)"
  shows "db2 = db1 \<and> (r = Inr None \<or> (\<exists>e. r = Inl e))"
proof -
  obtain row where row: "row \<in> set (db_outbox db1)" "ob_dedupe_key row = key" "ob_created_at row = format_time now"
    using enqueue_Some [OF assms(1)] by blast
  moreover have "format_time (now' - cooldown') \<le> format_time now"
    using assms(2) by (rule format_time_mono)
  ultimately have "find (\<lambda>row. ob_dedupe_key row = key \<and> ob_created_at row \<ge> format_time (now' - cooldown'))
      (rev (db_outbox db1)) \<noteq> None"
    by (auto simp: find_None_iff)
  then show ?thesis using assms(3)
    by (auto simp: enqueue_notification_def db_bind_apply query_def split: option.splits)
qed

lemma enqueue_respects_cooldown_witness:
  "fst (enqueue_notification ''detox_ended'' [] [] ''k'' 9000 5000 60000
     (snd (enqueue_notification ''detox_ended'' [] [] ''k'' 7000 5000 60000 empty_database))) \<noteq> Inr (Some 2)"
proof -
  obtain r db1 where 1: "enqueue_notification ''detox_ended'' [] [] ''k'' 7000 5000 60000 empty_database = (r, db1)"
    by fastforce
  then have r: "r = Inr (Some 1)"
    by (simp add: enqueue_notification_def record_event_def db_bind_def transaction_def insert_event_def exec_def
        update_rows_def query_def empty_database_def next_rowid_def bump_rowid_def Let_def)
  obtain r2 db2 where 2: "enqueue_notification ''detox_ended'' [] [] ''k'' 9000 5000 60000 db1 = (r2, db2)"
    by fastforce
  show ?thesis using enqueue_respects_cooldown [OF 1 [unfolded r] _ 2] 1 2 by auto
qed

end
