(* ===== verification/Matching.thy ===== *)
theory Matching imports Config begin

text \<open>
  Which lists a URL or a process belongs to, and which of several lists is the strictest.
  \<open>NormalizedUrl\<close> is the URL without its fragment, its host in lower case without final dots, and its
  path; a site list compares its patterns with these, an application list its matchers with what is
  known of a process. (\<^verbatim>\<open>focus-core/src/policy.rs\<close>)
\<close>

section \<open>URLs\<close>

record normalized_url =
  nu_url_without_fragment :: string
  nu_host :: "string option"
  nu_path :: string

definition normalized_pattern_value :: "string \<Rightarrow> string" where
  "normalized_pattern_value value = to_ascii_lowercase (trim_end_by (\<lambda>c. c = CHR ''.'') value)"

definition normalized_url_parse :: "'u lib \<Rightarrow> string \<Rightarrow> string + normalized_url" where
  "normalized_url_parse L value =
     and_then (url_parse L value) (\<lambda>parsed0.
       let parsed = url_without_fragment L parsed0 in
       Inr \<lparr>nu_url_without_fragment = url_to_string L parsed,
            nu_host = map_option (\<lambda>host. to_ascii_lowercase (trim_end_by (\<lambda>c. c = CHR ''.'') host))
              (url_host_str L parsed),
            nu_path = url_path L parsed\<rparr>)"

definition normalize_url_pattern :: "'u lib \<Rightarrow> string \<Rightarrow> string + string" where
  "normalize_url_pattern L pattern =
     and_then (url_parse L pattern) (\<lambda>parsed. Inr (url_to_string L (url_without_fragment L parsed)))"

definition normalize_unlock_url_target :: "'u lib \<Rightarrow> string \<Rightarrow> normalized_url option" where
  "normalize_unlock_url_target L target =
     (case normalized_url_parse L target of
        Inr parsed \<Rightarrow> Some parsed
      | Inl _ \<Rightarrow> (case normalized_url_parse L (''https://'' @ target) of
                    Inr parsed \<Rightarrow> Some parsed
                  | Inl _ \<Rightarrow> None))"

definition path_prefix_matches :: "string \<Rightarrow> normalized_url \<Rightarrow> bool" where
  "path_prefix_matches pattern parsed =
     (if starts_with pattern ''/'' then starts_with (nu_path parsed) pattern
      else (case split_once CHR ''/'' pattern of
              None \<Rightarrow> False
            | Some (host, path) \<Rightarrow>
                (case nu_host parsed of
                   None \<Rightarrow> False
                 | Some parsed_host \<Rightarrow>
                     parsed_host = normalized_pattern_value host
                     \<and> starts_with (nu_path parsed) (CHR ''/'' # path))))"

definition pattern_matches :: "'u lib \<Rightarrow> rule_pattern_config \<Rightarrow> normalized_url \<Rightarrow> bool" where
  "pattern_matches L pattern parsed =
     (case rp_kind pattern of
        Domain \<Rightarrow>
          (case nu_host parsed of
             None \<Rightarrow> False
           | Some host \<Rightarrow>
               let value = normalized_pattern_value (rp_value pattern) in
               host = value \<or> (rp_match_subdomains pattern \<and> ends_with host (CHR ''.'' # value)))
      | ExactUrl \<Rightarrow>
          (case normalize_url_pattern L (rp_value pattern) of
             Inl _ \<Rightarrow> False | Inr p \<Rightarrow> nu_url_without_fragment parsed = p)
      | UrlPrefix \<Rightarrow>
          (case normalize_url_pattern L (rp_value pattern) of
             Inl _ \<Rightarrow> False | Inr p \<Rightarrow> starts_with (nu_url_without_fragment parsed) p)
      | UrlContains \<Rightarrow>
          contains (to_ascii_lowercase (nu_url_without_fragment parsed)) (to_ascii_lowercase (rp_value pattern))
      | PathPrefix \<Rightarrow> path_prefix_matches (rp_value pattern) parsed)"

definition site_rule_applies :: "'u lib \<Rightarrow> rule_config \<Rightarrow> normalized_url \<Rightarrow> bool" where
  "site_rule_applies L rule parsed =
     (let member = list_ex (\<lambda>pattern. pattern_matches L pattern parsed) (rc_patterns rule)
      in case rc_mode rule of Blocklist \<Rightarrow> member | Allowlist \<Rightarrow> \<not> member)"

definition pattern_specificity :: "rule_pattern_config \<Rightarrow> u8" where
  "pattern_specificity pattern =
     (case rp_kind pattern of
        ExactUrl \<Rightarrow> 4
      | PathPrefix \<Rightarrow> 3
      | UrlPrefix \<Rightarrow> 3
      | UrlContains \<Rightarrow> 2
      | Domain \<Rightarrow> if \<not> rp_match_subdomains pattern then 2 else 1)"

definition matched_pattern_specificity :: "'u lib \<Rightarrow> rule_config \<Rightarrow> normalized_url \<Rightarrow> u8" where
  "matched_pattern_specificity L rule parsed =
     max_or 0 (map pattern_specificity (filter (\<lambda>pattern. pattern_matches L pattern parsed) (rc_patterns rule)))"

definition matching_rules :: "'u lib \<Rightarrow> config \<Rightarrow> normalized_url \<Rightarrow> rule_tier \<Rightarrow> rule_config list" where
  "matching_rules L config parsed tier =
     filter (\<lambda>rule. site_rule_applies L rule parsed)
       (filter (\<lambda>rule. rc_enabled rule \<and> rc_tier rule = tier) (cfg_rules config))"

section \<open>Processes\<close>

definition app_matcher_value_matches :: "app_matcher_kind \<Rightarrow> string \<Rightarrow> string \<Rightarrow> bool" where
  "app_matcher_value_matches kind actual expected =
     (if matches_case_insensitively kind then eq_ignore_ascii_case actual expected else actual = expected)"

definition known_value_matches :: "app_matcher_config \<Rightarrow> string option \<Rightarrow> bool" where
  "known_value_matches matcher known =
     (case known of None \<Rightarrow> False | Some value \<Rightarrow> app_matcher_value_matches (am_kind matcher) value (am_value matcher))"

definition app_matcher_matches :: "app_matcher_config \<Rightarrow> process_identity \<Rightarrow> bool" where
  "app_matcher_matches matcher process =
     (case am_kind matcher of
        ExecutablePath \<Rightarrow> known_value_matches matcher (pi_executable_path process)
      | ExecutableBasename \<Rightarrow> known_value_matches matcher (pi_executable_basename process)
      | CommandName \<Rightarrow> known_value_matches matcher (pi_command_name process)
      | DesktopId \<Rightarrow> known_value_matches matcher (pi_desktop_id process)
      | WindowTitleExact \<Rightarrow>
          list_ex (\<lambda>title. app_matcher_value_matches (am_kind matcher) title (am_value matcher))
            (pi_window_titles process)
      | WindowTitleContains \<Rightarrow>
          list_ex (\<lambda>title. contains (to_ascii_lowercase title) (to_ascii_lowercase (am_value matcher)))
            (pi_window_titles process))"

definition app_rule_applies :: "app_rule_config \<Rightarrow> process_identity \<Rightarrow> bool" where
  "app_rule_applies rule process =
     (let member = list_ex (\<lambda>matcher. app_matcher_matches matcher process) (ac_matchers rule)
      in case ac_mode rule of Blocklist \<Rightarrow> member | Allowlist \<Rightarrow> \<not> member)"

definition app_rule_target_matches :: "app_rule_config \<Rightarrow> string \<Rightarrow> bool" where
  "app_rule_target_matches rule target =
     (let member = list_ex (\<lambda>matcher. app_matcher_value_matches (am_kind matcher) (am_value matcher) target)
            (ac_matchers rule)
      in case ac_mode rule of Blocklist \<Rightarrow> member | Allowlist \<Rightarrow> \<not> member)"

definition matching_app_rules :: "config \<Rightarrow> process_identity \<Rightarrow> rule_tier \<Rightarrow> app_rule_config list" where
  "matching_app_rules config process tier =
     filter (\<lambda>rule. app_rule_applies rule process)
       (filter (\<lambda>rule. ac_enabled rule \<and> ac_tier rule = tier) (cfg_app_rules config))"

section \<open>Strictness\<close>

record strictness =
  st_allowance_minutes :: "u32 option"
  st_pattern_specificity :: u8

definition is_stricter_than :: "strictness \<Rightarrow> strictness \<Rightarrow> bool" where
  "is_stricter_than self other =
     (case (st_allowance_minutes self, st_allowance_minutes other) of
        (None, Some _) \<Rightarrow> True
      | (Some _, None) \<Rightarrow> False
      | (Some left, Some right) \<Rightarrow>
          if left \<noteq> right then left < right
          else st_pattern_specificity self > st_pattern_specificity other
      | (None, None) \<Rightarrow> st_pattern_specificity self > st_pattern_specificity other)"

definition find_allowance :: "config \<Rightarrow> string \<Rightarrow> allowance_config option" where
  "find_allowance config allowance_id = find (\<lambda>allowance. al_id allowance = allowance_id) (cfg_allowances config)"

definition rule_allowance_minutes :: "config \<Rightarrow> rule_config \<Rightarrow> u32 option" where
  "rule_allowance_minutes config rule =
     (case rc_allowance_id rule of
        None \<Rightarrow> None
      | Some allowance_id \<Rightarrow> map_option al_daily_minutes (find_allowance config allowance_id))"

definition app_rule_allowance_minutes :: "config \<Rightarrow> app_rule_config \<Rightarrow> u32 option" where
  "app_rule_allowance_minutes config rule =
     (case ac_allowance_id rule of
        None \<Rightarrow> None
      | Some allowance_id \<Rightarrow> map_option al_daily_minutes (find_allowance config allowance_id))"

definition controlled_rule_strictness :: "'u lib \<Rightarrow> config \<Rightarrow> rule_config \<Rightarrow> normalized_url \<Rightarrow> strictness" where
  "controlled_rule_strictness L config rule parsed =
     \<lparr>st_allowance_minutes = rule_allowance_minutes config rule,
      st_pattern_specificity = matched_pattern_specificity L rule parsed\<rparr>"

definition controlled_app_rule_strictness :: "config \<Rightarrow> app_rule_config \<Rightarrow> strictness" where
  "controlled_app_rule_strictness config rule =
     \<lparr>st_allowance_minutes = app_rule_allowance_minutes config rule, st_pattern_specificity = 0\<rparr>"

section \<open>Keeping the best candidate\<close>

text \<open>
  The idiom of every selection loop of the engine: a candidate replaces the current one if there is
  none or if it is better, so that of equals the first one stays. The loops differ in what they call
  better: stricter, or a Detox that ends later.
\<close>

definition replace_if ::
  "('k \<Rightarrow> 'k \<Rightarrow> bool) \<Rightarrow> 'a \<Rightarrow> 'k \<Rightarrow> ('a \<times> 'k) option \<Rightarrow> ('a \<times> 'k) option" where
  "replace_if better x k current =
     (if (case current of None \<Rightarrow> True | Some (_, c) \<Rightarrow> better k c) then Some (x, k) else current)"

definition keep_best :: "('k \<Rightarrow> 'k \<Rightarrow> bool) \<Rightarrow> ('a \<times> 'k) list \<Rightarrow> ('a \<times> 'k) option \<Rightarrow> ('a \<times> 'k) option" where
  "keep_best better = fold (\<lambda>(x, k). replace_if better x k)"

lemma keep_best_simps [simp]:
  "keep_best better [] c = c"
  "keep_best better ((x, k) # xs) c = keep_best better xs (replace_if better x k c)"
  by (simp_all add: keep_best_def)

text \<open>
  What a selection relies on: being better is asymmetric, and whoever beats the best so far beats
  everything the best so far was not beaten by.
\<close>

locale preference =
  fixes better :: "'k \<Rightarrow> 'k \<Rightarrow> bool"
  assumes asym: "better a b \<Longrightarrow> \<not> better b a"
    and weak: "better a b \<Longrightarrow> \<not> better c b \<Longrightarrow> better a c"
begin

lemma trans: "better a b \<Longrightarrow> better b c \<Longrightarrow> better a c"
  using asym weak by blast

text \<open>The candidate kept is one of the list, nothing beats it, and all before it are beaten.\<close>

lemma keep_best_Some:
  "keep_best better xs (Some y) = Some z \<Longrightarrow>
     (z = y \<or> z \<in> set xs) \<and> (\<forall>w\<in>set (y # xs). \<not> better (snd w) (snd z))"
proof (induction xs arbitrary: y)
  case Nil
  then show ?case using asym by force
next
  case (Cons x xs)
  obtain a k where x: "x = (a, k)" by (cases x)
  obtain b c where y: "y = (b, c)" by (cases y)
  show ?case
  proof (cases "better k c")
    case True
    then have "keep_best better xs (Some (a, k)) = Some z" using Cons.prems by (simp add: x y replace_if_def)
    from Cons.IH [OF this] have ih: "z = (a, k) \<or> z \<in> set xs" "\<forall>w\<in>set ((a, k) # xs). \<not> better (snd w) (snd z)"
      by auto
    then have "\<not> better c (snd z)" using trans [OF True] by auto
    then show ?thesis using ih x y by auto
  next
    case False
    then have "keep_best better xs (Some y) = Some z" using Cons.prems by (simp add: x y replace_if_def)
    from Cons.IH [OF this] have ih: "z = y \<or> z \<in> set xs" "\<forall>w\<in>set (y # xs). \<not> better (snd w) (snd z)"
      by auto
    then have "\<not> better k (snd z)" using False weak [of k "snd z" c] y by auto
    then show ?thesis using ih x y by auto
  qed
qed

lemma keep_best_best:
  assumes "keep_best better xs None = Some z"
  shows "z \<in> set xs \<and> (\<forall>w\<in>set xs. \<not> better (snd w) (snd z))"
proof (cases xs)
  case (Cons x ys)
  obtain a k where x: "x = (a, k)" by (cases x)
  have "keep_best better ys (Some x) = Some z" using assms Cons x by (simp add: replace_if_def)
  from keep_best_Some [OF this] show ?thesis using Cons by auto
qed (use assms in simp)

end

lemma keep_best_is_Some: "keep_best better xs (Some y) \<noteq> None"
  by (induction xs arbitrary: y) (auto simp: replace_if_def)

lemma keep_best_None [simp]: "keep_best better xs None = None \<longleftrightarrow> xs = []"
proof (cases xs)
  case (Cons x ys)
  obtain a k where "x = (a, k)" by (cases x)
  then show ?thesis using Cons keep_best_is_Some by (simp add: replace_if_def)
qed simp

interpretation strict: preference is_stricter_than
  by unfold_locales (auto simp: is_stricter_than_def split: option.splits if_splits)

definition ends_later :: "int \<Rightarrow> int \<Rightarrow> bool" where
  "ends_later a b \<longleftrightarrow> a > b"

interpretation later: preference ends_later
  by unfold_locales (auto simp: ends_later_def)

section \<open>Membership\<close>

lemma matching_rules_iff:
  "rule \<in> set (matching_rules L config parsed tier) \<longleftrightarrow>
     rule \<in> set (cfg_rules config) \<and> rc_enabled rule \<and> rc_tier rule = tier \<and> site_rule_applies L rule parsed"
  by (auto simp: matching_rules_def)

lemma matching_app_rules_iff:
  "rule \<in> set (matching_app_rules config process tier) \<longleftrightarrow>
     rule \<in> set (cfg_app_rules config) \<and> ac_enabled rule \<and> ac_tier rule = tier \<and> app_rule_applies rule process"
  by (auto simp: matching_app_rules_def)

end
