(* ===== verification/Sessions.thy ===== *)
theory Sessions imports Keyed begin

text \<open>
  Detox sessions and unlocks of \<^verbatim>\<open>focus-core/src/db.rs\<close>. A Detox session names site and application
  lists that are blocked while it runs; an unlock opens Tier 3 lists for a few minutes and can be
  revoked list by list. Both are written with their targets in one transaction.
\<close>

section \<open>Detox sessions\<close>

definition insert_detox_row :: "detox_session \<Rightarrow> unit operation" where
  "insert_detox_row session = exec ''detox_sessions.insert'' (\<lambda>db.
     if ds_id session \<in> dx_id ` set (db_detox_sessions db)
     then Inl (ConstraintViolated ''detox_sessions.id'')
     else Inr ((), db\<lparr>db_detox_sessions := db_detox_sessions db @
       [\<lparr>dx_id = ds_id session, dx_name = ds_name session, dx_starts_at = format_time (ds_starts_at session),
         dx_ends_at = format_time (ds_ends_at session),
         dx_cancelled_at = map_option format_time (ds_cancelled_at session),
         dx_created_at = format_time (ds_starts_at session)\<rparr>]\<rparr>))"

definition add_detox_rule ::
  "string \<Rightarrow> nat \<times> string \<Rightarrow> detox_rule_row list \<Rightarrow> db_error + detox_rule_row list" where
  "add_detox_rule session_id entry rows =
     (if \<exists>row\<in>set rows. dr_session_id row = session_id \<and> dr_rule_id row = snd entry
      then Inl (ConstraintViolated ''session_id, rule_id'')
      else Inr (rows @ [\<lparr>dr_session_id = session_id, dr_rule_id = snd entry, dr_position = fst entry\<rparr>]))"

definition insert_site_rule :: "string \<Rightarrow> nat \<times> string \<Rightarrow> unit operation" where
  "insert_site_rule session_id entry = exec ''detox_session_site_rules.insert'' (\<lambda>db.
     and_then (add_detox_rule session_id entry (db_detox_site_rules db))
       (\<lambda>rows. Inr ((), db\<lparr>db_detox_site_rules := rows\<rparr>)))"

definition insert_app_rule :: "string \<Rightarrow> nat \<times> string \<Rightarrow> unit operation" where
  "insert_app_rule session_id entry = exec ''detox_session_app_rules.insert'' (\<lambda>db.
     and_then (add_detox_rule session_id entry (db_detox_app_rules db))
       (\<lambda>rows. Inr ((), db\<lparr>db_detox_app_rules := rows\<rparr>)))"

definition insert_detox_session :: "detox_session \<Rightarrow> detox_session operation" where
  "insert_detox_session session = transaction
     (db_bind (insert_detox_row session) (\<lambda>_.
      db_bind (db_for (enumerated (ds_site_rule_ids session)) (insert_site_rule (ds_id session))) (\<lambda>_.
      db_bind (db_for (enumerated (ds_app_rule_ids session)) (insert_app_rule (ds_id session))) (\<lambda>_.
        db_return session))))"

definition session_rule_ids :: "string \<Rightarrow> detox_rule_row list \<Rightarrow> string list" where
  "session_rule_ids session_id rows =
     map dr_rule_id (sort_key (\<lambda>r. (dr_position r, dr_rule_id r))
       (filter (\<lambda>r. dr_session_id r = session_id) rows))"

definition load_detox_session :: "database \<Rightarrow> detox_row \<Rightarrow> error + detox_session" where
  "load_detox_session db row =
     and_then (query ''detox_session_site_rules.select''
                (\<lambda>db. session_rule_ids (dx_id row) (db_detox_site_rules db)) db) (\<lambda>site_ids.
     and_then (query ''detox_session_app_rules.select''
                (\<lambda>db. session_rule_ids (dx_id row) (db_detox_app_rules db)) db) (\<lambda>app_ids.
       Inr \<lparr>ds_id = dx_id row, ds_name = dx_name row, ds_starts_at = parse_time (dx_starts_at row),
            ds_ends_at = parse_time (dx_ends_at row),
            ds_cancelled_at = map_option parse_time (dx_cancelled_at row),
            ds_site_rule_ids = site_ids, ds_app_rule_ids = app_ids\<rparr>))"

definition load_detox_sessions ::
  "(database \<Rightarrow> detox_row list) \<Rightarrow> database \<Rightarrow> error + detox_session list" where
  "load_detox_sessions select db =
     and_then (query ''detox_sessions.select'' select db) (try_map (load_detox_session db))"

definition by_end :: "detox_row list \<Rightarrow> detox_row list" where
  "by_end = sort_key (\<lambda>row. (- dx_ends_at row, - dx_starts_at row, dx_id row))"

definition row_is_active :: "instant \<Rightarrow> detox_row \<Rightarrow> bool" where
  "row_is_active now row \<longleftrightarrow>
     dx_starts_at row \<le> format_time now \<and> dx_ends_at row > format_time now \<and> dx_cancelled_at row = None"

definition active_detox_sessions :: "instant \<Rightarrow> database \<Rightarrow> error + detox_session list" where
  "active_detox_sessions now =
     load_detox_sessions (\<lambda>db. by_end (filter (row_is_active now) (db_detox_sessions db)))"

definition uncancelled_detox_sessions :: "database \<Rightarrow> error + detox_session list" where
  "uncancelled_detox_sessions =
     load_detox_sessions (\<lambda>db. by_end (filter (\<lambda>row. dx_cancelled_at row = None) (db_detox_sessions db)))"

definition detox_sessions :: "u32 \<Rightarrow> database \<Rightarrow> error + detox_session list" where
  "detox_sessions limit =
     load_detox_sessions (\<lambda>db. take (unat limit)
       (rev (sort_key (\<lambda>row. (dx_starts_at row, dx_id row)) (db_detox_sessions db))))"

definition detox_session :: "string \<Rightarrow> database \<Rightarrow> error + detox_session option" where
  "detox_session ident db =
     and_then (load_detox_sessions (\<lambda>db. filter (\<lambda>row. dx_id row = ident) (db_detox_sessions db)) db)
       (\<lambda>sessions. Inr (if sessions = [] then None else Some (last sessions)))"

text \<open>The part of a session in a span; it ends when it was cancelled.\<close>

definition row_interval :: "instant \<Rightarrow> instant \<Rightarrow> detox_row \<Rightarrow> interval option" where
  "row_interval start stop row =
     (let ends_at = (case dx_cancelled_at row of
            None \<Rightarrow> parse_time (dx_ends_at row)
          | Some c \<Rightarrow> min (parse_time (dx_ends_at row)) (parse_time c));
          overlap_start = max (parse_time (dx_starts_at row)) start;
          overlap_end = min ends_at stop
      in if overlap_end > overlap_start then Some (overlap_start, overlap_end) else None)"

definition detox_intervals_for_site_rule_between ::
  "string \<Rightarrow> instant \<Rightarrow> instant \<Rightarrow> database \<Rightarrow> error + interval list" where
  "detox_intervals_for_site_rule_between rule_id start stop =
     query ''detox_sessions.select_intervals'' (\<lambda>db.
       filter_map (row_interval start stop)
         (sort_key (\<lambda>row. (dx_starts_at row, dx_ends_at row))
           (filter (\<lambda>row. (\<exists>t\<in>set (db_detox_site_rules db). dr_session_id t = dx_id row \<and> dr_rule_id t = rule_id)
                \<and> dx_starts_at row < format_time stop \<and> dx_ends_at row > format_time start
                \<and> (case dx_cancelled_at row of None \<Rightarrow> True | Some c \<Rightarrow> c > format_time start))
             (db_detox_sessions db))))"

definition cancel_detox_session :: "string \<Rightarrow> instant \<Rightarrow> detox_session option operation" where
  "cancel_detox_session ident cancelled_at =
     db_bind (update_rows ''detox_sessions.cancel'' (\<lambda>db. db\<lparr>db_detox_sessions :=
         map (\<lambda>row. if dx_id row = ident \<and> dx_cancelled_at row = None
                    then row\<lparr>dx_cancelled_at := Some (format_time cancelled_at)\<rparr> else row)
           (db_detox_sessions db)\<rparr>))
       (\<lambda>_. reading (detox_session ident))"

section \<open>Unlocks\<close>

definition insert_unlock_target :: "int \<Rightarrow> nat \<times> string \<Rightarrow> unit operation" where
  "insert_unlock_target ident entry = exec ''unlock_rule_targets.insert'' (\<lambda>db.
     if \<exists>t\<in>set (db_unlock_targets db). ut_unlock_id t = ident \<and> ut_rule_id t = snd entry
     then Inl (ConstraintViolated ''unlock_id, rule_id'')
     else Inr ((), db\<lparr>db_unlock_targets := db_unlock_targets db @
       [\<lparr>ut_unlock_id = ident, ut_rule_id = snd entry, ut_position = fst entry, ut_revoked = False\<rparr>]\<rparr>))"

definition insert_unlock ::
  "string \<Rightarrow> string list \<Rightarrow> u32 \<Rightarrow> string \<Rightarrow> instant \<Rightarrow> instant \<Rightarrow> unlock_state operation" where
  "insert_unlock target rule_ids minutes reason started_at expires_at =
     (case rule_ids of
        [] \<Rightarrow> db_fail (ErrConfig (CfgValidation UnlockWithoutRule))
      | rule_id # _ \<Rightarrow> transaction
          (db_bind (exec ''unlocks.insert'' (\<lambda>db.
              let ident = next_rowid UnlockIds db in
              Inr (ident, (bump_rowid UnlockIds db)\<lparr>db_unlocks := db_unlocks db @
                [\<lparr>ul_id = ident, ul_target = target, ul_rule_id = rule_id, ul_reason = reason,
                  ul_minutes = uint minutes, ul_started_at = format_time started_at,
                  ul_expires_at = format_time expires_at\<rparr>]\<rparr>)))
            (\<lambda>ident. db_bind (db_for (enumerated rule_ids) (insert_unlock_target ident)) (\<lambda>_.
               db_return \<lparr>us_id = ident, us_target = target, us_rule_id = rule_id, us_rule_ids = rule_ids,
                 us_minutes = minutes, us_reason = reason, us_started_at = started_at,
                 us_expires_at = expires_at\<rparr>))))"

definition minutes_u32 :: "int \<Rightarrow> u32" where
  "minutes_u32 m = (if 0 \<le> m \<and> m < 4294967296 then of_int m else - 1)"

definition unlock_from_row :: "unlock_row \<Rightarrow> unlock_state" where
  "unlock_from_row u =
     \<lparr>us_id = ul_id u, us_target = ul_target u, us_rule_id = ul_rule_id u, us_rule_ids = [ul_rule_id u],
      us_minutes = minutes_u32 (ul_minutes u), us_reason = ul_reason u,
      us_started_at = parse_time (ul_started_at u), us_expires_at = parse_time (ul_expires_at u)\<rparr>"

definition granted_unlocks :: "string \<Rightarrow> instant \<Rightarrow> database \<Rightarrow> unlock_row list" where
  "granted_unlocks rule_id now db =
     concat (map (\<lambda>t. filter (\<lambda>u. ul_id u = ut_unlock_id t \<and> ul_expires_at u > format_time now) (db_unlocks db))
       (filter (\<lambda>t. ut_rule_id t = rule_id \<and> \<not> ut_revoked t) (db_unlock_targets db)))"

definition granted_rule_ids :: "int \<Rightarrow> database \<Rightarrow> string list" where
  "granted_rule_ids ident db =
     map ut_rule_id (sort_key ut_position
       (filter (\<lambda>t. ut_unlock_id t = ident \<and> \<not> ut_revoked t) (db_unlock_targets db)))"

text \<open>\<open>ids[0]\<close> panics when there is no target.\<close>

definition active_unlock_for_rule :: "string \<Rightarrow> instant \<Rightarrow> database \<Rightarrow> error + unlock_state option" where
  "active_unlock_for_rule rule_id now db =
     and_then (query ''unlocks.select_active''
         (\<lambda>db. sort_key (\<lambda>u. - ul_expires_at u) (granted_unlocks rule_id now db)) db) (\<lambda>found.
       case found of
         [] \<Rightarrow> Inr None
       | u # _ \<Rightarrow>
           and_then (query ''unlock_rule_targets.select'' (granted_rule_ids (ul_id u)) db) (\<lambda>ids.
             case ids of
               [] \<Rightarrow> Inl (Panicked ''index out of bounds'')
             | first # _ \<Rightarrow> Inr (Some ((unlock_from_row u)\<lparr>us_rule_id := first, us_rule_ids := ids\<rparr>))))"

definition count_since :: "instant \<Rightarrow> database \<Rightarrow> nat" where
  "count_since since db = length (filter (\<lambda>u. ul_started_at u \<ge> format_time since) (db_unlocks db))"

definition count_unlocks_since :: "instant \<Rightarrow> database \<Rightarrow> error + u32" where
  "count_unlocks_since since = query ''unlocks.count'' (\<lambda>db. minutes_u32 (int (count_since since db)))"

definition unlock_reasons :: "database \<Rightarrow> error + string list" where
  "unlock_reasons = query ''unlocks.select_reasons'' (\<lambda>db. map ul_reason (db_unlocks db))"

section \<open>Detox sessions read back\<close>

definition trunc :: "instant \<Rightarrow> instant" where
  "trunc t = parse_time (format_time t)"

lemma trunc_le: "trunc t \<le> t"
  by (simp add: trunc_def parse_time_def format_time_def)

definition rule_rows :: "string \<Rightarrow> nat \<Rightarrow> string list \<Rightarrow> detox_rule_row list" where
  "rule_rows sid n ids = map (\<lambda>(p, r). \<lparr>dr_session_id = sid, dr_rule_id = r, dr_position = p\<rparr>) (List.enumerate n ids)"

lemma rule_rows_simps [simp]:
  "rule_rows sid n [] = []"
  "rule_rows sid n (r # ids) = \<lparr>dr_session_id = sid, dr_rule_id = r, dr_position = n\<rparr> # rule_rows sid (Suc n) ids"
  by (simp_all add: rule_rows_def)

lemma rule_rows_session: "row \<in> set (rule_rows sid n ids) \<Longrightarrow> dr_session_id row = sid \<and> n \<le> dr_position row"
  by (induction ids arbitrary: n) (auto dest: Suc_leD)

lemma rule_rows_sorted: "sorted (map (\<lambda>r. (dr_position r, dr_rule_id r)) (rule_rows sid n ids))"
  by (induction ids arbitrary: n) (auto simp: less_eq_prod_def dest: rule_rows_session)

lemma session_rule_ids_rows:
  assumes "sid \<notin> dr_session_id ` set old"
  shows "session_rule_ids sid (old @ rule_rows sid n ids) = ids"
proof -
  have "filter (\<lambda>r. dr_session_id r = sid) old = []" using assms by (auto simp: filter_empty_conv)
  moreover have "filter (\<lambda>r. dr_session_id r = sid) (rule_rows sid n ids) = rule_rows sid n ids"
    by (rule filter_True) (auto dest: rule_rows_session)
  moreover have "map dr_rule_id (rule_rows sid n ids) = ids" by (induction ids arbitrary: n) auto
  ultimately show ?thesis by (simp add: session_rule_ids_def sort_key_id_if_sorted [OF rule_rows_sorted])
qed

lemma session_rule_ids_other:
  assumes "sid' \<noteq> sid"
  shows "session_rule_ids sid' (old @ rule_rows sid n ids) = session_rule_ids sid' old"
proof -
  have "filter (\<lambda>r. dr_session_id r = sid') (rule_rows sid n ids) = []"
    using assms by (auto simp: filter_empty_conv dest: rule_rows_session)
  then show ?thesis by (simp add: session_rule_ids_def)
qed

lemma insert_site_rule_Inr:
  "insert_site_rule sid (n, r) db = (Inr (), db') \<longleftrightarrow>
     db_fault db ''detox_session_site_rules.insert'' = None
     \<and> (\<forall>row\<in>set (db_detox_site_rules db). dr_session_id row = sid \<longrightarrow> dr_rule_id row \<noteq> r)
     \<and> db' = db\<lparr>db_detox_site_rules := db_detox_site_rules db @
        [\<lparr>dr_session_id = sid, dr_rule_id = r, dr_position = n\<rparr>]\<rparr>"
  by (auto simp: insert_site_rule_def exec_Inr and_then_Inr_iff add_detox_rule_def)

lemma insert_site_rules_Inr:
  "db_for (List.enumerate n ids) (insert_site_rule sid) db = (Inr (), db') \<Longrightarrow>
     db' = db\<lparr>db_detox_site_rules := db_detox_site_rules db @ rule_rows sid n ids\<rparr>"
proof (induction ids arbitrary: n db)
  case (Cons r ids)
  from Cons.prems have "db_for (List.enumerate (Suc n) ids) (insert_site_rule sid)
      (db\<lparr>db_detox_site_rules := db_detox_site_rules db @
        [\<lparr>dr_session_id = sid, dr_rule_id = r, dr_position = n\<rparr>]\<rparr>) = (Inr (), db')"
    by (auto simp: db_bind_Inr insert_site_rule_Inr)
  from Cons.IH [OF this] show ?case by simp
qed simp

lemma insert_app_rule_Inr:
  "insert_app_rule sid (n, r) db = (Inr (), db') \<longleftrightarrow>
     db_fault db ''detox_session_app_rules.insert'' = None
     \<and> (\<forall>row\<in>set (db_detox_app_rules db). dr_session_id row = sid \<longrightarrow> dr_rule_id row \<noteq> r)
     \<and> db' = db\<lparr>db_detox_app_rules := db_detox_app_rules db @
        [\<lparr>dr_session_id = sid, dr_rule_id = r, dr_position = n\<rparr>]\<rparr>"
  by (auto simp: insert_app_rule_def exec_Inr and_then_Inr_iff add_detox_rule_def)

lemma insert_app_rules_Inr:
  "db_for (List.enumerate n ids) (insert_app_rule sid) db = (Inr (), db') \<Longrightarrow>
     db' = db\<lparr>db_detox_app_rules := db_detox_app_rules db @ rule_rows sid n ids\<rparr>"
proof (induction ids arbitrary: n db)
  case (Cons r ids)
  from Cons.prems have "db_for (List.enumerate (Suc n) ids) (insert_app_rule sid)
      (db\<lparr>db_detox_app_rules := db_detox_app_rules db @
        [\<lparr>dr_session_id = sid, dr_rule_id = r, dr_position = n\<rparr>]\<rparr>) = (Inr (), db')"
    by (auto simp: db_bind_Inr insert_app_rule_Inr)
  from Cons.IH [OF this] show ?case by simp
qed simp

definition detox_row_of :: "detox_session \<Rightarrow> detox_row" where
  "detox_row_of s = \<lparr>dx_id = ds_id s, dx_name = ds_name s, dx_starts_at = format_time (ds_starts_at s),
     dx_ends_at = format_time (ds_ends_at s), dx_cancelled_at = map_option format_time (ds_cancelled_at s),
     dx_created_at = format_time (ds_starts_at s)\<rparr>"

definition session_inserted :: "detox_session \<Rightarrow> database \<Rightarrow> database" where
  "session_inserted s db = db\<lparr>db_detox_sessions := db_detox_sessions db @ [detox_row_of s],
     db_detox_site_rules := db_detox_site_rules db @ rule_rows (ds_id s) 0 (ds_site_rule_ids s),
     db_detox_app_rules := db_detox_app_rules db @ rule_rows (ds_id s) 0 (ds_app_rule_ids s)\<rparr>"

lemma insert_detox_session_Inr:
  assumes "insert_detox_session s db = (Inr s', db')"
  shows "s' = s \<and> ds_id s \<notin> dx_id ` set (db_detox_sessions db) \<and> db' = session_inserted s db"
  using assms
  by (auto simp: insert_detox_session_def transaction_Inr db_bind_Inr enumerated_def insert_detox_row_def exec_Inr
      session_inserted_def detox_row_of_def split: if_splits dest!: insert_site_rules_Inr insert_app_rules_Inr)

text \<open>Every target row belongs to a session, and session ids are unique: the keys of the schema.\<close>

definition detox_ok :: "database \<Rightarrow> bool" where
  "detox_ok db \<longleftrightarrow> distinct (map dx_id (db_detox_sessions db))
     \<and> dr_session_id ` set (db_detox_site_rules db) \<subseteq> dx_id ` set (db_detox_sessions db)
     \<and> dr_session_id ` set (db_detox_app_rules db) \<subseteq> dx_id ` set (db_detox_sessions db)"

lemma session_inserted_ok:
  "detox_ok db \<Longrightarrow> ds_id s \<notin> dx_id ` set (db_detox_sessions db) \<Longrightarrow> detox_ok (session_inserted s db)"
  by (auto simp: detox_ok_def session_inserted_def detox_row_of_def dest: rule_rows_session)

lemma session_inserted_fault [simp]: "no_faults (session_inserted s db) = no_faults db"
  by (simp add: session_inserted_def)

definition stored_session :: "database \<Rightarrow> detox_row \<Rightarrow> detox_session" where
  "stored_session db row =
     \<lparr>ds_id = dx_id row, ds_name = dx_name row, ds_starts_at = parse_time (dx_starts_at row),
      ds_ends_at = parse_time (dx_ends_at row), ds_cancelled_at = map_option parse_time (dx_cancelled_at row),
      ds_site_rule_ids = session_rule_ids (dx_id row) (db_detox_site_rules db),
      ds_app_rule_ids = session_rule_ids (dx_id row) (db_detox_app_rules db)\<rparr>"

lemma load_detox_sessions_no_faults:
  "no_faults db \<Longrightarrow> load_detox_sessions select db = Inr (map (stored_session db) (select db))"
  by (simp add: load_detox_sessions_def load_detox_session_def stored_session_def try_map_total)

text \<open>
  A Detox session is stored as a whole: when the insert succeeds the session read back by its id
  is the one inserted, its lists in their order and its times cut to the microseconds the store
  keeps; when it fails the database is as it was.
\<close>

lemma detox_session_roundtrip:
  assumes "detox_ok db" "no_faults db" "insert_detox_session s db = (r, db')"
  shows "(r = Inr s \<and> detox_ok db' \<and> detox_session (ds_id s) db' = Inr (Some
      (s\<lparr>ds_starts_at := trunc (ds_starts_at s), ds_ends_at := trunc (ds_ends_at s),
         ds_cancelled_at := map_option trunc (ds_cancelled_at s)\<rparr>)))
    \<or> ((\<exists>e. r = Inl e) \<and> db' = db)"
proof (cases r)
  case (Inl e)
  then show ?thesis using assms(3) transaction_rollback unfolding insert_detox_session_def by blast
next
  case (Inr s')
  then have ins: "s' = s" "ds_id s \<notin> dx_id ` set (db_detox_sessions db)" "db' = session_inserted s db"
    using insert_detox_session_Inr assms(3) by auto
  have fresh: "ds_id s \<notin> dr_session_id ` set (db_detox_site_rules db)" "ds_id s \<notin> dr_session_id ` set (db_detox_app_rules db)"
    using assms(1) ins(2) by (auto simp: detox_ok_def)
  have "filter (\<lambda>row. dx_id row = ds_id s) (db_detox_sessions db) = []"
    using ins(2) by (auto simp: filter_empty_conv image_iff)
  moreover have "no_faults db'" using assms(2) ins(3) by simp
  ultimately have "detox_session (ds_id s) db' = Inr (Some (stored_session db' (detox_row_of s)))"
    by (simp add: detox_session_def load_detox_sessions_no_faults ins(3) session_inserted_def detox_row_of_def)
  moreover have "stored_session db' (detox_row_of s) = s\<lparr>ds_starts_at := trunc (ds_starts_at s),
      ds_ends_at := trunc (ds_ends_at s), ds_cancelled_at := map_option trunc (ds_cancelled_at s)\<rparr>"
    using fresh by (cases s) (simp add: stored_session_def ins(3) session_inserted_def detox_row_of_def
      session_rule_ids_rows trunc_def [abs_def] option.map_comp comp_def)
  ultimately show ?thesis using Inr ins session_inserted_ok [OF assms(1) ins(2)] by simp
qed

definition exam_session :: detox_session where
  "exam_session = \<lparr>ds_id = ''d1'', ds_name = Some ''exams'', ds_starts_at = 1000, ds_ends_at = 3600000001234,
     ds_cancelled_at = None, ds_site_rule_ids = [''news'', ''video''], ds_app_rule_ids = []\<rparr>"

lemma empty_detox_ok [simp]: "detox_ok empty_database"
  by (simp add: detox_ok_def empty_database_def)

lemma exam_session_inserted:
  "insert_detox_session exam_session empty_database = (Inr exam_session, session_inserted exam_session empty_database)"
  by (simp add: insert_detox_session_def transaction_Inr db_bind_def insert_detox_row_def exec_def insert_site_rule_def
      add_detox_rule_def enumerated_def exam_session_def session_inserted_def detox_row_of_def empty_database_def)

lemma detox_session_roundtrip_witness:
  "detox_session ''d1'' (snd (insert_detox_session exam_session empty_database))
     = Inr (Some (exam_session\<lparr>ds_ends_at := 3600000001000\<rparr>))"
  using detox_session_roundtrip [OF empty_detox_ok empty_database_no_faults exam_session_inserted]
  by (simp add: exam_session_inserted) (simp add: exam_session_def trunc_def format_time_def parse_time_def)

section \<open>Active sessions and cancellation\<close>

lemma active_detox_sessions_no_faults:
  "no_faults db \<Longrightarrow> active_detox_sessions now db
     = Inr (map (stored_session db) (by_end (filter (row_is_active now) (db_detox_sessions db))))"
  by (simp add: active_detox_sessions_def load_detox_sessions_no_faults)

text \<open>
  A session that was stored is among the active ones from its start until before its end (cut
  to microseconds), unless it was stored as cancelled; the other active sessions are the same as
  before.
\<close>

lemma detox_session_active_during:
  assumes "no_faults db" "insert_detox_session s db = (Inr s', db')"
  shows "\<exists>before after. active_detox_sessions now db = Inr before \<and> active_detox_sessions now db' = Inr after
    \<and> ds_id ` set after = ds_id ` set before \<union>
        (if ds_cancelled_at s = None \<and> trunc (ds_starts_at s) \<le> now \<and> now < trunc (ds_ends_at s)
         then {ds_id s} else {})"
proof -
  have ins: "db' = session_inserted s db" using insert_detox_session_Inr [OF assms(2)] by simp
  then have nf: "no_faults db'" using assms(1) by simp
  have act: "row_is_active now (detox_row_of s) \<longleftrightarrow>
      ds_cancelled_at s = None \<and> trunc (ds_starts_at s) \<le> now \<and> now < trunc (ds_ends_at s)"
    by (auto simp: row_is_active_def detox_row_of_def trunc_def format_time_le_iff format_time_less_iff)
  have ids: "ds_id ` set (map (stored_session d) (by_end rows)) = dx_id ` set rows" for d rows
    by (simp add: image_image stored_session_def by_end_def)
  have "db_detox_sessions db' = db_detox_sessions db @ [detox_row_of s]" "dx_id (detox_row_of s) = ds_id s"
    by (simp_all add: ins session_inserted_def detox_row_of_def)
  then have eq: "dx_id ` set (filter (row_is_active now) (db_detox_sessions db'))
      = dx_id ` set (filter (row_is_active now) (db_detox_sessions db)) \<union>
        (if row_is_active now (detox_row_of s) then {ds_id s} else {})"
    by simp
  show ?thesis
    unfolding active_detox_sessions_no_faults [OF assms(1)] active_detox_sessions_no_faults [OF nf]
    by (intro exI conjI, rule refl, rule refl) (simp only: ids eq act)
qed

lemma detox_session_active_during_witness:
  "\<exists>before after. active_detox_sessions 5000 empty_database = Inr before
     \<and> active_detox_sessions 5000 (session_inserted exam_session empty_database) = Inr after
     \<and> ds_id ` set after = ds_id ` set before \<union> {''d1''}"
  using detox_session_active_during [OF empty_database_no_faults exam_session_inserted, of 5000]
  by (simp add: exam_session_def trunc_def format_time_def parse_time_def)

definition cancel_rows :: "string \<Rightarrow> stamp \<Rightarrow> detox_row list \<Rightarrow> detox_row list" where
  "cancel_rows ident at rows = map (\<lambda>row. if dx_id row = ident \<and> dx_cancelled_at row = None
     then row\<lparr>dx_cancelled_at := Some at\<rparr> else row) rows"

lemma cancel_rows_active:
  "filter (row_is_active now) (cancel_rows ident at rows)
     = filter (\<lambda>row. dx_id row \<noteq> ident) (filter (row_is_active now) rows)"
  by (induction rows) (auto simp: cancel_rows_def row_is_active_def)

text \<open>
  Cancelling takes a session off the active ones at once and for good, whatever the time asked
  for, and leaves every other session as it is; a session cancelled before keeps its first time.
\<close>

lemma cancelled_session_is_not_active:
  assumes "no_faults db" "cancel_detox_session ident at db = (r, db')"
  shows "\<exists>before. active_detox_sessions now db = Inr before
      \<and> active_detox_sessions now db' = Inr (filter (\<lambda>s. ds_id s \<noteq> ident) before)
      \<and> snd (cancel_detox_session ident at2 db') = db'"
proof -
  have db': "db' = db\<lparr>db_detox_sessions := cancel_rows ident (format_time at) (db_detox_sessions db)\<rparr>"
    using assms by (simp add: cancel_detox_session_def db_bind_def cancel_rows_def)
  then have nf: "no_faults db'" using assms(1) by simp
  have st: "stored_session db' row = stored_session db row" for row by (simp add: stored_session_def db')
  have "active_detox_sessions now db' = Inr (map (stored_session db)
      (filter (\<lambda>row. dx_id row \<noteq> ident) (by_end (filter (row_is_active now) (db_detox_sessions db)))))"
    unfolding active_detox_sessions_no_faults [OF nf] st by_end_def filter_sort
    by (simp add: db' cancel_rows_active)
  moreover have "map (stored_session db) (filter (\<lambda>row. dx_id row \<noteq> ident) rows)
      = filter (\<lambda>s. ds_id s \<noteq> ident) (map (stored_session db) rows)" for rows
    by (simp add: filter_map comp_def stored_session_def)
  moreover have "snd (cancel_detox_session ident at2 db') = db'"
    using assms(1) by (simp add: cancel_detox_session_def db_bind_def db' cancel_rows_def comp_def if_distrib cong: if_cong)
  ultimately show ?thesis using active_detox_sessions_no_faults [OF assms(1)] by simp
qed

lemma cancelled_session_is_not_active_witness:
  "active_detox_sessions 5000 (snd (cancel_detox_session ''d1'' 2000 (session_inserted exam_session empty_database)))
     = Inr []"
proof -
  have nf: "no_faults (session_inserted exam_session empty_database)" by simp
  obtain r db' where c: "cancel_detox_session ''d1'' 2000 (session_inserted exam_session empty_database) = (r, db')"
    by fastforce
  have "active_detox_sessions 5000 (session_inserted exam_session empty_database)
      = Inr [stored_session (session_inserted exam_session empty_database) (detox_row_of exam_session)]"
    unfolding active_detox_sessions_no_faults [OF nf]
    by (simp add: by_end_def session_inserted_def row_is_active_def
        detox_row_of_def exam_session_def format_time_def empty_database_def)
  then show ?thesis using cancelled_session_is_not_active [OF nf c, of 5000] c
    by (auto simp: stored_session_def detox_row_of_def exam_session_def)
qed

section \<open>Unlocks in force\<close>

text \<open>Unlock ids are unique and issued, and every target belongs to an unlock.\<close>

definition unlocks_ok :: "database \<Rightarrow> bool" where
  "unlocks_ok db \<longleftrightarrow> distinct (map ul_id (db_unlocks db))
     \<and> (\<forall>u\<in>set (db_unlocks db). ul_id u \<le> db_seq db UnlockIds)
     \<and> ut_unlock_id ` set (db_unlock_targets db) \<subseteq> ul_id ` set (db_unlocks db)"

definition target_rows :: "int \<Rightarrow> nat \<Rightarrow> string list \<Rightarrow> unlock_target_row list" where
  "target_rows ident n ids = map (\<lambda>(p, r). \<lparr>ut_unlock_id = ident, ut_rule_id = r, ut_position = p, ut_revoked = False\<rparr>)
     (List.enumerate n ids)"

lemma target_rows_simps [simp]:
  "target_rows ident n [] = []"
  "target_rows ident n (r # ids) =
     \<lparr>ut_unlock_id = ident, ut_rule_id = r, ut_position = n, ut_revoked = False\<rparr> # target_rows ident (Suc n) ids"
  by (simp_all add: target_rows_def)

lemma target_rows_unlock: "t \<in> set (target_rows ident n ids) \<Longrightarrow> ut_unlock_id t = ident \<and> \<not> ut_revoked t"
  by (induction ids arbitrary: n) auto

lemma target_rows_rules: "ut_rule_id ` set (target_rows ident n ids) = set ids"
  by (induction ids arbitrary: n) auto

lemma insert_unlock_target_Inr:
  "insert_unlock_target ident (n, r) db = (Inr (), db') \<longleftrightarrow>
     db_fault db ''unlock_rule_targets.insert'' = None
     \<and> (\<forall>t\<in>set (db_unlock_targets db). ut_unlock_id t = ident \<longrightarrow> ut_rule_id t \<noteq> r)
     \<and> db' = db\<lparr>db_unlock_targets := db_unlock_targets db @
        [\<lparr>ut_unlock_id = ident, ut_rule_id = r, ut_position = n, ut_revoked = False\<rparr>]\<rparr>"
  by (auto simp: insert_unlock_target_def exec_Inr)

lemma insert_targets_Inr:
  "db_for (List.enumerate n ids) (insert_unlock_target ident) db = (Inr (), db') \<Longrightarrow>
     db' = db\<lparr>db_unlock_targets := db_unlock_targets db @ target_rows ident n ids\<rparr>"
proof (induction ids arbitrary: n db)
  case (Cons r ids)
  from Cons.prems have "db_for (List.enumerate (Suc n) ids) (insert_unlock_target ident)
      (db\<lparr>db_unlock_targets := db_unlock_targets db @
        [\<lparr>ut_unlock_id = ident, ut_rule_id = r, ut_position = n, ut_revoked = False\<rparr>]\<rparr>) = (Inr (), db')"
    by (auto simp: db_bind_Inr insert_unlock_target_Inr)
  from Cons.IH [OF this] show ?case by simp
qed simp

lemma insert_targets_succeeds:
  "no_faults db \<Longrightarrow> distinct ids \<Longrightarrow>
   (\<And>t. t \<in> set (db_unlock_targets db) \<Longrightarrow> ut_unlock_id t = ident \<Longrightarrow> ut_rule_id t \<notin> set ids) \<Longrightarrow>
   db_for (List.enumerate n ids) (insert_unlock_target ident) db
     = (Inr (), db\<lparr>db_unlock_targets := db_unlock_targets db @ target_rows ident n ids\<rparr>)"
proof (induction ids arbitrary: n db)
  case (Cons r ids)
  let ?db = "db\<lparr>db_unlock_targets := db_unlock_targets db @
      [\<lparr>ut_unlock_id = ident, ut_rule_id = r, ut_position = n, ut_revoked = False\<rparr>]\<rparr>"
  have "insert_unlock_target ident (n, r) db = (Inr (), ?db)"
    using Cons.prems by (auto simp: insert_unlock_target_Inr)
  moreover have "db_for (List.enumerate (Suc n) ids) (insert_unlock_target ident) ?db
     = (Inr (), ?db\<lparr>db_unlock_targets := db_unlock_targets ?db @ target_rows ident (Suc n) ids\<rparr>)"
  proof (rule Cons.IH)
    fix t
    assume m: "t \<in> set (db_unlock_targets ?db)" and i: "ut_unlock_id t = ident"
    from m have "t \<in> set (db_unlock_targets db) \<or>
        t = \<lparr>ut_unlock_id = ident, ut_rule_id = r, ut_position = n, ut_revoked = False\<rparr>" by auto
    then show "ut_rule_id t \<notin> set ids"
    proof
      assume "t \<in> set (db_unlock_targets db)"
      from Cons.prems(3) [OF this i] show ?thesis by simp
    qed (use Cons.prems(2) in simp)
  qed (use Cons.prems in auto)
  ultimately show ?case by (simp add: db_bind_step)
qed simp

definition unlock_row_of :: "int \<Rightarrow> unlock_state \<Rightarrow> unlock_row" where
  "unlock_row_of ident u = \<lparr>ul_id = ident, ul_target = us_target u, ul_rule_id = us_rule_id u, ul_reason = us_reason u,
     ul_minutes = uint (us_minutes u), ul_started_at = format_time (us_started_at u),
     ul_expires_at = format_time (us_expires_at u)\<rparr>"

definition unlock_inserted :: "unlock_state \<Rightarrow> database \<Rightarrow> database" where
  "unlock_inserted u db = (bump_rowid UnlockIds db)
     \<lparr>db_unlocks := db_unlocks db @ [unlock_row_of (us_id u) u],
      db_unlock_targets := db_unlock_targets db @ target_rows (us_id u) 0 (us_rule_ids u)\<rparr>"

lemma unlock_inserted_no_faults [simp]: "no_faults (unlock_inserted u db) = no_faults db"
  by (simp add: unlock_inserted_def)

definition new_unlock :: "string \<Rightarrow> string list \<Rightarrow> u32 \<Rightarrow> string \<Rightarrow> instant \<Rightarrow> instant \<Rightarrow> database \<Rightarrow> unlock_state" where
  "new_unlock target ids minutes reason started_at expires_at db =
     \<lparr>us_id = next_rowid UnlockIds db, us_target = target, us_rule_id = hd ids, us_rule_ids = ids,
      us_minutes = minutes, us_reason = reason, us_started_at = started_at, us_expires_at = expires_at\<rparr>"

lemma insert_unlock_Inr:
  assumes "insert_unlock target ids minutes reason started_at expires_at db = (Inr u, db')"
  shows "ids \<noteq> [] \<and> u = new_unlock target ids minutes reason started_at expires_at db \<and> db' = unlock_inserted u db"
  using assms
  by (auto simp: insert_unlock_def transaction_Inr db_bind_Inr exec_Inr enumerated_def Let_def new_unlock_def
      unlock_inserted_def unlock_row_of_def bump_rowid_def insert_unlock_target_Inr
      split: list.splits dest!: insert_targets_Inr)

lemma insert_unlock_succeeds:
  assumes "no_faults db" "unlocks_ok db" "distinct ids" "ids \<noteq> []"
  shows "insert_unlock target ids minutes reason started_at expires_at db
    = (Inr (new_unlock target ids minutes reason started_at expires_at db),
       unlock_inserted (new_unlock target ids minutes reason started_at expires_at db) db)"
proof -
  obtain r rest where ids: "ids = r # rest" using assms(4) by (cases ids) auto
  let ?i = "next_rowid UnlockIds db"
  let ?db = "(bump_rowid UnlockIds db)\<lparr>db_unlocks := db_unlocks db @
      [unlock_row_of ?i (new_unlock target ids minutes reason started_at expires_at db)]\<rparr>"
  have fresh: "ut_unlock_id t \<noteq> ?i" if "t \<in> set (db_unlock_targets db)" for t
    using assms(2) that unfolding unlocks_ok_def next_rowid_def by fastforce
  have "db_for (List.enumerate 0 ids) (insert_unlock_target ?i) ?db
      = (Inr (), ?db\<lparr>db_unlock_targets := db_unlock_targets ?db @ target_rows ?i 0 ids\<rparr>)"
    by (rule insert_targets_succeeds) (use assms fresh in \<open>auto simp: bump_rowid_def\<close>)
  then show ?thesis using assms(1) ids
    by (simp add: insert_unlock_def enumerated_def transaction_def db_bind_def Let_def new_unlock_def
        unlock_inserted_def unlock_row_of_def bump_rowid_def)
qed

lemma unlock_inserted_ok:
  "unlocks_ok db \<Longrightarrow> us_id u = next_rowid UnlockIds db \<Longrightarrow> unlocks_ok (unlock_inserted u db)"
  by (fastforce simp: unlocks_ok_def unlock_inserted_def unlock_row_of_def bump_rowid_def next_rowid_def
      dest: target_rows_unlock)

lemma granted_unlocks_inserted:
  assumes "unlocks_ok db" "us_id u = next_rowid UnlockIds db"
  shows "set (granted_unlocks r now (unlock_inserted u db)) = set (granted_unlocks r now db) \<union>
    (if r \<in> set (us_rule_ids u) \<and> now < trunc (us_expires_at u) then {unlock_row_of (us_id u) u} else {})"
proof -
  have old: "ut_unlock_id t \<noteq> us_id u" if "t \<in> set (db_unlock_targets db)" for t
    using assms that unfolding unlocks_ok_def next_rowid_def by fastforce
  have new: "ul_id v \<noteq> us_id u" if "v \<in> set (db_unlocks db)" for v
    using assms that unfolding unlocks_ok_def next_rowid_def by fastforce
  have rule: "(\<exists>t\<in>set (target_rows (us_id u) 0 (us_rule_ids u)). ut_rule_id t = r) \<longleftrightarrow> r \<in> set (us_rule_ids u)"
    using target_rows_rules [of "us_id u" 0 "us_rule_ids u"] by (metis imageE imageI)
  have ex: "format_time now < ul_expires_at (unlock_row_of (us_id u) u) \<longleftrightarrow> now < trunc (us_expires_at u)"
    "ul_id (unlock_row_of (us_id u) u) = us_id u"
    by (simp_all add: unlock_row_of_def trunc_def format_time_less_iff)
  show ?thesis using old new rule ex target_rows_unlock
    by (fastforce simp: granted_unlocks_def unlock_inserted_def bump_rowid_def)
qed

lemma active_unlock_cases:
  assumes "no_faults db"
  obtains "granted_unlocks r now db = []" "active_unlock_for_rule r now db = Inr None"
  | u s where "u \<in> set (granted_unlocks r now db)" "active_unlock_for_rule r now db = Inr (Some s)"
      "us_expires_at s = parse_time (ul_expires_at u)" "us_id s = ul_id u" "now < us_expires_at s"
proof (cases "sort_key (\<lambda>u. - ul_expires_at u) (granted_unlocks r now db)")
  case Nil
  then have "granted_unlocks r now db = []" by (metis length_0_conv length_sort)
  then show ?thesis using that Nil assms by (simp add: active_unlock_for_rule_def)
next
  case (Cons u rest)
  then have u: "u \<in> set (granted_unlocks r now db)" by (metis list.set_intros(1) set_sort)
  then have "\<exists>t\<in>set (db_unlock_targets db). ut_unlock_id t = ul_id u \<and> \<not> ut_revoked t"
    and late: "format_time now < ul_expires_at u"
    by (auto simp: granted_unlocks_def)
  then have "set (granted_rule_ids (ul_id u) db) \<noteq> {}" by (auto simp: granted_rule_ids_def)
  then obtain i ids where "granted_rule_ids (ul_id u) db = i # ids" by (cases "granted_rule_ids (ul_id u) db") auto
  then show ?thesis using that u late Cons assms
    by (simp add: active_unlock_for_rule_def unlock_from_row_def format_time_less_iff)
qed

lemma active_unlock_Some:
  assumes "no_faults db"
  shows "(\<exists>s. active_unlock_for_rule r now db = Inr (Some s)) \<longleftrightarrow> granted_unlocks r now db \<noteq> []"
  using active_unlock_cases [OF assms, of r now] by (metis empty_iff list.set(1) option.simps(3) sum.inject(2))

text \<open>
  An unlock opens its lists and no others until it expires: after a successful insert a list has
  an unlock in force exactly if it had one before or is one of the lists unlocked and the time of
  expiry (in microseconds) is still to come. Reading the unlock in force never runs into the
  unchecked index \<open>ids[0]\<close>.
\<close>

lemma unlock_in_force_until_expiry:
  assumes "no_faults db" "unlocks_ok db"
    and "insert_unlock target ids minutes reason started_at expires_at db = (Inr u, db')"
  shows "unlocks_ok db'
    \<and> ((\<exists>s. active_unlock_for_rule r now db' = Inr (Some s)) \<longleftrightarrow>
        (\<exists>s. active_unlock_for_rule r now db = Inr (Some s)) \<or> (r \<in> set ids \<and> now < trunc expires_at))
    \<and> (\<forall>e. active_unlock_for_rule r now db' \<noteq> Inl e)"
proof (intro conjI allI)
  have u: "u = new_unlock target ids minutes reason started_at expires_at db" "db' = unlock_inserted u db"
    using insert_unlock_Inr [OF assms(3)] by auto
  then have i: "us_id u = next_rowid UnlockIds db" "us_rule_ids u = ids" "us_expires_at u = expires_at"
    by (simp_all add: new_unlock_def)
  have nf: "no_faults db'" using assms(1) u(2) by simp
  show "unlocks_ok db'" using unlock_inserted_ok [OF assms(2) i(1)] u(2) by simp
  have "granted_unlocks r now db' \<noteq> [] \<longleftrightarrow> granted_unlocks r now db \<noteq> [] \<or> (r \<in> set ids \<and> now < trunc expires_at)"
    unfolding set_empty [symmetric] u(2) granted_unlocks_inserted [OF assms(2) i(1)] i(2,3) by auto
  then show "(\<exists>s. active_unlock_for_rule r now db' = Inr (Some s)) \<longleftrightarrow>
        (\<exists>s. active_unlock_for_rule r now db = Inr (Some s)) \<or> (r \<in> set ids \<and> now < trunc expires_at)"
    using active_unlock_Some nf assms(1) by simp
  show "active_unlock_for_rule r now db' \<noteq> Inl e" for e
    by (rule active_unlock_cases [OF nf, of r now]) auto
qed

lemma empty_unlocks_ok [simp]: "unlocks_ok empty_database"
  by (simp add: unlocks_ok_def empty_database_def)

lemma unlock_in_force_until_expiry_witness:
  "\<exists>s. active_unlock_for_rule ''news'' 60000000000
     (snd (insert_unlock ''news'' [''news''] 2 ''reading'' 0 120000000000 empty_database)) = Inr (Some s)"
proof -
  have i: "insert_unlock ''news'' [''news''] 2 ''reading'' 0 120000000000 empty_database =
     (Inr (new_unlock ''news'' [''news''] 2 ''reading'' 0 120000000000 empty_database),
      unlock_inserted (new_unlock ''news'' [''news''] 2 ''reading'' 0 120000000000 empty_database) empty_database)"
    by (rule insert_unlock_succeeds) simp_all
  show ?thesis
    using unlock_in_force_until_expiry [OF empty_database_no_faults empty_unlocks_ok i, of "''news''" 60000000000] i
    by (simp add: trunc_def parse_time_def format_time_def)
qed

end
