(* ===== verification/Usage.thy ===== *)
theory Usage imports Keyed begin

text \<open>
  Usage of the metered lists in \<^verbatim>\<open>focus-core/src/db.rs\<close>: a session per application list that is open
  while a matching process runs, brought up to date at every scan, and a visit per browser tab that
  is kept alive by heartbeats.
\<close>

section \<open>Application usage\<close>

definition is_open :: "app_usage_row \<Rightarrow> bool" where
  "is_open row \<longleftrightarrow> au_ended_at row = None"

definition open_app_usage_rule_ids :: "database \<Rightarrow> error + string list" where
  "open_app_usage_rule_ids = query ''app_usage_sessions.select_open''
     (\<lambda>db. remdups (map au_rule_id (filter is_open (db_app_usage db))))"

definition end_rows :: "(app_usage_row \<Rightarrow> bool) \<Rightarrow> stamp \<Rightarrow> database \<Rightarrow> database" where
  "end_rows P at db = db\<lparr>db_app_usage := map (\<lambda>row. if is_open row \<and> P row
     then row\<lparr>au_ended_at := Some at, au_last_seen_at := at\<rparr> else row) (db_app_usage db)\<rparr>"

definition end_open_app_usage_sessions :: "instant \<Rightarrow> unit operation" where
  "end_open_app_usage_sessions now =
     update_rows ''app_usage_sessions.end_open'' (end_rows (\<lambda>_. True) (format_time now))"

definition end_open_app_usage_session :: "string \<Rightarrow> instant \<Rightarrow> unit operation" where
  "end_open_app_usage_session rule_id now =
     update_rows ''app_usage_sessions.end'' (end_rows (\<lambda>row. au_rule_id row = rule_id) (format_time now))"

text \<open>Of several open sessions of a list all but the last end when they were last seen.\<close>

definition close_duplicates :: "database \<Rightarrow> database" where
  "close_duplicates db = db\<lparr>db_app_usage := map (\<lambda>row.
     if is_open row \<and> (\<exists>other\<in>set (db_app_usage db). is_open other \<and> au_rule_id other = au_rule_id row
                          \<and> au_id row < au_id other)
     then row\<lparr>au_ended_at := Some (au_last_seen_at row)\<rparr> else row) (db_app_usage db)\<rparr>"

definition close_duplicate_open_app_usage_sessions :: "unit operation" where
  "close_duplicate_open_app_usage_sessions = update_rows ''app_usage_sessions.close_duplicates'' close_duplicates"

definition see_rows :: "string \<Rightarrow> stamp \<Rightarrow> database \<Rightarrow> database" where
  "see_rows rule_id at db = db\<lparr>db_app_usage := map (\<lambda>row. if is_open row \<and> au_rule_id row = rule_id
     then row\<lparr>au_last_seen_at := at\<rparr> else row) (db_app_usage db)\<rparr>"

definition open_row :: "string \<Rightarrow> stamp \<Rightarrow> database \<Rightarrow> database" where
  "open_row rule_id at db = (bump_rowid AppUsageIds db)\<lparr>db_app_usage := db_app_usage db @
     [\<lparr>au_id = next_rowid AppUsageIds db, au_rule_id = rule_id, au_started_at = at, au_last_seen_at = at,
       au_ended_at = None\<rparr>]\<rparr>"

definition touch_app_usage :: "string list \<Rightarrow> instant \<Rightarrow> string \<Rightarrow> unit operation" where
  "touch_app_usage open_ids now rule_id =
     (if rule_id \<in> set open_ids
      then update_rows ''app_usage_sessions.seen'' (see_rows rule_id (format_time now))
      else update_rows ''app_usage_sessions.insert'' (open_row rule_id (format_time now)))"

text \<open>The hash set of active ids is walked in some order: here that of the list.\<close>

definition sync_app_usage_sessions :: "string list \<Rightarrow> instant \<Rightarrow> unit operation" where
  "sync_app_usage_sessions active_rule_ids now =
     db_bind close_duplicate_open_app_usage_sessions (\<lambda>_.
     db_bind (reading open_app_usage_rule_ids) (\<lambda>open_ids.
     db_bind (db_for (remdups active_rule_ids) (touch_app_usage open_ids now)) (\<lambda>_.
       db_for open_ids (\<lambda>rule_id.
         if rule_id \<in> set active_rule_ids then db_return () else end_open_app_usage_session rule_id now))))"

definition insert_app_usage_interval :: "string \<Rightarrow> instant \<Rightarrow> instant \<Rightarrow> int operation" where
  "insert_app_usage_interval rule_id started_at ended_at = exec ''app_usage_sessions.insert_interval'' (\<lambda>db.
     let ident = next_rowid AppUsageIds db in
     Inr (ident, (bump_rowid AppUsageIds db)\<lparr>db_app_usage := db_app_usage db @
       [\<lparr>au_id = ident, au_rule_id = rule_id, au_started_at = format_time started_at,
         au_last_seen_at = format_time ended_at, au_ended_at = Some (format_time ended_at)\<rparr>]\<rparr>))"

text \<open>The part of a session in a period; an open session lasts until now.\<close>

definition row_used_seconds :: "instant \<Rightarrow> instant \<Rightarrow> instant \<Rightarrow> app_usage_row \<Rightarrow> int" where
  "row_used_seconds period_start period_end now row =
     (let ended_at = (case au_ended_at row of Some e \<Rightarrow> parse_time e | None \<Rightarrow> now);
          clamped_start = max (parse_time (au_started_at row)) period_start;
          clamped_end = min (min ended_at now) period_end
      in if clamped_end > clamped_start then num_seconds (clamped_end - clamped_start) else 0)"

definition used_seconds_for_app_rule_between ::
  "string \<Rightarrow> instant \<Rightarrow> instant \<Rightarrow> instant \<Rightarrow> database \<Rightarrow> error + int" where
  "used_seconds_for_app_rule_between rule_id period_start period_end now =
     query ''app_usage_sessions.select_used'' (\<lambda>db.
       sum_list (map (row_used_seconds period_start period_end now)
         (filter (\<lambda>row. au_rule_id row = rule_id \<and> au_started_at row < format_time period_end
              \<and> (case au_ended_at row of Some e \<Rightarrow> e | None \<Rightarrow> format_time now) > format_time period_start)
           (db_app_usage db))))"

section \<open>Visits\<close>

record visit_usage =
  vu_rule_id :: "string option"
  vu_url :: string
  vu_started_at :: instant
  vu_last_heartbeat_at :: instant
  vu_ended_at :: "instant option"

definition visit_usage_between :: "instant \<Rightarrow> instant \<Rightarrow> instant \<Rightarrow> database \<Rightarrow> error + visit_usage list" where
  "visit_usage_between period_start period_end now = query ''visits.select_usage'' (\<lambda>db.
     map (\<lambda>v. \<lparr>vu_rule_id = v_rule_id v, vu_url = v_url v, vu_started_at = parse_time (v_started_at v),
            vu_last_heartbeat_at = parse_time (v_last_heartbeat_at v),
            vu_ended_at = map_option parse_time (v_ended_at v)\<rparr>)
       (filter (\<lambda>v. v_started_at v < format_time period_end
            \<and> (case v_ended_at v of Some e \<Rightarrow> e | None \<Rightarrow> v_last_heartbeat_at v) > format_time period_start)
         (db_visits db)))"

definition end_visits :: "(visit_row \<Rightarrow> bool) \<Rightarrow> stamp \<Rightarrow> database \<Rightarrow> database" where
  "end_visits P at db = db\<lparr>db_visits := map (\<lambda>v. if v_ended_at v = None \<and> P v
     then v\<lparr>v_ended_at := Some at, v_last_heartbeat_at := at\<rparr> else v) (db_visits db)\<rparr>"

definition insert_visit_start ::
  "string option \<Rightarrow> string \<Rightarrow> string \<Rightarrow> string \<Rightarrow> instant \<Rightarrow> visit_state operation" where
  "insert_visit_start rule_id target url tab_id now =
     db_bind (update_rows ''visits.end_tab'' (end_visits (\<lambda>v. v_tab_id v = tab_id) (format_time now))) (\<lambda>_.
     db_bind (exec ''visits.insert'' (\<lambda>db.
         let ident = next_rowid VisitIds db in
         Inr (ident, (bump_rowid VisitIds db)\<lparr>db_visits := db_visits db @
           [\<lparr>v_id = ident, v_rule_id = rule_id, v_target = target, v_url = url, v_tab_id = tab_id,
             v_started_at = format_time now, v_last_heartbeat_at = format_time now, v_ended_at = None\<rparr>]\<rparr>)))
       (\<lambda>ident. db_return \<lparr>vs_id = ident, vs_target = target, vs_rule_id = rule_id, vs_url = url,
          vs_tab_id = tab_id, vs_started_at = now, vs_last_heartbeat_at = now, vs_ended_at = None\<rparr>))"

definition update_visit_heartbeat :: "int \<Rightarrow> instant \<Rightarrow> unit operation" where
  "update_visit_heartbeat visit_id now = update_rows ''visits.heartbeat'' (\<lambda>db. db\<lparr>db_visits :=
     map (\<lambda>v. if v_id v = visit_id \<and> v_ended_at v = None
              then v\<lparr>v_last_heartbeat_at := format_time now\<rparr> else v) (db_visits db)\<rparr>)"

definition end_visit :: "int \<Rightarrow> instant \<Rightarrow> unit operation" where
  "end_visit visit_id now = update_rows ''visits.end'' (end_visits (\<lambda>v. v_id v = visit_id) (format_time now))"

definition insert_visit_interval ::
  "string \<Rightarrow> string \<Rightarrow> string \<Rightarrow> string \<Rightarrow> instant \<Rightarrow> instant \<Rightarrow> int operation" where
  "insert_visit_interval rule_id target url tab_id started_at ended_at = exec ''visits.insert_interval'' (\<lambda>db.
     let ident = next_rowid VisitIds db in
     Inr (ident, (bump_rowid VisitIds db)\<lparr>db_visits := db_visits db @
       [\<lparr>v_id = ident, v_rule_id = Some rule_id, v_target = target, v_url = url, v_tab_id = tab_id,
         v_started_at = format_time started_at, v_last_heartbeat_at = format_time ended_at,
         v_ended_at = Some (format_time ended_at)\<rparr>]\<rparr>))"

section \<open>Sessions of one list never overlap\<close>

text \<open>A later session of the same list starts after the earlier one ended.\<close>

definition follows :: "app_usage_row \<Rightarrow> app_usage_row \<Rightarrow> bool" where
  "follows a b \<longleftrightarrow> (au_rule_id a = au_rule_id b \<longrightarrow> (\<exists>e. au_ended_at a = Some e \<and> e \<le> au_started_at b))"

definition row_ok :: "stamp \<Rightarrow> app_usage_row \<Rightarrow> bool" where
  "row_ok t row \<longleftrightarrow> au_started_at row \<le> t \<and> (\<forall>e. au_ended_at row = Some e \<longrightarrow> au_started_at row \<le> e \<and> e \<le> t)"

definition usage_ok :: "stamp \<Rightarrow> database \<Rightarrow> bool" where
  "usage_ok t db \<longleftrightarrow> sorted_wrt follows (db_app_usage db) \<and> (\<forall>row\<in>set (db_app_usage db). row_ok t row)"

definition open_rules :: "database \<Rightarrow> string set" where
  "open_rules db = au_rule_id ` {row \<in> set (db_app_usage db). is_open row}"

lemma usage_ok_later: "usage_ok t db \<Longrightarrow> t \<le> t' \<Longrightarrow> usage_ok t' db"
  unfolding usage_ok_def row_ok_def by (meson order_trans)

text \<open>Rewriting open rows keeps the order of the sessions.\<close>

lemma usage_ok_map:
  assumes "usage_ok t db"
    and "\<And>row. \<not> is_open row \<Longrightarrow> f row = row"
    and "\<And>row. au_rule_id (f row) = au_rule_id row \<and> au_started_at (f row) = au_started_at row"
    and "\<And>row. row_ok t row \<Longrightarrow> row_ok t (f row)"
  shows "usage_ok t (db\<lparr>db_app_usage := map f (db_app_usage db)\<rparr>)"
proof -
  have "follows (f a) (f b)" if "follows a b" for a b
    using that assms(2) [of a] assms(3) [of a] assms(3) [of b] by (auto simp: follows_def is_open_def)
  then have "sorted_wrt follows (map f (db_app_usage db))"
    using assms(1) unfolding sorted_wrt_map usage_ok_def by (auto intro: sorted_wrt_mono_rel)
  then show ?thesis using assms(1,4) by (simp add: usage_ok_def)
qed

lemma usage_ok_end_rows: "usage_ok t db \<Longrightarrow> usage_ok t (end_rows P t db)"
  unfolding end_rows_def by (rule usage_ok_map) (auto simp: row_ok_def)

lemma usage_ok_see_rows: "usage_ok t db \<Longrightarrow> usage_ok t (see_rows r t db)"
  unfolding see_rows_def by (rule usage_ok_map) (auto simp: row_ok_def)

lemma usage_ok_open_row: "usage_ok t db \<Longrightarrow> r \<notin> open_rules db \<Longrightarrow> usage_ok t (open_row r t db)"
  by (fastforce simp: usage_ok_def open_row_def sorted_wrt_append follows_def row_ok_def open_rules_def is_open_def)

lemma open_row_unique:
  assumes "sorted_wrt follows rows" "a \<in> set rows" "b \<in> set rows" "is_open a" "is_open b" "au_rule_id a = au_rule_id b"
  shows "a = b"
  using assms by (induction rows) (auto simp: follows_def is_open_def)

lemma close_duplicates_ok: "usage_ok t db \<Longrightarrow> close_duplicates db = db"
proof -
  assume ok: "usage_ok t db"
  have "(if is_open row \<and> (\<exists>other\<in>set (db_app_usage db). is_open other \<and> au_rule_id other = au_rule_id row
           \<and> au_id row < au_id other)
      then row\<lparr>au_ended_at := Some (au_last_seen_at row)\<rparr> else row) = row" if "row \<in> set (db_app_usage db)" for row
  proof -
    have "\<not> (\<exists>other\<in>set (db_app_usage db). is_open other \<and> au_rule_id other = au_rule_id row
        \<and> au_id row < au_id other)" if "is_open row"
      using open_row_unique [of "db_app_usage db"] ok \<open>row \<in> _\<close> that unfolding usage_ok_def by (metis less_irrefl)
    then show ?thesis by auto
  qed
  then show ?thesis unfolding close_duplicates_def by (simp cong: map_cong)
qed

lemma open_rules_map:
  assumes "\<And>row. au_rule_id (f row) = au_rule_id row"
  shows "open_rules (db\<lparr>db_app_usage := map f (db_app_usage db)\<rparr>)
    = au_rule_id ` {row \<in> set (db_app_usage db). is_open (f row)}"
proof -
  have "{row \<in> set (map f (db_app_usage db)). is_open row} = f ` {row \<in> set (db_app_usage db). is_open (f row)}"
    by auto
  then show ?thesis by (simp add: open_rules_def image_image assms)
qed

lemma open_rules_see: "open_rules (see_rows r t db) = open_rules db"
  unfolding see_rows_def by (subst open_rules_map) (auto simp: open_rules_def is_open_def)

lemma open_rules_end: "open_rules (end_rows (\<lambda>row. au_rule_id row = r) t db) = open_rules db - {r}"
  unfolding end_rows_def by (subst open_rules_map) (auto simp: open_rules_def is_open_def)

lemma open_rules_open: "open_rules (open_row r t db) = insert r (open_rules db)"
proof -
  let ?new = "\<lparr>au_id = next_rowid AppUsageIds db, au_rule_id = r, au_started_at = t, au_last_seen_at = t,
    au_ended_at = None\<rparr>"
  have "{row \<in> set (db_app_usage (open_row r t db)). is_open row}
      = insert ?new {row \<in> set (db_app_usage db). is_open row}"
    by (auto simp: open_row_def is_open_def)
  then show ?thesis by (simp add: open_rules_def)
qed

lemmas open_rules_simps = open_rules_see open_rules_end open_rules_open

lemma touch_app_usage_apply:
  "touch_app_usage open_ids now r db =
     (case db_fault db (if r \<in> set open_ids then ''app_usage_sessions.seen'' else ''app_usage_sessions.insert'') of
        Some e \<Rightarrow> (Inl (ErrDatabase e), db)
      | None \<Rightarrow> (Inr (), if r \<in> set open_ids then see_rows r (format_time now) db else open_row r (format_time now) db))"
  by (simp add: touch_app_usage_def update_rows_def exec_def split: option.splits)

lemma touch_loop:
  "db_for rs (touch_app_usage open_ids now) db = (res, db') \<Longrightarrow> usage_ok (format_time now) db \<Longrightarrow> distinct rs
   \<Longrightarrow> open_rules db \<inter> set rs \<subseteq> set open_ids \<Longrightarrow> set open_ids \<inter> set rs \<subseteq> open_rules db
   \<Longrightarrow> usage_ok (format_time now) db' \<and> (res = Inr () \<longrightarrow> open_rules db' = open_rules db \<union> set rs)"
proof (induction rs arbitrary: db)
  case (Cons r rs)
  let ?t = "format_time now"
  define db1 where "db1 = (if r \<in> set open_ids then see_rows r ?t db else open_row r ?t db)"
  have ok: "usage_ok ?t db1"
  proof (cases "r \<in> set open_ids")
    case False
    then have "r \<notin> open_rules db" using Cons.prems(4) by auto
    then show ?thesis using False Cons.prems(2) usage_ok_open_row by (simp add: db1_def)
  qed (use Cons.prems(2) usage_ok_see_rows in \<open>simp add: db1_def\<close>)
  have op: "open_rules db1 = insert r (open_rules db)"
    using Cons.prems(5) by (auto simp: db1_def open_rules_simps)
  consider e where "res = Inl e" "db' = db" | "db_for rs (touch_app_usage open_ids now) db1 = (res, db')"
    using Cons.prems(1)
    by (auto simp: touch_app_usage_apply [of _ _ r] db_bind_def db1_def split: option.splits if_splits)
  then show ?case
  proof cases
    case 2
    have "open_rules db1 \<inter> set rs \<subseteq> set open_ids" "set open_ids \<inter> set rs \<subseteq> open_rules db1"
      using Cons.prems(3-5) by (auto simp: op)
    from Cons.IH [OF 2 ok _ this] Cons.prems(3) show ?thesis by (auto simp: op)
  qed (use Cons.prems(2) in simp)
qed simp

lemma end_loop:
  "db_for rs (\<lambda>r. if r \<in> set active then db_return () else end_open_app_usage_session r now) db = (res, db')
   \<Longrightarrow> usage_ok (format_time now) db
   \<Longrightarrow> usage_ok (format_time now) db' \<and> (res = Inr () \<longrightarrow> open_rules db' = open_rules db - (set rs - set active))"
proof (induction rs arbitrary: db)
  case (Cons r rs)
  let ?t = "format_time now"
  define db1 where "db1 = (if r \<in> set active then db else end_rows (\<lambda>row. au_rule_id row = r) ?t db)"
  have ok: "usage_ok ?t db1" using Cons.prems(2) usage_ok_end_rows by (simp add: db1_def)
  have op: "open_rules db1 = open_rules db - ({r} - set active)" by (auto simp: db1_def open_rules_simps)
  consider e where "res = Inl e" "db' = db"
    | "db_for rs (\<lambda>r. if r \<in> set active then db_return () else end_open_app_usage_session r now) db1 = (res, db')"
    using Cons.prems(1)
    by (auto simp: end_open_app_usage_session_def db_bind_def update_rows_def exec_def db1_def
        split: option.splits if_splits)
  then show ?case
  proof cases
    case 2
    from Cons.IH [OF 2 ok] show ?thesis by (auto simp: op)
  qed (use Cons.prems(2) in simp)
qed simp

text \<open>
  After a scan the open application sessions are exactly those of the lists seen running, and
  the sessions of a list never overlap: this is kept by every scan whose clock has not gone back,
  also by one that fails half way.
\<close>

lemma sync_app_usage_opens_active:
  assumes "usage_ok t db" "t \<le> format_time now"
    and "sync_app_usage_sessions active_ids now db = (res, db')"
  shows "usage_ok (format_time now) db' \<and> (res = Inr () \<longrightarrow> open_rules db' = set active_ids)"
proof -
  let ?t = "format_time now"
  let ?ids = "remdups (map au_rule_id (filter is_open (db_app_usage db)))"
  have ok: "usage_ok ?t db" using usage_ok_later assms(1,2) by blast
  have ids: "set ?ids = open_rules db" by (simp add: open_rules_def)
  note same = close_duplicates_ok [OF assms(1)]
  obtain r1 db1 where 1: "db_for (remdups active_ids) (touch_app_usage ?ids now) db = (r1, db1)" by fastforce
  have t: "usage_ok ?t db1 \<and> (r1 = Inr () \<longrightarrow> open_rules db1 = open_rules db \<union> set active_ids)"
    using touch_loop [OF 1 ok] ids by auto
  obtain r2 db2 where 2: "db_for ?ids (\<lambda>r. if r \<in> set active_ids then db_return ()
      else end_open_app_usage_session r now) db1 = (r2, db2)" by fastforce
  have e: "usage_ok ?t db2 \<and> (r2 = Inr () \<longrightarrow> open_rules db2 = open_rules db1 - (open_rules db - set active_ids))"
    using end_loop [OF 2] t unfolding ids by blast
  consider "db' = db" "res \<noteq> Inr ()" | "res = r1" "db' = db1" "r1 \<noteq> Inr ()" | "r1 = Inr ()" "res = r2" "db' = db2"
    using assms(3) 1 2 same
    by (auto simp: sync_app_usage_sessions_def close_duplicate_open_app_usage_sessions_def update_rows_def exec_def
        open_app_usage_rule_ids_def query_def db_bind_def split: option.splits sum.splits)
  then show ?thesis using ok t e by cases auto
qed

lemma sync_app_usage_opens_active_witness:
  "open_rules (snd (sync_app_usage_sessions [''games''] 5000 empty_database)) = {''games''}"
proof -
  have ok: "usage_ok 0 empty_database" by (simp add: usage_ok_def empty_database_def)
  obtain res db' where s: "sync_app_usage_sessions [''games''] 5000 empty_database = (res, db')" by fastforce
  then have "res = Inr ()"
    by (simp add: sync_app_usage_sessions_def close_duplicate_open_app_usage_sessions_def open_app_usage_rule_ids_def
        touch_app_usage_def db_bind_def query_def update_rows_def exec_def empty_database_def close_duplicates_def)
  then show ?thesis using sync_app_usage_opens_active [OF ok _ s] s by (simp add: format_time_def)
qed

section \<open>The seconds used\<close>

text \<open>The rows from one on, each clamped to the period, fit after the start of the first.\<close>

lemma used_sum_bound:
  assumes "sorted_wrt follows rows" "\<forall>row\<in>set rows. au_rule_id row = r"
    and "\<forall>row\<in>set rows. lo \<le> max (parse_time (au_started_at row)) ps"
  shows "0 \<le> sum_list (map (row_used_seconds ps pe now) rows)
    \<and> sum_list (map (row_used_seconds ps pe now) rows) * nanos_per_second \<le> max 0 (min now pe - lo)"
  using assms
proof (induction rows arbitrary: lo)
  case (Cons row rows)
  let ?stop = "case au_ended_at row of Some e \<Rightarrow> parse_time e | None \<Rightarrow> now"
  let ?cs = "max (parse_time (au_started_at row)) ps"
  let ?ce = "min (min ?stop now) pe"
  have lo: "lo \<le> ?cs" using Cons.prems(3) by simp
  show ?case
  proof (cases "?cs < ?ce")
    case False
    then have "row_used_seconds ps pe now row = 0" by (simp only: row_used_seconds_def Let_def if_False)
    then show ?thesis using Cons.IH [of lo] Cons.prems by simp
  next
    case True
    then have c: "row_used_seconds ps pe now row = num_seconds (?ce - ?cs)"
      by (simp add: row_used_seconds_def Let_def)
    have "?ce \<le> max (parse_time (au_started_at next)) ps" if "next \<in> set rows" for "next"
    proof -
      have "follows row next" "au_rule_id row = au_rule_id next" using Cons.prems(1,2) that by auto
      then obtain e where "au_ended_at row = Some e" "e \<le> au_started_at next" by (auto simp: follows_def)
      then show ?thesis by (auto simp: parse_time_def)
    qed
    then have "0 \<le> sum_list (map (row_used_seconds ps pe now) rows)
      \<and> sum_list (map (row_used_seconds ps pe now) rows) * nanos_per_second \<le> max 0 (min now pe - ?ce)"
      using Cons.prems(1,2) by (intro Cons.IH) auto
    moreover have "0 \<le> num_seconds (?ce - ?cs)" "num_seconds (?ce - ?cs) * nanos_per_second \<le> ?ce - ?cs"
      using num_seconds_bounds(1,2) [of "?ce - ?cs"] True by linarith+
    ultimately show ?thesis unfolding list.map sum_list.Cons c distrib_right using lo by linarith
  qed
qed simp

text \<open>
  The seconds charged to an application list in a period are never negative and never more than
  the part of the period that has passed: no second is charged twice.
\<close>

lemma app_usage_bounded_by_period:
  assumes "usage_ok t db" "used_seconds_for_app_rule_between r ps pe now db = Inr n"
  shows "0 \<le> n \<and> n * nanos_per_second \<le> max 0 (min now pe - ps)"
proof -
  let ?P = "\<lambda>row. au_rule_id row = r \<and> au_started_at row < format_time pe
      \<and> (case au_ended_at row of Some e \<Rightarrow> e | None \<Rightarrow> format_time now) > format_time ps"
  let ?rows = "filter ?P (db_app_usage db)"
  have a: "sorted_wrt follows ?rows"
    using assms(1) unfolding usage_ok_def by (blast intro: sorted_wrt_filter)
  have b: "\<forall>row\<in>set ?rows. au_rule_id row = r" by simp
  have c: "\<forall>row\<in>set ?rows. ps \<le> max (parse_time (au_started_at row)) ps" by simp
  have n: "n = sum_list (map (row_used_seconds ps pe now) ?rows)"
    using assms(2) unfolding used_seconds_for_app_rule_between_def query_Inr by (elim conjE)
  show ?thesis unfolding n by (rule used_sum_bound [OF a b c])
qed

definition games_usage :: database where
  "games_usage = empty_database\<lparr>db_app_usage :=
     [\<lparr>au_id = 1, au_rule_id = ''games'', au_started_at = 0, au_last_seen_at = 60000000, au_ended_at = Some 60000000\<rparr>,
      \<lparr>au_id = 2, au_rule_id = ''games'', au_started_at = 90000000, au_last_seen_at = 90000000, au_ended_at = None\<rparr>]\<rparr>"

lemma app_usage_bounded_by_period_witness:
  "used_seconds_for_app_rule_between ''games'' 30000000000 200000000000 100000000000 games_usage = Inr 40
   \<and> 40 * nanos_per_second \<le> 70000000000"
proof -
  have ok: "usage_ok 90000000 games_usage"
    by (simp add: usage_ok_def games_usage_def row_ok_def follows_def)
  have n: "used_seconds_for_app_rule_between ''games'' 30000000000 200000000000 100000000000 games_usage = Inr 40"
    by (simp add: used_seconds_for_app_rule_between_def query_def games_usage_def empty_database_def format_time_def
        row_used_seconds_def parse_time_def num_seconds_def nanos_per_second_def)
  show ?thesis using app_usage_bounded_by_period [OF ok n] n by simp
qed

section \<open>One open visit per tab\<close>

definition open_visits :: "database \<Rightarrow> string \<Rightarrow> visit_row list" where
  "open_visits db tab = filter (\<lambda>v. v_tab_id v = tab \<and> v_ended_at v = None) (db_visits db)"

text \<open>
  Starting a visit ends what was open in its tab: afterwards the tab has exactly the new visit
  open, from now on, and the open visits of other tabs are the same.
\<close>

lemma visit_start_replaces_open_visit:
  assumes "insert_visit_start rule_id target url tab now db = (Inr visit, db')"
  shows "map v_id (open_visits db' tab) = [vs_id visit]
    \<and> vs_rule_id visit = rule_id \<and> vs_started_at visit = now
    \<and> (\<forall>other. other = tab \<or> open_visits db' other = open_visits db other)"
proof -
  have v: "db_visits db' = map (\<lambda>v. if v_ended_at v = None \<and> v_tab_id v = tab
      then v\<lparr>v_ended_at := Some (format_time now), v_last_heartbeat_at := format_time now\<rparr> else v) (db_visits db) @
      [\<lparr>v_id = vs_id visit, v_rule_id = rule_id, v_target = target, v_url = url, v_tab_id = tab,
        v_started_at = format_time now, v_last_heartbeat_at = format_time now, v_ended_at = None\<rparr>]"
    and s: "vs_rule_id visit = rule_id" "vs_started_at visit = now"
    using assms by (auto simp: insert_visit_start_def db_bind_Inr update_rows_Inr exec_Inr Let_def end_visits_def)
  have e1: "filter (\<lambda>v. v_tab_id v = tab \<and> v_ended_at v = None) (map (\<lambda>v. if v_ended_at v = None \<and> v_tab_id v = tab
      then v\<lparr>v_ended_at := Some (format_time now), v_last_heartbeat_at := format_time now\<rparr> else v) vs) = []" for vs
    by (induction vs) auto
  have e2: "filter (\<lambda>v. v_tab_id v = other \<and> v_ended_at v = None) (map (\<lambda>v. if v_ended_at v = None \<and> v_tab_id v = tab
      then v\<lparr>v_ended_at := Some (format_time now), v_last_heartbeat_at := format_time now\<rparr> else v) vs)
      = filter (\<lambda>v. v_tab_id v = other \<and> v_ended_at v = None) vs" if "tab \<noteq> other" for other vs
    using that by (induction vs) auto
  show ?thesis using s by (auto simp: open_visits_def v e1 e2)
qed

lemma visit_start_replaces_open_visit_witness:
  "map v_id (open_visits (snd (insert_visit_start None ''x'' ''https://x.org/'' ''tab1'' 5000 empty_database)) ''tab1'') = [1]"
proof -
  obtain r db' where i: "insert_visit_start None ''x'' ''https://x.org/'' ''tab1'' 5000 empty_database = (r, db')"
    by fastforce
  then obtain v where v: "r = Inr v" "vs_id v = 1"
    by (auto simp: insert_visit_start_def db_bind_def update_rows_def exec_def end_visits_def empty_database_def
        next_rowid_def Let_def)
  show ?thesis using visit_start_replaces_open_visit [OF i [unfolded v(1)]] i v(2) by simp
qed

end
