(* ===== verification/PolicyEngine.thy ===== *)
theory PolicyEngine imports Matching Sessions Usage begin

text \<open>
  The policy engine of \<^verbatim>\<open>focus-core/src/policy.rs\<close>: what is decided for a URL or a process, what is
  metered and what remains of an allowance. The engine reads the configuration and the database; the
  database is passed as the last argument, since an evaluation context only borrows it. Reading can
  fail, and every failure that reaches a decision is a block. A panic inside a read (an unchecked
  index, the end of the calendar) is the error \<open>Panicked\<close> and travels the same way here.
\<close>

section \<open>Context\<close>

record evaluation_context =
  ec_config :: config
  ec_now :: datetime
  ec_clock_tampered :: bool

definition context_new :: "config \<Rightarrow> datetime \<Rightarrow> evaluation_context" where
  "context_new config now = \<lparr>ec_config = config, ec_now = now, ec_clock_tampered = False\<rparr>"

definition with_clock_tampered :: "bool \<Rightarrow> evaluation_context \<Rightarrow> evaluation_context" where
  "with_clock_tampered clock_tampered ctx = ctx\<lparr>ec_clock_tampered := clock_tampered\<rparr>"

definition now_utc :: "evaluation_context \<Rightarrow> instant" where
  "now_utc ctx = dt_utc (ec_now ctx)"

definition runtime_error :: "error \<Rightarrow> decision" where
  "runtime_error err = Block (RuntimeError err)"

text \<open>The local day of a moment, from midnight to midnight.\<close>

definition local_day_bounds :: "datetime \<Rightarrow> instant \<times> instant" where
  "local_day_bounds now =
     (let day_start = day_number (local_nanos now) * nanos_per_day - dt_offset now * nanos_per_second
      in (day_start, day_start + nanos_per_day))"

section \<open>Activity\<close>

definition schedule_ids_are_active :: "'u lib \<Rightarrow> evaluation_context \<Rightarrow> string list \<Rightarrow> bool" where
  "schedule_ids_are_active L ctx schedule_ids =
     schedule_ids_are_active_at L schedule_ids (ec_config ctx) (ec_now ctx) (ec_clock_tampered ctx)"

definition rule_is_active :: "'u lib \<Rightarrow> evaluation_context \<Rightarrow> rule_config \<Rightarrow> bool" where
  "rule_is_active L ctx rule =
     (if \<not> rc_enabled rule then False
      else case rc_tier rule of
        Hard \<Rightarrow> True
      | ScheduledBlock \<Rightarrow> schedule_ids_are_active L ctx (rc_schedule_ids rule)
      | ControlledAccess \<Rightarrow> schedule_ids_are_active L ctx (rc_schedule_ids rule))"

definition app_rule_is_active :: "'u lib \<Rightarrow> evaluation_context \<Rightarrow> app_rule_config \<Rightarrow> bool" where
  "app_rule_is_active L ctx rule =
     (if \<not> ac_enabled rule then False
      else case ac_tier rule of
        Hard \<Rightarrow> True
      | ScheduledBlock \<Rightarrow> schedule_ids_are_active L ctx (ac_schedule_ids rule)
      | ControlledAccess \<Rightarrow> schedule_ids_are_active L ctx (ac_schedule_ids rule))"

text \<open>With a tampered clock every session that was not cancelled counts.\<close>

definition context_detox_sessions :: "evaluation_context \<Rightarrow> database \<Rightarrow> error + detox_session list" where
  "context_detox_sessions ctx db =
     (if ec_clock_tampered ctx then uncancelled_detox_sessions db
      else active_detox_sessions (now_utc ctx) db)"

text \<open>The sessions are read only if the schedules leave the list inactive.\<close>

definition controlled_rule_is_active ::
  "'u lib \<Rightarrow> evaluation_context \<Rightarrow> database \<Rightarrow> rule_config \<Rightarrow> error + bool" where
  "controlled_rule_is_active L ctx db rule =
     (if \<not> rc_enabled rule then Inr False
      else if rule_is_active L ctx rule then Inr True
      else and_then (context_detox_sessions ctx db) (\<lambda>sessions.
        Inr (list_ex (\<lambda>session. rc_id rule \<in> set (ds_site_rule_ids session)) sessions)))"

definition controlled_app_rule_is_active ::
  "'u lib \<Rightarrow> evaluation_context \<Rightarrow> database \<Rightarrow> app_rule_config \<Rightarrow> error + bool" where
  "controlled_app_rule_is_active L ctx db rule =
     (if \<not> ac_enabled rule then Inr False
      else if app_rule_is_active L ctx rule then Inr True
      else and_then (context_detox_sessions ctx db) (\<lambda>sessions.
        Inr (list_ex (\<lambda>session. ac_id rule \<in> set (ds_app_rule_ids session)) sessions)))"

section \<open>Detox blocks\<close>

text \<open>
  Of the sessions that name a list the one that ends last, of the lists the first whose session ends
  last; times compare by their microseconds.
\<close>

definition latest_session :: "(detox_session \<Rightarrow> string list) \<Rightarrow> string \<Rightarrow> detox_session list \<Rightarrow> detox_session option" where
  "latest_session targets rule_id sessions =
     max_by_key (\<lambda>session. format_time (ds_ends_at session))
       (filter (\<lambda>session. rule_id \<in> set (targets session)) sessions)"

definition detox_candidates ::
  "(detox_session \<Rightarrow> string list) \<Rightarrow> ('r \<Rightarrow> string) \<Rightarrow> detox_session list \<Rightarrow> 'r list
     \<Rightarrow> ((detox_session \<times> 'r) \<times> int) list" where
  "detox_candidates targets ident sessions rules =
     filter_map (\<lambda>rule. case latest_session targets (ident rule) sessions of
        None \<Rightarrow> None
      | Some session \<Rightarrow> Some ((session, rule), format_time (ds_ends_at session))) rules"

definition detox_block_for_url ::
  "'u lib \<Rightarrow> evaluation_context \<Rightarrow> database \<Rightarrow> normalized_url \<Rightarrow> error + block_reason option" where
  "detox_block_for_url L ctx db parsed =
     and_then (context_detox_sessions ctx db) (\<lambda>sessions.
       Inr (case keep_best ends_later
              (detox_candidates ds_site_rule_ids rc_id sessions
                (matching_rules L (ec_config ctx) parsed ScheduledBlock)) None of
              None \<Rightarrow> None
            | Some ((session, rule), _) \<Rightarrow> Some (Detox (ds_id session) (ds_name session) (rc_id rule)
                (rc_name rule) SiteRuleTarget (ds_ends_at session))))"

definition detox_block_for_app ::
  "evaluation_context \<Rightarrow> database \<Rightarrow> process_identity \<Rightarrow> error + block_reason option" where
  "detox_block_for_app ctx db process =
     and_then (context_detox_sessions ctx db) (\<lambda>sessions.
       Inr (case keep_best ends_later
              (detox_candidates ds_app_rule_ids ac_id sessions
                (matching_app_rules (ec_config ctx) process ScheduledBlock)) None of
              None \<Rightarrow> None
            | Some ((session, rule), _) \<Rightarrow> Some (Detox (ds_id session) (ds_name session) (ac_id rule)
                (ac_name rule) AppRuleTarget (ds_ends_at session))))"

section \<open>Usage of a site list on the local day\<close>

definition rule_active_seconds_between ::
  "'u lib \<Rightarrow> config \<Rightarrow> database \<Rightarrow> rule_config \<Rightarrow> instant \<Rightarrow> instant \<Rightarrow> int \<Rightarrow> error + int" where
  "rule_active_seconds_between L config db rule start stop local_offset =
     (if stop \<le> start then Inr 0
      else and_then (detox_intervals_for_site_rule_between (rc_id rule) start stop db) (\<lambda>detox.
        active_seconds_between L (attached_schedules config (rc_schedule_ids rule)) detox
          start stop local_offset))"

text \<open>A visit counts for the list it was charged to, and for every list its URL belongs to.\<close>

definition visit_counts_for :: "'u lib \<Rightarrow> rule_config \<Rightarrow> visit_usage \<Rightarrow> bool" where
  "visit_counts_for L rule visit =
     (if vu_rule_id visit \<noteq> Some (rc_id rule)
      then (case normalized_url_parse L (vu_url visit) of
              Inl _ \<Rightarrow> False
            | Inr parsed \<Rightarrow> site_rule_applies L rule parsed)
      else True)"

definition add_visit_seconds ::
  "'u lib \<Rightarrow> evaluation_context \<Rightarrow> database \<Rightarrow> rule_config \<Rightarrow> visit_usage \<Rightarrow> int \<Rightarrow> error + int" where
  "add_visit_seconds L ctx db rule visit used_seconds =
     (if \<not> visit_counts_for L rule visit then Inr used_seconds
      else
        let (day_start, day_end) = local_day_bounds (ec_now ctx);
            ended_at = (case vu_ended_at visit of Some e \<Rightarrow> e | None \<Rightarrow> vu_last_heartbeat_at visit);
            clamped_start = max (vu_started_at visit) day_start;
            clamped_end = min (min ended_at (now_utc ctx)) day_end
        in if clamped_end > clamped_start
           then and_then (rule_active_seconds_between L (ec_config ctx) db rule clamped_start clamped_end
                  (dt_offset (ec_now ctx))) (\<lambda>n. Inr (used_seconds + n))
           else Inr used_seconds)"

definition used_seconds_for_site_rule_on_day ::
  "'u lib \<Rightarrow> evaluation_context \<Rightarrow> database \<Rightarrow> rule_config \<Rightarrow> error + int" where
  "used_seconds_for_site_rule_on_day L ctx db rule =
     (let (day_start, day_end) = local_day_bounds (ec_now ctx) in
      and_then (visit_usage_between day_start day_end (now_utc ctx) db) (\<lambda>visits.
        try_fold (add_visit_seconds L ctx db rule) visits 0))"

definition used_seconds_for_app_rule_on_day ::
  "evaluation_context \<Rightarrow> database \<Rightarrow> string \<Rightarrow> error + int" where
  "used_seconds_for_app_rule_on_day ctx db rule_id =
     (let (day_start, day_end) = local_day_bounds (ec_now ctx) in
      used_seconds_for_app_rule_between rule_id day_start day_end (now_utc ctx) db)"

section \<open>Controlled access\<close>

datatype controlled_usage = SiteRule rule_config | AppRule

definition evaluate_controlled_rule_fields ::
  "'u lib \<Rightarrow> evaluation_context \<Rightarrow> database \<Rightarrow> string \<Rightarrow> string \<Rightarrow> string option \<Rightarrow> controlled_usage \<Rightarrow> decision" where
  "evaluate_controlled_rule_fields L ctx db rule_id rule_name allowance_id usage =
     (if ec_clock_tampered ctx
      then Block (ControlledAccessReason rule_id rule_name UnlockRequired)
      else
        case active_unlock_for_rule rule_id (now_utc ctx) db of
          Inl err \<Rightarrow> runtime_error err
        | Inr (Some _) \<Rightarrow> Allow
        | Inr None \<Rightarrow>
            (case allowance_id of
               None \<Rightarrow> Block (ControlledAccessReason rule_id rule_name NoAllowance)
             | Some aid \<Rightarrow>
                 (case find_allowance (ec_config ctx) aid of
                    None \<Rightarrow> Block (ControlledAccessReason rule_id rule_name NoAllowance)
                  | Some allowance \<Rightarrow>
                      (case (case usage of
                               SiteRule rule \<Rightarrow> used_seconds_for_site_rule_on_day L ctx db rule
                             | AppRule \<Rightarrow> used_seconds_for_app_rule_on_day ctx db rule_id) of
                         Inl err \<Rightarrow> runtime_error err
                       | Inr used_seconds \<Rightarrow>
                           if used_seconds < uint (al_daily_minutes allowance) * 60 then Allow
                           else Block (ControlledAccessReason rule_id rule_name AllowanceExhausted)))))"

definition evaluate_controlled_rule ::
  "'u lib \<Rightarrow> evaluation_context \<Rightarrow> database \<Rightarrow> rule_config \<Rightarrow> decision" where
  "evaluate_controlled_rule L ctx db rule =
     evaluate_controlled_rule_fields L ctx db (rc_id rule) (rc_name rule) (rc_allowance_id rule) (SiteRule rule)"

definition evaluate_controlled_app_rule ::
  "'u lib \<Rightarrow> evaluation_context \<Rightarrow> database \<Rightarrow> app_rule_config \<Rightarrow> decision" where
  "evaluate_controlled_app_rule L ctx db rule =
     evaluate_controlled_rule_fields L ctx db (ac_id rule) (ac_name rule) (ac_allowance_id rule) AppRule"

section \<open>Decisions\<close>

definition controlled_step ::
  "'u lib \<Rightarrow> evaluation_context \<Rightarrow> database \<Rightarrow> normalized_url \<Rightarrow> rule_config
     \<Rightarrow> (decision \<times> strictness) option \<Rightarrow> error + (decision \<times> strictness) option" where
  "controlled_step L ctx db parsed rule controlled_block =
     and_then (controlled_rule_is_active L ctx db rule) (\<lambda>active.
       if \<not> active then Inr controlled_block
       else let decision = evaluate_controlled_rule L ctx db rule in
         if is_block decision
         then Inr (replace_if is_stricter_than decision
                (controlled_rule_strictness L (ec_config ctx) rule parsed) controlled_block)
         else Inr controlled_block)"

definition evaluate_url :: "'u lib \<Rightarrow> evaluation_context \<Rightarrow> string \<Rightarrow> database \<Rightarrow> decision" where
  "evaluate_url L ctx url db =
     (case normalized_url_parse L url of
        Inl _ \<Rightarrow> Block (InvalidUrl url)
      | Inr parsed \<Rightarrow>
          (case matching_rules L (ec_config ctx) parsed Hard of
             rule # _ \<Rightarrow> Block (HardBlock (rc_id rule) (rc_name rule))
           | [] \<Rightarrow>
               (case detox_block_for_url L ctx db parsed of
                  Inl err \<Rightarrow> runtime_error err
                | Inr (Some reason) \<Rightarrow> Block reason
                | Inr None \<Rightarrow>
                    (case find (rule_is_active L ctx) (matching_rules L (ec_config ctx) parsed ScheduledBlock) of
                       Some rule \<Rightarrow> Block (ScheduledBlockReason (rc_id rule) (rc_name rule))
                     | None \<Rightarrow>
                         (case try_fold (controlled_step L ctx db parsed)
                                 (matching_rules L (ec_config ctx) parsed ControlledAccess) None of
                            Inl err \<Rightarrow> runtime_error err
                          | Inr None \<Rightarrow> Allow
                          | Inr (Some (decision, _)) \<Rightarrow> decision)))))"

definition controlled_app_step ::
  "'u lib \<Rightarrow> evaluation_context \<Rightarrow> database \<Rightarrow> app_rule_config
     \<Rightarrow> (decision \<times> strictness) option \<Rightarrow> error + (decision \<times> strictness) option" where
  "controlled_app_step L ctx db rule controlled_block =
     and_then (controlled_app_rule_is_active L ctx db rule) (\<lambda>active.
       if \<not> active then Inr controlled_block
       else let decision = evaluate_controlled_app_rule L ctx db rule in
         if is_block decision
         then Inr (replace_if is_stricter_than decision
                (controlled_app_rule_strictness (ec_config ctx) rule) controlled_block)
         else Inr controlled_block)"

definition evaluate_app :: "'u lib \<Rightarrow> evaluation_context \<Rightarrow> process_identity \<Rightarrow> database \<Rightarrow> decision" where
  "evaluate_app L ctx process db =
     (case matching_app_rules (ec_config ctx) process Hard of
        rule # _ \<Rightarrow> Block (HardBlock (ac_id rule) (ac_name rule))
      | [] \<Rightarrow>
          (case detox_block_for_app ctx db process of
             Inl err \<Rightarrow> runtime_error err
           | Inr (Some reason) \<Rightarrow> Block reason
           | Inr None \<Rightarrow>
               (case find (app_rule_is_active L ctx) (matching_app_rules (ec_config ctx) process ScheduledBlock) of
                  Some rule \<Rightarrow> Block (ScheduledBlockReason (ac_id rule) (ac_name rule))
                | None \<Rightarrow>
                    (case try_fold (controlled_app_step L ctx db)
                            (matching_app_rules (ec_config ctx) process ControlledAccess) None of
                       Inl err \<Rightarrow> runtime_error err
                     | Inr None \<Rightarrow> Allow
                     | Inr (Some (decision, _)) \<Rightarrow> decision))))"

section \<open>Metering\<close>

text \<open>
  The list a visit is charged to: the strictest active Tier 3 list with an allowance, or else the
  strictest active one. A failing read counts as inactive here.
\<close>

definition active_controlled_rules ::
  "'u lib \<Rightarrow> evaluation_context \<Rightarrow> database \<Rightarrow> normalized_url \<Rightarrow> rule_config list" where
  "active_controlled_rules L ctx db parsed =
     filter (\<lambda>rule. case controlled_rule_is_active L ctx db rule of Inl _ \<Rightarrow> False | Inr active \<Rightarrow> active)
       (matching_rules L (ec_config ctx) parsed ControlledAccess)"

definition visit_step ::
  "'u lib \<Rightarrow> evaluation_context \<Rightarrow> normalized_url \<Rightarrow> rule_config
     \<Rightarrow> (rule_config \<times> strictness) option \<times> (rule_config \<times> strictness) option
     \<Rightarrow> (rule_config \<times> strictness) option \<times> (rule_config \<times> strictness) option" where
  "visit_step L ctx parsed rule state =
     (case state of (metered_match, active_match) \<Rightarrow>
        let strictness = controlled_rule_strictness L (ec_config ctx) rule parsed in
        (if rule_allowance_minutes (ec_config ctx) rule \<noteq> None
         then replace_if is_stricter_than rule strictness metered_match else metered_match,
         replace_if is_stricter_than rule strictness active_match))"

definition or_else :: "'a option \<Rightarrow> 'a option \<Rightarrow> 'a option" where
  "or_else a b = (case a of Some x \<Rightarrow> Some x | None \<Rightarrow> b)"

definition visit_rule_for_url ::
  "'u lib \<Rightarrow> evaluation_context \<Rightarrow> database \<Rightarrow> normalized_url \<Rightarrow> rule_config option" where
  "visit_rule_for_url L ctx db parsed =
     (let (metered_match, active_match) =
            fold (visit_step L ctx parsed) (active_controlled_rules L ctx db parsed) (None, None)
      in map_option fst (or_else metered_match active_match))"

definition site_usage_is_metered :: "'u lib \<Rightarrow> evaluation_context \<Rightarrow> string \<Rightarrow> database \<Rightarrow> bool" where
  "site_usage_is_metered L ctx url db =
     (case normalized_url_parse L url of
        Inl _ \<Rightarrow> False
      | Inr parsed \<Rightarrow>
          (case visit_rule_for_url L ctx db parsed of
             None \<Rightarrow> False
           | Some rule \<Rightarrow> rule_allowance_minutes (ec_config ctx) rule \<noteq> None))"

definition metered_app_rule_ids_for_process ::
  "'u lib \<Rightarrow> evaluation_context \<Rightarrow> process_identity \<Rightarrow> database \<Rightarrow> error + string list" where
  "metered_app_rule_ids_for_process L ctx process db =
     and_then (detox_block_for_app ctx db process) (\<lambda>detox.
       if detox \<noteq> None
          \<or> list_ex (app_rule_is_active L ctx) (matching_app_rules (ec_config ctx) process ScheduledBlock)
       then Inr []
       else if list_ex (app_rule_is_active L ctx) (matching_app_rules (ec_config ctx) process Hard)
       then Inr []
       else try_fold (\<lambda>rule metered.
              and_then (controlled_app_rule_is_active L ctx db rule) (\<lambda>active.
                Inr (if active \<and> app_rule_allowance_minutes (ec_config ctx) rule \<noteq> None
                     then metered @ [ac_id rule] else metered)))
              (matching_app_rules (ec_config ctx) process ControlledAccess) [])"

definition status_of :: "string \<Rightarrow> string \<Rightarrow> u32 \<Rightarrow> int \<Rightarrow> allowance_status" where
  "status_of rule_id rule_name total_minutes used_seconds =
     \<lparr>as_rule_id = rule_id, as_rule_name = rule_name,
      as_remaining_seconds = max (uint total_minutes * 60 - used_seconds) 0\<rparr>"

definition add_site_status ::
  "'u lib \<Rightarrow> evaluation_context \<Rightarrow> database \<Rightarrow> rule_config \<Rightarrow> allowance_status list \<Rightarrow> error + allowance_status list" where
  "add_site_status L ctx db rule statuses =
     (case rule_allowance_minutes (ec_config ctx) rule of
        None \<Rightarrow> Inr statuses
      | Some total_minutes \<Rightarrow>
          and_then (used_seconds_for_site_rule_on_day L ctx db rule) (\<lambda>used_seconds.
            Inr (statuses @ [status_of (rc_id rule) (rc_name rule) total_minutes used_seconds])))"

definition add_app_status ::
  "evaluation_context \<Rightarrow> database \<Rightarrow> app_rule_config \<Rightarrow> allowance_status list \<Rightarrow> error + allowance_status list" where
  "add_app_status ctx db rule statuses =
     (case app_rule_allowance_minutes (ec_config ctx) rule of
        None \<Rightarrow> Inr statuses
      | Some total_minutes \<Rightarrow>
          and_then (used_seconds_for_app_rule_on_day ctx db (ac_id rule)) (\<lambda>used_seconds.
            Inr (statuses @ [status_of (ac_id rule) (ac_name rule) total_minutes used_seconds])))"

definition allowance_statuses ::
  "'u lib \<Rightarrow> evaluation_context \<Rightarrow> database \<Rightarrow> error + allowance_status list" where
  "allowance_statuses L ctx db =
     and_then
       (try_fold (add_site_status L ctx db)
         (filter (\<lambda>rule. rc_enabled rule \<and> rc_tier rule = ControlledAccess \<and> rc_allowance_id rule \<noteq> None)
           (cfg_rules (ec_config ctx))) [])
       (try_fold (add_app_status ctx db)
         (filter (\<lambda>rule. ac_enabled rule \<and> ac_tier rule = ControlledAccess \<and> ac_allowance_id rule \<noteq> None)
           (cfg_app_rules (ec_config ctx))))"

section \<open>Visits\<close>

definition record_visit_start ::
  "'u lib \<Rightarrow> evaluation_context \<Rightarrow> string \<Rightarrow> string \<Rightarrow> visit_state operation" where
  "record_visit_start L ctx url tab_id db =
     (case normalized_url_parse L url of
        Inl e \<Rightarrow> (Inl (ErrUrl e), db)
      | Inr parsed \<Rightarrow>
          insert_visit_start (map_option rc_id (visit_rule_for_url L ctx db parsed))
            (case nu_host parsed of Some host \<Rightarrow> host | None \<Rightarrow> url) url tab_id (now_utc ctx) db)"

definition record_visit_heartbeat :: "evaluation_context \<Rightarrow> int \<Rightarrow> unit operation" where
  "record_visit_heartbeat ctx visit_id = update_visit_heartbeat visit_id (now_utc ctx)"

definition record_visit_end :: "evaluation_context \<Rightarrow> int \<Rightarrow> unit operation" where
  "record_visit_end ctx visit_id = end_visit visit_id (now_utc ctx)"

end
