(* ===== verification/Decisions.thy ===== *)
theory Decisions imports PolicyEngine begin

text \<open>
  What the decisions of \<^verbatim>\<open>PolicyEngine\<close> mean. The selection loops are reduced to \<open>keep_best\<close> over the
  lists that block, and a decision to allow is characterised list by list: no hard list, no strict
  list on schedule or in a Detox, and every active Tier 3 list open by an unlock or by its allowance.
\<close>

section \<open>The selection loop\<close>

text \<open>Both loops over Tier 3 lists are this one, on site lists and on application lists.\<close>

definition blocking_step ::
  "('r \<Rightarrow> error + bool) \<Rightarrow> ('r \<Rightarrow> decision) \<Rightarrow> ('r \<Rightarrow> strictness) \<Rightarrow> 'r
     \<Rightarrow> (decision \<times> strictness) option \<Rightarrow> error + (decision \<times> strictness) option" where
  "blocking_step active decide strict rule block =
     and_then (active rule) (\<lambda>a.
       if a \<and> is_block (decide rule) then Inr (replace_if is_stricter_than (decide rule) (strict rule) block)
       else Inr block)"

definition blocking_lists ::
  "('r \<Rightarrow> error + bool) \<Rightarrow> ('r \<Rightarrow> decision) \<Rightarrow> ('r \<Rightarrow> strictness) \<Rightarrow> 'r list \<Rightarrow> (decision \<times> strictness) list" where
  "blocking_lists active decide strict rules =
     map (\<lambda>r. (decide r, strict r)) (filter (\<lambda>r. active r = Inr True \<and> is_block (decide r)) rules)"

lemma controlled_step_blocking:
  "controlled_step L ctx db parsed =
     blocking_step (controlled_rule_is_active L ctx db) (evaluate_controlled_rule L ctx db)
       (\<lambda>rule. controlled_rule_strictness L (ec_config ctx) rule parsed)"
  by (intro ext) (auto simp: controlled_step_def blocking_step_def Let_def and_then_def split: sum.splits)

lemma controlled_app_step_blocking:
  "controlled_app_step L ctx db =
     blocking_step (controlled_app_rule_is_active L ctx db) (evaluate_controlled_app_rule L ctx db)
       (controlled_app_rule_strictness (ec_config ctx))"
  by (intro ext) (auto simp: controlled_app_step_def blocking_step_def Let_def and_then_def split: sum.splits)

lemma blocking_loop_Inr:
  "try_fold (blocking_step active decide strict) rules block = Inr out \<longleftrightarrow>
     (\<forall>r\<in>set rules. \<not> isl (active r))
     \<and> out = keep_best is_stricter_than (blocking_lists active decide strict rules) block"
proof (induction rules arbitrary: block)
  case (Cons r rules)
  show ?case
  proof (cases "active r")
    case (Inr a)
    then show ?thesis using Cons by (cases a) (simp_all add: blocking_step_def blocking_lists_def)
  qed (simp add: blocking_step_def)
qed (auto simp: blocking_lists_def)

lemma blocking_loop_Allow:
  "(case try_fold (blocking_step active decide strict) rules None of
      Inl err \<Rightarrow> runtime_error err | Inr None \<Rightarrow> Allow | Inr (Some (decision, _)) \<Rightarrow> decision) = Allow
   \<longleftrightarrow> (\<forall>r\<in>set rules. active r = Inr False \<or> (active r = Inr True \<and> decide r = Allow))"
  (is "?lhs = Allow \<longleftrightarrow> ?rhs")
proof (cases "try_fold (blocking_step active decide strict) rules None")
  case (Inl e)
  then have "\<not> ?rhs" using blocking_loop_Inr [of active decide strict rules None] by (metis isl_def sum.distinct(1) sum.disc(2))
  then show ?thesis using Inl by (simp add: runtime_error_def)
next
  case (Inr out)
  then have a: "\<forall>r\<in>set rules. \<not> isl (active r)"
    and out: "out = keep_best is_stricter_than (blocking_lists active decide strict rules) None"
    by (simp_all add: blocking_loop_Inr)
  show ?thesis
  proof (cases out)
    case None
    then have "blocking_lists active decide strict rules = []" using out by simp
    then have "\<forall>r\<in>set rules. active r = Inr True \<longrightarrow> decide r = Allow"
      by (simp add: blocking_lists_def filter_empty_conv)
    moreover have "active r = Inr True \<or> active r = Inr False" if "r \<in> set rules" for r
      using a that by (cases "active r") auto
    ultimately have "?rhs" by blast
    then show ?thesis using Inr None by simp
  next
    case (Some z)
    then have "z \<in> set (blocking_lists active decide strict rules)"
      using out strict.keep_best_best by metis
    then obtain r where "r \<in> set rules" "active r = Inr True" "is_block (decide r)" "fst z = decide r"
      by (auto simp: blocking_lists_def)
    then show ?thesis using Inr Some by (cases z) auto
  qed
qed

lemma blocking_loop_best:
  assumes "try_fold (blocking_step active decide strict) rules None = Inr (Some (decision, k))"
  obtains r where "r \<in> set rules" "active r = Inr True" "decide r = decision" "is_block decision" "strict r = k"
    "\<forall>other\<in>set rules. active other = Inr True \<and> is_block (decide other) \<longrightarrow> \<not> is_stricter_than (strict other) k"
proof -
  have "keep_best is_stricter_than (blocking_lists active decide strict rules) None = Some (decision, k)"
    using assms blocking_loop_Inr [of active decide strict rules None] by auto
  from strict.keep_best_best [OF this] show ?thesis using that by (auto simp: blocking_lists_def)
qed

section \<open>Detox\<close>

lemma latest_session_None:
  "latest_session targets i sessions = None \<longleftrightarrow> (\<forall>s\<in>set sessions. i \<notin> set (targets s))"
  by (auto simp: latest_session_def filter_empty_conv)

lemma latest_session_Some:
  "latest_session targets i sessions = Some s \<Longrightarrow>
     s \<in> set sessions \<and> i \<in> set (targets s)
     \<and> (\<forall>s'\<in>set sessions. i \<in> set (targets s') \<longrightarrow> format_time (ds_ends_at s') \<le> format_time (ds_ends_at s))"
  by (auto simp: latest_session_def dest!: max_by_key_greatest)

lemma detox_candidates_Nil:
  "detox_candidates targets ident sessions rules = [] \<longleftrightarrow>
     (\<forall>r\<in>set rules. \<forall>s\<in>set sessions. ident r \<notin> set (targets s))"
proof -
  have "detox_candidates targets ident sessions rules = []
      \<longleftrightarrow> (\<forall>r\<in>set rules. latest_session targets (ident r) sessions = None)"
    unfolding detox_candidates_def by (induction rules) (auto split: option.splits)
  then show ?thesis by (simp add: latest_session_None)
qed

lemma detox_candidates_iff:
  "((s, r), k) \<in> set (detox_candidates targets ident sessions rules) \<longleftrightarrow>
     r \<in> set rules \<and> latest_session targets (ident r) sessions = Some s \<and> k = format_time (ds_ends_at s)"
  unfolding detox_candidates_def by (induction rules) (auto split: option.splits)

lemma detox_best:
  assumes "keep_best ends_later (detox_candidates targets ident sessions rules) None = Some ((s, r), k)"
  shows "r \<in> set rules \<and> s \<in> set sessions \<and> ident r \<in> set (targets s)
    \<and> (\<forall>r'\<in>set rules. \<forall>s'\<in>set sessions. ident r' \<in> set (targets s') \<longrightarrow>
          format_time (ds_ends_at s') \<le> format_time (ds_ends_at s))"
proof -
  note best = later.keep_best_best [OF assms]
  from best have m: "r \<in> set rules" "latest_session targets (ident r) sessions = Some s"
    "k = format_time (ds_ends_at s)" by (auto simp: detox_candidates_iff)
  have "format_time (ds_ends_at s') \<le> format_time (ds_ends_at s)"
    if rs: "r' \<in> set rules" "s' \<in> set sessions" "ident r' \<in> set (targets s')" for r' s'
  proof -
    obtain t where t: "latest_session targets (ident r') sessions = Some t"
      using rs latest_session_None by (metis option.exhaust)
    then have "((t, r'), format_time (ds_ends_at t)) \<in> set (detox_candidates targets ident sessions rules)"
      using rs by (simp add: detox_candidates_iff)
    then have "format_time (ds_ends_at t) \<le> format_time (ds_ends_at s)"
      using best m(3) by (fastforce simp: ends_later_def)
    moreover have "format_time (ds_ends_at s') \<le> format_time (ds_ends_at t)"
      using latest_session_Some [OF t] rs by blast
    ultimately show ?thesis by simp
  qed
  then show ?thesis using m latest_session_Some by blast
qed

lemma chosen_None [simp]:
  "(case x of None \<Rightarrow> None | Some ((session, rule), k) \<Rightarrow> Some (f session rule)) = None \<longleftrightarrow> x = None"
  by (cases x) auto

lemma chosen_Some [simp]:
  "(case x of None \<Rightarrow> None | Some ((session, rule), k) \<Rightarrow> Some (f session rule)) = Some y \<longleftrightarrow>
     (\<exists>session rule k. x = Some ((session, rule), k) \<and> f session rule = y)"
  by (cases x) auto

lemma detox_block_for_url_None:
  "detox_block_for_url L ctx db parsed = Inr None \<longleftrightarrow>
     (\<exists>sessions. context_detox_sessions ctx db = Inr sessions
        \<and> (\<forall>r\<in>set (matching_rules L (ec_config ctx) parsed ScheduledBlock). \<forall>s\<in>set sessions.
             rc_id r \<notin> set (ds_site_rule_ids s)))"
  by (auto simp: detox_block_for_url_def and_then_Inr_iff detox_candidates_Nil [symmetric])

lemma detox_block_for_app_None:
  "detox_block_for_app ctx db process = Inr None \<longleftrightarrow>
     (\<exists>sessions. context_detox_sessions ctx db = Inr sessions
        \<and> (\<forall>r\<in>set (matching_app_rules (ec_config ctx) process ScheduledBlock). \<forall>s\<in>set sessions.
             ac_id r \<notin> set (ds_app_rule_ids s)))"
  by (auto simp: detox_block_for_app_def and_then_Inr_iff detox_candidates_Nil [symmetric])

section \<open>When a decision allows\<close>

lemma evaluate_fields_Allow:
  "evaluate_controlled_rule_fields L ctx db i n aid usage = Allow \<longleftrightarrow>
     \<not> ec_clock_tampered ctx
     \<and> ((\<exists>u. active_unlock_for_rule i (now_utc ctx) db = Inr (Some u))
       \<or> (active_unlock_for_rule i (now_utc ctx) db = Inr None
          \<and> (\<exists>a allowance used. aid = Some a \<and> find_allowance (ec_config ctx) a = Some allowance
               \<and> (case usage of SiteRule rule \<Rightarrow> used_seconds_for_site_rule_on_day L ctx db rule
                  | AppRule \<Rightarrow> used_seconds_for_app_rule_on_day ctx db i) = Inr used
               \<and> used < uint (al_daily_minutes allowance) * 60)))"
  unfolding evaluate_controlled_rule_fields_def
  by (simp add: runtime_error_def split: sum.split option.split)

definition open_by_unlock :: "evaluation_context \<Rightarrow> database \<Rightarrow> string \<Rightarrow> bool" where
  "open_by_unlock ctx db i \<longleftrightarrow> (\<exists>u. active_unlock_for_rule i (now_utc ctx) db = Inr (Some u))"

definition within_allowance :: "u32 option \<Rightarrow> error + int \<Rightarrow> bool" where
  "within_allowance minutes used \<longleftrightarrow> (\<exists>m n. minutes = Some m \<and> used = Inr n \<and> n < uint m * 60)"

text \<open>A Tier 3 list is open with an honest clock, by an unlock in force or by what is left of its allowance.\<close>

definition site_list_open :: "'u lib \<Rightarrow> evaluation_context \<Rightarrow> database \<Rightarrow> rule_config \<Rightarrow> bool" where
  "site_list_open L ctx db rule \<longleftrightarrow> \<not> ec_clock_tampered ctx
     \<and> (open_by_unlock ctx db (rc_id rule)
        \<or> (active_unlock_for_rule (rc_id rule) (now_utc ctx) db = Inr None
           \<and> within_allowance (rule_allowance_minutes (ec_config ctx) rule)
               (used_seconds_for_site_rule_on_day L ctx db rule)))"

definition app_list_open :: "evaluation_context \<Rightarrow> database \<Rightarrow> app_rule_config \<Rightarrow> bool" where
  "app_list_open ctx db rule \<longleftrightarrow> \<not> ec_clock_tampered ctx
     \<and> (open_by_unlock ctx db (ac_id rule)
        \<or> (active_unlock_for_rule (ac_id rule) (now_utc ctx) db = Inr None
           \<and> within_allowance (app_rule_allowance_minutes (ec_config ctx) rule)
               (used_seconds_for_app_rule_on_day ctx db (ac_id rule))))"

lemma evaluate_controlled_rule_Allow: "evaluate_controlled_rule L ctx db rule = Allow \<longleftrightarrow> site_list_open L ctx db rule"
  unfolding evaluate_controlled_rule_def evaluate_fields_Allow site_list_open_def open_by_unlock_def
    within_allowance_def rule_allowance_minutes_def
  by (auto split: option.splits)

lemma evaluate_controlled_app_rule_Allow:
  "evaluate_controlled_app_rule L ctx db rule = Allow \<longleftrightarrow> app_list_open ctx db rule"
  unfolding evaluate_controlled_app_rule_def evaluate_fields_Allow app_list_open_def open_by_unlock_def
    within_allowance_def app_rule_allowance_minutes_def
  by (auto split: option.splits)

lemma evaluate_url_Allow:
  "evaluate_url L ctx url db = Allow \<longleftrightarrow>
     (\<exists>parsed sessions. normalized_url_parse L url = Inr parsed
        \<and> matching_rules L (ec_config ctx) parsed Hard = []
        \<and> context_detox_sessions ctx db = Inr sessions
        \<and> (\<forall>r\<in>set (matching_rules L (ec_config ctx) parsed ScheduledBlock).
             \<not> rule_is_active L ctx r \<and> (\<forall>s\<in>set sessions. rc_id r \<notin> set (ds_site_rule_ids s)))
        \<and> (\<forall>r\<in>set (matching_rules L (ec_config ctx) parsed ControlledAccess).
             controlled_rule_is_active L ctx db r = Inr False
             \<or> (controlled_rule_is_active L ctx db r = Inr True \<and> site_list_open L ctx db r)))"
  (is "_ \<longleftrightarrow> (\<exists>parsed sessions. ?A parsed sessions)")
proof (cases "normalized_url_parse L url")
  case (Inr parsed)
  show ?thesis
  proof (cases "matching_rules L (ec_config ctx) parsed Hard")
    case Nil
    show ?thesis
    proof (cases "detox_block_for_url L ctx db parsed = Inr None")
      case True
      then have d: "evaluate_url L ctx url db = Allow \<longleftrightarrow>
          find (rule_is_active L ctx) (matching_rules L (ec_config ctx) parsed ScheduledBlock) = None
          \<and> (\<forall>r\<in>set (matching_rules L (ec_config ctx) parsed ControlledAccess).
             controlled_rule_is_active L ctx db r = Inr False
             \<or> (controlled_rule_is_active L ctx db r = Inr True \<and> evaluate_controlled_rule L ctx db r = Allow))"
        using Inr Nil by (simp add: evaluate_url_def controlled_step_blocking blocking_loop_Allow split: option.split)
      show ?thesis using Inr Nil True
        unfolding d detox_block_for_url_None find_None_iff_none evaluate_controlled_rule_Allow by auto
    next
      case False
      then have "evaluate_url L ctx url db \<noteq> Allow"
        using Inr Nil by (auto simp: evaluate_url_def runtime_error_def split: sum.split option.split)
      moreover have "\<not> ?A parsed sessions" for sessions using False by (auto simp: detox_block_for_url_None)
      ultimately show ?thesis using Inr by auto
    qed
  qed (use Inr in \<open>simp add: evaluate_url_def\<close>)
qed (simp add: evaluate_url_def)

lemma evaluate_app_Allow:
  "evaluate_app L ctx process db = Allow \<longleftrightarrow>
     (\<exists>sessions. matching_app_rules (ec_config ctx) process Hard = []
        \<and> context_detox_sessions ctx db = Inr sessions
        \<and> (\<forall>r\<in>set (matching_app_rules (ec_config ctx) process ScheduledBlock).
             \<not> app_rule_is_active L ctx r \<and> (\<forall>s\<in>set sessions. ac_id r \<notin> set (ds_app_rule_ids s)))
        \<and> (\<forall>r\<in>set (matching_app_rules (ec_config ctx) process ControlledAccess).
             controlled_app_rule_is_active L ctx db r = Inr False
             \<or> (controlled_app_rule_is_active L ctx db r = Inr True \<and> app_list_open ctx db r)))"
  (is "_ \<longleftrightarrow> (\<exists>sessions. ?A sessions)")
proof (cases "matching_app_rules (ec_config ctx) process Hard")
  case Nil
  show ?thesis
  proof (cases "detox_block_for_app ctx db process = Inr None")
    case True
    then have d: "evaluate_app L ctx process db = Allow \<longleftrightarrow>
        find (app_rule_is_active L ctx) (matching_app_rules (ec_config ctx) process ScheduledBlock) = None
        \<and> (\<forall>r\<in>set (matching_app_rules (ec_config ctx) process ControlledAccess).
           controlled_app_rule_is_active L ctx db r = Inr False
           \<or> (controlled_app_rule_is_active L ctx db r = Inr True \<and> evaluate_controlled_app_rule L ctx db r = Allow))"
      using Nil by (simp add: evaluate_app_def controlled_app_step_blocking blocking_loop_Allow split: option.split)
    show ?thesis using Nil True
      unfolding d detox_block_for_app_None find_None_iff_none evaluate_controlled_app_rule_Allow by auto
  next
    case False
    then have "evaluate_app L ctx process db \<noteq> Allow"
      using Nil by (auto simp: evaluate_app_def runtime_error_def split: sum.split option.split)
    moreover have "\<not> ?A sessions" for sessions using False by (auto simp: detox_block_for_app_None)
    ultimately show ?thesis by auto
  qed
qed (simp add: evaluate_app_def)

end
