(* ===== verification/Verdicts.thy ===== *)
theory Verdicts imports Decisions begin

text \<open>
  The properties of decisions: what is final, what is allowed, which list is named, and that errors
  and a tampered clock only ever block more. The examples use a policy with a list of every tier.
\<close>

section \<open>A policy for concrete checks\<close>

definition domain_pattern :: "string \<Rightarrow> bool \<Rightarrow> rule_pattern_config" where
  "domain_pattern value subdomains = \<lparr>rp_kind = Domain, rp_value = value, rp_match_subdomains = subdomains\<rparr>"

definition site_list :: "string \<Rightarrow> rule_tier \<Rightarrow> rule_pattern_config \<Rightarrow> string list \<Rightarrow> string option \<Rightarrow> rule_config" where
  "site_list ident tier pattern schedules allowance =
     \<lparr>rc_id = ident, rc_name = ident, rc_tier = tier, rc_enabled = True, rc_mode = Blocklist,
      rc_patterns = [pattern], rc_schedule_ids = schedules, rc_allowance_id = allowance\<rparr>"

definition app_list :: "string \<Rightarrow> rule_tier \<Rightarrow> string \<Rightarrow> string list \<Rightarrow> string option \<Rightarrow> app_rule_config" where
  "app_list ident tier command schedules allowance =
     \<lparr>ac_id = ident, ac_name = ident, ac_tier = tier, ac_enabled = True, ac_mode = Blocklist,
      ac_matchers = [\<lparr>am_kind = CommandName, am_value = command\<rparr>], ac_schedule_ids = schedules,
      ac_allowance_id = allowance\<rparr>"

definition engine_policy :: config where
  "engine_policy = \<lparr>
     cfg_rules = [site_list ''bets'' Hard (domain_pattern ''bets.com'' True) [] None,
       site_list ''feeds'' ScheduledBlock (domain_pattern ''feeds.net'' True) [''night''] None,
       site_list ''exam'' ScheduledBlock (domain_pattern ''chat.org'' True) [] None,
       site_list ''video'' ControlledAccess (domain_pattern ''video.org'' True) [''night''] (Some ''half-hour''),
       site_list ''clips'' ControlledAccess (domain_pattern ''clips.video.org'' False) [''night''] None],
     cfg_app_rules = [app_list ''games'' ControlledAccess ''game'' [''night''] None,
       app_list ''chat'' ScheduledBlock ''chat'' [''night''] None],
     cfg_schedules = [night_schedule],
     cfg_allowances = [\<lparr>al_id = ''half-hour'', al_name = None, al_daily_minutes = 30\<rparr>],
     cfg_strict_mode = default_strict_mode\<rparr>"

definition tuesday :: "bool \<Rightarrow> evaluation_context" where
  "tuesday tampered = \<lparr>ec_config = engine_policy, ec_now = at_offset 0 tuesday_eight, ec_clock_tampered = tampered\<rparr>"

definition process_named :: "string \<Rightarrow> process_identity" where
  "process_named command = \<lparr>pi_pid = None, pi_executable_path = None, pi_executable_basename = None,
     pi_command_name = Some command, pi_desktop_id = None, pi_window_titles = []\<rparr>"

section \<open>Lists that are final\<close>

text \<open>
  C31. An enabled Tier 1 list that contains the URL decides, whatever the clock, the schedules, the
  unlocks and the state of the database: the block names the first such list of the policy.
\<close>

theorem hard_block_is_final:
  assumes "normalized_url_parse L url = Inr parsed"
    and "rule \<in> set (cfg_rules config)" "rc_enabled rule" "rc_tier rule = Hard" "site_rule_applies L rule parsed"
  shows "\<exists>first\<in>set (cfg_rules config). rc_enabled first \<and> rc_tier first = Hard \<and> site_rule_applies L first parsed
    \<and> (\<forall>ctx db. ec_config ctx = config \<longrightarrow>
         evaluate_url L ctx url db = Block (HardBlock (rc_id first) (rc_name first)))"
proof -
  have "rule \<in> set (matching_rules L config parsed Hard)" using assms(2-) by (simp add: matching_rules_iff)
  then obtain first rest where m: "matching_rules L config parsed Hard = first # rest"
    by (cases "matching_rules L config parsed Hard") auto
  then have "first \<in> set (matching_rules L config parsed Hard)" by simp
  then have "first \<in> set (cfg_rules config) \<and> rc_enabled first \<and> rc_tier first = Hard \<and> site_rule_applies L first parsed"
    by (simp add: matching_rules_iff)
  moreover have "evaluate_url L ctx url db = Block (HardBlock (rc_id first) (rc_name first))"
    if "ec_config ctx = config" for ctx db
    using assms(1) m that by (simp add: evaluate_url_def)
  ultimately show ?thesis by blast
qed

theorem hard_block_is_final_witness:
  "\<exists>first\<in>set (cfg_rules engine_policy). rc_tier first = Hard \<and>
     evaluate_url sample_lib (tuesday True) ''https://www.bets.com/'' empty_database
       = Block (HardBlock (rc_id first) (rc_name first))"
proof -
  let ?r = "site_list ''bets'' Hard (domain_pattern ''bets.com'' True) [] None"
  have p: "normalized_url_parse sample_lib ''https://www.bets.com/'' = Inr \<lparr>nu_url_without_fragment = ''https://www.bets.com/'',
      nu_host = Some ''www.bets.com'', nu_path = ''/''\<rparr>" by code_simp
  have a: "site_rule_applies sample_lib ?r \<lparr>nu_url_without_fragment = ''https://www.bets.com/'',
      nu_host = Some ''www.bets.com'', nu_path = ''/''\<rparr>" by code_simp
  have c: "?r \<in> set (cfg_rules engine_policy)" by (simp add: engine_policy_def)
  have t: "ec_config (tuesday True) = engine_policy" by (simp add: tuesday_def)
  from hard_block_is_final [OF p c _ _ a] t show ?thesis by (auto simp: site_list_def)
qed

section \<open>What is allowed\<close>

text \<open>
  C29. A URL is allowed exactly when it parses, the Detox sessions can be read, and no enabled list
  that contains it objects: it is not Tier 1; as Tier 2 it is neither on schedule nor in a running
  Detox; as Tier 3 it is inactive, or the clock is honest and the list is open by an unlock in force
  or by seconds left of its daily allowance. So a block is missed by no list, and every failing read
  of what this needs is a block.
\<close>

theorem url_allowed_iff_no_list_objects:
  "evaluate_url L ctx url db = Allow \<longleftrightarrow>
     (\<exists>parsed sessions. normalized_url_parse L url = Inr parsed \<and> context_detox_sessions ctx db = Inr sessions
        \<and> (\<forall>rule\<in>set (cfg_rules (ec_config ctx)). rc_enabled rule \<and> site_rule_applies L rule parsed \<longrightarrow>
             (case rc_tier rule of
                Hard \<Rightarrow> False
              | ScheduledBlock \<Rightarrow> \<not> schedule_ids_are_active L ctx (rc_schedule_ids rule)
                  \<and> (\<forall>s\<in>set sessions. rc_id rule \<notin> set (ds_site_rule_ids s))
              | ControlledAccess \<Rightarrow> controlled_rule_is_active L ctx db rule = Inr False \<or> site_list_open L ctx db rule)))"
  (is "_ \<longleftrightarrow> (\<exists>parsed sessions. ?P parsed \<and> ?S sessions \<and> ?A parsed sessions)")
proof -
  have act: "\<not> isl (controlled_rule_is_active L ctx db r)" if "?S sessions" for r sessions
    using that by (auto simp: controlled_rule_is_active_def)
  have bool: "x \<noteq> Inr False \<longleftrightarrow> x = Inr True" if "\<not> isl x" for x :: "error + bool"
    using that by (cases x) auto
  have "?A parsed sessions \<longleftrightarrow> matching_rules L (ec_config ctx) parsed Hard = []
        \<and> (\<forall>r\<in>set (matching_rules L (ec_config ctx) parsed ScheduledBlock).
             \<not> rule_is_active L ctx r \<and> (\<forall>s\<in>set sessions. rc_id r \<notin> set (ds_site_rule_ids s)))
        \<and> (\<forall>r\<in>set (matching_rules L (ec_config ctx) parsed ControlledAccess).
             controlled_rule_is_active L ctx db r = Inr False
             \<or> (controlled_rule_is_active L ctx db r = Inr True \<and> site_list_open L ctx db r))"
    if s: "?S sessions" for parsed sessions
  proof -
    have hard: "matching_rules L (ec_config ctx) parsed Hard = [] \<longleftrightarrow>
        (\<forall>r. r \<notin> set (matching_rules L (ec_config ctx) parsed Hard))" by (metis list.set_intros(1) neq_Nil_conv empty_iff list.set(1))
    have open': "(controlled_rule_is_active L ctx db r = Inr False
             \<or> (controlled_rule_is_active L ctx db r = Inr True \<and> site_list_open L ctx db r))
        \<longleftrightarrow> controlled_rule_is_active L ctx db r = Inr False \<or> site_list_open L ctx db r" for r
      using bool [OF act [OF s]] by blast
    show ?thesis unfolding hard open' matching_rules_iff Ball_def
      by (auto simp: rule_is_active_def split: rule_tier.splits)
  qed
  then show ?thesis unfolding evaluate_url_Allow by blast
qed

theorem url_allowed_iff_no_list_objects_witness:
  "evaluate_url sample_lib (tuesday False) ''https://video.org/watch'' empty_database = Allow
   \<and> site_list_open sample_lib (tuesday False) empty_database
       (site_list ''video'' ControlledAccess (domain_pattern ''video.org'' True) [''night''] (Some ''half-hour''))"
proof -
  let ?r = "site_list ''video'' ControlledAccess (domain_pattern ''video.org'' True) [''night''] (Some ''half-hour'')"
  have e: "evaluate_url sample_lib (tuesday False) ''https://video.org/watch'' empty_database = Allow" by code_simp
  have p: "normalized_url_parse sample_lib ''https://video.org/watch'' = Inr \<lparr>nu_url_without_fragment = ''https://video.org/watch'',
      nu_host = Some ''video.org'', nu_path = ''/watch''\<rparr>" by code_simp
  have a: "site_rule_applies sample_lib ?r \<lparr>nu_url_without_fragment = ''https://video.org/watch'',
      nu_host = Some ''video.org'', nu_path = ''/watch''\<rparr>" by code_simp
  have "?r \<in> set (cfg_rules (ec_config (tuesday False)))" by (simp add: tuesday_def engine_policy_def)
  moreover have "controlled_rule_is_active sample_lib (tuesday False) empty_database ?r = Inr True" by code_simp
  moreover have "rc_enabled ?r" "rc_tier ?r = ControlledAccess" by (simp_all add: site_list_def)
  ultimately show ?thesis using e url_allowed_iff_no_list_objects [of sample_lib "tuesday False"
      "''https://video.org/watch''" empty_database] p a by force
qed

text \<open>
  C30. The same for a process: it is allowed exactly when the Detox sessions can be read and no enabled
  application list that contains it objects.
\<close>

theorem app_allowed_iff_no_list_objects:
  "evaluate_app L ctx process db = Allow \<longleftrightarrow>
     (\<exists>sessions. context_detox_sessions ctx db = Inr sessions
        \<and> (\<forall>rule\<in>set (cfg_app_rules (ec_config ctx)). ac_enabled rule \<and> app_rule_applies rule process \<longrightarrow>
             (case ac_tier rule of
                Hard \<Rightarrow> False
              | ScheduledBlock \<Rightarrow> \<not> schedule_ids_are_active L ctx (ac_schedule_ids rule)
                  \<and> (\<forall>s\<in>set sessions. ac_id rule \<notin> set (ds_app_rule_ids s))
              | ControlledAccess \<Rightarrow> controlled_app_rule_is_active L ctx db rule = Inr False \<or> app_list_open ctx db rule)))"
  (is "_ \<longleftrightarrow> (\<exists>sessions. ?S sessions \<and> ?A sessions)")
proof -
  have act: "\<not> isl (controlled_app_rule_is_active L ctx db r)" if "?S sessions" for r sessions
    using that by (auto simp: controlled_app_rule_is_active_def)
  have bool: "x \<noteq> Inr False \<longleftrightarrow> x = Inr True" if "\<not> isl x" for x :: "error + bool"
    using that by (cases x) auto
  have "?A sessions \<longleftrightarrow> matching_app_rules (ec_config ctx) process Hard = []
        \<and> (\<forall>r\<in>set (matching_app_rules (ec_config ctx) process ScheduledBlock).
             \<not> app_rule_is_active L ctx r \<and> (\<forall>s\<in>set sessions. ac_id r \<notin> set (ds_app_rule_ids s)))
        \<and> (\<forall>r\<in>set (matching_app_rules (ec_config ctx) process ControlledAccess).
             controlled_app_rule_is_active L ctx db r = Inr False
             \<or> (controlled_app_rule_is_active L ctx db r = Inr True \<and> app_list_open ctx db r))"
    if s: "?S sessions" for sessions
  proof -
    have hard: "matching_app_rules (ec_config ctx) process Hard = [] \<longleftrightarrow>
        (\<forall>r. r \<notin> set (matching_app_rules (ec_config ctx) process Hard))" by (metis list.set_intros(1) neq_Nil_conv empty_iff list.set(1))
    have open': "(controlled_app_rule_is_active L ctx db r = Inr False
             \<or> (controlled_app_rule_is_active L ctx db r = Inr True \<and> app_list_open ctx db r))
        \<longleftrightarrow> controlled_app_rule_is_active L ctx db r = Inr False \<or> app_list_open ctx db r" for r
      using bool [OF act [OF s]] by blast
    show ?thesis unfolding hard open' matching_app_rules_iff Ball_def
      by (auto simp: app_rule_is_active_def split: rule_tier.splits)
  qed
  then show ?thesis unfolding evaluate_app_Allow by blast
qed

theorem app_allowed_iff_no_list_objects_witness:
  "evaluate_app sample_lib (tuesday False) (process_named ''editor'') empty_database = Allow
   \<and> \<not> app_rule_applies (app_list ''chat'' ScheduledBlock ''chat'' [''night''] None) (process_named ''editor'')"
proof -
  let ?r = "app_list ''chat'' ScheduledBlock ''chat'' [''night''] None"
  have e: "evaluate_app sample_lib (tuesday False) (process_named ''editor'') empty_database = Allow" by code_simp
  have "?r \<in> set (cfg_app_rules (ec_config (tuesday False)))" by (simp add: tuesday_def engine_policy_def)
  moreover have "schedule_ids_are_active sample_lib (tuesday False) (ac_schedule_ids ?r)" by code_simp
  moreover have "ac_enabled ?r" "ac_tier ?r = ScheduledBlock" by (simp_all add: app_list_def)
  ultimately show ?thesis using e app_allowed_iff_no_list_objects [of sample_lib "tuesday False"
      "process_named ''editor''" empty_database] by force
qed

section \<open>Errors and a tampered clock\<close>

lemma detox_fault: "db_fault db ''detox_sessions.select'' = Some e \<Longrightarrow> context_detox_sessions ctx db = Inl (ErrDatabase e)"
  by (simp add: context_detox_sessions_def active_detox_sessions_def uncancelled_detox_sessions_def
      load_detox_sessions_def query_def)

lemma unlock_fault:
  "db_fault db ''unlocks.select_active'' = Some e \<Longrightarrow> active_unlock_for_rule i now db = Inl (ErrDatabase e)"
  by (simp add: active_unlock_for_rule_def query_def)

lemma visits_fault:
  "db_fault db ''visits.select_usage'' = Some e \<Longrightarrow> used_seconds_for_site_rule_on_day L ctx db rule = Inl (ErrDatabase e)"
  by (simp add: used_seconds_for_site_rule_on_day_def visit_usage_between_def query_def split: prod.splits)

lemma active_list_decides:
  assumes "evaluate_url L ctx url db = Allow" "normalized_url_parse L url = Inr parsed"
    "rule \<in> set (matching_rules L (ec_config ctx) parsed ControlledAccess)"
    "controlled_rule_is_active L ctx db rule = Inr True"
  shows "site_list_open L ctx db rule"
  using assms by (auto simp: evaluate_url_Allow)

text \<open>
  C33. Decisions fail closed. When the Detox sessions cannot be read, whatever the policy, every URL and every
  process is blocked and nothing is metered. A URL of an active Tier 3 list is blocked when the unlocks
  cannot be read, and when the visits cannot be read and no unlock is in force.
\<close>

theorem decisions_fail_closed:
  "(context_detox_sessions ctx db = Inl err \<longrightarrow>
      is_block (evaluate_url L ctx any_url db) \<and> is_block (evaluate_app L ctx process db)
      \<and> metered_app_rule_ids_for_process L ctx process db = Inl err)
   \<and> (normalized_url_parse L url = Inr parsed \<and> rule \<in> set (matching_rules L (ec_config ctx) parsed ControlledAccess)
        \<and> controlled_rule_is_active L ctx db rule = Inr True \<longrightarrow>
      (db_fault db ''unlocks.select_active'' = Some e \<longrightarrow> is_block (evaluate_url L ctx url db))
      \<and> (db_fault db ''visits.select_usage'' = Some e
          \<and> \<not> (\<exists>u. active_unlock_for_rule (rc_id rule) (now_utc ctx) db = Inr (Some u))
          \<longrightarrow> is_block (evaluate_url L ctx url db)))"
proof (intro conjI impI)
  assume f: "context_detox_sessions ctx db = Inl err"
  have "evaluate_url L ctx any_url db \<noteq> Allow" "evaluate_app L ctx process db \<noteq> Allow"
    using f by (auto simp: evaluate_url_Allow evaluate_app_Allow)
  then show "is_block (evaluate_url L ctx any_url db)" and "is_block (evaluate_app L ctx process db)"
    using not_is_block by blast+
  show "metered_app_rule_ids_for_process L ctx process db = Inl err"
    using f by (simp add: metered_app_rule_ids_for_process_def detox_block_for_app_def)
next
  assume r: "normalized_url_parse L url = Inr parsed \<and> rule \<in> set (matching_rules L (ec_config ctx) parsed ControlledAccess)
      \<and> controlled_rule_is_active L ctx db rule = Inr True"
    and f: "db_fault db ''unlocks.select_active'' = Some e"
  have "\<not> site_list_open L ctx db rule"
    by (simp add: site_list_open_def open_by_unlock_def unlock_fault [OF f])
  then show "is_block (evaluate_url L ctx url db)" using active_list_decides r not_is_block by blast
next
  assume r: "normalized_url_parse L url = Inr parsed \<and> rule \<in> set (matching_rules L (ec_config ctx) parsed ControlledAccess)
      \<and> controlled_rule_is_active L ctx db rule = Inr True"
    and f: "db_fault db ''visits.select_usage'' = Some e
    \<and> \<not> (\<exists>u. active_unlock_for_rule (rc_id rule) (now_utc ctx) db = Inr (Some u))"
  then have "\<not> site_list_open L ctx db rule"
    by (auto simp: site_list_open_def open_by_unlock_def within_allowance_def visits_fault)
  then show "is_block (evaluate_url L ctx url db)" using active_list_decides r not_is_block by blast
qed

text \<open>A database in which one of the reads fails.\<close>

definition broken :: "string \<Rightarrow> database" where
  "broken tag = empty_database\<lparr>db_fault := [tag \<mapsto> NoRow]\<rparr>"

text \<open>Each of the three reads fails in turn: a page no list names is blocked, and twice a page of the video list.\<close>

theorem decisions_fail_closed_witness:
  "is_block (evaluate_url sample_lib (tuesday False) ''https://example.org/'' (broken ''detox_sessions.select''))
   \<and> is_block (evaluate_app sample_lib (tuesday False) (process_named ''editor'') (broken ''detox_sessions.select''))
   \<and> is_block (evaluate_url sample_lib (tuesday False) ''https://video.org/watch'' (broken ''unlocks.select_active''))
   \<and> is_block (evaluate_url sample_lib (tuesday False) ''https://video.org/watch'' (broken ''visits.select_usage''))"
proof -
  let ?p = "\<lparr>nu_url_without_fragment = ''https://video.org/watch'', nu_host = Some ''video.org'', nu_path = ''/watch''\<rparr>"
  let ?r = "site_list ''video'' ControlledAccess (domain_pattern ''video.org'' True) [''night''] (Some ''half-hour'')"
  have b [simp]: "db_fault (broken tag) tag = Some NoRow" for tag by (simp add: broken_def)
  have d: "context_detox_sessions (tuesday False) (broken ''detox_sessions.select'') = Inl (ErrDatabase NoRow)"
    by (rule detox_fault) simp
  have p: "normalized_url_parse sample_lib ''https://video.org/watch'' = Inr ?p" by code_simp
  have m: "?r \<in> set (matching_rules sample_lib (ec_config (tuesday False)) ?p ControlledAccess)" by code_simp
  have a: "controlled_rule_is_active sample_lib (tuesday False) (broken ''unlocks.select_active'') ?r = Inr True"
    "controlled_rule_is_active sample_lib (tuesday False) (broken ''visits.select_usage'') ?r = Inr True" by code_simp+
  have "active_unlock_for_rule (rc_id ?r) (now_utc (tuesday False)) (broken ''visits.select_usage'') = Inr None" by code_simp
  then have n: "\<nexists>u. active_unlock_for_rule (rc_id ?r) (now_utc (tuesday False)) (broken ''visits.select_usage'') = Inr (Some u)"
    by simp
  note sessions = decisions_fail_closed [where ctx = "tuesday False" and L = sample_lib and db = "broken ''detox_sessions.select''",
      THEN conjunct1, rule_format, OF d]
    and lists = decisions_fail_closed [where ctx = "tuesday False" and L = sample_lib and url = "''https://video.org/watch''"
      and parsed = ?p and rule = ?r and e = NoRow, THEN conjunct2, rule_format]
  show ?thesis
    using sessions lists [OF conjI [OF p conjI [OF m a(1)]], THEN conjunct1, rule_format, OF b]
      lists [OF conjI [OF p conjI [OF m a(2)]], THEN conjunct2, rule_format, OF conjI [OF b n]] by blast
qed

lemma try_map_member: "try_map f xs = Inr ys \<Longrightarrow> x \<in> set xs \<Longrightarrow> \<exists>y\<in>set ys. f x = Inr y"
  by (induction xs arbitrary: ys) (auto simp: and_then_Inr_iff)

lemma try_map_subset:
  assumes "try_map f xs = Inr ys" "set zs \<subseteq> set xs"
  shows "\<exists>ws. try_map f zs = Inr ws \<and> set ws \<subseteq> set ys"
  using assms(2)
proof (induction zs)
  case (Cons z zs)
  obtain y where "y \<in> set ys" "f z = Inr y" using try_map_member [OF assms(1), of z] Cons.prems by auto
  moreover obtain ws where "try_map f zs = Inr ws" "set ws \<subseteq> set ys" using Cons by auto
  ultimately show ?case by auto
qed simp

text \<open>The sessions running now are among those not cancelled, and are read if those are.\<close>

lemma active_among_uncancelled:
  assumes "uncancelled_detox_sessions db = Inr all_sessions"
  obtains running where "active_detox_sessions now db = Inr running" "set running \<subseteq> set all_sessions"
proof -
  have q: "db_fault db ''detox_sessions.select'' = None" and t: "try_map (load_detox_session db)
      (by_end (filter (\<lambda>row. dx_cancelled_at row = None) (db_detox_sessions db))) = Inr all_sessions"
    using assms by (auto simp: uncancelled_detox_sessions_def load_detox_sessions_def and_then_Inr_iff query_Inr)
  have "set (by_end (filter (row_is_active now) (db_detox_sessions db)))
      \<subseteq> set (by_end (filter (\<lambda>row. dx_cancelled_at row = None) (db_detox_sessions db)))"
    by (auto simp: by_end_def row_is_active_def)
  from try_map_subset [OF t this] show ?thesis
    using that q by (auto simp: active_detox_sessions_def load_detox_sessions_def)
qed

lemma context_sessions_tampered:
  assumes "context_detox_sessions (with_clock_tampered True ctx) db = Inr all_sessions"
  obtains running where "context_detox_sessions (with_clock_tampered False ctx) db = Inr running"
    "set running \<subseteq> set all_sessions"
  using assms active_among_uncancelled [of db all_sessions "now_utc (with_clock_tampered False ctx)"]
  by (auto simp: context_detox_sessions_def with_clock_tampered_def)

lemma tampered_schedules:
  "schedule_ids_are_active L (with_clock_tampered True ctx) ids \<longleftrightarrow> ids \<noteq> []"
  "schedule_ids_are_active L (with_clock_tampered False ctx) ids \<Longrightarrow> ids \<noteq> []"
  by (auto simp: schedule_ids_are_active_def schedule_ids_are_active_at_def with_clock_tampered_def)

lemma tampered_config [simp]: "ec_config (with_clock_tampered b ctx) = ec_config ctx"
  by (simp add: with_clock_tampered_def)

lemma tampered_lists_closed [simp]:
  "\<not> site_list_open L (with_clock_tampered True ctx) db rule"
  "\<not> app_list_open (with_clock_tampered True ctx) db app"
  by (simp_all add: site_list_open_def app_list_open_def with_clock_tampered_def)

lemma tampered_inactive:
  assumes s: "context_detox_sessions (with_clock_tampered True ctx) db = Inr all_sessions"
    and i: "controlled_rule_is_active L (with_clock_tampered True ctx) db rule = Inr False"
  shows "controlled_rule_is_active L (with_clock_tampered False ctx) db rule = Inr False"
proof -
  obtain running where r: "context_detox_sessions (with_clock_tampered False ctx) db = Inr running"
    "set running \<subseteq> set all_sessions" using context_sessions_tampered [OF s] .
  then show ?thesis using s i tampered_schedules [of L ctx "rc_schedule_ids rule"]
    by (fastforce simp: controlled_rule_is_active_def rule_is_active_def list_ex_iff split: if_splits rule_tier.splits)
qed

lemma tampered_app_inactive:
  assumes s: "context_detox_sessions (with_clock_tampered True ctx) db = Inr all_sessions"
    and i: "controlled_app_rule_is_active L (with_clock_tampered True ctx) db rule = Inr False"
  shows "controlled_app_rule_is_active L (with_clock_tampered False ctx) db rule = Inr False"
proof -
  obtain running where r: "context_detox_sessions (with_clock_tampered False ctx) db = Inr running"
    "set running \<subseteq> set all_sessions" using context_sessions_tampered [OF s] .
  then show ?thesis using s i tampered_schedules [of L ctx "ac_schedule_ids rule"]
    by (fastforce simp: controlled_app_rule_is_active_def app_rule_is_active_def list_ex_iff
        split: if_splits rule_tier.splits)
qed

text \<open>
  C32. A tampered clock opens nothing: what is allowed once the clock is known to be tampered with
  would have been allowed with the clock believed, for URLs and for processes, whatever the time,
  the schedules, the sessions and the unlocks.
\<close>

theorem tampered_clock_only_blocks_more:
  shows "(evaluate_url L (with_clock_tampered True ctx) url db = Allow \<longrightarrow>
            evaluate_url L (with_clock_tampered False ctx) url db = Allow)
       \<and> (evaluate_app L (with_clock_tampered True ctx) process db = Allow \<longrightarrow>
            evaluate_app L (with_clock_tampered False ctx) process db = Allow)"
proof (intro conjI impI)
  assume "evaluate_url L (with_clock_tampered True ctx) url db = Allow"
  then obtain parsed ss where a: "normalized_url_parse L url = Inr parsed"
    "context_detox_sessions (with_clock_tampered True ctx) db = Inr ss"
    "matching_rules L (ec_config ctx) parsed Hard = []"
    and strict: "\<forall>r\<in>set (matching_rules L (ec_config ctx) parsed ScheduledBlock).
      \<not> rule_is_active L (with_clock_tampered True ctx) r \<and> (\<forall>s\<in>set ss. rc_id r \<notin> set (ds_site_rule_ids s))"
    and control: "\<forall>r\<in>set (matching_rules L (ec_config ctx) parsed ControlledAccess).
      controlled_rule_is_active L (with_clock_tampered True ctx) db r = Inr False"
    by (auto simp: evaluate_url_Allow)
  obtain running where r: "context_detox_sessions (with_clock_tampered False ctx) db = Inr running"
    "set running \<subseteq> set ss" using context_sessions_tampered [OF a(2)] .
  have "\<not> rule_is_active L (with_clock_tampered False ctx) x"
    if "\<not> rule_is_active L (with_clock_tampered True ctx) x" for x
    using that tampered_schedules [of L ctx "rc_schedule_ids x"]
    by (auto simp: rule_is_active_def split: rule_tier.splits)
  then show "evaluate_url L (with_clock_tampered False ctx) url db = Allow"
    using a r strict control tampered_inactive [OF a(2)] by (fastforce simp: evaluate_url_Allow)
next
  assume "evaluate_app L (with_clock_tampered True ctx) process db = Allow"
  then obtain ss where a: "context_detox_sessions (with_clock_tampered True ctx) db = Inr ss"
    "matching_app_rules (ec_config ctx) process Hard = []"
    and strict: "\<forall>r\<in>set (matching_app_rules (ec_config ctx) process ScheduledBlock).
      \<not> app_rule_is_active L (with_clock_tampered True ctx) r \<and> (\<forall>s\<in>set ss. ac_id r \<notin> set (ds_app_rule_ids s))"
    and control: "\<forall>r\<in>set (matching_app_rules (ec_config ctx) process ControlledAccess).
      controlled_app_rule_is_active L (with_clock_tampered True ctx) db r = Inr False"
    by (auto simp: evaluate_app_Allow)
  obtain running where r: "context_detox_sessions (with_clock_tampered False ctx) db = Inr running"
    "set running \<subseteq> set ss" using context_sessions_tampered [OF a(1)] .
  have "\<not> app_rule_is_active L (with_clock_tampered False ctx) x"
    if "\<not> app_rule_is_active L (with_clock_tampered True ctx) x" for x
    using that tampered_schedules [of L ctx "ac_schedule_ids x"]
    by (auto simp: app_rule_is_active_def split: rule_tier.splits)
  then show "evaluate_app L (with_clock_tampered False ctx) process db = Allow"
    using a r strict control tampered_app_inactive [OF a(1)] by (fastforce simp: evaluate_app_Allow)
qed

theorem tampered_clock_only_blocks_more_witness:
  "evaluate_url sample_lib (with_clock_tampered False (tuesday True)) ''https://chat.org/'' empty_database = Allow"
proof -
  have "evaluate_url sample_lib (with_clock_tampered True (tuesday True)) ''https://chat.org/'' empty_database = Allow"
    by code_simp
  then show ?thesis using tampered_clock_only_blocks_more by blast
qed

end
