(* ===== verification/Selection.thy ===== *)
theory Selection imports Verdicts begin

text \<open>
  Which of several lists is named in a block and charged for a visit, and what the remaining time of
  an allowance means. The selection facts are those of the \<open>preference\<close> locale at the two orders of
  the engine: strictness and the end of a Detox.
\<close>

section \<open>Whose block is shown\<close>

lemma evaluate_fields_Block:
  assumes "evaluate_controlled_rule_fields L ctx db i n aid usage = Block (ControlledAccessReason rid rname why)"
  shows "rid = i \<and> rname = n"
  using assms unfolding evaluate_controlled_rule_fields_def
  by (auto simp: runtime_error_def split: if_splits sum.splits option.splits)

lemma detox_url_reason: "detox_block_for_url L ctx db parsed = Inr (Some reason) \<Longrightarrow>
    \<exists>sid sname rid rname ends. reason = Detox sid sname rid rname SiteRuleTarget ends"
  by (auto simp: detox_block_for_url_def and_then_Inr_iff)

lemma evaluate_url_controlled:
  assumes "evaluate_url L ctx url db = Block (ControlledAccessReason rid rname why)"
  obtains parsed k where "normalized_url_parse L url = Inr parsed"
    "try_fold (controlled_step L ctx db parsed) (matching_rules L (ec_config ctx) parsed ControlledAccess) None
       = Inr (Some (Block (ControlledAccessReason rid rname why), k))"
  using assms unfolding evaluate_url_def
  by (auto simp: runtime_error_def dest!: detox_url_reason split: sum.splits list.splits option.splits)

text \<open>
  Of the Tier 3 lists that block a URL the strictest is named: the block shows an active list that
  contains the URL, with that list's own reason, and no other active list that contains the URL and
  blocks it is stricter, that is has no allowance where the named one has, or a smaller one, or the
  same with a more specific matching pattern.
\<close>

lemma strictest_controlled_block_is_named:
  assumes "evaluate_url L ctx url db = Block (ControlledAccessReason rid rname why)"
  shows "\<exists>parsed rule. normalized_url_parse L url = Inr parsed
    \<and> rule \<in> set (matching_rules L (ec_config ctx) parsed ControlledAccess)
    \<and> rc_id rule = rid \<and> rc_name rule = rname
    \<and> evaluate_controlled_rule L ctx db rule = Block (ControlledAccessReason rid rname why)
    \<and> (\<forall>other\<in>set (matching_rules L (ec_config ctx) parsed ControlledAccess).
         controlled_rule_is_active L ctx db other = Inr True \<and> is_block (evaluate_controlled_rule L ctx db other) \<longrightarrow>
         \<not> is_stricter_than (controlled_rule_strictness L (ec_config ctx) other parsed)
             (controlled_rule_strictness L (ec_config ctx) rule parsed))"
proof -
  obtain parsed k where p: "normalized_url_parse L url = Inr parsed"
    and f: "try_fold (controlled_step L ctx db parsed) (matching_rules L (ec_config ctx) parsed ControlledAccess) None
       = Inr (Some (Block (ControlledAccessReason rid rname why), k))"
    using evaluate_url_controlled [OF assms] .
  obtain rule where r: "rule \<in> set (matching_rules L (ec_config ctx) parsed ControlledAccess)"
    "evaluate_controlled_rule L ctx db rule = Block (ControlledAccessReason rid rname why)"
    "controlled_rule_strictness L (ec_config ctx) rule parsed = k"
    "\<forall>other\<in>set (matching_rules L (ec_config ctx) parsed ControlledAccess).
       controlled_rule_is_active L ctx db other = Inr True \<and> is_block (evaluate_controlled_rule L ctx db other) \<longrightarrow>
       \<not> is_stricter_than (controlled_rule_strictness L (ec_config ctx) other parsed) k"
    using blocking_loop_best [OF f [unfolded controlled_step_blocking]] by metis
  moreover have "rc_id rule = rid" "rc_name rule = rname"
    using evaluate_fields_Block r(2) unfolding evaluate_controlled_rule_def by metis+
  ultimately show ?thesis using p by blast
qed

lemma strictest_controlled_block_is_named_witness:
  "evaluate_url sample_lib (tuesday True) ''https://clips.video.org/'' empty_database
     = Block (ControlledAccessReason ''clips'' ''clips'' UnlockRequired)
   \<and> (\<exists>rule. rc_id rule = ''clips'' \<and> evaluate_controlled_rule sample_lib (tuesday True) empty_database rule
        = Block (ControlledAccessReason ''clips'' ''clips'' UnlockRequired))"
proof -
  have e: "evaluate_url sample_lib (tuesday True) ''https://clips.video.org/'' empty_database
     = Block (ControlledAccessReason ''clips'' ''clips'' UnlockRequired)" by code_simp
  show ?thesis using strictest_controlled_block_is_named [OF e] e by blast
qed

lemma evaluate_url_detox:
  assumes "evaluate_url L ctx url db = Block (Detox sid sname rid rname kind ends)"
  obtains parsed where "normalized_url_parse L url = Inr parsed"
    "detox_block_for_url L ctx db parsed = Inr (Some (Detox sid sname rid rname kind ends))"
proof (cases "normalized_url_parse L url")
  case (Inr parsed)
  have fields: "evaluate_controlled_rule_fields L ctx db i n aid usage \<noteq> Block (Detox sid sname rid rname kind ends)"
    for i n aid usage
    unfolding evaluate_controlled_rule_fields_def by (auto simp: runtime_error_def split: sum.split option.split)
  have "try_fold (controlled_step L ctx db parsed) rules None
      \<noteq> Inr (Some (Block (Detox sid sname rid rname kind ends), k))" for rules k
  proof
    assume "try_fold (controlled_step L ctx db parsed) rules None
      = Inr (Some (Block (Detox sid sname rid rname kind ends), k))"
    from blocking_loop_best [OF this [unfolded controlled_step_blocking]]
    show False using fields unfolding evaluate_controlled_rule_def by metis
  qed
  then show ?thesis using that assms Inr unfolding evaluate_url_def
    by (auto simp: runtime_error_def split: sum.splits list.splits option.splits)
qed (use assms in \<open>simp add: evaluate_url_def\<close>)

text \<open>
  The Detox named in a block is one that runs, names the list, and of all running sessions that
  name an enabled Tier 2 list containing the URL it ends last, to the microsecond.
\<close>

lemma detox_block_ends_last:
  assumes "evaluate_url L ctx url db = Block (Detox sid sname rid rname kind ends)"
  shows "\<exists>parsed sessions s. normalized_url_parse L url = Inr parsed
    \<and> context_detox_sessions ctx db = Inr sessions \<and> s \<in> set sessions
    \<and> ds_id s = sid \<and> ds_ends_at s = ends \<and> rid \<in> set (ds_site_rule_ids s)
    \<and> (\<forall>other\<in>set sessions. \<forall>rule\<in>set (matching_rules L (ec_config ctx) parsed ScheduledBlock).
         rc_id rule \<in> set (ds_site_rule_ids other) \<longrightarrow> format_time (ds_ends_at other) \<le> format_time ends)"
proof -
  obtain parsed where p: "normalized_url_parse L url = Inr parsed"
    "detox_block_for_url L ctx db parsed = Inr (Some (Detox sid sname rid rname kind ends))"
    using evaluate_url_detox [OF assms] .
  then obtain sessions s rule k where s: "context_detox_sessions ctx db = Inr sessions"
    "keep_best ends_later (detox_candidates ds_site_rule_ids rc_id sessions
        (matching_rules L (ec_config ctx) parsed ScheduledBlock)) None = Some ((s, rule), k)"
    "ds_id s = sid" "ds_ends_at s = ends" "rc_id rule = rid"
    by (auto simp: detox_block_for_url_def and_then_Inr_iff)
  from detox_best [OF s(2)] show ?thesis using p(1) s by blast
qed

definition exam_day :: database where
  "exam_day = session_inserted \<lparr>ds_id = ''d1'', ds_name = None, ds_starts_at = 0, ds_ends_at = tuesday_ten,
     ds_cancelled_at = None, ds_site_rule_ids = [''exam''], ds_app_rule_ids = []\<rparr> empty_database"

lemma detox_block_ends_last_witness:
  "\<exists>s sessions. context_detox_sessions (tuesday False) exam_day = Inr sessions \<and> s \<in> set sessions
     \<and> ds_ends_at s = tuesday_ten
     \<and> evaluate_url sample_lib (tuesday False) ''https://chat.org/'' exam_day
        = Block (Detox ''d1'' None ''exam'' ''exam'' SiteRuleTarget tuesday_ten)"
proof -
  have "tuesday_ten = 468000000000000" by (simp add: tuesday_ten_def nanos_per_minute_def)
  moreover have e: "evaluate_url sample_lib (tuesday False) ''https://chat.org/'' exam_day
        = Block (Detox ''d1'' None ''exam'' ''exam'' SiteRuleTarget 468000000000000)" by code_simp
  ultimately show ?thesis using detox_block_ends_last [OF e] by (metis (no_types, lifting))
qed

section \<open>What a visit is charged to\<close>

lemma visit_fold:
  "fold (visit_step L ctx parsed) rules (m, a) =
     (keep_best is_stricter_than (map (\<lambda>r. (r, controlled_rule_strictness L (ec_config ctx) r parsed))
         (filter (\<lambda>r. rule_allowance_minutes (ec_config ctx) r \<noteq> None) rules)) m,
      keep_best is_stricter_than (map (\<lambda>r. (r, controlled_rule_strictness L (ec_config ctx) r parsed)) rules) a)"
  by (induction rules arbitrary: m a) (auto simp: visit_step_def Let_def)

lemma active_controlled_iff:
  "r \<in> set (active_controlled_rules L ctx db parsed) \<longleftrightarrow>
     r \<in> set (matching_rules L (ec_config ctx) parsed ControlledAccess)
     \<and> controlled_rule_is_active L ctx db r = Inr True"
  by (auto simp: active_controlled_rules_def split: sum.splits)

lemma not_None_pair: "x \<noteq> None \<Longrightarrow> \<exists>c k. x = Some (c, k)"
  by (cases x) auto

lemma visit_rule_metered:
  assumes "r \<in> set (active_controlled_rules L ctx db parsed)" "rule_allowance_minutes (ec_config ctx) r \<noteq> None"
  obtains c where "visit_rule_for_url L ctx db parsed = Some c" "c \<in> set (active_controlled_rules L ctx db parsed)"
    "rule_allowance_minutes (ec_config ctx) c \<noteq> None"
    "\<forall>other\<in>set (active_controlled_rules L ctx db parsed). rule_allowance_minutes (ec_config ctx) other \<noteq> None
       \<longrightarrow> \<not> is_stricter_than (controlled_rule_strictness L (ec_config ctx) other parsed)
             (controlled_rule_strictness L (ec_config ctx) c parsed)"
proof -
  let ?xs = "map (\<lambda>r. (r, controlled_rule_strictness L (ec_config ctx) r parsed))
      (filter (\<lambda>r. rule_allowance_minutes (ec_config ctx) r \<noteq> None) (active_controlled_rules L ctx db parsed))"
  have "keep_best is_stricter_than ?xs None \<noteq> None" using assms by (auto simp: filter_empty_conv)
  then obtain c k where z: "keep_best is_stricter_than ?xs None = Some (c, k)"
    using not_None_pair by blast
  then have "visit_rule_for_url L ctx db parsed = Some c"
    by (simp add: visit_rule_for_url_def visit_fold or_else_def)
  then show ?thesis using that strict.keep_best_best [OF z] by auto
qed

lemma visit_rule_unmetered:
  assumes "visit_rule_for_url L ctx db parsed = Some c" "rule_allowance_minutes (ec_config ctx) c = None"
  shows "\<forall>r\<in>set (active_controlled_rules L ctx db parsed). rule_allowance_minutes (ec_config ctx) r = None"
  using visit_rule_metered assms by (metis option.inject)

lemma visit_rule_active:
  assumes "visit_rule_for_url L ctx db parsed = Some c"
  shows "c \<in> set (active_controlled_rules L ctx db parsed)"
proof -
  let ?f = "\<lambda>rules. map (\<lambda>r. (r, controlled_rule_strictness L (ec_config ctx) r parsed)) rules"
  let ?act = "active_controlled_rules L ctx db parsed"
  let ?met = "filter (\<lambda>r. rule_allowance_minutes (ec_config ctx) r \<noteq> None) ?act"
  have "\<exists>k. keep_best is_stricter_than (?f ?met) None = Some (c, k) \<or> keep_best is_stricter_than (?f ?act) None = Some (c, k)"
    using assms unfolding visit_rule_for_url_def visit_fold or_else_def Let_def
    by (cases "keep_best is_stricter_than (?f ?met) None") auto
  then obtain k where "(c, k) \<in> set (?f ?met) \<or> (c, k) \<in> set (?f ?act)"
    using strict.keep_best_best by blast
  then show ?thesis by auto
qed

text \<open>
  A visit is charged to the strictest list with an allowance among the active Tier 3 lists that
  contain its URL, never to a list without one while such a list exists; and the URL counts as
  metered exactly when there is one.
\<close>

lemma visits_charge_the_strictest_metered_list:
  assumes "normalized_url_parse L url = Inr parsed"
  shows "(site_usage_is_metered L ctx url db \<longleftrightarrow>
      (\<exists>r\<in>set (matching_rules L (ec_config ctx) parsed ControlledAccess).
         controlled_rule_is_active L ctx db r = Inr True \<and> rule_allowance_minutes (ec_config ctx) r \<noteq> None))
    \<and> (site_usage_is_metered L ctx url db \<longrightarrow>
        (\<exists>c. visit_rule_for_url L ctx db parsed = Some c \<and> rule_allowance_minutes (ec_config ctx) c \<noteq> None
          \<and> c \<in> set (matching_rules L (ec_config ctx) parsed ControlledAccess)
          \<and> (\<forall>other\<in>set (matching_rules L (ec_config ctx) parsed ControlledAccess).
               controlled_rule_is_active L ctx db other = Inr True
               \<and> rule_allowance_minutes (ec_config ctx) other \<noteq> None
               \<longrightarrow> \<not> is_stricter_than (controlled_rule_strictness L (ec_config ctx) other parsed)
                     (controlled_rule_strictness L (ec_config ctx) c parsed))))"
proof -
  have m: "site_usage_is_metered L ctx url db \<longleftrightarrow>
      (\<exists>c. visit_rule_for_url L ctx db parsed = Some c \<and> rule_allowance_minutes (ec_config ctx) c \<noteq> None)"
    using assms by (simp add: site_usage_is_metered_def split: option.split)
  have best: "\<exists>c. visit_rule_for_url L ctx db parsed = Some c \<and> rule_allowance_minutes (ec_config ctx) c \<noteq> None
      \<and> c \<in> set (active_controlled_rules L ctx db parsed)
      \<and> (\<forall>other\<in>set (active_controlled_rules L ctx db parsed). rule_allowance_minutes (ec_config ctx) other \<noteq> None
           \<longrightarrow> \<not> is_stricter_than (controlled_rule_strictness L (ec_config ctx) other parsed)
             (controlled_rule_strictness L (ec_config ctx) c parsed))"
    if "r \<in> set (active_controlled_rules L ctx db parsed)" "rule_allowance_minutes (ec_config ctx) r \<noteq> None" for r
    using visit_rule_metered [OF that] by metis
  have iff: "site_usage_is_metered L ctx url db \<longleftrightarrow>
      (\<exists>r\<in>set (active_controlled_rules L ctx db parsed). rule_allowance_minutes (ec_config ctx) r \<noteq> None)"
    using m visit_rule_active best by blast
  show ?thesis
  proof (intro conjI impI)
    show "site_usage_is_metered L ctx url db \<longleftrightarrow>
      (\<exists>r\<in>set (matching_rules L (ec_config ctx) parsed ControlledAccess).
         controlled_rule_is_active L ctx db r = Inr True \<and> rule_allowance_minutes (ec_config ctx) r \<noteq> None)"
      unfolding iff using active_controlled_iff by blast
  next
    assume "site_usage_is_metered L ctx url db"
    then obtain c where c: "visit_rule_for_url L ctx db parsed = Some c" "rule_allowance_minutes (ec_config ctx) c \<noteq> None"
      "c \<in> set (active_controlled_rules L ctx db parsed)"
      "\<forall>other\<in>set (active_controlled_rules L ctx db parsed). rule_allowance_minutes (ec_config ctx) other \<noteq> None
           \<longrightarrow> \<not> is_stricter_than (controlled_rule_strictness L (ec_config ctx) other parsed)
             (controlled_rule_strictness L (ec_config ctx) c parsed)" using iff best by metis
    show "\<exists>c. visit_rule_for_url L ctx db parsed = Some c \<and> rule_allowance_minutes (ec_config ctx) c \<noteq> None
          \<and> c \<in> set (matching_rules L (ec_config ctx) parsed ControlledAccess)
          \<and> (\<forall>other\<in>set (matching_rules L (ec_config ctx) parsed ControlledAccess).
               controlled_rule_is_active L ctx db other = Inr True
               \<and> rule_allowance_minutes (ec_config ctx) other \<noteq> None
               \<longrightarrow> \<not> is_stricter_than (controlled_rule_strictness L (ec_config ctx) other parsed)
                     (controlled_rule_strictness L (ec_config ctx) c parsed))"
      using c active_controlled_iff by (intro exI [where x = c]) blast
  qed
qed

lemma visits_charge_the_strictest_metered_list_witness:
  "site_usage_is_metered sample_lib (tuesday False) ''https://clips.video.org/'' empty_database"
proof -
  let ?p = "\<lparr>nu_url_without_fragment = ''https://clips.video.org/'', nu_host = Some ''clips.video.org'', nu_path = ''/''\<rparr>"
  let ?r = "site_list ''video'' ControlledAccess (domain_pattern ''video.org'' True) [''night''] (Some ''half-hour'')"
  have p: "normalized_url_parse sample_lib ''https://clips.video.org/'' = Inr ?p" by code_simp
  have "?r \<in> set (matching_rules sample_lib (ec_config (tuesday False)) ?p ControlledAccess)" by code_simp
  moreover have "controlled_rule_is_active sample_lib (tuesday False) empty_database ?r = Inr True" by code_simp
  moreover have "rule_allowance_minutes (ec_config (tuesday False)) ?r = Some 30" by code_simp
  ultimately show ?thesis using visits_charge_the_strictest_metered_list [OF p] by fastforce
qed

section \<open>What is left of an allowance\<close>

lemma add_site_statuses:
  assumes "try_fold (add_site_status L ctx db) rules acc = Inr out"
  shows "set acc \<subseteq> set out \<and> (\<forall>s\<in>set out. s \<in> set acc \<or> 0 \<le> as_remaining_seconds s)
    \<and> (\<forall>r\<in>set rules. \<forall>m. rule_allowance_minutes (ec_config ctx) r = Some m \<longrightarrow>
         (\<exists>n. used_seconds_for_site_rule_on_day L ctx db r = Inr n \<and> status_of (rc_id r) (rc_name r) m n \<in> set out))"
  using assms
proof (induction rules arbitrary: acc)
  case (Cons r rules)
  from Cons.prems obtain acc' where a: "add_site_status L ctx db r acc = Inr acc'"
    "try_fold (add_site_status L ctx db) rules acc' = Inr out" by (auto simp: and_then_Inr_iff)
  have "set acc \<subseteq> set acc'" "\<forall>s\<in>set acc'. s \<in> set acc \<or> 0 \<le> as_remaining_seconds s"
    "\<forall>m. rule_allowance_minutes (ec_config ctx) r = Some m \<longrightarrow>
       (\<exists>n. used_seconds_for_site_rule_on_day L ctx db r = Inr n \<and> status_of (rc_id r) (rc_name r) m n \<in> set acc')"
    using a(1) by (auto simp: add_site_status_def and_then_Inr_iff status_of_def split: option.splits)
  then show ?case using Cons.IH [OF a(2)] by fastforce
qed simp

lemma add_app_statuses:
  assumes "try_fold (add_app_status ctx db) rules acc = Inr out"
  shows "set acc \<subseteq> set out \<and> (\<forall>s\<in>set out. s \<in> set acc \<or> 0 \<le> as_remaining_seconds s)
    \<and> (\<forall>r\<in>set rules. \<forall>m. app_rule_allowance_minutes (ec_config ctx) r = Some m \<longrightarrow>
         (\<exists>n. used_seconds_for_app_rule_on_day ctx db (ac_id r) = Inr n \<and> status_of (ac_id r) (ac_name r) m n \<in> set out))"
  using assms
proof (induction rules arbitrary: acc)
  case (Cons r rules)
  from Cons.prems obtain acc' where a: "add_app_status ctx db r acc = Inr acc'"
    "try_fold (add_app_status ctx db) rules acc' = Inr out" by (auto simp: and_then_Inr_iff)
  have "set acc \<subseteq> set acc'" "\<forall>s\<in>set acc'. s \<in> set acc \<or> 0 \<le> as_remaining_seconds s"
    "\<forall>m. app_rule_allowance_minutes (ec_config ctx) r = Some m \<longrightarrow>
       (\<exists>n. used_seconds_for_app_rule_on_day ctx db (ac_id r) = Inr n \<and> status_of (ac_id r) (ac_name r) m n \<in> set acc')"
    using a(1) by (auto simp: add_app_status_def and_then_Inr_iff status_of_def split: option.splits)
  then show ?case using Cons.IH [OF a(2)] by fastforce
qed simp

lemma status_of_left: "0 < as_remaining_seconds (status_of i n m used) \<longleftrightarrow> within_allowance (Some m) (Inr used)"
  by (auto simp: status_of_def within_allowance_def)

text \<open>
  The remaining seconds that are shown agree with the decision: each enabled Tier 3 list whose
  allowance exists has a status, never negative, and with an honest clock and no unlock in force the
  list is open exactly when the status shows more than zero seconds, for sites and for applications.
\<close>

lemma remaining_time_agrees_with_decision:
  assumes "allowance_statuses L ctx db = Inr statuses" "\<not> ec_clock_tampered ctx"
  shows "(\<forall>s\<in>set statuses. 0 \<le> as_remaining_seconds s)
    \<and> (\<forall>r\<in>set (cfg_rules (ec_config ctx)).
         rc_enabled r \<and> rc_tier r = ControlledAccess \<and> rule_allowance_minutes (ec_config ctx) r \<noteq> None
         \<and> active_unlock_for_rule (rc_id r) (now_utc ctx) db = Inr None \<longrightarrow>
         (\<exists>s\<in>set statuses. as_rule_id s = rc_id r
            \<and> (0 < as_remaining_seconds s \<longleftrightarrow> evaluate_controlled_rule L ctx db r = Allow)))
    \<and> (\<forall>r\<in>set (cfg_app_rules (ec_config ctx)).
         ac_enabled r \<and> ac_tier r = ControlledAccess \<and> app_rule_allowance_minutes (ec_config ctx) r \<noteq> None
         \<and> active_unlock_for_rule (ac_id r) (now_utc ctx) db = Inr None \<longrightarrow>
         (\<exists>s\<in>set statuses. as_rule_id s = ac_id r
            \<and> (0 < as_remaining_seconds s \<longleftrightarrow> evaluate_controlled_app_rule L ctx db r = Allow)))"
proof -
  let ?rules = "filter (\<lambda>rule. rc_enabled rule \<and> rc_tier rule = ControlledAccess \<and> rc_allowance_id rule \<noteq> None)
      (cfg_rules (ec_config ctx))"
  let ?apps = "filter (\<lambda>rule. ac_enabled rule \<and> ac_tier rule = ControlledAccess \<and> ac_allowance_id rule \<noteq> None)
      (cfg_app_rules (ec_config ctx))"
  obtain sites where f: "try_fold (add_site_status L ctx db) ?rules [] = Inr sites"
    "try_fold (add_app_status ctx db) ?apps sites = Inr statuses"
    using assms(1) by (auto simp: allowance_statuses_def and_then_Inr_iff)
  note site = add_site_statuses [OF f(1)] and app = add_app_statuses [OF f(2)]
  have "\<exists>s\<in>set statuses. as_rule_id s = rc_id r
      \<and> (0 < as_remaining_seconds s \<longleftrightarrow> evaluate_controlled_rule L ctx db r = Allow)"
    if r: "r \<in> set (cfg_rules (ec_config ctx))" "rc_enabled r" "rc_tier r = ControlledAccess"
      "rule_allowance_minutes (ec_config ctx) r \<noteq> None"
      "active_unlock_for_rule (rc_id r) (now_utc ctx) db = Inr None" for r
  proof -
    obtain m where m: "rule_allowance_minutes (ec_config ctx) r = Some m" using r by auto
    then have "r \<in> set ?rules" using r by (auto simp: rule_allowance_minutes_def split: option.splits)
    then obtain n where n: "used_seconds_for_site_rule_on_day L ctx db r = Inr n"
      "status_of (rc_id r) (rc_name r) m n \<in> set statuses" using site app m by blast
    have "evaluate_controlled_rule L ctx db r = Allow \<longleftrightarrow> within_allowance (Some m) (Inr n)"
      using r(5) assms(2) m n(1) by (simp add: evaluate_controlled_rule_Allow site_list_open_def open_by_unlock_def)
    then show ?thesis using n(2) status_of_left by (intro bexI [OF _ n(2)]) (simp add: status_of_def)
  qed
  moreover have "\<exists>s\<in>set statuses. as_rule_id s = ac_id r
      \<and> (0 < as_remaining_seconds s \<longleftrightarrow> evaluate_controlled_app_rule L ctx db r = Allow)"
    if r: "r \<in> set (cfg_app_rules (ec_config ctx))" "ac_enabled r" "ac_tier r = ControlledAccess"
      "app_rule_allowance_minutes (ec_config ctx) r \<noteq> None"
      "active_unlock_for_rule (ac_id r) (now_utc ctx) db = Inr None" for r
  proof -
    obtain m where m: "app_rule_allowance_minutes (ec_config ctx) r = Some m" using r by auto
    then have "r \<in> set ?apps" using r by (auto simp: app_rule_allowance_minutes_def split: option.splits)
    then obtain n where n: "used_seconds_for_app_rule_on_day ctx db (ac_id r) = Inr n"
      "status_of (ac_id r) (ac_name r) m n \<in> set statuses" using app m by blast
    have "evaluate_controlled_app_rule L ctx db r = Allow \<longleftrightarrow> within_allowance (Some m) (Inr n)"
      using r(5) assms(2) m n(1) by (simp add: evaluate_controlled_app_rule_Allow app_list_open_def open_by_unlock_def)
    then show ?thesis using n(2) status_of_left by (intro bexI [OF _ n(2)]) (simp add: status_of_def)
  qed
  moreover have "0 \<le> as_remaining_seconds s" if "s \<in> set statuses" for s
    using site app that by auto
  ultimately show ?thesis by blast
qed

lemma remaining_time_agrees_with_decision_witness:
  "\<exists>statuses. allowance_statuses sample_lib (tuesday False) empty_database = Inr statuses
     \<and> (\<exists>s\<in>set statuses. as_rule_id s = ''video'' \<and> 0 < as_remaining_seconds s)"
proof -
  let ?r = "site_list ''video'' ControlledAccess (domain_pattern ''video.org'' True) [''night''] (Some ''half-hour'')"
  have s: "allowance_statuses sample_lib (tuesday False) empty_database
      = Inr [\<lparr>as_rule_id = ''video'', as_rule_name = ''video'', as_remaining_seconds = 1800\<rparr>]" by code_simp
  have t: "\<not> ec_clock_tampered (tuesday False)" by (simp add: tuesday_def)
  have r: "?r \<in> set (cfg_rules (ec_config (tuesday False)))" by (simp add: tuesday_def engine_policy_def)
  have "rule_allowance_minutes (ec_config (tuesday False)) ?r = Some 30"
    "active_unlock_for_rule (rc_id ?r) (now_utc (tuesday False)) empty_database = Inr None"
    "evaluate_controlled_rule sample_lib (tuesday False) empty_database ?r = Allow" by code_simp+
  moreover have "rc_enabled ?r" "rc_tier ?r = ControlledAccess" "rc_id ?r = ''video''" by (simp_all add: site_list_def)
  ultimately show ?thesis using remaining_time_agrees_with_decision [OF s t] r s by (metis option.simps(3))
qed

section \<open>What is metered for a process\<close>

lemma metered_fold:
  "try_fold (\<lambda>rule metered. and_then (controlled_app_rule_is_active L ctx db rule) (\<lambda>active.
       Inr (if active \<and> app_rule_allowance_minutes (ec_config ctx) rule \<noteq> None then metered @ [ac_id rule] else metered)))
     rules acc = Inr out \<Longrightarrow>
   out = acc @ map ac_id (filter (\<lambda>r. controlled_app_rule_is_active L ctx db r = Inr True
     \<and> app_rule_allowance_minutes (ec_config ctx) r \<noteq> None) rules)"
proof (induction rules arbitrary: acc)
  case (Cons r rules)
  show ?case
  proof (cases "controlled_app_rule_is_active L ctx db r")
    case (Inr a)
    let ?acc = "if a \<and> app_rule_allowance_minutes (ec_config ctx) r \<noteq> None then acc @ [ac_id r] else acc"
    have "try_fold (\<lambda>rule metered. and_then (controlled_app_rule_is_active L ctx db rule) (\<lambda>active.
       Inr (if active \<and> app_rule_allowance_minutes (ec_config ctx) rule \<noteq> None then metered @ [ac_id rule] else metered)))
     rules ?acc = Inr out" using Cons.prems Inr by simp
    from Cons.IH [OF this] show ?thesis using Inr by simp
  qed (use Cons.prems in simp)
qed simp

text \<open>
  Application usage is metered for exactly the active Tier 3 lists with an allowance that contain
  the process, and for none of them while a Detox, a strict list on schedule or a Tier 1 list blocks
  it: then nothing is charged.
\<close>

lemma metered_lists_of_a_process:
  assumes "metered_app_rule_ids_for_process L ctx process db = Inr ids"
  shows "ids = [] \<or>
    (ids = map ac_id (filter (\<lambda>r. controlled_app_rule_is_active L ctx db r = Inr True
         \<and> app_rule_allowance_minutes (ec_config ctx) r \<noteq> None)
       (matching_app_rules (ec_config ctx) process ControlledAccess))
     \<and> (\<forall>r\<in>set (cfg_app_rules (ec_config ctx)). ac_enabled r \<and> app_rule_applies r process \<longrightarrow>
          ac_tier r \<noteq> Hard \<and> (ac_tier r = ScheduledBlock \<longrightarrow> \<not> schedule_ids_are_active L ctx (ac_schedule_ids r)))
     \<and> detox_block_for_app ctx db process = Inr None)"
proof (cases "ids = []")
  case False
  obtain detox where d: "detox_block_for_app ctx db process = Inr detox"
    using assms by (auto simp: metered_app_rule_ids_for_process_def and_then_Inr_iff)
  have c: "detox = None" "\<not> list_ex (app_rule_is_active L ctx) (matching_app_rules (ec_config ctx) process ScheduledBlock)"
    "\<not> list_ex (app_rule_is_active L ctx) (matching_app_rules (ec_config ctx) process Hard)"
    using assms d False by (auto simp: metered_app_rule_ids_for_process_def split: if_splits)
  then have "ids = [] @ map ac_id (filter (\<lambda>r. controlled_app_rule_is_active L ctx db r = Inr True
      \<and> app_rule_allowance_minutes (ec_config ctx) r \<noteq> None) (matching_app_rules (ec_config ctx) process ControlledAccess))"
    using assms d by (intro metered_fold) (simp add: metered_app_rule_ids_for_process_def)
  moreover have "ac_tier r \<noteq> Hard \<and> (ac_tier r = ScheduledBlock \<longrightarrow> \<not> schedule_ids_are_active L ctx (ac_schedule_ids r))"
    if "r \<in> set (cfg_app_rules (ec_config ctx))" "ac_enabled r" "app_rule_applies r process" for r
  proof -
    have "r \<in> set (matching_app_rules (ec_config ctx) process (ac_tier r))" using that by (simp add: matching_app_rules_iff)
    moreover have "\<not> app_rule_is_active L ctx x" if "x \<in> set (matching_app_rules (ec_config ctx) process Hard)
        \<or> x \<in> set (matching_app_rules (ec_config ctx) process ScheduledBlock)" for x
      using c(2,3) that unfolding list_ex_iff by blast
    moreover have "app_rule_is_active L ctx r" if "ac_tier r = Hard \<or> ac_tier r = ScheduledBlock
        \<and> schedule_ids_are_active L ctx (ac_schedule_ids r)"
      using that \<open>ac_enabled r\<close> by (auto simp: app_rule_is_active_def)
    ultimately show ?thesis by metis
  qed
  ultimately show ?thesis using d c(1) by simp
qed simp

definition metered_games :: evaluation_context where
  "metered_games = (tuesday False)\<lparr>ec_config := engine_policy\<lparr>cfg_app_rules :=
     [app_list ''games'' ControlledAccess ''game'' [''night''] (Some ''half-hour'')]\<rparr>\<rparr>"

lemma metered_lists_of_a_process_witness:
  "metered_app_rule_ids_for_process sample_lib metered_games (process_named ''game'') empty_database = Inr [''games'']
   \<and> detox_block_for_app metered_games empty_database (process_named ''game'') = Inr None"
proof -
  have m: "metered_app_rule_ids_for_process sample_lib metered_games (process_named ''game'') empty_database
      = Inr [''games'']" by code_simp
  then show ?thesis using metered_lists_of_a_process [OF m] by simp
qed

end
