(* ===== verification/Unlocks.thy ===== *)
theory Unlocks imports Selection Events begin

text \<open>
  Unlock requests of \<^verbatim>\<open>focus-core/src/policy.rs\<close>: the lists a target stands for, the checks in their
  order, and the grant. The checks only read; the grant writes the unlock with its lists in one
  transaction and then records the event in another.
\<close>

section \<open>Constants\<close>

definition tier_3_unlock_minutes :: u32 where
  "tier_3_unlock_minutes = 2"

definition global_unlocks_per_hour :: u32 where
  "global_unlocks_per_hour = 1"

definition min_unlock_reason_letters :: nat where
  "min_unlock_reason_letters = 20"

definition clean_unlock_reason :: "string \<Rightarrow> string" where
  "clean_unlock_reason reason = join '' '' (split_whitespace reason)"

definition normalize_unlock_reason :: "string \<Rightarrow> string" where
  "normalize_unlock_reason reason = to_lowercase (clean_unlock_reason reason)"

section \<open>The lists a target stands for\<close>

record resolved_unlock_rule =
  rr_id :: string
  rr_target :: string

text \<open>A name selects every list that has it; only without one is the target taken as an id.\<close>

definition application_lists_for_unlock :: "config \<Rightarrow> string \<Rightarrow> app_rule_config list" where
  "application_lists_for_unlock config target =
     (let name = to_lowercase target;
          named = filter (\<lambda>rule. to_lowercase (trim (ac_name rule)) = name) (cfg_app_rules config)
      in if named \<noteq> [] then named else filter (\<lambda>rule. ac_id rule = target) (cfg_app_rules config))"

definition unlock_rule_from_app :: "app_rule_config \<Rightarrow> string \<Rightarrow> error + resolved_unlock_rule" where
  "unlock_rule_from_app rule target =
     (case ac_tier rule of
        Hard \<Rightarrow> Inl (ErrUnlock (TargetIsHardBlocked (ac_id rule)))
      | ScheduledBlock \<Rightarrow> Inl (ErrUnlock (TargetIsScheduledBlocked (ac_id rule)))
      | ControlledAccess \<Rightarrow> Inr \<lparr>rr_id = ac_id rule, rr_target = target\<rparr>)"

definition eligible_step ::
  "'u lib \<Rightarrow> evaluation_context \<Rightarrow> string \<Rightarrow> database \<Rightarrow> app_rule_config
     \<Rightarrow> resolved_unlock_rule list \<Rightarrow> error + resolved_unlock_rule list" where
  "eligible_step L ctx target db rule eligible =
     (if ac_enabled rule \<and> ac_tier rule = ControlledAccess
      then and_then (controlled_app_rule_is_active L ctx db rule) (\<lambda>active.
        if active then and_then (unlock_rule_from_app rule target) (\<lambda>r. Inr (eligible @ [r])) else Inr eligible)
      else Inr eligible)"

text \<open>The session that keeps a target closed: of those that name one of its strict lists the one that ends last.\<close>

definition detox_of_lists :: "string list \<Rightarrow> detox_session \<Rightarrow> (string \<times> string \<times> instant) option" where
  "detox_of_lists ids session =
     map_option (\<lambda>i. (i, ds_id session, ds_ends_at session))
       (find (\<lambda>i. i \<in> set (ds_app_rule_ids session)) ids)"

definition strict_ids :: "app_rule_config list \<Rightarrow> string list" where
  "strict_ids rules = map ac_id (filter (\<lambda>rule. ac_enabled rule \<and> ac_tier rule = ScheduledBlock) rules)"

definition active_detox_for_unlock_target ::
  "'u lib \<Rightarrow> evaluation_context \<Rightarrow> string \<Rightarrow> database \<Rightarrow> error + (string \<times> string \<times> instant) option" where
  "active_detox_for_unlock_target L ctx target db =
     (let named = application_lists_for_unlock (ec_config ctx) target in
      if named \<noteq> []
      then and_then (context_detox_sessions ctx db) (\<lambda>sessions.
        Inr (max_by_key (\<lambda>d. snd (snd d)) (filter_map (detox_of_lists (strict_ids named)) sessions)))
      else
        and_then (case normalize_unlock_url_target L target of
            None \<Rightarrow> Inr None
          | Some parsed \<Rightarrow>
              and_then (detox_block_for_url L ctx db parsed) (\<lambda>found.
                Inr (case found of
                       Some (Detox session_id _ rule_id _ _ ends_at) \<Rightarrow> Some (rule_id, session_id, ends_at)
                     | _ \<Rightarrow> None)))
          (\<lambda>site. case site of
             Some found \<Rightarrow> Inr (Some found)
           | None \<Rightarrow>
               and_then (context_detox_sessions ctx db) (\<lambda>sessions.
                 Inr (max_by_key (\<lambda>d. format_time (snd (snd d)))
                   (filter_map (detox_of_lists
                      (map ac_id (filter (\<lambda>rule. ac_id rule = target \<or> app_rule_target_matches rule target)
                         (filter (\<lambda>rule. ac_enabled rule \<and> ac_tier rule = ScheduledBlock)
                            (cfg_app_rules (ec_config ctx)))))) sessions)))))"

text \<open>The strictest active Tier 3 list that blocks the URL, or else the strictest active one.\<close>

definition unlock_step ::
  "'u lib \<Rightarrow> evaluation_context \<Rightarrow> database \<Rightarrow> normalized_url \<Rightarrow> rule_config
     \<Rightarrow> (rule_config \<times> strictness) option \<times> (rule_config \<times> strictness) option
     \<Rightarrow> error + ((rule_config \<times> strictness) option \<times> (rule_config \<times> strictness) option)" where
  "unlock_step L ctx db parsed rule state =
     (case state of (active_match, blocking_match) \<Rightarrow>
        and_then (controlled_rule_is_active L ctx db rule) (\<lambda>active.
          if \<not> active then Inr state
          else let strictness = controlled_rule_strictness L (ec_config ctx) rule parsed in
            Inr (replace_if is_stricter_than rule strictness active_match,
                 if is_block (evaluate_controlled_rule L ctx db rule)
                 then replace_if is_stricter_than rule strictness blocking_match else blocking_match)))"

definition controlled_rule_for_unlock ::
  "'u lib \<Rightarrow> evaluation_context \<Rightarrow> normalized_url \<Rightarrow> database \<Rightarrow> error + rule_config option" where
  "controlled_rule_for_unlock L ctx parsed db =
     and_then (try_fold (unlock_step L ctx db parsed)
         (matching_rules L (ec_config ctx) parsed ControlledAccess) (None, None))
       (\<lambda>(active_match, blocking_match). Inr (map_option fst (or_else blocking_match active_match)))"

fun try_find :: "('a \<Rightarrow> 'e + bool) \<Rightarrow> 'a list \<Rightarrow> 'e + 'a option" where
  "try_find P [] = Inr None"
| "try_find P (x # xs) = and_then (P x) (\<lambda>b. if b then Inr (Some x) else try_find P xs)"

definition resolve_app_target ::
  "'u lib \<Rightarrow> evaluation_context \<Rightarrow> string \<Rightarrow> database \<Rightarrow> error + resolved_unlock_rule" where
  "resolve_app_target L ctx target db =
     (case find (\<lambda>rule. ac_enabled rule \<and> ac_tier rule = Hard \<and> app_rule_target_matches rule target)
             (cfg_app_rules (ec_config ctx)) of
        Some rule \<Rightarrow> Inl (ErrUnlock (TargetIsHardBlocked (ac_id rule)))
      | None \<Rightarrow>
          (case find (\<lambda>rule. ac_enabled rule \<and> ac_tier rule = ScheduledBlock
                   \<and> app_rule_is_active L ctx rule \<and> app_rule_target_matches rule target)
                  (cfg_app_rules (ec_config ctx)) of
             Some rule \<Rightarrow> Inl (ErrUnlock (TargetIsScheduledBlocked (ac_id rule)))
           | None \<Rightarrow>
               and_then (try_find (\<lambda>rule. if app_rule_target_matches rule target
                      then controlled_app_rule_is_active L ctx db rule else Inr False)
                    (filter (\<lambda>rule. ac_enabled rule \<and> ac_tier rule = ControlledAccess)
                      (cfg_app_rules (ec_config ctx))))
                 (\<lambda>found. case found of
                    Some rule \<Rightarrow> unlock_rule_from_app rule target
                  | None \<Rightarrow> Inl (ErrUnlock (UnknownTarget target)))))"

definition resolve_unlock_rule ::
  "'u lib \<Rightarrow> evaluation_context \<Rightarrow> string \<Rightarrow> database \<Rightarrow> error + resolved_unlock_rule" where
  "resolve_unlock_rule L ctx target db =
     (let named = application_lists_for_unlock (ec_config ctx) target in
      if named \<noteq> []
      then (case find (\<lambda>rule. ac_enabled rule \<and> (ac_tier rule = Hard \<or> app_rule_is_active L ctx rule)) named of
              Some rule \<Rightarrow> unlock_rule_from_app rule target
            | None \<Rightarrow> Inl (ErrUnlock (UnknownTarget target)))
      else
        and_then (case normalize_unlock_url_target L target of
            None \<Rightarrow> Inr None
          | Some parsed \<Rightarrow>
              (case matching_rules L (ec_config ctx) parsed Hard of
                 rule # _ \<Rightarrow> Inl (ErrUnlock (TargetIsHardBlocked (rc_id rule)))
               | [] \<Rightarrow>
                   (case find (rule_is_active L ctx) (matching_rules L (ec_config ctx) parsed ScheduledBlock) of
                      Some rule \<Rightarrow> Inl (ErrUnlock (TargetIsScheduledBlocked (rc_id rule)))
                    | None \<Rightarrow>
                        and_then (controlled_rule_for_unlock L ctx parsed db) (\<lambda>found.
                          Inr (map_option (\<lambda>rule. \<lparr>rr_id = rc_id rule,
                            rr_target = nu_url_without_fragment parsed\<rparr>) found)))))
          (\<lambda>site. case site of
             Some resolved \<Rightarrow> Inr resolved
           | None \<Rightarrow> resolve_app_target L ctx target db))"

definition resolve_unlock_rules ::
  "'u lib \<Rightarrow> evaluation_context \<Rightarrow> string \<Rightarrow> database \<Rightarrow> error + resolved_unlock_rule list" where
  "resolve_unlock_rules L ctx target db =
     and_then (try_fold (eligible_step L ctx target db)
         (application_lists_for_unlock (ec_config ctx) target) []) (\<lambda>eligible.
       if eligible \<noteq> [] then Inr eligible
       else and_then (active_detox_for_unlock_target L ctx target db) (\<lambda>detox.
         case detox of
           Some (rule_id, session_id, ends_at) \<Rightarrow> Inl (ErrUnlock (TargetInActiveDetox rule_id session_id ends_at))
         | None \<Rightarrow> and_then (resolve_unlock_rule L ctx target db) (\<lambda>r. Inr [r])))"

section \<open>Requests\<close>

definition no_unlock_active :: "instant \<Rightarrow> database \<Rightarrow> resolved_unlock_rule \<Rightarrow> error + unit" where
  "no_unlock_active now db rule =
     and_then (active_unlock_for_rule (rr_id rule) now db) (\<lambda>found.
       case found of
         Some active \<Rightarrow> Inl (ErrUnlock (UnlockAlreadyActive (rr_id rule) (us_expires_at active)))
       | None \<Rightarrow> Inr ())"

definition one_hour :: int where
  "one_hour = 60 * nanos_per_minute"

text \<open>The checks: the lists to unlock and the reason to store, or the first complaint.\<close>

definition check_unlock_request ::
  "'u lib \<Rightarrow> evaluation_context \<Rightarrow> string \<Rightarrow> string \<Rightarrow> database
     \<Rightarrow> error + (resolved_unlock_rule list \<times> string)" where
  "check_unlock_request L ctx given_target given_reason db =
     (let target = trim given_target; now = now_utc ctx in
      and_then (ensure (target \<noteq> []) (ErrUnlock EmptyTarget)) (\<lambda>_.
      and_then (resolve_unlock_rules L ctx target db) (\<lambda>rules.
      let reason = clean_unlock_reason given_reason;
          letter_count = length (filter is_alphabetic reason) in
      and_then (ensure (reason \<noteq> []) (ErrUnlock EmptyReason)) (\<lambda>_.
      and_then (ensure (\<not> letter_count < min_unlock_reason_letters)
        (ErrUnlock (ReasonTooShort min_unlock_reason_letters letter_count))) (\<lambda>_.
      and_then (unlock_reasons db) (\<lambda>existing.
      and_then (ensure (\<not> list_ex (\<lambda>e. normalize_unlock_reason e = normalize_unlock_reason reason) existing)
        (ErrUnlock ReasonAlreadyUsed)) (\<lambda>_.
      and_then (try_for rules (no_unlock_active now db)) (\<lambda>_.
      and_then (count_unlocks_since (now - one_hour) db) (\<lambda>unlocks_in_hour.
      and_then (ensure (\<not> unlocks_in_hour \<ge> global_unlocks_per_hour)
        (ErrUnlock (HourlyQuotaExceeded global_unlocks_per_hour))) (\<lambda>_.
        Inr (rules, reason)))))))))))"

definition granted_details :: "string list \<Rightarrow> u32 \<Rightarrow> event_details" where
  "granted_details rule_ids minutes =
     Details (''rule_id='' @ hd rule_ids @ '';rule_ids='' @ join '','' rule_ids
       @ '';minutes='' @ show_nat (unat minutes))"

definition grant_unlock ::
  "instant \<Rightarrow> resolved_unlock_rule list \<Rightarrow> string \<Rightarrow> unlock_state operation" where
  "grant_unlock now rules reason =
     (case rules of
        [] \<Rightarrow> db_fail (Panicked ''index out of bounds'')
      | first # _ \<Rightarrow>
          let rule_ids = map rr_id rules; minutes = tier_3_unlock_minutes in
          db_bind (insert_unlock (rr_target first) rule_ids minutes reason now
              (now + uint minutes * nanos_per_minute)) (\<lambda>unlock.
          db_bind (record_event ''unlock_granted'' (Some (rr_target first))
              (Some (granted_details rule_ids minutes)) now) (\<lambda>_.
            db_return unlock)))"

definition request_unlock ::
  "'u lib \<Rightarrow> evaluation_context \<Rightarrow> string \<Rightarrow> string \<Rightarrow> unlock_state operation" where
  "request_unlock L ctx target reason =
     db_bind (reading (check_unlock_request L ctx target reason))
       (\<lambda>(rules, clean_reason). grant_unlock (now_utc ctx) rules clean_reason)"

end
