(* ===== verification/UnlockLaws.thy ===== *)
theory UnlockLaws imports Unlocks begin

text \<open>
  What a request for an unlock can and cannot do: only enabled, active Tier 3 lists are opened, for
  two minutes, with a fresh reason of twenty letters, and at most one unlock starts in any hour,
  whatever happens between the requests.
\<close>

section \<open>The lists a request opens\<close>

definition unlockable :: "'u lib \<Rightarrow> evaluation_context \<Rightarrow> database \<Rightarrow> string \<Rightarrow> bool" where
  "unlockable L ctx db i \<longleftrightarrow>
     (\<exists>app\<in>set (cfg_app_rules (ec_config ctx)). ac_id app = i \<and> ac_enabled app \<and> ac_tier app = ControlledAccess
        \<and> controlled_app_rule_is_active L ctx db app = Inr True)
     \<or> (\<exists>site\<in>set (cfg_rules (ec_config ctx)). rc_id site = i \<and> rc_enabled site \<and> rc_tier site = ControlledAccess
        \<and> controlled_rule_is_active L ctx db site = Inr True)"

lemma unlockable_app:
  "app \<in> set (cfg_app_rules (ec_config ctx)) \<Longrightarrow> ac_enabled app \<Longrightarrow> ac_tier app = ControlledAccess \<Longrightarrow>
     controlled_app_rule_is_active L ctx db app = Inr True \<Longrightarrow> unlockable L ctx db (ac_id app)"
  unfolding unlockable_def by blast

lemma unlockable_site:
  "rule \<in> set (matching_rules L (ec_config ctx) parsed ControlledAccess) \<Longrightarrow>
     controlled_rule_is_active L ctx db rule = Inr True \<Longrightarrow> unlockable L ctx db (rc_id rule)"
  unfolding unlockable_def matching_rules_iff by blast

lemma unlock_rule_from_app_Inr:
  "unlock_rule_from_app rule target = Inr r \<longleftrightarrow>
     ac_tier rule = ControlledAccess \<and> r = \<lparr>rr_id = ac_id rule, rr_target = target\<rparr>"
  by (auto simp: unlock_rule_from_app_def split: rule_tier.splits)

lemma application_lists_subset:
  "set (application_lists_for_unlock config target) \<subseteq> set (cfg_app_rules config)"
  by (auto simp: application_lists_for_unlock_def Let_def)

lemma eligible_fold:
  assumes "try_fold (eligible_step L ctx target db) rules acc = Inr out"
    and "set rules \<subseteq> set (cfg_app_rules (ec_config ctx))" "\<forall>r\<in>set acc. unlockable L ctx db (rr_id r)"
  shows "\<forall>r\<in>set out. unlockable L ctx db (rr_id r)"
  using assms
proof (induction rules arbitrary: acc)
  case (Cons rule rules)
  from Cons.prems(1) obtain acc' where a: "eligible_step L ctx target db rule acc = Inr acc'"
    "try_fold (eligible_step L ctx target db) rules acc' = Inr out" by (auto simp: and_then_Inr_iff)
  have "acc' = acc \<or> (acc' = acc @ [\<lparr>rr_id = ac_id rule, rr_target = target\<rparr>] \<and> ac_enabled rule
      \<and> ac_tier rule = ControlledAccess \<and> controlled_app_rule_is_active L ctx db rule = Inr True)"
    using a(1) by (auto simp: eligible_step_def and_then_Inr_iff unlock_rule_from_app_Inr split: if_splits)
  then have "\<forall>r\<in>set acc'. unlockable L ctx db (rr_id r)"
    using Cons.prems(2,3) unlockable_app [of rule ctx L db] by auto
  then show ?case using Cons.IH [OF a(2)] Cons.prems(2) by simp
qed simp

lemma try_find_Some: "try_find P xs = Inr (Some x) \<Longrightarrow> x \<in> set xs \<and> P x = Inr True"
  by (induction xs) (auto simp: and_then_Inr_iff split: if_splits)

lemma replace_if_cases: "replace_if better x k c = Some y \<Longrightarrow> y = (x, k) \<or> c = Some y"
  by (auto simp: replace_if_def split: if_splits)

lemma unlock_fold_member:
  assumes "try_fold (unlock_step L ctx db parsed) rules (m, b) = Inr (m', b')"
    and "m' = Some z \<or> b' = Some z"
  shows "m = Some z \<or> b = Some z \<or> (fst z \<in> set rules \<and> controlled_rule_is_active L ctx db (fst z) = Inr True)"
  using assms
proof (induction rules arbitrary: m b)
  case (Cons r rules)
  from Cons.prems(1) obtain m1 b1 where s: "unlock_step L ctx db parsed r (m, b) = Inr (m1, b1)"
    "try_fold (unlock_step L ctx db parsed) rules (m1, b1) = Inr (m', b')"
    by (auto simp: and_then_Inr_iff)
  have "m1 = Some z \<or> b1 = Some z \<Longrightarrow>
      m = Some z \<or> b = Some z \<or> (fst z = r \<and> controlled_rule_is_active L ctx db r = Inr True)"
    using s(1) by (auto simp: unlock_step_def and_then_Inr_iff Let_def split: if_splits dest!: replace_if_cases)
  then show ?case using Cons.IH [OF s(2) Cons.prems(2)] by auto
qed auto

lemma controlled_rule_for_unlock_Some:
  assumes "controlled_rule_for_unlock L ctx parsed db = Inr (Some rule)"
  shows "rule \<in> set (matching_rules L (ec_config ctx) parsed ControlledAccess)
    \<and> controlled_rule_is_active L ctx db rule = Inr True"
proof -
  obtain m b k where f: "try_fold (unlock_step L ctx db parsed)
      (matching_rules L (ec_config ctx) parsed ControlledAccess) (None, None) = Inr (m, b)"
    and z: "or_else b m = Some (rule, k)"
    using assms by (auto simp: controlled_rule_for_unlock_def and_then_Inr_iff)
  have "m = Some (rule, k) \<or> b = Some (rule, k)" using z by (auto simp: or_else_def split: option.splits)
  from unlock_fold_member [OF f this] show ?thesis by simp
qed

lemma resolve_app_target_sound:
  assumes "resolve_app_target L ctx target db = Inr r"
  shows "unlockable L ctx db (rr_id r)"
proof -
  obtain rule where "try_find (\<lambda>rule. if app_rule_target_matches rule target
                      then controlled_app_rule_is_active L ctx db rule else Inr False)
                    (filter (\<lambda>rule. ac_enabled rule \<and> ac_tier rule = ControlledAccess)
                      (cfg_app_rules (ec_config ctx))) = Inr (Some rule)"
    "unlock_rule_from_app rule target = Inr r"
    using assms by (auto simp: resolve_app_target_def and_then_Inr_iff split: option.splits)
  then show ?thesis
    by (auto simp: unlock_rule_from_app_Inr dest!: try_find_Some split: if_splits intro: unlockable_app)
qed

lemma resolve_unlock_rule_sound:
  assumes "resolve_unlock_rule L ctx target db = Inr r"
  shows "unlockable L ctx db (rr_id r)"
proof (cases "application_lists_for_unlock (ec_config ctx) target = []")
  case True
  then obtain site where s: "(case site of Some resolved \<Rightarrow> Inr resolved | None \<Rightarrow> resolve_app_target L ctx target db) = Inr r"
    "(case normalize_unlock_url_target L target of
            None \<Rightarrow> Inr None
          | Some parsed \<Rightarrow>
              (case matching_rules L (ec_config ctx) parsed Hard of
                 rule # _ \<Rightarrow> Inl (ErrUnlock (TargetIsHardBlocked (rc_id rule)))
               | [] \<Rightarrow>
                   (case find (rule_is_active L ctx) (matching_rules L (ec_config ctx) parsed ScheduledBlock) of
                      Some rule \<Rightarrow> Inl (ErrUnlock (TargetIsScheduledBlocked (rc_id rule)))
                    | None \<Rightarrow>
                        and_then (controlled_rule_for_unlock L ctx parsed db) (\<lambda>found.
                          Inr (map_option (\<lambda>rule. \<lparr>rr_id = rc_id rule,
                            rr_target = nu_url_without_fragment parsed\<rparr>) found))))) = Inr site"
    using assms by (auto simp: resolve_unlock_rule_def and_then_Inr_iff)
  show ?thesis
  proof (cases site)
    case None
    then show ?thesis using s(1) resolve_app_target_sound by simp
  next
    case (Some resolved)
    then obtain parsed rule where "controlled_rule_for_unlock L ctx parsed db = Inr (Some rule)" "rr_id r = rc_id rule"
      using s by (auto simp: and_then_Inr_iff split: option.splits list.splits)
    then show ?thesis using controlled_rule_for_unlock_Some unlockable_site by metis
  qed
next
  case False
  then obtain rule where f: "find (\<lambda>rule. ac_enabled rule \<and> (ac_tier rule = Hard \<or> app_rule_is_active L ctx rule))
      (application_lists_for_unlock (ec_config ctx) target) = Some rule" "unlock_rule_from_app rule target = Inr r"
    using assms by (auto simp: resolve_unlock_rule_def split: option.splits)
  then have "rule \<in> set (cfg_app_rules (ec_config ctx))" "ac_enabled rule" "app_rule_is_active L ctx rule"
    "ac_tier rule = ControlledAccess" "rr_id r = ac_id rule"
    using application_lists_subset find_Some_iff_first [OF f(1)] by (auto simp: unlock_rule_from_app_Inr)
  then show ?thesis using unlockable_app [of rule ctx L db] by (simp add: controlled_app_rule_is_active_def)
qed

lemma resolve_unlock_rules_sound:
  assumes "resolve_unlock_rules L ctx target db = Inr rules"
  shows "rules \<noteq> [] \<and> (\<forall>r\<in>set rules. unlockable L ctx db (rr_id r))"
proof -
  obtain eligible where e: "try_fold (eligible_step L ctx target db)
      (application_lists_for_unlock (ec_config ctx) target) [] = Inr eligible"
    using assms by (auto simp: resolve_unlock_rules_def and_then_Inr_iff)
  have sound: "\<forall>r\<in>set eligible. unlockable L ctx db (rr_id r)"
    using eligible_fold [OF e application_lists_subset] by simp
  show ?thesis
  proof (cases "eligible = []")
    case True
    then obtain r where "rules = [r]" "resolve_unlock_rule L ctx target db = Inr r"
      using assms e by (auto simp: resolve_unlock_rules_def and_then_Inr_iff split: option.splits prod.splits)
    then show ?thesis using resolve_unlock_rule_sound by simp
  qed (use assms e sound in \<open>simp add: resolve_unlock_rules_def\<close>)
qed

section \<open>What a grant writes\<close>

definition granted :: "instant \<Rightarrow> resolved_unlock_rule list \<Rightarrow> string \<Rightarrow> database \<Rightarrow> unlock_state" where
  "granted now rules reason db = new_unlock (rr_target (hd rules)) (map rr_id rules) tier_3_unlock_minutes reason now
     (now + 2 * nanos_per_minute) db"

lemma tier_3_minutes [simp]: "uint tier_3_unlock_minutes = 2"
  by (simp add: tier_3_unlock_minutes_def)

lemma grant_unlock_cases:
  assumes "grant_unlock now rules reason db = (r, db')"
  obtains e where "r = Inl e" "db' = db"
  | e where "rules \<noteq> []" "r = Inl e" "db' = unlock_inserted (granted now rules reason db) db"
  | "rules \<noteq> []" "r = Inr (granted now rules reason db)"
    "db' = append_event_log (format_time now) ''unlock_granted'' (Some (rr_target (hd rules)))
        (Some (granted_details (map rr_id rules) tier_3_unlock_minutes))
        (event_added ''unlock_granted'' (Some (rr_target (hd rules)))
          (Some (granted_details (map rr_id rules) tier_3_unlock_minutes)) (format_time now)
          (unlock_inserted (granted now rules reason db) db))"
proof (cases rules)
  case Nil
  then show ?thesis using assms that(1) by (auto simp: grant_unlock_def)
next
  case (Cons first rest)
  let ?ids = "map rr_id rules"
  obtain r0 db0 where i: "insert_unlock (rr_target first) ?ids tier_3_unlock_minutes reason now
      (now + 2 * nanos_per_minute) db = (r0, db0)" by fastforce
  show ?thesis
  proof (cases r0)
    case (Inl e)
    have "db0 = db" using i Inl Cons transaction_rollback by (simp add: insert_unlock_def) blast
    then show ?thesis using assms that(1) i Inl Cons by (auto simp: grant_unlock_def Let_def db_bind_def)
  next
    case (Inr u)
    have u: "u = granted now rules reason db" "db0 = unlock_inserted (granted now rules reason db) db"
      using insert_unlock_Inr [OF i [unfolded Inr]] Cons by (auto simp: granted_def)
    obtain r1 db1 where ev: "record_event ''unlock_granted'' (Some (rr_target first))
        (Some (granted_details ?ids tier_3_unlock_minutes)) now db0 = (r1, db1)" by fastforce
    from ev show ?thesis
    proof (cases rule: record_event_cases)
      case (1 e)
      then show ?thesis using that(2) assms i Inr u ev Cons by (auto simp: grant_unlock_def Let_def db_bind_def)
    next
      case 2
      then show ?thesis using that(3) assms i Inr u ev Cons by (auto simp: grant_unlock_def Let_def db_bind_def)
    qed
  qed
qed

lemma request_unlock_Inr:
  "request_unlock L ctx target reason db = (Inr u, db') \<longleftrightarrow>
     (\<exists>rules clean. check_unlock_request L ctx target reason db = Inr (rules, clean)
        \<and> grant_unlock (now_utc ctx) rules clean db = (Inr u, db'))"
  by (auto simp: request_unlock_def db_bind_def split: sum.splits)

lemma check_unlock_request_Inr:
  "check_unlock_request L ctx target reason db = Inr (rules, clean) \<longleftrightarrow>
     trim target \<noteq> [] \<and> resolve_unlock_rules L ctx (trim target) db = Inr rules
     \<and> clean = clean_unlock_reason reason \<and> clean \<noteq> []
     \<and> min_unlock_reason_letters \<le> length (filter is_alphabetic clean)
     \<and> (\<exists>existing. unlock_reasons db = Inr existing
          \<and> (\<forall>e\<in>set existing. normalize_unlock_reason e \<noteq> normalize_unlock_reason clean))
     \<and> try_for rules (no_unlock_active (now_utc ctx) db) = Inr ()
     \<and> (\<exists>n. count_unlocks_since (now_utc ctx - one_hour) db = Inr n \<and> \<not> n \<ge> global_unlocks_per_hour)"
  by (auto simp: check_unlock_request_def Let_def and_then_Inr_iff list_ex_iff)

section \<open>The quota\<close>

lemma minutes_u32_zero: "\<not> minutes_u32 (int k) \<ge> global_unlocks_per_hour \<Longrightarrow> k = 0"
proof -
  assume a: "\<not> minutes_u32 (int k) \<ge> global_unlocks_per_hour"
  then have z: "minutes_u32 (int k) = 0" by (simp add: global_unlocks_per_hour_def not_le word_less_1)
  show "k = 0"
  proof (cases "int k < 4294967296")
    case True
    then have "uint (of_int (int k) :: u32) = int k" by (simp add: unsigned_of_nat take_bit_nat_eq_self)
    then show ?thesis using z True by (simp add: minutes_u32_def)
  qed (use z in \<open>simp add: minutes_u32_def\<close>)
qed

lemma quota_open:
  assumes "count_unlocks_since since db = Inr n" "\<not> n \<ge> global_unlocks_per_hour" "u \<in> set (db_unlocks db)"
  shows "ul_started_at u < format_time since"
proof -
  have "n = minutes_u32 (int (count_since since db))" using assms(1) by (simp add: count_unlocks_since_def query_Inr)
  then have "count_since since db = 0" using minutes_u32_zero assms(2) by blast
  then have "\<not> format_time since \<le> ul_started_at u"
    using assms(3) unfolding count_since_def by (simp add: filter_empty_conv)
  then show ?thesis by simp
qed

lemma format_time_hour: "format_time (t - one_hour) = format_time t - 3600000000"
  by (simp add: format_time_def one_hour_def nanos_per_minute_def)

definition starts_spaced :: "unlock_row list \<Rightarrow> bool" where
  "starts_spaced = sorted_wrt (\<lambda>a b. ul_started_at a + 3600000000 < ul_started_at b)"

lemma unlock_inserted_unlocks [simp]:
  "db_unlocks (unlock_inserted u db) = db_unlocks db @ [unlock_row_of (us_id u) u]"
  by (simp add: unlock_inserted_def)

lemma event_added_frame [frame, simp]:
  "db_unlocks (append_event_log t k g d db) = db_unlocks db"
  "db_unlock_targets (append_event_log t k g d db) = db_unlock_targets db"
  "db_unlocks (event_added k g d t db) = db_unlocks db"
  "db_unlock_targets (event_added k g d t db) = db_unlock_targets db"
  by (auto simp: append_event_log_def event_added_def bump_rowid_def split: option.splits)

text \<open>A request leaves the unlocks alone or adds one that starts now, more than an hour after every other.\<close>

lemma request_unlock_unlocks:
  assumes "request_unlock L ctx target reason db = (r, db')"
  shows "db_unlocks db' = db_unlocks db
    \<or> (\<exists>row. db_unlocks db' = db_unlocks db @ [row] \<and> ul_started_at row = format_time (now_utc ctx)
         \<and> (\<forall>old\<in>set (db_unlocks db). ul_started_at old + 3600000000 < ul_started_at row
              \<and> normalize_unlock_reason (ul_reason old) \<noteq> normalize_unlock_reason (ul_reason row)))"
proof (cases "check_unlock_request L ctx target reason db")
  case (Inl e)
  then show ?thesis using assms by (simp add: request_unlock_def db_bind_def)
next
  case (Inr out)
  obtain rules clean where out: "out = (rules, clean)" by (cases out)
  obtain n where n: "count_unlocks_since (now_utc ctx - one_hour) db = Inr n" "\<not> n \<ge> global_unlocks_per_hour"
    using Inr out check_unlock_request_Inr by blast
  have old: "ul_started_at old + 3600000000 < format_time (now_utc ctx)" if "old \<in> set (db_unlocks db)" for old
    using quota_open [OF n that] by (simp add: format_time_hour)
  have fresh: "normalize_unlock_reason (ul_reason old) \<noteq> normalize_unlock_reason clean"
    if "old \<in> set (db_unlocks db)" for old
    using Inr that unfolding out check_unlock_request_Inr by (auto simp: unlock_reasons_def query_Inr)
  have st: "ul_started_at (unlock_row_of i (granted (now_utc ctx) rules clean db)) = format_time (now_utc ctx)"
    "ul_reason (unlock_row_of i (granted (now_utc ctx) rules clean db)) = clean" for i
    by (simp_all add: unlock_row_of_def granted_def new_unlock_def)
  have "grant_unlock (now_utc ctx) rules clean db = (r, db')"
    using assms Inr out by (simp add: request_unlock_def db_bind_def)
  then show ?thesis by (cases rule: grant_unlock_cases) (auto simp: st old fresh)
qed

text \<open>
  A history of the database: requests for unlocks, with any policy, moment and clock, and between them
  anything that leaves the rows of the unlocks alone, as every other operation does.
\<close>

inductive unlock_history :: "'u lib \<Rightarrow> database \<Rightarrow> bool" for L where
  start: "db_unlocks db = [] \<Longrightarrow> unlock_history L db"
| request: "unlock_history L db \<Longrightarrow> request_unlock L ctx target reason db = (r, db') \<Longrightarrow> unlock_history L db'"
| other: "unlock_history L db \<Longrightarrow> db_unlocks db' = db_unlocks db \<Longrightarrow> unlock_history L db'"

lemma starts_spaced_append:
  "starts_spaced (rows @ [row]) \<longleftrightarrow>
     starts_spaced rows \<and> (\<forall>old\<in>set rows. ul_started_at old + 3600000000 < ul_started_at row)"
  by (auto simp: starts_spaced_def sorted_wrt_append)

lemma history_spaced:
  "unlock_history L db \<Longrightarrow>
     starts_spaced (db_unlocks db) \<and> distinct (map (normalize_unlock_reason \<circ> ul_reason) (db_unlocks db))"
proof (induction rule: unlock_history.induct)
  case (request db ctx target reason r db')
  from request_unlock_unlocks [OF request.hyps(2)] show ?case
  proof (elim disjE exE conjE)
    fix row
    assume row: "db_unlocks db' = db_unlocks db @ [row]"
      "\<forall>old\<in>set (db_unlocks db). ul_started_at old + 3600000000 < ul_started_at row
          \<and> normalize_unlock_reason (ul_reason old) \<noteq> normalize_unlock_reason (ul_reason row)"
    then have "normalize_unlock_reason (ul_reason row)
        \<notin> (normalize_unlock_reason \<circ> ul_reason) ` set (db_unlocks db)" by fastforce
    then show ?thesis using row request.IH by (simp add: starts_spaced_append)
  qed (use request.IH in simp)
qed (simp_all add: starts_spaced_def)

lemma spaced_window:
  "starts_spaced rows \<Longrightarrow> length (filter (\<lambda>u. t \<le> ul_started_at u \<and> ul_started_at u \<le> t + 3600000000) rows) \<le> 1"
proof (induction rows)
  case (Cons u rows)
  show ?case
  proof (cases "t \<le> ul_started_at u \<and> ul_started_at u \<le> t + 3600000000")
    case True
    then have "filter (\<lambda>u. t \<le> ul_started_at u \<and> ul_started_at u \<le> t + 3600000000) rows = []"
      using Cons.prems by (auto simp: starts_spaced_def filter_empty_conv)
    then show ?thesis using True by simp
  qed (use Cons in \<open>auto simp: starts_spaced_def\<close>)
qed simp

section \<open>Properties\<close>

text \<open>
  C35. A granted unlock is for Tier 3 only: every list it opens is enabled, of Tier 3 and active now,
  none of them has an unlock in force already, its reason has at least twenty letters and differs from
  every reason given before up to white space and case, and it lasts exactly two minutes from now.
\<close>

theorem unlock_opens_only_active_tier_3:
  assumes "request_unlock L ctx target reason db = (Inr u, db')"
  shows "us_rule_ids u \<noteq> [] \<and> us_rule_id u = hd (us_rule_ids u)
    \<and> (\<forall>i\<in>set (us_rule_ids u). unlockable L ctx db i \<and> active_unlock_for_rule i (now_utc ctx) db = Inr None)
    \<and> us_started_at u = now_utc ctx \<and> us_expires_at u = now_utc ctx + 2 * nanos_per_minute
    \<and> us_reason u = clean_unlock_reason reason \<and> 20 \<le> length (filter is_alphabetic (us_reason u))
    \<and> (\<forall>old\<in>set (db_unlocks db). normalize_unlock_reason (ul_reason old) \<noteq> normalize_unlock_reason (us_reason u))"
proof -
  obtain rules clean where c: "check_unlock_request L ctx target reason db = Inr (rules, clean)"
    and g: "grant_unlock (now_utc ctx) rules clean db = (Inr u, db')"
    using assms request_unlock_Inr by blast
  have u: "u = granted (now_utc ctx) rules clean db" "rules \<noteq> []"
    using g by (cases rule: grant_unlock_cases; simp)+
  have r: "\<forall>r\<in>set rules. unlockable L ctx db (rr_id r)"
    using c resolve_unlock_rules_sound unfolding check_unlock_request_Inr by blast
  have "try_for rules (no_unlock_active (now_utc ctx) db) = Inr ()" using c check_unlock_request_Inr by blast
  then have a: "\<forall>r\<in>set rules. active_unlock_for_rule (rr_id r) (now_utc ctx) db = Inr None"
    by (auto simp: try_for_Inr_iff no_unlock_active_def and_then_Inr_iff split: option.splits)
  have "us_rule_ids u = map rr_id rules" "us_rule_id u = hd (map rr_id rules)" "us_started_at u = now_utc ctx"
    "us_expires_at u = now_utc ctx + 2 * nanos_per_minute" "us_reason u = clean"
    by (simp_all add: u granted_def new_unlock_def)
  moreover have "clean = clean_unlock_reason reason" "20 \<le> length (filter is_alphabetic clean)"
    "\<forall>old\<in>set (db_unlocks db). normalize_unlock_reason (ul_reason old) \<noteq> normalize_unlock_reason clean"
    using c unfolding check_unlock_request_Inr
    by (auto simp: min_unlock_reason_letters_def unlock_reasons_def query_Inr)
  ultimately show ?thesis using u(2) r a by simp
qed

definition a_reason :: string where
  "a_reason = ''finishing the level before lunch''"

definition games_unlocked :: database where
  "games_unlocked = snd (request_unlock sample_lib (tuesday False) ''games'' a_reason empty_database)"

theorem unlock_opens_only_active_tier_3_witness:
  "\<exists>u. fst (request_unlock sample_lib (tuesday False) ''games'' a_reason empty_database) = Inr u
     \<and> us_rule_ids u \<noteq> [] \<and> 20 \<le> length (filter is_alphabetic (us_reason u))"
proof -
  have n: "\<not> isl (fst (request_unlock sample_lib (tuesday False) ''games'' a_reason empty_database))" by code_simp
  obtain r db' where r: "request_unlock sample_lib (tuesday False) ''games'' a_reason empty_database = (r, db')"
    by fastforce
  then obtain u where u: "r = Inr u" using n by (cases r) auto
  show ?thesis using unlock_opens_only_active_tier_3 [OF r [unfolded u]] r u by auto
qed

text \<open>
  C34. The hourly quota: after any history of requests, interleaved with anything else the program does
  and with the clock running in any direction, no span of one hour contains the starts of two unlocks,
  not even one with both its ends counted.
\<close>

theorem one_unlock_per_hour:
  assumes "unlock_history L db"
  shows "length (filter (\<lambda>u. t \<le> ul_started_at u \<and> ul_started_at u \<le> t + 3600000000) (db_unlocks db)) \<le> 1"
  using history_spaced [OF assms] spaced_window by blast

theorem one_unlock_per_hour_witness:
  "map ul_started_at (db_unlocks games_unlocked) = [format_time tuesday_eight]
   \<and> length (filter (\<lambda>u. 0 \<le> ul_started_at u \<and> ul_started_at u \<le> 0 + 3600000000) (db_unlocks games_unlocked)) \<le> 1"
proof
  show "map ul_started_at (db_unlocks games_unlocked) = [format_time tuesday_eight]" by code_simp
  have "unlock_history sample_lib empty_database" by (rule start) (simp add: empty_database_def)
  moreover obtain r where "request_unlock sample_lib (tuesday False) ''games'' a_reason empty_database = (r, games_unlocked)"
    unfolding games_unlocked_def by (metis prod.collapse)
  ultimately have "unlock_history sample_lib games_unlocked" by (rule request)
  then show "length (filter (\<lambda>u. 0 \<le> ul_started_at u \<and> ul_started_at u \<le> 0 + 3600000000) (db_unlocks games_unlocked)) \<le> 1"
    by (rule one_unlock_per_hour)
qed

text \<open>
  A reason serves once: along any such history no two unlocks have reasons that agree up to white
  space and case, so a request that repeats one is refused and writes nothing.
\<close>

lemma reasons_serve_once:
  assumes "unlock_history L db"
  shows "distinct (map (normalize_unlock_reason \<circ> ul_reason) (db_unlocks db))
    \<and> (\<forall>old\<in>set (db_unlocks db). normalize_unlock_reason (ul_reason old) = normalize_unlock_reason (clean_unlock_reason reason)
         \<longrightarrow> (\<exists>e. request_unlock L ctx target reason db = (Inl e, db)))"
proof (intro conjI ballI impI)
  show "distinct (map (normalize_unlock_reason \<circ> ul_reason) (db_unlocks db))" using history_spaced [OF assms] by simp
  fix old
  assume old: "old \<in> set (db_unlocks db)"
    "normalize_unlock_reason (ul_reason old) = normalize_unlock_reason (clean_unlock_reason reason)"
  have "check_unlock_request L ctx target reason db \<noteq> Inr (rules, clean)" for rules clean
    unfolding check_unlock_request_Inr using old by (auto simp: unlock_reasons_def query_Inr)
  then obtain e where "check_unlock_request L ctx target reason db = Inl e"
    by (cases "check_unlock_request L ctx target reason db") auto
  then show "\<exists>e. request_unlock L ctx target reason db = (Inl e, db)" by (simp add: request_unlock_def db_bind_def)
qed

definition same_reason :: string where
  "same_reason = ''Finishing  the level before LUNCH ''"

lemma reasons_serve_once_witness:
  "\<exists>e. request_unlock sample_lib (tuesday False) ''games'' same_reason games_unlocked = (Inl e, games_unlocked)"
proof -
  have "unlock_history sample_lib empty_database" by (rule start) (simp add: empty_database_def)
  moreover obtain r where "request_unlock sample_lib (tuesday False) ''games'' a_reason empty_database = (r, games_unlocked)"
    unfolding games_unlocked_def by (metis prod.collapse)
  ultimately have h: "unlock_history sample_lib games_unlocked" by (rule request)
  have "list_ex (\<lambda>old. normalize_unlock_reason (ul_reason old) = normalize_unlock_reason (clean_unlock_reason same_reason))
      (db_unlocks games_unlocked)" by code_simp
  then show ?thesis using reasons_serve_once [OF h, of same_reason "tuesday False" "''games''"]
    by (auto simp: list_ex_iff)
qed

section \<open>What an unlock does to decisions\<close>

lemma granted_unlocks_frame:
  "db_unlocks db' = db_unlocks db \<Longrightarrow> db_unlock_targets db' = db_unlock_targets db \<Longrightarrow>
     granted_unlocks r now db' = granted_unlocks r now db"
  by (simp add: granted_unlocks_def)

lemma unlocks_ok_frame:
  "db_unlocks db' = db_unlocks db \<Longrightarrow> db_unlock_targets db' = db_unlock_targets db \<Longrightarrow>
     db_seq db' UnlockIds = db_seq db UnlockIds \<Longrightarrow> unlocks_ok db' = unlocks_ok db"
  by (simp add: unlocks_ok_def)

lemma event_added_seq [simp]: "db_seq (event_added k g d t db) UnlockIds = db_seq db UnlockIds"
  "db_fault (event_added k g d t db) = db_fault db"
  by (simp_all add: event_added_def bump_rowid_def)

text \<open>
  A granted unlock opens its lists and no others, and only until it expires: with the clock
  honest, a list it names is decided \<open>Allow\<close> at every moment before the (microsecond of the) expiry,
  whatever its allowance, and at every moment after the expiry a list is open by an unlock exactly if
  it was before the request.
\<close>

lemma granted_unlock_opens_until_expiry:
  assumes "no_faults db" "unlocks_ok db" "request_unlock L ctx target reason db = (Inr u, db')"
    and "\<not> ec_clock_tampered later"
  shows "unlocks_ok db'
    \<and> (rc_id rule \<in> set (us_rule_ids u) \<and> now_utc later < trunc (us_expires_at u)
         \<longrightarrow> evaluate_controlled_rule L later db' rule = Allow)
    \<and> (ac_id app \<in> set (us_rule_ids u) \<and> now_utc later < trunc (us_expires_at u)
         \<longrightarrow> evaluate_controlled_app_rule L later db' app = Allow)
    \<and> (i \<notin> set (us_rule_ids u) \<or> trunc (us_expires_at u) \<le> now_utc later
         \<longrightarrow> open_by_unlock later db' i = open_by_unlock later db i)"
proof -
  obtain rules clean where g: "grant_unlock (now_utc ctx) rules clean db = (Inr u, db')"
    using assms(3) request_unlock_Inr by blast
  let ?u = "granted (now_utc ctx) rules clean db"
  have u: "u = ?u" and f: "db_unlocks db' = db_unlocks (unlock_inserted ?u db)"
    "db_unlock_targets db' = db_unlock_targets (unlock_inserted ?u db)" "db_fault db' = db_fault db"
    "db_seq db' UnlockIds = db_seq (unlock_inserted ?u db) UnlockIds"
    using g by (cases rule: grant_unlock_cases; simp add: unlock_inserted_def bump_rowid_def)+
  have new: "us_id ?u = next_rowid UnlockIds db" by (simp add: granted_def new_unlock_def)
  have nf: "no_faults db'" using assms(1) f(3) by (simp add: no_faults_def)
  have gr: "set (granted_unlocks k t db') = set (granted_unlocks k t db) \<union>
      (if k \<in> set (us_rule_ids u) \<and> t < trunc (us_expires_at u) then {unlock_row_of (us_id u) u} else {})" for k t
    using granted_unlocks_inserted [OF assms(2) new] granted_unlocks_frame [OF f(1,2)] u by simp
  have open_iff: "open_by_unlock later d k \<longleftrightarrow> granted_unlocks k (now_utc later) d \<noteq> []" if "no_faults d" for d k
    unfolding open_by_unlock_def using active_unlock_Some [OF that] by blast
  have opened: "open_by_unlock later db' k" if "k \<in> set (us_rule_ids u)" "now_utc later < trunc (us_expires_at u)" for k
  proof -
    have "set (granted_unlocks k (now_utc later) db') \<noteq> {}" using gr that by simp
    then show ?thesis using open_iff [OF nf] by fastforce
  qed
  have "open_by_unlock later db' i = open_by_unlock later db i"
    if "i \<notin> set (us_rule_ids u) \<or> trunc (us_expires_at u) \<le> now_utc later"
  proof -
    have "set (granted_unlocks i (now_utc later) db') = set (granted_unlocks i (now_utc later) db)"
      using gr that by auto
    then show ?thesis using open_iff [OF nf] open_iff [OF assms(1)] by (metis set_empty)
  qed
  moreover have "unlocks_ok db'"
    using unlock_inserted_ok [OF assms(2) new] unlocks_ok_frame [OF f(1,2,4)] by simp
  ultimately show ?thesis using opened assms(4)
    by (auto simp: evaluate_controlled_rule_Allow evaluate_controlled_app_rule_Allow site_list_open_def app_list_open_def)
qed

lemma granted_unlock_opens_until_expiry_witness:
  "evaluate_controlled_app_rule sample_lib (tuesday False) games_unlocked
     (app_list ''games'' ControlledAccess ''game'' [''night''] None) = Allow"
proof -
  obtain r where r: "request_unlock sample_lib (tuesday False) ''games'' a_reason empty_database = (r, games_unlocked)"
    unfolding games_unlocked_def by (metis prod.collapse)
  have n: "(case fst (request_unlock sample_lib (tuesday False) ''games'' a_reason empty_database) of
      Inl _ \<Rightarrow> False | Inr u \<Rightarrow> us_rule_ids u = [''games''] \<and> now_utc (tuesday False) < trunc (us_expires_at u))"
    by code_simp
  then obtain u where u: "r = Inr u" "us_rule_ids u = [''games'']" "now_utc (tuesday False) < trunc (us_expires_at u)"
    using r by (cases r) auto
  have "\<not> ec_clock_tampered (tuesday False)" by (simp add: tuesday_def)
  from granted_unlock_opens_until_expiry [OF empty_database_no_faults empty_unlocks_ok r [unfolded u(1)] this,
      of undefined "app_list ''games'' ControlledAccess ''game'' [''night''] None"] u
  show ?thesis by (simp add: app_list_def)
qed

definition broken_events :: database where
  "broken_events = empty_database\<lparr>db_fault := (\<lambda>tag. if tag = ''events.insert'' then Some NoRow else None)\<rparr>"

text \<open>
  A refused request changes nothing, but one: when the unlock is stored and its event cannot be
  recorded the request reports an error and the unlock is in force all the same, since the two writes
  are two transactions.
\<close>

lemma failed_request_can_leave_an_unlock:
  "(request_unlock L ctx target reason db = (Inl e, db') \<longrightarrow>
      db' = db \<or> (\<exists>rules clean. check_unlock_request L ctx target reason db = Inr (rules, clean)
         \<and> db' = unlock_inserted (granted (now_utc ctx) rules clean db) db))
   \<and> fst (request_unlock sample_lib (tuesday False) ''games'' a_reason broken_events) = Inl (ErrDatabase NoRow)
   \<and> evaluate_app sample_lib (tuesday False) (process_named ''game'') broken_events \<noteq> Allow
   \<and> evaluate_app sample_lib (tuesday False) (process_named ''game'')
       (snd (request_unlock sample_lib (tuesday False) ''games'' a_reason broken_events)) = Allow"
proof (intro conjI impI)
  assume r: "request_unlock L ctx target reason db = (Inl e, db')"
  show "db' = db \<or> (\<exists>rules clean. check_unlock_request L ctx target reason db = Inr (rules, clean)
         \<and> db' = unlock_inserted (granted (now_utc ctx) rules clean db) db)"
  proof (cases "check_unlock_request L ctx target reason db")
    case (Inr out)
    obtain rules clean where out: "out = (rules, clean)" by (cases out)
    have "grant_unlock (now_utc ctx) rules clean db = (Inl e, db')"
      using r Inr out by (simp add: request_unlock_def db_bind_def)
    then show ?thesis using Inr out by (cases rule: grant_unlock_cases) auto
  qed (use r in \<open>simp add: request_unlock_def db_bind_def\<close>)
qed code_simp+

lemma failed_request_can_leave_an_unlock_witness:
  "\<exists>db'. request_unlock sample_lib (tuesday False) [] a_reason empty_database = (Inl (ErrUnlock EmptyTarget), db')
     \<and> db' = empty_database"
proof -
  have c: "check_unlock_request sample_lib (tuesday False) [] a_reason empty_database = Inl (ErrUnlock EmptyTarget)"
    by code_simp
  obtain r db' where rdb: "request_unlock sample_lib (tuesday False) [] a_reason empty_database = (r, db')" by fastforce
  then have r: "r = Inl (ErrUnlock EmptyTarget)" using c by (simp add: request_unlock_def db_bind_def)
  have "db' = empty_database"
    using failed_request_can_leave_an_unlock [of sample_lib "tuesday False" "[]" a_reason empty_database] rdb r c
    by (metis sum.distinct(1))
  then show ?thesis using rdb r by blast
qed

end
