(* ===== verification/PolicyStore.thy ===== *)
theory PolicyStore imports Sessions begin

text \<open>
  The policy in the database (\<^verbatim>\<open>focus-core/src/db.rs\<close>): the texts the enumerations are stored as,
  \<open>replace_policy_config\<close>, which empties and refills the policy tables in one transaction, and
  \<open>load_policy_config\<close>, which reads and validates them. The statements of the transaction are related
  to a pure function on the tables, of which the round trip is proved.
\<close>

section \<open>Texts of the enumerations\<close>

fun rule_tier_to_str :: "rule_tier \<Rightarrow> string" where
  "rule_tier_to_str Hard = ''hard''"
| "rule_tier_to_str ScheduledBlock = ''scheduled_block''"
| "rule_tier_to_str ControlledAccess = ''controlled_access''"

definition rule_tier_from_str :: "string \<Rightarrow> validation_error + rule_tier" where
  "rule_tier_from_str value =
     (if value = ''hard'' then Inr Hard
      else if value = ''scheduled_block'' then Inr ScheduledBlock
      else if value = ''controlled_access'' then Inr ControlledAccess
      else Inl (UnknownTier value))"

fun list_mode_to_str :: "list_mode \<Rightarrow> string" where
  "list_mode_to_str Blocklist = ''blocklist''"
| "list_mode_to_str Allowlist = ''allowlist''"

definition list_mode_from_str :: "string \<Rightarrow> validation_error + list_mode" where
  "list_mode_from_str value =
     (if value = ''blocklist'' then Inr Blocklist
      else if value = ''allowlist'' then Inr Allowlist
      else Inl (UnknownMode value))"

fun pattern_kind_to_str :: "rule_pattern_kind \<Rightarrow> string" where
  "pattern_kind_to_str Domain = ''domain''"
| "pattern_kind_to_str ExactUrl = ''exact_url''"
| "pattern_kind_to_str UrlPrefix = ''url_prefix''"
| "pattern_kind_to_str UrlContains = ''url_contains''"
| "pattern_kind_to_str PathPrefix = ''path_prefix''"

definition pattern_kind_from_str :: "string \<Rightarrow> validation_error + rule_pattern_kind" where
  "pattern_kind_from_str value =
     (if value = ''domain'' then Inr Domain
      else if value = ''exact_url'' then Inr ExactUrl
      else if value = ''url_prefix'' then Inr UrlPrefix
      else if value = ''url_contains'' then Inr UrlContains
      else if value = ''path_prefix'' then Inr PathPrefix
      else Inl (UnknownPatternKind value))"

fun app_matcher_kind_to_str :: "app_matcher_kind \<Rightarrow> string" where
  "app_matcher_kind_to_str ExecutablePath = ''executable_path''"
| "app_matcher_kind_to_str ExecutableBasename = ''executable_basename''"
| "app_matcher_kind_to_str CommandName = ''command_name''"
| "app_matcher_kind_to_str DesktopId = ''desktop_id''"
| "app_matcher_kind_to_str WindowTitleExact = ''window_title_exact''"
| "app_matcher_kind_to_str WindowTitleContains = ''window_title_contains''"

definition app_matcher_kind_from_str :: "string \<Rightarrow> validation_error + app_matcher_kind" where
  "app_matcher_kind_from_str value =
     (if value = ''executable_path'' then Inr ExecutablePath
      else if value = ''executable_basename'' then Inr ExecutableBasename
      else if value = ''command_name'' then Inr CommandName
      else if value = ''desktop_id'' then Inr DesktopId
      else if value = ''window_title_exact'' then Inr WindowTitleExact
      else if value = ''window_title_contains'' then Inr WindowTitleContains
      else Inl (UnknownMatcherKind value))"

fun schedule_day_to_str :: "schedule_day \<Rightarrow> string" where
  "schedule_day_to_str Everyday = ''everyday''"
| "schedule_day_to_str Workdays = ''workdays''"
| "schedule_day_to_str Weekend = ''weekend''"
| "schedule_day_to_str OnMon = ''mon''"
| "schedule_day_to_str OnTue = ''tue''"
| "schedule_day_to_str OnWed = ''wed''"
| "schedule_day_to_str OnThu = ''thu''"
| "schedule_day_to_str OnFri = ''fri''"
| "schedule_day_to_str OnSat = ''sat''"
| "schedule_day_to_str OnSun = ''sun''"

definition schedule_day_from_str :: "string \<Rightarrow> validation_error + schedule_day" where
  "schedule_day_from_str value =
     (if value = ''everyday'' then Inr Everyday
      else if value = ''workdays'' then Inr Workdays
      else if value = ''weekend'' then Inr Weekend
      else if value = ''mon'' then Inr OnMon
      else if value = ''tue'' then Inr OnTue
      else if value = ''wed'' then Inr OnWed
      else if value = ''thu'' then Inr OnThu
      else if value = ''fri'' then Inr OnFri
      else if value = ''sat'' then Inr OnSat
      else if value = ''sun'' then Inr OnSun
      else Inl (UnknownScheduleDay value))"

definition bool_to_i64 :: "bool \<Rightarrow> int" where
  "bool_to_i64 b = (if b then 1 else 0)"

definition to_u32 :: "string \<Rightarrow> int \<Rightarrow> validation_error + u32" where
  "to_u32 label value =
     (if 0 \<le> value \<and> value < 4294967296 then Inr (of_int value) else Inl (OutOfRange label value))"

section \<open>Replacing the policy\<close>

text \<open>A statement on the policy tables.\<close>

definition policy_stmt :: "string \<Rightarrow> (policy_tables \<Rightarrow> db_error + policy_tables) \<Rightarrow> unit operation" where
  "policy_stmt tag f = exec tag (\<lambda>db. and_then (f (db_policy db)) (\<lambda>T. Inr ((), db\<lparr>db_policy := T\<rparr>)))"

definition delete_policy :: "policy_tables \<Rightarrow> db_error + policy_tables" where
  "delete_policy T = Inr (T\<lparr>pt_site_schedules := [], pt_site_patterns := [], pt_site_lists := [],
     pt_app_schedules := [], pt_app_matchers := [], pt_app_rules := [], pt_windows := [], pt_schedules := [],
     pt_allowances := [], pt_defaults := None, pt_strict_mode := None\<rparr>)"

definition insert_defaults :: "policy_tables \<Rightarrow> db_error + policy_tables" where
  "insert_defaults T =
     (if pt_defaults T \<noteq> None then Inl (ConstraintViolated ''policy_defaults.key'')
      else Inr (T\<lparr>pt_defaults := Some (2, 0, 1)\<rparr>))"

definition strict_mode_row_of :: "strict_mode_config \<Rightarrow> strict_mode_row" where
  "strict_mode_row_of sm =
     \<lparr>smr_require_firefox_extension = bool_to_i64 (sm_require_firefox_extension sm),
      smr_require_chrome_extension = bool_to_i64 (sm_require_chrome_extension sm),
      smr_kill_supported_browser_if_extension_stale =
        bool_to_i64 (sm_kill_supported_browser_if_extension_stale sm),
      smr_block_unsupported_browsers = bool_to_i64 (sm_block_unsupported_browsers sm),
      smr_grace_seconds = uint (sm_grace_seconds sm)\<rparr>"

definition insert_strict_mode :: "strict_mode_config \<Rightarrow> policy_tables \<Rightarrow> db_error + policy_tables" where
  "insert_strict_mode sm T =
     (if pt_strict_mode T \<noteq> None then Inl (ConstraintViolated ''policy_strict_mode.key'')
      else if \<not> uint (sm_grace_seconds sm) > 0 then Inl (ConstraintViolated ''grace_seconds'')
      else Inr (T\<lparr>pt_strict_mode := Some (strict_mode_row_of sm)\<rparr>))"

definition allowance_row_of :: "allowance_config \<Rightarrow> allowance_row" where
  "allowance_row_of a = \<lparr>alr_id = al_id a, alr_name = al_name a, alr_daily_minutes = uint (al_daily_minutes a)\<rparr>"

definition insert_allowance :: "allowance_config \<Rightarrow> policy_tables \<Rightarrow> db_error + policy_tables" where
  "insert_allowance a T =
     (if al_id a \<in> alr_id ` set (pt_allowances T) then Inl (ConstraintViolated ''policy_allowances.id'')
      else Inr (T\<lparr>pt_allowances := pt_allowances T @ [allowance_row_of a]\<rparr>))"

definition insert_schedule :: "schedule_config \<Rightarrow> policy_tables \<Rightarrow> db_error + policy_tables" where
  "insert_schedule s T =
     (if sc_id s \<in> scr_id ` set (pt_schedules T) then Inl (ConstraintViolated ''policy_schedules.id'')
      else Inr (T\<lparr>pt_schedules := pt_schedules T @ [\<lparr>scr_id = sc_id s, scr_name = sc_name s\<rparr>]\<rparr>))"

definition window_row_of :: "string \<Rightarrow> nat \<times> schedule_window \<Rightarrow> window_row" where
  "window_row_of schedule_id entry =
     \<lparr>wr_schedule_id = schedule_id, wr_weekday = schedule_day_to_str (sw_weekday (snd entry)),
      wr_start_time = tod_to_string (sw_start (snd entry)), wr_end_time = tod_to_string (sw_end (snd entry)),
      wr_position = fst entry\<rparr>"

definition insert_window :: "string \<Rightarrow> nat \<times> schedule_window \<Rightarrow> policy_tables \<Rightarrow> db_error + policy_tables" where
  "insert_window schedule_id entry T =
     (if schedule_id \<notin> scr_id ` set (pt_schedules T) then Inl (ConstraintViolated ''schedule_id'')
      else Inr (T\<lparr>pt_windows := pt_windows T @ [window_row_of schedule_id entry]\<rparr>))"

definition site_list_row_of :: "rule_config \<Rightarrow> list_row" where
  "site_list_row_of r = \<lparr>lr_id = rc_id r, lr_name = rc_name r, lr_tier = rule_tier_to_str (rc_tier r),
     lr_enabled = bool_to_i64 (rc_enabled r), lr_mode = list_mode_to_str (rc_mode r),
     lr_allowance_id = rc_allowance_id r\<rparr>"

definition app_list_row_of :: "app_rule_config \<Rightarrow> list_row" where
  "app_list_row_of r = \<lparr>lr_id = ac_id r, lr_name = ac_name r, lr_tier = rule_tier_to_str (ac_tier r),
     lr_enabled = bool_to_i64 (ac_enabled r), lr_mode = list_mode_to_str (ac_mode r),
     lr_allowance_id = ac_allowance_id r\<rparr>"

text \<open>The key of a list table and its reference to the allowances.\<close>

definition add_list_row :: "policy_tables \<Rightarrow> list_row \<Rightarrow> list_row list \<Rightarrow> db_error + list_row list" where
  "add_list_row T row rows =
     (if lr_id row \<in> lr_id ` set rows then Inl (ConstraintViolated ''id'')
      else (case lr_allowance_id row of
              None \<Rightarrow> Inr (rows @ [row])
            | Some a \<Rightarrow> if a \<in> alr_id ` set (pt_allowances T) then Inr (rows @ [row])
                        else Inl (ConstraintViolated ''allowance_id'')))"

text \<open>An attachment is unique and refers to a schedule that exists.\<close>

definition add_attachment ::
  "policy_tables \<Rightarrow> string \<Rightarrow> nat \<times> string \<Rightarrow> attachment_row list \<Rightarrow> db_error + attachment_row list" where
  "add_attachment T list_id entry rows =
     (if \<exists>row\<in>set rows. ar_list_id row = list_id \<and> ar_schedule_id row = snd entry
      then Inl (ConstraintViolated ''list_id, schedule_id'')
      else if snd entry \<notin> scr_id ` set (pt_schedules T) then Inl (ConstraintViolated ''schedule_id'')
      else Inr (rows @ [\<lparr>ar_list_id = list_id, ar_schedule_id = snd entry, ar_position = fst entry\<rparr>]))"

definition insert_site_list :: "rule_config \<Rightarrow> policy_tables \<Rightarrow> db_error + policy_tables" where
  "insert_site_list r T =
     and_then (add_list_row T (site_list_row_of r) (pt_site_lists T)) (\<lambda>rows. Inr (T\<lparr>pt_site_lists := rows\<rparr>))"

definition insert_site_pattern ::
  "string \<Rightarrow> nat \<times> rule_pattern_config \<Rightarrow> policy_tables \<Rightarrow> db_error + policy_tables" where
  "insert_site_pattern list_id entry T = Inr (T\<lparr>pt_site_patterns := pt_site_patterns T @
     [\<lparr>er_list_id = list_id, er_kind = pattern_kind_to_str (rp_kind (snd entry)), er_value = rp_value (snd entry),
       er_match_subdomains = bool_to_i64 (rp_match_subdomains (snd entry)), er_position = fst entry\<rparr>]\<rparr>)"

definition insert_site_schedule :: "string \<Rightarrow> nat \<times> string \<Rightarrow> policy_tables \<Rightarrow> db_error + policy_tables" where
  "insert_site_schedule list_id entry T =
     and_then (add_attachment T list_id entry (pt_site_schedules T)) (\<lambda>rows. Inr (T\<lparr>pt_site_schedules := rows\<rparr>))"

definition insert_app_list :: "app_rule_config \<Rightarrow> policy_tables \<Rightarrow> db_error + policy_tables" where
  "insert_app_list r T =
     and_then (add_list_row T (app_list_row_of r) (pt_app_rules T)) (\<lambda>rows. Inr (T\<lparr>pt_app_rules := rows\<rparr>))"

definition insert_app_matcher ::
  "string \<Rightarrow> nat \<times> app_matcher_config \<Rightarrow> policy_tables \<Rightarrow> db_error + policy_tables" where
  "insert_app_matcher rule_id entry T = Inr (T\<lparr>pt_app_matchers := pt_app_matchers T @
     [\<lparr>er_list_id = rule_id, er_kind = app_matcher_kind_to_str (am_kind (snd entry)),
       er_value = am_value (snd entry), er_match_subdomains = 0, er_position = fst entry\<rparr>]\<rparr>)"

definition insert_app_schedule :: "string \<Rightarrow> nat \<times> string \<Rightarrow> policy_tables \<Rightarrow> db_error + policy_tables" where
  "insert_app_schedule rule_id entry T =
     and_then (add_attachment T rule_id entry (pt_app_schedules T)) (\<lambda>rows. Inr (T\<lparr>pt_app_schedules := rows\<rparr>))"

definition store_schedule :: "schedule_config \<Rightarrow> unit operation" where
  "store_schedule s =
     db_bind (policy_stmt ''policy_schedules.insert'' (insert_schedule s)) (\<lambda>_.
       db_for (enumerated (sc_windows s))
         (\<lambda>w. policy_stmt ''policy_schedule_windows.insert'' (insert_window (sc_id s) w)))"

definition store_site_list :: "rule_config \<Rightarrow> unit operation" where
  "store_site_list r =
     db_bind (policy_stmt ''policy_site_lists.insert'' (insert_site_list r)) (\<lambda>_.
     db_bind (db_for (enumerated (rc_patterns r))
         (\<lambda>p. policy_stmt ''policy_site_list_patterns.insert'' (insert_site_pattern (rc_id r) p))) (\<lambda>_.
       db_for (enumerated (rc_schedule_ids r))
         (\<lambda>i. policy_stmt ''policy_site_list_schedules.insert'' (insert_site_schedule (rc_id r) i))))"

definition store_app_list :: "app_rule_config \<Rightarrow> unit operation" where
  "store_app_list r =
     db_bind (policy_stmt ''policy_app_rules.insert'' (insert_app_list r)) (\<lambda>_.
     db_bind (db_for (enumerated (ac_matchers r))
         (\<lambda>m. policy_stmt ''policy_app_rule_matchers.insert'' (insert_app_matcher (ac_id r) m))) (\<lambda>_.
       db_for (enumerated (ac_schedule_ids r))
         (\<lambda>i. policy_stmt ''policy_app_rule_schedules.insert'' (insert_app_schedule (ac_id r) i))))"

text \<open>The lists that are gone lose their share of the unlocks.\<close>

definition revoke_missing :: "database \<Rightarrow> database" where
  "revoke_missing db = db\<lparr>db_unlock_targets := map (\<lambda>t.
     if \<not> ut_revoked t \<and> ut_rule_id t \<notin> lr_id ` set (pt_site_lists (db_policy db)) \<union> lr_id ` set (pt_app_rules (db_policy db))
     then t\<lparr>ut_revoked := True\<rparr> else t) (db_unlock_targets db)\<rparr>"

definition store_tables :: "config \<Rightarrow> unit operation" where
  "store_tables c =
     db_bind (policy_stmt ''policy.delete'' delete_policy) (\<lambda>_.
     db_bind (policy_stmt ''policy_defaults.insert'' insert_defaults) (\<lambda>_.
     db_bind (policy_stmt ''policy_strict_mode.insert'' (insert_strict_mode (cfg_strict_mode c))) (\<lambda>_.
     db_bind (db_for (cfg_allowances c) (\<lambda>a. policy_stmt ''policy_allowances.insert'' (insert_allowance a))) (\<lambda>_.
     db_bind (db_for (cfg_schedules c) store_schedule) (\<lambda>_.
     db_bind (db_for (cfg_rules c) store_site_list) (\<lambda>_.
       db_for (cfg_app_rules c) store_app_list))))))"

definition replace_policy_config :: "'u lib \<Rightarrow> config \<Rightarrow> unit operation" where
  "replace_policy_config L c =
     db_bind (reading (\<lambda>_. validate_config L c)) (\<lambda>_.
       transaction (db_bind (store_tables c) (\<lambda>_. update_rows ''unlock_rule_targets.revoke'' revoke_missing)))"

section \<open>Loading the policy\<close>

definition validation :: "validation_error + 'a \<Rightarrow> error + 'a" where
  "validation r = map_err (\<lambda>e. ErrConfig (CfgValidation e)) r"

definition has_policy_config :: "database \<Rightarrow> error + bool" where
  "has_policy_config = query ''policy.count'' (\<lambda>db. let T = db_policy db in
     length (pt_site_lists T) + length (pt_app_rules T) + length (pt_schedules T) + length (pt_allowances T)
       + (if pt_defaults T = None then 0 else 1) + (if pt_strict_mode T = None then 0 else 1) > (0::nat))"

definition strict_mode_of_row :: "strict_mode_row \<Rightarrow> error + strict_mode_config" where
  "strict_mode_of_row row =
     and_then (validation (to_u32 ''strict_mode.grace_seconds'' (smr_grace_seconds row))) (\<lambda>grace. Inr
       \<lparr>sm_require_firefox_extension = smr_require_firefox_extension row \<noteq> 0,
        sm_require_chrome_extension = smr_require_chrome_extension row \<noteq> 0,
        sm_kill_supported_browser_if_extension_stale = smr_kill_supported_browser_if_extension_stale row \<noteq> 0,
        sm_block_unsupported_browsers = smr_block_unsupported_browsers row \<noteq> 0,
        sm_grace_seconds = grace\<rparr>)"

definition load_policy_strict_mode :: "database \<Rightarrow> error + strict_mode_config" where
  "load_policy_strict_mode db =
     and_then (query ''policy_strict_mode.select'' (\<lambda>db. pt_strict_mode (db_policy db)) db) (\<lambda>row.
       case row of None \<Rightarrow> Inr default_strict_mode | Some row \<Rightarrow> strict_mode_of_row row)"

definition allowance_of_row :: "allowance_row \<Rightarrow> error + allowance_config" where
  "allowance_of_row row =
     and_then (validation (to_u32 ''allowance.daily_minutes'' (alr_daily_minutes row))) (\<lambda>minutes.
       Inr \<lparr>al_id = alr_id row, al_name = alr_name row, al_daily_minutes = minutes\<rparr>)"

definition load_policy_allowances :: "database \<Rightarrow> error + allowance_config list" where
  "load_policy_allowances db =
     and_then (query ''policy_allowances.select'' (\<lambda>db. sort_key alr_id (pt_allowances (db_policy db))) db)
       (try_map allowance_of_row)"

definition window_of_row :: "window_row \<Rightarrow> error + schedule_window" where
  "window_of_row row =
     and_then (validation (schedule_day_from_str (wr_weekday row))) (\<lambda>weekday.
     and_then (validation (map_err BadTime (tod_from_str (wr_start_time row)))) (\<lambda>start.
     and_then (validation (map_err BadTime (tod_from_str (wr_end_time row)))) (\<lambda>stop.
       Inr \<lparr>sw_weekday = weekday, sw_start = start, sw_end = stop\<rparr>)))"

definition load_policy_schedule_windows :: "string \<Rightarrow> database \<Rightarrow> error + schedule_window list" where
  "load_policy_schedule_windows schedule_id db =
     and_then (query ''policy_schedule_windows.select'' (\<lambda>db.
         sort_key wr_position (filter (\<lambda>w. wr_schedule_id w = schedule_id) (pt_windows (db_policy db)))) db)
       (try_map window_of_row)"

definition load_policy_schedules :: "database \<Rightarrow> error + schedule_config list" where
  "load_policy_schedules db =
     and_then (query ''policy_schedules.select'' (\<lambda>db. sort_key scr_id (pt_schedules (db_policy db))) db)
       (try_map (\<lambda>row. and_then (load_policy_schedule_windows (scr_id row) db) (\<lambda>windows.
          Inr \<lparr>sc_id = scr_id row, sc_name = scr_name row, sc_windows = windows\<rparr>)))"

definition pattern_of_row :: "entry_row \<Rightarrow> error + rule_pattern_config" where
  "pattern_of_row row =
     and_then (validation (pattern_kind_from_str (er_kind row))) (\<lambda>kind.
       Inr \<lparr>rp_kind = kind, rp_value = er_value row, rp_match_subdomains = er_match_subdomains row \<noteq> 0\<rparr>)"

definition entries_of :: "string \<Rightarrow> entry_row list \<Rightarrow> entry_row list" where
  "entries_of list_id rows = sort_key er_position (filter (\<lambda>e. er_list_id e = list_id) rows)"

definition attachments_of :: "string \<Rightarrow> attachment_row list \<Rightarrow> string list" where
  "attachments_of list_id rows = map ar_schedule_id
     (sort_key (\<lambda>a. (ar_position a, ar_schedule_id a)) (filter (\<lambda>a. ar_list_id a = list_id) rows))"

definition load_policy_site_list_patterns :: "string \<Rightarrow> database \<Rightarrow> error + rule_pattern_config list" where
  "load_policy_site_list_patterns list_id db =
     and_then (query ''policy_site_list_patterns.select''
                (\<lambda>db. entries_of list_id (pt_site_patterns (db_policy db))) db) (try_map pattern_of_row)"

definition load_policy_site_list_schedule_ids :: "string \<Rightarrow> database \<Rightarrow> error + string list" where
  "load_policy_site_list_schedule_ids list_id =
     query ''policy_site_list_schedules.select'' (\<lambda>db. attachments_of list_id (pt_site_schedules (db_policy db)))"

definition load_site_list :: "database \<Rightarrow> list_row \<Rightarrow> error + rule_config" where
  "load_site_list db row =
     and_then (load_policy_site_list_patterns (lr_id row) db) (\<lambda>patterns.
     and_then (load_policy_site_list_schedule_ids (lr_id row) db) (\<lambda>schedule_ids.
     and_then (validation (rule_tier_from_str (lr_tier row))) (\<lambda>tier.
     and_then (validation (list_mode_from_str (lr_mode row))) (\<lambda>mode.
       Inr \<lparr>rc_id = lr_id row, rc_name = lr_name row, rc_tier = tier, rc_enabled = lr_enabled row \<noteq> 0,
            rc_mode = mode, rc_patterns = patterns, rc_schedule_ids = schedule_ids,
            rc_allowance_id = lr_allowance_id row\<rparr>))))"

definition load_policy_site_lists :: "database \<Rightarrow> error + rule_config list" where
  "load_policy_site_lists db =
     and_then (query ''policy_site_lists.select'' (\<lambda>db. sort_key lr_id (pt_site_lists (db_policy db))) db)
       (try_map (load_site_list db))"

definition matcher_of_row :: "entry_row \<Rightarrow> error + app_matcher_config" where
  "matcher_of_row row =
     and_then (validation (app_matcher_kind_from_str (er_kind row))) (\<lambda>kind.
       Inr \<lparr>am_kind = kind, am_value = er_value row\<rparr>)"

definition load_policy_app_rule_matchers :: "string \<Rightarrow> database \<Rightarrow> error + app_matcher_config list" where
  "load_policy_app_rule_matchers rule_id db =
     and_then (query ''policy_app_rule_matchers.select''
                (\<lambda>db. entries_of rule_id (pt_app_matchers (db_policy db))) db) (try_map matcher_of_row)"

definition load_policy_app_rule_schedule_ids :: "string \<Rightarrow> database \<Rightarrow> error + string list" where
  "load_policy_app_rule_schedule_ids rule_id =
     query ''policy_app_rule_schedules.select'' (\<lambda>db. attachments_of rule_id (pt_app_schedules (db_policy db)))"

definition load_app_rule :: "database \<Rightarrow> list_row \<Rightarrow> error + app_rule_config" where
  "load_app_rule db row =
     and_then (load_policy_app_rule_matchers (lr_id row) db) (\<lambda>matchers.
     and_then (load_policy_app_rule_schedule_ids (lr_id row) db) (\<lambda>schedule_ids.
     and_then (validation (rule_tier_from_str (lr_tier row))) (\<lambda>tier.
     and_then (validation (list_mode_from_str (lr_mode row))) (\<lambda>mode.
       Inr \<lparr>ac_id = lr_id row, ac_name = lr_name row, ac_tier = tier, ac_enabled = lr_enabled row \<noteq> 0,
            ac_mode = mode, ac_matchers = matchers, ac_schedule_ids = schedule_ids,
            ac_allowance_id = lr_allowance_id row\<rparr>))))"

definition load_policy_app_rules :: "database \<Rightarrow> error + app_rule_config list" where
  "load_policy_app_rules db =
     and_then (query ''policy_app_rules.select'' (\<lambda>db. sort_key lr_id (pt_app_rules (db_policy db))) db)
       (try_map (load_app_rule db))"

definition load_policy_config :: "'u lib \<Rightarrow> database \<Rightarrow> error + config" where
  "load_policy_config L db =
     and_then (load_policy_allowances db) (\<lambda>allowances.
     and_then (load_policy_schedules db) (\<lambda>schedules.
     and_then (load_policy_site_lists db) (\<lambda>rules.
     and_then (load_policy_app_rules db) (\<lambda>app_rules.
     and_then (load_policy_strict_mode db) (\<lambda>strict_mode.
       let config = \<lparr>cfg_rules = rules, cfg_app_rules = app_rules, cfg_schedules = schedules,
             cfg_allowances = allowances, cfg_strict_mode = strict_mode\<rparr>
       in and_then (validate_config L config) (\<lambda>_. Inr config))))))"

text \<open>\<open>normalize_policy_website_allowlists\<close> of the migrations, statement by statement.\<close>

definition normalize_list_rows :: "list_row list \<Rightarrow> list_row list" where
  "normalize_list_rows rows =
     map (\<lambda>r. if lr_mode r = ''allowlist'' \<and> lr_tier r = ''scheduled_block'' \<and> lr_allowance_id r \<noteq> None
              then r\<lparr>lr_allowance_id := None\<rparr> else r)
      (map (\<lambda>r. if lr_mode r = ''allowlist'' \<and> lr_tier r = ''hard''
                then r\<lparr>lr_tier := ''scheduled_block'', lr_allowance_id := None\<rparr> else r)
        (map (\<lambda>r. if lr_mode r = ''allowlist'' \<and> lr_enabled r \<noteq> 1 then r\<lparr>lr_enabled := 1\<rparr> else r) rows))"

definition normalize_policy_website_allowlists :: "unit operation" where
  "normalize_policy_website_allowlists = update_rows ''policy_site_lists.normalize''
     (\<lambda>db. db\<lparr>db_policy := (db_policy db)\<lparr>pt_site_lists := normalize_list_rows (pt_site_lists (db_policy db))\<rparr>\<rparr>)"

section \<open>The contract of a stored text\<close>

locale stored_text =
  fixes valid :: "'a \<Rightarrow> bool" and to_str :: "'a \<Rightarrow> string" and from_str :: "string \<Rightarrow> 'e + 'a"
  assumes from_to: "valid x \<Longrightarrow> from_str (to_str x) = Inr x"
begin

lemma inj_to: "valid x \<Longrightarrow> valid y \<Longrightarrow> to_str x = to_str y \<Longrightarrow> x = y"
  by (metis from_to sum.inject(2))

lemma try_map_from: "\<forall>x\<in>set xs. valid x \<Longrightarrow> try_map from_str (map to_str xs) = Inr xs"
  by (induction xs) (auto simp: from_to)

end

text \<open>An enumeration: every text that is read is the text that is written.\<close>

locale stored_enum = stored_text "\<lambda>_. True" to_str from_str
  for to_str :: "'a \<Rightarrow> string" and from_str :: "string \<Rightarrow> 'e + 'a" +
  assumes to_from: "from_str s = Inr x \<Longrightarrow> to_str x = s"
begin

lemma from_str_iff: "from_str s = Inr x \<longleftrightarrow> s = to_str x"
  using to_from from_to by auto

end

interpretation tier_text: stored_enum rule_tier_to_str rule_tier_from_str
proof
  show "rule_tier_from_str (rule_tier_to_str x) = Inr x" for x by (cases x) (simp_all add: rule_tier_from_str_def)
qed (auto simp: rule_tier_from_str_def split: if_splits)

interpretation mode_text: stored_enum list_mode_to_str list_mode_from_str
proof
  show "list_mode_from_str (list_mode_to_str x) = Inr x" for x by (cases x) (simp_all add: list_mode_from_str_def)
qed (auto simp: list_mode_from_str_def split: if_splits)

interpretation pattern_text: stored_enum pattern_kind_to_str pattern_kind_from_str
proof
  show "pattern_kind_from_str (pattern_kind_to_str x) = Inr x" for x
    by (cases x) (simp_all add: pattern_kind_from_str_def)
qed (auto simp: pattern_kind_from_str_def split: if_splits)

interpretation matcher_text: stored_enum app_matcher_kind_to_str app_matcher_kind_from_str
proof
  show "app_matcher_kind_from_str (app_matcher_kind_to_str x) = Inr x" for x
    by (cases x) (simp_all add: app_matcher_kind_from_str_def)
qed (auto simp: app_matcher_kind_from_str_def split: if_splits)

interpretation day_text: stored_enum schedule_day_to_str schedule_day_from_str
proof
  show "schedule_day_from_str (schedule_day_to_str x) = Inr x" for x
    by (cases x) (simp_all add: schedule_day_from_str_def)
qed (auto simp: schedule_day_from_str_def split: if_splits)

interpretation time_text: stored_text tod_valid tod_to_string tod_from_str
  by unfold_locales (rule tod_from_to_string)

section \<open>The statements and the function they realise\<close>

definition realises :: "unit operation \<Rightarrow> (policy_tables \<Rightarrow> db_error + policy_tables) \<Rightarrow> bool" where
  "realises m g \<longleftrightarrow> (\<forall>db. no_faults db \<longrightarrow>
     (case g (db_policy db) of
        Inr T \<Rightarrow> m db = (Inr (), db\<lparr>db_policy := T\<rparr>)
      | Inl e \<Rightarrow> fst (m db) = Inl (ErrDatabase e)))"

lemma realises_stmt: "realises (policy_stmt tag f) f"
  by (auto simp: realises_def policy_stmt_def split: sum.splits)

lemma realises_bind: "realises m g \<Longrightarrow> realises n h \<Longrightarrow> realises (db_bind m (\<lambda>_. n)) (\<lambda>T. and_then (g T) h)"
  unfolding realises_def
proof (intro allI impI)
  fix db
  assume m: "\<forall>db. no_faults db \<longrightarrow> (case g (db_policy db) of
      Inl e \<Rightarrow> fst (m db) = Inl (ErrDatabase e) | Inr T \<Rightarrow> m db = (Inr (), db\<lparr>db_policy := T\<rparr>))"
    and n: "\<forall>db. no_faults db \<longrightarrow> (case h (db_policy db) of
      Inl e \<Rightarrow> fst (n db) = Inl (ErrDatabase e) | Inr T \<Rightarrow> n db = (Inr (), db\<lparr>db_policy := T\<rparr>))"
    and nf: "no_faults db"
  show "case and_then (g (db_policy db)) h of
      Inl e \<Rightarrow> fst (db_bind m (\<lambda>_. n) db) = Inl (ErrDatabase e)
    | Inr T \<Rightarrow> db_bind m (\<lambda>_. n) db = (Inr (), db\<lparr>db_policy := T\<rparr>)"
  proof (cases "g (db_policy db)")
    case (Inl e)
    then have "fst (m db) = Inl (ErrDatabase e)" using m nf by (auto split: sum.splits)
    then show ?thesis using Inl by (simp add: db_bind_apply)
  next
    case (Inr T)
    then have "m db = (Inr (), db\<lparr>db_policy := T\<rparr>)" using m nf by (auto split: sum.splits)
    then show ?thesis using n [rule_format, of "db\<lparr>db_policy := T\<rparr>"] nf Inr
      by (simp add: db_bind_step split: sum.splits)
  qed
qed

lemma realises_for: "(\<And>x. realises (m x) (g x)) \<Longrightarrow> realises (db_for xs m) (try_fold g xs)"
proof (induction xs)
  case Nil
  show ?case by (auto simp: realises_def)
next
  case (Cons x xs)
  have "try_fold g (x # xs) = (\<lambda>T. and_then (g x T) (try_fold g xs))" by (simp add: fun_eq_iff)
  then show ?case using realises_bind [OF Cons.prems Cons.IH [OF Cons.prems]] by simp
qed

definition put_schedule :: "schedule_config \<Rightarrow> policy_tables \<Rightarrow> db_error + policy_tables" where
  "put_schedule s T = and_then (insert_schedule s T) (try_fold (insert_window (sc_id s)) (enumerated (sc_windows s)))"

definition put_site_list :: "rule_config \<Rightarrow> policy_tables \<Rightarrow> db_error + policy_tables" where
  "put_site_list r T = and_then (insert_site_list r T) (\<lambda>T.
     and_then (try_fold (insert_site_pattern (rc_id r)) (enumerated (rc_patterns r)) T)
       (try_fold (insert_site_schedule (rc_id r)) (enumerated (rc_schedule_ids r))))"

definition put_app_list :: "app_rule_config \<Rightarrow> policy_tables \<Rightarrow> db_error + policy_tables" where
  "put_app_list r T = and_then (insert_app_list r T) (\<lambda>T.
     and_then (try_fold (insert_app_matcher (ac_id r)) (enumerated (ac_matchers r)) T)
       (try_fold (insert_app_schedule (ac_id r)) (enumerated (ac_schedule_ids r))))"

definition put_policy :: "config \<Rightarrow> policy_tables \<Rightarrow> db_error + policy_tables" where
  "put_policy c T =
     and_then (delete_policy T) (\<lambda>T. and_then (insert_defaults T) (\<lambda>T.
     and_then (insert_strict_mode (cfg_strict_mode c) T) (\<lambda>T.
     and_then (try_fold insert_allowance (cfg_allowances c) T) (\<lambda>T.
     and_then (try_fold put_schedule (cfg_schedules c) T) (\<lambda>T.
     and_then (try_fold put_site_list (cfg_rules c) T) (try_fold put_app_list (cfg_app_rules c)))))))"

lemma realises_put_schedule: "realises (store_schedule s) (put_schedule s)"
  unfolding store_schedule_def put_schedule_def [abs_def]
  by (intro realises_bind realises_for realises_stmt)

lemma realises_put_site_list: "realises (store_site_list r) (put_site_list r)"
  unfolding store_site_list_def put_site_list_def [abs_def]
  by (intro realises_bind realises_for realises_stmt)

lemma realises_put_app_list: "realises (store_app_list r) (put_app_list r)"
  unfolding store_app_list_def put_app_list_def [abs_def]
  by (intro realises_bind realises_for realises_stmt)

lemma realises_put_policy: "realises (store_tables c) (put_policy c)"
  unfolding store_tables_def put_policy_def [abs_def]
  by (intro realises_bind realises_for realises_stmt realises_put_schedule realises_put_site_list realises_put_app_list)

section \<open>The tables of a policy\<close>

definition attachment_rows :: "string \<Rightarrow> (nat \<times> string) list \<Rightarrow> attachment_row list" where
  "attachment_rows lid = map (\<lambda>e. \<lparr>ar_list_id = lid, ar_schedule_id = snd e, ar_position = fst e\<rparr>)"

definition pattern_rows :: "rule_config \<Rightarrow> entry_row list" where
  "pattern_rows r = map (\<lambda>e. \<lparr>er_list_id = rc_id r, er_kind = pattern_kind_to_str (rp_kind (snd e)),
     er_value = rp_value (snd e), er_match_subdomains = bool_to_i64 (rp_match_subdomains (snd e)),
     er_position = fst e\<rparr>) (enumerated (rc_patterns r))"

definition matcher_rows :: "app_rule_config \<Rightarrow> entry_row list" where
  "matcher_rows r = map (\<lambda>e. \<lparr>er_list_id = ac_id r, er_kind = app_matcher_kind_to_str (am_kind (snd e)),
     er_value = am_value (snd e), er_match_subdomains = 0, er_position = fst e\<rparr>) (enumerated (ac_matchers r))"

definition window_rows :: "schedule_config \<Rightarrow> window_row list" where
  "window_rows s = map (window_row_of (sc_id s)) (enumerated (sc_windows s))"

definition schedule_row_of :: "schedule_config \<Rightarrow> schedule_row" where
  "schedule_row_of s = \<lparr>scr_id = sc_id s, scr_name = sc_name s\<rparr>"

definition tables_of :: "config \<Rightarrow> policy_tables" where
  "tables_of c =
     \<lparr>pt_defaults = Some (2, 0, 1),
      pt_strict_mode = Some (strict_mode_row_of (cfg_strict_mode c)),
      pt_allowances = map allowance_row_of (cfg_allowances c),
      pt_schedules = map schedule_row_of (cfg_schedules c),
      pt_windows = concat (map window_rows (cfg_schedules c)),
      pt_site_lists = map site_list_row_of (cfg_rules c),
      pt_site_patterns = concat (map pattern_rows (cfg_rules c)),
      pt_site_schedules = concat (map (\<lambda>r. attachment_rows (rc_id r) (enumerated (rc_schedule_ids r))) (cfg_rules c)),
      pt_app_rules = map app_list_row_of (cfg_app_rules c),
      pt_app_matchers = concat (map matcher_rows (cfg_app_rules c)),
      pt_app_schedules = concat (map (\<lambda>r. attachment_rows (ac_id r) (enumerated (ac_schedule_ids r))) (cfg_app_rules c))\<rparr>"

lemma put_allowances:
  "distinct (map al_id as) \<Longrightarrow> (\<And>a. a \<in> set as \<Longrightarrow> al_id a \<notin> alr_id ` set (pt_allowances T)) \<Longrightarrow>
   try_fold insert_allowance as T = Inr (T\<lparr>pt_allowances := pt_allowances T @ map allowance_row_of as\<rparr>)"
proof (induction as arbitrary: T)
  case (Cons a as)
  let ?T = "T\<lparr>pt_allowances := pt_allowances T @ [allowance_row_of a]\<rparr>"
  have "insert_allowance a T = Inr ?T" using Cons.prems(2) by (simp add: insert_allowance_def)
  moreover have "try_fold insert_allowance as ?T = Inr (?T\<lparr>pt_allowances := pt_allowances ?T @ map allowance_row_of as\<rparr>)"
    by (rule Cons.IH) (use Cons.prems in \<open>auto simp: allowance_row_of_def image_iff\<close>)
  ultimately show ?case by simp
qed simp

lemma put_windows:
  "sid \<in> scr_id ` set (pt_schedules T) \<Longrightarrow> try_fold (insert_window sid) ws T
     = Inr (T\<lparr>pt_windows := pt_windows T @ map (window_row_of sid) ws\<rparr>)"
  by (induction ws arbitrary: T) (simp_all add: insert_window_def)

lemma put_schedules:
  "distinct (map sc_id ss) \<Longrightarrow> (\<And>s. s \<in> set ss \<Longrightarrow> sc_id s \<notin> scr_id ` set (pt_schedules T)) \<Longrightarrow>
   try_fold put_schedule ss T = Inr (T\<lparr>pt_schedules := pt_schedules T @ map schedule_row_of ss,
     pt_windows := pt_windows T @ concat (map window_rows ss)\<rparr>)"
proof (induction ss arbitrary: T)
  case (Cons s ss)
  let ?T = "T\<lparr>pt_schedules := pt_schedules T @ [schedule_row_of s], pt_windows := pt_windows T @ window_rows s\<rparr>"
  have "put_schedule s T = Inr ?T"
    using Cons.prems(2) by (simp add: put_schedule_def insert_schedule_def put_windows schedule_row_of_def window_rows_def)
  moreover have "try_fold put_schedule ss ?T = Inr (?T\<lparr>pt_schedules := pt_schedules ?T @ map schedule_row_of ss,
     pt_windows := pt_windows ?T @ concat (map window_rows ss)\<rparr>)"
    by (rule Cons.IH) (use Cons.prems in \<open>auto simp: schedule_row_of_def image_iff\<close>)
  ultimately show ?case by simp
qed simp

lemma put_attachments:
  "distinct (map snd es) \<Longrightarrow> snd ` set es \<subseteq> scr_id ` set (pt_schedules T) \<Longrightarrow>
   (\<And>row. row \<in> set rows \<Longrightarrow> ar_list_id row = lid \<Longrightarrow> ar_schedule_id row \<notin> snd ` set es) \<Longrightarrow>
   try_fold (add_attachment T lid) es rows = Inr (rows @ attachment_rows lid es)"
proof (induction es arbitrary: rows)
  case (Cons e es)
  let ?new = "\<lparr>ar_list_id = lid, ar_schedule_id = snd e, ar_position = fst e\<rparr>"
  have "add_attachment T lid e rows = Inr (rows @ [?new])"
    using Cons.prems(2,3) by (auto simp: add_attachment_def)
  moreover have "try_fold (add_attachment T lid) es (rows @ [?new]) = Inr ((rows @ [?new]) @ attachment_rows lid es)"
  proof (rule Cons.IH)
    show "ar_schedule_id row \<notin> snd ` set es" if "row \<in> set (rows @ [?new])" "ar_list_id row = lid" for row
    proof -
      have "row \<in> set rows \<or> row = ?new" using that(1) by auto
      then show ?thesis
      proof
        assume "row \<in> set rows"
        from Cons.prems(3) [OF this that(2)] show ?thesis by simp
      qed (use Cons.prems(1) in simp)
    qed
  qed (use Cons.prems in simp_all)
  ultimately show ?case by (simp add: attachment_rows_def)
qed (simp add: attachment_rows_def)

lemma put_site_attachments:
  "try_fold (insert_site_schedule lid) es T =
     and_then (try_fold (add_attachment T lid) es (pt_site_schedules T)) (\<lambda>rows. Inr (T\<lparr>pt_site_schedules := rows\<rparr>))"
proof (induction es arbitrary: T)
  case (Cons e es)
  have "add_attachment (T\<lparr>pt_site_schedules := x\<rparr>) = add_attachment T" for x
    by (simp add: add_attachment_def fun_eq_iff)
  then show ?case using Cons.IH
    by (cases "add_attachment T lid e (pt_site_schedules T)") (simp_all add: insert_site_schedule_def)
qed simp

lemma put_app_attachments:
  "try_fold (insert_app_schedule lid) es T =
     and_then (try_fold (add_attachment T lid) es (pt_app_schedules T)) (\<lambda>rows. Inr (T\<lparr>pt_app_schedules := rows\<rparr>))"
proof (induction es arbitrary: T)
  case (Cons e es)
  have "add_attachment (T\<lparr>pt_app_schedules := x\<rparr>) = add_attachment T" for x
    by (simp add: add_attachment_def fun_eq_iff)
  then show ?case using Cons.IH
    by (cases "add_attachment T lid e (pt_app_schedules T)") (simp_all add: insert_app_schedule_def)
qed simp

lemma put_patterns:
  "try_fold (insert_site_pattern lid) es T = Inr (T\<lparr>pt_site_patterns := pt_site_patterns T @
     map (\<lambda>e. \<lparr>er_list_id = lid, er_kind = pattern_kind_to_str (rp_kind (snd e)), er_value = rp_value (snd e),
       er_match_subdomains = bool_to_i64 (rp_match_subdomains (snd e)), er_position = fst e\<rparr>) es\<rparr>)"
  by (induction es arbitrary: T) (simp_all add: insert_site_pattern_def)

lemma put_matchers:
  "try_fold (insert_app_matcher lid) es T = Inr (T\<lparr>pt_app_matchers := pt_app_matchers T @
     map (\<lambda>e. \<lparr>er_list_id = lid, er_kind = app_matcher_kind_to_str (am_kind (snd e)), er_value = am_value (snd e),
       er_match_subdomains = 0, er_position = fst e\<rparr>) es\<rparr>)"
  by (induction es arbitrary: T) (simp_all add: insert_app_matcher_def)

lemma snd_enumerated [simp]: "map snd (enumerated xs) = xs" "snd ` set (enumerated xs) = set xs"
proof -
  show "map snd (enumerated xs) = xs" by (simp add: enumerated_def)
  then show "snd ` set (enumerated xs) = set xs" by (metis set_map)
qed

text \<open>The lists one by one, when keys are new, references exist and attachments are distinct.\<close>

lemma put_site_lists:
  "distinct (map rc_id rs) \<Longrightarrow> (\<And>r. r \<in> set rs \<Longrightarrow> rc_id r \<notin> lr_id ` set (pt_site_lists T)) \<Longrightarrow>
   (\<And>r. r \<in> set rs \<Longrightarrow> rc_id r \<notin> ar_list_id ` set (pt_site_schedules T)) \<Longrightarrow>
   (\<And>r. r \<in> set rs \<Longrightarrow> set_option (rc_allowance_id r) \<subseteq> alr_id ` set (pt_allowances T)
      \<and> set (rc_schedule_ids r) \<subseteq> scr_id ` set (pt_schedules T) \<and> distinct (rc_schedule_ids r)) \<Longrightarrow>
   try_fold put_site_list rs T = Inr (T\<lparr>pt_site_lists := pt_site_lists T @ map site_list_row_of rs,
     pt_site_patterns := pt_site_patterns T @ concat (map pattern_rows rs),
     pt_site_schedules := pt_site_schedules T @
       concat (map (\<lambda>r. attachment_rows (rc_id r) (enumerated (rc_schedule_ids r))) rs)\<rparr>)"
proof (induction rs arbitrary: T)
  case (Cons r rs)
  let ?at = "attachment_rows (rc_id r) (enumerated (rc_schedule_ids r))"
  let ?T = "T\<lparr>pt_site_lists := pt_site_lists T @ [site_list_row_of r],
     pt_site_patterns := pt_site_patterns T @ pattern_rows r, pt_site_schedules := pt_site_schedules T @ ?at\<rparr>"
  have p: "rc_id r \<notin> lr_id ` set (pt_site_lists T)" "rc_id r \<notin> ar_list_id ` set (pt_site_schedules T)"
    "set_option (rc_allowance_id r) \<subseteq> alr_id ` set (pt_allowances T)"
    "set (rc_schedule_ids r) \<subseteq> scr_id ` set (pt_schedules T)" "distinct (rc_schedule_ids r)"
    using Cons.prems(2-4) by simp_all
  have "try_fold (add_attachment T (rc_id r)) (enumerated (rc_schedule_ids r)) (pt_site_schedules T)
      = Inr (pt_site_schedules T @ ?at)"
    by (rule put_attachments) (use p in \<open>auto simp: image_iff\<close>)
  moreover have "add_attachment (T\<lparr>pt_site_lists := x, pt_site_patterns := y\<rparr>) = add_attachment T" for x y
    by (simp add: add_attachment_def fun_eq_iff)
  moreover have "insert_site_list r T = Inr (T\<lparr>pt_site_lists := pt_site_lists T @ [site_list_row_of r]\<rparr>)"
    using p by (auto simp: insert_site_list_def add_list_row_def site_list_row_of_def split: option.splits)
  ultimately have "put_site_list r T = Inr ?T"
    by (simp add: put_site_list_def put_patterns put_site_attachments pattern_rows_def)
  moreover have at: "ar_list_id ` set ?at \<subseteq> {rc_id r}" by (auto simp: attachment_rows_def)
  have "try_fold put_site_list rs ?T = Inr (?T\<lparr>pt_site_lists := pt_site_lists ?T @ map site_list_row_of rs,
     pt_site_patterns := pt_site_patterns ?T @ concat (map pattern_rows rs),
     pt_site_schedules := pt_site_schedules ?T @
       concat (map (\<lambda>r. attachment_rows (rc_id r) (enumerated (rc_schedule_ids r))) rs)\<rparr>)"
  proof (rule Cons.IH)
    fix x
    assume "x \<in> set rs"
    then have x: "x \<in> set (r # rs)" and ne: "rc_id x \<noteq> rc_id r"
      using Cons.prems(1) by (auto simp: image_iff)
    show "rc_id x \<notin> lr_id ` set (pt_site_lists ?T)" using Cons.prems(2) [OF x] ne by (simp add: site_list_row_of_def)
    show "rc_id x \<notin> ar_list_id ` set (pt_site_schedules ?T)" using Cons.prems(3) [OF x] ne at by auto
    show "set_option (rc_allowance_id x) \<subseteq> alr_id ` set (pt_allowances ?T)
      \<and> set (rc_schedule_ids x) \<subseteq> scr_id ` set (pt_schedules ?T) \<and> distinct (rc_schedule_ids x)"
      using Cons.prems(4) [OF x] by simp
  qed (use Cons.prems(1) in simp)
  ultimately show ?case by simp
qed simp

lemma put_app_lists:
  "distinct (map ac_id rs) \<Longrightarrow> (\<And>r. r \<in> set rs \<Longrightarrow> ac_id r \<notin> lr_id ` set (pt_app_rules T)) \<Longrightarrow>
   (\<And>r. r \<in> set rs \<Longrightarrow> ac_id r \<notin> ar_list_id ` set (pt_app_schedules T)) \<Longrightarrow>
   (\<And>r. r \<in> set rs \<Longrightarrow> set_option (ac_allowance_id r) \<subseteq> alr_id ` set (pt_allowances T)
      \<and> set (ac_schedule_ids r) \<subseteq> scr_id ` set (pt_schedules T) \<and> distinct (ac_schedule_ids r)) \<Longrightarrow>
   try_fold put_app_list rs T = Inr (T\<lparr>pt_app_rules := pt_app_rules T @ map app_list_row_of rs,
     pt_app_matchers := pt_app_matchers T @ concat (map matcher_rows rs),
     pt_app_schedules := pt_app_schedules T @
       concat (map (\<lambda>r. attachment_rows (ac_id r) (enumerated (ac_schedule_ids r))) rs)\<rparr>)"
proof (induction rs arbitrary: T)
  case (Cons r rs)
  let ?at = "attachment_rows (ac_id r) (enumerated (ac_schedule_ids r))"
  let ?T = "T\<lparr>pt_app_rules := pt_app_rules T @ [app_list_row_of r],
     pt_app_matchers := pt_app_matchers T @ matcher_rows r, pt_app_schedules := pt_app_schedules T @ ?at\<rparr>"
  have p: "ac_id r \<notin> lr_id ` set (pt_app_rules T)" "ac_id r \<notin> ar_list_id ` set (pt_app_schedules T)"
    "set_option (ac_allowance_id r) \<subseteq> alr_id ` set (pt_allowances T)"
    "set (ac_schedule_ids r) \<subseteq> scr_id ` set (pt_schedules T)" "distinct (ac_schedule_ids r)"
    using Cons.prems(2-4) by simp_all
  have "try_fold (add_attachment T (ac_id r)) (enumerated (ac_schedule_ids r)) (pt_app_schedules T)
      = Inr (pt_app_schedules T @ ?at)"
    by (rule put_attachments) (use p in \<open>auto simp: image_iff\<close>)
  moreover have "add_attachment (T\<lparr>pt_app_rules := x, pt_app_matchers := y\<rparr>) = add_attachment T" for x y
    by (simp add: add_attachment_def fun_eq_iff)
  moreover have "insert_app_list r T = Inr (T\<lparr>pt_app_rules := pt_app_rules T @ [app_list_row_of r]\<rparr>)"
    using p by (auto simp: insert_app_list_def add_list_row_def app_list_row_of_def split: option.splits)
  ultimately have "put_app_list r T = Inr ?T"
    by (simp add: put_app_list_def put_matchers put_app_attachments matcher_rows_def)
  moreover have at: "ar_list_id ` set ?at \<subseteq> {ac_id r}" by (auto simp: attachment_rows_def)
  have "try_fold put_app_list rs ?T = Inr (?T\<lparr>pt_app_rules := pt_app_rules ?T @ map app_list_row_of rs,
     pt_app_matchers := pt_app_matchers ?T @ concat (map matcher_rows rs),
     pt_app_schedules := pt_app_schedules ?T @
       concat (map (\<lambda>r. attachment_rows (ac_id r) (enumerated (ac_schedule_ids r))) rs)\<rparr>)"
  proof (rule Cons.IH)
    fix x
    assume "x \<in> set rs"
    then have x: "x \<in> set (r # rs)" and ne: "ac_id x \<noteq> ac_id r"
      using Cons.prems(1) by (auto simp: image_iff)
    show "ac_id x \<notin> lr_id ` set (pt_app_rules ?T)" using Cons.prems(2) [OF x] ne by (simp add: app_list_row_of_def)
    show "ac_id x \<notin> ar_list_id ` set (pt_app_schedules ?T)" using Cons.prems(3) [OF x] ne at by auto
    show "set_option (ac_allowance_id x) \<subseteq> alr_id ` set (pt_allowances ?T)
      \<and> set (ac_schedule_ids x) \<subseteq> scr_id ` set (pt_schedules ?T) \<and> distinct (ac_schedule_ids x)"
      using Cons.prems(4) [OF x] by simp
  qed (use Cons.prems(1) in simp)
  ultimately show ?case by simp
qed simp

text \<open>No list is attached twice to the same schedule: the key of the attachment tables.\<close>

definition attachments_distinct :: "config \<Rightarrow> bool" where
  "attachments_distinct c \<longleftrightarrow>
     (\<forall>r\<in>set (cfg_rules c). distinct (rc_schedule_ids r)) \<and> (\<forall>r\<in>set (cfg_app_rules c). distinct (ac_schedule_ids r))"

lemma put_policy_tables:
  assumes ok: "config_ok L c" and dist: "attachments_distinct c"
  shows "put_policy c T = Inr (tables_of c)"
proof -
  have u: "distinct (map rc_id (cfg_rules c))" "distinct (map ac_id (cfg_app_rules c))"
    "distinct (map sc_id (cfg_schedules c))" "distinct (map al_id (cfg_allowances c))"
    "sm_grace_seconds (cfg_strict_mode c) \<noteq> 0"
    using ok by (simp_all add: config_ok_def unique_ids_def)
  have grace: "0 < uint (sm_grace_seconds (cfg_strict_mode c))"
    using u(5) unsigned_greater_eq [of "sm_grace_seconds (cfg_strict_mode c)"]
    by (simp add: order.strict_iff_order unsigned_eq_0_iff)
  have ids: "alr_id (allowance_row_of a) = al_id a" "scr_id (schedule_row_of s) = sc_id s" for a s
    by (simp_all add: allowance_row_of_def schedule_row_of_def)
  have sites: "\<And>r. r \<in> set (cfg_rules c) \<Longrightarrow> set_option (rc_allowance_id r) \<subseteq> al_id ` set (cfg_allowances c)
      \<and> set (rc_schedule_ids r) \<subseteq> sc_id ` set (cfg_schedules c) \<and> distinct (rc_schedule_ids r)"
    and apps: "\<And>r. r \<in> set (cfg_app_rules c) \<Longrightarrow> set_option (ac_allowance_id r) \<subseteq> al_id ` set (cfg_allowances c)
      \<and> set (ac_schedule_ids r) \<subseteq> sc_id ` set (cfg_schedules c) \<and> distinct (ac_schedule_ids r)"
    using ok dist by (simp_all add: config_ok_def rule_ok_def app_rule_ok_def attachments_distinct_def)
  show ?thesis
    unfolding put_policy_def delete_policy_def insert_defaults_def insert_strict_mode_def and_then_simps
    using u grace sites apps
    by (simp add: put_allowances put_schedules put_site_lists put_app_lists ids image_image tables_of_def)
qed

end
