(* ===== verification/PolicyRoundtrip.thy ===== *)
theory PolicyRoundtrip imports PolicyStore "HOL-Library.Multiset" begin

text \<open>
  What is read back from the policy tables: replacing the policy and loading it gives the same policy
  with its lists in the order of their ids. A failed replacement changes nothing, and a successful
  one takes away the unlocks of the lists that are gone.
\<close>

section \<open>Sorted tables\<close>

lemma insort_key_map: "insort_key f (g x) (map g xs) = map g (insort_key (\<lambda>x. f (g x)) x xs)"
  by (induction xs) auto

lemma sort_key_map: "sort_key f (map g xs) = map g (sort_key (\<lambda>x. f (g x)) xs)"
  by (induction xs) (auto simp: insort_key_map)

lemma enumerated_sorted: "sorted (map fst (enumerated xs))"
  by (simp add: enumerated_def map_fst_enumerate)

lemma enumerate_pairs_sorted: "sorted (map (\<lambda>e. (fst e, snd e :: 'a::linorder)) (List.enumerate n xs))"
proof (induction xs arbitrary: n)
  case (Cons x xs)
  have "\<forall>e\<in>set (List.enumerate (Suc n) xs). n < fst e" by (auto simp: in_set_enumerate_eq)
  then show ?case using Cons.IH by (auto simp: less_eq_prod_def)
qed simp

lemma filter_own_rows:
  assumes "distinct (map k xs)" "x \<in> set xs" "\<And>y r. y \<in> set xs \<Longrightarrow> r \<in> set (rows y) \<Longrightarrow> key r = k y"
  shows "filter (\<lambda>r. key r = k x) (concat (map rows xs)) = rows x"
  using assms
proof (induction xs)
  case (Cons y ys)
  have other: "filter (\<lambda>r. key r = k x) (rows z) = []" if "z \<in> set (y # ys)" "k z \<noteq> k x" for z
    using Cons.prems(3) that by (auto simp: filter_empty_conv)
  show ?case
  proof (cases "x = y")
    case True
    then have "\<forall>z\<in>set ys. k z \<noteq> k x" using Cons.prems(1) by (auto simp: image_iff)
    then have "filter (\<lambda>r. key r = k x) (concat (map rows ys)) = []"
      using other by (auto simp: filter_concat)
    moreover have "filter (\<lambda>r. key r = k x) (rows x) = rows x"
      using Cons.prems(3) True by (auto simp: filter_id_conv)
    ultimately show ?thesis using True by simp
  next
    case False
    then have "k y \<noteq> k x" using Cons.prems(1,2) by (auto simp: image_iff)
    then have "filter (\<lambda>r. key r = k x) (rows y) = []" by (intro other) simp_all
    then show ?thesis using Cons False by simp
  qed
qed simp

lemma try_map_rows:
  "(\<And>x. x \<in> set xs \<Longrightarrow> f (g x) = Inr x) \<Longrightarrow> try_map f (map g xs) = Inr xs"
  by (induction xs) auto

lemma sorted_entries:
  assumes "\<And>e. pos (row e) = fst e"
  shows "sort_key pos (map row (enumerated xs)) = map row (enumerated xs)"
  by (rule sort_key_id_if_sorted) (simp add: comp_def assms enumerated_sorted)

section \<open>Reading the rows\<close>

lemma bool_to_i64_neq [simp]: "bool_to_i64 b \<noteq> 0 \<longleftrightarrow> b"
  by (simp add: bool_to_i64_def)

lemma to_u32_uint [simp]: "to_u32 label (uint (x :: u32)) = Inr x"
  using unsigned_greater_eq [of x] unsigned_less [of x, where 'a = int] by (simp add: to_u32_def)

lemma validation_Inr [simp]: "validation (Inr x) = Inr x"
  by (simp add: validation_def)

lemma allowance_row_back [simp]: "allowance_of_row (allowance_row_of a) = Inr a"
  by (simp add: allowance_of_row_def allowance_row_of_def)

lemma strict_mode_row_back [simp]: "strict_mode_of_row (strict_mode_row_of sm) = Inr sm"
  by (simp add: strict_mode_of_row_def strict_mode_row_of_def)

lemma window_row_back:
  "tod_valid (sw_start (snd e)) \<Longrightarrow> tod_valid (sw_end (snd e)) \<Longrightarrow> window_of_row (window_row_of sid e) = Inr (snd e)"
  by (simp add: window_of_row_def window_row_of_def day_text.from_to time_text.from_to)

lemma pattern_row_back:
  "pattern_of_row \<lparr>er_list_id = lid, er_kind = pattern_kind_to_str (rp_kind p), er_value = rp_value p,
     er_match_subdomains = bool_to_i64 (rp_match_subdomains p), er_position = n\<rparr> = Inr p"
  by (simp add: pattern_of_row_def pattern_text.from_to)

lemma matcher_row_back:
  "matcher_of_row \<lparr>er_list_id = lid, er_kind = app_matcher_kind_to_str (am_kind m), er_value = am_value m,
     er_match_subdomains = 0, er_position = n\<rparr> = Inr m"
  by (simp add: matcher_of_row_def matcher_text.from_to)

lemma try_map_enumerated:
  assumes "\<And>e. e \<in> set (enumerated xs) \<Longrightarrow> f (row e) = Inr (snd e)"
  shows "try_map f (map row (enumerated xs)) = Inr xs"
proof -
  have "try_map f (map row (enumerated xs)) = Inr (map snd (enumerated xs))"
    unfolding try_map_map by (rule try_map_total) (rule assms)
  then show ?thesis by simp
qed

lemma attachments_back:
  assumes "distinct (map k xs)" "x \<in> set xs"
  shows "attachments_of (k x) (concat (map (\<lambda>r. attachment_rows (k r) (enumerated (ids r))) xs)) = ids x"
proof -
  have "filter (\<lambda>a. ar_list_id a = k x) (concat (map (\<lambda>r. attachment_rows (k r) (enumerated (ids r))) xs))
      = attachment_rows (k x) (enumerated (ids x))"
    using assms by (rule filter_own_rows) (auto simp: attachment_rows_def)
  moreover have "sorted (map (\<lambda>a. (ar_position a, ar_schedule_id a)) (attachment_rows (k x) (enumerated (ids x))))"
    using enumerate_pairs_sorted [of 0 "ids x"] by (simp add: attachment_rows_def comp_def enumerated_def)
  ultimately show ?thesis
    by (simp add: attachments_of_def sort_key_id_if_sorted) (simp add: attachment_rows_def comp_def)
qed

lemma entries_back:
  assumes "distinct (map k xs)" "x \<in> set xs" "\<And>y e. er_list_id (row y e) = k y" "\<And>y e. er_position (row y e) = fst e"
  shows "entries_of (k x) (concat (map (\<lambda>r. map (row r) (enumerated (ents r))) xs)) = map (row x) (enumerated (ents x))"
proof -
  have "filter (\<lambda>a. er_list_id a = k x) (concat (map (\<lambda>r. map (row r) (enumerated (ents r))) xs))
      = map (row x) (enumerated (ents x))"
    using assms(1,2) by (rule filter_own_rows) (auto simp: assms(3))
  then show ?thesis by (simp add: entries_of_def sorted_entries assms(4))
qed

section \<open>Loading what was stored\<close>

definition by_id :: "config \<Rightarrow> config" where
  "by_id c = \<lparr>cfg_rules = sort_key rc_id (cfg_rules c), cfg_app_rules = sort_key ac_id (cfg_app_rules c),
     cfg_schedules = sort_key sc_id (cfg_schedules c), cfg_allowances = sort_key al_id (cfg_allowances c),
     cfg_strict_mode = cfg_strict_mode c\<rparr>"

lemma load_allowances_back:
  assumes "no_faults db" "db_policy db = tables_of c"
  shows "load_policy_allowances db = Inr (sort_key al_id (cfg_allowances c))"
proof -
  have "sort_key alr_id (map allowance_row_of (cfg_allowances c)) = map allowance_row_of (sort_key al_id (cfg_allowances c))"
    by (simp add: sort_key_map allowance_row_of_def)
  then show ?thesis using assms by (simp add: load_policy_allowances_def tables_of_def try_map_rows)
qed

lemma load_windows_back:
  assumes "no_faults db" "db_policy db = tables_of c" "distinct (map sc_id (cfg_schedules c))" "s \<in> set (cfg_schedules c)"
    and v: "\<forall>w\<in>set (sc_windows s). tod_valid (sw_start w) \<and> tod_valid (sw_end w)"
  shows "load_policy_schedule_windows (sc_id s) db = Inr (sc_windows s)"
proof -
  have "filter (\<lambda>w. wr_schedule_id w = sc_id s) (concat (map window_rows (cfg_schedules c))) = window_rows s"
    using assms(3,4) by (rule filter_own_rows) (auto simp: window_rows_def window_row_of_def)
  moreover have "sort_key wr_position (window_rows s) = window_rows s"
    unfolding window_rows_def by (rule sorted_entries) (simp add: window_row_of_def)
  moreover have "try_map window_of_row (window_rows s) = Inr (sc_windows s)"
    unfolding window_rows_def
  proof (rule try_map_enumerated)
    fix e
    assume "e \<in> set (enumerated (sc_windows s))"
    then have "snd e \<in> set (sc_windows s)" by (metis imageI snd_enumerated(2))
    then show "window_of_row (window_row_of (sc_id s) e) = Inr (snd e)" using v window_row_back by blast
  qed
  ultimately show ?thesis using assms(1,2) by (simp add: load_policy_schedule_windows_def tables_of_def)
qed

lemma load_schedules_back:
  assumes "no_faults db" "db_policy db = tables_of c" "distinct (map sc_id (cfg_schedules c))"
    and "\<forall>s\<in>set (cfg_schedules c). \<forall>w\<in>set (sc_windows s). tod_valid (sw_start w) \<and> tod_valid (sw_end w)"
  shows "load_policy_schedules db = Inr (sort_key sc_id (cfg_schedules c))"
proof -
  have "sort_key scr_id (map schedule_row_of (cfg_schedules c)) = map schedule_row_of (sort_key sc_id (cfg_schedules c))"
    by (simp add: sort_key_map schedule_row_of_def)
  moreover have "try_map (\<lambda>row. and_then (load_policy_schedule_windows (scr_id row) db) (\<lambda>windows.
      Inr \<lparr>sc_id = scr_id row, sc_name = scr_name row, sc_windows = windows\<rparr>))
      (map schedule_row_of (sort_key sc_id (cfg_schedules c))) = Inr (sort_key sc_id (cfg_schedules c))"
    by (rule try_map_rows) (use assms load_windows_back in \<open>simp add: schedule_row_of_def\<close>)
  ultimately show ?thesis using assms(1,2) by (simp add: load_policy_schedules_def tables_of_def)
qed

lemma load_site_list_back:
  assumes "no_faults db" "db_policy db = tables_of c" "distinct (map rc_id (cfg_rules c))" "r \<in> set (cfg_rules c)"
  shows "load_site_list db (site_list_row_of r) = Inr r"
proof -
  have "entries_of (rc_id r) (concat (map pattern_rows (cfg_rules c))) = pattern_rows r"
    unfolding pattern_rows_def using assms(3,4) by (rule entries_back) simp_all
  moreover have "try_map pattern_of_row (pattern_rows r) = Inr (rc_patterns r)"
    unfolding pattern_rows_def by (rule try_map_enumerated) (simp add: pattern_row_back)
  ultimately have "load_policy_site_list_patterns (rc_id r) db = Inr (rc_patterns r)"
    using assms(1,2) by (simp add: load_policy_site_list_patterns_def tables_of_def)
  moreover have "load_policy_site_list_schedule_ids (rc_id r) db = Inr (rc_schedule_ids r)"
    using assms(1,2) attachments_back [OF assms(3,4)]
    by (simp add: load_policy_site_list_schedule_ids_def tables_of_def)
  ultimately show ?thesis
    by (simp add: load_site_list_def site_list_row_of_def tier_text.from_to mode_text.from_to)
qed

lemma load_app_rule_back:
  assumes "no_faults db" "db_policy db = tables_of c" "distinct (map ac_id (cfg_app_rules c))" "r \<in> set (cfg_app_rules c)"
  shows "load_app_rule db (app_list_row_of r) = Inr r"
proof -
  have "entries_of (ac_id r) (concat (map matcher_rows (cfg_app_rules c))) = matcher_rows r"
    unfolding matcher_rows_def using assms(3,4) by (rule entries_back) simp_all
  moreover have "try_map matcher_of_row (matcher_rows r) = Inr (ac_matchers r)"
    unfolding matcher_rows_def by (rule try_map_enumerated) (simp add: matcher_row_back)
  ultimately have "load_policy_app_rule_matchers (ac_id r) db = Inr (ac_matchers r)"
    using assms(1,2) by (simp add: load_policy_app_rule_matchers_def tables_of_def)
  moreover have "load_policy_app_rule_schedule_ids (ac_id r) db = Inr (ac_schedule_ids r)"
    using assms(1,2) attachments_back [OF assms(3,4)]
    by (simp add: load_policy_app_rule_schedule_ids_def tables_of_def)
  ultimately show ?thesis
    by (simp add: load_app_rule_def app_list_row_of_def tier_text.from_to mode_text.from_to)
qed

lemma load_lists_back:
  assumes "no_faults db" "db_policy db = tables_of c"
    "distinct (map rc_id (cfg_rules c))" "distinct (map ac_id (cfg_app_rules c))"
  shows "load_policy_site_lists db = Inr (sort_key rc_id (cfg_rules c))"
    "load_policy_app_rules db = Inr (sort_key ac_id (cfg_app_rules c))"
proof -
  have "sort_key lr_id (map site_list_row_of (cfg_rules c)) = map site_list_row_of (sort_key rc_id (cfg_rules c))"
    "sort_key lr_id (map app_list_row_of (cfg_app_rules c)) = map app_list_row_of (sort_key ac_id (cfg_app_rules c))"
    by (simp_all add: sort_key_map site_list_row_of_def app_list_row_of_def)
  moreover have "try_map (load_site_list db) (map site_list_row_of (sort_key rc_id (cfg_rules c)))
      = Inr (sort_key rc_id (cfg_rules c))"
    by (rule try_map_rows) (use load_site_list_back [OF assms(1-3)] in simp)
  moreover have "try_map (load_app_rule db) (map app_list_row_of (sort_key ac_id (cfg_app_rules c)))
      = Inr (sort_key ac_id (cfg_app_rules c))"
    by (rule try_map_rows) (use load_app_rule_back [OF assms(1,2,4)] in simp)
  ultimately show "load_policy_site_lists db = Inr (sort_key rc_id (cfg_rules c))"
    "load_policy_app_rules db = Inr (sort_key ac_id (cfg_app_rules c))"
    using assms(1,2) by (simp_all add: load_policy_site_lists_def load_policy_app_rules_def tables_of_def)
qed

section \<open>The order of the lists does not matter to validity\<close>

lemma mset_filter_map: "mset (filter_map f xs) = (\<Sum>x\<in>#mset xs. mset (case f x of None \<Rightarrow> [] | Some y \<Rightarrow> [y]))"
  by (induction xs) (auto split: option.splits)

lemma unique_ids_sorted [simp]: "unique_ids (map f (sort_key f xs)) = unique_ids (map f xs)"
proof -
  have "distinct (map f (sort_key f xs)) = distinct (map f xs)"
    by (rule mset_eq_imp_distinct_iff) simp
  then show ?thesis by (simp add: unique_ids_def)
qed

lemma linked_allowances_by_id: "distinct (linked_allowances (by_id c)) = distinct (linked_allowances c)"
  by (rule mset_eq_imp_distinct_iff) (simp add: linked_allowances_def by_id_def mset_filter_map)

lemma config_ok_by_id: "config_ok L (by_id c) = config_ok L c"
  unfolding config_ok_def linked_allowances_by_id by (simp add: by_id_def)

section \<open>Properties of the replacement\<close>

lemma replace_policy_no_faults:
  assumes "no_faults db"
  shows "replace_policy_config L c db =
    (case validate_config L c of
       Inl e \<Rightarrow> (Inl e, db)
     | Inr _ \<Rightarrow> (case put_policy c (db_policy db) of
         Inl e \<Rightarrow> (Inl (ErrDatabase e), db)
       | Inr T \<Rightarrow> (Inr (), revoke_missing (db\<lparr>db_policy := T\<rparr>))))"
proof -
  have r: "case put_policy c (db_policy db) of
      Inr T \<Rightarrow> store_tables c db = (Inr (), db\<lparr>db_policy := T\<rparr>)
    | Inl e \<Rightarrow> fst (store_tables c db) = Inl (ErrDatabase e)"
    using realises_put_policy assms unfolding realises_def by blast
  show ?thesis
  proof (cases "put_policy c (db_policy db)")
    case (Inl e)
    then have "fst (store_tables c db) = Inl (ErrDatabase e)" using r by simp
    then show ?thesis using assms Inl
      by (simp add: replace_policy_config_def db_bind_apply transaction_def split: sum.splits prod.splits)
  next
    case (Inr T)
    then have "store_tables c db = (Inr (), db\<lparr>db_policy := T\<rparr>)" using r by simp
    moreover have "no_faults (revoke_missing db')" if "no_faults db'" for db'
      using that by (simp add: revoke_missing_def)
    ultimately show ?thesis using assms Inr
      by (simp add: replace_policy_config_def db_bind_apply transaction_def split: sum.splits)
  qed
qed

lemma try_fold_Inr_each: "try_fold f xs s = Inr s' \<Longrightarrow> x \<in> set xs \<Longrightarrow> \<exists>t t'. f x t = Inr t'"
  by (induction xs arbitrary: s) (auto simp: and_then_Inr_iff)

lemma add_attachments_distinct:
  "try_fold (add_attachment T lid) es rows = Inr rows' \<Longrightarrow>
     distinct (map snd es) \<and> (\<forall>row\<in>set rows. ar_list_id row = lid \<longrightarrow> ar_schedule_id row \<notin> snd ` set es)"
proof (induction es arbitrary: rows)
  case (Cons e es)
  let ?new = "\<lparr>ar_list_id = lid, ar_schedule_id = snd e, ar_position = fst e\<rparr>"
  have new: "\<not> (\<exists>row\<in>set rows. ar_list_id row = lid \<and> ar_schedule_id row = snd e)"
    and rest: "try_fold (add_attachment T lid) es (rows @ [?new]) = Inr rows'"
    using Cons.prems by (auto simp: and_then_Inr_iff add_attachment_def [of T lid e rows] split: if_splits)
  from Cons.IH [OF rest] new show ?case by auto
qed simp

lemma put_policy_distinct:
  assumes "put_policy c T = Inr T'"
  shows "attachments_distinct c"
proof -
  obtain t1 t2 where sites: "try_fold put_site_list (cfg_rules c) t1 = Inr t2"
    and apps: "try_fold put_app_list (cfg_app_rules c) t2 = Inr T'"
    using assms by (auto simp: put_policy_def and_then_Inr_iff)
  have "distinct (rc_schedule_ids r)" if r: "r \<in> set (cfg_rules c)" for r
  proof -
    obtain t t' where "put_site_list r t = Inr t'" using try_fold_Inr_each [OF sites r] by blast
    then obtain u rows rows' where "try_fold (add_attachment u (rc_id r)) (enumerated (rc_schedule_ids r)) rows = Inr rows'"
      by (auto simp: put_site_list_def and_then_Inr_iff put_site_attachments)
    then show ?thesis by (auto dest!: add_attachments_distinct)
  qed
  moreover have "distinct (ac_schedule_ids r)" if r: "r \<in> set (cfg_app_rules c)" for r
  proof -
    obtain t t' where "put_app_list r t = Inr t'" using try_fold_Inr_each [OF apps r] by blast
    then obtain u rows rows' where "try_fold (add_attachment u (ac_id r)) (enumerated (ac_schedule_ids r)) rows = Inr rows'"
      by (auto simp: put_app_list_def and_then_Inr_iff put_app_attachments)
    then show ?thesis by (auto dest!: add_attachments_distinct)
  qed
  ultimately show ?thesis by (simp add: attachments_distinct_def)
qed

lemma validate_config_ok: "config_ok L c \<Longrightarrow> validate_config L c = Inr ()"
  by (simp add: validate_config_def validate_iff)

lemma replace_policy_success:
  assumes "no_faults db" "config_ok L c" "attachments_distinct c"
  shows "replace_policy_config L c db = (Inr (), revoke_missing (db\<lparr>db_policy := tables_of c\<rparr>))"
  by (simp add: replace_policy_no_faults [OF assms(1)] put_policy_tables [OF assms(2,3)] validate_config_ok [OF assms(2)])

section \<open>Statements that succeeded\<close>

text \<open>What \<open>realises\<close> says of a database without faults holds of every run that reached its end.\<close>

definition computes :: "unit operation \<Rightarrow> (policy_tables \<Rightarrow> db_error + policy_tables) \<Rightarrow> bool" where
  "computes m g \<longleftrightarrow> (\<forall>db u db'. m db = (Inr u, db') \<longrightarrow>
     (\<exists>T. g (db_policy db) = Inr T \<and> db' = db\<lparr>db_policy := T\<rparr>))"

lemma computes_stmt: "computes (policy_stmt tag f) f"
  by (auto simp: computes_def policy_stmt_def exec_Inr and_then_Inr_iff)

lemma computes_bind:
  assumes "computes m g" "computes n h"
  shows "computes (db_bind m (\<lambda>_. n)) (\<lambda>T. and_then (g T) h)"
  unfolding computes_def db_bind_Inr
proof (intro allI impI, elim exE conjE)
  fix db u db'' v db'
  assume "m db = (Inr v, db')" "n db' = (Inr u, db'')"
  then obtain T T' where "g (db_policy db) = Inr T" "db' = db\<lparr>db_policy := T\<rparr>"
    "h (db_policy db') = Inr T'" "db'' = db'\<lparr>db_policy := T'\<rparr>"
    using assms unfolding computes_def by blast
  then show "\<exists>T. and_then (g (db_policy db)) h = Inr T \<and> db'' = db\<lparr>db_policy := T\<rparr>" by simp
qed

lemma computes_for: "(\<And>x. computes (m x) (g x)) \<Longrightarrow> computes (db_for xs m) (try_fold g xs)"
proof (induction xs)
  case Nil
  show ?case by (auto simp: computes_def)
next
  case (Cons x xs)
  have "try_fold g (x # xs) = (\<lambda>T. and_then (g x T) (try_fold g xs))" by (simp add: fun_eq_iff)
  then show ?case using computes_bind [OF Cons.prems Cons.IH [OF Cons.prems]] by simp
qed

lemma computes_store_tables: "computes (store_tables c) (put_policy c)"
  unfolding store_tables_def store_schedule_def store_site_list_def store_app_list_def put_policy_def [abs_def]
    put_schedule_def [abs_def] put_site_list_def [abs_def] put_app_list_def [abs_def]
  by (intro computes_bind computes_for computes_stmt)

text \<open>Whatever statement fails, all of a replacement is undone; one that reaches its end has done all of it.\<close>

lemma replace_policy_outcome:
  assumes "replace_policy_config L c db = (r, db')"
  shows "case r of Inl _ \<Rightarrow> db' = db
    | Inr _ \<Rightarrow> config_ok L c \<and> attachments_distinct c \<and> db' = revoke_missing (db\<lparr>db_policy := tables_of c\<rparr>)"
proof (cases r)
  case (Inl e)
  then show ?thesis using assms transaction_rollback
    by (auto simp: replace_policy_config_def db_bind_def split: sum.splits)
next
  case (Inr u)
  obtain db1 where v: "validate_config L c = Inr ()" and s: "store_tables c db = (Inr (), db1)"
    and d: "db' = revoke_missing db1"
    using assms Inr by (auto simp: replace_policy_config_def db_bind_Inr transaction_Inr update_rows_Inr)
  obtain T where T: "put_policy c (db_policy db) = Inr T" "db1 = db\<lparr>db_policy := T\<rparr>"
    using computes_store_tables [of c] s unfolding computes_def by blast
  have ok: "config_ok L c" using v by (simp add: validate_config_def validate_iff)
  note a = put_policy_distinct [OF T(1)]
  show ?thesis using Inr d T put_policy_tables [OF ok a, of "db_policy db"] ok a by simp
qed

lemma replace_policy_result:
  assumes "replace_policy_config L c db = (r, db')"
  shows "case r of Inl _ \<Rightarrow> db' = db | Inr _ \<Rightarrow> db_policy db' = tables_of c \<and> config_ok L c \<and> attachments_distinct c"
  using replace_policy_outcome [OF assms] by (simp add: revoke_missing_def split: sum.splits)

text \<open>
  C39. Replacing the policy is all or nothing, whatever statements of the database fail: a replacement that
  fails leaves the database as it was, and one that succeeds has stored the whole of a valid policy in
  which no list is attached twice to one schedule, and taken away the unlocks of the lists that are gone.
  On a database without faults it succeeds for exactly these policies. Validation does not ask for the
  second condition: a policy with a repeated attachment is valid and is refused by the key of the
  attachment table, with the policy before it kept.
\<close>

theorem replace_policy_all_or_nothing:
  "(case replace_policy_config L c db of
      (Inl _, db') \<Rightarrow> db' = db
    | (Inr _, db') \<Rightarrow> config_ok L c \<and> attachments_distinct c \<and> db' = revoke_missing (db\<lparr>db_policy := tables_of c\<rparr>))
   \<and> (no_faults db \<longrightarrow>
        (fst (replace_policy_config L c db) = Inr () \<longleftrightarrow> config_ok L c \<and> attachments_distinct c))"
proof -
  obtain r db' where r: "replace_policy_config L c db = (r, db')" by fastforce
  show ?thesis using replace_policy_outcome [OF r] replace_policy_success [of db L c] r
    by (cases r) auto
qed

lemma load_stored_policy:
  assumes nf: "no_faults db" "db_policy db = tables_of c" and ok: "config_ok L c" "config_times_valid c"
  shows "load_policy_config L db = Inr (by_id c) \<and> has_policy_config db = Inr True"
proof -
  have u: "distinct (map rc_id (cfg_rules c))" "distinct (map ac_id (cfg_app_rules c))" "distinct (map sc_id (cfg_schedules c))"
    using ok(1) by (simp_all add: config_ok_def unique_ids_def)
  have "load_policy_strict_mode db = Inr (cfg_strict_mode c)"
    using nf by (simp add: load_policy_strict_mode_def tables_of_def)
  moreover have "validate_config L (by_id c) = Inr ()"
    using ok(1) by (simp add: validate_config_ok config_ok_by_id)
  moreover have "has_policy_config db = Inr True"
    using nf by (simp add: has_policy_config_def tables_of_def Let_def)
  ultimately show ?thesis
    using load_allowances_back [OF nf] load_schedules_back [OF nf u(3)] load_lists_back [OF nf u(1,2)] ok(2)
    by (simp add: load_policy_config_def by_id_def Let_def config_times_valid_def)
qed

text \<open>A load that reached its end read what it would have read had no statement been able to fail.\<close>

definition without_faults :: "database \<Rightarrow> database" where
  "without_faults db = db\<lparr>db_fault := (\<lambda>_. None)\<rparr>"

lemma without_faults_simps [simp]:
  "no_faults (without_faults db)" "db_fault (without_faults db) tag = None" "db_policy (without_faults db) = db_policy db"
  by (simp_all add: without_faults_def no_faults_def)

lemma try_map_mono:
  "try_map f xs = Inr ys \<Longrightarrow> (\<And>x y. f x = Inr y \<Longrightarrow> g x = Inr y) \<Longrightarrow> try_map g xs = Inr ys"
  unfolding try_map_Inr_iff by (erule list_all2_mono) simp

lemma loads_without_faults:
  "load_policy_schedule_windows i db = Inr ws \<Longrightarrow> load_policy_schedule_windows i (without_faults db) = Inr ws"
  "load_site_list db row = Inr r \<Longrightarrow> load_site_list (without_faults db) row = Inr r"
  "load_app_rule db row = Inr a \<Longrightarrow> load_app_rule (without_faults db) row = Inr a"
  by (auto simp: load_policy_schedule_windows_def load_site_list_def load_app_rule_def load_policy_site_list_patterns_def
      load_policy_site_list_schedule_ids_def load_policy_app_rule_matchers_def load_policy_app_rule_schedule_ids_def
      and_then_Inr_iff query_Inr)

lemma tables_without_faults:
  "load_policy_allowances db = Inr als \<Longrightarrow> load_policy_allowances (without_faults db) = Inr als"
  "load_policy_schedules db = Inr ss \<Longrightarrow> load_policy_schedules (without_faults db) = Inr ss"
  "load_policy_site_lists db = Inr rs \<Longrightarrow> load_policy_site_lists (without_faults db) = Inr rs"
  "load_policy_app_rules db = Inr rules \<Longrightarrow> load_policy_app_rules (without_faults db) = Inr rules"
  "load_policy_strict_mode db = Inr sm \<Longrightarrow> load_policy_strict_mode (without_faults db) = Inr sm"
proof -
  show "load_policy_schedules db = Inr ss \<Longrightarrow> load_policy_schedules (without_faults db) = Inr ss"
    unfolding load_policy_schedules_def
    by (simp add: and_then_Inr_iff query_Inr, elim conjE, erule try_map_mono) (auto simp: and_then_Inr_iff dest: loads_without_faults(1))
  show "load_policy_site_lists db = Inr rs \<Longrightarrow> load_policy_site_lists (without_faults db) = Inr rs"
    unfolding load_policy_site_lists_def
    by (simp add: and_then_Inr_iff query_Inr, elim conjE, erule try_map_mono) (rule loads_without_faults)
  show "load_policy_app_rules db = Inr rules \<Longrightarrow> load_policy_app_rules (without_faults db) = Inr rules"
    unfolding load_policy_app_rules_def
    by (simp add: and_then_Inr_iff query_Inr, elim conjE, erule try_map_mono) (rule loads_without_faults)
qed (auto simp: load_policy_allowances_def load_policy_strict_mode_def and_then_Inr_iff query_Inr)

lemma load_without_faults:
  assumes "load_policy_config L db = Inr c"
  shows "load_policy_config L (without_faults db) = Inr c"
proof -
  obtain als ss rs rules sm where
    "load_policy_allowances db = Inr als" "load_policy_schedules db = Inr ss" "load_policy_site_lists db = Inr rs"
    "load_policy_app_rules db = Inr rules" "load_policy_strict_mode db = Inr sm"
    and c: "and_then (validate_config L \<lparr>cfg_rules = rs, cfg_app_rules = rules, cfg_schedules = ss, cfg_allowances = als,
        cfg_strict_mode = sm\<rparr>) (\<lambda>_. Inr \<lparr>cfg_rules = rs, cfg_app_rules = rules, cfg_schedules = ss, cfg_allowances = als,
        cfg_strict_mode = sm\<rparr>) = Inr c"
    using assms unfolding load_policy_config_def Let_def and_then_Inr_iff by blast
  note parts = this(1) [THEN tables_without_faults(1)] this(2) [THEN tables_without_faults(2)]
    this(3) [THEN tables_without_faults(3)] this(4) [THEN tables_without_faults(4)] this(5) [THEN tables_without_faults(5)]
  show ?thesis using c by (simp add: load_policy_config_def Let_def parts)
qed

lemma loaded_stored_policy:
  assumes "load_policy_config L db = Inr c'" "db_policy db = tables_of c" "config_ok L c" "config_times_valid c"
  shows "c' = by_id c"
  using load_without_faults [OF assms(1)] load_stored_policy [of "without_faults db" c L] assms(2-4) by simp

text \<open>
  C38. The round trip of the policy: after a successful replacement the stored policy, loaded and
  validated again, is the one written, with its lists, schedules and allowances in the order of
  their ids. (The times of a policy are valid: the type has no other values.)
\<close>

theorem stored_policy_roundtrip:
  assumes "no_faults db" "config_times_valid c" "replace_policy_config L c db = (Inr (), db')"
  shows "load_policy_config L db' = Inr (by_id c) \<and> has_policy_config db' = Inr True"
proof -
  have ok: "config_ok L c" "put_policy c (db_policy db) = Inr (tables_of c)"
  proof -
    show "config_ok L c" using assms(3) replace_policy_no_faults [OF assms(1), of L c]
      by (auto simp: validate_config_def validate_iff [symmetric] split: sum.splits)
    moreover have "attachments_distinct c"
      using assms(3) replace_policy_no_faults [OF assms(1), of L c] put_policy_distinct by (auto split: sum.splits)
    ultimately show "put_policy c (db_policy db) = Inr (tables_of c)" by (rule put_policy_tables)
  qed
  then have db': "db' = revoke_missing (db\<lparr>db_policy := tables_of c\<rparr>)"
    using assms(3) replace_policy_no_faults [OF assms(1), of L c] by (auto split: sum.splits)
  have nf: "no_faults db'" "db_policy db' = tables_of c" using assms(1) by (simp_all add: db' revoke_missing_def)
  show ?thesis by (rule load_stored_policy [OF nf ok(1) assms(2)])
qed

definition sample_policy :: config where
  "sample_policy = \<lparr>
     cfg_rules = [\<lparr>rc_id = ''video'', rc_name = ''Video'', rc_tier = ControlledAccess, rc_enabled = True,
         rc_mode = Blocklist, rc_patterns = [\<lparr>rp_kind = Domain, rp_value = ''video.org'', rp_match_subdomains = True\<rparr>],
         rc_schedule_ids = [''night''], rc_allowance_id = Some ''half-hour''\<rparr>,
       \<lparr>rc_id = ''news'', rc_name = ''News'', rc_tier = Hard, rc_enabled = True, rc_mode = Blocklist,
         rc_patterns = [\<lparr>rp_kind = Domain, rp_value = ''news.com'', rp_match_subdomains = False\<rparr>],
         rc_schedule_ids = [], rc_allowance_id = None\<rparr>],
     cfg_app_rules = [],
     cfg_schedules = [night_schedule],
     cfg_allowances = [\<lparr>al_id = ''half-hour'', al_name = None, al_daily_minutes = 30\<rparr>],
     cfg_strict_mode = default_strict_mode\<rparr>"

lemma sample_policy_ok: "config_ok sample_lib sample_policy"
proof -
  have "identifier_ok ''video''" "identifier_ok ''news''" "identifier_ok ''night''" "identifier_ok ''half-hour''"
    "identifier_ok ''video.org''" "identifier_ok ''news.com''" "trim ''Video'' \<noteq> []" "trim ''News'' \<noteq> []"
    "\<not> contains ''video.org'' ''://''" "\<not> contains ''news.com'' ''://''"
    "\<not> starts_with ''video.org'' ''.''" "\<not> starts_with ''news.com'' ''.''"
    "\<not> ends_with ''video.org'' ''.''" "\<not> ends_with ''news.com'' ''.''"
    by code_simp+
  then show ?thesis
    by (simp add: config_ok_def sample_policy_def unique_ids_def rule_ok_def pattern_ok_def night_schedule_def
        linked_allowances_def default_strict_mode_def default_strict_grace_seconds_def)
qed

lemma sample_policy_attachments: "attachments_distinct sample_policy"
  by (simp add: attachments_distinct_def sample_policy_def)

lemma sample_policy_times: "config_times_valid sample_policy"
  by (simp add: config_times_valid_def sample_policy_def night_schedule_def tod_valid_def)

text \<open>The same policy with the schedule attached twice.\<close>

definition twice_attached :: config where
  "twice_attached = sample_policy\<lparr>cfg_rules :=
     map (\<lambda>r. r\<lparr>rc_schedule_ids := rc_schedule_ids r @ rc_schedule_ids r\<rparr>) (cfg_rules sample_policy)\<rparr>"

lemma twice_attached_ok: "config_ok sample_lib twice_attached" "\<not> attachments_distinct twice_attached"
proof -
  have "linked_allowances twice_attached = linked_allowances sample_policy"
    by (simp add: linked_allowances_def twice_attached_def sample_policy_def)
  then show "config_ok sample_lib twice_attached"
    using sample_policy_ok
    by (simp add: config_ok_def twice_attached_def rule_ok_def comp_def image_image app_rule_ok_def)
  show "\<not> attachments_distinct twice_attached"
    by (simp add: attachments_distinct_def twice_attached_def sample_policy_def)
qed

text \<open>A policy is stored; one with a repeated attachment is refused; one whose last statement fails is undone.\<close>

definition failing_revocation :: database where
  "failing_revocation = empty_database\<lparr>db_fault := [''unlock_rule_targets.revoke'' \<mapsto> ConstraintViolated ''disk'']\<rparr>"

theorem replace_policy_all_or_nothing_witness:
  "fst (replace_policy_config sample_lib sample_policy empty_database) = Inr ()
   \<and> validate_config sample_lib twice_attached = Inr ()
   \<and> snd (replace_policy_config sample_lib twice_attached empty_database) = empty_database
   \<and> snd (replace_policy_config sample_lib sample_policy failing_revocation) = failing_revocation"
proof -
  note plain = replace_policy_all_or_nothing [where L = sample_lib and c = sample_policy and db = empty_database]
    and twice = replace_policy_all_or_nothing [where L = sample_lib and c = twice_attached and db = empty_database]
    and failing = replace_policy_all_or_nothing [where L = sample_lib and c = sample_policy and db = failing_revocation]
  have "isl (fst (replace_policy_config sample_lib sample_policy failing_revocation))" by code_simp
  then have "snd (replace_policy_config sample_lib sample_policy failing_revocation) = failing_revocation"
    using failing by (auto split: prod.splits sum.splits)
  moreover have "snd (replace_policy_config sample_lib twice_attached empty_database) = empty_database"
    using twice twice_attached_ok(2) by (auto split: prod.splits sum.splits)
  moreover have "fst (replace_policy_config sample_lib sample_policy empty_database) = Inr ()"
    using plain empty_database_no_faults sample_policy_ok sample_policy_attachments by blast
  ultimately show ?thesis using twice_attached_ok validate_config_ok by blast
qed

theorem stored_policy_roundtrip_witness:
  "load_policy_config sample_lib (snd (replace_policy_config sample_lib sample_policy empty_database))
     = Inr (by_id sample_policy)"
  using stored_policy_roundtrip [OF empty_database_no_faults sample_policy_times
      replace_policy_success [OF empty_database_no_faults sample_policy_ok sample_policy_attachments]]
  by (simp add: replace_policy_success sample_policy_ok sample_policy_attachments)

section \<open>Unlocks of deleted lists\<close>

definition list_ids :: "config \<Rightarrow> string set" where
  "list_ids c = rc_id ` set (cfg_rules c) \<union> ac_id ` set (cfg_app_rules c)"

lemma granted_after_revocation:
  assumes "db_policy db = tables_of c"
  shows "granted_unlocks r now (revoke_missing db) = (if r \<in> list_ids c then granted_unlocks r now db else [])"
proof -
  have ids: "lr_id ` set (pt_site_lists (db_policy db)) \<union> lr_id ` set (pt_app_rules (db_policy db)) = list_ids c"
    by (simp add: assms tables_of_def list_ids_def image_image site_list_row_of_def app_list_row_of_def)
  have rows: "db_unlock_targets (revoke_missing db) =
      map (\<lambda>t. if \<not> ut_revoked t \<and> ut_rule_id t \<notin> list_ids c then t\<lparr>ut_revoked := True\<rparr> else t) (db_unlock_targets db)"
    by (simp add: revoke_missing_def flip: ids)
  have "filter (\<lambda>t. ut_rule_id t = r \<and> \<not> ut_revoked t)
      (map (\<lambda>t. if \<not> ut_revoked t \<and> ut_rule_id t \<notin> list_ids c then t\<lparr>ut_revoked := True\<rparr> else t) ts)
      = (if r \<in> list_ids c then filter (\<lambda>t. ut_rule_id t = r \<and> \<not> ut_revoked t) ts else [])" for ts
    by (induction ts) auto
  then have "filter (\<lambda>t. ut_rule_id t = r \<and> \<not> ut_revoked t) (db_unlock_targets (revoke_missing db))
      = (if r \<in> list_ids c then filter (\<lambda>t. ut_rule_id t = r \<and> \<not> ut_revoked t) (db_unlock_targets db) else [])"
    unfolding rows .
  moreover have "db_unlocks (revoke_missing db) = db_unlocks db" by (simp add: revoke_missing_def)
  ultimately show ?thesis by (simp add: granted_unlocks_def)
qed

text \<open>
  Replacing the policy revokes the unlocks of the lists that are not in it, and only those: a
  list has an unlock in force afterwards exactly if it is in the new policy and had one before. The
  requests themselves stay, so the hourly count and the reasons used are as before, and recreating a
  list does not bring its unlock back.
\<close>

lemma deleted_lists_lose_their_unlocks:
  assumes "no_faults db" "replace_policy_config L c db = (Inr (), db')"
  shows "((\<exists>s. active_unlock_for_rule r now db' = Inr (Some s)) \<longleftrightarrow>
      r \<in> list_ids c \<and> (\<exists>s. active_unlock_for_rule r now db = Inr (Some s)))
    \<and> count_unlocks_since since db' = count_unlocks_since since db \<and> unlock_reasons db' = unlock_reasons db"
proof -
  obtain T where T: "put_policy c (db_policy db) = Inr T" "config_ok L c"
    "db' = revoke_missing (db\<lparr>db_policy := T\<rparr>)"
    using assms replace_policy_no_faults [OF assms(1), of L c]
    by (auto simp: validate_config_def validate_iff [symmetric] split: sum.splits)
  then have t: "T = tables_of c" using put_policy_tables put_policy_distinct by fastforce
  have nf: "no_faults db'" using assms(1) T(3) by (simp add: revoke_missing_def)
  have "granted_unlocks r now (db\<lparr>db_policy := T\<rparr>) = granted_unlocks r now db" by (simp add: granted_unlocks_def)
  then have "granted_unlocks r now db' = (if r \<in> list_ids c then granted_unlocks r now db else [])"
    using granted_after_revocation [of "db\<lparr>db_policy := T\<rparr>" c] T(3) t by simp
  moreover have "count_unlocks_since since db' = count_unlocks_since since db" "unlock_reasons db' = unlock_reasons db"
    by (simp_all add: T(3) count_unlocks_since_def unlock_reasons_def query_def revoke_missing_def count_since_def
        split: option.splits)
  ultimately show ?thesis using active_unlock_Some nf assms(1) by simp
qed

lemma deleted_lists_lose_their_unlocks_witness:
  "\<not> (\<exists>s. active_unlock_for_rule ''old'' 5000
     (snd (replace_policy_config sample_lib sample_policy empty_database)) = Inr (Some s))"
proof -
  note r = replace_policy_success [OF empty_database_no_faults sample_policy_ok sample_policy_attachments]
  show ?thesis using deleted_lists_lose_their_unlocks [OF empty_database_no_faults r, of "''old''" 5000] r
    by (simp add: list_ids_def sample_policy_def)
qed

end
