(* ===== verification/Core.thy ===== *)
theory Core imports UnlockLaws PolicyRoundtrip begin

text \<open>
  The core object of \<^verbatim>\<open>focus-core/src/core.rs\<close>, a configuration with the database it is stored in, the
  errors of the daemon (\<^verbatim>\<open>focusd/src/error.rs\<close>), and the combinators its operations are written with. A
  daemon operation maps the state it works on to its result and the state after it: an error keeps
  what was done before it. The lock around the core serialises the requests and is not poisoned.
\<close>

section \<open>Errors of the daemon\<close>

text \<open>One constructor per message of \<open>DaemonError::InvalidRequest\<close>, with the values it shows.\<close>

datatype rejection =
  InvalidNow string
| ClockTampered string
| UptimeUnavailable
| InvalidUptime string
| InvalidStoredClock string
| ImportConflict string string
| ListDoesNotExist string string
| HardListInDetox string string
| DetoxTooShort
| DetoxTooLong u32
| DetoxWithoutTargets
| DetoxDuringUninstall
| DetoxDoesNotExist string
| DetoxCannotBeCancelled
| ActiveList string string
| ListInDetox string string
| ActiveSchedule string
| ActiveAllowance string
| ForeignAllowance
| AllowanceInUse string string string
| InvalidAccessMode string
| InvalidIncognitoMode string
| InvalidDisableScope string
| AllowlistIsActive
| TooManyUrlPatterns nat
| AccessClosed string string
| CredentialRequired
| CredentialMismatch
| CredentialTooShort
| CredentialConfigured
| UninstallDuringDetox
| SerialInvalid
| TooManyThresholds
| ThresholdOutOfRange
| TooManyAcknowledged
| NotificationIdNotPositive
| DeliveryDetailTooLong
| NotificationDoesNotExist int
| DiagnosticBatchSize
| DiagnosticInvalid string
| DiagnosticSeverity
| DiagnosticMessageSize
| DiagnosticNullByte
| DiagnosticObservedAt
| DiagnosticTooLong string
| CommandFailed string
| NoRecoveryPath string
| ManagerNotConfigured string
| RecoveryProtection string string

datatype daemon_error =
  DaemonIo string
| DaemonJson string
| DaemonCore error
| DaemonConfig config_error
| LockPoisoned
| InvalidRequest rejection
| UnsupportedMethod string
| MissingPolicyRecovery string
| PolicyPersistenceRollback error daemon_error
| InvalidSocketActivation nat
| SocketActivationUnavailable string
| KillFailed u32 int
| KillBatchFailed string

definition invalid :: "rejection \<Rightarrow> daemon_error + 'a" where
  "invalid r = Inl (InvalidRequest r)"

section \<open>Operations with an error and a state\<close>

type_synonym ('s, 'a) action = "'s \<Rightarrow> (daemon_error + 'a) \<times> 's"

definition act_return :: "'a \<Rightarrow> ('s, 'a) action" where
  "act_return x s = (Inr x, s)"

text \<open>A computation that only reads the state.\<close>

definition act_read :: "('s \<Rightarrow> daemon_error + 'a) \<Rightarrow> ('s, 'a) action" where
  "act_read f s = (f s, s)"

definition act_bind :: "('s, 'a) action \<Rightarrow> ('a \<Rightarrow> ('s, 'b) action) \<Rightarrow> ('s, 'b) action" where
  "act_bind m f s = (case m s of (Inl e, s') \<Rightarrow> (Inl e, s') | (Inr x, s') \<Rightarrow> f x s')"

definition act_when :: "bool \<Rightarrow> ('s, unit) action \<Rightarrow> ('s, unit) action" where
  "act_when b m = (if b then m else act_return ())"

fun act_for :: "'a list \<Rightarrow> ('a \<Rightarrow> ('s, unit) action) \<Rightarrow> ('s, unit) action" where
  "act_for [] f = act_return ()"
| "act_for (x # xs) f = act_bind (f x) (\<lambda>_. act_for xs f)"

text \<open>An operation whose error is dropped or reported elsewhere: \<open>let _ = ...\<close> and the \<open>eprintln\<close> branches.\<close>

definition act_ignore :: "('s, 'a) action \<Rightarrow> ('s, unit) action" where
  "act_ignore m s = (Inr (), snd (m s))"

definition db_action :: "'a operation \<Rightarrow> (database, 'a) action" where
  "db_action m db = (map_err DaemonCore (fst (m db)), snd (m db))"

section \<open>The core object\<close>

record focus_core =
  fc_config :: config
  fc_database :: database

definition on_database :: "(database, 'a) action \<Rightarrow> (focus_core, 'a) action" where
  "on_database m core = (let (r, db) = m (fc_database core) in (r, core\<lparr>fc_database := db\<rparr>))"

definition on_db :: "'a operation \<Rightarrow> (focus_core, 'a) action" where
  "on_db m = on_database (db_action m)"

definition core_query :: "(database \<Rightarrow> error + 'a) \<Rightarrow> focus_core \<Rightarrow> daemon_error + 'a" where
  "core_query q core = map_err DaemonCore (q (fc_database core))"

definition core_new :: "'u lib \<Rightarrow> config \<Rightarrow> database \<Rightarrow> error + focus_core" where
  "core_new L config db = and_then (validate_config L config) (\<lambda>_. Inr \<lparr>fc_config = config, fc_database = db\<rparr>)"

text \<open>
  Opening the core over an opened database: the stored policy, or the configuration file
  (\<open>loaded\<close>, what \<open>load_config\<close> makes of it) stored now.
\<close>

definition core_open :: "'u lib \<Rightarrow> error + config \<Rightarrow> database \<Rightarrow> (error + focus_core) \<times> database" where
  "core_open L loaded = db_bind
     (db_bind (reading has_policy_config) (\<lambda>has.
        if has then reading (load_policy_config L)
        else db_bind (reading (\<lambda>_. loaded)) (\<lambda>config.
          db_bind (replace_policy_config L config) (\<lambda>_. db_return config))))
     (\<lambda>config. reading (core_new L config))"

definition replace_config :: "'u lib \<Rightarrow> config \<Rightarrow> (focus_core, unit) action" where
  "replace_config L config =
     act_bind (act_read (\<lambda>_. map_err DaemonCore (validate_config L config))) (\<lambda>_ core.
       (Inr (), core\<lparr>fc_config := config\<rparr>))"

definition core_evaluate_url :: "'u lib \<Rightarrow> focus_core \<Rightarrow> string \<Rightarrow> datetime \<Rightarrow> decision" where
  "core_evaluate_url L core url now = evaluate_url L (context_new (fc_config core) now) url (fc_database core)"

definition request_unlock_at :: "'u lib \<Rightarrow> string \<Rightarrow> string \<Rightarrow> datetime \<Rightarrow> (focus_core, unlock_state) action" where
  "request_unlock_at L target reason now core =
     on_db (request_unlock L (context_new (fc_config core) now) target reason) core"

section \<open>Laws of the combinators\<close>

lemma act_simps [simp]:
  "act_return x s = (Inr x, s)" "act_read f s = (f s, s)"
  "act_bind (act_return x) g = g x"
  "act_when True m = m" "act_when False m = act_return ()"
  by (simp_all add: act_return_def act_read_def act_bind_def act_when_def fun_eq_iff)

lemma invalid_not_Inr [simp]: "invalid r \<noteq> Inr x" "Inr x \<noteq> invalid r"
  by (simp_all add: invalid_def)

lemma act_bind_Inr:
  "act_bind m f s = (Inr y, s'') \<longleftrightarrow> (\<exists>x s'. m s = (Inr x, s') \<and> f x s' = (Inr y, s''))"
  by (auto simp: act_bind_def split: prod.splits sum.splits)

lemma act_read_bind_Inr:
  "act_bind (act_read q) f s = (Inr y, s') \<longleftrightarrow> (\<exists>x. q s = Inr x \<and> f x s = (Inr y, s'))"
  by (auto simp: act_bind_Inr)

lemma act_bind_Inl:
  "act_bind m f s = (Inl e, s'') \<longleftrightarrow> m s = (Inl e, s'') \<or> (\<exists>x s'. m s = (Inr x, s') \<and> f x s' = (Inl e, s''))"
  by (auto simp: act_bind_def split: prod.splits sum.splits)

lemma act_bind_step: "m s = (Inr x, s') \<Longrightarrow> act_bind m f s = f x s'"
  by (simp add: act_bind_def)

lemma db_action_Inr: "db_action m db = (Inr x, db') \<longleftrightarrow> m db = (Inr x, db')"
  by (cases "m db") (auto simp: db_action_def)

lemma on_database_Inr:
  "on_database m core = (Inr x, core') \<longleftrightarrow>
     (\<exists>db. m (fc_database core) = (Inr x, db) \<and> core' = core\<lparr>fc_database := db\<rparr>)"
  by (auto simp: on_database_def Let_def split: prod.splits)

lemma on_db_Inr:
  "on_db m core = (Inr x, core') \<longleftrightarrow>
     (\<exists>db. m (fc_database core) = (Inr x, db) \<and> core' = core\<lparr>fc_database := db\<rparr>)"
  by (simp add: on_db_def on_database_Inr db_action_Inr)

lemma on_db_config [simp, frame]: "fc_config (snd (on_db m core)) = fc_config core"
  by (simp add: on_db_def on_database_def Let_def split: prod.splits)

lemma core_query_Inr [simp]: "core_query q core = Inr x \<longleftrightarrow> q (fc_database core) = Inr x"
  by (simp add: core_query_def)

text \<open>What an operation keeps, with or without an error.\<close>

definition act_keeps :: "('s \<Rightarrow> bool) \<Rightarrow> ('s, 'a) action \<Rightarrow> bool" where
  "act_keeps P m \<longleftrightarrow> (\<forall>s. P s \<longrightarrow> P (snd (m s)))"

lemma act_keeps_return [intro!]: "act_keeps P (act_return x)"
  by (simp add: act_keeps_def)

lemma act_keeps_read [intro!]: "act_keeps P (act_read q)"
  by (simp add: act_keeps_def)

lemma act_keeps_bind: "act_keeps P m \<Longrightarrow> (\<And>x. act_keeps P (f x)) \<Longrightarrow> act_keeps P (act_bind m f)"
  by (auto simp: act_keeps_def act_bind_def split: prod.splits sum.splits)

lemma act_keeps_when: "act_keeps P m \<Longrightarrow> act_keeps P (act_when b m)"
  by (auto simp: act_when_def)

lemma act_keeps_for: "(\<And>x. x \<in> set xs \<Longrightarrow> act_keeps P (f x)) \<Longrightarrow> act_keeps P (act_for xs f)"
  by (induction xs) (auto intro!: act_keeps_bind)

lemma act_keeps_ignore: "act_keeps P m \<Longrightarrow> act_keeps P (act_ignore m)"
  by (simp add: act_keeps_def act_ignore_def)

lemma act_keeps_db: "keeps P m \<Longrightarrow> act_keeps P (db_action m)"
  by (simp add: act_keeps_def keeps_def db_action_def)

lemma act_keeps_on_db: "keeps P m \<Longrightarrow> act_keeps (\<lambda>core. P (fc_database core)) (on_db m)"
  by (simp add: act_keeps_def keeps_def on_db_def on_database_def db_action_def Let_def)

lemma act_keepsD: "act_keeps P m \<Longrightarrow> P s \<Longrightarrow> m s = (r, s') \<Longrightarrow> P s'"
  by (force simp: act_keeps_def)

lemmas act_keeps_rules = act_keeps_bind act_keeps_when act_keeps_for act_keeps_ignore act_keeps_db

end
