(* ===== verification/ClockGuard.thy ===== *)
theory ClockGuard imports Core begin

text \<open>
  The clock guard of \<^verbatim>\<open>focusd/src/clock_guard.rs\<close>: at every request the wall clock is compared with the
  monotonic uptime of the machine, against the sample kept in the service state by the check before;
  a movement that does not fit is latched as tampering. The texts of times and of 64-bit floats are
  operations of crates and of the machine's float unit and are fields of \<open>host_lib\<close>; what the machine
  says at one check is a \<open>clock_reading\<close>.
\<close>

section \<open>The machine\<close>

text \<open>
  \<open>hl_rfc3339\<close> is \<open>to_rfc3339\<close> of a UTC time and \<open>hl_parse_rfc3339\<close> its parser (with the error text),
  \<open>hl_local_offset\<close> the offset of the local time zone; \<open>'f\<close> stands for \<open>f64\<close> with the operations used:
  parsing, printing with a number of decimals, subtraction, \<open>x < -1.0\<close> and \<open>(x * 1000.0) as i64\<close>.
\<close>

record 'f host_lib =
  hl_rfc3339 :: "instant \<Rightarrow> string"
  hl_parse_rfc3339 :: "string \<Rightarrow> string + instant"
  hl_local_offset :: "instant \<Rightarrow> int"
  hl_f64_parse :: "string \<Rightarrow> string + 'f"
  hl_f64_text :: "nat \<Rightarrow> 'f \<Rightarrow> string"
  hl_f64_minus :: "'f \<Rightarrow> 'f \<Rightarrow> 'f"
  hl_f64_below_minus_one :: "'f \<Rightarrow> bool"
  hl_f64_millis :: "'f \<Rightarrow> int"
  hl_f64_zero :: 'f

text \<open>The local time, and what reading the boot id and the uptime file gives.\<close>

record clock_reading =
  cr_now :: datetime
  cr_boot_id :: "string + string"
  cr_uptime :: "string + string"

function show_digits :: "int \<Rightarrow> string" where
  "show_digits n = (if n < 10 then [digit_char (nat n)] else show_digits (n div 10) @ [digit_char (nat (n mod 10))])"
  by auto
termination
  by (relation "measure nat") (auto simp: nat_less_iff)

declare show_digits.simps [simp del]

definition show_int :: "int \<Rightarrow> string" where
  "show_int n = (if n < 0 then CHR ''-'' # show_digits (- n) else show_digits n)"

section \<open>Constants\<close>

definition status_key :: string where "status_key = ''clock_guard.status''"
definition detail_key :: string where "detail_key = ''clock_guard.detail''"
definition last_wall_utc_key :: string where "last_wall_utc_key = ''clock_guard.last_wall_utc''"
definition last_boot_id_key :: string where "last_boot_id_key = ''clock_guard.last_boot_id''"
definition last_boottime_seconds_key :: string where
  "last_boottime_seconds_key = ''clock_guard.last_boottime_seconds''"
definition status_ok :: string where "status_ok = ''ok''"
definition status_tampered :: string where "status_tampered = ''tampered''"

definition max_wall_drift_seconds :: int where "max_wall_drift_seconds = 300"
definition max_backward_reboot_seconds :: int where "max_backward_reboot_seconds = 300"

lemmas clock_keys = status_key_def detail_key_def last_wall_utc_key_def last_boot_id_key_def
  last_boottime_seconds_key_def

lemmas clock_states = status_ok_def status_tampered_def

section \<open>Samples\<close>

record 'f clock_sample =
  cs_wall_utc :: instant
  cs_boot_id :: string
  cs_boottime_seconds :: 'f

record 'f clock_integrity_status =
  ci_state :: string
  ci_detail :: string
  ci_checked_at :: instant
  ci_last_wall_utc :: "instant option"
  ci_boot_id :: string
  ci_boottime_seconds :: 'f

record 'f guarded =
  gn_now :: datetime
  gn_integrity :: "'f clock_integrity_status"

definition read_boot_id :: "clock_reading \<Rightarrow> daemon_error + string" where
  "read_boot_id rd = and_then (map_err DaemonIo (cr_boot_id rd)) (\<lambda>s. Inr (trim s))"

definition read_boottime_seconds :: "'f host_lib \<Rightarrow> clock_reading \<Rightarrow> daemon_error + 'f" where
  "read_boottime_seconds H rd =
     and_then (map_err DaemonIo (cr_uptime rd)) (\<lambda>contents.
       case split_whitespace contents of
         [] \<Rightarrow> invalid UptimeUnavailable
       | word # _ \<Rightarrow> map_err (\<lambda>e. InvalidRequest (InvalidUptime e)) (hl_f64_parse H word))"

definition current_sample :: "'f host_lib \<Rightarrow> clock_reading \<Rightarrow> instant \<Rightarrow> daemon_error + 'f clock_sample" where
  "current_sample H rd wall_utc =
     and_then (read_boot_id rd) (\<lambda>boot_id.
     and_then (read_boottime_seconds H rd) (\<lambda>boottime.
       Inr \<lparr>cs_wall_utc = wall_utc, cs_boot_id = boot_id, cs_boottime_seconds = boottime\<rparr>))"

definition parse_utc :: "'f host_lib \<Rightarrow> string \<Rightarrow> daemon_error + instant" where
  "parse_utc H value = map_err (\<lambda>e. InvalidRequest (InvalidStoredClock e)) (hl_parse_rfc3339 H value)"

text \<open>The stored wall time, parsed when there is one.\<close>

definition stored_wall :: "'f host_lib \<Rightarrow> database \<Rightarrow> daemon_error + instant option" where
  "stored_wall H db =
     and_then (map_err DaemonCore (service_state last_wall_utc_key db)) (\<lambda>value.
       case value of
         None \<Rightarrow> Inr None
       | Some text \<Rightarrow> and_then (parse_utc H text) (\<lambda>t. Inr (Some t)))"

definition service_state_or :: "string \<Rightarrow> string \<Rightarrow> database \<Rightarrow> daemon_error + string" where
  "service_state_or fallback key db =
     and_then (map_err DaemonCore (service_state key db)) (\<lambda>value.
       Inr (case value of None \<Rightarrow> fallback | Some s \<Rightarrow> s))"

section \<open>The comparison\<close>

text \<open>The addition panics outside the calendar of \<open>chrono\<close>.\<close>

definition add_millis :: "'u lib \<Rightarrow> instant \<Rightarrow> int \<Rightarrow> daemon_error + instant" where
  "add_millis L t ms =
     (let sum = t + ms * 1000000 in
      if first_day L \<le> day_number sum \<and> day_number sum \<le> last_day L then Inr sum
      else Inl (DaemonCore (Panicked ''`DateTime + TimeDelta` overflowed'')))"

definition backwards_text :: "int \<Rightarrow> string" where
  "backwards_text backward = ''System clock moved backwards by '' @ show_int backward @ ''s across reboot.''"

definition uptime_backwards_text :: string where
  "uptime_backwards_text = ''System monotonic uptime moved backwards.''"

definition drift_text :: "'f host_lib \<Rightarrow> int \<Rightarrow> 'f \<Rightarrow> string" where
  "drift_text H drift elapsed = ''System clock drifted by '' @ show_int drift
     @ ''s while monotonic uptime advanced by '' @ hl_f64_text H 1 elapsed @ ''s.''"

definition clock_violation ::
  "'u lib \<Rightarrow> 'f host_lib \<Rightarrow> 'f clock_sample \<Rightarrow> instant option \<Rightarrow> string option \<Rightarrow> 'f option
     \<Rightarrow> daemon_error + string option" where
  "clock_violation L H sample previous_wall previous_boot_id previous_boottime =
     (case (previous_wall, previous_boot_id, previous_boottime) of
        (Some wall, Some boot_id, Some boottime) \<Rightarrow>
          if boot_id \<noteq> cs_boot_id sample then
            let backward = num_seconds (wall - cs_wall_utc sample) in
            Inr (if backward > max_backward_reboot_seconds then Some (backwards_text backward) else None)
          else
            let elapsed = hl_f64_minus H (cs_boottime_seconds sample) boottime in
            if hl_f64_below_minus_one H elapsed then Inr (Some uptime_backwards_text)
            else and_then (add_millis L wall (hl_f64_millis H elapsed)) (\<lambda>expected_wall.
              let drift = num_seconds (cs_wall_utc sample - expected_wall) in
              Inr (if \<bar>drift\<bar> > max_wall_drift_seconds then Some (drift_text H drift elapsed) else None))
      | _ \<Rightarrow> Inr None)"

section \<open>The check\<close>

definition persist_sample ::
  "'f host_lib \<Rightarrow> 'f clock_sample \<Rightarrow> string \<Rightarrow> string \<Rightarrow> (database, unit) action" where
  "persist_sample H sample state detail = db_action (set_service_states
     [(status_key, state), (detail_key, detail), (last_wall_utc_key, hl_rfc3339 H (cs_wall_utc sample)),
      (last_boot_id_key, cs_boot_id sample),
      (last_boottime_seconds_key, hl_f64_text H 3 (cs_boottime_seconds sample))]
     (cs_wall_utc sample))"

text \<open>
  The verdict of one check: what is already latched stays, with the detail of a new violation; a
  first violation is also recorded as an event, whose failure is ignored.
\<close>

definition clock_verdict ::
  "string \<Rightarrow> string \<Rightarrow> string option \<Rightarrow> instant \<Rightarrow> (database, string \<times> string) action" where
  "clock_verdict previous_state previous_detail violation wall_utc =
     (if previous_state = status_tampered then
        (case violation of
           Some v \<Rightarrow> act_return (status_tampered, v)
         | None \<Rightarrow> act_return (status_tampered,
             if previous_detail = [] then ''System clock tampering was detected previously.'' else previous_detail))
      else case violation of
        Some v \<Rightarrow> act_bind (act_ignore (db_action
            (record_event ''clock_tamper_detected'' (Some ''system_clock'') (Some (Details v)) wall_utc)))
          (\<lambda>_. act_return (status_tampered, v))
      | None \<Rightarrow> act_return (status_ok, ''Clock movement matches monotonic system uptime.''))"

text \<open>Everything the check reads before it writes: the sample, the stored state and the violation found.\<close>

definition observe_clock ::
  "'u lib \<Rightarrow> 'f host_lib \<Rightarrow> clock_reading \<Rightarrow> instant \<Rightarrow> database
     \<Rightarrow> daemon_error + 'f clock_sample \<times> string \<times> string \<times> instant option \<times> string option" where
  "observe_clock L H rd now db =
     and_then (current_sample H rd now) (\<lambda>sample.
     and_then (service_state_or status_ok status_key db) (\<lambda>previous_state.
     and_then (service_state_or [] detail_key db) (\<lambda>previous_detail.
     and_then (stored_wall H db) (\<lambda>previous_wall.
     and_then (map_err DaemonCore (service_state last_boot_id_key db)) (\<lambda>previous_boot_id.
     and_then (map_err DaemonCore (service_state last_boottime_seconds_key db)) (\<lambda>boottime_text.
     let previous_boottime = (case boottime_text of
           None \<Rightarrow> None
         | Some text \<Rightarrow> (case hl_f64_parse H text of Inl _ \<Rightarrow> None | Inr b \<Rightarrow> Some b)) in
     and_then (clock_violation L H sample previous_wall previous_boot_id previous_boottime) (\<lambda>violation.
       Inr (sample, previous_state, previous_detail, previous_wall, violation))))))))"

definition update_clock_integrity ::
  "'u lib \<Rightarrow> 'f host_lib \<Rightarrow> clock_reading \<Rightarrow> instant \<Rightarrow> (database, 'f clock_integrity_status) action" where
  "update_clock_integrity L H rd now =
     act_bind (act_read (observe_clock L H rd now)) (\<lambda>(sample, previous_state, previous_detail, previous_wall, violation).
     act_bind (clock_verdict previous_state previous_detail violation (cs_wall_utc sample)) (\<lambda>(state, detail).
     act_bind (persist_sample H sample state detail) (\<lambda>_.
       act_return \<lparr>ci_state = state, ci_detail = detail, ci_checked_at = cs_wall_utc sample,
         ci_last_wall_utc = previous_wall, ci_boot_id = cs_boot_id sample,
         ci_boottime_seconds = cs_boottime_seconds sample\<rparr>)))"

section \<open>Its clients\<close>

definition parse_optional_now :: "'f host_lib \<Rightarrow> clock_reading \<Rightarrow> string option \<Rightarrow> daemon_error + datetime" where
  "parse_optional_now H rd now =
     (case now of
        Some text \<Rightarrow> and_then (map_err (\<lambda>e. InvalidRequest (InvalidNow e)) (hl_parse_rfc3339 H text))
          (\<lambda>t. Inr \<lparr>dt_utc = t, dt_offset = hl_local_offset H t\<rparr>)
      | None \<Rightarrow> Inr (cr_now rd))"

definition guarded_now ::
  "'u lib \<Rightarrow> 'f host_lib \<Rightarrow> clock_reading \<Rightarrow> string option \<Rightarrow> bool \<Rightarrow> (database, 'f guarded) action" where
  "guarded_now L H rd client_now trust_client_now =
     (if trust_client_now then
        act_bind (act_read (\<lambda>_. parse_optional_now H rd client_now)) (\<lambda>now.
          act_return \<lparr>gn_now = now, gn_integrity = \<lparr>ci_state = status_ok,
            ci_detail = ''Client-supplied test time is trusted for this context.'',
            ci_checked_at = dt_utc now, ci_last_wall_utc = None, ci_boot_id = ''test'',
            ci_boottime_seconds = hl_f64_zero H\<rparr>\<rparr>)
      else act_bind (update_clock_integrity L H rd (dt_utc (cr_now rd))) (\<lambda>integrity.
        act_return \<lparr>gn_now = cr_now rd, gn_integrity = integrity\<rparr>))"

definition clock_status :: "'f host_lib \<Rightarrow> clock_reading \<Rightarrow> database \<Rightarrow> daemon_error + 'f clock_integrity_status" where
  "clock_status H rd db =
     and_then (current_sample H rd (dt_utc (cr_now rd))) (\<lambda>sample.
     and_then (service_state_or status_ok status_key db) (\<lambda>state.
     and_then (service_state_or ''Clock baseline has not detected suspicious movement.'' detail_key db) (\<lambda>detail.
     and_then (stored_wall H db) (\<lambda>last_wall_utc.
       Inr \<lparr>ci_state = state, ci_detail = detail, ci_checked_at = dt_utc (cr_now rd),
         ci_last_wall_utc = last_wall_utc, ci_boot_id = cs_boot_id sample,
         ci_boottime_seconds = cs_boottime_seconds sample\<rparr>))))"

definition ensure_trusted :: "'f host_lib \<Rightarrow> clock_reading \<Rightarrow> database \<Rightarrow> daemon_error + unit" where
  "ensure_trusted H rd db =
     and_then (clock_status H rd db) (\<lambda>current.
       if ci_state current = status_tampered then invalid (ClockTampered (ci_detail current)) else Inr ())"

definition is_tampered :: "'f host_lib \<Rightarrow> clock_reading \<Rightarrow> database \<Rightarrow> daemon_error + bool" where
  "is_tampered H rd db =
     and_then (clock_status H rd db) (\<lambda>current. Inr (ci_state current = status_tampered))"

section \<open>What a check reads and writes\<close>

definition clock_value :: "string \<Rightarrow> database \<Rightarrow> string option" where
  "clock_value key db = map_option fst (map_of (db_service_state db) key)"

definition latched :: "database \<Rightarrow> bool" where
  "latched db \<longleftrightarrow> clock_value status_key db = Some status_tampered"

lemma service_state_value: "service_state key db = Inr v \<Longrightarrow> v = clock_value key db"
  by (simp add: service_state_def query_Inr clock_value_def)

lemma service_state_or_value:
  "service_state_or d key db = Inr v \<Longrightarrow> v = (case clock_value key db of None \<Rightarrow> d | Some s \<Rightarrow> s)"
  by (auto simp: service_state_or_def and_then_Inr_iff dest: service_state_value)

lemma clock_value_written:
  "clock_value key (fold (\<lambda>kv db. db\<lparr>db_service_state := upsert (fst kv) (snd kv, t) (db_service_state db)\<rparr>) kvs db)
     = (case map_of (rev kvs) key of Some v \<Rightarrow> Some v | None \<Rightarrow> clock_value key db)"
  unfolding fold_service_puts clock_value_def
  by (simp add: services.read_fold_put rev_map map_of_stamped map_add_def split: option.splits)

lemma set_service_states_value:
  assumes "set_service_states kvs now db = (Inr (), db')"
  shows "clock_value key db' = (case map_of (rev kvs) key of Some v \<Rightarrow> Some v | None \<Rightarrow> clock_value key db)"
proof -
  have "db_for kvs (write_service_state (format_time now)) db =
    (if kvs = [] then (Inr (), db)
     else case db_fault db ''service_state.upsert'' of Some e \<Rightarrow> (Inl (ErrDatabase e), db)
      | None \<Rightarrow> (Inr (), fold (\<lambda>kv db. db\<lparr>db_service_state :=
          upsert (fst kv) (snd kv, format_time now) (db_service_state db)\<rparr>) kvs db))"
    unfolding write_service_state_def by (rule db_for_update_rows) simp
  then show ?thesis using assms
    by (auto simp: set_service_states_def transaction_Inr clock_value_written split: option.splits if_splits)
qed

lemma set_service_states_error: "set_service_states kvs now db = (Inl e, db') \<Longrightarrow> db' = db"
  unfolding set_service_states_def by (rule transaction_rollback)

lemma keys_distinct [simp]:
  "status_key \<noteq> detail_key" "status_key \<noteq> last_wall_utc_key" "status_key \<noteq> last_boot_id_key"
  "status_key \<noteq> last_boottime_seconds_key" "detail_key \<noteq> last_wall_utc_key" "detail_key \<noteq> last_boot_id_key"
  "detail_key \<noteq> last_boottime_seconds_key" "last_wall_utc_key \<noteq> last_boot_id_key"
  "last_wall_utc_key \<noteq> last_boottime_seconds_key" "last_boot_id_key \<noteq> last_boottime_seconds_key"
  by (simp_all add: clock_keys)

lemmas keys_distinct' [simp] = keys_distinct [symmetric]

lemma persisted_values:
  assumes "persist_sample H sample state detail db = (Inr (), db')"
  shows "clock_value status_key db' = Some state" "clock_value detail_key db' = Some detail"
    "clock_value last_wall_utc_key db' = Some (hl_rfc3339 H (cs_wall_utc sample))"
    "clock_value last_boot_id_key db' = Some (cs_boot_id sample)"
    "clock_value last_boottime_seconds_key db' = Some (hl_f64_text H 3 (cs_boottime_seconds sample))"
  using assms by (simp_all add: persist_sample_def db_action_Inr set_service_states_value)

lemma status_differ [simp]: "status_ok \<noteq> status_tampered"
  by (simp add: clock_states)

lemma verdict_Inr:
  assumes "clock_verdict p d v t db = (Inr (state, detail), db')"
  shows "state = (if p = status_tampered \<or> v \<noteq> None then status_tampered else status_ok)"
  using assms by (auto simp: clock_verdict_def act_bind_def act_ignore_def split: option.splits if_splits)

lemma latched_verdict: "clock_verdict status_tampered d v t db = (r, db') \<Longrightarrow> db' = db \<and> \<not> isl r"
  by (auto simp: clock_verdict_def split: option.splits)

lemma persist_error: "persist_sample H sample state detail db = (Inl e, db') \<Longrightarrow> db' = db"
  by (cases "set_service_states [(status_key, state), (detail_key, detail), (last_wall_utc_key, hl_rfc3339 H (cs_wall_utc sample)),
      (last_boot_id_key, cs_boot_id sample), (last_boottime_seconds_key, hl_f64_text H 3 (cs_boottime_seconds sample))]
      (cs_wall_utc sample) db")
    (auto simp: persist_sample_def db_action_def map_err_def split: sum.splits dest: set_service_states_error)

text \<open>A successful check: what it compared, what it reports and what it left for the next one.\<close>

lemma check_result:
  assumes "update_clock_integrity L H rd now db = (Inr g, db')"
  obtains sample previous_state previous_wall violation where
    "current_sample H rd now = Inr sample" "previous_state = (case clock_value status_key db of None \<Rightarrow> status_ok | Some s \<Rightarrow> s)"
    "stored_wall H db = Inr previous_wall"
    "clock_violation L H sample previous_wall (clock_value last_boot_id_key db)
       (case clock_value last_boottime_seconds_key db of None \<Rightarrow> None
        | Some text \<Rightarrow> (case hl_f64_parse H text of Inl _ \<Rightarrow> None | Inr b \<Rightarrow> Some b)) = Inr violation"
    "ci_state g = (if previous_state = status_tampered \<or> violation \<noteq> None then status_tampered else status_ok)"
    "ci_last_wall_utc g = previous_wall"
    "clock_value status_key db' = Some (ci_state g)"
    "clock_value last_wall_utc_key db' = Some (hl_rfc3339 H (cs_wall_utc sample))"
    "clock_value last_boot_id_key db' = Some (cs_boot_id sample)"
    "clock_value last_boottime_seconds_key db' = Some (hl_f64_text H 3 (cs_boottime_seconds sample))"
proof -
  obtain sample ps pd pw bid bt violation state detail db1
    where s: "current_sample H rd now = Inr sample" "service_state_or status_ok status_key db = Inr ps"
      "service_state_or [] detail_key db = Inr pd" "stored_wall H db = Inr pw"
      "service_state last_boot_id_key db = Inr bid" "service_state last_boottime_seconds_key db = Inr bt"
      "clock_violation L H sample pw bid
         (case bt of None \<Rightarrow> None | Some text \<Rightarrow> (case hl_f64_parse H text of Inl _ \<Rightarrow> None | Inr b \<Rightarrow> Some b)) = Inr violation"
    and v: "clock_verdict ps pd violation (cs_wall_utc sample) db = (Inr (state, detail), db1)"
    and p: "persist_sample H sample state detail db1 = (Inr (), db')"
    and g: "ci_state g = state" "ci_last_wall_utc g = pw"
    using assms by (auto simp: update_clock_integrity_def act_bind_Inr observe_clock_def and_then_Inr_iff Let_def)
  show thesis
    by (rule that [of sample ps pw violation])
      (use s g verdict_Inr [OF v] persisted_values [OF p] in
        \<open>auto dest: service_state_value service_state_or_value\<close>)
qed

lemma check_keeps_latch:
  assumes "latched db" "update_clock_integrity L H rd now db = (r, db')"
  shows "latched db'"
proof (cases r)
  case (Inr g)
  show ?thesis
    by (rule check_result [OF assms(2) [unfolded Inr]]) (use assms(1) in \<open>simp add: latched_def\<close>)
next
  case (Inl e)
  have ps: "observe_clock L H rd now db = Inr (sample, ps, rest) \<Longrightarrow> ps = status_tampered" for sample ps rest
    using assms(1) by (auto simp: observe_clock_def and_then_Inr_iff Let_def latched_def dest: service_state_or_value)
  have "db' = db" using assms(2) [unfolded Inl]
    by (auto simp: update_clock_integrity_def act_bind_Inl dest!: ps latched_verdict persist_error)
  then show ?thesis using assms(1) by simp
qed

section \<open>The latch\<close>

text \<open>
  A history of the database as the clock guard sees it: checks, with any result and any reading, and
  any other operation that leaves the row of the clock state alone.
\<close>

inductive clock_history :: "'u lib \<Rightarrow> 'f host_lib \<Rightarrow> database \<Rightarrow> database \<Rightarrow> bool"
  for L :: "'u lib" and H :: "'f host_lib" where
  start: "clock_history L H db db"
| check: "clock_history L H db db' \<Longrightarrow> update_clock_integrity L H rd now db' = (r, db'')
    \<Longrightarrow> clock_history L H db db''"
| other: "clock_history L H db db' \<Longrightarrow> clock_value status_key db'' = clock_value status_key db'
    \<Longrightarrow> clock_history L H db db''"

lemma history_keeps_latch: "clock_history L H db db' \<Longrightarrow> latched db \<Longrightarrow> latched db'"
  by (induction rule: clock_history.induct) (auto simp: latched_def dest: check_keeps_latch [unfolded latched_def])

lemma clock_status_latched:
  assumes "latched db"
  shows "ensure_trusted H rd db \<noteq> Inr ()" "is_tampered H rd db \<noteq> Inr False"
  using assms service_state_or_value [of status_ok status_key db]
  by (auto simp: ensure_trusted_def is_tampered_def clock_status_def and_then_Inr_iff latched_def)

text \<open>
  C24. Tampering is latched for good: once it was detected, every later check that succeeds reports a
  tampered clock, however well the clocks agree by then and whatever happened in between, and
  \<open>ensure_trusted\<close> lets nothing through any more.
\<close>

theorem tampered_clock_stays_latched:
  assumes "latched db" "clock_history L H db db'"
  shows "(\<forall>rd now g db''. update_clock_integrity L H rd now db' = (Inr g, db'') \<longrightarrow> ci_state g = status_tampered)
    \<and> (\<forall>rd. ensure_trusted H rd db' \<noteq> Inr ()) \<and> (\<forall>rd. is_tampered H rd db' \<noteq> Inr False)"
proof -
  have l: "latched db'" using history_keeps_latch assms by blast
  have "ci_state g = status_tampered" if "update_clock_integrity L H rd now db' = (Inr g, db'')" for rd now g db''
    by (rule check_result [OF that]) (use l in \<open>simp add: latched_def\<close>)
  then show ?thesis using clock_status_latched [OF l] by blast
qed

section \<open>What is detected\<close>

definition clocks_disagree ::
  "'f host_lib \<Rightarrow> instant \<Rightarrow> string \<Rightarrow> 'f \<Rightarrow> instant \<Rightarrow> string \<Rightarrow> 'f \<Rightarrow> bool" where
  "clocks_disagree H wall boot uptime wall' boot' uptime' =
     (if boot \<noteq> boot' then num_seconds (wall - wall') > 300
      else hl_f64_below_minus_one H (hl_f64_minus H uptime' uptime)
        \<or> \<bar>num_seconds (wall' - (wall + hl_f64_millis H (hl_f64_minus H uptime' uptime) * 1000000))\<bar> > 300)"

lemma violation_iff_disagree:
  assumes "clock_violation L H sample (Some wall) (Some boot) (Some uptime) = Inr v"
  shows "v \<noteq> None \<longleftrightarrow> clocks_disagree H wall boot uptime (cs_wall_utc sample) (cs_boot_id sample) (cs_boottime_seconds sample)"
  using assms by (auto simp: clock_violation_def clocks_disagree_def Let_def and_then_Inr_iff add_millis_def
      max_backward_reboot_seconds_def max_wall_drift_seconds_def split: if_splits)

lemma sample_wall: "current_sample H rd now = Inr sample \<Longrightarrow> cs_wall_utc sample = now"
  by (auto simp: current_sample_def and_then_Inr_iff)

text \<open>
  Two checks in a row compare what the first measured with what the second measures: the second
  reports tampering exactly if the first did or the clocks disagree, that is, after a reboot the wall
  clock is behind by more than 300 seconds, or within one boot the uptime runs backwards or the wall
  clock is more than 300 seconds off the elapsed uptime. The hypotheses on \<open>H\<close> are that the time
  and the uptime the first check printed are parsed as what they show.
\<close>

lemma consecutive_checks_compare_clocks:
  assumes "update_clock_integrity L H rd now db = (Inr g, db')"
    and "current_sample H rd now = Inr sample"
    and "hl_parse_rfc3339 H (hl_rfc3339 H now) = Inr now"
    and "hl_f64_parse H (hl_f64_text H 3 (cs_boottime_seconds sample)) = Inr uptime"
    and "update_clock_integrity L H rd' now' db' = (Inr g', db'')"
    and "current_sample H rd' now' = Inr sample'"
  shows "ci_last_wall_utc g' = Some now
    \<and> ci_state g' = (if ci_state g = status_tampered
         \<or> clocks_disagree H now (cs_boot_id sample) uptime now' (cs_boot_id sample') (cs_boottime_seconds sample')
         then status_tampered else status_ok)"
proof (rule check_result [OF assms(1)], rule check_result [OF assms(5)])
  fix s p w v s' p' w' v'
  assume first: "current_sample H rd now = Inr s"
      "clock_value status_key db' = Some (ci_state g)"
      "clock_value last_wall_utc_key db' = Some (hl_rfc3339 H (cs_wall_utc s))"
      "clock_value last_boot_id_key db' = Some (cs_boot_id s)"
      "clock_value last_boottime_seconds_key db' = Some (hl_f64_text H 3 (cs_boottime_seconds s))"
    and second: "current_sample H rd' now' = Inr s'"
      "p' = (case clock_value status_key db' of None \<Rightarrow> status_ok | Some s \<Rightarrow> s)"
      "stored_wall H db' = Inr w'"
      "clock_violation L H s' w' (clock_value last_boot_id_key db')
         (case clock_value last_boottime_seconds_key db' of None \<Rightarrow> None
          | Some text \<Rightarrow> (case hl_f64_parse H text of Inl _ \<Rightarrow> None | Inr b \<Rightarrow> Some b)) = Inr v'"
      "ci_state g' = (if p' = status_tampered \<or> v' \<noteq> None then status_tampered else status_ok)"
      "ci_last_wall_utc g' = w'"
  have s: "s = sample" "s' = sample'" "cs_wall_utc sample = now" "cs_wall_utc sample' = now'"
    using first(1) second(1) assms(2,6) sample_wall by auto
  have w: "w' = Some now" using second(3) first(3) s assms(3)
    by (auto simp: stored_wall_def and_then_Inr_iff parse_utc_def dest!: service_state_value split: option.splits)
  have "clock_violation L H sample' (Some now) (Some (cs_boot_id sample)) (Some uptime) = Inr v'"
    using second(4) first(4,5) s w assms(4) by simp
  from violation_iff_disagree [OF this] show ?thesis using second(2,5,6) first(2) w s by simp
qed

section \<open>A machine for concrete checks\<close>

text \<open>Times and uptimes are printed as their nanoseconds and milliseconds, without a sign.\<close>

definition read_digits :: "string \<Rightarrow> string + int" where
  "read_digits s =
     (if list_all is_ascii_digit s then Inr (foldl (\<lambda>a c. 10 * a + (of_char c - 48)) 0 s)
      else Inl ''invalid digit'')"

definition sample_host :: "int host_lib" where
  "sample_host = \<lparr>
     hl_rfc3339 = show_digits,
     hl_parse_rfc3339 = read_digits,
     hl_local_offset = (\<lambda>_. 0),
     hl_f64_parse = read_digits,
     hl_f64_text = (\<lambda>_. show_digits),
     hl_f64_minus = (-),
     hl_f64_below_minus_one = (\<lambda>x. x < - 1000),
     hl_f64_millis = (\<lambda>x. x),
     hl_f64_zero = 0\<rparr>"

definition machine_at :: "instant \<Rightarrow> string \<Rightarrow> clock_reading" where
  "machine_at t uptime = \<lparr>cr_now = at_offset 0 t, cr_boot_id = Inr ''b7'', cr_uptime = Inr uptime\<rparr>"

abbreviation first_check :: "(daemon_error + int clock_integrity_status) \<times> database" where
  "first_check \<equiv> update_clock_integrity sample_lib sample_host (machine_at tuesday_eight ''90000 11'') tuesday_eight empty_database"

text \<open>Ten seconds of uptime later the wall clock shows two hours later.\<close>

abbreviation second_check :: "(daemon_error + int clock_integrity_status) \<times> database" where
  "second_check \<equiv> update_clock_integrity sample_lib sample_host (machine_at tuesday_ten ''100000 11'') tuesday_ten (snd first_check)"

lemma sample_checks: "\<not> isl (fst first_check)" "\<not> isl (fst second_check)"
  "ci_state (projr (fst first_check)) = status_ok"
  by code_simp+

lemma consecutive_checks_compare_clocks_witness:
  "ci_state (projr (fst second_check)) = status_tampered"
proof -
  have a: "first_check = (Inr (projr (fst first_check)), snd first_check)"
    "second_check = (Inr (projr (fst second_check)), snd second_check)"
    using sample_checks by (simp_all add: prod_eq_iff)
  have s: "current_sample sample_host (machine_at tuesday_eight ''90000 11'') tuesday_eight
      = Inr \<lparr>cs_wall_utc = tuesday_eight, cs_boot_id = ''b7'', cs_boottime_seconds = 90000\<rparr>"
    "current_sample sample_host (machine_at tuesday_ten ''100000 11'') tuesday_ten
      = Inr \<lparr>cs_wall_utc = tuesday_ten, cs_boot_id = ''b7'', cs_boottime_seconds = 100000\<rparr>" by code_simp+
  have p: "hl_parse_rfc3339 sample_host (hl_rfc3339 sample_host tuesday_eight) = Inr tuesday_eight"
    "hl_f64_parse sample_host (hl_f64_text sample_host 3 90000) = Inr 90000" by code_simp+
  have d: "clocks_disagree sample_host tuesday_eight ''b7'' 90000 tuesday_ten ''b7'' 100000" by code_simp
  show ?thesis
    using consecutive_checks_compare_clocks [OF a(1) s(1) p(1) _ a(2) s(2), of 90000] p(2) d by simp
qed

theorem tampered_clock_stays_latched_witness:
  "ensure_trusted sample_host (machine_at tuesday_ten ''100000 11'') (snd second_check) \<noteq> Inr ()"
proof -
  have "latched (snd second_check)" unfolding latched_def by code_simp
  from tampered_clock_stays_latched [OF this clock_history.start, of sample_lib sample_host] show ?thesis by blast
qed

end
