(* ===== verification/Emergency.thy ===== *)
theory Emergency imports Core begin

text \<open>
  Emergency uninstall codes, \<^verbatim>\<open>focus-core/src/emergency_uninstall.rs\<close>: the format of an installation
  serial, the message that is signed, and the check of a code. Base64 (crate base64) and the
  signatures (crate ed25519-dalek) are the fields of \<open>signature_lib\<close>.
\<close>

section \<open>Definitions\<close>

record ('k, 's) signature_lib =
  sl_decode :: "string \<Rightarrow> u8 list option"
  sl_signature :: "u8 list \<Rightarrow> 's option"
  sl_key :: "u8 list \<Rightarrow> 'k option"
  sl_verify_strict :: "'k \<Rightarrow> u8 list \<Rightarrow> 's \<Rightarrow> bool"

text \<open>The UTF-8 bytes of a text.\<close>

definition utf8_bytes :: "string \<Rightarrow> u8 list" where
  "utf8_bytes s = concat (map (\<lambda>c. let n = code_point c in
     if n < 128 then [of_nat n] else [of_nat (192 + n div 64), of_nat (128 + n mod 64)]) s)"

definition emergency_uninstall_code_prefix :: string where
  "emergency_uninstall_code_prefix = ''BLOCKUNTU-EU2-''"

definition emergency_uninstall_public_key :: "u8 list" where
  "emergency_uninstall_public_key =
    [0xe5, 0xb0, 0xa4, 0x38, 0x37, 0xf8, 0xbb, 0x39, 0x51, 0x65, 0x7e, 0x77, 0x77, 0xb3, 0x1f, 0x37,
     0xd5, 0x89, 0x34, 0x06, 0x15, 0xf7, 0xda, 0x9c, 0x11, 0x7a, 0x3f, 0xf1, 0x0b, 0x41, 0x56, 0x5c]"

definition valid_group :: "string \<Rightarrow> bool" where
  "valid_group g \<longleftrightarrow> str_len g = 8
     \<and> list_all (\<lambda>byte. (48 \<le> byte \<and> byte \<le> 57) \<or> (65 \<le> byte \<and> byte \<le> 70)) (utf8_bytes g)"

text \<open>Four groups are taken from the iterator, each valid, and no fifth is left.\<close>

fun take_groups :: "nat \<Rightarrow> string list \<Rightarrow> string list option" where
  "take_groups 0 groups = Some groups"
| "take_groups (Suc n) [] = None"
| "take_groups (Suc n) (g # groups) = (if valid_group g then take_groups n groups else None)"

definition installation_serial_is_valid :: "string \<Rightarrow> bool" where
  "installation_serial_is_valid serial =
     (case strip_prefix ''BKI-'' (trim serial) of
        None \<Rightarrow> False
      | Some body \<Rightarrow> take_groups 4 (split_on CHR ''-'' body) = Some [])"

definition emergency_uninstall_message :: "string \<Rightarrow> u8 list" where
  "emergency_uninstall_message installation_serial =
     utf8_bytes (''blockuntu:emergency-uninstall:v2:'' @ trim installation_serial)"

definition emergency_uninstall_code_is_valid_for ::
  "('k, 's) signature_lib \<Rightarrow> string \<Rightarrow> string \<Rightarrow> u8 list \<Rightarrow> bool" where
  "emergency_uninstall_code_is_valid_for S candidate installation_serial public_key_bytes =
     (if \<not> installation_serial_is_valid installation_serial then False
      else case strip_prefix emergency_uninstall_code_prefix (trim candidate) of
        None \<Rightarrow> False
      | Some encoded_signature \<Rightarrow>
          (case sl_decode S encoded_signature of
             None \<Rightarrow> False
           | Some signature_bytes \<Rightarrow>
               (case sl_signature S signature_bytes of
                  None \<Rightarrow> False
                | Some signature \<Rightarrow>
                    (case sl_key S public_key_bytes of
                       None \<Rightarrow> False
                     | Some public_key \<Rightarrow>
                         sl_verify_strict S public_key (emergency_uninstall_message installation_serial) signature))))"

definition emergency_uninstall_code_is_valid :: "('k, 's) signature_lib \<Rightarrow> string \<Rightarrow> string \<Rightarrow> bool" where
  "emergency_uninstall_code_is_valid S candidate installation_serial =
     emergency_uninstall_code_is_valid_for S candidate installation_serial emergency_uninstall_public_key"

section \<open>The code of one installation serves no other\<close>

lemma code_point_less: "code_point c < 256"
  by (simp add: code_point_def)

lemma code_point_eq: "code_point c = code_point d \<longleftrightarrow> c = d"
  by (simp add: code_point_def)

lemma utf8_Cons: "utf8_bytes (c # s) = (let n = code_point c in
     if n < 128 then [of_nat n] else [of_nat (192 + n div 64), of_nat (128 + n mod 64)]) @ utf8_bytes s"
  by (simp add: utf8_bytes_def)

lemma unat_u8: "a < 256 \<Longrightarrow> unat (of_nat a :: u8) = a"
  by (simp add: unat_of_nat)

lemma u8_of_nat_eq: "a < 256 \<Longrightarrow> b < 256 \<Longrightarrow> (of_nat a :: u8) = of_nat b \<longleftrightarrow> a = b"
  using unat_u8 by metis

lemma utf8_inj: "utf8_bytes s = utf8_bytes t \<Longrightarrow> s = t"
proof (induction s arbitrary: t)
  case Nil
  then show ?case by (cases t) (auto simp: utf8_bytes_def Let_def split: if_splits)
next
  case (Cons c s)
  obtain d t' where t: "t = d # t'"
    using Cons.prems by (cases t) (auto simp: utf8_bytes_def Let_def split: if_splits)
  let ?n = "code_point c" and ?m = "code_point d"
  note lt = code_point_less [of c] code_point_less [of d]
  have hd: "(of_nat (if ?n < 128 then ?n else 192 + ?n div 64) :: u8) = of_nat (if ?m < 128 then ?m else 192 + ?m div 64)"
    using Cons.prems by (auto simp: t utf8_Cons Let_def split: if_splits)
  have same: "(if ?n < 128 then ?n else 192 + ?n div 64) = (if ?m < 128 then ?m else 192 + ?m div 64)"
    by (rule iffD1 [OF u8_of_nat_eq hd]) (use lt in auto)
  have eq: "?n = ?m \<and> utf8_bytes s = utf8_bytes t'"
  proof (cases "?n < 128")
    case True
    then have "?m < 128" using same lt by (auto split: if_splits)
    then show ?thesis using True same Cons.prems by (simp add: t utf8_Cons Let_def)
  next
    case False
    then have m: "\<not> ?m < 128" using same by (auto split: if_splits)
    then have "(of_nat (128 + ?n mod 64) :: u8) = of_nat (128 + ?m mod 64)" "utf8_bytes s = utf8_bytes t'"
      using False Cons.prems by (simp_all add: t utf8_Cons Let_def)
    then have "128 + ?n mod 64 = 128 + ?m mod 64"
      by (intro iffD1 [OF u8_of_nat_eq]) auto
    then have "?n mod 64 = ?m mod 64" "?n div 64 = ?m div 64" using same False m by auto
    then show ?thesis using \<open>utf8_bytes s = utf8_bytes t'\<close> by (metis div_mult_mod_eq)
  qed
  then show ?case using Cons.IH t by (simp add: code_point_eq)
qed

lemma message_determines_serial:
  "emergency_uninstall_message a = emergency_uninstall_message b \<longleftrightarrow> trim a = trim b"
  using utf8_inj unfolding emergency_uninstall_message_def by fastforce

lemma code_valid_verifies:
  "emergency_uninstall_code_is_valid_for S code serial key_bytes \<longleftrightarrow>
     installation_serial_is_valid serial
     \<and> (\<exists>text bytes signature key. strip_prefix emergency_uninstall_code_prefix (trim code) = Some text
          \<and> sl_decode S text = Some bytes \<and> sl_signature S bytes = Some signature \<and> sl_key S key_bytes = Some key
          \<and> sl_verify_strict S key (emergency_uninstall_message serial) signature)"
  by (auto simp: emergency_uninstall_code_is_valid_for_def split: option.splits)

text \<open>
  A code serves one installation: if a signature verifies for at most one message under a key (the
  binding that strict verification is for), no code is accepted for two installation serials, and a
  code is accepted only for a well-formed serial.
\<close>

lemma emergency_code_serves_one_installation:
  assumes "\<And>key m m' signature. sl_verify_strict S key m signature \<Longrightarrow> sl_verify_strict S key m' signature \<Longrightarrow> m = m'"
    and "emergency_uninstall_code_is_valid S code serial"
  shows "installation_serial_is_valid serial
    \<and> (emergency_uninstall_code_is_valid S code other \<longleftrightarrow> trim other = trim serial)"
proof -
  have valid: "installation_serial_is_valid serial"
    using assms(2) by (simp add: emergency_uninstall_code_is_valid_def code_valid_verifies)
  have "trim other = trim serial" if "emergency_uninstall_code_is_valid S code other"
    using assms(2) that assms(1) message_determines_serial [of other serial]
    by (fastforce simp: emergency_uninstall_code_is_valid_def code_valid_verifies)
  moreover have "emergency_uninstall_code_is_valid S code other" if t: "trim other = trim serial"
  proof -
    have "installation_serial_is_valid other"
      using valid t by (simp add: installation_serial_is_valid_def)
    then show ?thesis using assms(2) message_determines_serial [of other serial] t
      by (auto simp: emergency_uninstall_code_is_valid_def code_valid_verifies)
  qed
  ultimately show ?thesis using valid by blast
qed

text \<open>A toy scheme: a signature is the message it signs, its text the message's characters.\<close>

definition sample_signatures :: "(unit, u8 list) signature_lib" where
  "sample_signatures = \<lparr>sl_decode = (\<lambda>s. Some (utf8_bytes s)), sl_signature = Some, sl_key = (\<lambda>_. Some ()),
     sl_verify_strict = (\<lambda>_ m signature. m = signature)\<rparr>"

definition sample_code :: string where
  "sample_code = ''BLOCKUNTU-EU2-blockuntu:emergency-uninstall:v2:BKI-7A91C246-398AF072-5E70DA11-D9B4C83F''"

lemma emergency_code_serves_one_installation_witness:
  "emergency_uninstall_code_is_valid sample_signatures sample_code '' BKI-7A91C246-398AF072-5E70DA11-D9B4C83F ''
   \<and> \<not> emergency_uninstall_code_is_valid sample_signatures sample_code ''BKI-00000000-00000000-00000000-00000001''"
proof -
  have v: "emergency_uninstall_code_is_valid sample_signatures sample_code '' BKI-7A91C246-398AF072-5E70DA11-D9B4C83F ''"
    by code_simp
  have "trim ''BKI-00000000-00000000-00000000-00000001'' \<noteq> trim '' BKI-7A91C246-398AF072-5E70DA11-D9B4C83F ''"
    by code_simp
  moreover have "m = m'" if "sl_verify_strict sample_signatures key m signature"
      "sl_verify_strict sample_signatures key m' signature" for key m m' signature
    using that by (simp add: sample_signatures_def)
  ultimately show ?thesis
    using v emergency_code_serves_one_installation [OF _ v, of "''BKI-00000000-00000000-00000000-00000001''"] by blast
qed

end
