(* ===== verification/Guards.thy ===== *)
theory Guards imports ClockGuard Emergency begin

text \<open>
  What the daemon allows when, from \<^verbatim>\<open>focusd/src/rpc.rs\<close>: the Sunday window and the other access modes of
  protected changes, the five minutes in which protected lists can be edited, the credential that
  opens them, the hand-over to an uninstall, and the settings for private browsing in Chromium. These
  functions read the core; the methods that write are in theory \<open>Controls\<close>. SHA-256 and the file
  with the credential of the installation are parameters.
\<close>

section \<open>Modes\<close>

datatype access_mode = SundayEvening | NoActiveScheduleOrDetox | AllTime

datatype incognito_mode = IncognitoDisabled | ManualConsent | PolicyUrlBlocking

datatype incognito_disable_scope = DisableAllTime | ActiveScheduleOrDetox

record incognito_policy_settings =
  ip_configured_mode :: incognito_mode
  ip_mode :: incognito_mode
  ip_disable_scope :: incognito_disable_scope
  ip_private_browsing_disabled :: bool
  ip_url_blocklist :: "string list"
  ip_unsupported_pattern_count :: nat

definition default_incognito_mode :: incognito_mode where
  "default_incognito_mode = ManualConsent"

definition url_block_limit_exceeded :: "incognito_policy_settings \<Rightarrow> bool" where
  "url_block_limit_exceeded settings \<longleftrightarrow> length (ip_url_blocklist settings) > 1000"

fun protected_access_mode_name :: "access_mode \<Rightarrow> string" where
  "protected_access_mode_name SundayEvening = ''sunday''"
| "protected_access_mode_name NoActiveScheduleOrDetox = ''no_active_schedule_or_detox''"
| "protected_access_mode_name AllTime = ''all_time''"

fun protected_access_mode_description :: "access_mode \<Rightarrow> string" where
  "protected_access_mode_description SundayEvening = ''during Sunday 20:00-23:59''"
| "protected_access_mode_description NoActiveScheduleOrDetox = ''while no schedule or Detox is active''"
| "protected_access_mode_description AllTime = ''at any time''"

fun chromium_incognito_mode_name :: "incognito_mode \<Rightarrow> string" where
  "chromium_incognito_mode_name IncognitoDisabled = ''disabled''"
| "chromium_incognito_mode_name ManualConsent = ''manual_consent''"
| "chromium_incognito_mode_name PolicyUrlBlocking = ''policy_url_blocking''"

fun chromium_incognito_disable_scope_name :: "incognito_disable_scope \<Rightarrow> string" where
  "chromium_incognito_disable_scope_name DisableAllTime = ''all_time''"
| "chromium_incognito_disable_scope_name ActiveScheduleOrDetox = ''active_schedule_or_detox''"

definition protected_access_closed_error :: "string \<Rightarrow> access_mode \<Rightarrow> daemon_error" where
  "protected_access_closed_error action mode =
     InvalidRequest (AccessClosed action (protected_access_mode_description mode))"

section \<open>Keys of the service state\<close>

definition browser_extension_mode_key :: string where
  "browser_extension_mode_key = ''browser_extension_mode''"
definition browser_extension_uninstalling_until_key :: string where
  "browser_extension_uninstalling_until_key = ''browser_extension_uninstalling_until''"
definition browser_extension_mode_uninstalling :: string where
  "browser_extension_mode_uninstalling = ''uninstalling''"
definition tier1_edit_unlock_until_key :: string where
  "tier1_edit_unlock_until_key = ''tier1_edit_unlocked_until''"
definition tier1_edit_credential_salt_key :: string where
  "tier1_edit_credential_salt_key = ''tier1_edit_credential_salt''"
definition tier1_edit_credential_hash_key :: string where
  "tier1_edit_credential_hash_key = ''tier1_edit_credential_hash''"
definition protected_access_mode_key :: string where
  "protected_access_mode_key = ''protected_access_mode''"
definition unsupported_browser_block_mode_key :: string where
  "unsupported_browser_block_mode_key = ''unsupported_browser_block_mode''"
definition chromium_incognito_mode_key :: string where
  "chromium_incognito_mode_key = ''chromium_incognito_mode''"
definition chromium_incognito_disable_scope_key :: string where
  "chromium_incognito_disable_scope_key = ''chromium_incognito_disable_scope''"
definition chromium_incognito_change_access_mode_key :: string where
  "chromium_incognito_change_access_mode_key = ''chromium_incognito_change_access_mode''"
definition operator_window_restriction_key :: string where
  "operator_window_restriction_key = ''operator_window_restriction_enabled''"

definition tier1_edit_unlock_minutes :: int where
  "tier1_edit_unlock_minutes = 5"
definition operator_window_start_minute :: u16 where
  "operator_window_start_minute = 20 * 60"
definition operator_window_end_minute :: u16 where
  "operator_window_end_minute = 23 * 60 + 59"

lemmas rpc_keys = browser_extension_mode_key_def browser_extension_uninstalling_until_key_def
  tier1_edit_unlock_until_key_def tier1_edit_credential_salt_key_def tier1_edit_credential_hash_key_def
  protected_access_mode_key_def unsupported_browser_block_mode_key_def chromium_incognito_mode_key_def
  chromium_incognito_disable_scope_key_def chromium_incognito_change_access_mode_key_def
  operator_window_restriction_key_def

definition core_state :: "string \<Rightarrow> focus_core \<Rightarrow> daemon_error + string option" where
  "core_state key core = core_query (service_state key) core"

section \<open>Schedules, as the daemon reads them\<close>

definition rpc_window_is_active :: "weekday \<Rightarrow> u16 \<Rightarrow> schedule_window \<Rightarrow> bool" where
  "rpc_window_is_active current minute window =
     (let start = minutes_after_midnight (sw_start window); stop = minutes_after_midnight (sw_end window) in
      if start < stop
      then day_includes (sw_weekday window) current \<and> minute \<ge> start \<and> minute < stop
      else (day_includes (sw_weekday window) current \<and> minute \<ge> start)
        \<or> (day_includes (sw_weekday window) (previous current) \<and> minute < stop))"

definition schedule_is_active_at :: "'u lib \<Rightarrow> schedule_config \<Rightarrow> datetime \<Rightarrow> bool" where
  "schedule_is_active_at L schedule now =
     list_ex (rpc_window_is_active (current_weekday L now) (current_minute now)) (sc_windows schedule)"

definition rpc_schedule_ids_are_active_at :: "'u lib \<Rightarrow> string list \<Rightarrow> config \<Rightarrow> datetime \<Rightarrow> bool" where
  "rpc_schedule_ids_are_active_at L schedule_ids config now \<longleftrightarrow>
     schedule_ids \<noteq> [] \<and>
     list_ex (\<lambda>schedule_id.
       case find (\<lambda>schedule. sc_id schedule = schedule_id) (cfg_schedules config) of
         None \<Rightarrow> True
       | Some schedule \<Rightarrow> schedule_is_active_at L schedule now) schedule_ids"

definition rule_is_active_at :: "'u lib \<Rightarrow> rule_config \<Rightarrow> config \<Rightarrow> datetime \<Rightarrow> bool" where
  "rule_is_active_at L rule config now =
     (if \<not> rc_enabled rule then False
      else case rc_tier rule of
        Hard \<Rightarrow> True
      | ScheduledBlock \<Rightarrow> rpc_schedule_ids_are_active_at L (rc_schedule_ids rule) config now
      | ControlledAccess \<Rightarrow> rpc_schedule_ids_are_active_at L (rc_schedule_ids rule) config now)"

definition app_rule_is_active_at :: "'u lib \<Rightarrow> app_rule_config \<Rightarrow> config \<Rightarrow> datetime \<Rightarrow> bool" where
  "app_rule_is_active_at L rule config now =
     (if \<not> ac_enabled rule then False
      else case ac_tier rule of
        Hard \<Rightarrow> True
      | ScheduledBlock \<Rightarrow> rpc_schedule_ids_are_active_at L (ac_schedule_ids rule) config now
      | ControlledAccess \<Rightarrow> rpc_schedule_ids_are_active_at L (ac_schedule_ids rule) config now)"

definition site_rule_in_active_detox :: "string \<Rightarrow> datetime \<Rightarrow> focus_core \<Rightarrow> daemon_error + bool" where
  "site_rule_in_active_detox rule_id now core =
     and_then (core_query (active_detox_sessions (dt_utc now)) core) (\<lambda>sessions.
       Inr (list_ex (\<lambda>session. rule_id \<in> set (ds_site_rule_ids session)) sessions))"

definition app_rule_in_active_detox :: "string \<Rightarrow> datetime \<Rightarrow> focus_core \<Rightarrow> daemon_error + bool" where
  "app_rule_in_active_detox rule_id now core =
     and_then (core_query (active_detox_sessions (dt_utc now)) core) (\<lambda>sessions.
       Inr (list_ex (\<lambda>session. rule_id \<in> set (ds_app_rule_ids session)) sessions))"

definition no_active_schedule_or_detox :: "'u lib \<Rightarrow> datetime \<Rightarrow> focus_core \<Rightarrow> daemon_error + bool" where
  "no_active_schedule_or_detox L now core =
     (let schedule_active = list_ex (\<lambda>schedule. schedule_is_active_at L schedule now) (cfg_schedules (fc_config core)) in
      and_then (core_query (active_detox_sessions (dt_utc now)) core) (\<lambda>sessions.
        Inr (\<not> schedule_active \<and> sessions = [])))"

section \<open>Protected access\<close>

definition operator_window_open :: "'u lib \<Rightarrow> datetime \<Rightarrow> bool" where
  "operator_window_open L now \<longleftrightarrow>
     current_weekday L now = Sun
     \<and> operator_window_start_minute \<le> current_minute now \<and> current_minute now \<le> operator_window_end_minute"

definition protected_access_mode :: "focus_core \<Rightarrow> daemon_error + access_mode" where
  "protected_access_mode core =
     and_then (core_state protected_access_mode_key core) (\<lambda>mode.
       case mode of
         Some name \<Rightarrow>
           if name = ''sunday'' then Inr SundayEvening
           else if name = ''no_active_schedule_or_detox'' then Inr NoActiveScheduleOrDetox
           else if name = ''all_time'' then Inr AllTime
           else invalid (InvalidAccessMode name)
       | None \<Rightarrow> and_then (core_state operator_window_restriction_key core) (\<lambda>restricted.
           Inr (if restricted = Some ''true'' then SundayEvening else AllTime)))"

definition access_mode_open :: "'u lib \<Rightarrow> datetime \<Rightarrow> focus_core \<Rightarrow> daemon_error + bool" where
  "access_mode_open L now core =
     and_then (protected_access_mode core) (\<lambda>mode.
       case mode of
         SundayEvening \<Rightarrow> Inr (operator_window_open L now)
       | NoActiveScheduleOrDetox \<Rightarrow> no_active_schedule_or_detox L now core
       | AllTime \<Rightarrow> Inr True)"

definition protected_access_is_open :: "'u lib \<Rightarrow> datetime \<Rightarrow> bool \<Rightarrow> focus_core \<Rightarrow> daemon_error + bool" where
  "protected_access_is_open L now clock_tampered core =
     (if clock_tampered then Inr False else access_mode_open L now core)"

definition unsupported_browser_block_is_active :: "'u lib \<Rightarrow> datetime \<Rightarrow> bool \<Rightarrow> focus_core \<Rightarrow> daemon_error + bool" where
  "unsupported_browser_block_is_active L now clock_tampered core =
     (let block = sm_block_unsupported_browsers (cfg_strict_mode (fc_config core)) in
      if \<not> block \<or> clock_tampered then Inr block else access_mode_open L now core)"

section \<open>The edit window and its credential\<close>

definition tier1_edit_unlocked_until :: "'f host_lib \<Rightarrow> focus_core \<Rightarrow> daemon_error + instant option" where
  "tier1_edit_unlocked_until H core =
     and_then (core_state tier1_edit_unlock_until_key core) (\<lambda>value.
       Inr (case value of
              None \<Rightarrow> None
            | Some s \<Rightarrow> (case hl_parse_rfc3339 H s of Inl _ \<Rightarrow> None | Inr t \<Rightarrow> Some t)))"

definition tier1_edit_window_active :: "'f host_lib \<Rightarrow> datetime \<Rightarrow> focus_core \<Rightarrow> daemon_error + bool" where
  "tier1_edit_window_active H now core =
     and_then (tier1_edit_unlocked_until H core) (\<lambda>until.
       Inr (case until of None \<Rightarrow> False | Some expires_at \<Rightarrow> expires_at > dt_utc now))"

text \<open>
  \<open>cl_sha256\<close> is the hexadecimal SHA-256 of a byte sequence; \<open>cl_key_file\<close> is what reading the file of
  the installation's own credential gives, \<open>None\<close> if there is none.
\<close>

record credential_lib =
  cl_sha256 :: "u8 list \<Rightarrow> string"
  cl_key_file :: "string + string option"

definition tier1_edit_credential_hash :: "credential_lib \<Rightarrow> string \<Rightarrow> string \<Rightarrow> string" where
  "tier1_edit_credential_hash K salt phrase = cl_sha256 K (utf8_bytes salt @ [0] @ utf8_bytes phrase)"

definition read_tier1_edit_key :: "credential_lib \<Rightarrow> daemon_error + string option" where
  "read_tier1_edit_key K =
     and_then (map_err DaemonIo (cl_key_file K)) (\<lambda>contents.
       Inr (case contents of
              None \<Rightarrow> None
            | Some s \<Rightarrow> find (\<lambda>line. line \<noteq> []) (map trim (split_on CHR 0x0A s))))"

definition nonempty_state :: "string \<Rightarrow> focus_core \<Rightarrow> daemon_error + string option" where
  "nonempty_state key core =
     and_then (core_state key core) (\<lambda>value.
       Inr (case value of None \<Rightarrow> None | Some s \<Rightarrow> if s = [] then None else Some s))"

definition tier1_edit_credential_configured :: "credential_lib \<Rightarrow> focus_core \<Rightarrow> daemon_error + bool" where
  "tier1_edit_credential_configured K core =
     and_then (nonempty_state tier1_edit_credential_salt_key core) (\<lambda>salt.
     and_then (if salt = None then Inr None else nonempty_state tier1_edit_credential_hash_key core) (\<lambda>hash.
       if salt \<noteq> None \<and> hash \<noteq> None then Inr True
       else and_then (read_tier1_edit_key K) (\<lambda>key. Inr (key \<noteq> None))))"

definition tier1_edit_credential_matches :: "credential_lib \<Rightarrow> string \<Rightarrow> focus_core \<Rightarrow> daemon_error + bool" where
  "tier1_edit_credential_matches K candidate core =
     (let by_file = and_then (read_tier1_edit_key K) (\<lambda>key. Inr (key = Some candidate)) in
      and_then (nonempty_state tier1_edit_credential_salt_key core) (\<lambda>salt.
        case salt of
          None \<Rightarrow> by_file
        | Some salt \<Rightarrow> and_then (nonempty_state tier1_edit_credential_hash_key core) (\<lambda>hash.
            case hash of
              None \<Rightarrow> by_file
            | Some expected_hash \<Rightarrow> Inr (tier1_edit_credential_hash K salt candidate = expected_hash))))"

section \<open>The hand-over to an uninstall\<close>

definition uninstall_handoff_active :: "'f host_lib \<Rightarrow> instant \<Rightarrow> focus_core \<Rightarrow> daemon_error + bool" where
  "uninstall_handoff_active H now core =
     and_then (core_state browser_extension_mode_key core) (\<lambda>mode.
       if mode \<noteq> Some browser_extension_mode_uninstalling then Inr False
       else and_then (core_state browser_extension_uninstalling_until_key core) (\<lambda>until.
         Inr (case until of
                None \<Rightarrow> False
              | Some s \<Rightarrow> (case hl_parse_rfc3339 H s of Inl _ \<Rightarrow> False | Inr t \<Rightarrow> t > now))))"

definition enforcement_active_from_core :: "'f host_lib \<Rightarrow> instant \<Rightarrow> focus_core \<Rightarrow> daemon_error + bool" where
  "enforcement_active_from_core H now core =
     and_then (uninstall_handoff_active H now core) (\<lambda>active. Inr (\<not> active))"

definition enforcement_state_from_core :: "'f host_lib \<Rightarrow> instant \<Rightarrow> focus_core \<Rightarrow> daemon_error + string" where
  "enforcement_state_from_core H now core =
     and_then (uninstall_handoff_active H now core) (\<lambda>active.
       Inr (if active then ''uninstalling'' else ''active''))"

section \<open>Private browsing in Chromium\<close>

definition chromium_incognito_mode :: "focus_core \<Rightarrow> daemon_error + incognito_mode" where
  "chromium_incognito_mode core =
     and_then (core_state chromium_incognito_mode_key core) (\<lambda>mode.
       case mode of
         None \<Rightarrow> Inr default_incognito_mode
       | Some name \<Rightarrow>
           if name = ''disabled'' then Inr IncognitoDisabled
           else if name = ''manual_consent'' then Inr ManualConsent
           else if name = ''policy_url_blocking'' then Inr PolicyUrlBlocking
           else invalid (InvalidIncognitoMode name))"

definition chromium_incognito_disable_scope :: "focus_core \<Rightarrow> daemon_error + incognito_disable_scope" where
  "chromium_incognito_disable_scope core =
     and_then (core_state chromium_incognito_disable_scope_key core) (\<lambda>scope.
       case scope of
         None \<Rightarrow> Inr DisableAllTime
       | Some name \<Rightarrow>
           if name = ''all_time'' then Inr DisableAllTime
           else if name = ''active_schedule_or_detox'' then Inr ActiveScheduleOrDetox
           else invalid (InvalidDisableScope name))"

definition chromium_incognito_private_browsing_disabled ::
  "'u lib \<Rightarrow> incognito_disable_scope \<Rightarrow> datetime \<Rightarrow> bool \<Rightarrow> focus_core \<Rightarrow> daemon_error + bool" where
  "chromium_incognito_private_browsing_disabled L scope now clock_tampered core =
     (if clock_tampered then Inr True
      else case scope of
        DisableAllTime \<Rightarrow> Inr True
      | ActiveScheduleOrDetox \<Rightarrow> and_then (no_active_schedule_or_detox L now core) (\<lambda>idle. Inr (\<not> idle)))"

text \<open>The entry of a pattern in the browser's URL policy, which has no words for two kinds of patterns.\<close>

definition policy_entry :: "rule_pattern_config \<Rightarrow> string option" where
  "policy_entry pattern =
     (case rp_kind pattern of
        Domain \<Rightarrow> Some (if rp_match_subdomains pattern then rp_value pattern
                    else CHR ''.'' # dropWhile (\<lambda>c. c = CHR ''.'') (rp_value pattern))
      | ExactUrl \<Rightarrow> Some (rp_value pattern)
      | UrlPrefix \<Rightarrow> Some (rp_value pattern)
      | UrlContains \<Rightarrow> None
      | PathPrefix \<Rightarrow> None)"

definition chromium_incognito_url_blocklist ::
  "'u lib \<Rightarrow> datetime \<Rightarrow> bool \<Rightarrow> focus_core \<Rightarrow> daemon_error + string list \<times> nat" where
  "chromium_incognito_url_blocklist L now clock_tampered core =
     and_then (core_query (active_detox_sessions (dt_utc now)) core) (\<lambda>sessions.
       let config = fc_config core;
           detox_rule_ids = concat (map ds_site_rule_ids sessions);
           active = (\<lambda>rule. case rc_tier rule of
               Hard \<Rightarrow> True
             | ScheduledBlock \<Rightarrow> rc_id rule \<in> set detox_rule_ids
                 \<or> schedule_ids_are_active_at L (rc_schedule_ids rule) config now clock_tampered
             | ControlledAccess \<Rightarrow> rc_id rule \<in> set detox_rule_ids
                 \<or> schedule_ids_are_active_at L (rc_schedule_ids rule) config now clock_tampered);
           rules = filter (\<lambda>rule. rc_enabled rule \<and> rc_mode rule = Blocklist \<and> active rule) (cfg_rules config);
           patterns = concat (map rc_patterns rules)
       in Inr (sort (remdups (filter_map policy_entry patterns)),
               length (filter (\<lambda>pattern. policy_entry pattern = None) patterns)))"

definition chromium_incognito_policy_settings ::
  "'u lib \<Rightarrow> datetime \<Rightarrow> bool \<Rightarrow> incognito_mode \<Rightarrow> focus_core
     \<Rightarrow> daemon_error + incognito_policy_settings" where
  "chromium_incognito_policy_settings L now clock_tampered configured_mode core =
     and_then (chromium_incognito_disable_scope core) (\<lambda>scope.
     and_then (if configured_mode = IncognitoDisabled
               then chromium_incognito_private_browsing_disabled L scope now clock_tampered core else Inr False) (\<lambda>disabled.
     let mode = (if configured_mode = IncognitoDisabled \<and> \<not> disabled then ManualConsent else configured_mode) in
     and_then (if mode = PolicyUrlBlocking then chromium_incognito_url_blocklist L now clock_tampered core
               else Inr ([], 0)) (\<lambda>(url_blocklist, unsupported).
       Inr \<lparr>ip_configured_mode = configured_mode, ip_mode = mode, ip_disable_scope = scope,
         ip_private_browsing_disabled = disabled, ip_url_blocklist = url_blocklist,
         ip_unsupported_pattern_count = unsupported\<rparr>)))"

definition current_chromium_incognito_policy_settings ::
  "'u lib \<Rightarrow> datetime \<Rightarrow> bool \<Rightarrow> focus_core \<Rightarrow> daemon_error + incognito_policy_settings" where
  "current_chromium_incognito_policy_settings L now clock_tampered core =
     and_then (chromium_incognito_mode core) (\<lambda>mode. chromium_incognito_policy_settings L now clock_tampered mode core)"

definition website_allowlist_is_active :: "'u lib \<Rightarrow> datetime \<Rightarrow> bool \<Rightarrow> focus_core \<Rightarrow> daemon_error + bool" where
  "website_allowlist_is_active L now clock_tampered core =
     and_then (core_query (if clock_tampered then uncancelled_detox_sessions else active_detox_sessions (dt_utc now)) core)
       (\<lambda>sessions.
       let ids = concat (map ds_site_rule_ids sessions) in
       Inr (list_ex (\<lambda>rule. rc_enabled rule \<and> rc_mode rule = Allowlist
              \<and> (rc_tier rule = Hard
                 \<or> schedule_ids_are_active_at L (rc_schedule_ids rule) (fc_config core) now clock_tampered
                 \<or> rc_id rule \<in> set ids)) (cfg_rules (fc_config core))))"

definition chromium_incognito_settings_change_allowed ::
  "'u lib \<Rightarrow> datetime \<Rightarrow> bool \<Rightarrow> focus_core \<Rightarrow> daemon_error + bool" where
  "chromium_incognito_settings_change_allowed L now clock_tampered core =
     and_then (if clock_tampered then Inr True else website_allowlist_is_active L now clock_tampered core) (\<lambda>closed.
       if closed then Inr False else access_mode_open L now core)"

definition ensure_chromium_incognito_settings_change_allowed ::
  "'u lib \<Rightarrow> datetime \<Rightarrow> bool \<Rightarrow> focus_core \<Rightarrow> daemon_error + unit" where
  "ensure_chromium_incognito_settings_change_allowed L now clock_tampered core =
     and_then (website_allowlist_is_active L now clock_tampered core) (\<lambda>active.
       if active then invalid AllowlistIsActive
       else and_then (protected_access_mode core) (\<lambda>access_mode.
         and_then (chromium_incognito_settings_change_allowed L now clock_tampered core) (\<lambda>allowed.
           if allowed then Inr ()
           else Inl (protected_access_closed_error ''Chromium private browsing settings'' access_mode))))"

definition ensure_chromium_incognito_url_blocklist_within_limit ::
  "incognito_policy_settings \<Rightarrow> daemon_error + unit" where
  "ensure_chromium_incognito_url_blocklist_within_limit settings =
     (if ip_mode settings = PolicyUrlBlocking \<and> url_block_limit_exceeded settings
      then invalid (TooManyUrlPatterns (length (ip_url_blocklist settings))) else Inr ())"

section \<open>Agreement with the policy engine\<close>

lemma rpc_window_same: "rpc_window_is_active = window_is_active"
  by (simp add: fun_eq_iff rpc_window_is_active_def window_is_active_def Let_def)

lemma schedule_is_active_same: "schedule_is_active_at L = schedule_is_active L"
  by (simp add: fun_eq_iff schedule_is_active_at_def schedule_is_active_def rpc_window_same)

lemma schedule_ids_same: "rpc_schedule_ids_are_active_at L ids config now = schedule_ids_are_active_at L ids config now False"
  unfolding rpc_schedule_ids_are_active_at_def schedule_ids_are_active_at_def schedule_is_active_same by simp

lemma rule_active_same:
  "rule_is_active_at L rule config now = rule_is_active L (context_new config now) rule"
  "app_rule_is_active_at L app config now = app_rule_is_active L (context_new config now) app"
  by (simp_all add: rule_is_active_at_def rule_is_active_def app_rule_is_active_at_def app_rule_is_active_def
      schedule_ids_same schedule_ids_are_active_def context_new_def split: rule_tier.splits)

end
