(* ===== verification/Recovery.thy ===== *)
theory Recovery imports Core begin

text \<open>
  The recovery snapshot of the policy, \<^verbatim>\<open>focusd/src/policy_recovery.rs\<close>: a file with the policy as TOML,
  replaced by renaming a staged copy over it and kept immutable. The file system is a record of what
  matters here, the text and the immutable flag of the snapshot, with an oracle that names the system
  calls that fail. TOML itself (crate toml) is a parameter: what the printer makes of a policy and
  what the two parsers make of a text.
\<close>

section \<open>The file\<close>

record snapshot_store =
  ss_fault :: "string \<Rightarrow> string option"
  ss_enforce_immutable :: bool
  ss_snapshot :: "(string \<times> bool) option"

record toml_lib =
  tl_print :: "config \<Rightarrow> string + string"
  tl_parse :: "string \<Rightarrow> string + config"
  tl_parse_legacy :: "string \<Rightarrow> string + config"

definition snapshot_text :: "snapshot_store \<Rightarrow> string option" where
  "snapshot_text store = map_option fst (ss_snapshot store)"

text \<open>A system call that only can fail, and one that changes the file.\<close>

definition syscall :: "string \<Rightarrow> (snapshot_store, unit) action" where
  "syscall tag store = (case ss_fault store tag of Some e \<Rightarrow> Inl (DaemonIo e) | None \<Rightarrow> Inr (), store)"

definition to_toml_string :: "'u lib \<Rightarrow> toml_lib \<Rightarrow> config \<Rightarrow> config_error + string" where
  "to_toml_string L T config =
     and_then (map_err CfgValidation (validate L config)) (\<lambda>_. map_err CfgSerialize (tl_print T config))"

definition from_toml_str :: "'u lib \<Rightarrow> toml_lib \<Rightarrow> string \<Rightarrow> config_error + config" where
  "from_toml_str L T contents =
     and_then (map_err CfgParse (tl_parse T contents)) (\<lambda>config.
     and_then (map_err CfgValidation (validate L config)) (\<lambda>_. Inr config))"

text \<open>
  \<open>tl_parse_legacy\<close> is the parse of the text after the fields of older versions are removed from it.
\<close>

definition from_legacy_recovery_toml_str :: "'u lib \<Rightarrow> toml_lib \<Rightarrow> string \<Rightarrow> config_error + config" where
  "from_legacy_recovery_toml_str L T contents =
     and_then (map_err CfgParse (tl_parse_legacy T contents)) (\<lambda>parsed.
     let config = normalize_legacy_website_allowlists parsed in
     and_then (map_err CfgValidation (validate L config)) (\<lambda>_. Inr config))"

definition load_snapshot :: "'u lib \<Rightarrow> toml_lib \<Rightarrow> snapshot_store \<Rightarrow> daemon_error + config option" where
  "load_snapshot L T store =
     (case ss_fault store ''read'' of
        Some e \<Rightarrow> Inl (DaemonIo e)
      | None \<Rightarrow>
          (case snapshot_text store of
             None \<Rightarrow> Inr None
           | Some contents \<Rightarrow>
               (case from_toml_str L T contents of
                  Inr config \<Rightarrow> Inr (Some config)
                | Inl _ \<Rightarrow> and_then (map_err DaemonConfig (from_legacy_recovery_toml_str L T contents))
                    (\<lambda>config. Inr (Some config)))))"

text \<open>Taking the lock: the directory, the lock file, and waiting for its owner.\<close>

definition lock_recovery :: "(snapshot_store, unit) action" where
  "lock_recovery =
     act_bind (syscall ''create recovery directory'') (\<lambda>_.
     act_bind (syscall ''open recovery lock'') (\<lambda>_. syscall ''lock policy recovery''))"

text \<open>\<open>chattr\<close> on the snapshot.\<close>

definition set_immutable :: "bool \<Rightarrow> (snapshot_store, unit) action" where
  "set_immutable enabled store =
     (case ss_fault store (if enabled then ''chattr +i'' else ''chattr -i'') of
        Some e \<Rightarrow> (invalid (CommandFailed e), store)
      | None \<Rightarrow>
          (case ss_snapshot store of
             None \<Rightarrow> (invalid (CommandFailed ''No such file or directory''), store)
           | Some (contents, _) \<Rightarrow> (Inr (), store\<lparr>ss_snapshot := Some (contents, enabled)\<rparr>)))"

definition clear_immutable_if_needed :: "(snapshot_store, unit) action" where
  "clear_immutable_if_needed store =
     act_when (ss_enforce_immutable store \<and> ss_snapshot store \<noteq> None) (set_immutable False) store"

definition set_immutable_if_needed :: "(snapshot_store, unit) action" where
  "set_immutable_if_needed store = act_when (ss_enforce_immutable store) (set_immutable True) store"

text \<open>The rename puts a new file in place; the kernel refuses to replace an immutable one.\<close>

definition persist_staged :: "string \<Rightarrow> (snapshot_store, unit) action" where
  "persist_staged contents store =
     (case ss_fault store ''replace recovery snapshot'' of
        Some e \<Rightarrow> (Inl (DaemonIo e), store)
      | None \<Rightarrow>
          (case ss_snapshot store of
             Some (_, True) \<Rightarrow> (Inl (DaemonIo ''Operation not permitted''), store)
           | _ \<Rightarrow> (Inr (), store\<lparr>ss_snapshot := Some (contents, False)\<rparr>)))"

definition stage_snapshot :: "(snapshot_store, unit) action" where
  "stage_snapshot = act_for [''stage recovery snapshot'', ''set recovery permissions'', ''write recovery snapshot'',
     ''sync recovery snapshot''] syscall"

text \<open>
  The protection is put back whether or not the rename succeeded; if that fails too, the error shows
  both.
\<close>

definition protect_replacement :: "daemon_error + unit \<Rightarrow> (snapshot_store, unit) action" where
  "protect_replacement replacement store =
     (let (protection, store') =
        (if \<not> isl replacement \<or> ss_snapshot store \<noteq> None then set_immutable_if_needed store else (Inr (), store))
      in case protection of
           Inl e \<Rightarrow> (case replacement of
               Inl write_error \<Rightarrow> (invalid (RecoveryProtection ''replace recovery snapshot'' ''chattr +i''), store')
             | Inr _ \<Rightarrow> (Inl e, store'))
         | Inr _ \<Rightarrow> (replacement, store'))"

definition replace_step :: "string \<Rightarrow> (snapshot_store, unit) action" where
  "replace_step contents store =
     (let (replacement, store') = persist_staged contents store in protect_replacement replacement store')"

definition write_snapshot :: "'u lib \<Rightarrow> toml_lib \<Rightarrow> config \<Rightarrow> (snapshot_store, unit) action" where
  "write_snapshot L T config =
     act_bind (act_read (\<lambda>_. map_err DaemonConfig (to_toml_string L T config))) (\<lambda>contents.
     act_bind stage_snapshot (\<lambda>_.
     act_bind clear_immutable_if_needed (\<lambda>_.
     act_bind (replace_step contents) (\<lambda>_.
     act_bind (syscall ''sync protected recovery snapshot'') (\<lambda>_.
       syscall ''sync recovery directory'')))))"

definition write_locked :: "'u lib \<Rightarrow> toml_lib \<Rightarrow> config \<Rightarrow> (snapshot_store, unit) action" where
  "write_locked L T config = act_bind lock_recovery (\<lambda>_. write_snapshot L T config)"

section \<open>What a write leaves behind\<close>

lemma syscall_state [simp, frame]: "snd (syscall tag store) = store"
  by (simp add: syscall_def)

lemma act_for_syscall [simp, frame]: "snd (act_for tags syscall store) = store"
  by (induction tags) (simp_all add: act_bind_def syscall_def split: sum.splits option.splits)

lemma lock_state [simp, frame]: "snd (lock_recovery store) = store"
  by (simp add: lock_recovery_def act_bind_def syscall_def split: option.splits)

text \<open>The steps of a write change the text only at the rename, and nothing else but the flag.\<close>

definition same_text :: "snapshot_store \<Rightarrow> snapshot_store \<Rightarrow> bool" where
  "same_text a b \<longleftrightarrow> snapshot_text a = snapshot_text b \<and> ss_fault a = ss_fault b
     \<and> ss_enforce_immutable a = ss_enforce_immutable b"

lemma set_immutable_text: "set_immutable b store = (r, store') \<Longrightarrow> same_text store store'"
  by (auto simp: set_immutable_def same_text_def snapshot_text_def split: option.splits)

lemma clear_immutable_text: "clear_immutable_if_needed store = (r, store') \<Longrightarrow> same_text store store'"
  by (auto simp: clear_immutable_if_needed_def act_when_def same_text_def dest!: set_immutable_text split: if_splits)

lemma set_immutable_if_needed_text: "set_immutable_if_needed store = (r, store') \<Longrightarrow> same_text store store'"
  by (auto simp: set_immutable_if_needed_def act_when_def same_text_def dest!: set_immutable_text split: if_splits)

lemma protect_text: "protect_replacement rep store = (r, store') \<Longrightarrow> same_text store store'"
  by (auto simp: protect_replacement_def Let_def same_text_def dest!: set_immutable_if_needed_text
      split: prod.splits sum.splits if_splits)

lemma protect_Inr:
  assumes "protect_replacement rep store = (Inr u, store')"
  shows "rep = Inr ()"
  using assms by (cases rep) (auto simp: protect_replacement_def Let_def split: prod.splits sum.splits if_splits)

lemma persist_text:
  "persist_staged contents store = (r, store') \<Longrightarrow>
     (case r of Inl _ \<Rightarrow> store' = store
      | Inr _ \<Rightarrow> snapshot_text store' = Some contents \<and> ss_fault store' = ss_fault store
          \<and> ss_enforce_immutable store' = ss_enforce_immutable store)"
  by (auto simp: persist_staged_def snapshot_text_def split: option.splits bool.splits prod.splits)

lemma protect_Ok_immutable:
  assumes "protect_replacement rep store = (Inr u, store')" "ss_enforce_immutable store"
  shows "\<exists>text. ss_snapshot store' = Some (text, True)"
  using assms protect_Inr [OF assms(1)]
  by (auto simp: protect_replacement_def Let_def set_immutable_if_needed_def set_immutable_def act_when_def invalid_def
      split: prod.splits sum.splits if_splits option.splits)

lemma replace_step_text:
  assumes "replace_step contents store = (r, store')"
  shows "snapshot_text store' \<in> {snapshot_text store, Some contents}"
    "r = Inr () \<Longrightarrow> snapshot_text store' = Some contents
       \<and> (ss_enforce_immutable store \<longrightarrow> ss_snapshot store' = Some (contents, True))"
    "ss_fault store' = ss_fault store"
proof -
  obtain rep s1 where s: "persist_staged contents store = (rep, s1)" "protect_replacement rep s1 = (r, store')"
    using assms by (auto simp: replace_step_def Let_def split: prod.splits)
  note t = persist_text [OF s(1)] protect_text [OF s(2)]
  show "snapshot_text store' \<in> {snapshot_text store, Some contents}" "ss_fault store' = ss_fault store"
    using t by (auto simp: same_text_def split: sum.splits)
  show "snapshot_text store' = Some contents \<and> (ss_enforce_immutable store \<longrightarrow> ss_snapshot store' = Some (contents, True))"
    if "r = Inr ()"
  proof -
    have rep: "rep = Inr ()" using s(2) that protect_Inr by blast
    then have c: "snapshot_text store' = Some contents" using t by (simp add: same_text_def)
    have "ss_enforce_immutable store \<Longrightarrow> \<exists>text. ss_snapshot store' = Some (text, True)"
      using protect_Ok_immutable [of rep s1 "()" store'] s(2) that t(1) rep by simp
    then show ?thesis using c by (auto simp: snapshot_text_def)
  qed
qed

lemma stage_state [simp]: "snd (stage_snapshot store) = store"
  unfolding stage_snapshot_def by (rule act_for_syscall)

lemma write_snapshot_cases:
  assumes "write_snapshot L T config store = (r, store')"
  obtains (untouched) e where "r = Inl e" "same_text store store'"
  | (replaced) contents s1 r1 where "to_toml_string L T config = Inr contents" "same_text store s1"
      "replace_step contents s1 = (r1, store')" "r = Inr () \<Longrightarrow> r1 = Inr ()"
proof (cases "to_toml_string L T config")
  case (Inl e)
  then show thesis using assms untouched [of "DaemonConfig e"] by (simp add: write_snapshot_def act_bind_def same_text_def)
next
  case (Inr contents)
  obtain r0 where st: "stage_snapshot store = (r0, store)" using stage_state by (metis prod.collapse)
  obtain r1 s1 where cl: "clear_immutable_if_needed store = (r1, s1)" by fastforce
  obtain r2 s2 where rs: "replace_step contents s1 = (r2, s2)" by fastforce
  have sy: "snd (act_bind (syscall a) (\<lambda>_. syscall b) s) = s" for a b s
    by (simp add: act_bind_def syscall_def split: option.splits)
  note t = clear_immutable_text [OF cl]
  show thesis
  proof (cases r0)
    case (Inl e)
    then show thesis using assms Inr st untouched [of e] by (simp add: write_snapshot_def act_bind_def same_text_def)
  next
    case (Inr u)
    show thesis
    proof (cases r1)
      case (Inl e)
      then show thesis using assms \<open>r0 = Inr u\<close> \<open>to_toml_string L T config = Inr contents\<close> st cl t untouched [of e]
        by (simp add: write_snapshot_def act_bind_def)
    next
      case (Inr u')
      then have "act_bind (replace_step contents) (\<lambda>_. act_bind (syscall ''sync protected recovery snapshot'')
          (\<lambda>_. syscall ''sync recovery directory'')) s1 = (r, store')"
        using assms \<open>r0 = Inr u\<close> \<open>to_toml_string L T config = Inr contents\<close> st cl
        by (simp add: write_snapshot_def act_bind_def)
      then have "store' = s2" "r = Inr () \<Longrightarrow> r2 = Inr ()"
        using rs sy [of "''sync protected recovery snapshot''" "''sync recovery directory''" s2]
        by (auto simp: act_bind_def [of "replace_step contents"] split: sum.splits)
      then show thesis using replaced [OF \<open>to_toml_string L T config = Inr contents\<close> t] rs by blast
    qed
  qed
qed

lemma write_snapshot_loads:
  assumes "write_snapshot L T config store = (Inr u, store')" "ss_fault store ''read'' = None"
    and "\<And>text. tl_print T config = Inr text \<Longrightarrow> tl_parse T text = Inr config"
  shows "load_snapshot L T store' = Inr (Some config)"
  using assms(1)
proof (cases rule: write_snapshot_cases)
  case (replaced contents s1 r1)
  note t = replace_step_text [OF replaced(3)]
  have "validate L config = Inr ()" "tl_print T config = Inr contents"
    using replaced(1) by (auto simp: to_toml_string_def and_then_Inr_iff)
  then show ?thesis using t(2) replaced(4) t(3) replaced(2) assms(2,3)
    by (simp add: load_snapshot_def same_text_def from_toml_str_def)
qed simp

text \<open>
  C25. Writing the snapshot is atomic: whatever fails, the file holds the text it held before or the
  whole text of the new policy, never a part, and it never disappears. When the write succeeds it
  holds the new policy, is immutable if that is enforced, and loading it gives the policy back; the
  hypothesis on TOML is that its parser reads what its printer wrote.
\<close>

theorem snapshot_write_is_atomic:
  assumes "write_snapshot L T config store = (r, store')"
    and "\<And>text. tl_print T config = Inr text \<Longrightarrow> tl_parse T text = Inr config"
  shows "(snapshot_text store' = snapshot_text store
      \<or> (\<exists>text. to_toml_string L T config = Inr text \<and> snapshot_text store' = Some text))
    \<and> (r = Inr () \<and> ss_fault store ''read'' = None \<longrightarrow> load_snapshot L T store' = Inr (Some config))
    \<and> (r = Inr () \<and> ss_enforce_immutable store \<longrightarrow> (\<exists>text. ss_snapshot store' = Some (text, True)))"
  using assms(1)
proof (cases rule: write_snapshot_cases)
  case (untouched e)
  then show ?thesis by (simp add: same_text_def)
next
  case (replaced contents s1 r1)
  note t = replace_step_text [OF replaced(3)]
  have "load_snapshot L T store' = Inr (Some config)" if "r = Inr ()" "ss_fault store ''read'' = None"
    using write_snapshot_loads assms that by blast
  then show ?thesis using t replaced by (auto simp: same_text_def)
qed

text \<open>Policies for concrete checks are printed as a list of their list ids, which is enough to tell them apart.\<close>

definition sample_toml :: toml_lib where
  "sample_toml = \<lparr>
     tl_print = (\<lambda>config. Inr (join '','' (map rc_id (cfg_rules config)))),
     tl_parse = (\<lambda>contents. if contents = ''video,news'' then Inr sample_policy else Inr default_config),
     tl_parse_legacy = (\<lambda>_. Inl ''invalid TOML'')\<rparr>"

definition old_snapshot :: "(string \<Rightarrow> string option) \<Rightarrow> snapshot_store" where
  "old_snapshot fault = \<lparr>ss_fault = fault, ss_enforce_immutable = True, ss_snapshot = Some (''news'', True)\<rparr>"

lemma sample_toml_roundtrip: "tl_print sample_toml sample_policy = Inr text \<Longrightarrow> tl_parse sample_toml text = Inr sample_policy"
  by (auto simp: sample_toml_def sample_policy_def)

theorem snapshot_write_is_atomic_witness:
  "fst (write_snapshot sample_lib sample_toml sample_policy (old_snapshot (\<lambda>_. None))) = Inr ()
   \<and> load_snapshot sample_lib sample_toml (snd (write_snapshot sample_lib sample_toml sample_policy (old_snapshot (\<lambda>_. None))))
       = Inr (Some sample_policy)"
proof -
  have ok: "fst (write_snapshot sample_lib sample_toml sample_policy (old_snapshot (\<lambda>_. None))) = Inr ()"
    by code_simp
  then obtain store' where w: "write_snapshot sample_lib sample_toml sample_policy (old_snapshot (\<lambda>_. None)) = (Inr (), store')"
    by (metis prod.collapse)
  show ?thesis using snapshot_write_is_atomic [OF w sample_toml_roundtrip] w ok by (simp add: old_snapshot_def)
qed

text \<open>
  A write that reports an error may still have replaced the snapshot: here protecting it again fails
  after the rename.
\<close>

lemma failed_write_can_replace_snapshot:
  "isl (fst (write_snapshot sample_lib sample_toml sample_policy
      (old_snapshot (\<lambda>tag. if tag = ''chattr +i'' then Some ''Operation not supported'' else None))))
   \<and> snapshot_text (snd (write_snapshot sample_lib sample_toml sample_policy
      (old_snapshot (\<lambda>tag. if tag = ''chattr +i'' then Some ''Operation not supported'' else None)))) = Some ''video,news''"
  by code_simp

end
