(* ===== verification/Hosts.thy ===== *)
theory Hosts imports ClockGuard begin

text \<open>
  The managed block of the hosts file, \<^verbatim>\<open>focusd/src/hosts.rs\<close>: which domains it lists, how it is put into
  the text between its markers and taken out again, and the repair that keeps the file that way and
  immutable. The file is a record of its text and its immutable flag with an oracle that names the
  system calls and commands that fail.
\<close>

section \<open>Text\<close>

definition newline :: char where
  "newline = CHR 0x0A"

text \<open>\<open>str::find\<close> with the two slices at the position found.\<close>

fun split_str :: "string \<Rightarrow> string \<Rightarrow> (string \<times> string) option" where
  "split_str p [] = (if p = [] then Some ([], []) else None)"
| "split_str p (c # s) =
     (if prefix p (c # s) then Some ([], c # s)
      else map_option (\<lambda>(a, b). (c # a, b)) (split_str p s))"

definition trim_end_newlines :: "string \<Rightarrow> string" where
  "trim_end_newlines s = trim_end_by (\<lambda>c. c = newline) s"

definition begin_marker :: string where
  "begin_marker = ''# BEGIN BLOCKUNTU MANAGED''"

definition end_marker :: string where
  "end_marker = ''# END BLOCKUNTU MANAGED''"

fun normalize_line_endings :: "string \<Rightarrow> string" where
  "normalize_line_endings (c # d # s) =
     (if c = CHR 0x0D \<and> d = newline then newline # normalize_line_endings s
      else c # normalize_line_endings (d # s))"
| "normalize_line_endings s = s"

section \<open>The domains\<close>

text \<open>A set kept in order: its elements are listed sorted and once.\<close>

definition btree_set :: "string list \<Rightarrow> string list" where
  "btree_set xs = sort (remdups xs)"

definition add_rule_domains :: "rule_config \<Rightarrow> string list" where
  "add_rule_domains rule = concat (map (\<lambda>pattern.
     let domain = to_ascii_lowercase (trim_end_by (\<lambda>c. c = CHR ''.'') (trim (rp_value pattern))) in
     if domain = [] then []
     else domain # (if rp_match_subdomains pattern \<and> \<not> starts_with domain ''www.'' then [''www.'' @ domain] else []))
     (filter (\<lambda>pattern. rp_kind pattern = Domain) (rc_patterns rule)))"

definition rule_is_managed :: "'u lib \<Rightarrow> config \<Rightarrow> datetime \<Rightarrow> bool \<Rightarrow> rule_config \<Rightarrow> bool" where
  "rule_is_managed L config now clock_tampered rule \<longleftrightarrow>
     rc_enabled rule \<and> rc_mode rule = Blocklist
     \<and> (rc_tier rule = Hard \<or> (rc_tier rule = ScheduledBlock
          \<and> schedule_ids_are_active_at L (rc_schedule_ids rule) config now clock_tampered))"

definition managed_domains :: "'u lib \<Rightarrow> config \<Rightarrow> datetime \<Rightarrow> bool \<Rightarrow> string list" where
  "managed_domains L config now clock_tampered =
     concat (map add_rule_domains (filter (rule_is_managed L config now clock_tampered) (cfg_rules config)))"

definition detox_domains :: "config \<Rightarrow> detox_session \<Rightarrow> string list" where
  "detox_domains config session = concat (map (\<lambda>rule_id.
     case find (\<lambda>rule. rc_id rule = rule_id \<and> rc_enabled rule \<and> rc_mode rule = Blocklist
         \<and> rc_tier rule = ScheduledBlock) (cfg_rules config) of
       None \<Rightarrow> []
     | Some rule \<Rightarrow> add_rule_domains rule) (ds_site_rule_ids session))"

definition managed_domains_with_active_detox ::
  "'u lib \<Rightarrow> config \<Rightarrow> detox_session list \<Rightarrow> datetime \<Rightarrow> bool \<Rightarrow> string list" where
  "managed_domains_with_active_detox L config sessions now clock_tampered =
     btree_set (managed_domains L config now clock_tampered @ concat (map (detox_domains config) sessions))"

section \<open>The block in the text\<close>

definition block_of_domains :: "string list \<Rightarrow> string" where
  "block_of_domains domains =
     begin_marker @ newline # ''# This block is managed by blockuntud. Manual edits are repaired.'' @ newline
       # concat (map (\<lambda>domain. ''0.0.0.0 '' @ domain @ newline # '':: '' @ domain @ [newline]) domains)
       @ end_marker @ [newline]"

definition render_managed_block_with_active_detox ::
  "'u lib \<Rightarrow> config \<Rightarrow> detox_session list \<Rightarrow> datetime \<Rightarrow> bool \<Rightarrow> string" where
  "render_managed_block_with_active_detox L config sessions now clock_tampered =
     block_of_domains (managed_domains_with_active_detox L config sessions now clock_tampered)"

text \<open>What follows the line of the end marker.\<close>

definition after_end_line :: "string \<Rightarrow> string" where
  "after_end_line tail =
     (case split_once newline (drop (length end_marker) tail) of None \<Rightarrow> [] | Some (_, rest) \<Rightarrow> rest)"

definition before_block :: "string \<Rightarrow> string" where
  "before_block user = (let output = trim_end_newlines user in if output = [] then [] else output @ [newline, newline])"

definition replace_managed_block :: "string \<Rightarrow> string \<Rightarrow> string" where
  "replace_managed_block current block =
     (case split_str begin_marker current of
        None \<Rightarrow> before_block current @ block
      | Some (user, managed) \<Rightarrow>
          (case split_str end_marker managed of
             None \<Rightarrow> before_block user @ block
           | Some (_, tail) \<Rightarrow>
               let suffix = dropWhile (\<lambda>c. c = newline) (after_end_line tail) in
               before_block user @ block @ (if suffix = [] then [] else newline # suffix)))"

definition remove_managed_block_from :: "string \<Rightarrow> string" where
  "remove_managed_block_from current =
     (case split_str begin_marker current of
        None \<Rightarrow> current
      | Some (user, managed) \<Rightarrow>
          (case split_str end_marker managed of
             None \<Rightarrow> trim_end_newlines user
           | Some (_, tail) \<Rightarrow>
               let output = trim_end_newlines user;
                   suffix = dropWhile (\<lambda>c. c = newline) (after_end_line tail);
                   output' = (if suffix = [] then output
                              else (if output = [] then [] else output @ [newline]) @ suffix)
               in if output' = [] then [] else output' @ [newline]))"

definition managed_block_present :: "string \<Rightarrow> bool" where
  "managed_block_present current =
     (case split_str begin_marker current of None \<Rightarrow> False | Some (_, managed) \<Rightarrow> contains managed end_marker)"

section \<open>The file\<close>

record hosts_store =
  hs_fault :: "string \<Rightarrow> string option"
  hs_enforce_immutable :: bool
  hs_file :: "(string \<times> bool) option"

datatype hosts_repair_status = AlreadyCompliant | Repaired | SkippedInactive

definition hosts_call :: "string \<Rightarrow> (hosts_store, unit) action" where
  "hosts_call tag store = (case hs_fault store tag of Some e \<Rightarrow> Inl (DaemonIo e) | None \<Rightarrow> Inr (), store)"

text \<open>A file that does not exist reads as empty.\<close>

definition read_hosts :: "hosts_store \<Rightarrow> daemon_error + string" where
  "read_hosts store =
     (case hs_fault store ''read'' of
        Some e \<Rightarrow> Inl (DaemonIo e)
      | None \<Rightarrow> Inr (case hs_file store of None \<Rightarrow> [] | Some (contents, _) \<Rightarrow> contents))"

definition hosts_set_immutable :: "bool \<Rightarrow> (hosts_store, unit) action" where
  "hosts_set_immutable enabled store =
     (case hs_fault store (if enabled then ''chattr +i'' else ''chattr -i'') of
        Some e \<Rightarrow> (Inl (DaemonIo e), store)
      | None \<Rightarrow>
          (case hs_file store of
             None \<Rightarrow> (Inl (DaemonIo ''No such file or directory''), store)
           | Some (contents, _) \<Rightarrow> (Inr (), store\<lparr>hs_file := Some (contents, enabled)\<rparr>)))"

definition hosts_clear_immutable_if_needed :: "(hosts_store, unit) action" where
  "hosts_clear_immutable_if_needed store =
     act_when (hs_enforce_immutable store \<and> hs_file store \<noteq> None) (hosts_set_immutable False) store"

definition immutable_enabled :: "hosts_store \<Rightarrow> daemon_error + bool" where
  "immutable_enabled store =
     (case hs_fault store ''lsattr'' of
        Some e \<Rightarrow> Inl (DaemonIo e)
      | None \<Rightarrow>
          (case hs_file store of
             None \<Rightarrow> Inl (DaemonIo ''No such file or directory'')
           | Some (_, immutable) \<Rightarrow> Inr immutable))"

text \<open>The staged file replaces the hosts file by a rename, which an immutable file refuses.\<close>

definition stage_hosts :: "(hosts_store, unit) action" where
  "stage_hosts = act_for [''create directory'', ''open temporary'', ''set temporary permissions'', ''write'', ''sync'']
     hosts_call"

definition write_hosts_atomically :: "string \<Rightarrow> (hosts_store, unit) action" where
  "write_hosts_atomically contents =
     act_bind stage_hosts (\<lambda>_.
     act_bind (\<lambda>store. case hs_fault store ''rename'' of
         Some e \<Rightarrow> (Inl (DaemonIo e), store)
       | None \<Rightarrow> (case hs_file store of
           Some (_, True) \<Rightarrow> (Inl (DaemonIo ''Operation not permitted''), store)
         | _ \<Rightarrow> (Inr (), store\<lparr>hs_file := Some (contents, False)\<rparr>))) (\<lambda>_.
       hosts_call ''set permissions''))"

definition verify_and_repair_with_active_detox ::
  "'u lib \<Rightarrow> config \<Rightarrow> detox_session list \<Rightarrow> datetime \<Rightarrow> bool \<Rightarrow> (hosts_store, hosts_repair_status) action" where
  "verify_and_repair_with_active_detox L config sessions now clock_tampered =
     act_bind (act_read read_hosts) (\<lambda>current.
     let expected = replace_managed_block current
           (render_managed_block_with_active_detox L config sessions now clock_tampered);
         rewrite = normalize_line_endings current \<noteq> normalize_line_endings expected in
     act_bind (act_when rewrite (act_bind hosts_clear_immutable_if_needed (\<lambda>_. write_hosts_atomically expected))) (\<lambda>_.
     act_bind (act_read (\<lambda>store. if hs_enforce_immutable store
         then and_then (immutable_enabled store) (\<lambda>enabled. Inr (\<not> enabled)) else Inr False)) (\<lambda>protect.
     act_bind (act_when protect (hosts_set_immutable True)) (\<lambda>_.
       act_return (if rewrite \<or> protect then Repaired else AlreadyCompliant)))))"

definition remove_managed_block :: "(hosts_store, hosts_repair_status) action" where
  "remove_managed_block =
     act_bind (act_read read_hosts) (\<lambda>current.
     let expected = remove_managed_block_from current in
     act_bind hosts_clear_immutable_if_needed (\<lambda>_.
       if normalize_line_endings current = normalize_line_endings expected then act_return AlreadyCompliant
       else act_bind (write_hosts_atomically expected) (\<lambda>_. act_return Repaired)))"

datatype hosts_immutable_state = ImmutableEnabled | ImmutableDisabled | ImmutableNotRequired | ImmutableUnknown

record hosts_file_status =
  hf_expected_domain_count :: nat
  hf_managed_block_present :: bool
  hf_managed_block_compliant :: bool
  hf_immutable_required :: bool
  hf_immutable_state :: hosts_immutable_state

definition immutable_status :: "hosts_store \<Rightarrow> hosts_immutable_state" where
  "immutable_status store =
     (if \<not> hs_enforce_immutable store then ImmutableNotRequired
      else case immutable_enabled store of
        Inr True \<Rightarrow> ImmutableEnabled
      | Inr False \<Rightarrow> ImmutableDisabled
      | Inl _ \<Rightarrow> ImmutableUnknown)"

definition status_with_active_detox ::
  "'u lib \<Rightarrow> config \<Rightarrow> detox_session list \<Rightarrow> datetime \<Rightarrow> bool \<Rightarrow> hosts_store \<Rightarrow> hosts_file_status" where
  "status_with_active_detox L config sessions now clock_tampered store =
     (let count = length (managed_domains_with_active_detox L config sessions now clock_tampered) in
      case read_hosts store of
        Inl _ \<Rightarrow> \<lparr>hf_expected_domain_count = count, hf_managed_block_present = False,
          hf_managed_block_compliant = False, hf_immutable_required = hs_enforce_immutable store,
          hf_immutable_state = ImmutableUnknown\<rparr>
      | Inr current \<Rightarrow>
          let expected = replace_managed_block current
                (render_managed_block_with_active_detox L config sessions now clock_tampered) in
          \<lparr>hf_expected_domain_count = count, hf_managed_block_present = managed_block_present current,
           hf_managed_block_compliant = (normalize_line_endings current = normalize_line_endings expected),
           hf_immutable_required = hs_enforce_immutable store, hf_immutable_state = immutable_status store\<rparr>)"

section \<open>Finding the markers again\<close>

lemma prefix_over_newline:
  assumes "newline \<notin> set p" "p \<noteq> []"
  shows "prefix p (a @ newline # b) \<longleftrightarrow> prefix p a"
proof
  assume "prefix p (a @ newline # b)"
  then obtain zs where "prefix p a \<or> (p = a @ zs \<and> prefix zs (newline # b))" by (auto simp: prefix_append)
  then show "prefix p a" using assms by (cases zs) auto
qed simp

lemma split_str_skip:
  assumes "newline \<notin> set p" "p \<noteq> []" "\<not> contains a p"
  shows "split_str p (a @ newline # b) = map_option (\<lambda>(x, y). (a @ newline # x, y)) (split_str p b)"
  using assms(3)
proof (induction a)
  case Nil
  have "\<not> prefix p (newline # b)" using prefix_over_newline [OF assms(1,2), of "[]"] assms(2) by simp
  then show ?case by simp
next
  case (Cons c a)
  then have "\<not> prefix p (c # a @ newline # b)"
    using prefix_over_newline [OF assms(1,2), of "c # a" b] by simp
  then show ?case using Cons by (simp add: option.map_comp comp_def split_def)
qed

lemma split_str_here: "p \<noteq> [] \<Longrightarrow> split_str p (p @ s) = Some ([], p @ s)"
  by (cases p) (simp_all add: same_prefix_prefix)

lemma contains_chars: "contains s p \<Longrightarrow> set p \<subseteq> set s"
  by (induction s) (use set_mono_prefix in \<open>fastforce+\<close>)

lemma contains_prefix: "contains a p \<Longrightarrow> prefix a b \<Longrightarrow> contains b p"
proof (induction a arbitrary: b)
  case Nil
  then show ?case by (cases b) auto
next
  case (Cons c a)
  then obtain b' where "b = c # b'" "prefix a b'" by (cases b) auto
  then show ?case using Cons prefix_order.trans [of p "c # a" b] by (auto simp: Cons)
qed

lemma split_str_None: "split_str p s = None \<longleftrightarrow> \<not> contains s p"
  by (induction s) auto

lemma split_str_Some:
  "split_str p s = Some (a, b) \<Longrightarrow> p \<noteq> [] \<Longrightarrow> s = a @ b \<and> prefix p b \<and> \<not> contains a p"
proof (induction s arbitrary: a)
  case (Cons c s)
  show ?case
  proof (cases "prefix p (c # s)")
    case False
    then obtain a' where a: "a = c # a'" "split_str p s = Some (a', b)" using Cons.prems by auto
    from Cons.IH [OF this(2) Cons.prems(2)] have "s = a' @ b" "prefix p b" "\<not> contains a' p" by auto
    moreover have "\<not> prefix p (c # a')" using False \<open>s = a' @ b\<close> by (metis append_Cons prefix_prefix)
    ultimately show ?thesis using a by simp
  qed (use Cons.prems in auto)
qed simp

lemma markers_plain [simp]:
  "newline \<notin> set begin_marker" "newline \<notin> set end_marker" "begin_marker \<noteq> []" "end_marker \<noteq> []"
  by (simp_all add: begin_marker_def end_marker_def newline_def)

text \<open>A domain is lower case, so no line that shows one shows the end marker.\<close>

definition lower_text :: "string \<Rightarrow> bool" where
  "lower_text d \<longleftrightarrow> CHR ''E'' \<notin> set d"

lemma ascii_lower_char_E: "ascii_lower_char c \<noteq> CHR ''E''"
proof
  assume e: "ascii_lower_char c = CHR ''E''"
  show False
  proof (cases "65 \<le> code_point c \<and> code_point c \<le> 90")
    case True
    then have "code_point (ascii_lower_char c) = code_point c + 32"
      by (simp add: ascii_lower_char_def Let_def code_point_char_of)
    then show False using e True by (simp add: code_point_def)
  next
    case False
    then have "c = CHR ''E''" using e by (auto simp: ascii_lower_char_def Let_def)
    then show False using False by (simp add: code_point_def)
  qed
qed

lemma lower_lowercase: "lower_text (to_ascii_lowercase s)"
  by (auto simp: lower_text_def to_ascii_lowercase_def dest!: sym [of "CHR ''E''"] simp: ascii_lower_char_E)

lemma lower_rule_domains: "d \<in> set (add_rule_domains rule) \<Longrightarrow> lower_text d"
proof -
  assume "d \<in> set (add_rule_domains rule)"
  then obtain s where "d = to_ascii_lowercase s \<or> d = ''www.'' @ to_ascii_lowercase s"
    by (auto simp: add_rule_domains_def Let_def split: if_splits)
  then show ?thesis using lower_lowercase [of s] by (auto simp: lower_text_def)
qed

lemma lower_managed: "d \<in> set (managed_domains_with_active_detox L config sessions now tampered) \<Longrightarrow> lower_text d"
  by (auto simp: managed_domains_with_active_detox_def btree_set_def managed_domains_def detox_domains_def
      split: option.splits dest: lower_rule_domains)

lemma not_end_line: "lower_text d \<Longrightarrow> \<not> contains (''0.0.0.0 '' @ d) end_marker"
  "lower_text d \<Longrightarrow> \<not> contains ('':: '' @ d) end_marker"
  by (auto simp: lower_text_def end_marker_def dest!: contains_chars)

lemma not_end_head: "\<not> contains begin_marker end_marker"
  "\<not> contains ''# This block is managed by blockuntud. Manual edits are repaired.'' end_marker"
  by code_simp+

definition domain_lines :: "string list \<Rightarrow> string" where
  "domain_lines domains = concat (map (\<lambda>domain. ''0.0.0.0 '' @ domain @ newline # '':: '' @ domain @ [newline]) domains)"

lemma split_domain_lines:
  assumes "\<forall>d\<in>set ds. lower_text d"
  shows "split_str end_marker (domain_lines ds @ end_marker @ rest) = Some (domain_lines ds, end_marker @ rest)"
  using assms
proof (induction ds)
  case Nil
  show ?case by (simp add: domain_lines_def split_str_here)
next
  case (Cons d ds)
  have l: "domain_lines (d # ds) @ end_marker @ rest
      = (''0.0.0.0 '' @ d) @ newline # ('':: '' @ d) @ newline # (domain_lines ds @ end_marker @ rest)"
    by (simp add: domain_lines_def)
  have d: "lower_text d" and ih: "split_str end_marker (domain_lines ds @ end_marker @ rest)
      = Some (domain_lines ds, end_marker @ rest)" using Cons by auto
  show ?case
    unfolding l split_str_skip [OF markers_plain(2,4) not_end_line(1) [OF d]]
      split_str_skip [OF markers_plain(2,4) not_end_line(2) [OF d]] ih
    by (simp add: domain_lines_def)
qed

lemma split_block:
  assumes "\<forall>d\<in>set ds. lower_text d"
  shows "\<exists>x. split_str end_marker (block_of_domains ds @ rest) = Some (x, end_marker @ newline # rest)"
proof -
  have b: "block_of_domains ds @ rest = begin_marker @ newline #
      ''# This block is managed by blockuntud. Manual edits are repaired.'' @ newline
      # (domain_lines ds @ end_marker @ newline # rest)"
    by (simp add: block_of_domains_def domain_lines_def)
  show ?thesis unfolding b
    by (simp only: split_str_skip [OF markers_plain(2,4) not_end_head(1)]
        split_str_skip [OF markers_plain(2,4) not_end_head(2)] split_domain_lines [OF assms]) simp
qed

lemma block_begins: "block_of_domains ds @ rest = begin_marker @ (drop (length begin_marker) (block_of_domains ds) @ rest)"
  by (simp add: block_of_domains_def)

lemma trim_end_newlines_prefix: "prefix (trim_end_newlines s) s"
proof -
  have "suffix (dropWhile (\<lambda>c. c = newline) (rev s)) (rev s)" by (rule suffix_dropWhile)
  then show ?thesis by (simp add: trim_end_newlines_def trim_end_by_def suffix_to_prefix)
qed

lemma trim_end_newlines_again [simp]:
  "trim_end_newlines (trim_end_newlines s @ [newline, newline]) = trim_end_newlines s"
  by (simp add: trim_end_newlines_def trim_end_by_def)

lemma before_block_again [simp]: "before_block (before_block user) = before_block user"
  by (simp add: before_block_def Let_def) (simp add: trim_end_newlines_def trim_end_by_def)

lemma split_begin:
  assumes "\<not> contains user begin_marker"
  shows "split_str begin_marker (before_block user @ block_of_domains ds @ rest)
    = Some (before_block user, block_of_domains ds @ rest)"
proof (cases "trim_end_newlines user = []")
  case True
  then show ?thesis using split_str_here [of begin_marker] by (simp add: before_block_def block_begins)
next
  case False
  have "\<not> contains (trim_end_newlines user) begin_marker"
    using assms contains_prefix trim_end_newlines_prefix by blast
  note outer = split_str_skip [OF markers_plain(1,3) this]
  have "\<not> contains [] begin_marker" by simp
  note inner = split_str_skip [OF markers_plain(1,3) this, unfolded append_Nil]
  have "split_str begin_marker (block_of_domains ds @ rest) = Some ([], block_of_domains ds @ rest)"
    unfolding block_begins by (rule split_str_here) simp
  then have "split_str begin_marker (trim_end_newlines user @ newline # newline # block_of_domains ds @ rest)
      = Some (trim_end_newlines user @ [newline, newline], block_of_domains ds @ rest)"
    unfolding outer inner by simp
  then show ?thesis using False by (simp add: before_block_def)
qed

section \<open>Repairing twice, repairing and removing\<close>

definition block_tail :: "string \<Rightarrow> bool" where
  "block_tail t \<longleftrightarrow> t = [] \<or> (\<exists>c s. t = newline # c # s \<and> c \<noteq> newline)"

lemma block_tail_of: "block_tail (let suffix = dropWhile (\<lambda>c. c = newline) x in if suffix = [] then [] else newline # suffix)"
proof (cases "dropWhile (\<lambda>c. c = newline) x")
  case (Cons c s)
  then have "c \<noteq> newline" using hd_dropWhile [of "\<lambda>c. c = newline" x] by simp
  then show ?thesis using Cons by (simp add: block_tail_def)
qed (simp add: block_tail_def)

text \<open>The text after a repair: the user's lines, the block, and the user's lines after it.\<close>

lemma replace_shape:
  obtains user tail where "replace_managed_block current block = before_block user @ block @ tail"
    "\<not> contains user begin_marker" "block_tail tail" "split_str begin_marker current = None \<Longrightarrow> user = current \<and> tail = []"
proof (cases "split_str begin_marker current")
  case None
  then have "\<not> contains current begin_marker" using split_str_None by metis
  then show thesis using that [of current "[]"] None by (simp add: replace_managed_block_def block_tail_def)
next
  case (Some um)
  obtain user managed where um: "um = (user, managed)" by (cases um)
  have u: "\<not> contains user begin_marker" using split_str_Some [of begin_marker current user managed] Some um by simp
  show thesis
  proof (cases "split_str end_marker managed")
    case None
    then show thesis using that [of user "[]"] Some um u by (simp add: replace_managed_block_def block_tail_def)
  next
    case (Some et)
    then show thesis
      using that [of user "let suffix = dropWhile (\<lambda>c. c = newline) (after_end_line (snd et)) in
          if suffix = [] then [] else newline # suffix"] u um \<open>split_str begin_marker current = Some um\<close> block_tail_of
      by (simp add: replace_managed_block_def Let_def split: prod.splits)
  qed
qed

lemma no_begin_before: "\<not> contains user begin_marker \<Longrightarrow> \<not> contains (before_block user) begin_marker"
  using split_begin [of user "[]" "[]"] split_str_Some [of begin_marker "before_block user @ block_of_domains []" "before_block user"]
  by auto

lemma tail_after_end: "block_tail tail \<Longrightarrow>
    (let suffix = dropWhile (\<lambda>c. c = newline) (after_end_line (end_marker @ newline # tail)) in
       if suffix = [] then [] else newline # suffix) = tail"
  using split_once_first [of newline "[]" tail] by (auto simp: after_end_line_def block_tail_def)

lemma replace_of_shape:
  assumes "\<forall>d\<in>set ds. lower_text d" "\<not> contains user begin_marker" "block_tail tail"
  shows "replace_managed_block (before_block user @ block_of_domains ds @ tail) (block_of_domains ds)
    = before_block user @ block_of_domains ds @ tail"
proof -
  obtain x where x: "split_str end_marker (block_of_domains ds @ tail) = Some (x, end_marker @ newline # tail)"
    using split_block [OF assms(1)] by blast
  show ?thesis using split_begin [OF assms(2), of ds tail] x tail_after_end [OF assms(3)]
    by (simp add: replace_managed_block_def Let_def)
qed

lemma replace_twice:
  assumes "\<forall>d\<in>set ds. lower_text d"
  shows "replace_managed_block (replace_managed_block current (block_of_domains ds)) (block_of_domains ds)
    = replace_managed_block current (block_of_domains ds)"
proof (rule replace_shape [of current "block_of_domains ds"])
  fix user tail
  assume "replace_managed_block current (block_of_domains ds) = before_block user @ block_of_domains ds @ tail"
    "\<not> contains user begin_marker" "block_tail tail"
  then show ?thesis using replace_of_shape [OF assms] by simp
qed

lemma remove_of_shape:
  assumes "\<forall>d\<in>set ds. lower_text d" "\<not> contains user begin_marker"
  shows "remove_managed_block_from (before_block user @ block_of_domains ds)
    = (if trim_end_newlines user = [] then [] else trim_end_newlines user @ [newline])"
proof -
  obtain x where x: "split_str end_marker (block_of_domains ds) = Some (x, end_marker @ [newline])"
    using split_block [OF assms(1), of "[]"] by auto
  have t: "trim_end_newlines (before_block user) = trim_end_newlines user"
    by (simp add: before_block_def Let_def) (simp add: trim_end_newlines_def trim_end_by_def)
  have "after_end_line (end_marker @ [newline]) = []"
    using split_once_first [of newline "[]" "[]"] by (simp add: after_end_line_def)
  then show ?thesis using split_begin [OF assms(2), of ds "[]"] x t
    by (simp add: remove_managed_block_from_def Let_def)
qed

lemma act_for_hosts_call [simp, frame]: "snd (act_for tags hosts_call store) = store"
  by (induction tags) (simp_all add: act_bind_def hosts_call_def split: sum.splits option.splits)

lemma stage_hosts_state: "stage_hosts store = (r, s1) \<Longrightarrow> s1 = store"
  using act_for_hosts_call unfolding stage_hosts_def by (metis snd_conv)

lemma write_hosts_Inr:
  "write_hosts_atomically contents store = (Inr u, store') \<Longrightarrow> store' = store\<lparr>hs_file := Some (contents, False)\<rparr>"
  by (auto simp: write_hosts_atomically_def act_bind_Inr hosts_call_def dest!: stage_hosts_state
      split: option.splits bool.splits prod.splits)

lemma clear_hosts_Inr:
  assumes "hosts_clear_immutable_if_needed store = (Inr u, store')"
  shows "hs_fault store' = hs_fault store \<and> hs_enforce_immutable store' = hs_enforce_immutable store"
  using assms by (auto simp: hosts_clear_immutable_if_needed_def act_when_def hosts_set_immutable_def
      split: if_splits option.splits)

lemma read_hosts_Inr: "read_hosts store = Inr text \<Longrightarrow> hs_fault store ''read'' = None
    \<and> text = (case hs_file store of None \<Rightarrow> [] | Some (contents, _) \<Rightarrow> contents)"
  by (auto simp: read_hosts_def split: option.splits)

text \<open>
  C26. Repairing the hosts file converges: after a repair that succeeded the file is compliant and
  immutable if that is enforced, and repairing again changes nothing and says so.
\<close>

theorem hosts_repair_converges:
  assumes "verify_and_repair_with_active_detox L config sessions now tampered store = (Inr r, store')"
  shows "verify_and_repair_with_active_detox L config sessions now tampered store' = (Inr AlreadyCompliant, store')
    \<and> hf_managed_block_compliant (status_with_active_detox L config sessions now tampered store')
    \<and> (hs_enforce_immutable store \<longrightarrow> (\<exists>text. hs_file store' = Some (text, True)))"
proof -
  define block where "block = render_managed_block_with_active_detox L config sessions now tampered"
  obtain current where c: "read_hosts store = Inr current"
    using assms by (auto simp: verify_and_repair_with_active_detox_def act_bind_Inr)
  define expected where "expected = replace_managed_block current block"
  define rewrite where "rewrite \<longleftrightarrow> normalize_line_endings current \<noteq> normalize_line_endings expected"
  obtain s1 u protect v where
    w: "act_when rewrite (act_bind hosts_clear_immutable_if_needed (\<lambda>_. write_hosts_atomically expected)) store = (Inr u, s1)"
    and q: "(if hs_enforce_immutable s1 then and_then (immutable_enabled s1) (\<lambda>enabled. Inr (\<not> enabled)) else Inr False) = Inr protect"
    and p: "act_when protect (hosts_set_immutable True) s1 = (Inr v, store')"
    using assms c by (auto simp: verify_and_repair_with_active_detox_def act_bind_Inr Let_def
        rewrite_def expected_def block_def)
  have env: "hs_fault s1 = hs_fault store" "hs_enforce_immutable s1 = hs_enforce_immutable store"
    using w by (auto simp: act_when_def act_bind_Inr dest!: clear_hosts_Inr write_hosts_Inr split: if_splits)
  have held: "read_hosts s1 = Inr (if rewrite then expected else current)"
    using w c env(1) read_hosts_Inr [OF c]
    by (auto simp: act_when_def act_bind_Inr read_hosts_def dest!: write_hosts_Inr split: if_splits)
  have kept: "hs_fault store' = hs_fault s1" "hs_enforce_immutable store' = hs_enforce_immutable s1"
      "read_hosts store' = read_hosts s1"
    using p by (auto simp: act_when_def hosts_set_immutable_def read_hosts_def split: if_splits option.splits)
  have locked: "hs_enforce_immutable s1 \<Longrightarrow> immutable_enabled store' = Inr True"
    using p q by (auto simp: act_when_def hosts_set_immutable_def immutable_enabled_def and_then_Inr_iff
        split: if_splits option.splits)
  have lower: "\<forall>d\<in>set (managed_domains_with_active_detox L config sessions now tampered). lower_text d"
    by (simp add: lower_managed)
  have same: "replace_managed_block expected block = expected"
    unfolding expected_def block_def render_managed_block_with_active_detox_def by (rule replace_twice [OF lower])
  define body where "body = (if rewrite then expected else current)"
  have compliant: "normalize_line_endings body = normalize_line_endings (replace_managed_block body block)"
    using same by (auto simp: body_def rewrite_def expected_def)
  have "read_hosts store' = Inr body" using kept(3) held by (simp add: body_def)
  then show ?thesis using compliant locked kept(2) env(2)
    by (auto simp: verify_and_repair_with_active_detox_def act_bind_def block_def status_with_active_detox_def Let_def
        immutable_enabled_def split: option.splits)
qed

text \<open>
  What was installed can be taken out: removing the block from a file the repair added it to gives
  the user's file back, with one newline at its end (an empty file stays empty). The hypothesis is
  that the user's file does not mention the begin marker.
\<close>

lemma hosts_uninstall_restores_file:
  assumes "\<not> contains current begin_marker"
  shows "remove_managed_block_from (replace_managed_block current
      (render_managed_block_with_active_detox L config sessions now tampered))
    = (if trim_end_newlines current = [] then [] else trim_end_newlines current @ [newline])"
proof -
  define ds where "ds = managed_domains_with_active_detox L config sessions now tampered"
  have b: "render_managed_block_with_active_detox L config sessions now tampered = block_of_domains ds"
    by (simp add: render_managed_block_with_active_detox_def ds_def)
  have lower: "\<forall>d\<in>set ds. lower_text d" by (simp add: lower_managed ds_def)
  have "split_str begin_marker current = None" using assms split_str_None by metis
  then have "replace_managed_block current (block_of_domains ds) = before_block current @ block_of_domains ds"
    by (simp add: replace_managed_block_def)
  then show ?thesis unfolding b using remove_of_shape [OF lower assms] by simp
qed

section \<open>Agreement with the policy engine\<close>

lemma detox_domains_member:
  "d \<in> set (detox_domains config session) \<Longrightarrow>
     \<exists>rule\<in>set (cfg_rules config). rc_enabled rule \<and> rc_mode rule = Blocklist \<and> rc_tier rule = ScheduledBlock
       \<and> rc_id rule \<in> set (ds_site_rule_ids session) \<and> d \<in> set (add_rule_domains rule)"
proof -
  assume "d \<in> set (detox_domains config session)"
  then obtain i rule where i: "i \<in> set (ds_site_rule_ids session)" "d \<in> set (add_rule_domains rule)"
      and f: "find (\<lambda>rule. rc_id rule = i \<and> rc_enabled rule \<and> rc_mode rule = Blocklist \<and> rc_tier rule = ScheduledBlock)
        (cfg_rules config) = Some rule"
    unfolding detox_domains_def set_concat set_map by (auto split: option.splits)
  from find_Some_iff_first [OF f] i show ?thesis by blast
qed

text \<open>The lists whose domains are in the block.\<close>

definition rule_is_hosted :: "'u lib \<Rightarrow> config \<Rightarrow> detox_session list \<Rightarrow> datetime \<Rightarrow> bool \<Rightarrow> rule_config \<Rightarrow> bool" where
  "rule_is_hosted L config sessions now tampered rule \<longleftrightarrow>
     rc_enabled rule \<and> rc_mode rule = Blocklist
     \<and> (case rc_tier rule of
          Hard \<Rightarrow> True
        | ScheduledBlock \<Rightarrow> schedule_ids_are_active_at L (rc_schedule_ids rule) config now tampered
            \<or> (\<exists>session\<in>set sessions. rc_id rule \<in> set (ds_site_rule_ids session))
        | ControlledAccess \<Rightarrow> False)"

lemma hosted_domain:
  assumes "d \<in> set (managed_domains_with_active_detox L config sessions now tampered)"
  shows "\<exists>rule\<in>set (cfg_rules config). rule_is_hosted L config sessions now tampered rule \<and> d \<in> set (add_rule_domains rule)"
proof -
  have "(\<exists>rule\<in>set (cfg_rules config). rule_is_managed L config now tampered rule \<and> d \<in> set (add_rule_domains rule))
      \<or> (\<exists>session\<in>set sessions. d \<in> set (detox_domains config session))"
    using assms by (auto simp: managed_domains_with_active_detox_def btree_set_def managed_domains_def)
  moreover have "rule_is_managed L config now tampered rule \<Longrightarrow> rule_is_hosted L config sessions now tampered rule" for rule
    by (auto simp: rule_is_managed_def rule_is_hosted_def)
  moreover have "rule_is_hosted L config sessions now tampered rule"
    if "session \<in> set sessions" "rc_enabled rule" "rc_mode rule = Blocklist" "rc_tier rule = ScheduledBlock"
      "rc_id rule \<in> set (ds_site_rule_ids session)" for session rule
    using that by (auto simp: rule_is_hosted_def)
  ultimately show ?thesis using detox_domains_member by meson
qed

lemma domain_of_hosted:
  assumes "distinct (map rc_id (cfg_rules config))" "rule \<in> set (cfg_rules config)"
    "rule_is_hosted L config sessions now tampered rule" "d \<in> set (add_rule_domains rule)"
  shows "d \<in> set (managed_domains_with_active_detox L config sessions now tampered)"
proof (cases "rule_is_managed L config now tampered rule")
  case True
  then show ?thesis using assms
    by (auto simp: managed_domains_with_active_detox_def btree_set_def managed_domains_def)
next
  case False
  then obtain session where s: "session \<in> set sessions" "rc_id rule \<in> set (ds_site_rule_ids session)"
      "rc_enabled rule" "rc_mode rule = Blocklist" "rc_tier rule = ScheduledBlock"
    using assms(3) by (auto simp: rule_is_hosted_def rule_is_managed_def split: rule_tier.splits)
  have "find (\<lambda>r. rc_id r = rc_id rule \<and> rc_enabled r \<and> rc_mode r = Blocklist \<and> rc_tier r = ScheduledBlock)
      (cfg_rules config) = Some rule"
    using assms(1,2) s(3-)
  proof (induction "cfg_rules config" arbitrary: config)
    case Nil
    then show ?case by (metis empty_iff list.set(1))
  next
    case (Cons r rs)
    have l: "cfg_rules config = r # rs" using Cons.hyps(2) by simp
    show ?case
    proof (cases "r = rule")
      case True
      then show ?thesis using Cons.prems l by simp
    next
      case False
      then have m: "rule \<in> set rs" "distinct (map rc_id rs)" "rc_id r \<noteq> rc_id rule" using Cons.prems(1,2) l by auto
      then show ?thesis using Cons.hyps(1) [of "config\<lparr>cfg_rules := rs\<rparr>"] Cons.prems(3-) l by simp
    qed
  qed
  then have "d \<in> set (detox_domains config session)" using s(2) assms(4) by (force simp: detox_domains_def)
  then show ?thesis using s(1) by (auto simp: managed_domains_with_active_detox_def btree_set_def)
qed

lemma added_domain_matches:
  assumes "pattern_ok L p" "rp_kind p = Domain" "nu_host parsed = Some d"
    "d \<in> set (add_rule_domains (rule\<lparr>rc_patterns := [p]\<rparr>))"
  shows "pattern_matches L p parsed"
proof -
  have "trim (rp_value p) = rp_value p" using assms(1) by (simp add: pattern_ok_def identifier_ok_def)
  then have "d = normalized_pattern_value (rp_value p) \<or>
      (rp_match_subdomains p \<and> d = ''www.'' @ normalized_pattern_value (rp_value p))"
    using assms(2,4) by (auto simp: add_rule_domains_def Let_def normalized_pattern_value_def split: if_splits)
  then show ?thesis using assms(2,3) by (auto simp: pattern_matches_def ends_with_def)
qed

lemma add_rule_domains_pattern:
  "d \<in> set (add_rule_domains rule) \<Longrightarrow>
     \<exists>p\<in>set (rc_patterns rule). rp_kind p = Domain \<and> d \<in> set (add_rule_domains (rule\<lparr>rc_patterns := [p]\<rparr>))"
  by (auto simp: add_rule_domains_def Let_def)

text \<open>
  C27. The hosts file closes nothing the engine leaves open, and misses no domain of a list it stands
  for: for a valid policy a domain is in the block exactly if it is one of the domains of an enabled
  block list that is Tier 1, or Tier 2 and on schedule or named by a given session; and a URL whose
  host is in the block is blocked by the engine, when the sessions given are those the engine reads.
\<close>

theorem hosts_block_agrees_with_engine:
  assumes "config_ok L (ec_config ctx)" "context_detox_sessions ctx db = Inr sessions"
    and "normalized_url_parse L url = Inr parsed" "nu_host parsed = Some d"
  shows "(d \<in> set (managed_domains_with_active_detox L (ec_config ctx) sessions (ec_now ctx) (ec_clock_tampered ctx))
      \<longleftrightarrow> (\<exists>rule\<in>set (cfg_rules (ec_config ctx)). d \<in> set (add_rule_domains rule)
            \<and> rule_is_hosted L (ec_config ctx) sessions (ec_now ctx) (ec_clock_tampered ctx) rule))
    \<and> (d \<in> set (managed_domains_with_active_detox L (ec_config ctx) sessions (ec_now ctx) (ec_clock_tampered ctx))
        \<longrightarrow> is_block (evaluate_url L ctx url db))"
proof (intro conjI impI)
  let ?D = "managed_domains_with_active_detox L (ec_config ctx) sessions (ec_now ctx) (ec_clock_tampered ctx)"
  have "distinct (map rc_id (cfg_rules (ec_config ctx)))" using assms(1) by (simp add: config_ok_def unique_ids_def)
  then show "d \<in> set ?D \<longleftrightarrow> (\<exists>rule\<in>set (cfg_rules (ec_config ctx)). d \<in> set (add_rule_domains rule)
            \<and> rule_is_hosted L (ec_config ctx) sessions (ec_now ctx) (ec_clock_tampered ctx) rule)"
    using hosted_domain domain_of_hosted by blast
  assume "d \<in> set ?D"
  then obtain rule where r: "rule \<in> set (cfg_rules (ec_config ctx))" "d \<in> set (add_rule_domains rule)"
      "rule_is_hosted L (ec_config ctx) sessions (ec_now ctx) (ec_clock_tampered ctx) rule"
    using hosted_domain by blast
  obtain p where p: "p \<in> set (rc_patterns rule)" "rp_kind p = Domain" "d \<in> set (add_rule_domains (rule\<lparr>rc_patterns := [p]\<rparr>))"
    using add_rule_domains_pattern [OF r(2)] by blast
  have "pattern_ok L p" using assms(1) r(1) p(1) by (auto simp: config_ok_def rule_ok_def)
  then have "pattern_matches L p parsed" using added_domain_matches p assms(4) by blast
  then have a: "site_rule_applies L rule parsed" using p(1) r(3)
    by (auto simp: site_rule_applies_def rule_is_hosted_def list_ex_iff)
  have "evaluate_url L ctx url db \<noteq> Allow"
  proof
    assume "evaluate_url L ctx url db = Allow"
    then have e: "matching_rules L (ec_config ctx) parsed Hard = []"
        "\<forall>r\<in>set (matching_rules L (ec_config ctx) parsed ScheduledBlock).
           \<not> rule_is_active L ctx r \<and> (\<forall>s\<in>set sessions. rc_id r \<notin> set (ds_site_rule_ids s))"
      using assms(2,3) by (auto simp: evaluate_url_Allow)
    have "rule \<in> set (matching_rules L (ec_config ctx) parsed (rc_tier rule))"
      using r(1,3) a by (simp add: matching_rules_iff rule_is_hosted_def)
    then show False using e r(3)
      by (auto simp: rule_is_hosted_def rule_is_active_def schedule_ids_are_active_def split: rule_tier.splits)
  qed
  then show "is_block (evaluate_url L ctx url db)" using not_is_block by blast
qed

section \<open>A hosts file for concrete checks\<close>

definition user_hosts :: string where
  "user_hosts = ''127.0.0.1 localhost'' @ [newline]"

definition sample_hosts :: hosts_store where
  "sample_hosts = \<lparr>hs_fault = (\<lambda>_. None), hs_enforce_immutable = True, hs_file = Some (user_hosts, True)\<rparr>"

abbreviation first_repair :: "(daemon_error + hosts_repair_status) \<times> hosts_store" where
  "first_repair \<equiv> verify_and_repair_with_active_detox sample_lib engine_policy [] (at_offset 0 tuesday_eight) False sample_hosts"

theorem hosts_repair_converges_witness:
  "fst first_repair = Inr Repaired
   \<and> verify_and_repair_with_active_detox sample_lib engine_policy [] (at_offset 0 tuesday_eight) False (snd first_repair)
       = (Inr AlreadyCompliant, snd first_repair)"
proof -
  have "fst first_repair = Inr Repaired" by code_simp
  then have r: "first_repair = (Inr Repaired, snd first_repair)" by (simp add: prod_eq_iff)
  from hosts_repair_converges [OF r] show ?thesis using r by (metis fst_conv)
qed

lemma hosts_uninstall_restores_file_witness:
  "remove_managed_block_from (replace_managed_block user_hosts
     (render_managed_block_with_active_detox sample_lib engine_policy [] (at_offset 0 tuesday_eight) False)) = user_hosts"
proof -
  have "\<not> contains user_hosts begin_marker" "trim_end_newlines user_hosts = ''127.0.0.1 localhost''" by code_simp+
  then show ?thesis using hosts_uninstall_restores_file [of user_hosts] by (simp add: user_hosts_def)
qed

lemma engine_policy_ok: "config_ok sample_lib engine_policy"
proof -
  have "validate sample_lib engine_policy = Inr ()" by code_simp
  then show ?thesis by (simp add: validate_iff)
qed

theorem hosts_block_agrees_with_engine_witness:
  "''www.bets.com'' \<in> set (managed_domains_with_active_detox sample_lib engine_policy [] (at_offset 0 tuesday_eight) False)
   \<and> is_block (evaluate_url sample_lib (tuesday False) ''https://www.bets.com/'' empty_database)"
proof -
  have ok: "config_ok sample_lib (ec_config (tuesday False))" by (simp add: tuesday_def engine_policy_ok)
  have s: "context_detox_sessions (tuesday False) empty_database = Inr []" by code_simp
  have p: "normalized_url_parse sample_lib ''https://www.bets.com/'' = Inr \<lparr>nu_url_without_fragment = ''https://www.bets.com/'',
      nu_host = Some ''www.bets.com'', nu_path = ''/''\<rparr>" by code_simp
  have d: "''www.bets.com'' \<in> set (managed_domains_with_active_detox sample_lib engine_policy [] (at_offset 0 tuesday_eight) False)"
    by code_simp
  show ?thesis using hosts_block_agrees_with_engine [OF ok s p, of "''www.bets.com''"] d by (simp add: tuesday_def)
qed

end
