(* ===== verification/Edits.thy ===== *)
theory Edits imports Guards Recovery Hosts begin

text \<open>
  The methods of the daemon that edit the policy, from \<^verbatim>\<open>focusd/src/rpc.rs\<close>: each makes the next policy out
  of the present one behind the guards that keep active lists and schedules from being weakened, and
  commits it to the recovery snapshot, the database, the core and the hosts file. The method's
  arguments are taken as parsed; a reply is the policy it shows.
\<close>

section \<open>The daemon\<close>

record daemon =
  dm_core :: focus_core
  dm_recovery :: "snapshot_store option"
  dm_hosts :: "hosts_store option"
  dm_trust_client_time :: bool

text \<open>
  The clock readings of one request, each taken where the code takes it: by the clock guard, by the
  check that rejects a tampered clock, \<open>Utc::now\<close> for the time of the event, \<open>Local::now\<close> while the
  policy is persisted, and \<open>Utc::now\<close> for the state of an uninstall.
\<close>

record request_clock =
  rk_guard :: clock_reading
  rk_status :: clock_reading
  rk_updated_at :: instant
  rk_persist :: datetime
  rk_enforcement :: instant

definition on_core :: "(focus_core, 'a) action \<Rightarrow> (daemon, 'a) action" where
  "on_core m d = (let (r, core) = m (dm_core d) in (r, d\<lparr>dm_core := core\<rparr>))"

definition core_read :: "(focus_core \<Rightarrow> daemon_error + 'a) \<Rightarrow> (daemon, 'a) action" where
  "core_read q = act_read (\<lambda>d. q (dm_core d))"

text \<open>The snapshot and the hosts file are kept only where a manager for them is configured.\<close>

definition on_recovery :: "(snapshot_store, unit) action \<Rightarrow> (daemon, unit) action" where
  "on_recovery m d =
     (case dm_recovery d of
        None \<Rightarrow> (Inr (), d)
      | Some store \<Rightarrow> (let (r, store') = m store in (r, d\<lparr>dm_recovery := Some store'\<rparr>)))"

definition rpc_guarded_now_with_status ::
  "'u lib \<Rightarrow> 'f host_lib \<Rightarrow> request_clock \<Rightarrow> string option \<Rightarrow> (daemon, 'f guarded) action" where
  "rpc_guarded_now_with_status L H k client_now d =
     on_core (on_database (guarded_now L H (rk_guard k) client_now (dm_trust_client_time d))) d"

definition rpc_guarded_now :: "'u lib \<Rightarrow> 'f host_lib \<Rightarrow> request_clock \<Rightarrow> string option \<Rightarrow> (daemon, datetime) action" where
  "rpc_guarded_now L H k client_now =
     act_bind (rpc_guarded_now_with_status L H k client_now) (\<lambda>g. act_return (gn_now g))"

definition reject_if_clock_tampered :: "'f host_lib \<Rightarrow> request_clock \<Rightarrow> (daemon, unit) action" where
  "reject_if_clock_tampered H k = act_read (\<lambda>d.
     if dm_trust_client_time d then Inr () else ensure_trusted H (rk_status k) (fc_database (dm_core d)))"

section \<open>Persisting a policy\<close>

definition rebaseline_schedule_notification_states :: "'u lib \<Rightarrow> datetime \<Rightarrow> (focus_core, unit) action" where
  "rebaseline_schedule_notification_states L now =
     act_bind (act_read (core_query (notification_lifecycle_states ''schedule''))) (\<lambda>existing.
     act_bind (\<lambda>core. act_for (cfg_schedules (fc_config core)) (\<lambda>schedule.
         on_db (set_notification_lifecycle_state ''schedule'' (sc_id schedule)
           (rpc_schedule_ids_are_active_at L [sc_id schedule] (fc_config core) now) (dt_utc now))) core) (\<lambda>_.
     \<lambda>core. act_for existing (\<lambda>(schedule_id, _).
         if list_ex (\<lambda>schedule. sc_id schedule = schedule_id) (cfg_schedules (fc_config core)) then act_return ()
         else on_db (delete_notification_lifecycle_state ''schedule'' schedule_id)) core))"

text \<open>
  The new policy is written to the snapshot and then to the database; when the database refuses it
  the snapshot is written back.
\<close>

definition store_policy :: "'u lib \<Rightarrow> toml_lib \<Rightarrow> config \<Rightarrow> config \<Rightarrow> (daemon, unit) action" where
  "store_policy L T old next_config d =
     (case on_core (on_db (replace_policy_config L next_config)) d of
        (Inr _, d') \<Rightarrow> (Inr (), d')
      | (Inl database_error, d') \<Rightarrow>
          (case on_recovery (write_snapshot L T old) d' of
             (Inl recovery_error, d'') \<Rightarrow>
               (Inl (case database_error of
                       DaemonCore e \<Rightarrow> PolicyPersistenceRollback e recovery_error
                     | _ \<Rightarrow> database_error), d'')
           | (Inr _, d'') \<Rightarrow> (Inl database_error, d'')))"

definition persist_policy_config ::
  "'u lib \<Rightarrow> toml_lib \<Rightarrow> request_clock \<Rightarrow> config \<Rightarrow> (daemon, unit) action" where
  "persist_policy_config L T k next_config =
     act_bind (act_read (\<lambda>_. map_err DaemonCore (validate_config L next_config))) (\<lambda>_.
     act_bind (on_recovery lock_recovery) (\<lambda>_.
     act_bind (core_read (\<lambda>core. Inr (fc_config core))) (\<lambda>old.
     act_bind (on_core (on_db (sync_schedule_activity_totals L (cfg_schedules old) (rk_persist k)))) (\<lambda>_.
     act_bind (on_recovery (write_snapshot L T next_config)) (\<lambda>_.
     act_bind (store_policy L T old next_config) (\<lambda>_.
     act_bind (on_core (replace_config L next_config)) (\<lambda>_.
     act_bind (on_core (\<lambda>core. on_db (sync_schedule_activity_totals L (cfg_schedules (fc_config core)) (rk_persist k)) core)) (\<lambda>_.
       on_core (rebaseline_schedule_notification_states L (rk_persist k))))))))))"

definition repair_hosts_after_policy_change ::
  "'u lib \<Rightarrow> 'f host_lib \<Rightarrow> request_clock \<Rightarrow> datetime \<Rightarrow> (daemon, hosts_repair_status option) action" where
  "repair_hosts_after_policy_change L H k now d =
     (case dm_hosts d of
        None \<Rightarrow> (Inr None, d)
      | Some store \<Rightarrow>
          act_bind (core_read (enforcement_active_from_core H (rk_enforcement k))) (\<lambda>active.
            if \<not> active then act_return (Some SkippedInactive)
            else act_bind (core_read (core_query (active_detox_sessions (dt_utc now)))) (\<lambda>sessions d.
              let (r, store') = verify_and_repair_with_active_detox L (fc_config (dm_core d)) sessions now False store
              in (case r of Inl e \<Rightarrow> Inl e | Inr status \<Rightarrow> Inr (Some status), d\<lparr>dm_hosts := Some store'\<rparr>))) d)"

definition hosts_repair_detail :: "hosts_repair_status option \<Rightarrow> string" where
  "hosts_repair_detail status =
     (case status of
        None \<Rightarrow> []
      | Some AlreadyCompliant \<Rightarrow> '';hosts=AlreadyCompliant''
      | Some Repaired \<Rightarrow> '';hosts=Repaired''
      | Some SkippedInactive \<Rightarrow> '';hosts=SkippedInactive'')"

definition rpc_event :: "string \<Rightarrow> string \<Rightarrow> string \<Rightarrow> instant \<Rightarrow> (daemon, unit) action" where
  "rpc_event kind target details now =
     on_core (act_bind (on_db (record_event kind (Some target) (Some (Details details)) now)) (\<lambda>_. act_return ()))"

text \<open>The end every edit has; only edits of site lists also repair the hosts file.\<close>

definition commit_edit ::
  "'u lib \<Rightarrow> 'f host_lib \<Rightarrow> toml_lib \<Rightarrow> request_clock \<Rightarrow> datetime \<Rightarrow> bool \<Rightarrow> string \<Rightarrow> string \<Rightarrow> config
     \<Rightarrow> (daemon, config) action" where
  "commit_edit L H T k now with_hosts kind target next_config =
     act_bind (act_read (\<lambda>_. map_err DaemonCore (validate_config L next_config))) (\<lambda>_.
     act_bind (persist_policy_config L T k next_config) (\<lambda>_.
     act_bind (if with_hosts then repair_hosts_after_policy_change L H k now else act_return None) (\<lambda>hosts_repair.
     act_bind (rpc_event kind target (''GUI structured edit'' @ hosts_repair_detail hosts_repair) (rk_updated_at k)) (\<lambda>_.
       core_read (\<lambda>core. Inr (fc_config core))))))"

section \<open>Lists by position\<close>

fun position :: "('a \<Rightarrow> bool) \<Rightarrow> 'a list \<Rightarrow> nat option" where
  "position P [] = None"
| "position P (x # xs) = (if P x then Some 0 else map_option Suc (position P xs))"

definition remove_at :: "nat \<Rightarrow> 'a list \<Rightarrow> 'a list" where
  "remove_at i xs = take i xs @ drop (Suc i) xs"

section \<open>Guards of the edits\<close>

definition same_start :: "'a list \<Rightarrow> 'a list \<Rightarrow> bool" where
  "same_start current proposed \<longleftrightarrow>
     length proposed \<ge> length current \<and> list_all (\<lambda>(c, p). c = p) (zip current proposed)"

definition site_list_edit_is_additive :: "rule_config \<Rightarrow> rule_config \<Rightarrow> bool" where
  "site_list_edit_is_additive current proposed =
     (let unchanged_fields = (rc_id current = rc_id proposed \<and> rc_name current = rc_name proposed
            \<and> rc_tier current = rc_tier proposed \<and> rc_enabled current = rc_enabled proposed
            \<and> rc_mode current = rc_mode proposed \<and> rc_schedule_ids current = rc_schedule_ids proposed
            \<and> rc_allowance_id current = rc_allowance_id proposed)
      in if \<not> unchanged_fields then False
         else case rc_mode current of
           Blocklist \<Rightarrow> same_start (rc_patterns current) (rc_patterns proposed)
         | Allowlist \<Rightarrow> length (rc_patterns proposed) \<le> length (rc_patterns current)
             \<and> list_all (\<lambda>pattern. pattern \<in> set (rc_patterns current)) (rc_patterns proposed))"

definition app_rule_edit_is_additive :: "app_rule_config \<Rightarrow> app_rule_config \<Rightarrow> bool" where
  "app_rule_edit_is_additive current proposed =
     (let unchanged_fields = (ac_id current = ac_id proposed \<and> ac_name current = ac_name proposed
            \<and> ac_tier current = ac_tier proposed \<and> ac_enabled current = ac_enabled proposed
            \<and> ac_mode current = ac_mode proposed \<and> ac_schedule_ids current = ac_schedule_ids proposed
            \<and> ac_allowance_id current = ac_allowance_id proposed)
      in if \<not> unchanged_fields then False
         else case ac_mode current of
           Blocklist \<Rightarrow> same_start (ac_matchers current) (ac_matchers proposed)
         | Allowlist \<Rightarrow> length (ac_matchers proposed) \<le> length (ac_matchers current)
             \<and> list_all (\<lambda>matcher. matcher \<in> set (ac_matchers current)) (ac_matchers proposed))"

definition schedule_edit_is_additive :: "schedule_config \<Rightarrow> schedule_config \<Rightarrow> bool" where
  "schedule_edit_is_additive current proposed \<longleftrightarrow>
     sc_id current = sc_id proposed \<and> sc_name current = sc_name proposed
     \<and> same_start (sc_windows current) (sc_windows proposed)"

definition allowance_is_active_at :: "'u lib \<Rightarrow> string \<Rightarrow> datetime \<Rightarrow> focus_core \<Rightarrow> daemon_error + bool" where
  "allowance_is_active_at L allowance_id now core =
     (let config = fc_config core in
      if list_ex (\<lambda>rule. rc_allowance_id rule = Some allowance_id \<and> rule_is_active_at L rule config now) (cfg_rules config)
         \<or> list_ex (\<lambda>rule. ac_allowance_id rule = Some allowance_id \<and> app_rule_is_active_at L rule config now)
              (cfg_app_rules config)
      then Inr True
      else and_then (core_query (active_detox_sessions (dt_utc now)) core) (\<lambda>sessions.
        Inr (list_ex (\<lambda>session.
          list_ex (\<lambda>rule. rc_allowance_id rule = Some allowance_id \<and> rc_id rule \<in> set (ds_site_rule_ids session))
            (cfg_rules config)
          \<or> list_ex (\<lambda>rule. ac_allowance_id rule = Some allowance_id \<and> ac_id rule \<in> set (ds_app_rule_ids session))
              (cfg_app_rules config)) sessions)))"

text \<open>The sessions are read for every list in turn until one is found.\<close>

fun try_exists :: "('a \<Rightarrow> 'e + bool) \<Rightarrow> 'a list \<Rightarrow> 'e + bool" where
  "try_exists P [] = Inr False"
| "try_exists P (x # xs) = and_then (P x) (\<lambda>found. if found then Inr True else try_exists P xs)"

definition allowance_in_active_detox :: "string \<Rightarrow> datetime \<Rightarrow> focus_core \<Rightarrow> daemon_error + bool" where
  "allowance_in_active_detox allowance_id now core =
     and_then (try_exists (\<lambda>rule. if rc_allowance_id rule = Some allowance_id
         then site_rule_in_active_detox (rc_id rule) now core else Inr False) (cfg_rules (fc_config core))) (\<lambda>found.
       if found then Inr True
       else try_exists (\<lambda>rule. if ac_allowance_id rule = Some allowance_id
         then app_rule_in_active_detox (ac_id rule) now core else Inr False) (cfg_app_rules (fc_config core)))"

definition remove_unreferenced_allowance :: "config \<Rightarrow> string option \<Rightarrow> config" where
  "remove_unreferenced_allowance config allowance_id =
     (case allowance_id of
        None \<Rightarrow> config
      | Some aid \<Rightarrow>
          if list_ex (\<lambda>rule. rc_allowance_id rule = Some aid) (cfg_rules config)
             \<or> list_ex (\<lambda>rule. ac_allowance_id rule = Some aid) (cfg_app_rules config) then config
          else case position (\<lambda>allowance. al_id allowance = aid) (cfg_allowances config) of
            None \<Rightarrow> config
          | Some i \<Rightarrow> config\<lparr>cfg_allowances := remove_at i (cfg_allowances config)\<rparr>)"

definition stage_allowance ::
  "'u lib \<Rightarrow> 'f host_lib \<Rightarrow> focus_core \<Rightarrow> config \<Rightarrow> allowance_config \<Rightarrow> datetime \<Rightarrow> daemon_error + config" where
  "stage_allowance L H core next_config allowance now =
     (case position (\<lambda>candidate. al_id candidate = al_id allowance) (cfg_allowances next_config) of
        Some i \<Rightarrow>
          let current_allowance = cfg_allowances next_config ! i in
          and_then
            (if current_allowance \<noteq> allowance then
               and_then (allowance_is_active_at L (al_id current_allowance) now core) (\<lambda>active.
                 if \<not> active then Inr ()
                 else and_then (tier1_edit_window_active H now core) (\<lambda>window.
                   and_then (if window then allowance_in_active_detox (al_id current_allowance) now core else Inr True) (\<lambda>closed.
                     if closed then invalid (ActiveAllowance (al_id current_allowance)) else Inr ())))
             else Inr ())
            (\<lambda>_. Inr (next_config\<lparr>cfg_allowances := (cfg_allowances next_config)[i := allowance]\<rparr>))
      | None \<Rightarrow> Inr (next_config\<lparr>cfg_allowances := cfg_allowances next_config @ [allowance]\<rparr>))"

definition stage_list_allowance ::
  "'u lib \<Rightarrow> 'f host_lib \<Rightarrow> focus_core \<Rightarrow> config \<Rightarrow> allowance_config option \<Rightarrow> string option \<Rightarrow> rule_tier \<Rightarrow> datetime
     \<Rightarrow> daemon_error + config" where
  "stage_list_allowance L H core next_config allowance allowance_id tier now =
     (case allowance of
        None \<Rightarrow> Inr next_config
      | Some a \<Rightarrow>
          if tier \<noteq> ControlledAccess \<or> allowance_id \<noteq> Some (al_id a) then invalid ForeignAllowance
          else stage_allowance L H core next_config a now)"

section \<open>Site lists\<close>

text \<open>An edit of a list in a running Detox must be additive; of an active list too, unless edits are unlocked.\<close>

definition guard_site_list_edit ::
  "'u lib \<Rightarrow> 'f host_lib \<Rightarrow> focus_core \<Rightarrow> rule_config \<Rightarrow> rule_config \<Rightarrow> datetime \<Rightarrow> daemon_error + unit" where
  "guard_site_list_edit L H core current_rule rule now =
     and_then (if current_rule \<noteq> rule then site_rule_in_active_detox (rc_id current_rule) now core else Inr False)
       (\<lambda>detox.
        if detox \<and> \<not> site_list_edit_is_additive current_rule rule then invalid (ListInDetox ''site list'' (rc_id current_rule))
        else if current_rule \<noteq> rule \<and> rule_is_active_at L current_rule (fc_config core) now
             \<and> \<not> site_list_edit_is_additive current_rule rule
        then and_then (tier1_edit_window_active H now core) (\<lambda>window.
               if window then Inr () else invalid (ActiveList ''site list'' (rc_id current_rule)))
        else Inr ())"

definition site_allowance_of :: "config \<Rightarrow> string \<Rightarrow> string option" where
  "site_allowance_of config rule_id =
     (case find (\<lambda>candidate. rc_id candidate = rule_id) (cfg_rules config) of
        None \<Rightarrow> None
      | Some rule \<Rightarrow> rc_allowance_id rule)"

definition drop_replaced_allowance :: "config \<Rightarrow> string option \<Rightarrow> string option \<Rightarrow> config" where
  "drop_replaced_allowance next_config old_id new_id =
     (if old_id \<noteq> new_id then remove_unreferenced_allowance next_config old_id else next_config)"

definition stage_site_list ::
  "'u lib \<Rightarrow> 'f host_lib \<Rightarrow> rule_config \<Rightarrow> allowance_config option \<Rightarrow> datetime \<Rightarrow> focus_core \<Rightarrow> daemon_error + config" where
  "stage_site_list L H rule allowance now core =
     and_then (stage_list_allowance L H core (fc_config core) allowance (rc_allowance_id rule) (rc_tier rule) now) (\<lambda>staged.
     let old_allowance_id = site_allowance_of staged (rc_id rule) in
     and_then
       (case position (\<lambda>candidate. rc_id candidate = rc_id rule) (cfg_rules staged) of
          Some i \<Rightarrow> and_then (guard_site_list_edit L H core (cfg_rules staged ! i) rule now)
            (\<lambda>_. Inr (staged\<lparr>cfg_rules := (cfg_rules staged)[i := rule]\<rparr>))
        | None \<Rightarrow> Inr (staged\<lparr>cfg_rules := cfg_rules staged @ [rule]\<rparr>)) (\<lambda>next_config.
       Inr (drop_replaced_allowance next_config old_allowance_id (site_allowance_of next_config (rc_id rule)))))"

definition stage_delete_site_list ::
  "'u lib \<Rightarrow> 'f host_lib \<Rightarrow> string \<Rightarrow> datetime \<Rightarrow> focus_core \<Rightarrow> daemon_error + config" where
  "stage_delete_site_list L H ident now core =
     (let next_config = fc_config core in
      case position (\<lambda>candidate. rc_id candidate = ident) (cfg_rules next_config) of
        None \<Rightarrow> invalid (ListDoesNotExist ''site list'' ident)
      | Some i \<Rightarrow>
          let current_rule = cfg_rules next_config ! i in
          and_then (site_rule_in_active_detox (rc_id current_rule) now core) (\<lambda>detox.
          if detox then invalid (ListInDetox ''site list'' (rc_id current_rule))
          else and_then (if rule_is_active_at L current_rule (fc_config core) now
                         then and_then (tier1_edit_window_active H now core) (\<lambda>window. Inr (\<not> window))
                         else Inr False) (\<lambda>closed.
            if closed then invalid (ActiveList ''site list'' (rc_id current_rule))
            else Inr (remove_unreferenced_allowance
              (next_config\<lparr>cfg_rules := remove_at i (cfg_rules next_config)\<rparr>) (rc_allowance_id current_rule)))))"

section \<open>Application lists\<close>

definition guard_app_rule_edit ::
  "'u lib \<Rightarrow> 'f host_lib \<Rightarrow> focus_core \<Rightarrow> app_rule_config \<Rightarrow> app_rule_config \<Rightarrow> datetime \<Rightarrow> daemon_error + unit" where
  "guard_app_rule_edit L H core current_rule rule now =
     and_then (if current_rule \<noteq> rule then app_rule_in_active_detox (ac_id current_rule) now core else Inr False)
       (\<lambda>detox.
        if detox \<and> \<not> app_rule_edit_is_additive current_rule rule then invalid (ListInDetox ''app rule'' (ac_id current_rule))
        else if current_rule \<noteq> rule \<and> app_rule_is_active_at L current_rule (fc_config core) now
             \<and> \<not> app_rule_edit_is_additive current_rule rule
        then and_then (tier1_edit_window_active H now core) (\<lambda>window.
               if window then Inr () else invalid (ActiveList ''app rule'' (ac_id current_rule)))
        else Inr ())"

definition app_allowance_of :: "config \<Rightarrow> string \<Rightarrow> string option" where
  "app_allowance_of config rule_id =
     (case find (\<lambda>candidate. ac_id candidate = rule_id) (cfg_app_rules config) of
        None \<Rightarrow> None
      | Some rule \<Rightarrow> ac_allowance_id rule)"

definition stage_app_rule ::
  "'u lib \<Rightarrow> 'f host_lib \<Rightarrow> app_rule_config \<Rightarrow> allowance_config option \<Rightarrow> datetime \<Rightarrow> focus_core \<Rightarrow> daemon_error + config" where
  "stage_app_rule L H rule allowance now core =
     and_then (stage_list_allowance L H core (fc_config core) allowance (ac_allowance_id rule) (ac_tier rule) now) (\<lambda>staged.
     let old_allowance_id = app_allowance_of staged (ac_id rule) in
     and_then
       (case position (\<lambda>candidate. ac_id candidate = ac_id rule) (cfg_app_rules staged) of
          Some i \<Rightarrow> and_then (guard_app_rule_edit L H core (cfg_app_rules staged ! i) rule now)
            (\<lambda>_. Inr (staged\<lparr>cfg_app_rules := (cfg_app_rules staged)[i := rule]\<rparr>))
        | None \<Rightarrow> Inr (staged\<lparr>cfg_app_rules := cfg_app_rules staged @ [rule]\<rparr>)) (\<lambda>next_config.
       Inr (drop_replaced_allowance next_config old_allowance_id (app_allowance_of next_config (ac_id rule)))))"

definition stage_delete_app_rule ::
  "'u lib \<Rightarrow> 'f host_lib \<Rightarrow> string \<Rightarrow> datetime \<Rightarrow> focus_core \<Rightarrow> daemon_error + config" where
  "stage_delete_app_rule L H ident now core =
     (let next_config = fc_config core in
      case position (\<lambda>candidate. ac_id candidate = ident) (cfg_app_rules next_config) of
        None \<Rightarrow> invalid (ListDoesNotExist ''app rule'' ident)
      | Some i \<Rightarrow>
          let current_rule = cfg_app_rules next_config ! i in
          and_then (app_rule_in_active_detox (ac_id current_rule) now core) (\<lambda>detox.
          if detox then invalid (ListInDetox ''app rule'' (ac_id current_rule))
          else and_then (if app_rule_is_active_at L current_rule (fc_config core) now
                         then and_then (tier1_edit_window_active H now core) (\<lambda>window. Inr (\<not> window))
                         else Inr False) (\<lambda>closed.
            if closed then invalid (ActiveList ''app rule'' (ac_id current_rule))
            else Inr (remove_unreferenced_allowance
              (next_config\<lparr>cfg_app_rules := remove_at i (cfg_app_rules next_config)\<rparr>) (ac_allowance_id current_rule)))))"

section \<open>Allowances\<close>

definition stage_delete_allowance :: "'u lib \<Rightarrow> string \<Rightarrow> datetime \<Rightarrow> focus_core \<Rightarrow> daemon_error + config" where
  "stage_delete_allowance L ident now core =
     (let next_config = fc_config core in
      case position (\<lambda>candidate. al_id candidate = ident) (cfg_allowances next_config) of
        None \<Rightarrow> invalid (ListDoesNotExist ''allowance'' ident)
      | Some i \<Rightarrow>
          and_then (allowance_is_active_at L ident now core) (\<lambda>active.
          if active then invalid (ActiveAllowance ident)
          else case find (\<lambda>rule. rc_allowance_id rule = Some ident) (cfg_rules next_config) of
            Some rule \<Rightarrow> invalid (AllowanceInUse ident ''site list'' (rc_id rule))
          | None \<Rightarrow> (case find (\<lambda>rule. ac_allowance_id rule = Some ident) (cfg_app_rules next_config) of
              Some rule \<Rightarrow> invalid (AllowanceInUse ident ''app rule'' (ac_id rule))
            | None \<Rightarrow> Inr (next_config\<lparr>cfg_allowances := remove_at i (cfg_allowances next_config)\<rparr>))))"

section \<open>Schedules\<close>

fun add_unique :: "string list \<Rightarrow> string list \<Rightarrow> string list" where
  "add_unique unique [] = unique"
| "add_unique unique (raw # ids) =
     (let ident = trim raw in
      add_unique (if ident \<noteq> [] \<and> ident \<notin> set unique then unique @ [ident] else unique) ids)"

definition normalized_unique_ids :: "string list \<Rightarrow> string list" where
  "normalized_unique_ids ids = add_unique [] ids"

definition validate_detox_targets :: "config \<Rightarrow> string list \<Rightarrow> string list \<Rightarrow> daemon_error + unit" where
  "validate_detox_targets config site_rule_ids app_rule_ids =
     and_then (try_for site_rule_ids (\<lambda>rule_id.
       case find (\<lambda>rule. rc_id rule = rule_id) (cfg_rules config) of
         None \<Rightarrow> invalid (ListDoesNotExist ''site list'' rule_id)
       | Some rule \<Rightarrow> if rc_tier rule = Hard then invalid (HardListInDetox ''site list'' rule_id) else Inr ())) (\<lambda>_.
     try_for app_rule_ids (\<lambda>rule_id.
       case find (\<lambda>rule. ac_id rule = rule_id) (cfg_app_rules config) of
         None \<Rightarrow> invalid (ListDoesNotExist ''app rule'' rule_id)
       | Some rule \<Rightarrow> if ac_tier rule = Hard then invalid (HardListInDetox ''app rule'' rule_id) else Inr ()))"

definition same_id_membership :: "string list \<Rightarrow> string list \<Rightarrow> bool" where
  "same_id_membership left right \<longleftrightarrow> length left = length right \<and> list_all (\<lambda>i. i \<in> set right) left"

definition schedule_target_updates_change ::
  "config \<Rightarrow> string \<Rightarrow> string list option \<Rightarrow> string list option \<Rightarrow> bool" where
  "schedule_target_updates_change config schedule_id site_rule_ids app_rule_ids \<longleftrightarrow>
     (case site_rule_ids of
        None \<Rightarrow> False
      | Some requested \<Rightarrow> \<not> same_id_membership requested (map rc_id
          (filter (\<lambda>rule. rc_tier rule \<noteq> Hard \<and> schedule_id \<in> set (rc_schedule_ids rule)) (cfg_rules config))))
     \<or> (case app_rule_ids of
        None \<Rightarrow> False
      | Some requested \<Rightarrow> \<not> same_id_membership requested (map ac_id
          (filter (\<lambda>rule. ac_tier rule \<noteq> Hard \<and> schedule_id \<in> set (ac_schedule_ids rule)) (cfg_app_rules config))))"

definition attach_schedule :: "string \<Rightarrow> bool \<Rightarrow> string list \<Rightarrow> string list" where
  "attach_schedule schedule_id wanted schedule_ids =
     (if schedule_id \<in> set schedule_ids \<longleftrightarrow> wanted then schedule_ids
      else filter (\<lambda>i. i \<noteq> schedule_id) schedule_ids @ (if wanted then [schedule_id] else []))"

definition apply_site_targets ::
  "'u lib \<Rightarrow> 'f host_lib \<Rightarrow> focus_core \<Rightarrow> config \<Rightarrow> config \<Rightarrow> string \<Rightarrow> string list \<Rightarrow> datetime \<Rightarrow> daemon_error + config" where
  "apply_site_targets L H core current next_config schedule_id rule_ids now =
     and_then (try_for (filter (\<lambda>rule. rc_tier rule \<noteq> Hard
          \<and> (schedule_id \<in> set (rc_schedule_ids rule)) \<noteq> (rc_id rule \<in> set rule_ids)) (cfg_rules current))
        (\<lambda>changed.
          case find (\<lambda>rule. rc_id rule = rc_id changed) (cfg_rules current) of
            None \<Rightarrow> Inl (DaemonCore (Panicked ''changed site rule must exist''))
          | Some rule \<Rightarrow>
              and_then (site_rule_in_active_detox (rc_id rule) now core) (\<lambda>detox.
              if detox then invalid (ListInDetox ''site list'' (rc_id rule))
              else and_then (if rule_is_active_at L rule current now
                     then and_then (tier1_edit_window_active H now core) (\<lambda>window. Inr (\<not> window))
                     else Inr False) (\<lambda>closed.
                if closed then invalid (ActiveList ''site list'' (rc_id rule)) else Inr ())))) (\<lambda>_.
     Inr (next_config\<lparr>cfg_rules := map (\<lambda>rule.
       if rc_tier rule = Hard then rule
       else rule\<lparr>rc_schedule_ids := attach_schedule schedule_id (rc_id rule \<in> set rule_ids) (rc_schedule_ids rule)\<rparr>)
       (cfg_rules next_config)\<rparr>))"

definition apply_app_targets ::
  "'u lib \<Rightarrow> 'f host_lib \<Rightarrow> focus_core \<Rightarrow> config \<Rightarrow> config \<Rightarrow> string \<Rightarrow> string list \<Rightarrow> datetime \<Rightarrow> daemon_error + config" where
  "apply_app_targets L H core current next_config schedule_id rule_ids now =
     and_then (try_for (filter (\<lambda>rule. ac_tier rule \<noteq> Hard
          \<and> (schedule_id \<in> set (ac_schedule_ids rule)) \<noteq> (ac_id rule \<in> set rule_ids)) (cfg_app_rules current))
        (\<lambda>changed.
          case find (\<lambda>rule. ac_id rule = ac_id changed) (cfg_app_rules current) of
            None \<Rightarrow> Inl (DaemonCore (Panicked ''changed app rule must exist''))
          | Some rule \<Rightarrow>
              and_then (app_rule_in_active_detox (ac_id rule) now core) (\<lambda>detox.
              if detox then invalid (ListInDetox ''app rule'' (ac_id rule))
              else and_then (if app_rule_is_active_at L rule current now
                     then and_then (tier1_edit_window_active H now core) (\<lambda>window. Inr (\<not> window))
                     else Inr False) (\<lambda>closed.
                if closed then invalid (ActiveList ''app rule'' (ac_id rule)) else Inr ())))) (\<lambda>_.
     Inr (next_config\<lparr>cfg_app_rules := map (\<lambda>rule.
       if ac_tier rule = Hard then rule
       else rule\<lparr>ac_schedule_ids := attach_schedule schedule_id (ac_id rule \<in> set rule_ids) (ac_schedule_ids rule)\<rparr>)
       (cfg_app_rules next_config)\<rparr>))"

definition apply_schedule_target_updates ::
  "'u lib \<Rightarrow> 'f host_lib \<Rightarrow> focus_core \<Rightarrow> config \<Rightarrow> config \<Rightarrow> string \<Rightarrow> string list option \<Rightarrow> string list option
     \<Rightarrow> datetime \<Rightarrow> daemon_error + config" where
  "apply_schedule_target_updates L H core current next_config schedule_id site_rule_ids app_rule_ids now =
     and_then (case site_rule_ids of
         None \<Rightarrow> Inr next_config
       | Some rule_ids \<Rightarrow> apply_site_targets L H core current next_config schedule_id rule_ids now) (\<lambda>next_config.
     case app_rule_ids of
       None \<Rightarrow> Inr next_config
     | Some rule_ids \<Rightarrow> apply_app_targets L H core current next_config schedule_id rule_ids now)"

definition stage_schedule ::
  "'u lib \<Rightarrow> 'f host_lib \<Rightarrow> schedule_config \<Rightarrow> string list option \<Rightarrow> string list option \<Rightarrow> datetime \<Rightarrow> focus_core
     \<Rightarrow> daemon_error + config" where
  "stage_schedule L H schedule site_ids app_ids now core =
     (let next_config = fc_config core;
          site_rule_ids = map_option normalized_unique_ids site_ids;
          app_rule_ids = map_option normalized_unique_ids app_ids in
      and_then (case site_rule_ids of None \<Rightarrow> Inr () | Some ids \<Rightarrow> validate_detox_targets next_config ids []) (\<lambda>_.
      and_then (case app_rule_ids of None \<Rightarrow> Inr () | Some ids \<Rightarrow> validate_detox_targets next_config [] ids) (\<lambda>_.
      let changes = schedule_target_updates_change next_config (sc_id schedule) site_rule_ids app_rule_ids in
      and_then
        (case position (\<lambda>candidate. sc_id candidate = sc_id schedule) (cfg_schedules next_config) of
           Some i \<Rightarrow>
             let current_schedule = cfg_schedules next_config ! i in
             and_then
               (if \<not> schedule_is_active_at L current_schedule now then Inr False
                else if current_schedule \<noteq> schedule \<and> \<not> schedule_edit_is_additive current_schedule schedule then Inr True
                else if changes then and_then (tier1_edit_window_active H now core) (\<lambda>window. Inr (\<not> window))
                else Inr False)
               (\<lambda>closed. if closed then invalid (ActiveSchedule (sc_id current_schedule))
                  else Inr (next_config\<lparr>cfg_schedules := (cfg_schedules next_config)[i := schedule]\<rparr>))
         | None \<Rightarrow> Inr (next_config\<lparr>cfg_schedules := cfg_schedules next_config @ [schedule]\<rparr>)) (\<lambda>staged.
      apply_schedule_target_updates L H core (fc_config core) staged (sc_id schedule) site_rule_ids app_rule_ids now))))"

definition stage_delete_schedule :: "'u lib \<Rightarrow> string \<Rightarrow> datetime \<Rightarrow> focus_core \<Rightarrow> daemon_error + config" where
  "stage_delete_schedule L ident now core =
     (let next_config = fc_config core in
      case position (\<lambda>candidate. sc_id candidate = ident) (cfg_schedules next_config) of
        None \<Rightarrow> invalid (ListDoesNotExist ''schedule'' ident)
      | Some i \<Rightarrow>
          let current_schedule = cfg_schedules next_config ! i in
          if schedule_is_active_at L current_schedule now then invalid (ActiveSchedule (sc_id current_schedule))
          else Inr (next_config
            \<lparr>cfg_schedules := remove_at i (cfg_schedules next_config),
             cfg_rules := map (\<lambda>rule. rule\<lparr>rc_schedule_ids :=
               filter (\<lambda>j. j \<noteq> sc_id current_schedule) (rc_schedule_ids rule)\<rparr>) (cfg_rules next_config),
             cfg_app_rules := map (\<lambda>rule. rule\<lparr>ac_schedule_ids :=
               filter (\<lambda>j. j \<noteq> sc_id current_schedule) (ac_schedule_ids rule)\<rparr>) (cfg_app_rules next_config)\<rparr>))"

end
