(* ===== verification/EditMethods.thy ===== *)
theory EditMethods imports Edits begin

text \<open>
  The policy methods of the daemon's interface, from \<^verbatim>\<open>focusd/src/rpc.rs\<close>, over the edits of theory
  \<open>Edits\<close>: every one reads the clock through the clock guard, refuses while the clock counts as
  tampered, stages the next policy and commits it. Importing appends the lists of a TOML document and
  then restores the rule on unsupported browsers (\<^verbatim>\<open>focusd/src/app.rs\<close>).
\<close>

section \<open>Appending a policy\<close>

fun append_unique_by_id ::
  "string \<Rightarrow> ('a \<Rightarrow> string) \<Rightarrow> 'a list \<Rightarrow> 'a list \<Rightarrow> nat \<Rightarrow> daemon_error + 'a list \<times> nat" where
  "append_unique_by_id kind ident current [] added = Inr (current, added)"
| "append_unique_by_id kind ident current (item # imported) added =
     (case find (\<lambda>candidate. ident candidate = ident item) current of
        Some existing \<Rightarrow>
          if existing = item then append_unique_by_id kind ident current imported added
          else invalid (ImportConflict kind (ident item))
      | None \<Rightarrow> append_unique_by_id kind ident (current @ [item]) imported (added + 1))"

record policy_append_summary =
  pas_allowances :: nat
  pas_schedules :: nat
  pas_rules :: nat
  pas_app_rules :: nat

definition total :: "policy_append_summary \<Rightarrow> nat" where
  "total summary = pas_allowances summary + pas_schedules summary + pas_rules summary + pas_app_rules summary"

definition append_policy_config :: "config \<Rightarrow> config \<Rightarrow> daemon_error + config \<times> policy_append_summary" where
  "append_policy_config current imported =
     and_then (append_unique_by_id ''allowance'' al_id (cfg_allowances current) (cfg_allowances imported) 0)
       (\<lambda>(allowances, added_allowances).
     and_then (append_unique_by_id ''schedule'' sc_id (cfg_schedules current) (cfg_schedules imported) 0)
       (\<lambda>(schedules, added_schedules).
     and_then (append_unique_by_id ''site list'' rc_id (cfg_rules current) (cfg_rules imported) 0)
       (\<lambda>(rules, added_rules).
     and_then (append_unique_by_id ''app rule'' ac_id (cfg_app_rules current) (cfg_app_rules imported) 0)
       (\<lambda>(app_rules, added_app_rules).
       Inr (current\<lparr>cfg_allowances := allowances, cfg_schedules := schedules, cfg_rules := rules,
              cfg_app_rules := app_rules\<rparr>,
            \<lparr>pas_allowances = added_allowances, pas_schedules = added_schedules, pas_rules = added_rules,
              pas_app_rules = added_app_rules\<rparr>)))))"

section \<open>The rule on unsupported browsers\<close>

definition unsupported_browser_rule_id :: string where
  "unsupported_browser_rule_id = ''unsupported-browsers-hard''"

definition unsupported_browser_matchers :: "(app_matcher_kind \<times> string) list" where
  "unsupported_browser_matchers =
    [(ExecutableBasename, ''epiphany''), (CommandName, ''epiphany''), (DesktopId, ''org.gnome.Epiphany.desktop''),
     (ExecutableBasename, ''falkon''), (CommandName, ''falkon''), (DesktopId, ''org.kde.falkon.desktop''),
     (ExecutableBasename, ''qutebrowser''), (CommandName, ''qutebrowser''),
     (DesktopId, ''org.qutebrowser.qutebrowser.desktop''),
     (ExecutableBasename, ''midori''), (CommandName, ''midori''), (DesktopId, ''midori.desktop''),
     (ExecutableBasename, ''min''), (CommandName, ''min''), (DesktopId, ''min.desktop''),
     (ExecutableBasename, ''nyxt''), (CommandName, ''nyxt''), (DesktopId, ''nyxt.desktop''),
     (ExecutableBasename, ''torbrowser''), (CommandName, ''torbrowser''),
     (ExecutableBasename, ''start-tor-browser''), (CommandName, ''start-tor-browser''),
     (DesktopId, ''torbrowser.desktop''), (WindowTitleContains, ''Tor Browser''),
     (DesktopId, ''org.chromium.Chromium.desktop''), (DesktopId, ''brave_brave.desktop''),
     (DesktopId, ''opera_opera.desktop''), (DesktopId, ''vivaldi_vivaldi-stable.desktop'')]"

definition unsupported_browser_rule :: app_rule_config where
  "unsupported_browser_rule = \<lparr>ac_id = unsupported_browser_rule_id, ac_name = ''Unsupported browsers hard block'',
     ac_tier = Hard, ac_enabled = True, ac_mode = Blocklist,
     ac_matchers = map (\<lambda>(kind, value). \<lparr>am_kind = kind, am_value = value\<rparr>) unsupported_browser_matchers,
     ac_schedule_ids = [], ac_allowance_id = None\<rparr>"

text \<open>The configuration with the rule where it belongs, and whether it was changed.\<close>

definition ensure_mandatory_app_rules :: "config \<Rightarrow> config \<times> bool" where
  "ensure_mandatory_app_rules config =
     (if \<not> sm_block_unsupported_browsers (cfg_strict_mode config) then
        (case position (\<lambda>candidate. ac_id candidate = unsupported_browser_rule_id) (cfg_app_rules config) of
           Some i \<Rightarrow> (config\<lparr>cfg_app_rules := remove_at i (cfg_app_rules config)\<rparr>, True)
         | None \<Rightarrow> (config, False))
      else let rule = unsupported_browser_rule in
        case position (\<lambda>candidate. ac_id candidate = ac_id rule) (cfg_app_rules config) of
          Some i \<Rightarrow>
            if cfg_app_rules config ! i = rule then (config, False)
            else (config\<lparr>cfg_app_rules := (cfg_app_rules config)[i := rule]\<rparr>, True)
        | None \<Rightarrow> (config\<lparr>cfg_app_rules := cfg_app_rules config @ [rule]\<rparr>, True))"

section \<open>The methods\<close>

definition guarded_edit ::
  "'u lib \<Rightarrow> 'f host_lib \<Rightarrow> request_clock \<Rightarrow> string option \<Rightarrow> (datetime \<Rightarrow> (daemon, 'a) action) \<Rightarrow> (daemon, 'a) action" where
  "guarded_edit L H k client_now f =
     act_bind (rpc_guarded_now L H k client_now) (\<lambda>now.
     act_bind (reject_if_clock_tampered H k) (\<lambda>_. f now))"

definition import_details :: "policy_append_summary \<Rightarrow> hosts_repair_status option \<Rightarrow> string" where
  "import_details summary hosts_repair =
     ''TOML append;added='' @ show_int (int (total summary)) @ '';rules='' @ show_int (int (pas_rules summary))
     @ '';app_rules='' @ show_int (int (pas_app_rules summary)) @ '';schedules='' @ show_int (int (pas_schedules summary))
     @ '';allowances='' @ show_int (int (pas_allowances summary)) @ hosts_repair_detail hosts_repair"

definition stage_import ::
  "'u lib \<Rightarrow> toml_lib \<Rightarrow> string \<Rightarrow> focus_core \<Rightarrow> daemon_error + config \<times> policy_append_summary" where
  "stage_import L T toml core =
     and_then (map_err DaemonConfig (from_toml_str L T toml)) (\<lambda>imported.
     and_then (append_policy_config (fc_config core) imported) (\<lambda>(appended, summary).
     let next_config = fst (ensure_mandatory_app_rules appended) in
     and_then (map_err DaemonCore (validate_config L next_config)) (\<lambda>_. Inr (next_config, summary))))"

definition import_policy_toml_method ::
  "'u lib \<Rightarrow> 'f host_lib \<Rightarrow> toml_lib \<Rightarrow> request_clock \<Rightarrow> string \<Rightarrow> string option
     \<Rightarrow> (daemon, config) action" where
  "import_policy_toml_method L H T k toml client_now =
     guarded_edit L H k client_now (\<lambda>now.
       act_bind (core_read (stage_import L T toml)) (\<lambda>(next_config, summary).
       act_bind (persist_policy_config L T k next_config) (\<lambda>_.
       act_bind (repair_hosts_after_policy_change L H k now) (\<lambda>hosts_repair.
       act_bind (rpc_event ''policy_appended'' ''policy'' (import_details summary hosts_repair) (dt_utc now)) (\<lambda>_.
         core_read (\<lambda>core. Inr (fc_config core)))))))"

definition edit_method ::
  "'u lib \<Rightarrow> 'f host_lib \<Rightarrow> toml_lib \<Rightarrow> request_clock \<Rightarrow> string option \<Rightarrow> bool \<Rightarrow> string \<Rightarrow> string
     \<Rightarrow> (datetime \<Rightarrow> focus_core \<Rightarrow> daemon_error + config) \<Rightarrow> (daemon, config) action" where
  "edit_method L H T k client_now with_hosts kind target stage =
     guarded_edit L H k client_now (\<lambda>now.
       act_bind (core_read (stage now)) (commit_edit L H T k now with_hosts kind target))"

definition upsert_site_list_method where
  "upsert_site_list_method L H T k rule allowance client_now =
     edit_method L H T k client_now True ''site_list_saved'' (rc_id rule) (stage_site_list L H rule allowance)"

definition delete_site_list_method where
  "delete_site_list_method L H T k ident client_now =
     edit_method L H T k client_now True ''site_list_deleted'' ident (stage_delete_site_list L H ident)"

definition upsert_allowance_method where
  "upsert_allowance_method L H T k allowance client_now =
     edit_method L H T k client_now False ''allowance_saved'' (al_id allowance)
       (\<lambda>now core. stage_allowance L H core (fc_config core) allowance now)"

definition delete_allowance_method where
  "delete_allowance_method L H T k ident client_now =
     edit_method L H T k client_now False ''allowance_deleted'' ident (stage_delete_allowance L ident)"

definition upsert_app_rule_method where
  "upsert_app_rule_method L H T k rule allowance client_now =
     edit_method L H T k client_now False ''app_rule_saved'' (ac_id rule) (stage_app_rule L H rule allowance)"

definition delete_app_rule_method where
  "delete_app_rule_method L H T k ident client_now =
     edit_method L H T k client_now False ''app_rule_deleted'' ident (stage_delete_app_rule L H ident)"

definition upsert_schedule_method where
  "upsert_schedule_method L H T k schedule site_rule_ids app_rule_ids client_now =
     edit_method L H T k client_now False ''schedule_saved'' (sc_id schedule)
       (stage_schedule L H schedule site_rule_ids app_rule_ids)"

definition delete_schedule_method where
  "delete_schedule_method L H T k ident client_now =
     edit_method L H T k client_now False ''schedule_deleted'' ident (stage_delete_schedule L ident)"

text \<open>The policy part of \<open>handle_method\<close>, its parameters parsed.\<close>

datatype policy_request =
  ImportPolicyToml string
| UpsertSiteList rule_config "allowance_config option"
| DeleteSiteList string
| UpsertAllowance allowance_config
| DeleteAllowance string
| UpsertAppRule app_rule_config "allowance_config option"
| DeleteAppRule string
| UpsertSchedule schedule_config "string list option" "string list option"
| DeleteSchedule string

fun handle_policy_request ::
  "'u lib \<Rightarrow> 'f host_lib \<Rightarrow> toml_lib \<Rightarrow> request_clock \<Rightarrow> policy_request \<Rightarrow> string option \<Rightarrow> (daemon, config) action" where
  "handle_policy_request L H T k (ImportPolicyToml toml) now = import_policy_toml_method L H T k toml now"
| "handle_policy_request L H T k (UpsertSiteList rule allowance) now = upsert_site_list_method L H T k rule allowance now"
| "handle_policy_request L H T k (DeleteSiteList ident) now = delete_site_list_method L H T k ident now"
| "handle_policy_request L H T k (UpsertAllowance allowance) now = upsert_allowance_method L H T k allowance now"
| "handle_policy_request L H T k (DeleteAllowance ident) now = delete_allowance_method L H T k ident now"
| "handle_policy_request L H T k (UpsertAppRule rule allowance) now = upsert_app_rule_method L H T k rule allowance now"
| "handle_policy_request L H T k (DeleteAppRule ident) now = delete_app_rule_method L H T k ident now"
| "handle_policy_request L H T k (UpsertSchedule schedule sites apps) now =
     upsert_schedule_method L H T k schedule sites apps now"
| "handle_policy_request L H T k (DeleteSchedule ident) now = delete_schedule_method L H T k ident now"

end
