(* ===== verification/ProtectedLists.thy ===== *)
theory ProtectedLists imports EditMethods begin

text \<open>
  What the guards of the edits achieve. A list that is in force, or named by a running Detox session,
  keeps its tier and its schedules through every edit and only grows stricter: its patterns can be
  added to, an allowlist's can be taken from. Site lists and application lists are treated alike
  through a common view of what a list is.
\<close>

section \<open>A view of lists\<close>

record 'i list_view =
  lv_id :: string
  lv_tier :: rule_tier
  lv_enabled :: bool
  lv_mode :: list_mode
  lv_items :: "'i list"
  lv_schedule_ids :: "string list"

definition site_view :: "rule_config \<Rightarrow> rule_pattern_config list_view" where
  "site_view r = \<lparr>lv_id = rc_id r, lv_tier = rc_tier r, lv_enabled = rc_enabled r, lv_mode = rc_mode r,
     lv_items = rc_patterns r, lv_schedule_ids = rc_schedule_ids r\<rparr>"

definition app_view :: "app_rule_config \<Rightarrow> app_matcher_config list_view" where
  "app_view r = \<lparr>lv_id = ac_id r, lv_tier = ac_tier r, lv_enabled = ac_enabled r, lv_mode = ac_mode r,
     lv_items = ac_matchers r, lv_schedule_ids = ac_schedule_ids r\<rparr>"

definition view_active :: "'u lib \<Rightarrow> config \<Rightarrow> datetime \<Rightarrow> 'i list_view \<Rightarrow> bool" where
  "view_active L config now v \<longleftrightarrow>
     lv_enabled v \<and> (lv_tier v = Hard \<or> rpc_schedule_ids_are_active_at L (lv_schedule_ids v) config now)"

text \<open>The same list, blocking at least as much.\<close>

definition tightened :: "'i list_view \<Rightarrow> 'i list_view \<Rightarrow> bool" where
  "tightened v w \<longleftrightarrow> lv_id v = lv_id w \<and> lv_tier v = lv_tier w \<and> lv_enabled v = lv_enabled w \<and> lv_mode v = lv_mode w
     \<and> (case lv_mode v of
          Blocklist \<Rightarrow> set (lv_items v) \<subseteq> set (lv_items w)
        | Allowlist \<Rightarrow> set (lv_items w) \<subseteq> set (lv_items v))"

definition survives :: "'u lib \<Rightarrow> datetime \<Rightarrow> config \<Rightarrow> config \<Rightarrow> 'i list_view \<Rightarrow> 'i list_view list \<Rightarrow> bool" where
  "survives L now config config' v ws \<longleftrightarrow>
     (\<exists>w\<in>set ws. tightened v w \<and> (view_active L config now v \<longrightarrow> view_active L config' now w))"

lemma view_sel [simp]:
  "lv_id (site_view r) = rc_id r" "lv_tier (site_view r) = rc_tier r" "lv_enabled (site_view r) = rc_enabled r"
  "lv_mode (site_view r) = rc_mode r" "lv_items (site_view r) = rc_patterns r"
  "lv_schedule_ids (site_view r) = rc_schedule_ids r"
  "lv_id (app_view a) = ac_id a" "lv_tier (app_view a) = ac_tier a" "lv_enabled (app_view a) = ac_enabled a"
  "lv_mode (app_view a) = ac_mode a" "lv_items (app_view a) = ac_matchers a"
  "lv_schedule_ids (app_view a) = ac_schedule_ids a"
  by (simp_all add: site_view_def app_view_def)

lemma view_active_site: "view_active L config now (site_view r) = rule_is_active_at L r config now"
  by (simp add: view_active_def rule_is_active_at_def split: rule_tier.splits)

lemma view_active_app: "view_active L config now (app_view r) = app_rule_is_active_at L r config now"
  by (simp add: view_active_def app_rule_is_active_at_def split: rule_tier.splits)

lemma tightened_refl [simp]: "tightened v v"
  by (simp add: tightened_def split: list_mode.splits)

section \<open>What keeps a list\<close>

definition id_active :: "'u lib \<Rightarrow> config \<Rightarrow> datetime \<Rightarrow> string \<Rightarrow> bool" where
  "id_active L config now i \<longleftrightarrow>
     (case find (\<lambda>schedule. sc_id schedule = i) (cfg_schedules config) of
        None \<Rightarrow> True
      | Some schedule \<Rightarrow> schedule_is_active_at L schedule now)"

lemma ids_active_iff: "rpc_schedule_ids_are_active_at L ids config now \<longleftrightarrow> (\<exists>i\<in>set ids. id_active L config now i)"
  by (cases ids) (auto simp: rpc_schedule_ids_are_active_at_def id_active_def list_ex_iff)

text \<open>Schedules of the list that are active now stay so.\<close>

definition schedules_kept :: "'u lib \<Rightarrow> datetime \<Rightarrow> config \<Rightarrow> config \<Rightarrow> string list \<Rightarrow> bool" where
  "schedules_kept L now config config' ids \<longleftrightarrow>
     (\<forall>i\<in>set ids. id_active L config now i \<longrightarrow> id_active L config' now i)"

lemma schedules_kept_same: "cfg_schedules config' = cfg_schedules config \<Longrightarrow> schedules_kept L now config config' ids"
  by (simp add: schedules_kept_def id_active_def)

lemma active_mono:
  "schedules_kept L now config config' (lv_schedule_ids v) \<Longrightarrow> view_active L config now v \<Longrightarrow> tightened v w
   \<Longrightarrow> lv_schedule_ids w = lv_schedule_ids v \<Longrightarrow> view_active L config' now w"
  by (auto simp: schedules_kept_def view_active_def tightened_def ids_active_iff)

lemma survives_in:
  assumes "schedules_kept L now config config' (lv_schedule_ids v)" "w \<in> set ws" "tightened v w"
    "lv_schedule_ids w = lv_schedule_ids v"
  shows "survives L now config config' v ws"
  unfolding survives_def using assms active_mono by blast

lemma survives_member:
  "schedules_kept L now config config' (lv_schedule_ids v) \<Longrightarrow> v \<in> set ws \<Longrightarrow> survives L now config config' v ws"
  by (erule (1) survives_in) simp_all

lemma survives_update:
  assumes "schedules_kept L now config config' (lv_schedule_ids v)" "v \<in> set vs" "i < length vs"
    and "v = vs ! i \<Longrightarrow> tightened v w \<and> lv_schedule_ids w = lv_schedule_ids v"
  shows "survives L now config config' v (vs[i := w])"
proof (cases "v = vs ! i")
  case True
  then show ?thesis using assms by (intro survives_in [where w = w]) (auto intro: set_update_memI)
next
  case False
  obtain j where "j < length vs" "v = vs ! j" using assms(2) by (auto simp: in_set_conv_nth)
  then have "j < length (vs[i := w])" "vs[i := w] ! j = v" using False by (cases "i = j"; simp)+
  then have "v \<in> set (vs[i := w])" by (metis nth_mem)
  then show ?thesis using assms(1) by (intro survives_member)
qed

lemma set_remove_at: "v \<in> set vs \<Longrightarrow> v \<noteq> vs ! i \<Longrightarrow> v \<in> set (remove_at i vs)"
proof -
  assume "v \<in> set vs" "v \<noteq> vs ! i"
  then obtain j where "j < length vs" "v = vs ! j" "j \<noteq> i" by (auto simp: in_set_conv_nth)
  show "v \<in> set (remove_at i vs)"
  proof (cases "j < i")
    case True
    then have "take i vs ! j = v" "j < length (take i vs)" using \<open>j < length vs\<close> \<open>v = vs ! j\<close> by simp_all
    then have "v \<in> set (take i vs)" by (metis nth_mem)
    then show ?thesis by (simp add: remove_at_def)
  next
    case False
    then have "drop (Suc i) vs ! (j - Suc i) = v" "j - Suc i < length (drop (Suc i) vs)"
      using \<open>j < length vs\<close> \<open>v = vs ! j\<close> \<open>j \<noteq> i\<close> by auto
    then have "v \<in> set (drop (Suc i) vs)" by (metis nth_mem)
    then show ?thesis by (simp add: remove_at_def)
  qed
qed

lemma position_Some: "position P xs = Some i \<Longrightarrow> i < length xs \<and> P (xs ! i)"
  by (induction xs arbitrary: i) (auto split: if_splits simp: nth_Cons')

lemma position_None: "position P xs = None \<longleftrightarrow> (\<forall>x\<in>set xs. \<not> P x)"
  by (induction xs) auto

section \<open>Guarded edits\<close>

lemma same_start_append: "same_start c p \<Longrightarrow> set c \<subseteq> set p"
proof -
  assume s: "same_start c p"
  then have "c = take (length c) p"
    by (intro nth_equalityI) (auto simp: same_start_def list_all_length)
  then show ?thesis by (metis set_take_subset)
qed

lemma site_additive:
  "site_list_edit_is_additive r r' \<Longrightarrow> tightened (site_view r) (site_view r') \<and> rc_schedule_ids r' = rc_schedule_ids r"
  using same_start_append by (auto simp: site_list_edit_is_additive_def tightened_def Let_def list_all_iff
      split: if_splits list_mode.splits)

lemma app_additive:
  "app_rule_edit_is_additive r r' \<Longrightarrow> tightened (app_view r) (app_view r') \<and> ac_schedule_ids r' = ac_schedule_ids r"
  using same_start_append by (auto simp: app_rule_edit_is_additive_def tightened_def Let_def list_all_iff
      split: if_splits list_mode.splits)

text \<open>A list is protected while a running Detox names it, or while it is active and edits are locked.\<close>

definition site_protected :: "'u lib \<Rightarrow> 'f host_lib \<Rightarrow> datetime \<Rightarrow> focus_core \<Rightarrow> rule_config \<Rightarrow> bool" where
  "site_protected L H now core rule \<longleftrightarrow>
     site_rule_in_active_detox (rc_id rule) now core = Inr True
     \<or> (rule_is_active_at L rule (fc_config core) now \<and> tier1_edit_window_active H now core = Inr False)"

definition app_protected :: "'u lib \<Rightarrow> 'f host_lib \<Rightarrow> datetime \<Rightarrow> focus_core \<Rightarrow> app_rule_config \<Rightarrow> bool" where
  "app_protected L H now core rule \<longleftrightarrow>
     app_rule_in_active_detox (ac_id rule) now core = Inr True
     \<or> (app_rule_is_active_at L rule (fc_config core) now \<and> tier1_edit_window_active H now core = Inr False)"

lemma guard_site:
  assumes "guard_site_list_edit L H core current rule now = Inr u" "site_protected L H now core current"
  shows "tightened (site_view current) (site_view rule) \<and> rc_schedule_ids rule = rc_schedule_ids current"
proof (cases "current = rule")
  case False
  then have "site_list_edit_is_additive current rule"
    using assms by (auto simp: guard_site_list_edit_def site_protected_def and_then_Inr_iff split: if_splits)
  then show ?thesis by (rule site_additive)
qed simp

lemma guard_app:
  assumes "guard_app_rule_edit L H core current rule now = Inr u" "app_protected L H now core current"
  shows "tightened (app_view current) (app_view rule) \<and> ac_schedule_ids rule = ac_schedule_ids current"
proof (cases "current = rule")
  case False
  then have "app_rule_edit_is_additive current rule"
    using assms by (auto simp: guard_app_rule_edit_def app_protected_def and_then_Inr_iff split: if_splits)
  then show ?thesis by (rule app_additive)
qed simp

text \<open>Allowances come and go without touching lists and schedules.\<close>

lemma unreferenced_sel [simp]:
  "cfg_rules (remove_unreferenced_allowance c a) = cfg_rules c"
  "cfg_app_rules (remove_unreferenced_allowance c a) = cfg_app_rules c"
  "cfg_schedules (remove_unreferenced_allowance c a) = cfg_schedules c"
  "cfg_rules (drop_replaced_allowance c x y) = cfg_rules c"
  "cfg_app_rules (drop_replaced_allowance c x y) = cfg_app_rules c"
  "cfg_schedules (drop_replaced_allowance c x y) = cfg_schedules c"
  by (simp_all add: remove_unreferenced_allowance_def drop_replaced_allowance_def split: option.splits)

lemma stage_allowance_sel:
  assumes "stage_allowance L H core c a now = Inr c'"
  shows "cfg_rules c' = cfg_rules c" "cfg_app_rules c' = cfg_app_rules c" "cfg_schedules c' = cfg_schedules c"
  using assms by (auto simp: stage_allowance_def Let_def and_then_Inr_iff split: option.splits if_splits)

lemma stage_list_allowance_sel:
  assumes "stage_list_allowance L H core c a aid tier now = Inr c'"
  shows "cfg_rules c' = cfg_rules c" "cfg_app_rules c' = cfg_app_rules c" "cfg_schedules c' = cfg_schedules c"
  using assms stage_allowance_sel [of L H core c _ now c']
  by (auto simp: stage_list_allowance_def split: option.splits if_splits)

section \<open>Every edit keeps the protected lists\<close>

lemma stage_site_list_keeps:
  assumes "stage_site_list L H rule a now core = Inr c'"
  shows "cfg_app_rules c' = cfg_app_rules (fc_config core)" "cfg_schedules c' = cfg_schedules (fc_config core)"
    "r \<in> set (cfg_rules (fc_config core)) \<Longrightarrow> site_protected L H now core r
       \<Longrightarrow> survives L now (fc_config core) c' (site_view r) (map site_view (cfg_rules c'))"
proof -
  obtain staged next_config where st: "stage_list_allowance L H core (fc_config core) a (rc_allowance_id rule) (rc_tier rule) now = Inr staged"
    and nx: "(case position (\<lambda>candidate. rc_id candidate = rc_id rule) (cfg_rules staged) of
          Some i \<Rightarrow> and_then (guard_site_list_edit L H core (cfg_rules staged ! i) rule now)
            (\<lambda>_. Inr (staged\<lparr>cfg_rules := (cfg_rules staged)[i := rule]\<rparr>))
        | None \<Rightarrow> Inr (staged\<lparr>cfg_rules := cfg_rules staged @ [rule]\<rparr>)) = Inr next_config"
    and c': "cfg_rules c' = cfg_rules next_config" "cfg_app_rules c' = cfg_app_rules next_config"
      "cfg_schedules c' = cfg_schedules next_config"
    using assms by (auto simp: stage_site_list_def and_then_Inr_iff Let_def)
  note s = stage_list_allowance_sel [OF st]
  show "cfg_app_rules c' = cfg_app_rules (fc_config core)" and sch: "cfg_schedules c' = cfg_schedules (fc_config core)"
    using nx by (auto simp: c' s and_then_Inr_iff split: option.splits)
  assume r: "r \<in> set (cfg_rules (fc_config core))" and p: "site_protected L H now core r"
  note k = schedules_kept_same [OF sch]
  show "survives L now (fc_config core) c' (site_view r) (map site_view (cfg_rules c'))"
  proof (cases "position (\<lambda>candidate. rc_id candidate = rc_id rule) (cfg_rules staged)")
    case None
    then have "cfg_rules c' = cfg_rules (fc_config core) @ [rule]" using nx by (auto simp: c' s)
    then show ?thesis using r by (intro survives_member k) auto
  next
    case (Some i)
    then have g: "guard_site_list_edit L H core (cfg_rules (fc_config core) ! i) rule now = Inr ()"
      and rs: "cfg_rules c' = (cfg_rules (fc_config core))[i := rule]"
      using nx by (auto simp: c' s and_then_Inr_iff)
    have i: "i < length (cfg_rules (fc_config core))" using position_Some [OF Some] s by simp
    have "survives L now (fc_config core) c' (site_view r)
        ((map site_view (cfg_rules (fc_config core)))[i := site_view rule])"
    proof (rule survives_update [OF k])
      assume "site_view r = map site_view (cfg_rules (fc_config core)) ! i"
      then have e: "site_view r = site_view (cfg_rules (fc_config core) ! i)" using i by simp
      then have "rc_id r = rc_id (cfg_rules (fc_config core) ! i)" by (metis view_sel(1))
      moreover have "rule_is_active_at L (cfg_rules (fc_config core) ! i) (fc_config core) now
          = rule_is_active_at L r (fc_config core) now"
        by (metis e view_active_site)
      ultimately have "site_protected L H now core (cfg_rules (fc_config core) ! i)"
        using p by (simp add: site_protected_def)
      then show "tightened (site_view r) (site_view rule) \<and> lv_schedule_ids (site_view rule) = lv_schedule_ids (site_view r)"
        using guard_site [OF g] e by simp
    qed (use r i in auto)
    then show ?thesis by (simp add: rs map_update)
  qed
qed

lemma stage_app_rule_keeps:
  assumes "stage_app_rule L H rule a now core = Inr c'"
  shows "cfg_rules c' = cfg_rules (fc_config core)" "cfg_schedules c' = cfg_schedules (fc_config core)"
    "r \<in> set (cfg_app_rules (fc_config core)) \<Longrightarrow> app_protected L H now core r
       \<Longrightarrow> survives L now (fc_config core) c' (app_view r) (map app_view (cfg_app_rules c'))"
proof -
  obtain staged next_config where st: "stage_list_allowance L H core (fc_config core) a (ac_allowance_id rule) (ac_tier rule) now = Inr staged"
    and nx: "(case position (\<lambda>candidate. ac_id candidate = ac_id rule) (cfg_app_rules staged) of
          Some i \<Rightarrow> and_then (guard_app_rule_edit L H core (cfg_app_rules staged ! i) rule now)
            (\<lambda>_. Inr (staged\<lparr>cfg_app_rules := (cfg_app_rules staged)[i := rule]\<rparr>))
        | None \<Rightarrow> Inr (staged\<lparr>cfg_app_rules := cfg_app_rules staged @ [rule]\<rparr>)) = Inr next_config"
    and c': "cfg_rules c' = cfg_rules next_config" "cfg_app_rules c' = cfg_app_rules next_config"
      "cfg_schedules c' = cfg_schedules next_config"
    using assms by (auto simp: stage_app_rule_def and_then_Inr_iff Let_def)
  note s = stage_list_allowance_sel [OF st]
  show "cfg_rules c' = cfg_rules (fc_config core)" and sch: "cfg_schedules c' = cfg_schedules (fc_config core)"
    using nx by (auto simp: c' s and_then_Inr_iff split: option.splits)
  assume r: "r \<in> set (cfg_app_rules (fc_config core))" and p: "app_protected L H now core r"
  note k = schedules_kept_same [OF sch]
  show "survives L now (fc_config core) c' (app_view r) (map app_view (cfg_app_rules c'))"
  proof (cases "position (\<lambda>candidate. ac_id candidate = ac_id rule) (cfg_app_rules staged)")
    case None
    then have "cfg_app_rules c' = cfg_app_rules (fc_config core) @ [rule]" using nx by (auto simp: c' s)
    then show ?thesis using r by (intro survives_member k) auto
  next
    case (Some i)
    then have g: "guard_app_rule_edit L H core (cfg_app_rules (fc_config core) ! i) rule now = Inr ()"
      and rs: "cfg_app_rules c' = (cfg_app_rules (fc_config core))[i := rule]"
      using nx by (auto simp: c' s and_then_Inr_iff)
    have i: "i < length (cfg_app_rules (fc_config core))" using position_Some [OF Some] s by simp
    have "survives L now (fc_config core) c' (app_view r)
        ((map app_view (cfg_app_rules (fc_config core)))[i := app_view rule])"
    proof (rule survives_update [OF k])
      assume "app_view r = map app_view (cfg_app_rules (fc_config core)) ! i"
      then have e: "app_view r = app_view (cfg_app_rules (fc_config core) ! i)" using i by simp
      then have "app_protected L H now core (cfg_app_rules (fc_config core) ! i)"
        using p by (metis app_protected_def view_active_app view_sel(7))
      then show "tightened (app_view r) (app_view rule) \<and> lv_schedule_ids (app_view rule) = lv_schedule_ids (app_view r)"
        using guard_app [OF g] e by simp
    qed (use r i in auto)
    then show ?thesis by (simp add: rs map_update)
  qed
qed

lemma stage_delete_site_list_keeps:
  assumes "stage_delete_site_list L H ident now core = Inr c'"
  shows "cfg_app_rules c' = cfg_app_rules (fc_config core)" "cfg_schedules c' = cfg_schedules (fc_config core)"
    "r \<in> set (cfg_rules (fc_config core)) \<Longrightarrow> site_protected L H now core r \<Longrightarrow> r \<in> set (cfg_rules c')"
  using assms
  by (auto simp: stage_delete_site_list_def Let_def and_then_Inr_iff site_protected_def
      split: option.splits if_splits intro!: set_remove_at)

lemma stage_delete_app_rule_keeps:
  assumes "stage_delete_app_rule L H ident now core = Inr c'"
  shows "cfg_rules c' = cfg_rules (fc_config core)" "cfg_schedules c' = cfg_schedules (fc_config core)"
    "r \<in> set (cfg_app_rules (fc_config core)) \<Longrightarrow> app_protected L H now core r \<Longrightarrow> r \<in> set (cfg_app_rules c')"
  using assms
  by (auto simp: stage_delete_app_rule_def Let_def and_then_Inr_iff app_protected_def
      split: option.splits if_splits intro!: set_remove_at)

lemma stage_delete_allowance_keeps:
  assumes "stage_delete_allowance L ident now core = Inr c'"
  shows "cfg_rules c' = cfg_rules (fc_config core)" "cfg_app_rules c' = cfg_app_rules (fc_config core)"
    "cfg_schedules c' = cfg_schedules (fc_config core)"
  using assms by (auto simp: stage_delete_allowance_def Let_def and_then_Inr_iff split: option.splits if_splits)

section \<open>Edits of schedules\<close>

lemma same_start_active:
  assumes "schedule_edit_is_additive s s'" "schedule_is_active_at L s now"
  shows "schedule_is_active_at L s' now"
proof -
  have "set (sc_windows s) \<subseteq> set (sc_windows s')"
    using assms(1) same_start_append by (auto simp: schedule_edit_is_additive_def)
  then show ?thesis using assms(2) by (auto simp: schedule_is_active_at_def list_ex_iff)
qed

lemma find_update:
  "position (\<lambda>x. f x = f y) xs = Some i \<Longrightarrow>
     find (\<lambda>x. f x = k) (xs[i := y]) = (if k = f y then Some y else find (\<lambda>x. f x = k) xs)
     \<and> find (\<lambda>x. f x = f y) xs = Some (xs ! i)"
  by (induction xs arbitrary: i) (auto split: if_splits)

lemma find_remove:
  "position (\<lambda>x. f x = j) xs = Some i \<Longrightarrow> k \<noteq> j \<Longrightarrow> find (\<lambda>x. f x = k) (remove_at i xs) = find (\<lambda>x. f x = k) xs"
  by (induction xs arbitrary: i) (auto simp: remove_at_def split: if_splits)

lemma find_position: "position P xs = Some i \<Longrightarrow> find P xs = Some (xs ! i)"
  by (induction xs arbitrary: i) (auto split: if_splits)

lemma find_append_known: "k \<in> f ` set xs \<Longrightarrow> find (\<lambda>x. f x = k) (xs @ ys) = find (\<lambda>x. f x = k) xs"
  by (induction xs) auto

lemma known_kept:
  assumes "set ids \<subseteq> sc_id ` set (cfg_schedules config)" "cfg_schedules config' = cfg_schedules config @ added"
  shows "schedules_kept L now config config' ids"
  using assms by (auto simp: schedules_kept_def id_active_def find_append_known)

lemma find_own:
  "distinct (map f xs) \<Longrightarrow> x \<in> set xs \<Longrightarrow> find (\<lambda>y. f y = f x) xs = Some x"
  by (induction xs) (auto simp: image_iff)

lemma attach_same: "(i \<in> set ids \<longleftrightarrow> wanted) \<Longrightarrow> attach_schedule i wanted ids = ids"
  by (simp add: attach_schedule_def)

text \<open>A change of attachments passes over the protected lists.\<close>

lemma apply_site_targets_keeps:
  assumes "apply_site_targets L H core (fc_config core) c sid ids now = Inr c'"
  shows "cfg_app_rules c' = cfg_app_rules c" "cfg_schedules c' = cfg_schedules c"
    "distinct (map rc_id (cfg_rules (fc_config core))) \<Longrightarrow> cfg_rules c = cfg_rules (fc_config core)
     \<Longrightarrow> r \<in> set (cfg_rules c) \<Longrightarrow> site_protected L H now core r \<Longrightarrow> r \<in> set (cfg_rules c')"
proof -
  let ?f = "\<lambda>rule. if rc_tier rule = Hard then rule
      else rule\<lparr>rc_schedule_ids := attach_schedule sid (rc_id rule \<in> set ids) (rc_schedule_ids rule)\<rparr>"
  have c': "c' = c\<lparr>cfg_rules := map ?f (cfg_rules c)\<rparr>"
    using assms by (auto simp: apply_site_targets_def and_then_Inr_iff)
  then show "cfg_app_rules c' = cfg_app_rules c" "cfg_schedules c' = cfg_schedules c" by simp_all
  assume d: "distinct (map rc_id (cfg_rules (fc_config core)))" and rs: "cfg_rules c = cfg_rules (fc_config core)"
    and r: "r \<in> set (cfg_rules c)" and p: "site_protected L H now core r"
  have all: "\<forall>changed\<in>set (filter (\<lambda>rule. rc_tier rule \<noteq> Hard
        \<and> (sid \<in> set (rc_schedule_ids rule)) \<noteq> (rc_id rule \<in> set ids)) (cfg_rules (fc_config core))).
      (case find (\<lambda>rule. rc_id rule = rc_id changed) (cfg_rules (fc_config core)) of
         None \<Rightarrow> Inl (DaemonCore (Panicked ''changed site rule must exist''))
       | Some rule \<Rightarrow> and_then (site_rule_in_active_detox (rc_id rule) now core) (\<lambda>detox.
        if detox then invalid (ListInDetox ''site list'' (rc_id rule))
        else and_then (if rule_is_active_at L rule (fc_config core) now
               then and_then (tier1_edit_window_active H now core) (\<lambda>window. Inr (\<not> window)) else Inr False) (\<lambda>closed.
          if closed then invalid (ActiveList ''site list'' (rc_id rule)) else Inr ()))) = Inr ()"
    using assms unfolding apply_site_targets_def and_then_Inr_iff try_for_Inr_iff by blast
  have f: "find (\<lambda>rule. rc_id rule = rc_id r) (cfg_rules (fc_config core)) = Some r"
    using find_own [OF d] r rs by simp
  have "rc_tier r = Hard \<or> (sid \<in> set (rc_schedule_ids r)) = (rc_id r \<in> set ids)"
  proof (rule ccontr)
    assume "\<not> ?thesis"
    then have "r \<in> set (filter (\<lambda>rule. rc_tier rule \<noteq> Hard
        \<and> (sid \<in> set (rc_schedule_ids rule)) \<noteq> (rc_id rule \<in> set ids)) (cfg_rules (fc_config core)))"
      using r rs by simp
    then have "and_then (site_rule_in_active_detox (rc_id r) now core) (\<lambda>detox.
        if detox then invalid (ListInDetox ''site list'' (rc_id r))
        else and_then (if rule_is_active_at L r (fc_config core) now
               then and_then (tier1_edit_window_active H now core) (\<lambda>window. Inr (\<not> window)) else Inr False) (\<lambda>closed.
          if closed then invalid (ActiveList ''site list'' (rc_id r)) else Inr ())) = Inr ()"
      using all f by (metis (no_types, lifting) option.case(2))
    then show False using p by (auto simp: site_protected_def and_then_Inr_iff split: if_splits)
  qed
  then have "?f r = r" by (auto simp: attach_same)
  then show "r \<in> set (cfg_rules c')" using r by (auto simp: c' image_iff intro!: bexI [where x = r])
qed

lemma apply_app_targets_keeps:
  assumes "apply_app_targets L H core (fc_config core) c sid ids now = Inr c'"
  shows "cfg_rules c' = cfg_rules c" "cfg_schedules c' = cfg_schedules c"
    "distinct (map ac_id (cfg_app_rules (fc_config core))) \<Longrightarrow> cfg_app_rules c = cfg_app_rules (fc_config core)
     \<Longrightarrow> r \<in> set (cfg_app_rules c) \<Longrightarrow> app_protected L H now core r \<Longrightarrow> r \<in> set (cfg_app_rules c')"
proof -
  let ?f = "\<lambda>rule. if ac_tier rule = Hard then rule
      else rule\<lparr>ac_schedule_ids := attach_schedule sid (ac_id rule \<in> set ids) (ac_schedule_ids rule)\<rparr>"
  have c': "c' = c\<lparr>cfg_app_rules := map ?f (cfg_app_rules c)\<rparr>"
    using assms by (auto simp: apply_app_targets_def and_then_Inr_iff)
  then show "cfg_rules c' = cfg_rules c" "cfg_schedules c' = cfg_schedules c" by simp_all
  assume d: "distinct (map ac_id (cfg_app_rules (fc_config core)))" and rs: "cfg_app_rules c = cfg_app_rules (fc_config core)"
    and r: "r \<in> set (cfg_app_rules c)" and p: "app_protected L H now core r"
  have all: "\<forall>changed\<in>set (filter (\<lambda>rule. ac_tier rule \<noteq> Hard
        \<and> (sid \<in> set (ac_schedule_ids rule)) \<noteq> (ac_id rule \<in> set ids)) (cfg_app_rules (fc_config core))).
      (case find (\<lambda>rule. ac_id rule = ac_id changed) (cfg_app_rules (fc_config core)) of
         None \<Rightarrow> Inl (DaemonCore (Panicked ''changed app rule must exist''))
       | Some rule \<Rightarrow> and_then (app_rule_in_active_detox (ac_id rule) now core) (\<lambda>detox.
        if detox then invalid (ListInDetox ''app rule'' (ac_id rule))
        else and_then (if app_rule_is_active_at L rule (fc_config core) now
               then and_then (tier1_edit_window_active H now core) (\<lambda>window. Inr (\<not> window)) else Inr False) (\<lambda>closed.
          if closed then invalid (ActiveList ''app rule'' (ac_id rule)) else Inr ()))) = Inr ()"
    using assms unfolding apply_app_targets_def and_then_Inr_iff try_for_Inr_iff by blast
  have f: "find (\<lambda>rule. ac_id rule = ac_id r) (cfg_app_rules (fc_config core)) = Some r"
    using find_own [OF d] r rs by simp
  have "ac_tier r = Hard \<or> (sid \<in> set (ac_schedule_ids r)) = (ac_id r \<in> set ids)"
  proof (rule ccontr)
    assume "\<not> ?thesis"
    then have "r \<in> set (filter (\<lambda>rule. ac_tier rule \<noteq> Hard
        \<and> (sid \<in> set (ac_schedule_ids rule)) \<noteq> (ac_id rule \<in> set ids)) (cfg_app_rules (fc_config core)))"
      using r rs by simp
    then have "and_then (app_rule_in_active_detox (ac_id r) now core) (\<lambda>detox.
        if detox then invalid (ListInDetox ''app rule'' (ac_id r))
        else and_then (if app_rule_is_active_at L r (fc_config core) now
               then and_then (tier1_edit_window_active H now core) (\<lambda>window. Inr (\<not> window)) else Inr False) (\<lambda>closed.
          if closed then invalid (ActiveList ''app rule'' (ac_id r)) else Inr ())) = Inr ()"
      using all f by (metis (no_types, lifting) option.case(2))
    then show False using p by (auto simp: app_protected_def and_then_Inr_iff split: if_splits)
  qed
  then have "?f r = r" by (auto simp: attach_same)
  then show "r \<in> set (cfg_app_rules c')" using r by (auto simp: c' image_iff intro!: bexI [where x = r])
qed

lemma apply_schedule_target_updates_keeps:
  assumes "apply_schedule_target_updates L H core (fc_config core) c sid sites apps now = Inr c'"
    and "cfg_rules c = cfg_rules (fc_config core)" "cfg_app_rules c = cfg_app_rules (fc_config core)"
  shows "cfg_schedules c' = cfg_schedules c"
    "distinct (map rc_id (cfg_rules (fc_config core))) \<Longrightarrow> r \<in> set (cfg_rules c)
       \<Longrightarrow> site_protected L H now core r \<Longrightarrow> r \<in> set (cfg_rules c')"
    "distinct (map ac_id (cfg_app_rules (fc_config core))) \<Longrightarrow> a \<in> set (cfg_app_rules c)
       \<Longrightarrow> app_protected L H now core a \<Longrightarrow> a \<in> set (cfg_app_rules c')"
proof -
  obtain c1 where 1: "(case sites of None \<Rightarrow> Inr c
       | Some ids \<Rightarrow> apply_site_targets L H core (fc_config core) c sid ids now) = Inr c1"
    and 2: "(case apps of None \<Rightarrow> Inr c1
       | Some ids \<Rightarrow> apply_app_targets L H core (fc_config core) c1 sid ids now) = Inr c'"
    using assms(1) by (auto simp: apply_schedule_target_updates_def and_then_Inr_iff)
  have s: "cfg_app_rules c1 = cfg_app_rules c" "cfg_schedules c1 = cfg_schedules c"
    "cfg_rules c' = cfg_rules c1" "cfg_schedules c' = cfg_schedules c1"
    using 1 2 by (auto dest: apply_site_targets_keeps(1,2) apply_app_targets_keeps(1,2) split: option.splits)
  then show "cfg_schedules c' = cfg_schedules c" by simp
  show "r \<in> set (cfg_rules c')"
    if "distinct (map rc_id (cfg_rules (fc_config core)))" "r \<in> set (cfg_rules c)" "site_protected L H now core r"
  proof (cases sites)
    case None
    then have "c1 = c" using 1 by simp
    then show ?thesis using s(3) that(2) by simp
  next
    case (Some ids)
    then have "apply_site_targets L H core (fc_config core) c sid ids now = Inr c1" using 1 by simp
    from apply_site_targets_keeps(3) [OF this that(1) assms(2) that(2,3)] show ?thesis using s by simp
  qed
  show "a \<in> set (cfg_app_rules c')"
    if "distinct (map ac_id (cfg_app_rules (fc_config core)))" "a \<in> set (cfg_app_rules c)" "app_protected L H now core a"
  proof (cases apps)
    case None
    then have "c' = c1" using 2 by simp
    then show ?thesis using s(1) that(2) by simp
  next
    case (Some ids)
    then have "apply_app_targets L H core (fc_config core) c1 sid ids now = Inr c'" using 2 by simp
    moreover have "cfg_app_rules c1 = cfg_app_rules (fc_config core)" "a \<in> set (cfg_app_rules c1)"
      using s(1) that(2) assms(3) by simp_all
    ultimately show ?thesis using apply_app_targets_keeps(3) that(1,3) by blast
  qed
qed

text \<open>An active schedule can only gain windows, so what it keeps active stays active.\<close>

lemma stage_schedule_keeps:
  assumes "stage_schedule L H schedule site_ids app_ids now core = Inr c'" "config_ok L (fc_config core)"
  shows "set ids \<subseteq> sc_id ` set (cfg_schedules (fc_config core)) \<Longrightarrow> schedules_kept L now (fc_config core) c' ids"
    "r \<in> set (cfg_rules (fc_config core)) \<Longrightarrow> site_protected L H now core r \<Longrightarrow> r \<in> set (cfg_rules c')"
    "a \<in> set (cfg_app_rules (fc_config core)) \<Longrightarrow> app_protected L H now core a \<Longrightarrow> a \<in> set (cfg_app_rules c')"
proof -
  let ?ss = "cfg_schedules (fc_config core)"
  obtain staged changes sites apps where 1: "(case position (\<lambda>candidate. sc_id candidate = sc_id schedule) ?ss of
           Some i \<Rightarrow>
             and_then
               (if \<not> schedule_is_active_at L (?ss ! i) now then Inr False
                else if ?ss ! i \<noteq> schedule \<and> \<not> schedule_edit_is_additive (?ss ! i) schedule then Inr True
                else if changes then and_then (tier1_edit_window_active H now core) (\<lambda>window. Inr (\<not> window))
                else Inr False)
               (\<lambda>closed. if closed then invalid (ActiveSchedule (sc_id (?ss ! i)))
                  else Inr (fc_config core\<lparr>cfg_schedules := ?ss[i := schedule]\<rparr>))
         | None \<Rightarrow> Inr (fc_config core\<lparr>cfg_schedules := ?ss @ [schedule]\<rparr>)) = Inr staged"
    and 2: "apply_schedule_target_updates L H core (fc_config core) staged (sc_id schedule) sites apps now = Inr c'"
    using assms(1) unfolding stage_schedule_def Let_def and_then_Inr_iff by blast
  have s: "cfg_rules staged = cfg_rules (fc_config core)" "cfg_app_rules staged = cfg_app_rules (fc_config core)"
    using 1 by (auto simp: and_then_Inr_iff split: option.splits if_splits)
  note k = apply_schedule_target_updates_keeps [OF 2 s]
  have d: "distinct (map rc_id (cfg_rules (fc_config core)))" "distinct (map ac_id (cfg_app_rules (fc_config core)))"
    using assms(2) by (simp_all add: config_ok_def unique_ids_def)
  show "r \<in> set (cfg_rules (fc_config core)) \<Longrightarrow> site_protected L H now core r \<Longrightarrow> r \<in> set (cfg_rules c')"
    using k(2) [OF d(1)] s by simp
  show "a \<in> set (cfg_app_rules (fc_config core)) \<Longrightarrow> app_protected L H now core a \<Longrightarrow> a \<in> set (cfg_app_rules c')"
    using k(3) [OF d(2)] s by simp
  assume known: "set ids \<subseteq> sc_id ` set ?ss"
  show "schedules_kept L now (fc_config core) c' ids"
  proof (cases "position (\<lambda>candidate. sc_id candidate = sc_id schedule) ?ss")
    case None
    then show ?thesis using 1 k(1) known by (intro known_kept) auto
  next
    case (Some i)
    then have c: "cfg_schedules c' = ?ss[i := schedule]"
      and g: "schedule_is_active_at L (?ss ! i) now \<longrightarrow> ?ss ! i = schedule \<or> schedule_edit_is_additive (?ss ! i) schedule"
      using 1 k(1) by (auto simp: and_then_Inr_iff split: if_splits)
    have "schedule_is_active_at L (?ss ! i) now \<Longrightarrow> schedule_is_active_at L schedule now"
      using g same_start_active by auto
    then show ?thesis using find_update [OF Some]
      by (auto simp: schedules_kept_def id_active_def c)
  qed
qed

lemma stage_delete_schedule_keeps:
  assumes "stage_delete_schedule L ident now core = Inr c'"
  shows "r \<in> set (cfg_rules (fc_config core)) \<Longrightarrow>
      survives L now (fc_config core) c' (site_view r) (map site_view (cfg_rules c'))"
    "a \<in> set (cfg_app_rules (fc_config core)) \<Longrightarrow>
      survives L now (fc_config core) c' (app_view a) (map app_view (cfg_app_rules c'))"
proof -
  let ?ss = "cfg_schedules (fc_config core)"
  obtain i where i: "position (\<lambda>candidate. sc_id candidate = ident) ?ss = Some i"
    and idle: "\<not> schedule_is_active_at L (?ss ! i) now"
    and c': "c' = fc_config core
            \<lparr>cfg_schedules := remove_at i ?ss,
             cfg_rules := map (\<lambda>rule. rule\<lparr>rc_schedule_ids :=
               filter (\<lambda>j. j \<noteq> sc_id (?ss ! i)) (rc_schedule_ids rule)\<rparr>) (cfg_rules (fc_config core)),
             cfg_app_rules := map (\<lambda>rule. rule\<lparr>ac_schedule_ids :=
               filter (\<lambda>j. j \<noteq> sc_id (?ss ! i)) (ac_schedule_ids rule)\<rparr>) (cfg_app_rules (fc_config core))\<rparr>"
    using assms by (auto simp: stage_delete_schedule_def Let_def invalid_def split: option.splits if_splits)
  have e: "sc_id (?ss ! i) = ident" using position_Some [OF i] by simp
  have active: "j \<noteq> ident \<and> id_active L c' now j" if "id_active L (fc_config core) now j" for j
    using that idle find_position [OF i] find_remove [OF i, of j]
    by (cases "j = ident") (auto simp: id_active_def c')
  show "survives L now (fc_config core) c' (site_view r) (map site_view (cfg_rules c'))"
    if "r \<in> set (cfg_rules (fc_config core))"
    unfolding survives_def
  proof (intro bexI conjI impI)
    let ?w = "site_view (r\<lparr>rc_schedule_ids := filter (\<lambda>j. j \<noteq> ident) (rc_schedule_ids r)\<rparr>)"
    show "?w \<in> set (map site_view (cfg_rules c'))" using that by (auto simp: c' e)
    show "tightened (site_view r) ?w" by (simp add: tightened_def split: list_mode.splits)
    show "view_active L c' now ?w" if "view_active L (fc_config core) now (site_view r)"
      using that by (auto simp: view_active_def ids_active_iff dest: active)
  qed
  show "survives L now (fc_config core) c' (app_view a) (map app_view (cfg_app_rules c'))"
    if "a \<in> set (cfg_app_rules (fc_config core))"
    unfolding survives_def
  proof (intro bexI conjI impI)
    let ?w = "app_view (a\<lparr>ac_schedule_ids := filter (\<lambda>j. j \<noteq> ident) (ac_schedule_ids a)\<rparr>)"
    show "?w \<in> set (map app_view (cfg_app_rules c'))" using that by (auto simp: c' e)
    show "tightened (app_view a) ?w" by (simp add: tightened_def split: list_mode.splits)
    show "view_active L c' now ?w" if "view_active L (fc_config core) now (app_view a)"
      using that by (auto simp: view_active_def ids_active_iff dest: active)
  qed
qed

section \<open>Importing\<close>

lemma append_unique_prefix:
  "append_unique_by_id kind f xs imported n = Inr (ys, m) \<Longrightarrow> \<exists>added. ys = xs @ added \<and> set added \<subseteq> set imported"
proof (induction kind f xs imported n rule: append_unique_by_id.induct)
  case (2 kind f xs item imported n)
  show ?case
  proof (cases "find (\<lambda>candidate. f candidate = f item) xs")
    case None
    then obtain added where "ys = (xs @ [item]) @ added" "set added \<subseteq> set imported"
      using 2 by auto
    then show ?thesis by (intro exI [where x = "item # added"]) auto
  next
    case (Some y)
    then show ?thesis using 2 by (fastforce split: if_splits)
  qed
qed simp

lemma mandatory_sel [simp]:
  "cfg_rules (fst (ensure_mandatory_app_rules c)) = cfg_rules c"
  "cfg_schedules (fst (ensure_mandatory_app_rules c)) = cfg_schedules c"
  "cfg_allowances (fst (ensure_mandatory_app_rules c)) = cfg_allowances c"
  "cfg_strict_mode (fst (ensure_mandatory_app_rules c)) = cfg_strict_mode c"
  by (auto simp: ensure_mandatory_app_rules_def Let_def split: option.splits)

lemma set_update_other: "x \<in> set xs \<Longrightarrow> x \<noteq> xs ! i \<Longrightarrow> x \<in> set (xs[i := y])"
proof -
  assume "x \<in> set xs" "x \<noteq> xs ! i"
  then obtain j where "j < length xs" "x = xs ! j" "j \<noteq> i" by (auto simp: in_set_conv_nth)
  then have "j < length (xs[i := y])" "xs[i := y] ! j = x" by simp_all
  then show "x \<in> set (xs[i := y])" by (metis nth_mem)
qed

lemma mandatory_keeps_others:
  assumes "a \<in> set (cfg_app_rules c)" "ac_id a \<noteq> unsupported_browser_rule_id"
  shows "a \<in> set (cfg_app_rules (fst (ensure_mandatory_app_rules c)))"
proof -
  have other: "a \<noteq> cfg_app_rules c ! i"
    if "position (\<lambda>candidate. ac_id candidate = unsupported_browser_rule_id) (cfg_app_rules c) = Some i" for i
    using position_Some [OF that] assms(2) by auto
  then show ?thesis using assms(1)
    by (auto simp: ensure_mandatory_app_rules_def unsupported_browser_rule_def Let_def
        intro: set_remove_at set_update_other split: option.splits)
qed

lemma stage_import_keeps:
  assumes "stage_import L T toml core = Inr (c', summary)"
  shows "set (cfg_rules (fc_config core)) \<subseteq> set (cfg_rules c')"
    "a \<in> set (cfg_app_rules (fc_config core)) \<Longrightarrow> ac_id a \<noteq> unsupported_browser_rule_id \<Longrightarrow> a \<in> set (cfg_app_rules c')"
    "set ids \<subseteq> sc_id ` set (cfg_schedules (fc_config core)) \<Longrightarrow> schedules_kept L now (fc_config core) c' ids"
proof -
  let ?c = "fc_config core"
  obtain imported appended where "append_policy_config ?c imported = Inr (appended, summary)"
    and c': "c' = fst (ensure_mandatory_app_rules appended)"
    using assms by (auto simp: stage_import_def and_then_Inr_iff Let_def)
  then obtain schedules rules apps where p: "cfg_schedules appended = cfg_schedules ?c @ schedules"
    "cfg_rules appended = cfg_rules ?c @ rules" "cfg_app_rules appended = cfg_app_rules ?c @ apps"
    by (auto simp: append_policy_config_def and_then_Inr_iff dest!: append_unique_prefix)
  show "set (cfg_rules ?c) \<subseteq> set (cfg_rules c')" using p by (auto simp: c')
  show "a \<in> set (cfg_app_rules ?c) \<Longrightarrow> ac_id a \<noteq> unsupported_browser_rule_id \<Longrightarrow> a \<in> set (cfg_app_rules c')"
    unfolding c' using p by (intro mandatory_keeps_others) auto
  show "set ids \<subseteq> sc_id ` set (cfg_schedules ?c) \<Longrightarrow> schedules_kept L now ?c c' ids"
    by (erule known_kept) (simp add: c' p)
qed

section \<open>Any request\<close>

text \<open>The policy a request commits, staged from the policy in force.\<close>

fun staged_policy ::
  "'u lib \<Rightarrow> 'f host_lib \<Rightarrow> toml_lib \<Rightarrow> policy_request \<Rightarrow> datetime \<Rightarrow> focus_core \<Rightarrow> daemon_error + config" where
  "staged_policy L H T (ImportPolicyToml toml) now core = and_then (stage_import L T toml core) (\<lambda>(c, _). Inr c)"
| "staged_policy L H T (UpsertSiteList rule a) now core = stage_site_list L H rule a now core"
| "staged_policy L H T (DeleteSiteList ident) now core = stage_delete_site_list L H ident now core"
| "staged_policy L H T (UpsertAllowance a) now core = stage_allowance L H core (fc_config core) a now"
| "staged_policy L H T (DeleteAllowance ident) now core = stage_delete_allowance L ident now core"
| "staged_policy L H T (UpsertAppRule rule a) now core = stage_app_rule L H rule a now core"
| "staged_policy L H T (DeleteAppRule ident) now core = stage_delete_app_rule L H ident now core"
| "staged_policy L H T (UpsertSchedule schedule sites apps) now core = stage_schedule L H schedule sites apps now core"
| "staged_policy L H T (DeleteSchedule ident) now core = stage_delete_schedule L ident now core"

lemma config_ok_known:
  assumes "config_ok L c"
  shows "r \<in> set (cfg_rules c) \<Longrightarrow> set (rc_schedule_ids r) \<subseteq> sc_id ` set (cfg_schedules c)"
    "a \<in> set (cfg_app_rules c) \<Longrightarrow> set (ac_schedule_ids a) \<subseteq> sc_id ` set (cfg_schedules c)"
  using assms by (auto simp: config_ok_def rule_ok_def app_rule_ok_def)

lemma staged_policy_keeps_sites:
  assumes "staged_policy L H T request now core = Inr c'" "config_ok L (fc_config core)"
    "r \<in> set (cfg_rules (fc_config core))" "site_protected L H now core r"
  shows "survives L now (fc_config core) c' (site_view r) (map site_view (cfg_rules c'))"
proof -
  have member: ?thesis if "r \<in> set (cfg_rules c')" "schedules_kept L now (fc_config core) c' (rc_schedule_ids r)"
    using that by (intro survives_member) auto
  have same: ?thesis if "cfg_rules c' = cfg_rules (fc_config core)" "cfg_schedules c' = cfg_schedules (fc_config core)"
    using that assms(3) by (intro member schedules_kept_same) auto
  note known = config_ok_known(1) [OF assms(2,3)]
  show ?thesis
  proof (cases request)
    case (ImportPolicyToml toml)
    then obtain summary where "stage_import L T toml core = Inr (c', summary)"
      using assms(1) by (auto simp: and_then_Inr_iff)
    note k = stage_import_keeps [OF this]
    show ?thesis using assms(3) k(1) k(3) [OF known] by (intro member) auto
  next
    case (UpsertSiteList rule a)
    then show ?thesis using assms stage_site_list_keeps(3) by simp
  next
    case (DeleteSiteList ident)
    then have "stage_delete_site_list L H ident now core = Inr c'" using assms(1) by simp
    note k = stage_delete_site_list_keeps [OF this]
    show ?thesis using k(3) [OF assms(3,4)] schedules_kept_same [OF k(2)] by (intro member)
  next
    case (UpsertAllowance a)
    then have "stage_allowance L H core (fc_config core) a now = Inr c'" using assms(1) by simp
    note k = stage_allowance_sel [OF this]
    show ?thesis by (rule same [OF k(1,3)])
  next
    case (DeleteAllowance ident)
    then have "stage_delete_allowance L ident now core = Inr c'" using assms(1) by simp
    note k = stage_delete_allowance_keeps [OF this]
    show ?thesis by (rule same [OF k(1,3)])
  next
    case (UpsertAppRule rule a)
    then have "stage_app_rule L H rule a now core = Inr c'" using assms(1) by simp
    note k = stage_app_rule_keeps [OF this]
    show ?thesis by (rule same [OF k(1,2)])
  next
    case (DeleteAppRule ident)
    then have "stage_delete_app_rule L H ident now core = Inr c'" using assms(1) by simp
    note k = stage_delete_app_rule_keeps [OF this]
    show ?thesis by (rule same [OF k(1,2)])
  next
    case (UpsertSchedule schedule sites apps)
    then have "stage_schedule L H schedule sites apps now core = Inr c'" using assms(1) by simp
    note k = stage_schedule_keeps [OF this assms(2)]
    show ?thesis by (rule member [OF k(2) [OF assms(3,4)] k(1) [OF known]])
  next
    case (DeleteSchedule ident)
    then have "stage_delete_schedule L ident now core = Inr c'" using assms(1) by simp
    then show ?thesis using stage_delete_schedule_keeps(1) assms(3) by blast
  qed
qed

lemma staged_policy_keeps_apps:
  assumes "staged_policy L H T request now core = Inr c'" "config_ok L (fc_config core)"
    "a \<in> set (cfg_app_rules (fc_config core))" "app_protected L H now core a"
    "ac_id a \<noteq> unsupported_browser_rule_id"
  shows "survives L now (fc_config core) c' (app_view a) (map app_view (cfg_app_rules c'))"
proof -
  have member: ?thesis if "a \<in> set (cfg_app_rules c')" "schedules_kept L now (fc_config core) c' (ac_schedule_ids a)"
    using that by (intro survives_member) auto
  have same: ?thesis if "cfg_app_rules c' = cfg_app_rules (fc_config core)" "cfg_schedules c' = cfg_schedules (fc_config core)"
    using that assms(3) by (intro member schedules_kept_same) auto
  note known = config_ok_known(2) [OF assms(2,3)]
  show ?thesis
  proof (cases request)
    case (ImportPolicyToml toml)
    then obtain summary where "stage_import L T toml core = Inr (c', summary)"
      using assms(1) by (auto simp: and_then_Inr_iff)
    note k = stage_import_keeps [OF this]
    show ?thesis by (rule member [OF k(2) [OF assms(3,5)] k(3) [OF known]])
  next
    case (UpsertSiteList rule x)
    then have "stage_site_list L H rule x now core = Inr c'" using assms(1) by simp
    note k = stage_site_list_keeps [OF this]
    show ?thesis by (rule same [OF k(1,2)])
  next
    case (DeleteSiteList ident)
    then have "stage_delete_site_list L H ident now core = Inr c'" using assms(1) by simp
    note k = stage_delete_site_list_keeps [OF this]
    show ?thesis by (rule same [OF k(1,2)])
  next
    case (UpsertAllowance x)
    then have "stage_allowance L H core (fc_config core) x now = Inr c'" using assms(1) by simp
    note k = stage_allowance_sel [OF this]
    show ?thesis by (rule same [OF k(2,3)])
  next
    case (DeleteAllowance ident)
    then have "stage_delete_allowance L ident now core = Inr c'" using assms(1) by simp
    note k = stage_delete_allowance_keeps [OF this]
    show ?thesis by (rule same [OF k(2,3)])
  next
    case (UpsertAppRule rule x)
    then have "stage_app_rule L H rule x now core = Inr c'" using assms(1) by simp
    then show ?thesis using stage_app_rule_keeps(3) assms(3,4) by blast
  next
    case (DeleteAppRule ident)
    then have "stage_delete_app_rule L H ident now core = Inr c'" using assms(1) by simp
    note k = stage_delete_app_rule_keeps [OF this]
    show ?thesis using k(3) [OF assms(3,4)] schedules_kept_same [OF k(2)] by (intro member)
  next
    case (UpsertSchedule schedule sites apps)
    then have "stage_schedule L H schedule sites apps now core = Inr c'" using assms(1) by simp
    note k = stage_schedule_keeps [OF this assms(2)]
    show ?thesis by (rule member [OF k(3) [OF assms(3,4)] k(1) [OF known]])
  next
    case (DeleteSchedule ident)
    then have "stage_delete_schedule L ident now core = Inr c'" using assms(1) by simp
    then show ?thesis using stage_delete_schedule_keeps(2) assms(3) by blast
  qed
qed

end
