(* ===== verification/EditLaws.thy ===== *)
theory EditLaws imports ProtectedLists begin

text \<open>
  The laws of the policy methods: what a request leaves alone, which policy it commits, and what
  follows for the lists in force and for the decisions that rest on them. A witness runs a request
  against a daemon with a Tier 1 and a Tier 3 list.
\<close>

section \<open>What a request leaves alone\<close>

text \<open>The tables no edit of the policy writes: sessions, requests for unlocks, usage.\<close>

definition same_runtime :: "database \<Rightarrow> database \<Rightarrow> bool" where
  "same_runtime db db' \<longleftrightarrow> db_fault db' = db_fault db \<and> db_detox_sessions db' = db_detox_sessions db
     \<and> db_detox_site_rules db' = db_detox_site_rules db \<and> db_detox_app_rules db' = db_detox_app_rules db
     \<and> db_unlocks db' = db_unlocks db \<and> db_visits db' = db_visits db \<and> db_app_usage db' = db_app_usage db"

lemma same_runtime_refl [simp]: "same_runtime db db"
  by (simp add: same_runtime_def)

lemma keeps_db_map: "(\<And>x. keeps P (f x)) \<Longrightarrow> keeps P (db_map f xs)"
  by (induction xs) (auto intro!: keeps_bind)

lemma keeps_runtime_sync: "keeps (same_runtime db0) (sync_schedule_activity_totals L schedules now)"
  unfolding sync_schedule_activity_totals_def sync_schedule_total_def
  by (intro keeps_transaction keeps_db_map keeps_bind keeps_reading)
    (auto simp: same_runtime_def Let_def intro!: keeps_exec keeps_bind keeps_reading split: option.splits if_splits)

lemma keeps_runtime_event: "keeps (same_runtime db0) (record_event kind target details now)"
  unfolding record_event_def insert_event_def append_event_log_def
  by (auto simp: same_runtime_def keeps_def db_bind_def transaction_def exec_def bump_rowid_def Let_def update_rows_def
      split: prod.splits sum.splits option.splits if_splits)

lemma keeps_runtime_lifecycle:
  "keeps (same_runtime db0) (set_notification_lifecycle_state kind i active now)"
  "keeps (same_runtime db0) (delete_notification_lifecycle_state kind i)"
  by (auto simp: set_notification_lifecycle_state_def delete_notification_lifecycle_state_def same_runtime_def
      intro!: keeps_update_rows)

lemma keeps_runtime_stmt: "keeps (same_runtime db0) (policy_stmt tag f)"
  unfolding policy_stmt_def by (rule keeps_exec) (auto simp: same_runtime_def and_then_Inr_iff)

lemma keeps_runtime_replace: "keeps (same_runtime db0) (replace_policy_config L c)"
  unfolding replace_policy_config_def store_tables_def store_schedule_def store_site_list_def store_app_list_def
  by (intro keeps_bind keeps_reading keeps_transaction keeps_for keeps_runtime_stmt keeps_update_rows)
    (auto simp: same_runtime_def revoke_missing_def)

text \<open>The same on the daemon, with the policy the core holds.\<close>

lemma act_keeps_on_core: "act_keeps P m \<Longrightarrow> act_keeps (\<lambda>d. P (dm_core d)) (on_core m)"
  by (auto simp: act_keeps_def on_core_def Let_def split: prod.splits)

lemma act_keeps_on_recovery: "act_keeps (\<lambda>d. P (dm_core d)) (on_recovery m)"
  by (auto simp: act_keeps_def on_recovery_def Let_def split: prod.splits option.splits)

lemma act_keeps_core_read: "act_keeps P (core_read q)"
  by (auto simp: core_read_def)

lemma act_keeps_if: "(b \<Longrightarrow> act_keeps P m) \<Longrightarrow> (\<not> b \<Longrightarrow> act_keeps P n) \<Longrightarrow> act_keeps P (if b then m else n)"
  by simp

lemma act_keeps_state: "(\<And>s. act_keeps P (m s)) \<Longrightarrow> act_keeps P (\<lambda>s. m s s)"
  by (auto simp: act_keeps_def)

lemmas daemon_keeps = act_keeps_on_core act_keeps_on_recovery act_keeps_core_read act_keeps_rules

text \<open>
  \<open>R\<close> is the frame of a commit: what the operations on the database keep, whatever the policy.
\<close>

definition core_frame :: "database \<Rightarrow> focus_core \<Rightarrow> bool" where
  "core_frame db0 core \<longleftrightarrow> same_runtime db0 (fc_database core)"

lemma core_frame_on_db: "keeps (same_runtime db0) m \<Longrightarrow> act_keeps (core_frame db0) (on_db m)"
  using act_keeps_on_db [of "same_runtime db0" m] by (simp add: act_keeps_def core_frame_def)

lemma core_frame_replace_config: "act_keeps (core_frame db0) (replace_config L c)"
  unfolding replace_config_def
  by (intro act_keeps_bind act_keeps_read) (auto simp: act_keeps_def core_frame_def)

lemma core_frame_rebaseline: "act_keeps (core_frame db0) (rebaseline_schedule_notification_states L now)"
proof -
  have 1: "act_keeps (core_frame db0) (\<lambda>core. act_for (cfg_schedules (fc_config core)) (\<lambda>schedule.
         on_db (set_notification_lifecycle_state ''schedule'' (sc_id schedule)
           (rpc_schedule_ids_are_active_at L [sc_id schedule] (fc_config core) now) (dt_utc now))) core)"
    by (rule act_keeps_state) (intro act_keeps_for core_frame_on_db keeps_runtime_lifecycle)
  have 2: "act_keeps (core_frame db0) (\<lambda>core. act_for existing (\<lambda>(schedule_id, _).
         if list_ex (\<lambda>schedule. sc_id schedule = schedule_id) (cfg_schedules (fc_config core)) then act_return ()
         else on_db (delete_notification_lifecycle_state ''schedule'' schedule_id)) core)" for existing :: "(string \<times> bool) list"
    by (rule act_keeps_state) (auto intro!: act_keeps_for core_frame_on_db keeps_runtime_lifecycle)
  show ?thesis unfolding rebaseline_schedule_notification_states_def
    by (intro act_keeps_bind act_keeps_read 1 2)
qed

definition daemon_frame :: "database \<Rightarrow> daemon \<Rightarrow> bool" where
  "daemon_frame db0 d \<longleftrightarrow> core_frame db0 (dm_core d)"

lemma frame_on_core: "act_keeps (core_frame db0) m \<Longrightarrow> act_keeps (daemon_frame db0) (on_core m)"
  using act_keeps_on_core [of "core_frame db0" m] by (simp add: daemon_frame_def [abs_def])

lemma frame_on_recovery: "act_keeps (daemon_frame db0) (on_recovery m)"
  using act_keeps_on_recovery [of "core_frame db0" m] by (simp add: daemon_frame_def [abs_def])

lemma frame_store_policy: "act_keeps (daemon_frame db0) (store_policy L T old c)"
proof -
  have 1: "act_keeps (daemon_frame db0) (on_core (on_db (replace_policy_config L c)))"
    by (intro frame_on_core core_frame_on_db keeps_runtime_replace)
  show ?thesis unfolding act_keeps_def
    using 1 frame_on_recovery [of db0 "write_snapshot L T old"]
    by (fastforce simp: store_policy_def act_keeps_def split: prod.splits sum.splits)
qed

lemma frame_persist: "act_keeps (daemon_frame db0) (persist_policy_config L T k c)"
proof -
  have 1: "act_keeps (core_frame db0) (\<lambda>core. on_db (sync_schedule_activity_totals L (cfg_schedules (fc_config core)) now) core)" for now
    by (rule act_keeps_state) (intro core_frame_on_db keeps_runtime_sync)
  show ?thesis unfolding persist_policy_config_def
    by (intro act_keeps_bind act_keeps_read frame_on_recovery act_keeps_core_read frame_on_core core_frame_on_db
        keeps_runtime_sync frame_store_policy core_frame_replace_config 1 core_frame_rebaseline)
qed

lemma repair_hosts_core: "dm_core (snd (repair_hosts_after_policy_change L H k now d)) = dm_core d"
  by (auto simp: repair_hosts_after_policy_change_def act_bind_def core_read_def Let_def
      split: option.splits sum.splits prod.splits if_splits)

lemma frame_hosts: "act_keeps (daemon_frame db0) (repair_hosts_after_policy_change L H k now)"
  by (simp add: act_keeps_def daemon_frame_def repair_hosts_core)

lemma frame_event: "act_keeps (daemon_frame db0) (rpc_event kind target details now)"
  unfolding rpc_event_def
  by (intro frame_on_core act_keeps_bind core_frame_on_db keeps_runtime_event act_keeps_return)

lemma frame_commit: "act_keeps (daemon_frame db0) (commit_edit L H T k now b kind target c)"
  unfolding commit_edit_def
  by (intro act_keeps_bind act_keeps_read frame_persist act_keeps_if frame_hosts act_keeps_return frame_event act_keeps_core_read)

section \<open>Which policy is in force afterwards\<close>

lemma on_core_Inr:
  "on_core m d = (Inr x, d') \<longleftrightarrow> (\<exists>core. m (dm_core d) = (Inr x, core) \<and> d' = d\<lparr>dm_core := core\<rparr>)"
  by (auto simp: on_core_def Let_def split: prod.splits)

lemma core_read_Inr: "core_read q d = (Inr x, d') \<longleftrightarrow> q (dm_core d) = Inr x \<and> d' = d"
  by (auto simp: core_read_def)

lemma guarded_edit_Inr:
  "guarded_edit L H k client_now f d = (Inr x, d') \<Longrightarrow>
     \<exists>now d1. rpc_guarded_now L H k client_now d = (Inr now, d1) \<and> f now d1 = (Inr x, d')"
  unfolding guarded_edit_def act_bind_Inr reject_if_clock_tampered_def act_read_def by blast

lemma core_read_bind_Inr:
  "act_bind (core_read q) f d = (Inr x, d') \<longleftrightarrow> (\<exists>y. q (dm_core d) = Inr y \<and> f y d = (Inr x, d'))"
  by (auto simp: act_bind_Inr core_read_Inr)

definition holds_policy :: "config \<Rightarrow> focus_core \<Rightarrow> bool" where
  "holds_policy c core \<longleftrightarrow> fc_config core = c"

lemma policy_on_db: "act_keeps (holds_policy c) (on_db m)"
  by (simp add: act_keeps_def holds_policy_def)

lemma policy_rebaseline: "act_keeps (holds_policy c) (rebaseline_schedule_notification_states L now)"
proof -
  have 1: "act_keeps (holds_policy c) (\<lambda>core. act_for (cfg_schedules (fc_config core)) (\<lambda>schedule.
         on_db (set_notification_lifecycle_state ''schedule'' (sc_id schedule)
           (rpc_schedule_ids_are_active_at L [sc_id schedule] (fc_config core) now) (dt_utc now))) core)"
    by (rule act_keeps_state) (intro act_keeps_for policy_on_db)
  have 2: "act_keeps (holds_policy c) (\<lambda>core. act_for existing (\<lambda>(schedule_id, _).
         if list_ex (\<lambda>schedule. sc_id schedule = schedule_id) (cfg_schedules (fc_config core)) then act_return ()
         else on_db (delete_notification_lifecycle_state ''schedule'' schedule_id)) core)" for existing :: "(string \<times> bool) list"
    by (rule act_keeps_state) (auto intro!: act_keeps_for policy_on_db)
  show ?thesis unfolding rebaseline_schedule_notification_states_def
    by (intro act_keeps_bind act_keeps_read 1 2)
qed

lemma persist_config:
  assumes "persist_policy_config L T k c d = (Inr u, d')"
  shows "fc_config (dm_core d') = c" "validate_config L c = Inr ()"
proof -
  show "validate_config L c = Inr ()"
    using assms by (auto simp: persist_policy_config_def act_read_bind_Inr)
  obtain v d1 d2 where r: "on_core (replace_config L c) d1 = (Inr v, d2)"
    and rest: "act_bind (on_core (\<lambda>core. on_db (sync_schedule_activity_totals L (cfg_schedules (fc_config core)) (rk_persist k)) core))
       (\<lambda>_. on_core (rebaseline_schedule_notification_states L (rk_persist k))) d2 = (Inr u, d')"
    using assms unfolding persist_policy_config_def act_bind_Inr by blast
  have "holds_policy c (dm_core d2)"
    using r by (auto simp: on_core_Inr replace_config_def act_read_bind_Inr holds_policy_def)
  moreover have "act_keeps (\<lambda>d. holds_policy c (dm_core d)) (act_bind (on_core (\<lambda>core.
      on_db (sync_schedule_activity_totals L (cfg_schedules (fc_config core)) (rk_persist k)) core))
       (\<lambda>_. on_core (rebaseline_schedule_notification_states L (rk_persist k))))"
    by (intro act_keeps_bind act_keeps_on_core policy_rebaseline, rule act_keeps_state, rule policy_on_db)
  ultimately have "holds_policy c (dm_core d')" using rest act_keepsD by fastforce
  then show "fc_config (dm_core d') = c" by (simp add: holds_policy_def)
qed

lemma policy_event: "act_keeps (\<lambda>d. holds_policy c (dm_core d)) (rpc_event kind target details now)"
  unfolding rpc_event_def by (intro act_keeps_on_core act_keeps_bind policy_on_db act_keeps_return)

lemma after_persist:
  assumes "act_bind (persist_policy_config L T k c) (\<lambda>_. m) d = (Inr shown, d')"
    "act_keeps (\<lambda>d. holds_policy c (dm_core d)) m"
  shows "fc_config (dm_core d') = c" "validate_config L c = Inr ()"
proof -
  obtain u d1 where p: "persist_policy_config L T k c d = (Inr u, d1)" and m: "m d1 = (Inr shown, d')"
    using assms(1) by (auto simp: act_bind_Inr)
  show "fc_config (dm_core d') = c"
    using act_keepsD [OF assms(2) _ m] persist_config(1) [OF p] by (simp add: holds_policy_def)
  show "validate_config L c = Inr ()" by (rule persist_config(2) [OF p])
qed

lemma policy_hosts: "act_keeps (\<lambda>d. holds_policy c (dm_core d)) (repair_hosts_after_policy_change L H k now)"
  by (simp add: act_keeps_def repair_hosts_core)

lemma commit_config:
  assumes "commit_edit L H T k now b kind target c d = (Inr shown, d')"
  shows "fc_config (dm_core d') = c" "validate_config L c = Inr ()"
proof -
  have keep: "act_keeps (\<lambda>d. holds_policy c (dm_core d))
     (act_bind (if b then repair_hosts_after_policy_change L H k now else act_return None) (\<lambda>hosts_repair.
     act_bind (rpc_event kind target (''GUI structured edit'' @ hosts_repair_detail hosts_repair) (rk_updated_at k)) (\<lambda>_.
       core_read (\<lambda>core. Inr (fc_config core)))))"
    by (intro act_keeps_bind act_keeps_if policy_hosts act_keeps_return policy_event act_keeps_core_read)
  have "act_bind (persist_policy_config L T k c) (\<lambda>_.
     act_bind (if b then repair_hosts_after_policy_change L H k now else act_return None) (\<lambda>hosts_repair.
     act_bind (rpc_event kind target (''GUI structured edit'' @ hosts_repair_detail hosts_repair) (rk_updated_at k)) (\<lambda>_.
       core_read (\<lambda>core. Inr (fc_config core))))) d = (Inr shown, d')"
    using assms unfolding commit_edit_def act_read_bind_Inr by blast
  from after_persist [OF this keep] show "fc_config (dm_core d') = c" "validate_config L c = Inr ()" by auto
qed

text \<open>A request that succeeds: the time it was judged at, and the policy staged then, now in force.\<close>

lemma edit_method_result:
  assumes "edit_method L H T k client_now b kind target stage d = (Inr shown, d')"
  obtains now d1 c where "rpc_guarded_now L H k client_now d = (Inr now, d1)" "stage now (dm_core d1) = Inr c"
    "fc_config (dm_core d') = c" "validate_config L c = Inr ()" "daemon_frame (fc_database (dm_core d1)) d'"
proof -
  obtain now d1 c where g: "rpc_guarded_now L H k client_now d = (Inr now, d1)" "stage now (dm_core d1) = Inr c"
    and e: "commit_edit L H T k now b kind target c d1 = (Inr shown, d')"
    using assms unfolding edit_method_def by (auto dest!: guarded_edit_Inr simp: core_read_bind_Inr)
  have "daemon_frame (fc_database (dm_core d1)) d1" by (simp add: daemon_frame_def core_frame_def)
  then have "daemon_frame (fc_database (dm_core d1)) d'" by (rule act_keepsD [OF frame_commit _ e])
  then show thesis by (rule that [OF g commit_config [OF e]])
qed

lemma import_result:
  assumes "import_policy_toml_method L H T k toml client_now d = (Inr shown, d')"
  obtains now d1 c summary where "rpc_guarded_now L H k client_now d = (Inr now, d1)"
    "stage_import L T toml (dm_core d1) = Inr (c, summary)"
    "fc_config (dm_core d') = c" "validate_config L c = Inr ()" "daemon_frame (fc_database (dm_core d1)) d'"
proof -
  let ?rest = "\<lambda>now summary. act_bind (repair_hosts_after_policy_change L H k now) (\<lambda>hosts_repair.
       act_bind (rpc_event ''policy_appended'' ''policy'' (import_details summary hosts_repair) (dt_utc now)) (\<lambda>_.
         core_read (\<lambda>core. Inr (fc_config core))))"
  obtain now d1 c summary where g: "rpc_guarded_now L H k client_now d = (Inr now, d1)"
      "stage_import L T toml (dm_core d1) = Inr (c, summary)"
    and e: "act_bind (persist_policy_config L T k c) (\<lambda>_. ?rest now summary) d1 = (Inr shown, d')"
    using assms unfolding import_policy_toml_method_def by (auto dest!: guarded_edit_Inr simp: core_read_bind_Inr)
  have "act_keeps (daemon_frame (fc_database (dm_core d1))) (act_bind (persist_policy_config L T k c) (\<lambda>_. ?rest now summary))"
    by (intro act_keeps_bind frame_persist frame_hosts frame_event act_keeps_core_read)
  moreover have "daemon_frame (fc_database (dm_core d1)) d1" by (simp add: daemon_frame_def core_frame_def)
  ultimately have f: "daemon_frame (fc_database (dm_core d1)) d'" using e by (rule act_keepsD)
  have "act_keeps (\<lambda>d. holds_policy c (dm_core d)) (?rest now summary)"
    by (intro act_keeps_bind policy_hosts policy_event act_keeps_core_read)
  from that [OF g after_persist [OF e this] f] show thesis .
qed

lemma staged_policy_edits:
  "staged_policy L H T (UpsertSiteList rule a) = stage_site_list L H rule a"
  "staged_policy L H T (DeleteSiteList ident) = stage_delete_site_list L H ident"
  "staged_policy L H T (UpsertAllowance allowance) = (\<lambda>now core. stage_allowance L H core (fc_config core) allowance now)"
  "staged_policy L H T (DeleteAllowance ident) = stage_delete_allowance L ident"
  "staged_policy L H T (UpsertAppRule app a) = stage_app_rule L H app a"
  "staged_policy L H T (DeleteAppRule ident) = stage_delete_app_rule L H ident"
  "staged_policy L H T (UpsertSchedule schedule sites apps) = stage_schedule L H schedule sites apps"
  "staged_policy L H T (DeleteSchedule ident) = stage_delete_schedule L ident"
  by (simp_all add: fun_eq_iff)

lemmas edit_methods = upsert_site_list_method_def delete_site_list_method_def upsert_allowance_method_def
  delete_allowance_method_def upsert_app_rule_method_def delete_app_rule_method_def upsert_schedule_method_def
  delete_schedule_method_def

text \<open>Every request but an import is an edit of its staged policy.\<close>

lemma request_edit:
  obtains (import) toml where "request = ImportPolicyToml toml"
  | (edit) b kind target where "handle_policy_request L H T k request client_now
      = edit_method L H T k client_now b kind target (staged_policy L H T request)"
  by (cases request) (auto simp: edit_methods staged_policy_edits)

lemma request_result:
  assumes "handle_policy_request L H T k request client_now d = (Inr shown, d')"
  obtains now d1 where "rpc_guarded_now L H k client_now d = (Inr now, d1)"
    "staged_policy L H T request now (dm_core d1) = Inr (fc_config (dm_core d'))"
    "validate_config L (fc_config (dm_core d')) = Inr ()" "daemon_frame (fc_database (dm_core d1)) d'"
proof (cases rule: request_edit [where request = request and L = L and H = H and T = T and k = k and client_now = client_now])
  case (import toml)
  then have "import_policy_toml_method L H T k toml client_now d = (Inr shown, d')" using assms by simp
  then show thesis by (rule import_result) (use import that in auto)
next
  case (edit b kind target)
  then have "edit_method L H T k client_now b kind target (staged_policy L H T request) d = (Inr shown, d')"
    using assms by simp
  then show thesis by (rule edit_method_result) (use that in auto)
qed

section \<open>What the check of the clock leaves alone\<close>

definition guard_keys :: "string set" where
  "guard_keys = {status_key, detail_key, last_wall_utc_key, last_boot_id_key, last_boottime_seconds_key}"

definition guard_frame :: "database \<Rightarrow> database \<Rightarrow> bool" where
  "guard_frame db0 db \<longleftrightarrow> same_runtime db0 db \<and> db_policy db = db_policy db0
     \<and> (\<forall>key. key \<notin> guard_keys \<longrightarrow> clock_value key db = clock_value key db0)"

lemma keeps_guard_event: "keeps (guard_frame db0) (record_event kind target details now)"
  unfolding record_event_def insert_event_def append_event_log_def
  by (auto simp: guard_frame_def same_runtime_def clock_value_def keeps_def db_bind_def transaction_def exec_def
      bump_rowid_def Let_def update_rows_def split: prod.splits sum.splits option.splits if_splits)

lemma keeps_guard_states: "fst ` set kvs \<subseteq> guard_keys \<Longrightarrow> keeps (guard_frame db0) (set_service_states kvs now)"
  unfolding set_service_states_def write_service_state_def
  by (intro keeps_transaction keeps_for keeps_update_rows)
    (auto simp: guard_frame_def same_runtime_def clock_value_def)

lemma keeps_guarded_now: "act_keeps (guard_frame db0) (guarded_now L H rd client_now trust)"
proof -
  have p: "act_keeps (guard_frame db0) (persist_sample H sample state detail)" for sample state detail
    unfolding persist_sample_def by (intro act_keeps_db keeps_guard_states) (auto simp: guard_keys_def)
  have v: "act_keeps (guard_frame db0) (clock_verdict ps pd v t)" for ps pd v t
    unfolding clock_verdict_def
    by (auto split: option.splits intro!: act_keeps_bind act_keeps_ignore act_keeps_db keeps_guard_event)
  have "act_keeps (guard_frame db0) (update_clock_integrity L H rd now)" for now
    unfolding update_clock_integrity_def
    by (intro act_keeps_bind act_keeps_read) (auto intro!: act_keeps_bind v p split: prod.splits)
  then show ?thesis unfolding guarded_now_def
    by (intro act_keeps_if act_keeps_bind act_keeps_read act_keeps_return)
qed

lemma guarded_now_frame:
  assumes "rpc_guarded_now L H k client_now d = (Inr now, d1)"
  shows "fc_config (dm_core d1) = fc_config (dm_core d)"
    "guard_frame (fc_database (dm_core d)) (fc_database (dm_core d1))"
proof -
  obtain g where g: "rpc_guarded_now_with_status L H k client_now d = (Inr g, d1)"
    using assms by (auto simp: rpc_guarded_now_def act_bind_Inr)
  then obtain db where db: "guarded_now L H (rk_guard k) client_now (dm_trust_client_time d) (fc_database (dm_core d)) = (Inr g, db)"
    and d1: "d1 = d\<lparr>dm_core := (dm_core d)\<lparr>fc_database := db\<rparr>\<rparr>"
    by (auto simp: rpc_guarded_now_with_status_def on_core_Inr on_database_Inr)
  show "fc_config (dm_core d1) = fc_config (dm_core d)" by (simp add: d1)
  have "guard_frame (fc_database (dm_core d)) (fc_database (dm_core d))" by (simp add: guard_frame_def)
  then show "guard_frame (fc_database (dm_core d)) (fc_database (dm_core d1))"
    using act_keepsD [OF keeps_guarded_now _ db] by (simp add: d1)
qed

lemma same_state:
  assumes "guard_frame (fc_database core) (fc_database core')" "key \<notin> guard_keys"
  shows "core_state key core' = core_state key core"
proof -
  have "service_state key (fc_database core') = service_state key (fc_database core)"
    using assms by (simp add: guard_frame_def same_runtime_def service_state_def query_def clock_value_def split: option.splits)
  then show ?thesis by (simp add: core_state_def core_query_def)
qed

lemma same_window:
  "guard_frame (fc_database core) (fc_database core') \<Longrightarrow>
     tier1_edit_window_active H now core' = tier1_edit_window_active H now core"
  using same_state [of core core' tier1_edit_unlock_until_key]
  by (simp add: tier1_edit_window_active_def tier1_edit_unlocked_until_def guard_keys_def clock_keys rpc_keys)

lemma same_sessions:
  assumes "same_runtime db db'"
  shows "active_detox_sessions now db' = active_detox_sessions now db"
proof -
  have "load_detox_session db' = load_detox_session db"
    by (rule ext) (use assms in \<open>simp add: load_detox_session_def query_def same_runtime_def cong: option.case_cong\<close>)
  then show ?thesis
    using assms by (simp add: same_runtime_def active_detox_sessions_def load_detox_sessions_def query_def
        cong: option.case_cong)
qed

lemma same_detox:
  "same_runtime (fc_database core) (fc_database core') \<Longrightarrow>
     site_rule_in_active_detox i now core' = site_rule_in_active_detox i now core
     \<and> app_rule_in_active_detox i now core' = app_rule_in_active_detox i now core"
  by (simp add: site_rule_in_active_detox_def app_rule_in_active_detox_def core_query_def same_sessions)

section \<open>Lists in force survive\<close>

lemma same_protection:
  assumes "rpc_guarded_now L H k client_now d = (Inr now, d1)"
  shows "site_protected L H now (dm_core d1) r = site_protected L H now (dm_core d) r"
    "app_protected L H now (dm_core d1) a = app_protected L H now (dm_core d) a"
proof -
  note f = guarded_now_frame [OF assms]
  have "same_runtime (fc_database (dm_core d)) (fc_database (dm_core d1))" using f(2) by (simp add: guard_frame_def)
  note det = same_detox [OF this]
  show "site_protected L H now (dm_core d1) r = site_protected L H now (dm_core d) r"
    "app_protected L H now (dm_core d1) a = app_protected L H now (dm_core d) a"
    by (simp_all add: site_protected_def app_protected_def f(1) same_window [OF f(2)] det)
qed

lemma frame_detox:
  assumes "guard_frame (fc_database (dm_core d)) (fc_database (dm_core d1))" "daemon_frame (fc_database (dm_core d1)) d'"
  shows "same_runtime (fc_database (dm_core d)) (fc_database (dm_core d'))"
  using assms by (simp add: guard_frame_def daemon_frame_def core_frame_def same_runtime_def)

lemma request_keeps_site:
  assumes "config_ok L (fc_config (dm_core d))"
    and "handle_policy_request L H T k request client_now d = (Inr shown, d')"
    and "rpc_guarded_now L H k client_now d = (Inr now, d1)"
    and "rule \<in> set (cfg_rules (fc_config (dm_core d)))" "site_protected L H now (dm_core d) rule"
  shows "survives L now (fc_config (dm_core d)) (fc_config (dm_core d')) (site_view rule)
      (map site_view (cfg_rules (fc_config (dm_core d'))))"
  using assms(2)
proof (rule request_result)
  fix now' d1'
  assume g: "rpc_guarded_now L H k client_now d = (Inr now', d1')"
    and s: "staged_policy L H T request now' (dm_core d1') = Inr (fc_config (dm_core d'))"
  then have "now' = now" "d1' = d1" using assms(3) by simp_all
  then show ?thesis
    using staged_policy_keeps_sites [OF s] assms guarded_now_frame [OF assms(3)] same_protection [OF assms(3)] by simp
qed

lemma request_keeps_app:
  assumes "config_ok L (fc_config (dm_core d))"
    and "handle_policy_request L H T k request client_now d = (Inr shown, d')"
    and "rpc_guarded_now L H k client_now d = (Inr now, d1)"
    and "rule \<in> set (cfg_app_rules (fc_config (dm_core d)))" "app_protected L H now (dm_core d) rule"
    and "ac_id rule \<noteq> unsupported_browser_rule_id"
  shows "survives L now (fc_config (dm_core d)) (fc_config (dm_core d')) (app_view rule)
      (map app_view (cfg_app_rules (fc_config (dm_core d'))))"
  using assms(2)
proof (rule request_result)
  fix now' d1'
  assume g: "rpc_guarded_now L H k client_now d = (Inr now', d1')"
    and s: "staged_policy L H T request now' (dm_core d1') = Inr (fc_config (dm_core d'))"
  then have "now' = now" "d1' = d1" using assms(3) by simp_all
  then show ?thesis
    using staged_policy_keeps_apps [OF s] assms guarded_now_frame [OF assms(3)] same_protection [OF assms(3)] by simp
qed

lemma request_keeps_runtime:
  assumes "handle_policy_request L H T k request client_now d = (Inr shown, d')"
  shows "same_runtime (fc_database (dm_core d)) (fc_database (dm_core d'))"
  using assms
proof (rule request_result)
  fix now d1
  assume "rpc_guarded_now L H k client_now d = (Inr now, d1)" "daemon_frame (fc_database (dm_core d1)) d'"
  then show ?thesis using frame_detox guarded_now_frame(2) by blast
qed

text \<open>
  C3. A site list that is in force survives every request that edits the policy. Take a list that a
  running Detox names, or that is active while the edits of protected lists are locked. After any
  request of the policy methods that succeeds the list is still there with its tier and mode, enabled
  if it was, with at least its patterns (an allowlist: at most), active if it was, and in Detox if it
  was.
\<close>

theorem protected_site_lists_survive_edits:
  assumes "config_ok L (fc_config (dm_core d))"
    and "handle_policy_request L H T k request client_now d = (Inr shown, d')"
    and "rpc_guarded_now L H k client_now d = (Inr now, d1)"
    and "rule \<in> set (cfg_rules (fc_config (dm_core d)))" "site_protected L H now (dm_core d) rule"
  shows "(\<exists>rule'\<in>set (cfg_rules (fc_config (dm_core d'))).
      rc_id rule' = rc_id rule \<and> rc_tier rule' = rc_tier rule \<and> rc_enabled rule' = rc_enabled rule
      \<and> rc_mode rule' = rc_mode rule
      \<and> (case rc_mode rule of
           Blocklist \<Rightarrow> set (rc_patterns rule) \<subseteq> set (rc_patterns rule')
         | Allowlist \<Rightarrow> set (rc_patterns rule') \<subseteq> set (rc_patterns rule))
      \<and> (rule_is_active_at L rule (fc_config (dm_core d)) now
           \<longrightarrow> rule_is_active_at L rule' (fc_config (dm_core d')) now))
    \<and> site_rule_in_active_detox (rc_id rule) now (dm_core d') = site_rule_in_active_detox (rc_id rule) now (dm_core d)"
proof -
  note s = request_keeps_site [OF assms]
  have "site_rule_in_active_detox (rc_id rule) now (dm_core d') = site_rule_in_active_detox (rc_id rule) now (dm_core d)"
    using same_detox [OF request_keeps_runtime [OF assms(2)]] by blast
  moreover obtain w where w: "w \<in> set (cfg_rules (fc_config (dm_core d')))" "tightened (site_view rule) (site_view w)"
    "view_active L (fc_config (dm_core d)) now (site_view rule) \<longrightarrow> view_active L (fc_config (dm_core d')) now (site_view w)"
    using s by (auto simp: survives_def)
  ultimately show ?thesis
    by (intro conjI bexI [OF _ w(1)]) (auto simp: tightened_def view_active_site split: list_mode.splits)
qed

text \<open>
  C4. The same for a list of applications, with one exception: importing a policy restores the rule
  on unsupported browsers, so a list of the user's own with that id is not kept.
\<close>

theorem protected_app_lists_survive_edits:
  assumes "config_ok L (fc_config (dm_core d))"
    and "handle_policy_request L H T k request client_now d = (Inr shown, d')"
    and "rpc_guarded_now L H k client_now d = (Inr now, d1)"
    and "rule \<in> set (cfg_app_rules (fc_config (dm_core d)))" "app_protected L H now (dm_core d) rule"
    and "ac_id rule \<noteq> unsupported_browser_rule_id"
  shows "(\<exists>rule'\<in>set (cfg_app_rules (fc_config (dm_core d'))).
      ac_id rule' = ac_id rule \<and> ac_tier rule' = ac_tier rule \<and> ac_enabled rule' = ac_enabled rule
      \<and> ac_mode rule' = ac_mode rule
      \<and> (case ac_mode rule of
           Blocklist \<Rightarrow> set (ac_matchers rule) \<subseteq> set (ac_matchers rule')
         | Allowlist \<Rightarrow> set (ac_matchers rule') \<subseteq> set (ac_matchers rule))
      \<and> (app_rule_is_active_at L rule (fc_config (dm_core d)) now
           \<longrightarrow> app_rule_is_active_at L rule' (fc_config (dm_core d')) now))
    \<and> app_rule_in_active_detox (ac_id rule) now (dm_core d') = app_rule_in_active_detox (ac_id rule) now (dm_core d)"
proof -
  note s = request_keeps_app [OF assms]
  have "app_rule_in_active_detox (ac_id rule) now (dm_core d') = app_rule_in_active_detox (ac_id rule) now (dm_core d)"
    using same_detox [OF request_keeps_runtime [OF assms(2)]] by blast
  moreover obtain w where w: "w \<in> set (cfg_app_rules (fc_config (dm_core d')))" "tightened (app_view rule) (app_view w)"
    "view_active L (fc_config (dm_core d)) now (app_view rule) \<longrightarrow> view_active L (fc_config (dm_core d')) now (app_view w)"
    using s by (auto simp: survives_def)
  ultimately show ?thesis
    by (intro conjI bexI [OF _ w(1)]) (auto simp: tightened_def view_active_app split: list_mode.splits)
qed

section \<open>What is blocked stays blocked\<close>

text \<open>The reasons that no unlock and no allowance answers.\<close>

fun strict_reason :: "block_reason \<Rightarrow> bool" where
  "strict_reason (HardBlock _ _) = True"
| "strict_reason (ScheduledBlockReason _ _) = True"
| "strict_reason (Detox _ _ _ _ _ _) = True"
| "strict_reason _ = False"

fun is_detox_reason :: "block_reason \<Rightarrow> bool" where
  "is_detox_reason (Detox _ _ _ _ _ _) = True"
| "is_detox_reason _ = False"

lemma controlled_not_strict: "evaluate_controlled_rule L ctx db rule = Block reason \<Longrightarrow> \<not> strict_reason reason"
  unfolding evaluate_controlled_rule_def evaluate_controlled_rule_fields_def Let_def
  by (auto simp: runtime_error_def split: if_splits sum.splits option.splits)

text \<open>A strict block comes from a list of the policy that is in force.\<close>

lemma strict_block_list:
  assumes "evaluate_url L ctx url db = Block reason" "strict_reason reason"
  obtains parsed rule where "normalized_url_parse L url = Inr parsed" "rule \<in> set (cfg_rules (ec_config ctx))"
    "rc_enabled rule" "site_rule_applies L rule parsed" "rc_tier rule = Hard \<or> rc_tier rule = ScheduledBlock"
    "(\<not> is_detox_reason reason \<and> rule_is_active L ctx rule)
     \<or> (\<exists>sessions. context_detox_sessions ctx db = Inr sessions
          \<and> (\<exists>s\<in>set sessions. rc_id rule \<in> set (ds_site_rule_ids s)))"
proof (cases "normalized_url_parse L url")
  case (Inr parsed)
  show thesis
  proof (cases "matching_rules L (ec_config ctx) parsed Hard")
    case (Cons rule rest)
    then have "rule \<in> set (matching_rules L (ec_config ctx) parsed Hard)" by simp
    then have "rule \<in> set (cfg_rules (ec_config ctx)) \<and> rc_enabled rule \<and> rc_tier rule = Hard \<and> site_rule_applies L rule parsed"
      by (simp add: matching_rules_iff)
    moreover have "\<not> is_detox_reason reason" using assms(1) Inr Cons by (auto simp: evaluate_url_def)
    ultimately show thesis using Inr by (intro that [of parsed rule]) (auto simp: rule_is_active_def)
  next
    case Nil
    show thesis
    proof (cases "detox_block_for_url L ctx db parsed")
      case (Inl e)
      then show thesis using assms Inr Nil by (auto simp: evaluate_url_def runtime_error_def)
    next
      case (Inr found)
      show thesis
      proof (cases found)
        case (Some why)
        then obtain sessions session rule k where s: "context_detox_sessions ctx db = Inr sessions"
          and b: "keep_best ends_later (detox_candidates ds_site_rule_ids rc_id sessions
                (matching_rules L (ec_config ctx) parsed ScheduledBlock)) None = Some ((session, rule), k)"
          using Inr by (auto simp: detox_block_for_url_def and_then_Inr_iff)
        from detox_best [OF b] s show thesis using \<open>normalized_url_parse L url = Inr parsed\<close>
          by (intro that [of parsed rule]) (auto simp: matching_rules_iff)
      next
        case None
        show thesis
        proof (cases "find (rule_is_active L ctx) (matching_rules L (ec_config ctx) parsed ScheduledBlock)")
          case (Some rule)
          then have "rule \<in> set (matching_rules L (ec_config ctx) parsed ScheduledBlock)" "rule_is_active L ctx rule"
            by (auto simp: find_Some_iff)
          moreover have "\<not> is_detox_reason reason"
            using assms(1) \<open>normalized_url_parse L url = Inr parsed\<close> Nil Inr None Some by (auto simp: evaluate_url_def)
          ultimately show thesis using \<open>normalized_url_parse L url = Inr parsed\<close>
            by (intro that [of parsed rule]) (auto simp: matching_rules_iff)
        next
          case no_rule: None
          have "\<not> strict_reason reason"
          proof (cases "try_fold (controlled_step L ctx db parsed)
              (matching_rules L (ec_config ctx) parsed ControlledAccess) None")
            case (Inl e)
            then show ?thesis
              using assms(1) \<open>normalized_url_parse L url = Inr parsed\<close> Nil \<open>detox_block_for_url L ctx db parsed = Inr found\<close> None no_rule
              by (auto simp: evaluate_url_def runtime_error_def)
          next
            case (Inr block)
            then show ?thesis
              using assms(1) \<open>normalized_url_parse L url = Inr parsed\<close> Nil \<open>detox_block_for_url L ctx db parsed = Inr found\<close> None no_rule
              by (auto simp: evaluate_url_def controlled_step_blocking split: option.splits
                  dest!: blocking_loop_best controlled_not_strict)
          qed
          then show thesis using assms(2) by simp
        qed
      qed
    qed
  qed
qed (use assms in \<open>auto simp: evaluate_url_def\<close>)

lemma tightened_applies:
  assumes "tightened (site_view r) (site_view r')" "site_rule_applies L r parsed"
  shows "site_rule_applies L r' parsed"
  using assms by (auto simp: tightened_def site_rule_applies_def Let_def list_ex_iff split: list_mode.splits)

lemma strict_list_blocks:
  assumes "normalized_url_parse L url = Inr parsed" "rule \<in> set (cfg_rules (ec_config ctx))" "rc_enabled rule"
    "site_rule_applies L rule parsed" "rc_tier rule = Hard \<or> rc_tier rule = ScheduledBlock"
    "rule_is_active L ctx rule \<or> (\<exists>sessions. context_detox_sessions ctx db = Inr sessions
          \<and> (\<exists>s\<in>set sessions. rc_id rule \<in> set (ds_site_rule_ids s)))"
  shows "evaluate_url L ctx url db \<noteq> Allow"
proof
  assume "evaluate_url L ctx url db = Allow"
  then obtain sessions where a: "matching_rules L (ec_config ctx) parsed Hard = []"
    "context_detox_sessions ctx db = Inr sessions"
    "\<forall>r\<in>set (matching_rules L (ec_config ctx) parsed ScheduledBlock).
       \<not> rule_is_active L ctx r \<and> (\<forall>s\<in>set sessions. rc_id r \<notin> set (ds_site_rule_ids s))"
    using assms(1) by (auto simp: evaluate_url_Allow)
  have "rule \<in> set (matching_rules L (ec_config ctx) parsed (rc_tier rule))" using assms by (simp add: matching_rules_iff)
  then show False using a assms(5,6) by auto
qed

text \<open>
  C2. No edit opens a site that is blocked for good. When the decision on a URL is a block by Tier 1,
  by a Tier 2 list on schedule or by a Detox, then after any request of the policy methods that
  succeeds while protected edits are locked the URL is still not allowed; for a block by Detox even
  when they are unlocked.
\<close>

theorem blocked_urls_stay_blocked:
  assumes "config_ok L (fc_config (dm_core d))"
    and "handle_policy_request L H T k request client_now d = (Inr shown, d')"
    and "rpc_guarded_now L H k client_now d = (Inr now, d1)"
    and "tier1_edit_window_active H now (dm_core d) = Inr False \<or> is_detox_reason reason"
    and "core_evaluate_url L (dm_core d) url now = Block reason" "strict_reason reason"
  shows "core_evaluate_url L (dm_core d') url now \<noteq> Allow"
proof -
  let ?c = "fc_config (dm_core d)" and ?c' = "fc_config (dm_core d')"
  let ?ctx = "context_new ?c now" and ?ctx' = "context_new ?c' now"
  have e: "evaluate_url L ?ctx url (fc_database (dm_core d)) = Block reason"
    using assms(5) by (simp add: core_evaluate_url_def)
  have ctx: "ec_config ?ctx = ?c" "ec_config ?ctx' = ?c'" "now_utc ?ctx = dt_utc now" "now_utc ?ctx' = dt_utc now"
    "\<not> ec_clock_tampered ?ctx" "\<not> ec_clock_tampered ?ctx'"
    by (simp_all add: context_new_def now_utc_def)
  have sessions: "context_detox_sessions ?ctx' (fc_database (dm_core d')) = context_detox_sessions ?ctx (fc_database (dm_core d))"
    using same_sessions [OF request_keeps_runtime [OF assms(2)]] by (simp add: context_detox_sessions_def ctx)
  obtain parsed rule where p: "normalized_url_parse L url = Inr parsed"
    and rule: "rule \<in> set (cfg_rules ?c)" "rc_enabled rule" "site_rule_applies L rule parsed"
      "rc_tier rule = Hard \<or> rc_tier rule = ScheduledBlock"
    and why: "(\<not> is_detox_reason reason \<and> rule_is_active L ?ctx rule)
     \<or> (\<exists>sessions. context_detox_sessions ?ctx (fc_database (dm_core d)) = Inr sessions
          \<and> (\<exists>s\<in>set sessions. rc_id rule \<in> set (ds_site_rule_ids s)))"
    using strict_block_list [OF e assms(6)] by (metis ctx(1))
  have "site_protected L H now (dm_core d) rule"
    using why assms(4)
    by (auto simp: site_protected_def site_rule_in_active_detox_def core_query_def context_detox_sessions_def ctx
        rule_active_same list_ex_iff)
  from request_keeps_site [OF assms(1-3) rule(1) this] obtain rule'
    where r': "rule' \<in> set (cfg_rules ?c')" "tightened (site_view rule) (site_view rule')"
      "rule_is_active_at L rule ?c now \<longrightarrow> rule_is_active_at L rule' ?c' now"
    by (auto simp: survives_def view_active_site)
  have same: "rc_id rule' = rc_id rule" "rc_tier rule' = rc_tier rule" "rc_enabled rule'"
    using r'(2) rule(2) by (simp_all add: tightened_def)
  have "evaluate_url L ?ctx' url (fc_database (dm_core d')) \<noteq> Allow"
    by (rule strict_list_blocks [OF p, where rule = rule'])
      (use r' same rule why tightened_applies [OF r'(2) rule(3)] in \<open>auto simp: ctx sessions rule_active_same\<close>)
  then show ?thesis by (simp add: core_evaluate_url_def)
qed

section \<open>A daemon for concrete checks\<close>

text \<open>Tuesday evening, with the night schedule active: the request adds a site to a Tier 1 list.\<close>

definition more_bets :: rule_config where
  "more_bets = (site_list ''bets'' Hard (domain_pattern ''bets.com'' True) [] None)
     \<lparr>rc_patterns := [domain_pattern ''bets.com'' True, domain_pattern ''slots.com'' True]\<rparr>"

definition sample_daemon :: daemon where
  "sample_daemon = \<lparr>dm_core = \<lparr>fc_config = engine_policy, fc_database = empty_database\<rparr>,
     dm_recovery = None, dm_hosts = None, dm_trust_client_time = False\<rparr>"

definition tuesday_clock :: request_clock where
  "tuesday_clock = \<lparr>rk_guard = machine_at tuesday_eight ''90000 11'', rk_status = machine_at tuesday_eight ''90000 11'',
     rk_updated_at = tuesday_eight, rk_persist = at_offset 0 tuesday_eight, rk_enforcement = tuesday_eight\<rparr>"

abbreviation sample_request :: "(daemon_error + config) \<times> daemon" where
  "sample_request \<equiv> handle_policy_request sample_lib sample_host sample_toml tuesday_clock
     (UpsertSiteList more_bets None) None sample_daemon"

lemma sample_request_ok: "\<not> isl (fst sample_request)"
  by code_simp

lemma sample_request_Inr: "sample_request = (Inr (projr (fst sample_request)), snd sample_request)"
  using sample_request_ok by (simp add: prod_eq_iff)

lemma sample_guard:
  "rpc_guarded_now sample_lib sample_host tuesday_clock None sample_daemon
     = (Inr (at_offset 0 tuesday_eight), snd (rpc_guarded_now sample_lib sample_host tuesday_clock None sample_daemon))"
proof -
  have "fst (rpc_guarded_now sample_lib sample_host tuesday_clock None sample_daemon) = Inr (at_offset 0 tuesday_eight)"
    by code_simp
  then show ?thesis by (simp add: prod_eq_iff)
qed

lemma sample_window: "tier1_edit_window_active sample_host (at_offset 0 tuesday_eight) (dm_core sample_daemon) = Inr False"
  by code_simp

lemma sample_daemon_config: "fc_config (dm_core sample_daemon) = engine_policy"
  by (simp add: sample_daemon_def)

theorem protected_site_lists_survive_edits_witness:
  "\<exists>rule'\<in>set (cfg_rules (fc_config (dm_core (snd sample_request)))).
     rc_id rule' = ''bets'' \<and> rc_tier rule' = Hard \<and> domain_pattern ''bets.com'' True \<in> set (rc_patterns rule')"
proof -
  let ?r = "site_list ''bets'' Hard (domain_pattern ''bets.com'' True) [] None"
  have "rule_is_active_at sample_lib ?r engine_policy (at_offset 0 tuesday_eight)"
    by (simp add: rule_is_active_at_def site_list_def)
  then have p: "site_protected sample_lib sample_host (at_offset 0 tuesday_eight) (dm_core sample_daemon) ?r"
    using sample_window by (simp add: site_protected_def sample_daemon_config)
  have r: "?r \<in> set (cfg_rules (fc_config (dm_core sample_daemon)))"
    by (simp add: sample_daemon_config engine_policy_def)
  have "config_ok sample_lib (fc_config (dm_core sample_daemon))"
    by (simp add: sample_daemon_config engine_policy_ok)
  from protected_site_lists_survive_edits [OF this sample_request_Inr sample_guard r p]
  show ?thesis by (auto simp: site_list_def)
qed

theorem protected_app_lists_survive_edits_witness:
  "\<exists>rule'\<in>set (cfg_app_rules (fc_config (dm_core (snd sample_request)))).
     ac_id rule' = ''chat'' \<and> app_rule_is_active_at sample_lib rule' (fc_config (dm_core (snd sample_request))) (at_offset 0 tuesday_eight)"
proof -
  let ?r = "app_list ''chat'' ScheduledBlock ''chat'' [''night''] None"
  have a: "app_rule_is_active_at sample_lib ?r engine_policy (at_offset 0 tuesday_eight)" by code_simp
  then have p: "app_protected sample_lib sample_host (at_offset 0 tuesday_eight) (dm_core sample_daemon) ?r"
    using sample_window by (simp add: app_protected_def sample_daemon_config)
  have r: "?r \<in> set (cfg_app_rules (fc_config (dm_core sample_daemon)))"
    by (simp add: sample_daemon_config engine_policy_def)
  have i: "ac_id ?r \<noteq> unsupported_browser_rule_id" by (simp add: app_list_def unsupported_browser_rule_id_def)
  have "config_ok sample_lib (fc_config (dm_core sample_daemon))"
    by (simp add: sample_daemon_config engine_policy_ok)
  from protected_app_lists_survive_edits [OF this sample_request_Inr sample_guard r p i] a
  show ?thesis by (auto simp: app_list_def sample_daemon_config)
qed

theorem blocked_urls_stay_blocked_witness:
  "core_evaluate_url sample_lib (dm_core (snd sample_request)) ''https://www.bets.com/'' (at_offset 0 tuesday_eight) \<noteq> Allow"
proof -
  have e: "core_evaluate_url sample_lib (dm_core sample_daemon) ''https://www.bets.com/'' (at_offset 0 tuesday_eight)
      = Block (HardBlock ''bets'' ''bets'')" by code_simp
  have "config_ok sample_lib (fc_config (dm_core sample_daemon))"
    by (simp add: sample_daemon_config engine_policy_ok)
  from blocked_urls_stay_blocked [OF this sample_request_Inr sample_guard _ e] sample_window show ?thesis by simp
qed

end
