(* ===== verification/EditAgreement.thy ===== *)
theory EditAgreement imports EditLaws begin

text \<open>
  The policy is kept in three places, in the core, in the database and in the recovery snapshot. These
  are the laws on how a request moves all three: the core and the database never part, whatever fails
  on the way, and a request that succeeds leaves the snapshot at the same policy.
\<close>

section \<open>The core and the database\<close>

definition tables_kept :: "policy_tables \<Rightarrow> config \<Rightarrow> daemon \<Rightarrow> bool" where
  "tables_kept T c d \<longleftrightarrow> db_policy (fc_database (dm_core d)) = T \<and> fc_config (dm_core d) = c"

definition core_tables :: "policy_tables \<Rightarrow> config \<Rightarrow> focus_core \<Rightarrow> bool" where
  "core_tables T c core \<longleftrightarrow> db_policy (fc_database core) = T \<and> fc_config core = c"

abbreviation policy_is :: "policy_tables \<Rightarrow> database \<Rightarrow> bool" where
  "policy_is T db \<equiv> db_policy db = T"

lemma keeps_policy_sync: "keeps (policy_is T) (sync_schedule_activity_totals L schedules now)"
  unfolding sync_schedule_activity_totals_def sync_schedule_total_def
  by (intro keeps_transaction keeps_db_map keeps_bind keeps_reading)
    (auto simp: Let_def intro!: keeps_exec keeps_bind keeps_reading split: option.splits if_splits)

lemma keeps_policy_event: "keeps (policy_is T) (record_event kind target details now)"
  unfolding record_event_def insert_event_def append_event_log_def
  by (auto simp: keeps_def db_bind_def transaction_def exec_def bump_rowid_def Let_def update_rows_def
      split: prod.splits sum.splits option.splits if_splits)

lemma keeps_policy_lifecycle:
  "keeps (policy_is T) (set_notification_lifecycle_state kind i active now)"
  "keeps (policy_is T) (delete_notification_lifecycle_state kind i)"
  by (auto simp: set_notification_lifecycle_state_def delete_notification_lifecycle_state_def intro!: keeps_update_rows)

lemma core_tables_on_db: "keeps (policy_is T) m \<Longrightarrow> act_keeps (core_tables T c) (on_db m)"
  using act_keeps_on_db [of "policy_is T" m] by (simp add: act_keeps_def core_tables_def)

lemma core_tables_rebaseline: "act_keeps (core_tables T c) (rebaseline_schedule_notification_states L now)"
proof -
  have 1: "act_keeps (core_tables T c) (\<lambda>core. act_for (cfg_schedules (fc_config core)) (\<lambda>schedule.
         on_db (set_notification_lifecycle_state ''schedule'' (sc_id schedule)
           (rpc_schedule_ids_are_active_at L [sc_id schedule] (fc_config core) now) (dt_utc now))) core)"
    by (rule act_keeps_state) (intro act_keeps_for core_tables_on_db keeps_policy_lifecycle)
  have 2: "act_keeps (core_tables T c) (\<lambda>core. act_for existing (\<lambda>(schedule_id, _).
         if list_ex (\<lambda>schedule. sc_id schedule = schedule_id) (cfg_schedules (fc_config core)) then act_return ()
         else on_db (delete_notification_lifecycle_state ''schedule'' schedule_id)) core)" for existing :: "(string \<times> bool) list"
    by (rule act_keeps_state) (auto intro!: act_keeps_for core_tables_on_db keeps_policy_lifecycle)
  show ?thesis unfolding rebaseline_schedule_notification_states_def
    by (intro act_keeps_bind act_keeps_read 1 2)
qed

lemma tables_on_core: "act_keeps (core_tables T c) m \<Longrightarrow> act_keeps (tables_kept T c) (on_core m)"
  using act_keeps_on_core [of "core_tables T c" m] by (simp add: tables_kept_def [abs_def] core_tables_def [abs_def])

lemma tables_on_recovery: "act_keeps (tables_kept T c) (on_recovery m)"
  using act_keeps_on_recovery [of "core_tables T c" m] by (simp add: tables_kept_def [abs_def] core_tables_def [abs_def])

lemma tables_hosts: "act_keeps (tables_kept T c) (repair_hosts_after_policy_change L H k now)"
  by (simp add: act_keeps_def tables_kept_def repair_hosts_core)

lemma tables_event: "act_keeps (tables_kept T c) (rpc_event kind target details now)"
  unfolding rpc_event_def
  by (intro tables_on_core act_keeps_bind core_tables_on_db keeps_policy_event act_keeps_return)

lemma tables_sync:
  "act_keeps (tables_kept T c) (on_core (\<lambda>core. on_db (sync_schedule_activity_totals L (cfg_schedules (fc_config core)) now) core))"
  by (intro tables_on_core, rule act_keeps_state, intro core_tables_on_db keeps_policy_sync)

section \<open>A request, step by step\<close>

text \<open>What an operation ends in from a state with \<open>P\<close>: with a result, and with an error.\<close>

definition act_triple ::
  "('s \<Rightarrow> bool) \<Rightarrow> ('s, 'a) action \<Rightarrow> ('a \<Rightarrow> 's \<Rightarrow> bool) \<Rightarrow> ('s \<Rightarrow> bool) \<Rightarrow> bool" where
  "act_triple P m Q E \<longleftrightarrow> (\<forall>s. P s \<longrightarrow> (case m s of (Inl _, s') \<Rightarrow> E s' | (Inr x, s') \<Rightarrow> Q x s'))"

lemma triple_bind:
  "act_triple P m Q E \<Longrightarrow> (\<And>x. act_triple (Q x) (f x) R E) \<Longrightarrow> act_triple P (act_bind m f) R E"
  unfolding act_triple_def act_bind_def by (fastforce split: prod.splits sum.splits)

lemma triple_keeps: "act_keeps P m \<Longrightarrow> (\<And>s. P s \<Longrightarrow> E s) \<Longrightarrow> act_triple P m (\<lambda>_. P) E"
  unfolding act_keeps_def act_triple_def by (fastforce split: prod.splits sum.splits)

lemma triple_read: "(\<And>s x. P s \<Longrightarrow> q s = Inr x \<Longrightarrow> Q x s) \<Longrightarrow> (\<And>s. P s \<Longrightarrow> E s) \<Longrightarrow> act_triple P (act_read q) Q E"
  unfolding act_triple_def by (auto split: sum.splits)

lemma triple_core_read:
  "(\<And>d x. P d \<Longrightarrow> q (dm_core d) = Inr x \<Longrightarrow> Q x d) \<Longrightarrow> (\<And>d. P d \<Longrightarrow> E d) \<Longrightarrow> act_triple P (core_read q) Q E"
  unfolding core_read_def by (rule triple_read)

lemma triple_false: "(\<And>s. \<not> P s) \<Longrightarrow> act_triple P m Q E"
  by (simp add: act_triple_def)

lemma triple_weaken: "act_triple P m Q E \<Longrightarrow> (\<And>x s. Q x s \<Longrightarrow> R x s) \<Longrightarrow> act_triple P m R E"
  unfolding act_triple_def by (fastforce split: prod.splits sum.splits)

lemma tripleD: "act_triple P m Q E \<Longrightarrow> P s \<Longrightarrow> m s = (r, s') \<Longrightarrow> case r of Inl _ \<Rightarrow> E s' | Inr x \<Rightarrow> Q x s'"
  unfolding act_triple_def by (auto split: sum.splits)

text \<open>Tables match a valid policy when they are those of the policy up to the order of its lists.\<close>

definition matches :: "'u lib \<Rightarrow> policy_tables \<Rightarrow> config \<Rightarrow> bool" where
  "matches L T c \<longleftrightarrow> config_ok L c \<and> (\<exists>c'. T = tables_of c' \<and> by_id c' = by_id c)"

definition agreed :: "'u lib \<Rightarrow> daemon \<Rightarrow> bool" where
  "agreed L d \<longleftrightarrow> matches L (db_policy (fc_database (dm_core d))) (fc_config (dm_core d))"

definition stored :: "'u lib \<Rightarrow> config \<Rightarrow> daemon \<Rightarrow> bool" where
  "stored L c d \<longleftrightarrow> config_ok L c \<and> tables_kept (tables_of c) c d"

lemma kept_agreed: "matches L T c \<Longrightarrow> tables_kept T c d \<Longrightarrow> agreed L d"
  by (simp add: agreed_def tables_kept_def)

lemma stored_agreed: "stored L c d \<Longrightarrow> agreed L d"
  by (auto simp: agreed_def tables_kept_def stored_def matches_def)

lemma keeps_stored: "act_keeps (tables_kept (tables_of c) c) m \<Longrightarrow> act_keeps (stored L c) m"
  by (simp add: act_keeps_def stored_def)

lemma triple_store_policy:
  "act_triple (tables_kept tb old) (store_policy L T old c) (\<lambda>_. tables_kept (tables_of c) old) (tables_kept tb old)"
  unfolding act_triple_def
proof (intro allI impI)
  fix d
  assume d: "tables_kept tb old d"
  obtain r db where r: "replace_policy_config L c (fc_database (dm_core d)) = (r, db)" by fastforce
  have o: "on_core (on_db (replace_policy_config L c)) d = (map_err DaemonCore r, d\<lparr>dm_core := (dm_core d)\<lparr>fc_database := db\<rparr>\<rparr>)"
    using r by (simp add: on_core_def on_db_def on_database_def db_action_def)
  show "case store_policy L T old c d of (Inl _, s') \<Rightarrow> tables_kept tb old s' | (Inr _, s') \<Rightarrow> tables_kept (tables_of c) old s'"
  proof (cases r)
    case (Inr u)
    then show ?thesis using replace_policy_result [OF r] d o
      by (simp add: store_policy_def tables_kept_def)
  next
    case (Inl e)
    then have "tables_kept tb old (d\<lparr>dm_core := (dm_core d)\<lparr>fc_database := db\<rparr>\<rparr>)"
      using replace_policy_result [OF r] d by (simp add: tables_kept_def)
    then have "tables_kept tb old (snd (on_recovery (write_snapshot L T old) (d\<lparr>dm_core := (dm_core d)\<lparr>fc_database := db\<rparr>\<rparr>)))"
      using tables_on_recovery unfolding act_keeps_def by blast
    then show ?thesis using Inl o by (auto simp: store_policy_def split: prod.splits sum.splits)
  qed
qed

lemma triple_replace_config:
  assumes "validate_config L c = Inr ()"
  shows "act_triple (tables_kept (tables_of c) old) (on_core (replace_config L c)) (\<lambda>_. stored L c) (agreed L)"
proof -
  have "config_ok L c" using assms by (simp add: validate_config_def validate_iff)
  then show ?thesis using assms
    by (simp add: act_triple_def on_core_def replace_config_def tables_kept_def act_bind_def stored_def)
qed

lemma triple_persist:
  assumes m: "matches L tb old"
  shows "act_triple (tables_kept tb old) (persist_policy_config L T k c) (\<lambda>_. stored L c) (agreed L)"
proof (cases "validate_config L c")
  case (Inl e)
  then show ?thesis
    using m by (auto simp: persist_policy_config_def act_triple_def act_bind_def agreed_def tables_kept_def)
next
  case (Inr u)
  have after: "act_triple (stored L c) (act_bind (on_core (\<lambda>core. on_db (sync_schedule_activity_totals L (cfg_schedules (fc_config core)) (rk_persist k)) core))
       (\<lambda>_. on_core (rebaseline_schedule_notification_states L (rk_persist k)))) (\<lambda>_. stored L c) (agreed L)"
    by (intro triple_keeps keeps_stored act_keeps_bind tables_sync tables_on_core core_tables_rebaseline stored_agreed)
  have commit: "act_triple (tables_kept tb old) (act_bind (on_recovery (write_snapshot L T c)) (\<lambda>_.
     act_bind (store_policy L T old c) (\<lambda>_.
     act_bind (on_core (replace_config L c)) (\<lambda>_.
     act_bind (on_core (\<lambda>core. on_db (sync_schedule_activity_totals L (cfg_schedules (fc_config core)) (rk_persist k)) core))
       (\<lambda>_. on_core (rebaseline_schedule_notification_states L (rk_persist k))))))) (\<lambda>_. stored L c) (agreed L)"
  proof (rule triple_bind)
    show "act_triple (tables_kept tb old) (on_recovery (write_snapshot L T c)) (\<lambda>_. tables_kept tb old) (agreed L)"
      by (intro triple_keeps tables_on_recovery kept_agreed [OF m])
    show "act_triple (tables_kept tb old) (act_bind (store_policy L T old c) (\<lambda>_.
     act_bind (on_core (replace_config L c)) (\<lambda>_.
     act_bind (on_core (\<lambda>core. on_db (sync_schedule_activity_totals L (cfg_schedules (fc_config core)) (rk_persist k)) core))
       (\<lambda>_. on_core (rebaseline_schedule_notification_states L (rk_persist k)))))) (\<lambda>_. stored L c) (agreed L)" for x :: unit
    proof (rule triple_bind)
      show "act_triple (tables_kept tb old) (store_policy L T old c) (\<lambda>_. tables_kept (tables_of c) old) (agreed L)"
        using triple_store_policy [of tb old L T c] kept_agreed [OF m] unfolding act_triple_def
        by (fastforce split: prod.splits sum.splits)
    qed (rule triple_bind, rule triple_replace_config, use Inr after in auto)
  qed
  show ?thesis unfolding persist_policy_config_def
  proof (rule triple_bind, rule triple_keeps [OF act_keeps_read kept_agreed [OF m]], assumption,
      rule triple_bind, rule triple_keeps [OF tables_on_recovery kept_agreed [OF m]], assumption, rule triple_bind)
    show "act_triple (tables_kept tb old) (core_read (\<lambda>core. Inr (fc_config core))) (\<lambda>x d. x = old \<and> tables_kept tb old d) (agreed L)"
      by (rule triple_core_read) (use m in \<open>auto simp: tables_kept_def agreed_def\<close>)
    show "act_triple (\<lambda>d. x = old \<and> tables_kept tb old d) (act_bind (on_core (on_db (sync_schedule_activity_totals L (cfg_schedules x) (rk_persist k)))) (\<lambda>_.
     act_bind (on_recovery (write_snapshot L T c)) (\<lambda>_.
     act_bind (store_policy L T x c) (\<lambda>_.
     act_bind (on_core (replace_config L c)) (\<lambda>_.
     act_bind (on_core (\<lambda>core. on_db (sync_schedule_activity_totals L (cfg_schedules (fc_config core)) (rk_persist k)) core)) (\<lambda>_.
       on_core (rebaseline_schedule_notification_states L (rk_persist k)))))))) (\<lambda>_. stored L c) (agreed L)" for x
    proof (cases "x = old")
      case True
      have "act_triple (tables_kept tb old) (on_core (on_db (sync_schedule_activity_totals L (cfg_schedules old) (rk_persist k)))) (\<lambda>_. tables_kept tb old) (agreed L)"
        by (intro triple_keeps tables_on_core core_tables_on_db keeps_policy_sync kept_agreed [OF m])
      from triple_bind [OF this commit] show ?thesis using True by simp
    qed (simp add: triple_false)
  qed
qed

lemma core_tables_on_database: "act_keeps (policy_is tb) m \<Longrightarrow> act_keeps (core_tables tb c) (on_database m)"
  by (auto simp: act_keeps_def core_tables_def on_database_def Let_def split: prod.splits)

lemma tables_guard: "act_keeps (tables_kept tb c) (rpc_guarded_now L H k client_now)"
proof -
  have g: "act_keeps (policy_is tb) (guarded_now L H rd client_now trust)" for rd trust
    unfolding act_keeps_def
  proof (intro allI impI)
    fix db
    assume "policy_is tb db"
    moreover have "guard_frame db db" by (simp add: guard_frame_def)
    then have "guard_frame db (snd (guarded_now L H rd client_now trust db))"
      using keeps_guarded_now [of db L H rd client_now trust] by (simp add: act_keeps_def)
    ultimately show "policy_is tb (snd (guarded_now L H rd client_now trust db))" by (simp add: guard_frame_def)
  qed
  have "act_keeps (tables_kept tb c) (\<lambda>d. on_core (on_database (guarded_now L H (rk_guard k) client_now (dm_trust_client_time d))) d)"
    by (rule act_keeps_state) (intro tables_on_core core_tables_on_database g)
  then show ?thesis
    unfolding rpc_guarded_now_def rpc_guarded_now_with_status_def [abs_def]
    by (intro act_keeps_bind act_keeps_return)
qed

lemma triple_commit:
  assumes "matches L tb old"
  shows "act_triple (tables_kept tb old) (commit_edit L H T k now b kind target c) (\<lambda>_. stored L c) (agreed L)"
proof -
  have rest: "act_triple (stored L c) (act_bind (if b then repair_hosts_after_policy_change L H k now else act_return None) (\<lambda>hosts_repair.
     act_bind (rpc_event kind target (''GUI structured edit'' @ hosts_repair_detail hosts_repair) (rk_updated_at k)) (\<lambda>_.
       core_read (\<lambda>core. Inr (fc_config core))))) (\<lambda>_. stored L c) (agreed L)"
    by (intro triple_keeps keeps_stored act_keeps_bind act_keeps_if tables_hosts tables_event act_keeps_return act_keeps_core_read stored_agreed)
  show ?thesis unfolding commit_edit_def
    by (rule triple_bind, rule triple_keeps [OF act_keeps_read kept_agreed [OF assms]], assumption,
        rule triple_bind, rule triple_persist [OF assms], rule rest)
qed

lemma triple_guarded_edit:
  assumes "matches L tb old" "\<And>now. act_triple (tables_kept tb old) (f now) (\<lambda>_. agreed L) (agreed L)"
  shows "act_triple (tables_kept tb old) (guarded_edit L H k client_now f) (\<lambda>_. agreed L) (agreed L)"
  unfolding guarded_edit_def reject_if_clock_tampered_def
  by (rule triple_bind, rule triple_keeps [OF tables_guard kept_agreed [OF assms(1)]], assumption,
      rule triple_bind, rule triple_keeps [OF act_keeps_read kept_agreed [OF assms(1)]], assumption, rule assms(2))

lemma triple_edit_method:
  assumes "matches L tb old"
  shows "act_triple (tables_kept tb old) (edit_method L H T k client_now b kind target stage) (\<lambda>_. agreed L) (agreed L)"
  unfolding edit_method_def
proof (rule triple_guarded_edit [OF assms], rule triple_bind)
  show "act_triple (tables_kept tb old) (core_read (stage now)) (\<lambda>_. tables_kept tb old) (agreed L)" for now
    by (rule triple_core_read) (auto intro: kept_agreed [OF assms])
  show "act_triple (tables_kept tb old) (commit_edit L H T k now b kind target c) (\<lambda>_. agreed L) (agreed L)" for now c
    by (rule triple_weaken [OF triple_commit [OF assms]]) (rule stored_agreed)
qed

lemma triple_import:
  assumes "matches L tb old"
  shows "act_triple (tables_kept tb old) (import_policy_toml_method L H T k toml client_now) (\<lambda>_. agreed L) (agreed L)"
  unfolding import_policy_toml_method_def
proof (rule triple_guarded_edit [OF assms], rule triple_bind)
  show "act_triple (tables_kept tb old) (core_read (stage_import L T toml)) (\<lambda>_. tables_kept tb old) (agreed L)" for now :: datetime
    by (rule triple_core_read) (auto intro: kept_agreed [OF assms])
  have rest: "act_triple (stored L c) (act_bind (repair_hosts_after_policy_change L H k now) (\<lambda>hosts_repair.
       act_bind (rpc_event ''policy_appended'' ''policy'' (import_details summary hosts_repair) (dt_utc now)) (\<lambda>_.
         core_read (\<lambda>core. Inr (fc_config core))))) (\<lambda>_. stored L c) (agreed L)" for c summary now
    by (intro triple_keeps keeps_stored act_keeps_bind tables_hosts tables_event act_keeps_core_read stored_agreed)
  show "act_triple (tables_kept tb old) (case staged of (next_config, summary) \<Rightarrow>
       act_bind (persist_policy_config L T k next_config) (\<lambda>_.
       act_bind (repair_hosts_after_policy_change L H k now) (\<lambda>hosts_repair.
       act_bind (rpc_event ''policy_appended'' ''policy'' (import_details summary hosts_repair) (dt_utc now)) (\<lambda>_.
         core_read (\<lambda>core. Inr (fc_config core)))))) (\<lambda>_. agreed L) (agreed L)" for staged now
    by (cases staged) (auto intro!: triple_weaken [OF triple_bind [OF triple_persist [OF assms] rest]] intro: stored_agreed)
qed

lemma triple_request:
  assumes "matches L tb old"
  shows "act_triple (tables_kept tb old) (handle_policy_request L H T k request client_now) (\<lambda>_. agreed L) (agreed L)"
proof (cases rule: request_edit [where request = request and L = L and H = H and T = T and k = k and client_now = client_now])
  case (import toml)
  then show ?thesis using triple_import [OF assms] by simp
next
  case (edit b kind target)
  then show ?thesis using triple_edit_method [OF assms] by simp
qed

lemma request_agreed:
  assumes "agreed L d" "handle_policy_request L H T k request client_now d = (r, d')"
  shows "agreed L d'"
proof -
  have m: "matches L (db_policy (fc_database (dm_core d))) (fc_config (dm_core d))" using assms(1) by (simp add: agreed_def)
  have "tables_kept (db_policy (fc_database (dm_core d))) (fc_config (dm_core d)) d" by (simp add: tables_kept_def)
  from tripleD [OF triple_request [OF m] this assms(2)] show ?thesis by (auto split: sum.splits)
qed

section \<open>Any sequence of requests\<close>

fun run_requests ::
  "'u lib \<Rightarrow> 'f host_lib \<Rightarrow> toml_lib \<Rightarrow> (request_clock \<times> policy_request \<times> string option) list \<Rightarrow> daemon \<Rightarrow> daemon" where
  "run_requests L H T [] d = d"
| "run_requests L H T ((k, request, client_now) # calls) d =
     run_requests L H T calls (snd (handle_policy_request L H T k request client_now d))"

lemma run_requests_agreed: "agreed L d \<Longrightarrow> agreed L (run_requests L H T calls d)"
  by (induction L H T calls d rule: run_requests.induct) (use request_agreed in \<open>fastforce simp: prod_eq_iff\<close>)+

lemma times_valid_by_id: "config_times_valid (by_id c) = config_times_valid c"
  by (simp add: config_times_valid_def by_id_def)

lemma agreed_loads:
  assumes "agreed L d" "no_faults (fc_database (dm_core d))" "config_times_valid (fc_config (dm_core d))"
  shows "load_policy_config L (fc_database (dm_core d)) = Inr (by_id (fc_config (dm_core d)))"
proof -
  obtain c where c: "db_policy (fc_database (dm_core d)) = tables_of c" "by_id c = by_id (fc_config (dm_core d))"
    "config_ok L (fc_config (dm_core d))"
    using assms(1) by (auto simp: agreed_def matches_def)
  then have "config_ok L c" "config_times_valid c"
    using config_ok_by_id [of L c] config_ok_by_id [of L "fc_config (dm_core d)"] times_valid_by_id [of c]
      times_valid_by_id [of "fc_config (dm_core d)"] assms(3) by simp_all
  then show ?thesis using load_stored_policy [OF assms(2) c(1)] c(2) by metis
qed

text \<open>
  C12. The policy in force and the stored policy never part. Start with a core whose valid policy is
  the one in the database. Whatever requests come, whichever of their statements and file operations
  fail, and whatever each of them answers, the policy in force is valid and is what the database
  holds: reading it back gives the policy in force, in the order of its ids.
\<close>

theorem policy_in_force_is_stored:
  assumes "agreed L d"
  shows "agreed L (run_requests L H T calls d)
    \<and> config_ok L (fc_config (dm_core (run_requests L H T calls d)))
    \<and> (no_faults (fc_database (dm_core (run_requests L H T calls d)))
        \<and> config_times_valid (fc_config (dm_core (run_requests L H T calls d))) \<longrightarrow>
         load_policy_config L (fc_database (dm_core (run_requests L H T calls d)))
           = Inr (by_id (fc_config (dm_core (run_requests L H T calls d)))))"
proof -
  note a = run_requests_agreed [OF assms, of H T calls]
  then show ?thesis using agreed_loads [OF a] by (simp add: agreed_def matches_def)
qed

section \<open>The snapshot\<close>

definition snapshot_is :: "snapshot_store option \<Rightarrow> daemon \<Rightarrow> bool" where
  "snapshot_is R d \<longleftrightarrow> dm_recovery d = R"

lemma snapshot_on_core: "act_keeps (snapshot_is R) (on_core m)"
  by (auto simp: act_keeps_def snapshot_is_def on_core_def Let_def split: prod.splits)

lemma snapshot_hosts: "act_keeps (snapshot_is R) (repair_hosts_after_policy_change L H k now)"
  by (auto simp: act_keeps_def snapshot_is_def repair_hosts_after_policy_change_def act_bind_def core_read_def Let_def
      split: option.splits sum.splits prod.splits if_splits)

lemma snapshot_event: "act_keeps (snapshot_is R) (rpc_event kind target details now)"
  unfolding rpc_event_def by (rule snapshot_on_core)

definition snapshot_written :: "'u lib \<Rightarrow> toml_lib \<Rightarrow> config \<Rightarrow> snapshot_store option \<Rightarrow> snapshot_store option \<Rightarrow> bool" where
  "snapshot_written L T c R R' \<longleftrightarrow>
     (case R of None \<Rightarrow> R' = None
      | Some store \<Rightarrow> \<exists>store'. write_snapshot L T c store = (Inr (), store') \<and> R' = Some store')"

lemma lock_snapshot:
  assumes "on_recovery lock_recovery d = (Inr u, d')"
  shows "d' = d"
proof (cases "dm_recovery d")
  case None
  then show ?thesis using assms by (simp add: on_recovery_def)
next
  case (Some store)
  obtain r where "lock_recovery store = (r, store)" using lock_state [of store] by (metis prod.collapse)
  then have "d' = d\<lparr>dm_recovery := dm_recovery d\<rparr>" using assms Some by (simp add: on_recovery_def)
  then show ?thesis by simp
qed

lemma written_on_recovery:
  "on_recovery (write_snapshot L T c) d = (Inr u, d') \<Longrightarrow> snapshot_written L T c (dm_recovery d) (dm_recovery d')"
  by (auto simp: on_recovery_def snapshot_written_def Let_def split: option.splits prod.splits)

lemma store_policy_snapshot: "store_policy L T old c d = (Inr u, d') \<Longrightarrow> dm_recovery d' = dm_recovery d"
  using snapshot_on_core [of "dm_recovery d" "on_db (replace_policy_config L c)"]
  by (force simp: store_policy_def act_keeps_def snapshot_is_def split: prod.splits sum.splits)

lemma persist_snapshot:
  assumes "persist_policy_config L T k c d = (Inr u, d')"
  shows "snapshot_written L T c (dm_recovery d) (dm_recovery d')"
proof -
  obtain u1 d0 old s1 d1 u2 d2 u3 d3 where l: "on_recovery lock_recovery d = (Inr u1, d0)"
    and s: "on_core (on_db (sync_schedule_activity_totals L (cfg_schedules old) (rk_persist k))) d0 = (Inr s1, d1)"
    and w: "on_recovery (write_snapshot L T c) d1 = (Inr u2, d2)"
    and p: "store_policy L T old c d2 = (Inr u3, d3)"
    and rest: "act_bind (on_core (replace_config L c)) (\<lambda>_.
       act_bind (on_core (\<lambda>core. on_db (sync_schedule_activity_totals L (cfg_schedules (fc_config core)) (rk_persist k)) core))
       (\<lambda>_. on_core (rebaseline_schedule_notification_states L (rk_persist k)))) d3 = (Inr u, d')"
    using assms unfolding persist_policy_config_def act_read_bind_Inr core_read_bind_Inr act_bind_Inr [of "on_recovery lock_recovery"]
      act_bind_Inr [of "on_core (on_db _)"] act_bind_Inr [of "on_recovery (write_snapshot L T c)"]
      act_bind_Inr [of "store_policy L T _ c"]
    by auto
  have "d0 = d" by (rule lock_snapshot [OF l])
  with s have s: "on_core (on_db (sync_schedule_activity_totals L (cfg_schedules old) (rk_persist k))) d = (Inr s1, d1)"
    by simp
  have "dm_recovery d1 = dm_recovery d"
    using act_keepsD [OF snapshot_on_core _ s, of "dm_recovery d"] by (simp add: snapshot_is_def)
  moreover have "act_keeps (snapshot_is (dm_recovery d3)) (act_bind (on_core (replace_config L c)) (\<lambda>_.
       act_bind (on_core (\<lambda>core. on_db (sync_schedule_activity_totals L (cfg_schedules (fc_config core)) (rk_persist k)) core))
       (\<lambda>_. on_core (rebaseline_schedule_notification_states L (rk_persist k)))))"
    by (intro act_keeps_bind snapshot_on_core)
  from act_keepsD [OF this _ rest] have "dm_recovery d' = dm_recovery d3" by (simp add: snapshot_is_def)
  ultimately show ?thesis using written_on_recovery [OF w] store_policy_snapshot [OF p] by simp
qed

lemma guard_snapshot: "rpc_guarded_now L H k client_now d = (r, d1) \<Longrightarrow> dm_recovery d1 = dm_recovery d"
proof -
  have "act_keeps (snapshot_is R) (\<lambda>d. on_core (on_database (guarded_now L H (rk_guard k) client_now (dm_trust_client_time d))) d)" for R
    by (rule act_keeps_state) (rule snapshot_on_core)
  then have "act_keeps (snapshot_is R) (rpc_guarded_now L H k client_now)" for R
    unfolding rpc_guarded_now_def rpc_guarded_now_with_status_def [abs_def]
    by (intro act_keeps_bind act_keeps_return)
  then show "rpc_guarded_now L H k client_now d = (r, d1) \<Longrightarrow> ?thesis"
    using act_keepsD [of "snapshot_is (dm_recovery d)" "rpc_guarded_now L H k client_now" d r d1] by (simp add: snapshot_is_def)
qed

text \<open>A committed policy is in the snapshot, and the reply shows it.\<close>

lemma commit_snapshot:
  assumes "commit_edit L H T k now b kind target c d = (Inr shown, d')"
  shows "snapshot_written L T c (dm_recovery d) (dm_recovery d')" "shown = fc_config (dm_core d')"
proof -
  obtain u d1 hosts d2 v where p: "persist_policy_config L T k c d = (Inr u, d1)"
    and h: "(if b then repair_hosts_after_policy_change L H k now else act_return None) d1 = (Inr hosts, d2)"
    and e: "rpc_event kind target (''GUI structured edit'' @ hosts_repair_detail hosts) (rk_updated_at k) d2 = (Inr v, d')"
    and s: "shown = fc_config (dm_core d')"
    using assms by (auto simp: commit_edit_def act_bind_Inr core_read_Inr split del: if_split)
  show "shown = fc_config (dm_core d')" by (rule s)
  have "act_keeps (snapshot_is R) (if b then repair_hosts_after_policy_change L H k now else act_return None)" for R
    by (intro act_keeps_if snapshot_hosts act_keeps_return)
  from act_keepsD [OF this _ h] act_keepsD [OF snapshot_event _ e]
  have "dm_recovery d' = dm_recovery d1" by (simp add: snapshot_is_def)
  then show "snapshot_written L T c (dm_recovery d) (dm_recovery d')" using persist_snapshot [OF p] by simp
qed

lemma request_snapshot:
  assumes "handle_policy_request L H T k request client_now d = (Inr shown, d')"
  shows "snapshot_written L T shown (dm_recovery d) (dm_recovery d') \<and> shown = fc_config (dm_core d')"
proof (cases rule: request_edit [where request = request and L = L and H = H and T = T and k = k and client_now = client_now])
  case (import toml)
  then obtain now d1 c summary u d2 hosts d3 v where g: "rpc_guarded_now L H k client_now d = (Inr now, d1)"
    and p: "persist_policy_config L T k c d1 = (Inr u, d2)"
    and h: "repair_hosts_after_policy_change L H k now d2 = (Inr hosts, d3)"
    and e: "rpc_event ''policy_appended'' ''policy'' (import_details summary hosts) (dt_utc now) d3 = (Inr v, d')"
    and s: "shown = fc_config (dm_core d')"
    using assms by (auto simp: import_policy_toml_method_def core_read_bind_Inr act_bind_Inr core_read_Inr dest!: guarded_edit_Inr)
  have "dm_recovery d' = dm_recovery d2" using act_keepsD [OF snapshot_hosts _ h] act_keepsD [OF snapshot_event _ e]
    by (simp add: snapshot_is_def)
  moreover have "fc_config (dm_core d') = c"
  proof -
    have "holds_policy c (dm_core d2)" using persist_config(1) [OF p] by (simp add: holds_policy_def)
    then have "holds_policy c (dm_core d3)" using act_keepsD [OF policy_hosts _ h] by blast
    then show ?thesis using act_keepsD [OF policy_event _ e] by (simp add: holds_policy_def)
  qed
  ultimately show ?thesis using persist_snapshot [OF p] guard_snapshot [OF g] s by simp
next
  case (edit b kind target)
  then have "edit_method L H T k client_now b kind target (staged_policy L H T request) d = (Inr shown, d')" using assms by simp
  then obtain now d1 c where g: "rpc_guarded_now L H k client_now d = (Inr now, d1)"
    and e: "commit_edit L H T k now b kind target c d1 = (Inr shown, d')"
    unfolding edit_method_def by (auto dest!: guarded_edit_Inr simp: core_read_bind_Inr)
  show ?thesis using commit_snapshot [OF e] commit_config(1) [OF e] guard_snapshot [OF g] by simp
qed

text \<open>
  C13. A request that succeeds is saved everywhere. What it answers is the policy in force; the policy
  is valid; where a recovery snapshot is kept the snapshot was written and loads to it; and the
  database, if its statements do not fail, loads to it in the order of its ids. The hypothesis on
  TOML is that its parser reads what its printer wrote.
\<close>

theorem successful_edit_is_saved:
  assumes "agreed L d" "handle_policy_request L H T k request client_now d = (Inr shown, d')"
    and "\<And>config text. tl_print T config = Inr text \<Longrightarrow> tl_parse T text = Inr config"
  shows "shown = fc_config (dm_core d') \<and> config_ok L shown
    \<and> (case dm_recovery d of
         None \<Rightarrow> dm_recovery d' = None
       | Some store \<Rightarrow> \<exists>store'. dm_recovery d' = Some store'
           \<and> (ss_fault store ''read'' = None \<longrightarrow> load_snapshot L T store' = Inr (Some shown)))
    \<and> (no_faults (fc_database (dm_core d)) \<and> config_times_valid shown \<longrightarrow>
         load_policy_config L (fc_database (dm_core d')) = Inr (by_id shown))"
proof (intro conjI impI)
  note s = request_snapshot [OF assms(2)]
  note a = request_agreed [OF assms(1,2)]
  show shown: "shown = fc_config (dm_core d')" using s by simp
  show "config_ok L shown" using a shown by (simp add: agreed_def matches_def)
  show "case dm_recovery d of None \<Rightarrow> dm_recovery d' = None
       | Some store \<Rightarrow> \<exists>store'. dm_recovery d' = Some store'
           \<and> (ss_fault store ''read'' = None \<longrightarrow> load_snapshot L T store' = Inr (Some shown))"
    using s by (auto simp: snapshot_written_def write_snapshot_loads assms(3) split: option.splits)
  assume "no_faults (fc_database (dm_core d)) \<and> config_times_valid shown"
  moreover have "no_faults (fc_database (dm_core d'))" if "no_faults (fc_database (dm_core d))"
    using request_keeps_runtime [OF assms(2)] that by (simp add: no_faults_def same_runtime_def)
  ultimately show "load_policy_config L (fc_database (dm_core d')) = Inr (by_id shown)"
    using agreed_loads [OF a] shown by simp
qed

section \<open>Concrete checks\<close>

text \<open>The sample daemon with its policy stored, and an edit refused: the schedule it deletes is active.\<close>

definition stored_daemon :: daemon where
  "stored_daemon = sample_daemon\<lparr>dm_core := \<lparr>fc_config = engine_policy,
     fc_database = empty_database\<lparr>db_policy := tables_of engine_policy\<rparr>\<rparr>\<rparr>"

lemma stored_daemon_agreed: "agreed sample_lib stored_daemon"
  by (auto simp: agreed_def matches_def stored_daemon_def engine_policy_ok)

abbreviation sample_calls :: "(request_clock \<times> policy_request \<times> string option) list" where
  "sample_calls \<equiv> [(tuesday_clock, DeleteSchedule ''night'', None), (tuesday_clock, UpsertSiteList more_bets None, None)]"

theorem policy_in_force_is_stored_witness:
  "config_ok sample_lib (fc_config (dm_core (run_requests sample_lib sample_host sample_toml sample_calls stored_daemon)))"
  using policy_in_force_is_stored [OF stored_daemon_agreed, of sample_host sample_toml sample_calls] by blast

text \<open>TOML whose printer writes only the edited policy, and a daemon that keeps a snapshot.\<close>

definition edited_policy :: config where
  "edited_policy = engine_policy\<lparr>cfg_rules := (cfg_rules engine_policy)[0 := more_bets]\<rparr>"

definition edited_toml :: toml_lib where
  "edited_toml = \<lparr>
     tl_print = (\<lambda>config. if config = edited_policy then Inr ''edited'' else Inl ''unsupported''),
     tl_parse = (\<lambda>contents. if contents = ''edited'' then Inr edited_policy else Inl ''invalid TOML''),
     tl_parse_legacy = (\<lambda>_. Inl ''invalid TOML'')\<rparr>"

lemma edited_toml_roundtrip: "tl_print edited_toml config = Inr text \<Longrightarrow> tl_parse edited_toml text = Inr config"
  by (auto simp: edited_toml_def split: if_splits)

definition saving_daemon :: daemon where
  "saving_daemon = stored_daemon\<lparr>dm_recovery := Some (old_snapshot (\<lambda>_. None))\<rparr>"

lemma saving_daemon_agreed: "agreed sample_lib saving_daemon"
  using stored_daemon_agreed by (simp add: agreed_def saving_daemon_def)

definition saved_request :: "(daemon_error + config) \<times> daemon" where
  "saved_request = handle_policy_request sample_lib sample_host edited_toml tuesday_clock
     (UpsertSiteList more_bets None) None saving_daemon"

lemma saved_request_ok: "\<not> isl (fst saved_request)"
  by code_simp

theorem successful_edit_is_saved_witness:
  "\<exists>shown store. fst saved_request = Inr shown \<and> dm_recovery (snd saved_request) = Some store
     \<and> load_snapshot sample_lib edited_toml store = Inr (Some shown)"
proof -
  obtain shown d' where r: "saved_request = (Inr shown, d')"
    using saved_request_ok by (metis obj_sumE isl_def prod.collapse)
  have s: "dm_recovery saving_daemon = Some (old_snapshot (\<lambda>_. None))" by (simp add: saving_daemon_def)
  have f: "ss_fault (old_snapshot (\<lambda>_. None)) ''read'' = None" by (simp add: old_snapshot_def)
  note saved = successful_edit_is_saved [OF saving_daemon_agreed r [unfolded saved_request_def] edited_toml_roundtrip]
  from saved s f obtain store where "dm_recovery d' = Some store"
    and "load_snapshot sample_lib edited_toml store = Inr (Some shown)" by (auto split: option.splits)
  then have "fst saved_request = Inr shown \<and> dm_recovery (snd saved_request) = Some store
      \<and> load_snapshot sample_lib edited_toml store = Inr (Some shown)" by (simp add: r)
  then show ?thesis by blast
qed

section \<open>An allowance refunded\<close>

text \<open>
  A Tier 3 list attached to an early and a late schedule, whose half hour was used up in the early
  one. While the late schedule is active the list itself cannot be edited, but the early schedule is
  idle and can be deleted; the usage in its hours then no longer counts and the list is open again.
\<close>

definition two_schedules :: config where
  "two_schedules = engine_policy\<lparr>
     cfg_rules := [site_list ''video'' ControlledAccess (domain_pattern ''video.org'' True) [''early'', ''late''] (Some ''half-hour'')],
     cfg_app_rules := [],
     cfg_schedules := [\<lparr>sc_id = ''early'', sc_name = None,
         sc_windows = [\<lparr>sw_weekday = OnTue, sw_start = TimeOfDay 8 0, sw_end = TimeOfDay 9 0\<rparr>]\<rparr>,
       \<lparr>sc_id = ''late'', sc_name = None,
         sc_windows = [\<lparr>sw_weekday = OnTue, sw_start = TimeOfDay 10 0, sw_end = TimeOfDay 12 0\<rparr>]\<rparr>]\<rparr>"

definition spent_core :: focus_core where
  "spent_core = \<lparr>fc_config = two_schedules, fc_database = empty_database\<lparr>db_visits := [\<lparr>v_id = 1,
     v_rule_id = Some ''video'', v_target = ''video.org'', v_url = ''https://video.org/watch'', v_tab_id = ''t'',
     v_started_at = format_time tuesday_eight, v_last_heartbeat_at = format_time (tuesday_eight + 45 * nanos_per_minute),
     v_ended_at = Some (format_time (tuesday_eight + 45 * nanos_per_minute))\<rparr>]\<rparr>\<rparr>"

lemma idle_schedule_deletion_refunds_allowance:
  "core_evaluate_url sample_lib spent_core ''https://video.org/watch'' (at_offset 0 tuesday_ten)
     = Block (ControlledAccessReason ''video'' ''video'' AllowanceExhausted)"
  "tier1_edit_window_active sample_host (at_offset 0 tuesday_ten) spent_core = Inr False"
  "case stage_delete_schedule sample_lib ''early'' (at_offset 0 tuesday_ten) spent_core of
     Inl _ \<Rightarrow> False
   | Inr edited \<Rightarrow> core_evaluate_url sample_lib (spent_core\<lparr>fc_config := edited\<rparr>) ''https://video.org/watch''
       (at_offset 0 tuesday_ten) = Allow"
  by code_simp+

end
