(* ===== verification/Browsers.thy ===== *)
theory Browsers imports Core begin

text \<open>
  The browsers the daemon manages, \<open>SupportedBrowser\<close> of \<^verbatim>\<open>focusd/src/process_scan.rs\<close>, with the names it
  has for them in replies, in heartbeats of the extension and on the screen (\<^verbatim>\<open>focusd/src/rpc.rs\<close>).
\<close>

datatype supported_browser = Firefox | LibreWolf | Waterfox | Chrome | Chromium | Brave | Opera | Edge | Vivaldi

definition managed_browsers :: "supported_browser list" where
  "managed_browsers = [Firefox, LibreWolf, Waterfox, Chrome, Chromium, Brave, Opera, Edge, Vivaldi]"

fun browser_label :: "supported_browser \<Rightarrow> string" where
  "browser_label Firefox = ''firefox''"
| "browser_label LibreWolf = ''librewolf''"
| "browser_label Waterfox = ''waterfox''"
| "browser_label Chrome = ''chrome''"
| "browser_label Chromium = ''chromium''"
| "browser_label Brave = ''brave''"
| "browser_label Opera = ''opera''"
| "browser_label Edge = ''edge''"
| "browser_label Vivaldi = ''vivaldi''"

fun browser_extension_component :: "supported_browser \<Rightarrow> string" where
  "browser_extension_component Firefox = ''firefox_extension''"
| "browser_extension_component LibreWolf = ''librewolf_extension''"
| "browser_extension_component Waterfox = ''waterfox_extension''"
| "browser_extension_component Chrome = ''chrome_extension''"
| "browser_extension_component Chromium = ''chromium_extension''"
| "browser_extension_component Brave = ''brave_extension''"
| "browser_extension_component Opera = ''opera_extension''"
| "browser_extension_component Edge = ''edge_extension''"
| "browser_extension_component Vivaldi = ''vivaldi_extension''"

fun browser_display_name :: "supported_browser \<Rightarrow> string" where
  "browser_display_name Firefox = ''Firefox''"
| "browser_display_name LibreWolf = ''LibreWolf''"
| "browser_display_name Waterfox = ''Waterfox''"
| "browser_display_name Chrome = ''Chrome''"
| "browser_display_name Chromium = ''Chromium''"
| "browser_display_name Brave = ''Brave''"
| "browser_display_name Opera = ''Opera''"
| "browser_display_name Edge = ''Microsoft Edge''"
| "browser_display_name Vivaldi = ''Vivaldi''"

definition is_chromium_based :: "supported_browser \<Rightarrow> bool" where
  "is_chromium_based browser \<longleftrightarrow> browser \<in> {Chrome, Chromium, Brave, Opera, Edge, Vivaldi}"

definition is_firefox_based :: "supported_browser \<Rightarrow> bool" where
  "is_firefox_based browser \<longleftrightarrow> browser \<in> {Firefox, LibreWolf, Waterfox}"

definition supported_browser_for_extension_component :: "string \<Rightarrow> supported_browser option" where
  "supported_browser_for_extension_component component =
     find (\<lambda>browser. browser_extension_component browser = component) managed_browsers"

lemma every_browser_is_managed: "browser \<in> set managed_browsers"
  by (cases browser) (simp_all add: managed_browsers_def)

lemma browser_families: "is_chromium_based browser \<longleftrightarrow> \<not> is_firefox_based browser"
  by (cases browser) (simp_all add: is_chromium_based_def is_firefox_based_def)

lemma component_of_browser [simp]:
  "supported_browser_for_extension_component (browser_extension_component browser) = Some browser"
  by (cases browser) (simp_all add: supported_browser_for_extension_component_def managed_browsers_def)

end
