(* ===== verification/Json.thy ===== *)
theory Json imports Prelude begin

text \<open>
  JSON values as the code of \<^verbatim>\<open>focusd\<close> uses them (crate \<^verbatim>\<open>serde_json\<close>): an object is a map with the
  entries in the order of their keys, with \<open>get\<close>, \<open>insert\<close> and \<open>remove\<close>. Parsing and printing the
  text of a document are parameters.
\<close>

datatype json =
  JNull
| JBool bool
| JInt int
| JString string
| JArray "json list"
| JObject "(string \<times> json) list"

type_synonym json_map = "(string \<times> json) list"

abbreviation map_get :: "json_map \<Rightarrow> string \<Rightarrow> json option" where
  "map_get m key \<equiv> map_of m key"

fun map_insert :: "string \<Rightarrow> json \<Rightarrow> json_map \<Rightarrow> json_map" where
  "map_insert key v [] = [(key, v)]"
| "map_insert key v ((k, w) # m) =
     (if key = k then (key, v) # m
      else if key < k then (key, v) # (k, w) # m
      else (k, w) # map_insert key v m)"

definition map_remove :: "string \<Rightarrow> json_map \<Rightarrow> json_map" where
  "map_remove key m = filter (\<lambda>(k, _). k \<noteq> key) m"

text \<open>\<open>Value::get\<close> with a key gives nothing on a value that is no object.\<close>

fun as_object :: "json \<Rightarrow> json_map option" where
  "as_object (JObject m) = Some m"
| "as_object _ = None"

fun as_str :: "json \<Rightarrow> string option" where
  "as_str (JString s) = Some s"
| "as_str _ = None"

fun as_bool :: "json \<Rightarrow> bool option" where
  "as_bool (JBool b) = Some b"
| "as_bool _ = None"

fun as_i64 :: "json \<Rightarrow> int option" where
  "as_i64 (JInt i) = (if i64_min \<le> i \<and> i \<le> i64_max then Some i else None)"
| "as_i64 _ = None"

fun as_array :: "json \<Rightarrow> json list option" where
  "as_array (JArray vs) = Some vs"
| "as_array _ = None"

definition get :: "json \<Rightarrow> string \<Rightarrow> json option" where
  "get v key = (case as_object v of None \<Rightarrow> None | Some m \<Rightarrow> map_get m key)"

definition get_in :: "json option \<Rightarrow> string \<Rightarrow> json option" where
  "get_in v key = (case v of None \<Rightarrow> None | Some v \<Rightarrow> get v key)"

definition object_of :: "(string \<times> json) list \<Rightarrow> json" where
  "object_of entries = JObject (fold (\<lambda>(k, v). map_insert k v) entries [])"

section \<open>Maps in key order\<close>

definition sorted_map :: "json_map \<Rightarrow> bool" where
  "sorted_map m \<longleftrightarrow> sorted (map fst m) \<and> distinct (map fst m)"

lemma sorted_map_Nil [simp]: "sorted_map []"
  by (simp add: sorted_map_def)

lemma get_object [simp]: "get (JObject m) key = map_get m key"
  by (simp add: get_def)

lemma get_in_simps [simp]: "get_in None key = None" "get_in (Some v) key = get v key"
  by (simp_all add: get_in_def)

lemma keys_insert [simp]: "fst ` set (map_insert key v m) = insert key (fst ` set m)"
  by (induction key v m rule: map_insert.induct) auto

lemma map_insert_get [simp]: "map_of (map_insert key v m) = (map_of m)(key \<mapsto> v)"
  by (induction key v m rule: map_insert.induct) (auto simp: fun_eq_iff)

lemma map_remove_get [simp]: "map_of (map_remove key m) = (map_of m)(key := None)"
  by (induction m) (auto simp: map_remove_def fun_eq_iff)

lemma sorted_insert [simp]: "sorted_map m \<Longrightarrow> sorted_map (map_insert key v m)"
proof (induction key v m rule: map_insert.induct)
  case (2 key v k w m)
  have "sorted_map m" using 2 by (auto simp: sorted_map_def)
  moreover have "fst ` set (map_insert key v m) = insert key (fst ` set m)" by simp
  ultimately show ?case using 2
    by (auto simp: sorted_map_def image_iff)
qed (simp add: sorted_map_def)

lemma sorted_remove [simp]: "sorted_map m \<Longrightarrow> sorted_map (map_remove key m)"
  by (simp add: sorted_map_def map_remove_def sorted_filter distinct_map_filter)

lemma sorted_map_eq:
  assumes "sorted_map m" "sorted_map n" "map_of m = map_of n"
  shows "m = n"
proof -
  have "set m = set n" using assms by (simp add: sorted_map_def map_of_inject_set)
  moreover have "inj_on fst (set m \<union> set n)"
    using assms by (auto simp: sorted_map_def calculation distinct_map)
  ultimately show ?thesis using assms by (auto simp: sorted_map_def intro: map_sorted_distinct_set_unique)
qed

lemma sorted_object_of: "\<exists>m. object_of entries = JObject m \<and> sorted_map m"
proof -
  have "sorted_map (fold (\<lambda>(k, v). map_insert k v) entries m)" if "sorted_map m" for m
    using that by (induction entries arbitrary: m) auto
  then show ?thesis by (simp add: object_of_def)
qed

lemma map_of_fold_insert: "map_of (fold (\<lambda>(k, v). map_insert k v) entries m) = map_of m ++ map_of (rev entries)"
  by (induction entries arbitrary: m) (auto simp: fun_eq_iff map_add_def split: option.splits)

end
