(* ===== verification/Documents.thy ===== *)
theory Documents imports Json Core begin

text \<open>
  The files the browser policies are kept in: their contents, and which operation on which path the
  system refuses. A document is replaced atomically: it is written to a temporary file, synced and
  renamed, and its mode is set after the rename, so a failure leaves the old contents, or reports an
  error over the new ones when only the last step failed. \<open>jl_parse\<close> and \<open>jl_print\<close> read and print JSON.
\<close>

record document_store =
  do_files :: "string \<Rightarrow> string option"
  do_fault :: "string \<Rightarrow> string \<Rightarrow> string option"
  do_linked_dir :: "string \<Rightarrow> bool"

record json_lib =
  jl_parse :: "string \<Rightarrow> string + json"
  jl_print :: "json \<Rightarrow> string + string"

definition faulty :: "string \<Rightarrow> string \<Rightarrow> 'a \<Rightarrow> document_store \<Rightarrow> daemon_error + 'a" where
  "faulty op path x s = (case do_fault s op path of Some e \<Rightarrow> Inl (DaemonIo e) | None \<Rightarrow> Inr x)"

text \<open>Reading gives nothing when there is no such file.\<close>

definition read_document :: "string \<Rightarrow> document_store \<Rightarrow> daemon_error + string option" where
  "read_document path s = faulty ''read'' path (do_files s path) s"

definition put_document :: "string \<Rightarrow> string \<Rightarrow> (document_store, unit) action" where
  "put_document path contents s = (Inr (), s\<lparr>do_files := (do_files s)(path := Some contents)\<rparr>)"

definition write_document :: "string \<Rightarrow> string \<Rightarrow> (document_store, unit) action" where
  "write_document path contents =
     act_bind (act_read (faulty ''stage'' path ())) (\<lambda>_.
     act_bind (put_document path contents) (\<lambda>_.
       act_read (faulty ''set_permissions'' path ())))"

text \<open>Whether there was a file to remove.\<close>

definition remove_document :: "string \<Rightarrow> (document_store, bool) action" where
  "remove_document path =
     act_bind (act_read (\<lambda>s. if do_files s path = None then Inr False else faulty ''remove'' path True s)) (\<lambda>existed s.
       (Inr existed, s\<lparr>do_files := (do_files s)(path := None)\<rparr>))"

text \<open>A printed document, with the newline the code writes after it.\<close>

definition write_printed :: "string \<Rightarrow> string + string \<Rightarrow> (document_store, unit) action" where
  "write_printed path printed =
     act_bind (act_read (faulty ''open'' path ())) (\<lambda>_.
     act_bind (act_read (\<lambda>_. map_err DaemonJson printed)) (\<lambda>contents.
       write_document path (contents @ [CHR 0x0A])))"

definition write_json :: "json_lib \<Rightarrow> string \<Rightarrow> json \<Rightarrow> (document_store, unit) action" where
  "write_json J path v = write_printed path (jl_print J v)"

text \<open>What the code relies on: a printed document reads back as it was.\<close>

definition json_roundtrip :: "json_lib \<Rightarrow> bool" where
  "json_roundtrip J \<longleftrightarrow> (\<forall>v contents. jl_print J v = Inr contents \<longrightarrow> jl_parse J (contents @ [CHR 0x0A]) = Inr v)"

definition holds_json :: "json_lib \<Rightarrow> document_store \<Rightarrow> string \<Rightarrow> json \<Rightarrow> bool" where
  "holds_json J s path v \<longleftrightarrow> (\<exists>contents. do_files s path = Some contents \<and> jl_parse J contents = Inr v)"

section \<open>Laws\<close>

lemma faulty_Inr [simp]: "faulty op path x s = Inr y \<longleftrightarrow> do_fault s op path = None \<and> y = x"
  by (auto simp: faulty_def split: option.splits)

lemma write_document_Inr:
  "write_document path contents s = (Inr u, s') \<longleftrightarrow>
     do_fault s ''stage'' path = None \<and> do_fault s ''set_permissions'' path = None
     \<and> s' = s\<lparr>do_files := (do_files s)(path := Some contents)\<rparr>"
  by (auto simp: write_document_def act_bind_Inr put_document_def faulty_def split: option.splits)

text \<open>Whether it succeeds or not, a write leaves the old document or the new one, and no other file.\<close>

lemma write_document_cases:
  obtains "snd (write_document path contents s) = s"
  | "snd (write_document path contents s) = s\<lparr>do_files := (do_files s)(path := Some contents)\<rparr>"
  by (cases "do_fault s ''stage'' path")
    (auto simp: write_document_def act_bind_def put_document_def faulty_def act_read_def split: option.splits)

lemma remove_document_Inr:
  "remove_document path s = (Inr b, s') \<longleftrightarrow>
     b = (do_files s path \<noteq> None) \<and> (b \<longrightarrow> do_fault s ''remove'' path = None)
     \<and> s' = s\<lparr>do_files := (do_files s)(path := None)\<rparr>"
  by (auto simp: remove_document_def act_bind_Inr split: if_splits)

lemma write_printed_Inr:
  "write_printed path printed s = (Inr u, s') \<longleftrightarrow>
     (\<exists>contents. printed = Inr contents \<and> do_fault s ''open'' path = None
        \<and> write_document path (contents @ [CHR 0x0A]) s = (Inr u, s'))"
  by (auto simp: write_printed_def act_read_bind_Inr map_err_Inr_iff)

lemma write_json_files:
  assumes "json_roundtrip J" "write_json J path v s = (Inr u, s')"
  shows "\<exists>contents. s' = s\<lparr>do_files := (do_files s)(path := Some contents)\<rparr> \<and> jl_parse J contents = Inr v"
  using assms by (auto simp: write_json_def write_printed_Inr write_document_Inr json_roundtrip_def)

end
