(* ===== verification/GeckoPolicy.thy ===== *)
theory GeckoPolicy imports Documents begin

text \<open>
  The policy document of a Firefox-family browser, from \<^verbatim>\<open>focusd/src/firefox_policy.rs\<close>: either a document
  the daemon owns, or entries merged into the document of the browser's vendor, whose earlier values
  are kept in a backup and put back when the daemon is uninstalled.
\<close>

section \<open>The manager and its documents\<close>

record firefox_policy_manager =
  fp_policy_path :: string
  fp_extension_id :: string
  fp_install_url :: string
  fp_merge_with_existing :: bool
  fp_backup_path :: "string option"

record merged_policy_backup =
  mb_policy_was_missing :: bool
  mb_policy_values :: "(string \<times> json option) list"
  mb_extension_setting :: "json option"
  mb_preference_setting :: "json option"

datatype policy_repair_status =
  PolicyCompliant | PolicyRepaired | PolicySkippedInactive | PolicySkippedDisabled | PolicySkippedDeferred

text \<open>Reading and printing a backup is the code serde derives; \<open>None\<close> is printed as \<open>null\<close>.\<close>

record backup_lib =
  bl_parse :: "string \<Rightarrow> string + merged_policy_backup"
  bl_print :: "merged_policy_backup \<Rightarrow> string + string"

definition managed_policy_keys :: "string list" where
  "managed_policy_keys = [''BlockAboutConfig'', ''BlockAboutProfiles'', ''BlockAboutSupport'',
     ''DisableDeveloperTools'', ''DisableSafeMode'', ''PrivateBrowsingModeAvailability'']"

definition quarantined_domains_preference :: string where
  "quarantined_domains_preference = ''extensions.quarantinedDomains.enabled''"

definition expected_policy :: "firefox_policy_manager \<Rightarrow> json" where
  "expected_policy M = object_of [(''policies'', object_of [
     (''BlockAboutConfig'', JBool True), (''BlockAboutProfiles'', JBool True), (''BlockAboutSupport'', JBool True),
     (''DisableDeveloperTools'', JBool True), (''DisableSafeMode'', JBool True),
     (''PrivateBrowsingModeAvailability'', JInt 0),
     (''ExtensionSettings'', object_of [(fp_extension_id M, object_of [
        (''installation_mode'', JString ''force_installed''), (''install_url'', JString (fp_install_url M)),
        (''default_area'', JString ''navbar''), (''private_browsing'', JBool True)])]),
     (''Preferences'', object_of [(quarantined_domains_preference, object_of [
        (''Value'', JBool False), (''Status'', JString ''locked'')])])])]"

section \<open>Settings in a document\<close>

definition policies_of :: "json \<Rightarrow> json_map option" where
  "policies_of policy = (case get policy ''policies'' of None \<Rightarrow> None | Some v \<Rightarrow> as_object v)"

definition policy_includes_managed_settings :: "json \<Rightarrow> json \<Rightarrow> string \<Rightarrow> bool" where
  "policy_includes_managed_settings policy expected extension_id =
     (case policies_of policy of
        None \<Rightarrow> False
      | Some policies \<Rightarrow> (case policies_of expected of
          None \<Rightarrow> False
        | Some expected_policies \<Rightarrow>
            list_all (\<lambda>key. map_get policies key = map_get expected_policies key) managed_policy_keys
            \<and> get_in (map_get policies ''ExtensionSettings'') extension_id
               = get_in (map_get expected_policies ''ExtensionSettings'') extension_id
            \<and> get_in (map_get policies ''Preferences'') quarantined_domains_preference
               = get_in (map_get expected_policies ''Preferences'') quarantined_domains_preference))"

definition invalid_data :: "string \<Rightarrow> daemon_error + 'a" where
  "invalid_data message = Inl (DaemonIo message)"

text \<open>Indexing a value by a missing key gives \<open>null\<close>.\<close>

definition index_json :: "json option \<Rightarrow> json" where
  "index_json v = (case v of None \<Rightarrow> JNull | Some v \<Rightarrow> v)"

definition insert_nested :: "string \<Rightarrow> string \<Rightarrow> json \<Rightarrow> json_map \<Rightarrow> daemon_error + json_map" where
  "insert_nested parent_key child_key v policies =
     (case as_object (case map_get policies parent_key of None \<Rightarrow> JObject [] | Some parent \<Rightarrow> parent) of
        None \<Rightarrow> invalid_data (''browser policy '' @ parent_key @ '' is not an object'')
      | Some parent \<Rightarrow> Inr (map_insert parent_key (JObject (map_insert child_key v parent)) policies))"

definition on_policies :: "(json_map \<Rightarrow> daemon_error + json_map) \<Rightarrow> json \<Rightarrow> daemon_error + json" where
  "on_policies f policy =
     (case as_object policy of
        None \<Rightarrow> invalid_data ''browser policy is missing its policies object''
      | Some root \<Rightarrow> (case policies_of policy of
          None \<Rightarrow> invalid_data ''browser policy is missing its policies object''
        | Some policies \<Rightarrow> and_then (f policies) (\<lambda>edited. Inr (JObject (map_insert ''policies'' (JObject edited) root)))))"

definition merge_managed_settings :: "json \<Rightarrow> json \<Rightarrow> string \<Rightarrow> daemon_error + json" where
  "merge_managed_settings policy expected extension_id =
     on_policies (\<lambda>policies.
       case policies_of expected of
         None \<Rightarrow> Inl (DaemonCore (Panicked ''BlocKuntu policy must contain a policies object''))
       | Some expected_policies \<Rightarrow>
           and_then (try_fold (\<lambda>key policies. case map_get expected_policies key of
                None \<Rightarrow> Inl (DaemonCore (Panicked ''BlocKuntu policy must contain every managed key''))
              | Some v \<Rightarrow> Inr (map_insert key v policies)) managed_policy_keys policies) (\<lambda>policies.
           and_then (insert_nested ''ExtensionSettings'' extension_id
              (index_json (get_in (map_get expected_policies ''ExtensionSettings'') extension_id)) policies) (\<lambda>policies.
           insert_nested ''Preferences'' quarantined_domains_preference
              (index_json (get_in (map_get expected_policies ''Preferences'') quarantined_domains_preference)) policies)))
       policy"

definition merged_policy_backup_of :: "json option \<Rightarrow> string \<Rightarrow> daemon_error + merged_policy_backup" where
  "merged_policy_backup_of policy extension_id =
     (case policy of
        None \<Rightarrow> Inr \<lparr>mb_policy_was_missing = True, mb_policy_values = [], mb_extension_setting = None,
          mb_preference_setting = None\<rparr>
      | Some policy \<Rightarrow> (case policies_of policy of
          None \<Rightarrow> invalid_data ''browser policy is missing its policies object''
        | Some policies \<Rightarrow> Inr \<lparr>mb_policy_was_missing = False,
            mb_policy_values = map (\<lambda>key. (key, map_get policies key)) managed_policy_keys,
            mb_extension_setting = get_in (map_get policies ''ExtensionSettings'') extension_id,
            mb_preference_setting = get_in (map_get policies ''Preferences'') quarantined_domains_preference\<rparr>))"

definition restore_key :: "merged_policy_backup \<Rightarrow> string \<Rightarrow> json_map \<Rightarrow> json_map" where
  "restore_key backup key policies =
     (case find (\<lambda>(name, _). name = key) (mb_policy_values backup) of
        Some (_, Some v) \<Rightarrow> map_insert key v policies
      | _ \<Rightarrow> map_remove key policies)"

definition restore_nested_setting :: "string \<Rightarrow> string \<Rightarrow> json option \<Rightarrow> json_map \<Rightarrow> daemon_error + json_map" where
  "restore_nested_setting parent_key child_key original policies =
     (case map_get policies parent_key of
        None \<Rightarrow> Inr policies
      | Some parent_value \<Rightarrow> (case as_object parent_value of
          None \<Rightarrow> invalid_data (''browser policy '' @ parent_key @ '' is not an object'')
        | Some parent \<Rightarrow>
            let edited = (case original of
                  Some v \<Rightarrow> map_insert child_key v parent
                | None \<Rightarrow> map_remove child_key parent)
            in Inr (if edited = [] then map_remove parent_key policies
                    else map_insert parent_key (JObject edited) policies)))"

definition restore_managed_settings :: "json \<Rightarrow> string \<Rightarrow> merged_policy_backup \<Rightarrow> daemon_error + json" where
  "restore_managed_settings policy extension_id backup =
     on_policies (\<lambda>policies.
       and_then (restore_nested_setting ''ExtensionSettings'' extension_id (mb_extension_setting backup)
          (fold (restore_key backup) managed_policy_keys policies))
         (restore_nested_setting ''Preferences'' quarantined_domains_preference (mb_preference_setting backup)))
       policy"

section \<open>The merged document\<close>

definition ensure_merge_backup ::
  "json_lib \<Rightarrow> backup_lib \<Rightarrow> firefox_policy_manager \<Rightarrow> json option \<Rightarrow> (document_store, unit) action" where
  "ensure_merge_backup J B M existing =
     (case fp_backup_path M of
        None \<Rightarrow> act_read (\<lambda>_. invalid_data ''merged Firefox policy has no backup path'')
      | Some backup_path \<Rightarrow> (\<lambda>s.
          if do_files s backup_path \<noteq> None \<and> do_fault s ''exists'' backup_path = None then (Inr (), s)
          else act_bind (act_read (\<lambda>_.
             and_then (case existing of
                 None \<Rightarrow> Inr None
               | Some policy \<Rightarrow>
                   if \<not> policy_includes_managed_settings policy (expected_policy M) (fp_extension_id M) then Inr None
                   else and_then (restore_managed_settings policy (fp_extension_id M)
                       \<lparr>mb_policy_was_missing = True, mb_policy_values = [], mb_extension_setting = None,
                        mb_preference_setting = None\<rparr>) (\<lambda>v. Inr (Some v))) (\<lambda>adopted.
             and_then (merged_policy_backup_of (if adopted = None then existing else adopted) (fp_extension_id M)) (\<lambda>backup.
               Inr (if adopted = Some (object_of [(''policies'', JObject [])])
                    then backup\<lparr>mb_policy_was_missing := True\<rparr> else backup))))) (\<lambda>backup.
             write_printed backup_path (bl_print B backup)) s))"

definition parse_existing :: "json_lib \<Rightarrow> string \<Rightarrow> string \<Rightarrow> daemon_error + json" where
  "parse_existing J message contents = map_err (\<lambda>e. DaemonIo (message @ e)) (jl_parse J contents)"

definition merge_and_repair ::
  "json_lib \<Rightarrow> backup_lib \<Rightarrow> firefox_policy_manager \<Rightarrow> json \<Rightarrow> (document_store, policy_repair_status) action" where
  "merge_and_repair J B M expected =
     act_bind (act_read (read_document (fp_policy_path M))) (\<lambda>contents.
     act_bind (act_read (\<lambda>_. case contents of
         None \<Rightarrow> Inr None
       | Some c \<Rightarrow> and_then (parse_existing J (''cannot merge BlocKuntu policy because '' @ fp_policy_path M
           @ '' is not valid JSON: '') c) (\<lambda>v. Inr (Some v)))) (\<lambda>existing.
     act_bind (ensure_merge_backup J B M existing) (\<lambda>_.
       if (case existing of None \<Rightarrow> False
           | Some policy \<Rightarrow> policy_includes_managed_settings policy expected (fp_extension_id M))
       then act_return PolicyCompliant
       else act_bind (act_read (\<lambda>_. case existing of
              None \<Rightarrow> Inr expected
            | Some policy \<Rightarrow> merge_managed_settings policy expected (fp_extension_id M))) (\<lambda>merged.
            act_bind (write_json J (fp_policy_path M) merged) (\<lambda>_. act_return PolicyRepaired)))))"

text \<open>Whether nothing is left of the policy but an empty \<open>policies\<close> object.\<close>

definition nothing_left :: "json \<Rightarrow> bool" where
  "nothing_left restored \<longleftrightarrow>
     (case as_object restored of None \<Rightarrow> False | Some root \<Rightarrow> length root = 1)
     \<and> (case policies_of restored of None \<Rightarrow> False | Some policies \<Rightarrow> policies = [])"

definition remove_merged_policy ::
  "json_lib \<Rightarrow> backup_lib \<Rightarrow> firefox_policy_manager \<Rightarrow> (document_store, policy_repair_status) action" where
  "remove_merged_policy J B M =
     (case fp_backup_path M of
        None \<Rightarrow> act_read (\<lambda>_. invalid_data ''merged Firefox policy has no backup path'')
      | Some backup_path \<Rightarrow>
          act_bind (act_read (read_document backup_path)) (\<lambda>backup_text.
          case backup_text of
            None \<Rightarrow> act_return PolicyCompliant
          | Some b \<Rightarrow>
              act_bind (act_read (\<lambda>_. map_err (\<lambda>e. DaemonIo (''cannot restore browser policy because ''
                 @ backup_path @ '' is not valid JSON: '' @ e)) (bl_parse B b))) (\<lambda>backup.
              act_bind (act_read (read_document (fp_policy_path M))) (\<lambda>contents.
              case contents of
                None \<Rightarrow>
                  if mb_policy_was_missing backup
                  then act_bind (remove_document backup_path) (\<lambda>_. act_return PolicyRepaired)
                  else act_read (\<lambda>_. Inl (DaemonIo ''not found''))
              | Some c \<Rightarrow>
                  act_bind (act_read (\<lambda>_. and_then (parse_existing J (''cannot restore browser policy because ''
                      @ fp_policy_path M @ '' is not valid JSON: '') c) (\<lambda>current.
                    restore_managed_settings current (fp_extension_id M) backup))) (\<lambda>restored.
                  act_bind (if mb_policy_was_missing backup \<and> nothing_left restored
                     then act_bind (remove_document (fp_policy_path M)) (\<lambda>_. act_return ())
                     else write_json J (fp_policy_path M) restored) (\<lambda>_.
                  act_bind (remove_document backup_path) (\<lambda>_. act_return PolicyRepaired)))))))"

section \<open>The operations of the manager\<close>

definition verify_and_repair ::
  "json_lib \<Rightarrow> backup_lib \<Rightarrow> firefox_policy_manager \<Rightarrow> (document_store, policy_repair_status) action" where
  "verify_and_repair J B M =
     (let expected = expected_policy M;
          repair = act_bind (write_json J (fp_policy_path M) expected) (\<lambda>_. act_return PolicyRepaired) in
      if fp_merge_with_existing M then merge_and_repair J B M expected
      else act_bind (act_read (read_document (fp_policy_path M))) (\<lambda>contents.
        case contents of
          None \<Rightarrow> repair
        | Some c \<Rightarrow> if jl_parse J c = Inr expected then act_return PolicyCompliant else repair))"

definition remove_policy ::
  "json_lib \<Rightarrow> backup_lib \<Rightarrow> firefox_policy_manager \<Rightarrow> (document_store, policy_repair_status) action" where
  "remove_policy J B M =
     (if fp_merge_with_existing M then remove_merged_policy J B M
      else act_bind (remove_document (fp_policy_path M)) (\<lambda>existed.
        act_return (if existed then PolicyRepaired else PolicyCompliant)))"

record firefox_policy_status =
  fs_path :: string
  fs_extension_id :: string
  fs_policy_exists :: bool
  fs_valid_json :: bool
  fs_compliant :: bool
  fs_private_browsing_enabled :: bool
  fs_private_browsing_available :: bool
  fs_install_url :: "string option"
  fs_detail :: string

definition unread_status :: "firefox_policy_manager \<Rightarrow> bool \<Rightarrow> string \<Rightarrow> firefox_policy_status" where
  "unread_status M exists detail =
     \<lparr>fs_path = fp_policy_path M, fs_extension_id = fp_extension_id M, fs_policy_exists = exists,
      fs_valid_json = False, fs_compliant = False, fs_private_browsing_enabled = False,
      fs_private_browsing_available = False, fs_install_url = None, fs_detail = detail\<rparr>"

definition status_detail :: "bool \<Rightarrow> bool \<Rightarrow> string" where
  "status_detail compliant merging =
     (if compliant then
        if merging then ''policy contains BlocKuntu's hardened settings and preserves browser defaults''
        else ''policy matches expected hardened settings''
      else if merging then ''policy is missing or changes BlocKuntu's hardened settings''
      else ''policy differs from expected hardened settings'')"

definition firefox_status ::
  "json_lib \<Rightarrow> firefox_policy_manager \<Rightarrow> document_store \<Rightarrow> firefox_policy_status" where
  "firefox_status J M s =
     (case (do_fault s ''read'' (fp_policy_path M), do_files s (fp_policy_path M)) of
        (Some e, _) \<Rightarrow> unread_status M True (''policy file cannot be read: '' @ e)
      | (None, None) \<Rightarrow> unread_status M False ''policy file is missing''
      | (None, Some contents) \<Rightarrow> (case jl_parse J contents of
          Inl e \<Rightarrow> unread_status M True (''policy file is not valid JSON: '' @ e)
        | Inr parsed \<Rightarrow>
            let policies = get parsed ''policies'';
                settings = get_in (get_in policies ''ExtensionSettings'') (fp_extension_id M);
                compliant = (if fp_merge_with_existing M
                  then policy_includes_managed_settings parsed (expected_policy M) (fp_extension_id M)
                  else parsed = expected_policy M)
            in \<lparr>fs_path = fp_policy_path M, fs_extension_id = fp_extension_id M, fs_policy_exists = True,
                fs_valid_json = True, fs_compliant = compliant,
                fs_private_browsing_enabled =
                  (case get_in settings ''private_browsing'' of Some (JBool b) \<Rightarrow> b | _ \<Rightarrow> False),
                fs_private_browsing_available =
                  (case get_in policies ''PrivateBrowsingModeAvailability'' of
                     None \<Rightarrow> False | Some v \<Rightarrow> as_i64 v = Some 0),
                fs_install_url = (case get_in settings ''install_url'' of None \<Rightarrow> None | Some v \<Rightarrow> as_str v),
                fs_detail = status_detail compliant (fp_merge_with_existing M)\<rparr>))"

end
