(* ===== verification/ChromiumPolicy.thy ===== *)
theory ChromiumPolicy imports GeckoPolicy Guards begin

text \<open>
  The policy document of a Chromium-family browser, from \<^verbatim>\<open>focusd/src/chrome_policy.rs\<close>: the whole
  document is the daemon's own, at the browser's path and, for a strictly confined Snap, at a second
  path that exists while the Snap is installed.
\<close>

definition chrome_web_store_update_url :: string where
  "chrome_web_store_update_url = ''https://clients2.google.com/service/update2/crx''"

record chrome_policy_manager =
  cp_policy_path :: string
  cp_snap_policy_current_dir :: "string option"
  cp_extension_id :: string
  cp_update_url :: string
  cp_browser_name :: string

definition for_browser :: "string \<Rightarrow> string \<Rightarrow> string \<Rightarrow> chrome_policy_manager" where
  "for_browser policy_path extension_id browser_name =
     \<lparr>cp_policy_path = policy_path, cp_snap_policy_current_dir = None, cp_extension_id = extension_id,
      cp_update_url = chrome_web_store_update_url, cp_browser_name = browser_name\<rparr>"

definition incognito_mode_availability_key :: "chrome_policy_manager \<Rightarrow> string" where
  "incognito_mode_availability_key M =
     (if cp_browser_name M = ''Microsoft Edge'' then ''InPrivateModeAvailability'' else ''IncognitoModeAvailability'')"

definition incognito_url_blocklist_key :: "chrome_policy_manager \<Rightarrow> string" where
  "incognito_url_blocklist_key M =
     (if cp_browser_name M = ''Microsoft Edge'' then ''InPrivateModeUrlBlocklist'' else ''IncognitoModeUrlBlocklist'')"

definition force_install_entry :: "chrome_policy_manager \<Rightarrow> string" where
  "force_install_entry M = cp_extension_id M @ '';'' @ cp_update_url M"

definition expected_policy_for :: "chrome_policy_manager \<Rightarrow> incognito_mode \<Rightarrow> string list \<Rightarrow> json" where
  "expected_policy_for M mode blocklist = object_of ([
     (''DeveloperToolsDisabled'', JBool True),
     (''ExtensionInstallForcelist'', JArray [JString (force_install_entry M)]),
     (''ExtensionSettings'', object_of [(cp_extension_id M, object_of [
        (''installation_mode'', JString ''force_installed''), (''update_url'', JString (cp_update_url M))])])]
     @ (case mode of
          IncognitoDisabled \<Rightarrow> [(incognito_mode_availability_key M, JInt 1)]
        | ManualConsent \<Rightarrow> []
        | PolicyUrlBlocking \<Rightarrow> [(incognito_mode_availability_key M, JInt 0),
            (incognito_url_blocklist_key M, JArray (map JString blocklist))]))"

definition active_snap_policy_path :: "chrome_policy_manager \<Rightarrow> document_store \<Rightarrow> string option" where
  "active_snap_policy_path M s =
     (case cp_snap_policy_current_dir M of
        None \<Rightarrow> None
      | Some current_dir \<Rightarrow>
          if do_linked_dir s current_dir then Some (current_dir @ ''/policies/managed/blockuntu.json'') else None)"

definition policy_paths :: "chrome_policy_manager \<Rightarrow> document_store \<Rightarrow> string list" where
  "policy_paths M s =
     cp_policy_path M # (case active_snap_policy_path M s of None \<Rightarrow> [] | Some path \<Rightarrow> [path])"

definition file_json_equals :: "json_lib \<Rightarrow> string \<Rightarrow> json \<Rightarrow> document_store \<Rightarrow> daemon_error + bool" where
  "file_json_equals J path expected s =
     and_then (read_document path s) (\<lambda>contents.
       Inr (case contents of None \<Rightarrow> False | Some c \<Rightarrow> jl_parse J c = Inr expected))"

text \<open>Whether a path had to be written.\<close>

fun repair_paths :: "json_lib \<Rightarrow> json \<Rightarrow> string list \<Rightarrow> (document_store, bool) action" where
  "repair_paths J expected [] = act_return False"
| "repair_paths J expected (path # paths) =
     act_bind (act_read (file_json_equals J path expected)) (\<lambda>same.
     act_bind (if same then act_return () else write_json J path expected) (\<lambda>_.
     act_bind (repair_paths J expected paths) (\<lambda>repaired. act_return (\<not> same \<or> repaired))))"

definition chrome_verify_and_repair_with ::
  "json_lib \<Rightarrow> chrome_policy_manager \<Rightarrow> incognito_mode \<Rightarrow> string list
     \<Rightarrow> (document_store, policy_repair_status) action" where
  "chrome_verify_and_repair_with J M mode blocklist s =
     act_bind (repair_paths J (expected_policy_for M mode blocklist) (policy_paths M s)) (\<lambda>repaired.
       act_return (if repaired then PolicyRepaired else PolicyCompliant)) s"

fun remove_paths :: "string list \<Rightarrow> (document_store, bool) action" where
  "remove_paths [] = act_return False"
| "remove_paths (path # paths) =
     act_bind (remove_document path) (\<lambda>existed.
     act_bind (remove_paths paths) (\<lambda>removed. act_return (existed \<or> removed)))"

definition chrome_remove_policy :: "chrome_policy_manager \<Rightarrow> (document_store, policy_repair_status) action" where
  "chrome_remove_policy M s =
     act_bind (remove_paths (policy_paths M s)) (\<lambda>removed.
       act_return (if removed then PolicyRepaired else PolicyCompliant)) s"

section \<open>The status shown\<close>

record chrome_policy_status =
  ct_browser :: string
  ct_path :: string
  ct_extension_id :: string
  ct_update_url :: string
  ct_policy_exists :: bool
  ct_valid_json :: bool
  ct_compliant :: bool
  ct_force_install_configured :: bool
  ct_incognito_mode :: incognito_mode
  ct_incognito_mode_configured :: bool
  ct_incognito_url_block_count :: nat
  ct_snap_policy_path :: "string option"
  ct_snap_policy_compliant :: "bool option"
  ct_detail :: string

definition snap_policy_status ::
  "json_lib \<Rightarrow> chrome_policy_manager \<Rightarrow> json \<Rightarrow> document_store \<Rightarrow> string option \<times> bool option" where
  "snap_policy_status J M expected s =
     (case active_snap_policy_path M s of
        None \<Rightarrow> (None, None)
      | Some path \<Rightarrow> (Some path, Some (case file_json_equals J path expected s of Inl _ \<Rightarrow> False | Inr b \<Rightarrow> b)))"

definition force_install_configured :: "chrome_policy_manager \<Rightarrow> json \<Rightarrow> bool" where
  "force_install_configured M policy =
     (case get policy ''ExtensionInstallForcelist'' of
        None \<Rightarrow> False
      | Some v \<Rightarrow> (case as_array v of
          None \<Rightarrow> False
        | Some entries \<Rightarrow> list_ex (\<lambda>entry. as_str entry = Some (force_install_entry M)) entries))"

definition availability_is :: "chrome_policy_manager \<Rightarrow> int \<Rightarrow> json \<Rightarrow> bool" where
  "availability_is M n parsed =
     (case get parsed (incognito_mode_availability_key M) of None \<Rightarrow> False | Some v \<Rightarrow> as_i64 v = Some n)"

definition incognito_mode_configured :: "chrome_policy_manager \<Rightarrow> incognito_mode \<Rightarrow> string list \<Rightarrow> json \<Rightarrow> bool" where
  "incognito_mode_configured M mode blocklist parsed =
     (case mode of
        IncognitoDisabled \<Rightarrow> availability_is M 1 parsed
      | ManualConsent \<Rightarrow> get parsed (incognito_mode_availability_key M) = None
          \<and> get parsed (incognito_url_blocklist_key M) = None
      | PolicyUrlBlocking \<Rightarrow> availability_is M 0 parsed
          \<and> (case get parsed (incognito_url_blocklist_key M) of
               None \<Rightarrow> False
             | Some v \<Rightarrow> as_array v = Some (map JString blocklist)))"

definition incognito_detail :: "incognito_mode \<Rightarrow> string list \<Rightarrow> string" where
  "incognito_detail mode blocklist =
     (case mode of
        IncognitoDisabled \<Rightarrow> ''private browsing is disabled by policy''
      | ManualConsent \<Rightarrow> ''private browsing remains available; the user must allow the extension there''
      | PolicyUrlBlocking \<Rightarrow> show_int (int (length blocklist))
          @ '' active URL pattern(s) are blocked in private browsing by policy'')"

definition chrome_detail :: "chrome_policy_manager \<Rightarrow> incognito_mode \<Rightarrow> string list \<Rightarrow> string option \<times> bool option \<Rightarrow> json \<Rightarrow> string" where
  "chrome_detail M mode blocklist snap parsed =
     (let settings = get_in (get parsed ''ExtensionSettings'') (cp_extension_id M);
          string_at = (\<lambda>key. case get_in settings key of None \<Rightarrow> None | Some v \<Rightarrow> as_str v) in
      if snd snap = Some False
      then cp_browser_name M @ '' policy differs from expected hardened settings because the active Snap policy file is missing or stale: ''
        @ (case fst snap of None \<Rightarrow> ''unknown'' | Some path \<Rightarrow> path)
      else if parsed = expected_policy_for M mode blocklist
      then cp_browser_name M @ '' Chrome Web Store policy matches expected force-install settings; '' @ incognito_detail mode blocklist
      else if \<not> force_install_configured M parsed
      then cp_browser_name M @ '' Chrome Web Store force-install entry is missing or points at a different update URL''
      else if string_at ''installation_mode'' \<noteq> Some ''force_installed'' \<or> string_at ''update_url'' \<noteq> Some (cp_update_url M)
      then cp_browser_name M @ '' ExtensionSettings are missing force_installed/update_url settings''
      else cp_browser_name M @ '' policy differs from expected hardened settings; '' @ incognito_detail mode blocklist)"

definition unread_chrome_status ::
  "chrome_policy_manager \<Rightarrow> incognito_mode \<Rightarrow> string option \<times> bool option \<Rightarrow> bool \<Rightarrow> string \<Rightarrow> chrome_policy_status" where
  "unread_chrome_status M mode snap exists detail =
     \<lparr>ct_browser = cp_browser_name M, ct_path = cp_policy_path M, ct_extension_id = cp_extension_id M,
      ct_update_url = cp_update_url M, ct_policy_exists = exists, ct_valid_json = False, ct_compliant = False,
      ct_force_install_configured = False, ct_incognito_mode = mode, ct_incognito_mode_configured = False,
      ct_incognito_url_block_count = 0, ct_snap_policy_path = fst snap, ct_snap_policy_compliant = snd snap,
      ct_detail = cp_browser_name M @ detail\<rparr>"

definition chrome_status_with ::
  "json_lib \<Rightarrow> chrome_policy_manager \<Rightarrow> incognito_mode \<Rightarrow> string list
     \<Rightarrow> document_store \<Rightarrow> chrome_policy_status" where
  "chrome_status_with J M mode blocklist s =
     (let expected = expected_policy_for M mode blocklist;
          snap = snap_policy_status J M expected s in
      case (do_fault s ''read'' (cp_policy_path M), do_files s (cp_policy_path M)) of
        (Some e, _) \<Rightarrow> unread_chrome_status M mode snap True ('' policy file cannot be read: '' @ e)
      | (None, None) \<Rightarrow> unread_chrome_status M mode snap False '' policy file is missing''
      | (None, Some contents) \<Rightarrow> (case jl_parse J contents of
          Inl e \<Rightarrow> unread_chrome_status M mode snap True ('' policy file is not valid JSON: '' @ e)
        | Inr parsed \<Rightarrow>
            \<lparr>ct_browser = cp_browser_name M, ct_path = cp_policy_path M, ct_extension_id = cp_extension_id M,
             ct_update_url = cp_update_url M, ct_policy_exists = True, ct_valid_json = True,
             ct_compliant = (parsed = expected \<and> snd snap \<noteq> Some False),
             ct_force_install_configured = force_install_configured M parsed,
             ct_incognito_mode = mode, ct_incognito_mode_configured = incognito_mode_configured M mode blocklist parsed,
             ct_incognito_url_block_count = (case get parsed (incognito_url_blocklist_key M) of
                 None \<Rightarrow> 0 | Some v \<Rightarrow> (case as_array v of None \<Rightarrow> 0 | Some urls \<Rightarrow> length urls)),
             ct_snap_policy_path = fst snap, ct_snap_policy_compliant = snd snap,
             ct_detail = chrome_detail M mode blocklist snap parsed\<rparr>))"

end
