(* ===== verification/Enforcement.thy ===== *)
theory Enforcement imports Browsers Edits ChromiumPolicy begin

text \<open>
  The browser policies as the daemon drives them, from \<^verbatim>\<open>focusd/src/rpc.rs\<close>: which managers it has, when a
  policy is repaired, deferred until the extension is heard from, or left alone, what the enforcement
  status shows, and the removal at an uninstall. The state is the daemon with the files it writes.
\<close>

section \<open>The state and its managers\<close>

type_synonym u64 = "64 word"

record machine =
  mc_daemon :: daemon
  mc_documents :: document_store

record managers =
  mg_gecko_policies :: "(supported_browser \<times> firefox_policy_manager) list"
  mg_chromium_policies :: "(supported_browser \<times> chrome_policy_manager) list"
  mg_manage_firefox_policy :: bool
  mg_manage_chrome_policy :: bool
  mg_defer_firefox_policy_repair :: bool
  mg_defer_chrome_policy_repair :: bool
  mg_heartbeat_timeout_seconds :: u64
  mg_installation_serial_path :: string
  mg_package_removal_lease_path :: string

definition on_daemon :: "(daemon, 'a) action \<Rightarrow> (machine, 'a) action" where
  "on_daemon m s = (let (r, d) = m (mc_daemon s) in (r, s\<lparr>mc_daemon := d\<rparr>))"

definition on_documents :: "(document_store, 'a) action \<Rightarrow> (machine, 'a) action" where
  "on_documents m s = (let (r, docs) = m (mc_documents s) in (r, s\<lparr>mc_documents := docs\<rparr>))"

definition on_hosts :: "(hosts_store, 'a) action \<Rightarrow> (daemon, 'a) action" where
  "on_hosts m d =
     (case dm_hosts d of
        None \<Rightarrow> (invalid (ManagerNotConfigured ''hosts''), d)
      | Some store \<Rightarrow> (let (r, store') = m store in (r, d\<lparr>dm_hosts := Some store'\<rparr>)))"

fun act_map :: "('a \<Rightarrow> ('s, 'b) action) \<Rightarrow> 'a list \<Rightarrow> ('s, 'b list) action" where
  "act_map f [] = act_return []"
| "act_map f (x # xs) = act_bind (f x) (\<lambda>y. act_bind (act_map f xs) (\<lambda>ys. act_return (y # ys)))"

definition gecko_policy :: "managers \<Rightarrow> supported_browser \<Rightarrow> daemon_error + firefox_policy_manager" where
  "gecko_policy G browser =
     (case map_of (mg_gecko_policies G) browser of
        None \<Rightarrow> invalid (ManagerNotConfigured (browser_label browser @ '' policy''))
      | Some M \<Rightarrow> Inr M)"

definition chromium_policy :: "managers \<Rightarrow> supported_browser \<Rightarrow> daemon_error + chrome_policy_manager" where
  "chromium_policy G browser =
     (case map_of (mg_chromium_policies G) browser of
        None \<Rightarrow> invalid (ManagerNotConfigured (browser_label browser @ '' policy''))
      | Some M \<Rightarrow> Inr M)"

definition has_extension_heartbeat :: "string \<Rightarrow> focus_core \<Rightarrow> daemon_error + bool" where
  "has_extension_heartbeat component core =
     and_then (core_query (heartbeat component) core) (\<lambda>seen. Inr (seen \<noteq> None))"

definition context_settings ::
  "'u lib \<Rightarrow> 'f host_lib \<Rightarrow> clock_reading \<Rightarrow> (daemon, incognito_policy_settings) action" where
  "context_settings L H rd d =
     act_bind (on_core (on_database (guarded_now L H rd None (dm_trust_client_time d)))) (\<lambda>g.
       core_read (current_chromium_incognito_policy_settings L (gn_now g)
         (ci_state (gn_integrity g) = status_tampered))) d"

section \<open>Repairs\<close>

definition chromium_browsers :: "supported_browser list" where
  "chromium_browsers = filter is_chromium_based managed_browsers"

definition firefox_browsers :: "supported_browser list" where
  "firefox_browsers = filter is_firefox_based managed_browsers"

definition repair_chromium_policy ::
  "json_lib \<Rightarrow> managers \<Rightarrow> incognito_policy_settings \<Rightarrow> supported_browser
     \<Rightarrow> (machine, string \<times> policy_repair_status) action" where
  "repair_chromium_policy J G settings browser =
     (if \<not> mg_manage_chrome_policy G then act_return (browser_label browser, PolicySkippedDisabled)
      else act_bind (if mg_defer_chrome_policy_repair G
          then on_daemon (core_read (has_extension_heartbeat (browser_extension_component browser)))
          else act_return True) (\<lambda>heard.
        if \<not> heard then act_return (browser_label browser, PolicySkippedDeferred)
        else act_bind (act_read (\<lambda>_. chromium_policy G browser)) (\<lambda>M.
          act_bind (on_documents (chrome_verify_and_repair_with J M (ip_mode settings) (ip_url_blocklist settings))) (\<lambda>status.
            act_return (browser_label browser, status)))))"

definition repair_chromium_policies_for_settings_change ::
  "'f host_lib \<Rightarrow> json_lib \<Rightarrow> managers \<Rightarrow> instant \<Rightarrow> incognito_policy_settings
     \<Rightarrow> (machine, (string \<times> policy_repair_status) list) action" where
  "repair_chromium_policies_for_settings_change H J G enforcement settings =
     (if mg_chromium_policies G = [] then act_return []
      else act_bind (act_read (\<lambda>_. ensure_chromium_incognito_url_blocklist_within_limit settings)) (\<lambda>_.
        act_bind (on_daemon (core_read (enforcement_active_from_core H enforcement))) (\<lambda>active.
          if \<not> active then act_return (map (\<lambda>browser. (browser_label browser, PolicySkippedInactive)) chromium_browsers)
          else act_map (repair_chromium_policy J G settings) chromium_browsers)))"

definition repair_chromium_policies_for_current_settings ::
  "'u lib \<Rightarrow> 'f host_lib \<Rightarrow> json_lib \<Rightarrow> managers \<Rightarrow> clock_reading \<Rightarrow> instant
     \<Rightarrow> (machine, (string \<times> policy_repair_status) list) action" where
  "repair_chromium_policies_for_current_settings L H J G rd enforcement =
     act_bind (on_daemon (context_settings L H rd)) (repair_chromium_policies_for_settings_change H J G enforcement)"

text \<open>A repair put off until the extension of the browser has been heard from.\<close>

datatype deferred_repair = UninstallInProgress | DeferredRepair supported_browser policy_repair_status | NothingDeferred

definition repair_deferred_policy_after_heartbeat ::
  "'u lib \<Rightarrow> 'f host_lib \<Rightarrow> json_lib \<Rightarrow> backup_lib \<Rightarrow> managers \<Rightarrow> clock_reading \<Rightarrow> instant \<Rightarrow> string
     \<Rightarrow> (machine, deferred_repair) action" where
  "repair_deferred_policy_after_heartbeat L H J B G rd enforcement component =
     act_bind (on_daemon (core_read (enforcement_active_from_core H enforcement))) (\<lambda>active.
     if \<not> active then act_return UninstallInProgress
     else case supported_browser_for_extension_component component of
         None \<Rightarrow> act_return NothingDeferred
       | Some browser \<Rightarrow>
           if mg_manage_firefox_policy G \<and> mg_defer_firefox_policy_repair G \<and> is_firefox_based browser
           then act_bind (act_read (\<lambda>_. gecko_policy G browser)) (\<lambda>M.
             act_bind (on_documents (verify_and_repair J B M)) (\<lambda>status. act_return (DeferredRepair browser status)))
           else if mg_manage_chrome_policy G \<and> mg_defer_chrome_policy_repair G \<and> is_chromium_based browser
           then act_bind (on_daemon (context_settings L H rd)) (\<lambda>settings.
             act_bind (act_read (\<lambda>_. ensure_chromium_incognito_url_blocklist_within_limit settings)) (\<lambda>_.
             act_bind (act_read (\<lambda>_. chromium_policy G browser)) (\<lambda>M.
             act_bind (on_documents (chrome_verify_and_repair_with J M (ip_mode settings) (ip_url_blocklist settings)))
               (\<lambda>status. act_return (DeferredRepair browser status)))))
           else act_return NothingDeferred)"

section \<open>Removal\<close>

definition remove_gecko_policies_from_context ::
  "json_lib \<Rightarrow> backup_lib \<Rightarrow> managers \<Rightarrow> (machine, (string \<times> policy_repair_status) list) action" where
  "remove_gecko_policies_from_context J B G =
     (if \<not> mg_manage_firefox_policy G
      then act_return (map (\<lambda>browser. (browser_label browser, PolicySkippedDisabled)) firefox_browsers)
      else act_map (\<lambda>browser.
        act_bind (act_read (\<lambda>_. gecko_policy G browser)) (\<lambda>M.
        act_bind (on_documents (remove_policy J B M)) (\<lambda>status. act_return (browser_label browser, status)))) firefox_browsers)"

definition remove_chromium_policies_from_context ::
  "managers \<Rightarrow> (machine, (string \<times> policy_repair_status) list) action" where
  "remove_chromium_policies_from_context G =
     (if \<not> mg_manage_chrome_policy G
      then act_return (map (\<lambda>browser. (browser_label browser, PolicySkippedDisabled)) chromium_browsers)
      else act_map (\<lambda>browser.
        act_bind (act_read (\<lambda>_. chromium_policy G browser)) (\<lambda>M.
        act_bind (on_documents (chrome_remove_policy M)) (\<lambda>status. act_return (browser_label browser, status)))) chromium_browsers)"

section \<open>The status shown\<close>

record managed_firefox_status = firefox_policy_status +
  mf_managed :: bool
  mf_deferred_until_heartbeat :: bool
  mf_active_after_heartbeat :: bool

definition management_disabled_detail :: "supported_browser \<Rightarrow> string" where
  "management_disabled_detail browser =
     browser_display_name browser @ '' policy management is disabled; install and enable the extension manually''"

definition repair_deferred_detail :: "supported_browser \<Rightarrow> string" where
  "repair_deferred_detail browser =
     browser_display_name browser @ '' policy repair is deferred until the first extension heartbeat''"

definition gecko_policy_status :: "json_lib \<Rightarrow> managers \<Rightarrow> supported_browser \<Rightarrow> (machine, managed_firefox_status) action" where
  "gecko_policy_status J G browser =
     act_bind (act_read (\<lambda>s. and_then (gecko_policy G browser) (\<lambda>M. Inr (firefox_status J M (mc_documents s))))) (\<lambda>status.
     act_bind (on_daemon (core_read (has_extension_heartbeat (browser_extension_component browser)))) (\<lambda>heard.
       let shown = firefox_policy_status.extend status (managed_firefox_status.fields
             (mg_manage_firefox_policy G) (mg_defer_firefox_policy_repair G) heard) in
       act_return
         (if \<not> mg_manage_firefox_policy G
          then shown\<lparr>fs_compliant := True, fs_detail := management_disabled_detail browser\<rparr>
          else if mg_defer_firefox_policy_repair G \<and> \<not> heard
          then shown\<lparr>fs_compliant := True, fs_detail := repair_deferred_detail browser\<rparr>
          else shown)))"

definition gecko_policy_statuses ::
  "json_lib \<Rightarrow> managers \<Rightarrow> (machine, (string \<times> managed_firefox_status) list) action" where
  "gecko_policy_statuses J G = act_map (\<lambda>browser.
     act_bind (gecko_policy_status J G browser) (\<lambda>status. act_return (browser_label browser, status)))
     [LibreWolf, Waterfox]"

record managed_chrome_status = chrome_policy_status +
  mh_managed :: bool
  mh_deferred_until_heartbeat :: bool
  mh_active_after_heartbeat :: bool
  mh_unsupported_pattern_count :: nat
  mh_url_block_limit_exceeded :: bool

definition chromium_policy_status ::
  "'u lib \<Rightarrow> 'f host_lib \<Rightarrow> json_lib \<Rightarrow> managers \<Rightarrow> (supported_browser \<Rightarrow> clock_reading) \<Rightarrow> supported_browser
     \<Rightarrow> (machine, managed_chrome_status) action" where
  "chromium_policy_status L H J G rd browser =
     act_bind (on_daemon (context_settings L H (rd browser))) (\<lambda>settings.
     act_bind (act_read (\<lambda>s. and_then (chromium_policy G browser) (\<lambda>M.
         Inr (chrome_status_with J M (ip_mode settings) (ip_url_blocklist settings) (mc_documents s))))) (\<lambda>status.
     act_bind (on_daemon (core_read (has_extension_heartbeat (browser_extension_component browser)))) (\<lambda>heard.
       let shown = chrome_policy_status.extend status (managed_chrome_status.fields
             (mg_manage_chrome_policy G) (mg_defer_chrome_policy_repair G) heard
             (ip_unsupported_pattern_count settings) (url_block_limit_exceeded settings));
           limited = (if \<not> url_block_limit_exceeded settings then shown
             else shown\<lparr>ct_compliant := False, ct_detail := browser_display_name browser @ '' private URL policy has ''
               @ show_int (int (length (ip_url_blocklist settings))) @ '' active patterns, but browsers apply at most 1000''\<rparr>) in
       act_return
         (if \<not> mg_manage_chrome_policy G
          then limited\<lparr>ct_compliant := True, ct_force_install_configured := True, ct_detail := management_disabled_detail browser\<rparr>
          else if mg_defer_chrome_policy_repair G \<and> \<not> heard
          then limited\<lparr>ct_compliant := True, ct_force_install_configured := True, ct_detail := repair_deferred_detail browser\<rparr>
          else limited))))"

definition chromium_policy_statuses ::
  "'u lib \<Rightarrow> 'f host_lib \<Rightarrow> json_lib \<Rightarrow> managers \<Rightarrow> (supported_browser \<Rightarrow> clock_reading)
     \<Rightarrow> (machine, (string \<times> managed_chrome_status) list) action" where
  "chromium_policy_statuses L H J G rd = act_map (\<lambda>browser.
     act_bind (chromium_policy_status L H J G rd browser) (\<lambda>status. act_return (browser_label browser, status)))
     [Chromium, Brave, Opera, Edge, Vivaldi]"

text \<open>The readings the status takes: one first, one for the integrity it shows, one per Chromium browser.\<close>

record status_clock =
  tk_first :: clock_reading
  tk_enforcement :: instant
  tk_integrity :: clock_reading
  tk_browser :: "supported_browser \<Rightarrow> clock_reading"

record 'f enforcement_report =
  er_enforcement_state :: string
  er_clock_integrity :: "'f clock_integrity_status"
  er_firefox_policy :: managed_firefox_status
  er_firefox_family_policies :: "(string \<times> managed_firefox_status) list"
  er_chrome_policy :: managed_chrome_status
  er_chromium_policies :: "(string \<times> managed_chrome_status) list"
  er_hosts_file :: hosts_file_status

definition hosts_detox_sessions_for_clock :: "instant \<Rightarrow> bool \<Rightarrow> focus_core \<Rightarrow> daemon_error + detox_session list" where
  "hosts_detox_sessions_for_clock now clock_tampered =
     core_query (if clock_tampered then uncancelled_detox_sessions else active_detox_sessions now)"

definition clock_integrity_status_method ::
  "'u lib \<Rightarrow> 'f host_lib \<Rightarrow> clock_reading \<Rightarrow> (daemon, 'f clock_integrity_status) action" where
  "clock_integrity_status_method L H rd d =
     act_bind (on_core (on_database (guarded_now L H rd None (dm_trust_client_time d)))) (\<lambda>g.
       act_return (gn_integrity g)) d"

definition enforcement_status ::
  "'u lib \<Rightarrow> 'f host_lib \<Rightarrow> json_lib \<Rightarrow> managers \<Rightarrow> status_clock \<Rightarrow> (machine, 'f enforcement_report) action" where
  "enforcement_status L H J G k =
     act_bind (on_daemon (on_hosts (act_return ()))) (\<lambda>_.
     act_bind (on_daemon (\<lambda>d. on_core (on_database
        (guarded_now L H (tk_first k) None (dm_trust_client_time d))) d)) (\<lambda>g.
     let tampered = (ci_state (gn_integrity g) = status_tampered) in
     act_bind (on_daemon (core_read (hosts_detox_sessions_for_clock (dt_utc (gn_now g)) tampered))) (\<lambda>sessions.
     act_bind (on_daemon (core_read (enforcement_state_from_core H (tk_enforcement k)))) (\<lambda>state.
     act_bind (on_daemon (core_read (\<lambda>core. Inr (fc_config core)))) (\<lambda>config.
     act_bind (on_daemon (clock_integrity_status_method L H (tk_integrity k))) (\<lambda>integrity.
     act_bind (gecko_policy_status J G Firefox) (\<lambda>firefox.
     act_bind (gecko_policy_statuses J G) (\<lambda>firefox_family.
     act_bind (chromium_policy_status L H J G (tk_browser k) Chrome) (\<lambda>chrome.
     act_bind (chromium_policy_statuses L H J G (tk_browser k)) (\<lambda>chromium.
     act_bind (on_daemon (on_hosts (act_read (\<lambda>store.
        Inr (status_with_active_detox L config sessions (gn_now g) tampered store))))) (\<lambda>hosts.
       act_return \<lparr>er_enforcement_state = state, er_clock_integrity = integrity, er_firefox_policy = firefox,
         er_firefox_family_policies = firefox_family, er_chrome_policy = chrome,
         er_chromium_policies = chromium, er_hosts_file = hosts\<rparr>)))))))))))"

section \<open>What these leave alone\<close>

lemma on_documents_daemon [simp]: "mc_daemon (snd (on_documents m s)) = mc_daemon s"
  by (simp add: on_documents_def Let_def split: prod.splits)

lemma on_daemon_documents [simp]: "mc_documents (snd (on_daemon m s)) = mc_documents s"
  by (simp add: on_daemon_def Let_def split: prod.splits)

lemma on_daemon_daemon [simp]: "mc_daemon (snd (on_daemon m s)) = snd (m (mc_daemon s))"
  by (simp add: on_daemon_def Let_def split: prod.splits)

lemma on_daemon_fst [simp]: "fst (on_daemon m s) = fst (m (mc_daemon s))"
  by (simp add: on_daemon_def Let_def split: prod.splits)

lemma on_documents_Inr:
  "on_documents m s = (Inr x, s') \<longleftrightarrow> (\<exists>docs. m (mc_documents s) = (Inr x, docs) \<and> s' = s\<lparr>mc_documents := docs\<rparr>)"
  by (auto simp: on_documents_def Let_def split: prod.splits)

lemma on_daemon_Inr:
  "on_daemon m s = (Inr x, s') \<longleftrightarrow> (\<exists>d. m (mc_daemon s) = (Inr x, d) \<and> s' = s\<lparr>mc_daemon := d\<rparr>)"
  by (auto simp: on_daemon_def Let_def split: prod.splits)

end
