(* ===== verification/Alerts.thy ===== *)
theory Alerts imports Guards Notifications begin

text \<open>
  The notifications of the daemon: the methods of \<^verbatim>\<open>focusd/src/rpc.rs\<close> a desktop client calls (preferences,
  polling, acknowledgement, delivery), what a block and a Detox queue, and the loop of
  \<^verbatim>\<open>focusd/src/app.rs\<close> that turns changes of schedules, sessions and allowances into notifications. Every
  reading of \<open>Utc::now\<close> is an argument, in the order the code takes them.
\<close>

section \<open>Bounds\<close>

definition max_notification_threshold_minutes :: u32 where "max_notification_threshold_minutes = 24 * 60"
definition max_notification_thresholds :: nat where "max_notification_thresholds = 10"
definition max_pending_notifications :: u32 where "max_pending_notifications = 50"
definition max_notification_delivery_detail_length :: nat where "max_notification_delivery_detail_length = 2000"
definition block_notification_cooldown_seconds :: int where "block_notification_cooldown_seconds = 60"
definition block_notification_ttl_minutes :: int where "block_notification_ttl_minutes = 1"
definition lifecycle_notification_ttl_minutes :: int where "lifecycle_notification_ttl_minutes = 10"
definition allowance_notification_ttl_minutes :: int where "allowance_notification_ttl_minutes = 5"

lemmas notification_bounds = max_notification_threshold_minutes_def max_notification_thresholds_def
  max_pending_notifications_def max_notification_delivery_detail_length_def

definition clamp_u32 :: "u32 \<Rightarrow> u32 \<Rightarrow> u32 \<Rightarrow> u32" where
  "clamp_u32 low high x = (if x < low then low else if x > high then high else x)"

section \<open>The methods of a desktop client\<close>

text \<open>Thresholds are sorted in descending order; \<open>dedup\<close> drops repeated neighbours.\<close>

definition normalize_notification_preferences ::
  "notification_preferences \<Rightarrow> daemon_error + notification_preferences" where
  "normalize_notification_preferences preferences =
     (let minutes = np_allowance_warning_minutes preferences in
      if length minutes > max_notification_thresholds then invalid TooManyThresholds
      else if list_ex (\<lambda>m. m = 0 \<or> m > max_notification_threshold_minutes) minutes then invalid ThresholdOutOfRange
      else Inr (preferences\<lparr>np_allowance_warning_minutes := remdups_adj (rev (sort minutes))\<rparr>))"

definition set_notification_preferences_method ::
  "instant \<Rightarrow> instant \<Rightarrow> notification_preferences \<Rightarrow> (focus_core, notification_preferences) action" where
  "set_notification_preferences_method discard_at event_at requested =
     act_bind (act_read (\<lambda>_. normalize_notification_preferences requested)) (\<lambda>preferences.
     act_bind (on_db (set_notification_preferences preferences)) (\<lambda>_.
     act_bind (on_db (discard_disabled_notifications preferences discard_at)) (\<lambda>_.
     act_bind (on_db (record_event ''notification_preferences_updated'' (Some ''notifications'') None event_at)) (\<lambda>_.
       act_return preferences))))"

definition pending_notifications_method ::
  "instant \<Rightarrow> instant \<Rightarrow> instant \<Rightarrow> instant option \<Rightarrow> u32 \<Rightarrow> (focus_core, notification_event list) action" where
  "pending_notifications_method since_now discard_at now block_events_since limit =
     act_bind (case block_events_since of
         None \<Rightarrow> act_return ()
       | Some since \<Rightarrow> act_bind (on_db (discard_historical_block_notifications (min since since_now) discard_at))
           (\<lambda>_. act_return ())) (\<lambda>_.
       on_db (pending_notifications now (clamp_u32 1 max_pending_notifications limit)))"

definition acknowledge_notifications_method :: "instant \<Rightarrow> int list \<Rightarrow> (focus_core, nat) action" where
  "acknowledge_notifications_method now ids =
     (if length ids > unat max_pending_notifications then act_read (\<lambda>_. invalid TooManyAcknowledged)
      else if list_ex (\<lambda>ident. ident \<le> 0) ids then act_read (\<lambda>_. invalid NotificationIdNotPositive)
      else act_bind (on_db (acknowledge_notifications ids now)) (\<lambda>_. act_return (length ids)))"

definition record_notification_delivery_method ::
  "instant \<Rightarrow> int \<Rightarrow> bool \<Rightarrow> string option \<Rightarrow> (focus_core, string) action" where
  "record_notification_delivery_method now ident delivered detail =
     (if ident \<le> 0 then act_read (\<lambda>_. invalid NotificationIdNotPositive)
      else if (case detail of None \<Rightarrow> False | Some d \<Rightarrow> str_len d > max_notification_delivery_detail_length)
      then act_read (\<lambda>_. invalid DeliveryDetailTooLong)
      else act_bind (on_db (record_notification_delivery_result ident delivered detail now)) (\<lambda>recorded.
        if \<not> recorded then act_read (\<lambda>_. invalid (NotificationDoesNotExist ident))
        else act_return (if delivered then ''accepted'' else ''failed'')))"

section \<open>What a block and a Detox queue\<close>

fun notification_rule :: "block_reason \<Rightarrow> (string \<times> string) option" where
  "notification_rule (Detox session_id session_name rule_id rule_name target_kind ends_at) = Some (rule_id, rule_name)"
| "notification_rule (HardBlock rule_id rule_name) = Some (rule_id, rule_name)"
| "notification_rule (ScheduledBlockReason rule_id rule_name) = Some (rule_id, rule_name)"
| "notification_rule (ControlledAccessReason rule_id rule_name reason) = Some (rule_id, rule_name)"
| "notification_rule (InvalidUrl message) = None"
| "notification_rule (RuntimeError message) = None"

definition quoted :: "string \<Rightarrow> string" where
  "quoted s = CHR 0x22 # s @ [CHR 0x22]"

definition block_target :: "'u lib \<Rightarrow> string \<Rightarrow> string" where
  "block_target L url =
     (case url_parse L url of
        Inl _ \<Rightarrow> url
      | Inr parsed \<Rightarrow> (case url_host_str L parsed of None \<Rightarrow> url | Some host \<Rightarrow> host))"

definition enqueue_website_block_notification ::
  "'u lib \<Rightarrow> string \<Rightarrow> decision \<Rightarrow> instant \<Rightarrow> (focus_core, unit) action" where
  "enqueue_website_block_notification L url decision now =
     act_bind (act_read (core_query notification_preferences)) (\<lambda>preferences.
       if \<not> np_enabled preferences \<or> \<not> np_website_blocked preferences then act_return ()
       else case decision of
         Allow \<Rightarrow> act_return ()
       | Block reason \<Rightarrow> (case notification_rule reason of
           None \<Rightarrow> act_return ()
         | Some (rule_id, rule_name) \<Rightarrow>
             let target = block_target L url in
             act_bind (on_db (enqueue_notification ''website_blocked'' ''Website blocked''
               (target @ '' was blocked by '' @ quoted rule_name @ ''.'')
               (''website_blocked:'' @ rule_id @ '':'' @ to_ascii_lowercase target) now
               (block_notification_cooldown_seconds * nanos_per_second)
               (block_notification_ttl_minutes * nanos_per_minute))) (\<lambda>_. act_return ())))"

definition enqueue_application_block_notification ::
  "string \<Rightarrow> string \<Rightarrow> instant \<Rightarrow> (focus_core, unit) action" where
  "enqueue_application_block_notification rule_id application_name now =
     act_bind (act_read (core_query notification_preferences)) (\<lambda>preferences.
       if \<not> np_enabled preferences \<or> \<not> np_application_blocked preferences then act_return ()
       else act_bind (act_read (\<lambda>core. Inr (case find (\<lambda>rule. ac_id rule = rule_id) (cfg_app_rules (fc_config core)) of
                None \<Rightarrow> rule_id | Some rule \<Rightarrow> ac_name rule))) (\<lambda>rule_name.
         act_bind (on_db (enqueue_notification ''application_blocked'' ''Application blocked''
           (application_name @ '' was blocked by '' @ quoted rule_name @ ''.'')
           (''application_blocked:'' @ rule_id @ '':'' @ to_ascii_lowercase application_name) now
           (block_notification_cooldown_seconds * nanos_per_second)
           (block_notification_ttl_minutes * nanos_per_minute))) (\<lambda>_. act_return ())))"

definition enqueue_detox_notification ::
  "detox_session \<Rightarrow> bool \<Rightarrow> bool \<Rightarrow> instant \<Rightarrow> (focus_core, unit) action" where
  "enqueue_detox_notification session active ended_early now =
     act_bind (on_db (set_notification_lifecycle_state ''detox'' (ds_id session) active now)) (\<lambda>_.
     act_bind (act_read (core_query notification_preferences)) (\<lambda>preferences.
       if \<not> np_enabled preferences \<or> active \<and> \<not> np_detox_started preferences
          \<or> \<not> active \<and> \<not> np_detox_ended preferences then act_return ()
       else
         let name = (case ds_name session of None \<Rightarrow> ds_id session | Some name \<Rightarrow> name);
             (kind, title, body) =
               (if active then (''detox_started'', ''Detox started'', quoted name @ '' is now active.'')
                else if ended_early then (''detox_ended'', ''Detox ended'', quoted name @ '' was ended early.'')
                else (''detox_ended'', ''Detox ended'', quoted name @ '' has finished.''))
         in act_bind (on_db (enqueue_notification kind title body (kind @ '':'' @ ds_id session) now
              nanos_per_minute (lifecycle_notification_ttl_minutes * nanos_per_minute))) (\<lambda>_. act_return ())))"

section \<open>Changes that become notifications\<close>

definition schedule_change ::
  "notification_preferences \<Rightarrow> schedule_config \<Rightarrow> bool \<Rightarrow> string \<times> string \<times> string \<times> bool" where
  "schedule_change preferences schedule active =
     (let name = (case sc_name schedule of None \<Rightarrow> sc_id schedule | Some name \<Rightarrow> name) in
      if active
      then (''schedule_started'', ''Schedule started'', quoted name @ '' is now active.'', np_schedule_started preferences)
      else (''schedule_ended'', ''Schedule ended'', quoted name @ '' is no longer active.'', np_schedule_ended preferences))"

definition notify_schedule ::
  "notification_preferences \<Rightarrow> bool option \<Rightarrow> bool \<Rightarrow> instant \<Rightarrow> schedule_config \<Rightarrow> (focus_core, unit) action" where
  "notify_schedule preferences was_active active now schedule =
     act_when (was_active = Some (\<not> active))
       (let (kind, title, detail, enabled) = schedule_change preferences schedule active in
        act_bind (on_db (record_event kind (Some (sc_id schedule)) (Some (Details detail)) now)) (\<lambda>_.
        act_when (np_enabled preferences \<and> enabled)
          (act_bind (on_db (enqueue_notification kind title detail (kind @ '':'' @ sc_id schedule) now
             nanos_per_minute (lifecycle_notification_ttl_minutes * nanos_per_minute))) (\<lambda>_. act_return ()))))"

definition forget_missing :: "string \<Rightarrow> string list \<Rightarrow> (string \<times> bool) list \<Rightarrow> (focus_core, unit) action" where
  "forget_missing kind current_ids states =
     act_for (map fst states) (\<lambda>ident.
       if ident \<in> set current_ids then act_return ()
       else on_db (delete_notification_lifecycle_state kind ident))"

definition sync_schedule_notifications :: "'u lib \<Rightarrow> datetime \<Rightarrow> (focus_core, unit) action" where
  "sync_schedule_notifications L now =
     act_bind (act_read (core_query notification_preferences)) (\<lambda>preferences.
     act_bind (act_read (core_query (notification_lifecycle_states ''schedule''))) (\<lambda>states core.
       act_bind (act_for (cfg_schedules (fc_config core)) (\<lambda>schedule.
         let active = schedule_ids_are_active_at L [sc_id schedule] (fc_config core) now False in
         act_bind (notify_schedule preferences (map_of states (sc_id schedule)) active (dt_utc now) schedule) (\<lambda>_.
           on_db (set_notification_lifecycle_state ''schedule'' (sc_id schedule) active (dt_utc now))))) (\<lambda>_.
       forget_missing ''schedule'' (map sc_id (cfg_schedules (fc_config core))) states) core))"

definition session_is_running :: "instant \<Rightarrow> detox_session \<Rightarrow> bool" where
  "session_is_running now session \<longleftrightarrow>
     ds_cancelled_at session = None \<and> ds_starts_at session \<le> now \<and> ds_ends_at session > now"

definition sync_detox_notifications :: "instant \<Rightarrow> (focus_core, unit) action" where
  "sync_detox_notifications now =
     act_bind (act_read (core_query (notification_lifecycle_states ''detox''))) (\<lambda>states.
     act_bind (act_read (core_query (detox_sessions 200))) (\<lambda>sessions.
     act_bind (act_for sessions (\<lambda>session.
       let active = session_is_running now session in
       act_bind (act_when (map_of states (ds_id session) = Some (\<not> active))
         (act_bind (on_db (record_event (if active then ''detox_started'' else ''detox_ended'') (Some (ds_id session))
             (Some (Details (if active then ''Detox became active'' else ''Detox reached its end time''))) now)) (\<lambda>_.
           enqueue_detox_notification session active (ds_cancelled_at session \<noteq> None) now))) (\<lambda>_.
         on_db (set_notification_lifecycle_state ''detox'' (ds_id session) active now)))) (\<lambda>_.
       forget_missing ''detox'' (map ds_id sessions) states)))"

text \<open>The warning due: the least threshold that the remaining time has come down to since it was last stored.\<close>

definition crossed_threshold :: "u32 list \<Rightarrow> int \<Rightarrow> int \<Rightarrow> u32 option" where
  "crossed_threshold minutes previous_remaining remaining =
     (let crossed = filter (\<lambda>m. previous_remaining > uint m * 60 \<and> remaining \<le> uint m * 60) minutes
      in if crossed = [] then None else Some (Min (set crossed)))"

definition allowance_notification_body :: "string \<Rightarrow> int \<Rightarrow> string" where
  "allowance_notification_body rule_name remaining_seconds =
     (if remaining_seconds < 60 then ''Less than 1 minute remains for '' @ quoted rule_name @ ''.''
      else show_id ((remaining_seconds + 59) div 60) @ '' minutes remain for '' @ quoted rule_name @ ''.'')"

text \<open>\<open>day_text\<close> prints a civil day (\<open>NaiveDate\<close> of chrono).\<close>

definition notify_allowance ::
  "string \<Rightarrow> instant \<Rightarrow> notification_preferences \<Rightarrow> allowance_status \<Rightarrow> (focus_core, unit) action" where
  "notify_allowance local_day now preferences status =
     act_bind (act_read (core_query (allowance_notification_state (as_rule_id status)))) (\<lambda>stored.
     let crossed = (case stored of
           None \<Rightarrow> None
         | Some (day, remaining) \<Rightarrow>
             if day = local_day
             then crossed_threshold (np_allowance_warning_minutes preferences) remaining (as_remaining_seconds status)
             else None)
     in act_bind (case crossed of
           None \<Rightarrow> act_return ()
         | Some minutes \<Rightarrow> act_when (np_enabled preferences \<and> np_allowance_warnings preferences)
             (act_bind (on_db (enqueue_notification ''allowance_warning'' ''Allowance running low''
                 (allowance_notification_body (as_rule_name status) (as_remaining_seconds status))
                 (''allowance_warning:'' @ as_rule_id status @ '':'' @ local_day @ '':'' @ show_nat (unat minutes))
                 now (2 * nanos_per_day) (allowance_notification_ttl_minutes * nanos_per_minute))) (\<lambda>inserted.
               if inserted = None then act_return ()
               else act_bind (on_db (record_event ''allowance_warning'' (Some (as_rule_id status))
                 (Some (Details (''threshold_minutes='' @ show_nat (unat minutes) @ '';remaining_seconds=''
                    @ show_id (as_remaining_seconds status)))) now)) (\<lambda>_. act_return ())))) (\<lambda>_.
         on_db (set_allowance_notification_state (as_rule_id status) local_day (as_remaining_seconds status) now)))"

definition sync_allowance_notifications ::
  "'u lib \<Rightarrow> (int \<Rightarrow> string) \<Rightarrow> datetime \<Rightarrow> (focus_core, unit) action" where
  "sync_allowance_notifications L day_text now =
     act_bind (act_read (core_query notification_preferences)) (\<lambda>preferences.
     act_bind (act_read (\<lambda>core. core_query (allowance_statuses L (context_new (fc_config core) now)) core)) (\<lambda>statuses.
       act_for statuses (notify_allowance (day_text (day_number (local_nanos now))) (dt_utc now) preferences)))"

text \<open>The loop does nothing while the clock is taken as tampered with; it never trusts a client's time.\<close>

definition sync_notification_state_once ::
  "'u lib \<Rightarrow> 'f host_lib \<Rightarrow> (int \<Rightarrow> string) \<Rightarrow> clock_reading \<Rightarrow> (focus_core, unit) action" where
  "sync_notification_state_once L H day_text rd =
     act_bind (on_database (guarded_now L H rd None False)) (\<lambda>guarded.
       if ci_state (gn_integrity guarded) = status_tampered then act_return ()
       else act_bind (sync_schedule_notifications L (gn_now guarded)) (\<lambda>_.
            act_bind (sync_detox_notifications (dt_utc (gn_now guarded))) (\<lambda>_.
              sync_allowance_notifications L day_text (gn_now guarded))))"

end
