(* ===== verification/Controls.thy ===== *)
theory Controls imports Enforcement Alerts begin

text \<open>
  The methods of the daemon that start a Detox, open the edit window, change its settings and hand over
  to an uninstall, from \<^verbatim>\<open>focusd/src/rpc.rs\<close>. Parameters are taken as parsed; a reply is the value the
  method computes.
\<close>

section \<open>Paths, limits and readings\<close>

definition tier1_edit_key_path :: string where
  "tier1_edit_key_path = ''/etc/blockuntu/tier1-edit-key.txt''"
definition system_uninstall_recovery_phrase_path :: string where
  "system_uninstall_recovery_phrase_path = ''/etc/blockuntu/uninstall-recovery.txt''"
definition recovery_credentials_hidden_marker_path :: string where
  "recovery_credentials_hidden_marker_path = ''/var/lib/blockuntu/recovery-credentials-hidden''"
definition max_detox_duration_minutes :: u32 where
  "max_detox_duration_minutes = 12 * 7 * 24 * 60"
definition uninstall_handoff_seconds :: int where
  "uninstall_handoff_seconds = 30"

text \<open>
  The readings of one request beyond those of \<open>request_clock\<close>, whose \<open>rk_updated_at\<close> is the \<open>Utc::now\<close> of the
  method itself: those of the repair of Chromium policies and of the status shown after an uninstall.
\<close>

record control_clock =
  kc_request :: request_clock
  kc_settings :: clock_reading
  kc_enforcement :: instant
  kc_status :: status_clock

text \<open>The credential of the installation is a file the daemon can remove; \<open>sha\<close> is SHA-256.\<close>

definition credentials_of :: "(u8 list \<Rightarrow> string) \<Rightarrow> document_store \<Rightarrow> credential_lib" where
  "credentials_of sha docs = \<lparr>cl_sha256 = sha,
     cl_key_file = (case do_fault docs ''read'' tier1_edit_key_path of
        Some e \<Rightarrow> Inl e | None \<Rightarrow> Inr (do_files docs tier1_edit_key_path))\<rparr>"

definition on_machine_core :: "(focus_core, 'a) action \<Rightarrow> (machine, 'a) action" where
  "on_machine_core m = on_daemon (on_core m)"

definition machine_read :: "(focus_core \<Rightarrow> daemon_error + 'a) \<Rightarrow> (machine, 'a) action" where
  "machine_read q = on_daemon (core_read q)"

definition credential_read :: "(u8 list \<Rightarrow> string) \<Rightarrow> (credential_lib \<Rightarrow> focus_core \<Rightarrow> daemon_error + 'a) \<Rightarrow> (machine, 'a) action" where
  "credential_read sha q = act_read (\<lambda>s. q (credentials_of sha (mc_documents s)) (dm_core (mc_daemon s)))"

definition machine_event :: "string \<Rightarrow> string \<Rightarrow> string \<Rightarrow> instant \<Rightarrow> (machine, unit) action" where
  "machine_event kind target details now = on_daemon (rpc_event kind target details now)"

definition put_state :: "string \<Rightarrow> string \<Rightarrow> instant \<Rightarrow> (machine, unit) action" where
  "put_state key v now = on_machine_core (on_db (set_service_state key v now))"

section \<open>Detox\<close>

text \<open>
  The suffix is a 32-bit signed integer; the addition panics at its end.
\<close>

function free_detox_id :: "string \<Rightarrow> string \<Rightarrow> int \<Rightarrow> focus_core \<Rightarrow> daemon_error + string" where
  "free_detox_id base ident n core =
     (case core_query (detox_session ident) core of
        Inl e \<Rightarrow> Inl e
      | Inr None \<Rightarrow> Inr ident
      | Inr (Some _) \<Rightarrow>
          if n \<ge> 2 ^ 31 - 1 then Inl (DaemonCore (Panicked ''attempt to add with overflow''))
          else free_detox_id base (base @ ''-'' @ show_int n) (n + 1) core)"
  by pat_completeness auto
termination
  by (relation "measure (\<lambda>(base, ident, n, core). nat (2 ^ 31 - n))") auto

declare free_detox_id.simps [simp del]

definition next_detox_session_id :: "instant \<Rightarrow> focus_core \<Rightarrow> daemon_error + string" where
  "next_detox_session_id now core =
     (let base = ''detox-'' @ show_int (now div 1000) in free_detox_id base base 2 core)"

definition detox_details :: "u32 \<Rightarrow> detox_session \<Rightarrow> string" where
  "detox_details duration_minutes session =
     ''duration_minutes='' @ show_nat (unat duration_minutes) @ '';site_rules='' @ join '','' (ds_site_rule_ids session)
       @ '';app_rules='' @ join '','' (ds_app_rule_ids session)"

definition detox_name :: "string option \<Rightarrow> string option" where
  "detox_name name = (case name of None \<Rightarrow> None | Some s \<Rightarrow> if trim s = [] then None else Some (trim s))"

text \<open>The part under the lock of the core: the session, its event and notification, the hosts file.\<close>

definition insert_detox ::
  "'u lib \<Rightarrow> 'f host_lib \<Rightarrow> request_clock \<Rightarrow> datetime \<Rightarrow> string option \<Rightarrow> u32 \<Rightarrow> string list \<Rightarrow> string list
     \<Rightarrow> instant \<Rightarrow> (daemon, detox_session \<times> hosts_repair_status option) action" where
  "insert_detox L H k now name duration_minutes site_rule_ids app_rule_ids ends_at =
     act_bind (core_read (uninstall_handoff_active H (rk_updated_at k))) (\<lambda>handoff.
     if handoff then act_read (\<lambda>_. invalid DetoxDuringUninstall)
     else act_bind (core_read (\<lambda>core. validate_detox_targets (fc_config core) site_rule_ids app_rule_ids)) (\<lambda>_.
     act_bind (core_read (next_detox_session_id (dt_utc now))) (\<lambda>ident.
     act_bind (on_core (on_db (insert_detox_session
        \<lparr>ds_id = ident, ds_name = name, ds_starts_at = dt_utc now, ds_ends_at = ends_at, ds_cancelled_at = None,
         ds_site_rule_ids = site_rule_ids, ds_app_rule_ids = app_rule_ids\<rparr>))) (\<lambda>session.
     act_bind (rpc_event ''detox_started'' (ds_id session) (detox_details duration_minutes session) (dt_utc now)) (\<lambda>_.
     act_bind (act_ignore (on_core (enqueue_detox_notification session True False (dt_utc now)))) (\<lambda>_.
     act_bind (repair_hosts_after_policy_change L H k now) (\<lambda>hosts_repair.
       act_return (session, hosts_repair))))))))"

definition start_detox_method ::
  "'u lib \<Rightarrow> 'f host_lib \<Rightarrow> json_lib \<Rightarrow> managers \<Rightarrow> control_clock \<Rightarrow> string option \<Rightarrow> u32 \<Rightarrow> string list \<Rightarrow> string list
     \<Rightarrow> string option \<Rightarrow> (machine, detox_session) action" where
  "start_detox_method L H J G k name duration_minutes site_ids app_ids client_now =
     act_bind (on_daemon (rpc_guarded_now L H (kc_request k) client_now)) (\<lambda>now.
     act_bind (on_daemon (reject_if_clock_tampered H (kc_request k))) (\<lambda>_.
     if duration_minutes = 0 then act_read (\<lambda>_. invalid DetoxTooShort)
     else if duration_minutes > max_detox_duration_minutes
     then act_read (\<lambda>_. invalid (DetoxTooLong max_detox_duration_minutes))
     else let site_rule_ids = normalized_unique_ids site_ids; app_rule_ids = normalized_unique_ids app_ids in
     if site_rule_ids = [] \<and> app_rule_ids = [] then act_read (\<lambda>_. invalid DetoxWithoutTargets)
     else act_bind (act_read (\<lambda>_. add_millis L (dt_utc now) (60000 * int (unat duration_minutes)))) (\<lambda>ends_at.
     act_bind (on_daemon (insert_detox L H (kc_request k) now (detox_name name) duration_minutes
        site_rule_ids app_rule_ids ends_at)) (\<lambda>(session, hosts_repair).
     act_bind (repair_chromium_policies_for_current_settings L H J G (kc_settings k) (kc_enforcement k)) (\<lambda>repairs.
       act_return session)))))"

definition cancel_detox_method ::
  "'u lib \<Rightarrow> 'f host_lib \<Rightarrow> control_clock \<Rightarrow> string \<Rightarrow> string option \<Rightarrow> (machine, unit) action" where
  "cancel_detox_method L H k ident client_now =
     act_bind (on_daemon (rpc_guarded_now L H (kc_request k) client_now)) (\<lambda>_.
     act_bind (on_daemon (reject_if_clock_tampered H (kc_request k))) (\<lambda>_.
     act_bind (machine_read (core_query (detox_session ident))) (\<lambda>session.
       act_read (\<lambda>_. invalid (if session = None then DetoxDoesNotExist ident else DetoxCannotBeCancelled)))))"

record detox_view =
  dv_session :: detox_session
  dv_status :: string
  dv_remaining_seconds :: "int option"

definition detox_session_to_json :: "instant \<Rightarrow> detox_session \<Rightarrow> detox_view" where
  "detox_session_to_json now session =
     (let status = (if ds_cancelled_at session \<noteq> None then ''cancelled''
          else if ds_starts_at session > now then ''scheduled''
          else if ds_ends_at session > now then ''active'' else ''expired'') in
      \<lparr>dv_session = session, dv_status = status,
       dv_remaining_seconds = (if status = ''active'' then Some (num_seconds (ds_ends_at session - now)) else None)\<rparr>)"

definition detox_sessions_method ::
  "'u lib \<Rightarrow> 'f host_lib \<Rightarrow> control_clock \<Rightarrow> u32 \<Rightarrow> bool \<Rightarrow> string option \<Rightarrow> (machine, detox_view list) action" where
  "detox_sessions_method L H k limit active_only client_now =
     act_bind (on_daemon (rpc_guarded_now L H (kc_request k) client_now)) (\<lambda>now.
     act_bind (machine_read (core_query (if active_only then active_detox_sessions (dt_utc now)
         else detox_sessions (clamp_u32 1 200 limit)))) (\<lambda>sessions.
       act_return (map (detox_session_to_json (dt_utc now)) sessions)))"

section \<open>The edit window and its credential\<close>

record 'f tier1_edit_status =
  te_active :: bool
  te_expires_at :: "instant option"
  te_remaining_seconds :: "int option"
  te_credential_configured :: bool
  te_protected_access_mode :: access_mode
  te_protected_access_open :: bool
  te_protected_access_label :: string
  te_unsupported_browser_block_active :: bool
  te_incognito :: incognito_policy_settings
  te_incognito_locked_by_active_allowlist :: bool
  te_incognito_settings_change_allowed :: bool
  te_url_block_limit_exceeded :: bool
  te_operator_window_restriction_enabled :: bool
  te_clock_integrity :: "'f clock_integrity_status"

fun protected_access_mode_label :: "access_mode \<Rightarrow> string" where
  "protected_access_mode_label SundayEvening = ''Sunday 20:00-23:59''"
| "protected_access_mode_label NoActiveScheduleOrDetox = ''No active schedule or Detox''"
| "protected_access_mode_label AllTime = ''Any time''"

definition tier1_edit_status_json ::
  "'u lib \<Rightarrow> 'f host_lib \<Rightarrow> clock_reading \<Rightarrow> datetime \<Rightarrow> credential_lib \<Rightarrow> focus_core
     \<Rightarrow> daemon_error + 'f tier1_edit_status" where
  "tier1_edit_status_json L H rd now K core =
     and_then (tier1_edit_unlocked_until H core) (\<lambda>expires_at.
     and_then (clock_status H rd (fc_database core)) (\<lambda>clock_integrity.
     let clock_tampered = (ci_state clock_integrity = status_tampered);
         running = (\<not> clock_tampered \<and> (case expires_at of None \<Rightarrow> False | Some t \<Rightarrow> t > dt_utc now)) in
     and_then (protected_access_mode core) (\<lambda>mode.
     and_then (protected_access_is_open L now clock_tampered core) (\<lambda>access_open.
     and_then (protected_access_mode core) (\<lambda>_.
     and_then (unsupported_browser_block_is_active L now clock_tampered core) (\<lambda>block.
     and_then (current_chromium_incognito_policy_settings L now clock_tampered core) (\<lambda>incognito.
     and_then (protected_access_mode core) (\<lambda>_.
     and_then (website_allowlist_is_active L now clock_tampered core) (\<lambda>locked.
     and_then (chromium_incognito_settings_change_allowed L now clock_tampered core) (\<lambda>allowed.
     and_then (tier1_edit_credential_configured K core) (\<lambda>configured.
       Inr \<lparr>te_active = running, te_expires_at = expires_at,
         te_remaining_seconds = (if running then map_option (\<lambda>t. num_seconds (t - dt_utc now)) expires_at else None),
         te_credential_configured = configured, te_protected_access_mode = mode,
         te_protected_access_open = access_open, te_protected_access_label = protected_access_mode_label mode,
         te_unsupported_browser_block_active = block, te_incognito = incognito,
         te_incognito_locked_by_active_allowlist = locked, te_incognito_settings_change_allowed = allowed,
         te_url_block_limit_exceeded = url_block_limit_exceeded incognito,
         te_operator_window_restriction_enabled = (mode = SundayEvening),
         te_clock_integrity = clock_integrity\<rparr>)))))))))))"

definition tier1_edit_status_method ::
  "'u lib \<Rightarrow> 'f host_lib \<Rightarrow> (u8 list \<Rightarrow> string) \<Rightarrow> control_clock \<Rightarrow> string option \<Rightarrow> (machine, 'f tier1_edit_status) action" where
  "tier1_edit_status_method L H sha k client_now =
     act_bind (on_daemon (rpc_guarded_now L H (kc_request k) client_now)) (\<lambda>now.
       credential_read sha (tier1_edit_status_json L H (rk_status (kc_request k)) now))"

definition unlock_details :: string where
  "unlock_details = ''Website and application list edits across all tiers unlocked for 5 minutes; Detox restrictions remain in force''"

definition unlock_tier1_edit_method ::
  "'u lib \<Rightarrow> 'f host_lib \<Rightarrow> (u8 list \<Rightarrow> string) \<Rightarrow> control_clock \<Rightarrow> string \<Rightarrow> string option
     \<Rightarrow> (machine, 'f tier1_edit_status) action" where
  "unlock_tier1_edit_method L H sha k phrase client_now =
     act_bind (on_daemon (rpc_guarded_now L H (kc_request k) client_now)) (\<lambda>now.
     act_bind (on_daemon (reject_if_clock_tampered H (kc_request k))) (\<lambda>_.
     if trim phrase = [] then act_read (\<lambda>_. invalid CredentialRequired)
     else act_bind (credential_read sha (\<lambda>K. tier1_edit_credential_matches K (trim phrase))) (\<lambda>matches.
     if \<not> matches then act_read (\<lambda>_. invalid CredentialMismatch)
     else act_bind (machine_read protected_access_mode) (\<lambda>mode.
     act_bind (machine_read (protected_access_is_open L now False)) (\<lambda>access_open.
     if \<not> access_open then act_read (\<lambda>_. Inl (protected_access_closed_error ''Protected list edits'' mode))
     else act_bind (act_read (\<lambda>_. add_millis L (dt_utc now) (60000 * tier1_edit_unlock_minutes))) (\<lambda>expires_at.
     act_bind (put_state tier1_edit_unlock_until_key (hl_rfc3339 H expires_at) (dt_utc now)) (\<lambda>_.
     act_bind (machine_event ''tier1_edit_unlocked'' ''site_lists'' unlock_details (dt_utc now)) (\<lambda>_.
       credential_read sha (tier1_edit_status_json L H (rk_status (kc_request k)) now)))))))))"

text \<open>\<open>salt\<close> is what drawing a salt from the system gives.\<close>

definition configure_tier1_edit_credential_method ::
  "(u8 list \<Rightarrow> string) \<Rightarrow> control_clock \<Rightarrow> string + string \<Rightarrow> string \<Rightarrow> (machine, unit) action" where
  "configure_tier1_edit_credential_method sha k salt phrase =
     (let now = rk_updated_at (kc_request k) in
      if length (trim phrase) < 16 then act_read (\<lambda>_. invalid CredentialTooShort)
      else act_bind (credential_read sha tier1_edit_credential_configured) (\<lambda>configured.
      if configured then act_read (\<lambda>_. invalid CredentialConfigured)
      else act_bind (act_read (\<lambda>_. map_err DaemonIo salt)) (\<lambda>salt.
      act_bind (put_state tier1_edit_credential_salt_key salt now) (\<lambda>_.
      act_bind (credential_read sha (\<lambda>K _. Inr (tier1_edit_credential_hash K salt (trim phrase)))) (\<lambda>hash.
      act_bind (put_state tier1_edit_credential_hash_key hash now) (\<lambda>_.
        machine_event ''tier1_edit_credential_configured'' ''site_lists'' ''Daemon-owned Tier 1 credential configured'' now))))))"

text \<open>A file that is not there is no error.\<close>

definition hide_recovery_credentials_method :: "control_clock \<Rightarrow> (machine, unit) action" where
  "hide_recovery_credentials_method k =
     (let now = rk_updated_at (kc_request k) in
      act_bind (on_documents (remove_document tier1_edit_key_path)) (\<lambda>_.
      act_bind (on_documents (remove_document system_uninstall_recovery_phrase_path)) (\<lambda>_.
      act_bind (on_documents (act_bind (act_read (faulty ''write'' recovery_credentials_hidden_marker_path ())) (\<lambda>_.
          put_document recovery_credentials_hidden_marker_path (''hidden'' @ [CHR 0x0A])))) (\<lambda>_.
      act_bind (put_state tier1_edit_credential_salt_key [] now) (\<lambda>_.
      act_bind (put_state tier1_edit_credential_hash_key [] now) (\<lambda>_.
        machine_event ''recovery_credentials_hidden'' ''protected_changes''
          ''Removed /etc/blockuntu recovery credentials at the user's request'' now))))))"

section \<open>Settings\<close>

definition access_mode_keys :: "string list" where
  "access_mode_keys = [protected_access_mode_key, unsupported_browser_block_mode_key,
     chromium_incognito_change_access_mode_key]"

definition set_protected_access_mode :: "control_clock \<Rightarrow> access_mode \<Rightarrow> (machine, unit) action" where
  "set_protected_access_mode k mode =
     (let now = rk_updated_at (kc_request k) in
      act_bind (act_for access_mode_keys (\<lambda>key. put_state key (protected_access_mode_name mode) now)) (\<lambda>_.
        machine_event ''protected_access_mode_updated'' ''protected_changes''
          (''Protected list edits, uninstall, unsupported-browser blocking and Chromium private-browsing settings are available ''
            @ protected_access_mode_description mode) now))"

definition set_operator_window_restriction_method :: "control_clock \<Rightarrow> bool \<Rightarrow> (machine, bool) action" where
  "set_operator_window_restriction_method k enabled =
     act_bind (set_protected_access_mode k (if enabled then SundayEvening else AllTime)) (\<lambda>_. act_return enabled)"

text \<open>\<open>Utc::now\<close> is read again for the reply; its fixed offset is that of UTC.\<close>

definition set_unsupported_browser_block_mode_method ::
  "'u lib \<Rightarrow> control_clock \<Rightarrow> access_mode \<Rightarrow> (machine, bool) action" where
  "set_unsupported_browser_block_mode_method L k mode =
     act_bind (set_protected_access_mode k mode) (\<lambda>_.
       machine_read (unsupported_browser_block_is_active L \<lparr>dt_utc = kc_enforcement k, dt_offset = 0\<rparr> False))"

fun chromium_incognito_disable_scope_description :: "incognito_disable_scope \<Rightarrow> string" where
  "chromium_incognito_disable_scope_description DisableAllTime = ''at all times''"
| "chromium_incognito_disable_scope_description ActiveScheduleOrDetox = ''only while a schedule or Detox is active''"

definition incognito_mode_details :: "incognito_mode \<Rightarrow> incognito_policy_settings \<Rightarrow> string" where
  "incognito_mode_details mode settings =
     ''Chromium private browsing mode set to '' @ chromium_incognito_mode_name mode @ ''; ''
       @ show_nat (length (ip_url_blocklist settings)) @ '' URL policy pattern(s), ''
       @ show_nat (ip_unsupported_pattern_count settings) @ '' unsupported pattern(s)''"

definition set_chromium_incognito_mode_method ::
  "'u lib \<Rightarrow> 'f host_lib \<Rightarrow> json_lib \<Rightarrow> managers \<Rightarrow> control_clock \<Rightarrow> incognito_mode
     \<Rightarrow> (machine, (string \<times> policy_repair_status) list) action" where
  "set_chromium_incognito_mode_method L H J G k mode =
     act_bind (on_daemon (rpc_guarded_now_with_status L H (kc_request k) None)) (\<lambda>g.
     let now = gn_now g; tampered = (ci_state (gn_integrity g) = status_tampered) in
     act_bind (machine_read (ensure_chromium_incognito_settings_change_allowed L now tampered)) (\<lambda>_.
     act_bind (machine_read (chromium_incognito_policy_settings L now tampered mode)) (\<lambda>settings.
     act_bind (act_read (\<lambda>_. ensure_chromium_incognito_url_blocklist_within_limit settings)) (\<lambda>_.
     act_bind (put_state chromium_incognito_mode_key (chromium_incognito_mode_name mode) (dt_utc now)) (\<lambda>_.
     act_bind (machine_event ''chromium_incognito_mode_updated'' ''browser_policy''
        (incognito_mode_details mode settings) (dt_utc now)) (\<lambda>_.
       repair_chromium_policies_for_settings_change H J G (kc_enforcement k) settings))))))"

definition set_chromium_incognito_disable_scope_method ::
  "'u lib \<Rightarrow> 'f host_lib \<Rightarrow> json_lib \<Rightarrow> managers \<Rightarrow> control_clock \<Rightarrow> incognito_disable_scope
     \<Rightarrow> (machine, (string \<times> policy_repair_status) list) action" where
  "set_chromium_incognito_disable_scope_method L H J G k scope =
     act_bind (on_daemon (rpc_guarded_now_with_status L H (kc_request k) None)) (\<lambda>g.
     let now = gn_now g; tampered = (ci_state (gn_integrity g) = status_tampered) in
     act_bind (machine_read (ensure_chromium_incognito_settings_change_allowed L now tampered)) (\<lambda>_.
     act_bind (put_state chromium_incognito_disable_scope_key (chromium_incognito_disable_scope_name scope) (dt_utc now)) (\<lambda>_.
     act_bind (machine_read (current_chromium_incognito_policy_settings L now tampered)) (\<lambda>settings.
     act_bind (machine_event ''chromium_incognito_disable_scope_updated'' ''browser_policy''
        (''Chromium private browsing is disabled '' @ chromium_incognito_disable_scope_description scope) (dt_utc now)) (\<lambda>_.
       repair_chromium_policies_for_settings_change H J G (kc_enforcement k) settings)))))"

end
