(* ===== verification/Uninstall.thy ===== *)
theory Uninstall imports Controls begin

text \<open>
  The hand-over to an uninstall, \<open>prepare_uninstall\<close> of \<^verbatim>\<open>focusd/src/rpc.rs\<close>: it is refused while a Detox
  runs, needs an emergency code or a trusted clock and open access, leaves a lease for the package
  manager and takes the policies and the hosts block away.
\<close>

definition load_installation_serial :: "managers \<Rightarrow> document_store \<Rightarrow> daemon_error + string" where
  "load_installation_serial G docs =
     and_then (read_document (mg_installation_serial_path G) docs) (\<lambda>contents.
       case contents of
         None \<Rightarrow> Inl (DaemonIo ''not found'')
       | Some c \<Rightarrow> if installation_serial_is_valid (trim c) then Inr (trim c) else invalid SerialInvalid)"

definition emergency_uninstall_code_matches ::
  "('k, 's) signature_lib \<Rightarrow> managers \<Rightarrow> string \<Rightarrow> document_store \<Rightarrow> bool" where
  "emergency_uninstall_code_matches S G candidate docs =
     (case load_installation_serial G docs of
        Inl _ \<Rightarrow> False
      | Inr serial \<Rightarrow> emergency_uninstall_code_is_valid S candidate serial)"

text \<open>\<open>token\<close> is what drawing 32 bytes from the system gives, printed in hexadecimal.\<close>

definition write_package_removal_lease ::
  "string \<Rightarrow> string + string \<Rightarrow> instant \<Rightarrow> (document_store, string) action" where
  "write_package_removal_lease path token expires_at =
     act_bind (act_read (\<lambda>_. map_err DaemonIo token)) (\<lambda>token.
     act_bind (act_read (faulty ''stage'' path ())) (\<lambda>_.
     act_bind (put_document path (token @ '' '' @ show_int (expires_at div nanos_per_second) @ [CHR 0x0A])) (\<lambda>_.
       act_return token)))"

fun repair_status_debug :: "policy_repair_status \<Rightarrow> string" where
  "repair_status_debug PolicyCompliant = ''AlreadyCompliant''"
| "repair_status_debug PolicyRepaired = ''Repaired''"
| "repair_status_debug PolicySkippedInactive = ''SkippedInactive''"
| "repair_status_debug PolicySkippedDisabled = ''SkippedDisabled''"
| "repair_status_debug PolicySkippedDeferred = ''SkippedDeferred''"

fun hosts_status_debug :: "hosts_repair_status \<Rightarrow> string" where
  "hosts_status_debug AlreadyCompliant = ''AlreadyCompliant''"
| "hosts_status_debug Repaired = ''Repaired''"
| "hosts_status_debug SkippedInactive = ''SkippedInactive''"

text \<open>A map prints in the order of its keys.\<close>

definition repairs_debug :: "(string \<times> policy_repair_status) list \<Rightarrow> string" where
  "repairs_debug repairs =
     ''{'' @ join '', '' (map (\<lambda>(name, status). quoted name @ '': '' @ repair_status_debug status) (sort_key fst repairs)) @ ''}''"

definition uninstall_details ::
  "'f host_lib \<Rightarrow> bool \<Rightarrow> access_mode \<Rightarrow> instant \<Rightarrow> (string \<times> policy_repair_status) list
     \<Rightarrow> (string \<times> policy_repair_status) list \<Rightarrow> hosts_repair_status \<Rightarrow> string" where
  "uninstall_details H emergency_authorized mode until gecko chromium hosts =
     ''authorization='' @ (if emergency_authorized then ''emergency'' else ''protected_access:'' @ protected_access_mode_name mode)
       @ '';browser_extension_mode=uninstalling;until='' @ hl_rfc3339 H until
       @ '';gecko_policies='' @ repairs_debug gecko @ '';chromium_policies='' @ repairs_debug chromium
       @ '';hosts='' @ hosts_status_debug hosts"

definition ensure_no_detox :: "instant \<Rightarrow> focus_core \<Rightarrow> daemon_error + unit" where
  "ensure_no_detox now core =
     and_then (core_query (active_detox_sessions now) core) (\<lambda>sessions.
       if sessions \<noteq> [] then invalid UninstallDuringDetox else Inr ())"

text \<open>Whether the request may go on: the mode of access is read first, whatever the code.\<close>

definition authorize_uninstall ::
  "'u lib \<Rightarrow> 'f host_lib \<Rightarrow> ('k, 's) signature_lib \<Rightarrow> managers \<Rightarrow> control_clock \<Rightarrow> datetime \<Rightarrow> string option
     \<Rightarrow> (machine, bool \<times> access_mode) action" where
  "authorize_uninstall L H S G k operator_now emergency_code =
     act_bind (machine_read (ensure_no_detox (dt_utc operator_now))) (\<lambda>_.
     act_bind (machine_read protected_access_mode) (\<lambda>mode.
     act_bind (machine_read (protected_access_is_open L operator_now False)) (\<lambda>access_open.
     act_bind (act_read (\<lambda>s. Inr (case emergency_code of
         None \<Rightarrow> False
       | Some code \<Rightarrow> emergency_uninstall_code_matches S G code (mc_documents s)))) (\<lambda>emergency_authorized.
     if emergency_authorized then act_return (True, mode)
     else act_bind (on_daemon (reject_if_clock_tampered H (kc_request k))) (\<lambda>_.
       if \<not> access_open then act_read (\<lambda>_. Inl (protected_access_closed_error ''GUI uninstall'' mode))
       else act_return (False, mode))))))"

text \<open>The part under the lock that hands enforcement over.\<close>

definition hand_over ::
  "'f host_lib \<Rightarrow> managers \<Rightarrow> string + string \<Rightarrow> instant \<Rightarrow> instant \<Rightarrow> instant \<Rightarrow> (machine, string) action" where
  "hand_over H G token operator_now now until =
     act_bind (machine_read (ensure_no_detox operator_now)) (\<lambda>_.
     act_bind (on_documents (write_package_removal_lease (mg_package_removal_lease_path G) token until)) (\<lambda>lease.
     act_bind (put_state browser_extension_mode_key browser_extension_mode_uninstalling now) (\<lambda>_.
     act_bind (put_state browser_extension_uninstalling_until_key (hl_rfc3339 H until) now) (\<lambda>_.
       act_return lease))))"

record 'f uninstall_handoff =
  uh_uninstalling_until :: instant
  uh_package_removal_lease :: string
  uh_enforcement :: "'f enforcement_report"

definition prepare_uninstall ::
  "'u lib \<Rightarrow> 'f host_lib \<Rightarrow> json_lib \<Rightarrow> backup_lib \<Rightarrow> ('k, 's) signature_lib \<Rightarrow> managers \<Rightarrow> control_clock
     \<Rightarrow> string + string \<Rightarrow> string option \<Rightarrow> string option \<Rightarrow> (machine, 'f uninstall_handoff) action" where
  "prepare_uninstall L H J B S G k token emergency_code client_now =
     act_bind (on_daemon (on_hosts (act_return ()))) (\<lambda>_.
     act_bind (on_daemon (rpc_guarded_now L H (kc_request k) client_now)) (\<lambda>operator_now.
     act_bind (authorize_uninstall L H S G k operator_now emergency_code) (\<lambda>(emergency_authorized, mode).
     let now = rk_updated_at (kc_request k) in
     act_bind (act_read (\<lambda>_. add_millis L now (1000 * uninstall_handoff_seconds))) (\<lambda>until.
     act_bind (hand_over H G token (dt_utc operator_now) now until) (\<lambda>lease.
     act_bind (remove_gecko_policies_from_context J B G) (\<lambda>gecko.
     act_bind (remove_chromium_policies_from_context G) (\<lambda>chromium.
     act_bind (on_daemon (on_hosts remove_managed_block)) (\<lambda>hosts.
     act_bind (enforcement_status L H J G (kc_status k)) (\<lambda>enforcement.
     act_bind (machine_event ''uninstall_prepared'' ''system''
        (uninstall_details H emergency_authorized mode until gecko chromium hosts) now) (\<lambda>_.
       act_return \<lparr>uh_uninstalling_until = until, uh_package_removal_lease = lease, uh_enforcement = enforcement\<rparr>))))))))))"

section \<open>The requests\<close>

datatype control_request =
  StartDetox "string option" u32 "string list" "string list" "string option"
| CancelDetox string "string option"
| DetoxSessions u32 bool "string option"
| UnlockTier1Edit string "string option"
| ConfigureTier1EditCredential "string + string" string
| HideRecoveryCredentials
| Tier1EditStatus "string option"
| SetOperatorWindowRestriction bool
| SetProtectedAccessMode access_mode
| SetUnsupportedBrowserBlockMode access_mode
| SetChromiumIncognitoChangeAccessMode access_mode
| SetChromiumIncognitoMode incognito_mode
| SetChromiumIncognitoDisableScope incognito_disable_scope
| PrepareUninstall "string + string" "string option" "string option"
| EnforcementStatus

datatype 'f control_reply =
  DetoxStarted detox_session
| DetoxViews "detox_view list"
| EditStatus "'f tier1_edit_status"
| Repairs "(string \<times> policy_repair_status) list"
| HandedOver "'f uninstall_handoff"
| Enforcement "'f enforcement_report"
| Flag bool
| Done

definition answer :: "('a \<Rightarrow> 'b) \<Rightarrow> ('s, 'a) action \<Rightarrow> ('s, 'b) action" where
  "answer f m = act_bind m (\<lambda>x. act_return (f x))"

fun handle_control_request ::
  "'u lib \<Rightarrow> 'f host_lib \<Rightarrow> json_lib \<Rightarrow> backup_lib \<Rightarrow> ('k, 's) signature_lib \<Rightarrow> (u8 list \<Rightarrow> string) \<Rightarrow> managers
     \<Rightarrow> control_clock \<Rightarrow> control_request \<Rightarrow> (machine, 'f control_reply) action" where
  "handle_control_request L H J B S sha G k (StartDetox name minutes sites apps now) =
     answer DetoxStarted (start_detox_method L H J G k name minutes sites apps now)"
| "handle_control_request L H J B S sha G k (CancelDetox ident now) = answer (\<lambda>_. Done) (cancel_detox_method L H k ident now)"
| "handle_control_request L H J B S sha G k (DetoxSessions limit active_only now) =
     answer DetoxViews (detox_sessions_method L H k limit active_only now)"
| "handle_control_request L H J B S sha G k (UnlockTier1Edit phrase now) =
     answer EditStatus (unlock_tier1_edit_method L H sha k phrase now)"
| "handle_control_request L H J B S sha G k (ConfigureTier1EditCredential salt phrase) =
     answer (\<lambda>_. Done) (configure_tier1_edit_credential_method sha k salt phrase)"
| "handle_control_request L H J B S sha G k HideRecoveryCredentials = answer (\<lambda>_. Done) (hide_recovery_credentials_method k)"
| "handle_control_request L H J B S sha G k (Tier1EditStatus now) = answer EditStatus (tier1_edit_status_method L H sha k now)"
| "handle_control_request L H J B S sha G k (SetOperatorWindowRestriction enabled) =
     answer Flag (set_operator_window_restriction_method k enabled)"
| "handle_control_request L H J B S sha G k (SetProtectedAccessMode mode) = answer (\<lambda>_. Done) (set_protected_access_mode k mode)"
| "handle_control_request L H J B S sha G k (SetUnsupportedBrowserBlockMode mode) =
     answer Flag (set_unsupported_browser_block_mode_method L k mode)"
| "handle_control_request L H J B S sha G k (SetChromiumIncognitoChangeAccessMode mode) =
     answer (\<lambda>_. Done) (set_protected_access_mode k mode)"
| "handle_control_request L H J B S sha G k (SetChromiumIncognitoMode mode) =
     answer Repairs (set_chromium_incognito_mode_method L H J G k mode)"
| "handle_control_request L H J B S sha G k (SetChromiumIncognitoDisableScope scope) =
     answer Repairs (set_chromium_incognito_disable_scope_method L H J G k scope)"
| "handle_control_request L H J B S sha G k (PrepareUninstall token code now) =
     answer HandedOver (prepare_uninstall L H J B S G k token code now)"
| "handle_control_request L H J B S sha G k EnforcementStatus = answer Enforcement (enforcement_status L H J G (kc_status k))"

end
