(* ===== verification/Requests.thy ===== *)
theory Requests imports Uninstall EditMethods begin

text \<open>
  The requests of the extension and of the desktop about time (\<^verbatim>\<open>focusd/src/rpc.rs\<close>): unlocks and visits.
\<close>

definition request_unlock_method ::
  "'u lib \<Rightarrow> 'f host_lib \<Rightarrow> request_clock \<Rightarrow> string \<Rightarrow> string \<Rightarrow> string option \<Rightarrow> (daemon, unlock_state) action" where
  "request_unlock_method L H k target reason client_now =
     act_bind (rpc_guarded_now L H k client_now) (\<lambda>now.
     act_bind (reject_if_clock_tampered H k) (\<lambda>_.
       on_core (request_unlock_at L target reason now)))"

text \<open>A visit is recorded in the context of the request, whose clock may be taken as tampered with.\<close>

definition request_context :: "'f guarded \<Rightarrow> focus_core \<Rightarrow> evaluation_context" where
  "request_context g core =
     (context_new (fc_config core) (gn_now g))\<lparr>ec_clock_tampered := ci_state (gn_integrity g) = status_tampered\<rparr>"

definition in_request_context ::
  "'u lib \<Rightarrow> 'f host_lib \<Rightarrow> request_clock \<Rightarrow> string option \<Rightarrow> (evaluation_context \<Rightarrow> 'a operation) \<Rightarrow> (daemon, 'a) action" where
  "in_request_context L H k client_now m =
     act_bind (rpc_guarded_now_with_status L H k client_now) (\<lambda>g.
       on_core (\<lambda>core. on_db (m (request_context g core)) core))"

definition record_visit_start_method ::
  "'u lib \<Rightarrow> 'f host_lib \<Rightarrow> request_clock \<Rightarrow> string \<Rightarrow> string \<Rightarrow> string option \<Rightarrow> (daemon, visit_state) action" where
  "record_visit_start_method L H k url tab_id client_now =
     in_request_context L H k client_now (\<lambda>ctx. record_visit_start L ctx url tab_id)"

definition record_visit_heartbeat_method ::
  "'u lib \<Rightarrow> 'f host_lib \<Rightarrow> request_clock \<Rightarrow> int \<Rightarrow> string option \<Rightarrow> (daemon, unit) action" where
  "record_visit_heartbeat_method L H k visit_id client_now =
     in_request_context L H k client_now (\<lambda>ctx. record_visit_heartbeat ctx visit_id)"

definition record_visit_end_method ::
  "'u lib \<Rightarrow> 'f host_lib \<Rightarrow> request_clock \<Rightarrow> int \<Rightarrow> string option \<Rightarrow> (daemon, unit) action" where
  "record_visit_end_method L H k visit_id client_now =
     in_request_context L H k client_now (\<lambda>ctx. record_visit_end ctx visit_id)"

end
