(* ===== verification/BlockViews.thy ===== *)
theory BlockViews imports Requests Json begin

text \<open>
  What a blocked page is told, from \<^verbatim>\<open>focusd/src/rpc.rs\<close>: the reason with its texts, the schedules that are
  active, and \<open>free_at\<close>, the time at which the page may open again. Replies are JSON values; the texts of
  times, of errors and of a decision in the event log are the fields of \<open>text_lib\<close>.
\<close>

record text_lib =
  tx_rfc3339 :: "datetime \<Rightarrow> string"
  tx_json_time :: "instant \<Rightarrow> string"
  tx_error :: "error \<Rightarrow> string"
  tx_decision :: "decision \<Rightarrow> string"

section \<open>Ends of active windows\<close>

text \<open>Times outside the calendar of \<open>chrono\<close> panic, as the additions and \<open>expect\<close> of the code do.\<close>

definition datetime_at_minute :: "'u lib \<Rightarrow> datetime \<Rightarrow> int \<Rightarrow> u16 \<Rightarrow> daemon_error + datetime" where
  "datetime_at_minute L now day_offset minute =
     (let day = day_number (local_nanos now) + day_offset;
          utc = day * nanos_per_day + int (unat minute) * nanos_per_minute - dt_offset now * nanos_per_second in
      if first_day L \<le> day \<and> day \<le> last_day L \<and> first_day L \<le> day_number utc \<and> day_number utc \<le> last_day L
      then Inr \<lparr>dt_utc = utc, dt_offset = dt_offset now\<rparr>
      else Inl (DaemonCore (Panicked ''fixed offset local time should be unambiguous'')))"

definition window_active_until :: "'u lib \<Rightarrow> datetime \<Rightarrow> schedule_window \<Rightarrow> daemon_error + datetime option" where
  "window_active_until L now window =
     (let weekday = current_weekday L now; minute = current_minute now;
          start = minutes_after_midnight (sw_start window); stop = minutes_after_midnight (sw_end window);
          at = (\<lambda>day_offset. and_then (datetime_at_minute L now day_offset stop) (\<lambda>t. Inr (Some t))) in
      if start < stop
      then (if day_includes (sw_weekday window) weekday \<and> minute \<ge> start \<and> minute < stop then at 0 else Inr None)
      else if day_includes (sw_weekday window) weekday \<and> minute \<ge> start then at 1
      else if day_includes (sw_weekday window) (previous weekday) \<and> minute < stop then at 0
      else Inr None)"

text \<open>\<open>max\<close> compares the instants; of equal ones it takes the last.\<close>

definition latest :: "datetime option list \<Rightarrow> datetime option" where
  "latest ts = max_by_key dt_utc (filter_map (\<lambda>t. t) ts)"

definition schedule_active_until :: "'u lib \<Rightarrow> datetime \<Rightarrow> schedule_config \<Rightarrow> daemon_error + datetime option" where
  "schedule_active_until L now schedule =
     and_then (try_map (window_active_until L now) (sc_windows schedule)) (\<lambda>ts. Inr (latest ts))"

definition rule_schedules :: "rule_config \<Rightarrow> config \<Rightarrow> schedule_config list" where
  "rule_schedules rule config =
     filter_map (\<lambda>ident. find (\<lambda>schedule. sc_id schedule = ident) (cfg_schedules config)) (rc_schedule_ids rule)"

definition rule_schedule_inactive_at :: "'u lib \<Rightarrow> rule_config \<Rightarrow> config \<Rightarrow> datetime \<Rightarrow> daemon_error + datetime option" where
  "rule_schedule_inactive_at L rule config now =
     and_then (try_map (schedule_active_until L now) (rule_schedules rule config)) (\<lambda>ts. Inr (latest ts))"

definition next_allowance_reset_at :: "'u lib \<Rightarrow> datetime \<Rightarrow> daemon_error + datetime" where
  "next_allowance_reset_at L now = datetime_at_minute L now 1 0"

definition min_time :: "datetime \<Rightarrow> datetime \<Rightarrow> datetime" where
  "min_time a b = (if dt_utc b < dt_utc a then b else a)"

definition max_time :: "datetime \<Rightarrow> datetime \<Rightarrow> datetime" where
  "max_time a b = (if dt_utc a > dt_utc b then a else b)"

section \<open>Texts of a reason\<close>

definition rule_list_mode :: "config \<Rightarrow> string \<Rightarrow> list_mode" where
  "rule_list_mode config rule_id =
     (case find (\<lambda>rule. rc_id rule = rule_id) (cfg_rules config) of
        Some rule \<Rightarrow> rc_mode rule
      | None \<Rightarrow> (case find (\<lambda>rule. ac_id rule = rule_id) (cfg_app_rules config) of
          Some rule \<Rightarrow> ac_mode rule
        | None \<Rightarrow> Blocklist))"

fun controlled_reason_to_str :: "controlled_block_reason \<Rightarrow> string" where
  "controlled_reason_to_str NoAllowance = ''no_allowance''"
| "controlled_reason_to_str AllowanceExhausted = ''allowance_exhausted''"
| "controlled_reason_to_str UnlockRequired = ''unlock_required''"

fun controlled_reason_summary :: "list_mode \<Rightarrow> controlled_block_reason \<Rightarrow> string" where
  "controlled_reason_summary Allowlist NoAllowance = ''This site is outside the active Tier 3 allowlist.''"
| "controlled_reason_summary Allowlist AllowanceExhausted =
     ''This site is outside the active Tier 3 allowlist and its daily allowance is exhausted.''"
| "controlled_reason_summary Allowlist UnlockRequired =
     ''This site is outside the active Tier 3 allowlist and requires an unlock.''"
| "controlled_reason_summary Blocklist NoAllowance = ''This Tier 3 target needs an explicit unlock.''"
| "controlled_reason_summary Blocklist AllowanceExhausted = ''This Tier 3 target used up its daily allowance.''"
| "controlled_reason_summary Blocklist UnlockRequired = ''This Tier 3 target requires an unlock.''"

fun controlled_reason_detail :: "list_mode \<Rightarrow> controlled_block_reason \<Rightarrow> string" where
  "controlled_reason_detail Allowlist NoAllowance =
     ''No allowance is configured, so websites outside this allowlist are blocked unless a manual unlock is active.''"
| "controlled_reason_detail Allowlist AllowanceExhausted =
     ''The allowance for websites outside this allowlist has been consumed for the current accounting day.''"
| "controlled_reason_detail Allowlist UnlockRequired =
     ''Use the BlocKuntu GUI to request a temporary unlock for this non-allowlisted website.''"
| "controlled_reason_detail Blocklist NoAllowance =
     ''No allowance is configured for this list, so access is blocked unless an unlock is active.''"
| "controlled_reason_detail Blocklist AllowanceExhausted =
     ''The configured allowance has already been consumed for the current accounting day.''"
| "controlled_reason_detail Blocklist UnlockRequired =
     ''Use the BlocKuntu GUI to request a temporary unlock if policy allows it.''"

fun detox_target_kind_to_str :: "detox_target_kind \<Rightarrow> string" where
  "detox_target_kind_to_str SiteRuleTarget = ''site_rule''"
| "detox_target_kind_to_str AppRuleTarget = ''app_rule''"

definition json_option :: "('a \<Rightarrow> json) \<Rightarrow> 'a option \<Rightarrow> json" where
  "json_option f v = (case v of None \<Rightarrow> JNull | Some x \<Rightarrow> f x)"

definition with_entry :: "string \<Rightarrow> json \<Rightarrow> json \<Rightarrow> json" where
  "with_entry key v value = (case as_object value of None \<Rightarrow> value | Some m \<Rightarrow> JObject (map_insert key v m))"

section \<open>The reason\<close>

definition active_schedule_details ::
  "'u lib \<Rightarrow> text_lib \<Rightarrow> rule_config \<Rightarrow> config \<Rightarrow> datetime \<Rightarrow> daemon_error + json list" where
  "active_schedule_details L X rule config now =
     and_then (try_map (\<lambda>schedule. and_then (schedule_active_until L now schedule) (\<lambda>until.
         Inr (map_option (\<lambda>t. object_of [(''id'', JString (sc_id schedule)),
            (''name'', JString (case sc_name schedule of None \<Rightarrow> sc_id schedule | Some name \<Rightarrow> name)),
            (''active_until'', JString (tx_rfc3339 X t))]) until)))
       (rule_schedules rule config)) (\<lambda>found. Inr (filter_map (\<lambda>v. v) found))"

text \<open>When a Tier 3 block is over: the end of its schedules, or the next midnight for an exhausted allowance.\<close>

definition controlled_free_at ::
  "'u lib \<Rightarrow> controlled_block_reason \<Rightarrow> datetime option \<Rightarrow> datetime \<Rightarrow> daemon_error + datetime option" where
  "controlled_free_at L reason schedule_end now =
     (if reason = AllowanceExhausted
      then and_then (next_allowance_reset_at L now) (\<lambda>reset.
        Inr (Some (case schedule_end of None \<Rightarrow> reset | Some t \<Rightarrow> min_time t reset)))
      else Inr schedule_end)"

definition controlled_block_reason_to_json ::
  "'u lib \<Rightarrow> text_lib \<Rightarrow> string \<Rightarrow> string \<Rightarrow> list_mode \<Rightarrow> controlled_block_reason \<Rightarrow> config \<Rightarrow> datetime \<Rightarrow> daemon_error + json" where
  "controlled_block_reason_to_json L X rule_id rule_name mode reason config now =
     (let value = object_of [(''kind'', JString ''controlled_access''), (''tier'', JString ''tier_3''),
            (''rule_id'', JString rule_id), (''rule_name'', JString rule_name),
            (''list_mode'', JString (list_mode_to_str mode)),
            (''controlled_reason'', JString (controlled_reason_to_str reason)),
            (''summary'', JString (controlled_reason_summary mode reason)),
            (''detail'', JString (controlled_reason_detail mode reason))] in
      case find (\<lambda>rule. rc_id rule = rule_id) (cfg_rules config) of
        None \<Rightarrow> Inr value
      | Some rule \<Rightarrow>
          and_then (active_schedule_details L X rule config now) (\<lambda>schedules.
          and_then (rule_schedule_inactive_at L rule config now) (\<lambda>schedule_end.
          and_then (if reason = AllowanceExhausted then and_then (next_allowance_reset_at L now) (\<lambda>t. Inr (Some t)) else Inr None)
            (\<lambda>reset. and_then (controlled_free_at L reason schedule_end now) (\<lambda>free_at.
            let v1 = (if schedules = [] then value
                  else with_entry ''active_schedules'' (JArray schedules) (with_entry ''blocked_by'' (JString ''schedule'') value));
                v2 = (case reset of None \<Rightarrow> v1 | Some t \<Rightarrow> with_entry ''allowance_reset_at'' (JString (tx_rfc3339 X t)) v1)
            in Inr (case free_at of None \<Rightarrow> v2 | Some t \<Rightarrow> with_entry ''free_at'' (JString (tx_rfc3339 X t)) v2))))))"

definition block_reason_to_json ::
  "'u lib \<Rightarrow> text_lib \<Rightarrow> block_reason \<Rightarrow> config \<Rightarrow> datetime \<Rightarrow> daemon_error + json" where
  "block_reason_to_json L X reason config now =
     (case reason of
        InvalidUrl url \<Rightarrow> Inr (object_of [(''kind'', JString ''invalid_url''), (''url'', JString url),
          (''summary'', JString ''The URL could not be parsed safely.'')])
      | Detox session_id session_name rule_id rule_name target_kind ends_at \<Rightarrow>
          let mode = rule_list_mode config rule_id in
          Inr (object_of [(''kind'', JString ''detox''), (''blocked_by'', JString ''detox''),
            (''session_id'', JString session_id), (''session_name'', json_option JString session_name),
            (''rule_id'', JString rule_id), (''rule_name'', JString rule_name),
            (''target_kind'', JString (detox_target_kind_to_str target_kind)),
            (''list_mode'', JString (list_mode_to_str mode)),
            (''summary'', JString (if mode = Allowlist
               then ''This site is not on the allowlist selected for this Detox session.''
               else ''Detox is active for this target.'')),
            (''detail'', JString (if mode = Allowlist
               then ''Only websites on this allowlist are available until the Detox session ends or is cancelled from the privileged admin path.''
               else ''This temporary block stays active until the detox session ends or is cancelled from the privileged admin path.'')),
            (''detox_ends_at'', JString (tx_rfc3339 X \<lparr>dt_utc = ends_at, dt_offset = 0\<rparr>)),
            (''free_at'', JString (tx_rfc3339 X \<lparr>dt_utc = ends_at, dt_offset = dt_offset now\<rparr>))])
      | HardBlock rule_id rule_name \<Rightarrow>
          let mode = rule_list_mode config rule_id in
          Inr (object_of [(''kind'', JString ''hard_block''), (''tier'', JString ''tier_1''),
            (''rule_id'', JString rule_id), (''rule_name'', JString rule_name),
            (''list_mode'', JString (list_mode_to_str mode)),
            (''summary'', JString (if mode = Allowlist then ''This site is not on the active Tier 1 allowlist.''
               else ''This site is on a Tier 1 hard-block list.'')),
            (''detail'', JString (if mode = Allowlist
               then ''Only websites on this allowlist are available. Allowlist enforcement requires the browser extension.''
               else ''Tier 1 sites are always blocked and domain patterns are also eligible for the hosts-file fallback.'')),
            (''free_at'', JNull)])
      | ScheduledBlockReason rule_id rule_name \<Rightarrow>
          let mode = rule_list_mode config rule_id in
          and_then (case find (\<lambda>rule. rc_id rule = rule_id) (cfg_rules config) of
              None \<Rightarrow> Inr None
            | Some rule \<Rightarrow> rule_schedule_inactive_at L rule config now) (\<lambda>free_at.
          Inr (object_of [(''kind'', JString ''scheduled_block''), (''tier'', JString ''tier_2''),
            (''rule_id'', JString rule_id), (''rule_name'', JString rule_name),
            (''list_mode'', JString (list_mode_to_str mode)), (''blocked_by'', JString ''schedule''),
            (''summary'', JString (if mode = Allowlist then ''This site is not on the active Tier 2 allowlist.''
               else ''This target is on an active Tier 2 scheduled-block list.'')),
            (''detail'', JString (if mode = Allowlist
               then ''Only websites on this allowlist are available while its schedule is active. Allowlist enforcement requires the browser extension.''
               else ''Tier 2 cannot be bypassed with an allowance or manual unlock and domain rules also use the hosts-file fallback while active.'')),
            (''free_at'', json_option (\<lambda>t. JString (tx_rfc3339 X t)) free_at)]))
      | ControlledAccessReason rule_id rule_name controlled \<Rightarrow>
          controlled_block_reason_to_json L X rule_id rule_name (rule_list_mode config rule_id) controlled config now
      | RuntimeError e \<Rightarrow> Inr (object_of [(''kind'', JString ''runtime_error''), (''message'', JString (tx_error X e)),
          (''summary'', JString ''BlocKuntu hit a runtime error while evaluating this navigation.'')]))"

definition decision_to_json :: "'u lib \<Rightarrow> text_lib \<Rightarrow> decision \<Rightarrow> config \<Rightarrow> datetime \<Rightarrow> daemon_error + json" where
  "decision_to_json L X decision config now =
     (case decision of
        Allow \<Rightarrow> Inr (object_of [(''decision'', JString ''allow'')])
      | Block reason \<Rightarrow> and_then (block_reason_to_json L X reason config now) (\<lambda>r.
          Inr (object_of [(''decision'', JString ''block''), (''reason'', r)])))"

text \<open>A Tier 3 block under a Detox shows the later of the two ends, but no later than the next allowance.\<close>

definition detox_free_at ::
  "'u lib \<Rightarrow> controlled_block_reason \<Rightarrow> datetime option \<Rightarrow> detox_session \<Rightarrow> datetime \<Rightarrow> daemon_error + datetime" where
  "detox_free_at L reason schedule_end session now =
     (let detox_end = \<lparr>dt_utc = ds_ends_at session, dt_offset = dt_offset now\<rparr>;
          activation_end = (case schedule_end of None \<Rightarrow> detox_end | Some t \<Rightarrow> max_time t detox_end) in
      if reason = AllowanceExhausted
      then and_then (next_allowance_reset_at L now) (\<lambda>reset. Inr (min_time activation_end reset))
      else Inr activation_end)"

definition decorate_controlled_detox_reason ::
  "'u lib \<Rightarrow> text_lib \<Rightarrow> json \<Rightarrow> string \<Rightarrow> controlled_block_reason \<Rightarrow> detox_session \<Rightarrow> config \<Rightarrow> datetime \<Rightarrow> daemon_error + json" where
  "decorate_controlled_detox_reason L X response rule_id controlled session config now =
     (case get response ''reason'' of
        None \<Rightarrow> Inr response
      | Some reason \<Rightarrow> (case as_object reason of
          None \<Rightarrow> Inr response
        | Some _ \<Rightarrow>
            and_then (case find (\<lambda>rule. rc_id rule = rule_id) (cfg_rules config) of
                None \<Rightarrow> Inr None
              | Some rule \<Rightarrow> rule_schedule_inactive_at L rule config now) (\<lambda>schedule_end.
            and_then (detox_free_at L controlled schedule_end session now) (\<lambda>free_at.
              Inr (with_entry ''reason''
                (with_entry ''free_at'' (JString (tx_rfc3339 X free_at))
                (with_entry ''detox_ends_at'' (JString (tx_json_time X (ds_ends_at session)))
                (with_entry ''session_name'' (json_option JString (ds_name session))
                (with_entry ''session_id'' (JString (ds_id session))
                (with_entry ''blocked_by'' (JString (if schedule_end = None then ''detox'' else ''schedule_and_detox''))
                   reason))))) response)))))"

section \<open>The request\<close>

definition log_website_block ::
  "'u lib \<Rightarrow> text_lib \<Rightarrow> string \<Rightarrow> decision \<Rightarrow> instant \<Rightarrow> (focus_core, unit) action" where
  "log_website_block L X url decision now =
     act_bind (on_db (record_event ''url_blocked'' (Some url) (Some (Details (tx_decision X decision))) now)) (\<lambda>_.
       act_ignore (enqueue_website_block_notification L url decision now))"

definition detox_of_rule :: "string \<Rightarrow> detox_session list \<Rightarrow> detox_session option" where
  "detox_of_rule rule_id sessions =
     max_by_key (\<lambda>session. ds_ends_at session div 1000) (filter (\<lambda>session. rule_id \<in> set (ds_site_rule_ids session)) sessions)"

definition evaluate_url_method ::
  "'u lib \<Rightarrow> 'f host_lib \<Rightarrow> text_lib \<Rightarrow> request_clock \<Rightarrow> string \<Rightarrow> bool \<Rightarrow> string option \<Rightarrow> (daemon, json) action" where
  "evaluate_url_method L H X k url probe client_now =
     act_bind (rpc_guarded_now_with_status L H k client_now) (\<lambda>g.
     let now = gn_now g; tampered = (ci_state (gn_integrity g) = status_tampered) in
     act_bind (core_read (enforcement_active_from_core H (rk_enforcement k))) (\<lambda>enforced.
     if \<not> enforced then act_return (object_of [(''decision'', JString ''allow''),
          (''metering_active'', JBool False), (''enforcement_state'', JString ''uninstalling'')])
     else act_bind (core_read (\<lambda>core. Inr (evaluate_url L (request_context g core) url (fc_database core)))) (\<lambda>decision.
     act_bind (act_when (is_block decision \<and> \<not> probe) (on_core (log_website_block L X url decision (dt_utc now)))) (\<lambda>_.
     act_bind (core_read (\<lambda>core. Inr (is_allow decision
        \<and> site_usage_is_metered L (request_context g core) url (fc_database core)))) (\<lambda>metering_active.
     act_bind (core_read (\<lambda>core. decision_to_json L X decision (fc_config core) now)) (\<lambda>response.
     act_bind (case decision of
          Block (ControlledAccessReason rule_id _ reason) \<Rightarrow>
            act_bind (core_read (core_query (if tampered then uncancelled_detox_sessions
                else active_detox_sessions (dt_utc now)))) (\<lambda>sessions.
              case detox_of_rule rule_id sessions of
                None \<Rightarrow> act_return response
              | Some session \<Rightarrow> core_read (\<lambda>core.
                  decorate_controlled_detox_reason L X response rule_id reason session (fc_config core) now))
        | _ \<Rightarrow> act_return response) (\<lambda>response.
       act_return (with_entry ''metering_active'' (JBool metering_active) response))))))))"


section \<open>The end shown is one\<close>

lemma datetime_at_window_end:
  assumes "datetime_at_minute L now k (minutes_after_midnight e) = Inr t"
  shows "dt_offset t = dt_offset now \<and> dt_utc t = local_instant (dt_offset now) (day_number (local_nanos now) + k) e"
  using assms unfolding datetime_at_minute_def Let_def local_instant_minutes tod_minutes_def
  by (auto split: if_splits)

lemma window_active_until_covers:
  assumes "calendar_ok L" "tod_valid (sw_start w)" "tod_valid (sw_end w)"
    and u: "window_active_until L now w = Inr found"
  shows "case found of
      None \<Rightarrow> \<not> window_is_active (current_weekday L now) (current_minute now) w
    | Some t \<Rightarrow> dt_offset t = dt_offset now \<and> dt_utc now < dt_utc t
        \<and> (\<forall>v. dt_utc now \<le> v \<and> v < dt_utc t \<longrightarrow> window_covers L (dt_offset now) w v)"
proof -
  define off where "off = dt_offset now"
  define today where "today = day_number (local_nanos now)"
  have ns: "dt_utc now + off * nanos_per_second = local_nanos now" by (simp add: off_def local_nanos_def)
  have day: "current_weekday L now = weekday_from (day_weekday L today)"
    "previous (weekday_from (day_weekday L today)) = weekday_from (day_weekday L (today - 1))"
    using assms(1) by (simp_all add: calendar_ok_def current_weekday_def today_def)
  have cmp: "minutes_after_midnight a \<le> current_minute now \<longleftrightarrow> tod_minutes a \<le> minute_of_day (local_nanos now)"
    "current_minute now < minutes_after_midnight a \<longleftrightarrow> minute_of_day (local_nanos now) < tod_minutes a"
    "minutes_after_midnight a < minutes_after_midnight b \<longleftrightarrow> tod_minutes a < tod_minutes b" for a b
    using current_minute_value [of now] by (simp_all add: tod_minutes_def word_le_def word_less_def)
  have span: "dt_offset t = off \<and> dt_utc now < dt_utc t \<and> (\<forall>v. dt_utc now \<le> v \<and> v < dt_utc t \<longrightarrow> window_covers L off w v)"
    if "datetime_at_minute L now k (minutes_after_midnight (sw_end w)) = Inr t"
      and "day_includes (sw_weekday w) (weekday_from (day_weekday L d))"
      and "local_instant off d (sw_start w) \<le> dt_utc now \<and> dt_utc now < window_end off d w"
      and "today + k = (if sw_start w < sw_end w then d else d + 1)" for k t d
    using datetime_at_window_end [OF that(1)] that(2-)
    by (auto simp: window_covers_def window_end_def off_def today_def intro!: exI [of _ d])
  have order: "sw_start w < sw_end w \<longleftrightarrow> tod_minutes (sw_start w) < tod_minutes (sw_end w)"
    using tod_less_minutes [OF assms(2,3)] by (simp add: tod_minutes_def word_less_def)
  note inside = window_covers_day [OF assms(2,3), of off _ "dt_utc now", unfolded ns Let_def, folded today_def]
  show ?thesis
    using u span [of 0 _ today] span [of 1 _ today] span [of 0 _ "today - 1"]
    unfolding window_active_until_def window_is_active_def Let_def day cmp inside order off_def [symmetric]
    by (auto simp: and_then_Inr_iff split: if_splits option.splits)
qed

lemma try_map_found: "try_map f xs = Inr ys \<Longrightarrow> set ys = {y. \<exists>x\<in>set xs. f x = Inr y} \<and> (\<forall>x\<in>set xs. \<exists>y. f x = Inr y)"
  by (induction xs arbitrary: ys) (auto simp: and_then_Inr_iff)

text \<open>
  C40. The end a blocked page shows for a schedule is one. No end is shown exactly when the schedule is
  not active; an end that is shown lies ahead, and the schedule stays active until it.
\<close>

theorem shown_end_is_active_throughout:
  assumes "calendar_ok L" "schedule_valid s" "schedule_active_until L now s = Inr found"
  shows "case found of
      None \<Rightarrow> \<not> schedule_is_active L s now
    | Some t \<Rightarrow> dt_utc now < dt_utc t
        \<and> (\<forall>v. dt_utc now \<le> v \<and> v < dt_utc t \<longrightarrow> schedule_is_active L s (at_offset (dt_offset now) v))"
proof -
  obtain ts where ts: "try_map (window_active_until L now) (sc_windows s) = Inr ts" "found = latest ts"
    using assms(3) by (auto simp: schedule_active_until_def and_then_Inr_iff)
  have part: "case u of None \<Rightarrow> \<not> window_is_active (current_weekday L now) (current_minute now) w
    | Some t \<Rightarrow> dt_offset t = dt_offset now \<and> dt_utc now < dt_utc t
        \<and> (\<forall>v. dt_utc now \<le> v \<and> v < dt_utc t \<longrightarrow> window_covers L (dt_offset now) w v)"
    if "w \<in> set (sc_windows s)" "window_active_until L now w = Inr u" for w u
    using window_active_until_covers [OF assms(1) _ _ that(2)] assms(2) that(1) by (simp add: schedule_valid_def)
  show ?thesis
  proof (cases found)
    case None
    then have "set (filter_map (\<lambda>t. t) ts) = {}" using ts(2) by (simp add: latest_def)
    then have "set ts \<subseteq> {None}" by (auto simp: set_filter_map) (metis not_None_eq)
    then show ?thesis using None try_map_found [OF ts(1)] part by (force simp: schedule_is_active_def list_ex_iff)
  next
    case (Some t)
    then have "Some t \<in> set ts" using ts(2) max_by_key_greatest [of dt_utc "filter_map (\<lambda>t. t) ts" t]
      by (auto simp: latest_def set_filter_map)
    then obtain w where "w \<in> set (sc_windows s)" "window_active_until L now w = Inr (Some t)"
      using try_map_found [OF ts(1)] by auto
    from this part [OF this] show ?thesis
      by (auto simp: Some schedule_active_covers [OF assms(1,2)] schedule_covers_def)
  qed
qed

text \<open>The Monday window of the night schedule ends on Tuesday at ten, its Tuesday window at noon.\<close>

theorem shown_end_is_active_throughout_witness:
  "schedule_is_active sample_lib night_schedule (at_offset 0 tuesday_ten)"
proof -
  let ?noon = "\<lparr>dt_utc = tuesday_ten + 120 * nanos_per_minute, dt_offset = 0\<rparr>"
  have "schedule_active_until sample_lib (at_offset 0 tuesday_eight) night_schedule = Inr (Some ?noon)"
    by code_simp
  from shown_end_is_active_throughout [OF sample_calendar(1) night_schedule_valid this]
  show ?thesis by (simp add: tuesday_eight_def tuesday_ten_def nanos_defs)
qed

end
