(* ===== verification/ProcessScan.thy ===== *)
theory ProcessScan imports Browsers Emergency begin

text \<open>
  The process table, \<^verbatim>\<open>focusd/src/process_scan.rs\<close>: what is read of a directory of \<^verbatim>\<open>/proc\<close>, which processes
  are part of BlocKuntu or descend from it, which browser a process is, and the signals. What the
  system gives for the files, the window list and the signals is data; a path is the text it displays.
\<close>

record process_info =
  px_pid :: u32
  px_parent_pid :: "u32 option"
  px_user_id :: "u32 option"
  px_process_group_id :: "u32 option"
  px_session_id :: "u32 option"
  px_start_time_ticks :: "64 word option"
  px_executable_path :: "string option"
  px_executable_basename :: "string option"
  px_command_name :: "string option"
  px_desktop_id :: "string option"
  px_window_titles :: "string list"

section \<open>Texts and paths\<close>

definition parse_u32 :: "string \<Rightarrow> u32 option" where
  "parse_u32 s = map_option of_nat (parse_unsigned (2 ^ 32 - 1) s)"

definition parse_u64 :: "string \<Rightarrow> 64 word option" where
  "parse_u64 s = map_option of_nat (parse_unsigned (2 ^ 64 - 1) s)"

text \<open>For evaluation the same over \<open>int\<close>, whose numerals are binary.\<close>

fun digits_value_int :: "int \<Rightarrow> string \<Rightarrow> int option" where
  "digits_value_int acc [] = Some acc"
| "digits_value_int acc (c # s) =
     (if is_ascii_digit c then digits_value_int (10 * acc + (of_char c - 48)) s else None)"

definition parse_unsigned_int :: "int \<Rightarrow> string \<Rightarrow> int option" where
  "parse_unsigned_int bound s =
     (let body = (case s of c # t \<Rightarrow> if c = CHR ''+'' then t else s | [] \<Rightarrow> [])
      in if body = [] then None
         else (case digits_value_int 0 body of
                 None \<Rightarrow> None
               | Some n \<Rightarrow> if n \<le> bound then Some n else None))"

lemma digits_value_int: "digits_value_int (int acc) s = map_option int (digits_value acc s)"
proof (induction acc s rule: digits_value.induct)
  case (2 acc c s)
  have "of_char c - 48 = int (code_point c - 48)" if "is_ascii_digit c"
    using that by (simp add: is_ascii_digit_def code_point_def of_nat_diff Let_def of_nat_of_char)
  then show ?case using 2 by simp
qed simp

lemma parse_unsigned_int: "parse_unsigned_int (int bound) s = map_option int (parse_unsigned bound s)"
  using digits_value_int [of 0]
  by (auto simp: parse_unsigned_int_def parse_unsigned_def Let_def split: list.splits option.splits)

lemma parse_words_code [code]:
  "parse_u32 s = map_option word_of_int (parse_unsigned_int 4294967295 s)"
  "parse_u64 s = map_option word_of_int (parse_unsigned_int 18446744073709551615 s)"
  using parse_unsigned_int [of "2 ^ 32 - 1" s] parse_unsigned_int [of "2 ^ 64 - 1" s]
  by (simp_all add: parse_u32_def parse_u64_def option.map_comp comp_def)

text \<open>\<open>str::lines\<close>: a carriage return goes with the line feed after it, and no line is left after the last.\<close>

definition strip_return :: "string \<Rightarrow> string" where
  "strip_return s = (if s \<noteq> [] \<and> last s = CHR 0x0D then butlast s else s)"

definition str_lines :: "string \<Rightarrow> string list" where
  "str_lines s = (let ls = split_on (CHR 0x0A) s in
     map strip_return (butlast ls) @ (if last ls = [] then [] else [last ls]))"

definition after_last :: "char \<Rightarrow> string \<Rightarrow> string option" where
  "after_last c s = (if c \<in> set s then Some (rev (takeWhile (\<lambda>d. d \<noteq> c) (rev s))) else None)"

definition find_map :: "('a \<Rightarrow> 'b option) \<Rightarrow> 'a list \<Rightarrow> 'b option" where
  "find_map f xs = (case filter_map f xs of [] \<Rightarrow> None | y # _ \<Rightarrow> Some y)"

text \<open>\<open>Path\<close> ignores repeated and trailing slashes and the component \<open>.\<close>; \<open>..\<close> is no file name.\<close>

definition path_components :: "string \<Rightarrow> string list" where
  "path_components path = filter (\<lambda>c. c \<noteq> '''' \<and> c \<noteq> ''.'') (split_on (CHR ''/'') path)"

definition path_file_name :: "string \<Rightarrow> string option" where
  "path_file_name path = (case rev (path_components path) of
       [] \<Rightarrow> None
     | c # _ \<Rightarrow> if c = ''..'' then None else Some c)"

definition absolute_path :: "string \<Rightarrow> bool" where
  "absolute_path path \<longleftrightarrow> starts_with path ''/''"

definition path_starts_with :: "string \<Rightarrow> string \<Rightarrow> bool" where
  "path_starts_with path base \<longleftrightarrow> absolute_path path = absolute_path base
     \<and> prefix (path_components base) (path_components path)"

text \<open>\<open>std::str::from_utf8\<close> for texts of the first Unicode block, the inverse of \<open>utf8_bytes\<close>.\<close>

fun utf8_text :: "u8 list \<Rightarrow> string option" where
  "utf8_text [] = Some []"
| "utf8_text (b # bs) =
     (if b < 128 then map_option ((#) (char_of (unat b))) (utf8_text bs)
      else case bs of
        c # cs \<Rightarrow> if (b = 0xC2 \<or> b = 0xC3) \<and> 0x80 \<le> c \<and> c < 0xC0
                  then map_option ((#) (char_of (unat ((b - 0xC0) * 64 + (c - 0x80))))) (utf8_text cs) else None
      | [] \<Rightarrow> None)"

fun split_bytes :: "u8 list \<Rightarrow> u8 list list" where
  "split_bytes [] = [[]]"
| "split_bytes (b # bs) =
     (if b = 0 then [] # split_bytes bs else (case split_bytes bs of [] \<Rightarrow> [[b]] | w # ws \<Rightarrow> (b # w) # ws))"

section \<open>What is read of a process\<close>

definition desktop_id_from_path_or_value :: "string \<Rightarrow> string option" where
  "desktop_id_from_path_or_value value =
     (case path_file_name value of Some name \<Rightarrow> Some name | None \<Rightarrow> if value = [] then None else Some value)"

fun desktop_id_from_entries :: "u8 list list \<Rightarrow> string option" where
  "desktop_id_from_entries [] = None"
| "desktop_id_from_entries (bytes # rest) =
     (case utf8_text bytes of
        None \<Rightarrow> desktop_id_from_entries rest
      | Some entry \<Rightarrow>
          (case strip_prefix ''GIO_LAUNCHED_DESKTOP_FILE='' entry of
             Some value \<Rightarrow> desktop_id_from_path_or_value value
           | None \<Rightarrow> (case strip_prefix ''FLATPAK_ID='' entry of
               Some value \<Rightarrow> Some (value @ ''.desktop'')
             | None \<Rightarrow> desktop_id_from_entries rest)))"

definition desktop_id_from_environ :: "u8 list \<Rightarrow> string option" where
  "desktop_id_from_environ environ = desktop_id_from_entries (split_bytes environ)"

fun desktop_id_from_parts :: "string list \<Rightarrow> string option" where
  "desktop_id_from_parts [] = None"
| "desktop_id_from_parts (part # rest) =
     (case strip_prefix ''--desktopfile='' part of
        Some value \<Rightarrow> desktop_id_from_path_or_value value
      | None \<Rightarrow> if part = ''--desktopfile'' \<and> rest \<noteq> [] then desktop_id_from_path_or_value (hd rest)
          else desktop_id_from_parts rest)"

definition desktop_id_from_cmdline :: "u8 list \<Rightarrow> string option" where
  "desktop_id_from_cmdline cmdline =
     desktop_id_from_parts (filter (\<lambda>part. part \<noteq> []) (filter_map utf8_text (split_bytes cmdline)))"

definition real_user_id_from_status :: "string \<Rightarrow> u32 option" where
  "real_user_id_from_status status = find_map (\<lambda>line.
     case strip_prefix ''Uid:'' line of
       None \<Rightarrow> None
     | Some rest \<Rightarrow> (case split_whitespace rest of [] \<Rightarrow> None | word # _ \<Rightarrow> parse_u32 word)) (str_lines status)"

text \<open>Fields follow the last closing bracket, since a command name may contain one.\<close>

definition process_relationships_from_stat ::
  "string \<Rightarrow> (u32 option \<times> u32 option \<times> u32 option \<times> 64 word option) option" where
  "process_relationships_from_stat stat =
     (case after_last (CHR '')'') stat of
        None \<Rightarrow> None
      | Some rest \<Rightarrow> let fields = split_whitespace rest in
          if length fields \<le> 19 then None
          else Some (parse_u32 (fields ! 1), parse_u32 (fields ! 2), parse_u32 (fields ! 3), parse_u64 (fields ! 19)))"

text \<open>An entry of \<^verbatim>\<open>/proc\<close>: its name and, where they can be read, its link and files.\<close>

record proc_entry =
  pe_name :: "string option"
  pe_exe :: "string option"
  pe_comm :: "string option"
  pe_stat :: "string option"
  pe_status :: "string option"
  pe_environ :: "u8 list option"
  pe_cmdline :: "u8 list option"

definition desktop_id_from_process_dir :: "proc_entry \<Rightarrow> string option" where
  "desktop_id_from_process_dir entry =
     (case Option.bind (pe_environ entry) desktop_id_from_environ of
        Some ident \<Rightarrow> Some ident
      | None \<Rightarrow> Option.bind (pe_cmdline entry) desktop_id_from_cmdline)"

definition process_of_entry :: "proc_entry \<Rightarrow> process_info option" where
  "process_of_entry entry =
     (case Option.bind (pe_name entry) parse_u32 of
        None \<Rightarrow> None
      | Some pid \<Rightarrow>
          let (parent, group_id, session, ticks) =
            (case Option.bind (pe_stat entry) process_relationships_from_stat of
               None \<Rightarrow> (None, None, None, None) | Some r \<Rightarrow> r) in
          Some \<lparr>px_pid = pid, px_parent_pid = parent,
            px_user_id = Option.bind (pe_status entry) real_user_id_from_status,
            px_process_group_id = group_id, px_session_id = session, px_start_time_ticks = ticks,
            px_executable_path = pe_exe entry,
            px_executable_basename = Option.bind (pe_exe entry) path_file_name,
            px_command_name = (case pe_comm entry of None \<Rightarrow> None
              | Some c \<Rightarrow> if trim c = [] then None else Some (trim c)),
            px_desktop_id = desktop_id_from_process_dir entry, px_window_titles = []\<rparr>)"

definition scan_procfs :: "string + (string + proc_entry) list \<Rightarrow> daemon_error + process_info list" where
  "scan_procfs directory =
     and_then (map_err DaemonIo directory) (\<lambda>entries.
     and_then (try_map (map_err DaemonIo) entries) (\<lambda>entries.
       Inr (filter_map process_of_entry entries)))"

definition process_identity_of :: "process_info \<Rightarrow> process_identity" where
  "process_identity_of process = \<lparr>pi_pid = Some (px_pid process), pi_executable_path = px_executable_path process,
     pi_executable_basename = px_executable_basename process, pi_command_name = px_command_name process,
     pi_desktop_id = px_desktop_id process, pi_window_titles = px_window_titles process\<rparr>"

section \<open>Window titles\<close>

definition title_of_line :: "string \<Rightarrow> (u32 \<times> string) option" where
  "title_of_line line =
     (let parts = split_whitespace line in
      if length parts < 5 then None
      else case parse_u32 (parts ! 2) of
        None \<Rightarrow> None
      | Some pid \<Rightarrow> if pid = 0 then None
          else let title = join '' '' (drop 4 parts) in if trim title = [] then None else Some (pid, title))"

definition parse_wmctrl_titles :: "string \<Rightarrow> u32 \<rightharpoonup> string list" where
  "parse_wmctrl_titles out =
     fold (\<lambda>(pid, title) titles. titles(pid \<mapsto> (case titles pid of None \<Rightarrow> [] | Some ts \<Rightarrow> ts) @ [title]))
       (filter_map title_of_line (str_lines out)) Map.empty"

datatype command_result = CommandMissing | CommandError string | CommandDone bool string

definition titles_by_pid :: "command_result \<Rightarrow> daemon_error + (u32 \<rightharpoonup> string list)" where
  "titles_by_pid result =
     (case result of
        CommandMissing \<Rightarrow> Inr Map.empty
      | CommandError e \<Rightarrow> Inl (DaemonIo e)
      | CommandDone success out \<Rightarrow> Inr (if success then parse_wmctrl_titles out else Map.empty))"

definition merge_titles_into_processes :: "(u32 \<rightharpoonup> string list) \<Rightarrow> process_info list \<Rightarrow> process_info list" where
  "merge_titles_into_processes titles = map (\<lambda>process.
     case titles (px_pid process) of None \<Rightarrow> process | Some ts \<Rightarrow> process\<lparr>px_window_titles := ts\<rparr>)"

definition attach_window_titles ::
  "daemon_error + (u32 \<rightharpoonup> string list) \<Rightarrow> process_info list \<Rightarrow> daemon_error + process_info list" where
  "attach_window_titles provided processes =
     and_then provided (\<lambda>titles. Inr (merge_titles_into_processes titles processes))"

record window_title_support =
  ws_available :: bool
  ws_provider :: "string option"
  ws_session_type :: "string option"
  ws_detail :: string

definition detect_window_titles :: "string option \<Rightarrow> command_result \<Rightarrow> (u32 \<rightharpoonup> string list) \<times> window_title_support" where
  "detect_window_titles session_variable wmctrl =
     (let session_type = (case session_variable of None \<Rightarrow> None | Some v \<Rightarrow> if trim v = [] then None else Some v);
          available = (session_type = Some ''x11'') in
      (if available then (case titles_by_pid wmctrl of Inl _ \<Rightarrow> Map.empty | Inr titles \<Rightarrow> titles) else Map.empty,
       \<lparr>ws_available = available, ws_provider = (if available then Some ''wmctrl'' else None), ws_session_type = session_type,
        ws_detail = (if available then ''Open windows uses wmctrl and is only supported on X11.''
          else ''Open windows is unavailable in this session. BlocKuntu only supports window-based filtering on X11 via wmctrl.'')\<rparr>))"

definition attach_detected_window_titles ::
  "string option \<Rightarrow> command_result \<Rightarrow> process_info list \<Rightarrow> process_info list \<times> window_title_support" where
  "attach_detected_window_titles session_variable wmctrl processes =
     (let (titles, support) = detect_window_titles session_variable wmctrl in
      (merge_titles_into_processes titles processes, support))"

section \<open>Processes an application allowlist spares\<close>

definition any_name :: "(string \<Rightarrow> bool) \<Rightarrow> string option list \<Rightarrow> bool" where
  "any_name P names \<longleftrightarrow> list_ex P (filter_map (\<lambda>name. name) names)"

definition process_is_blockuntu_component :: "process_info \<Rightarrow> bool" where
  "process_is_blockuntu_component process \<longleftrightarrow>
     any_name (\<lambda>value. starts_with (to_ascii_lowercase (trim value)) ''blockuntu'')
       [px_command_name process, px_executable_basename process, px_desktop_id process]"

definition application_allowlist_process_is_exempt :: "process_info \<Rightarrow> bool" where
  "application_allowlist_process_is_exempt process \<longleftrightarrow>
     (case px_user_id process of None \<Rightarrow> True | Some user_id \<Rightarrow> \<not> (1000 \<le> user_id \<and> user_id < 65534))
     \<or> any_name (\<lambda>value. starts_with (to_ascii_lowercase (trim value)) ''blockuntu'')
         [px_command_name process, px_executable_basename process, px_desktop_id process]"

text \<open>A map collected from a list keeps the last entry of a key.\<close>

definition processes_by_pid :: "process_info list \<Rightarrow> u32 \<rightharpoonup> process_info" where
  "processes_by_pid processes = map_of (rev (map (\<lambda>process. (px_pid process, process)) processes))"

definition parent_of :: "(u32 \<rightharpoonup> process_info) \<Rightarrow> u32 \<Rightarrow> u32 option" where
  "parent_of by_pid pid = Option.bind (by_pid pid) px_parent_pid"

text \<open>The walk to the ancestors stops at a process seen before, and there are finitely many ids.\<close>

function descends_walk :: "u32 set \<Rightarrow> (u32 \<rightharpoonup> process_info) \<Rightarrow> u32 \<Rightarrow> u32 list \<Rightarrow> bool" where
  "descends_walk ancestors by_pid pid visited =
     (if pid \<in> set visited then False
      else if pid \<in> ancestors then True
      else case parent_of by_pid pid of
        None \<Rightarrow> False
      | Some parent \<Rightarrow> if parent = 0 \<or> parent = pid then False else descends_walk ancestors by_pid parent (pid # visited))"
  by auto
termination
  by (relation "measure (\<lambda>(_, _, _, visited). card (UNIV - set visited))")
    (auto intro!: diff_less simp: card_gt_0_iff, blast)

declare descends_walk.simps [simp del]

definition process_descends_from_any :: "u32 \<Rightarrow> u32 set \<Rightarrow> (u32 \<rightharpoonup> process_info) \<Rightarrow> bool" where
  "process_descends_from_any pid ancestors by_pid = descends_walk ancestors by_pid pid []"

definition application_allowlist_exempt_process_ids :: "process_info list \<Rightarrow> u32 set" where
  "application_allowlist_exempt_process_ids processes =
     (let blockuntu_pids = px_pid ` set (filter process_is_blockuntu_component processes) in
      px_pid ` set (filter (\<lambda>process. application_allowlist_process_is_exempt process
        \<or> process_descends_from_any (px_pid process) blockuntu_pids (processes_by_pid processes)) processes))"

section \<open>Browsers\<close>

definition matches_normalized :: "string \<Rightarrow> string list \<Rightarrow> bool" where
  "matches_normalized value expected_values \<longleftrightarrow> to_ascii_lowercase (trim value) \<in> set expected_values"

fun browser_names :: "supported_browser \<Rightarrow> string list" where
  "browser_names Firefox = [''firefox'', ''firefox-esr'', ''firefox-bin'', ''firefox.desktop'', ''org.mozilla.firefox.desktop'']"
| "browser_names LibreWolf = [''librewolf'', ''librewolf.desktop'', ''io.gitlab.librewolf-community.desktop'']"
| "browser_names Waterfox = [''waterfox'', ''waterfox-bin'', ''waterfox.desktop'', ''net.waterfox.waterfox.desktop'']"
| "browser_names Chrome = [''chrome'', ''google-chrome'', ''google-chrome-stable'', ''google-chrome-beta'',
     ''google-chrome-unstable'', ''google-chrome.desktop'', ''com.google.chrome.desktop'']"
| "browser_names Chromium = [''chromium'', ''chromium-browser'', ''chromium.desktop'', ''org.chromium.chromium.desktop'']"
| "browser_names Brave = [''brave'', ''brave-browser'', ''brave-browser.desktop'', ''com.brave.browser.desktop'']"
| "browser_names Opera = [''opera'', ''opera-stable'', ''opera.desktop'', ''com.opera.opera.desktop'']"
| "browser_names Edge = [''microsoft-edge'', ''microsoft-edge-stable'', ''msedge'', ''msedge-beta'', ''msedge-dev'',
     ''msedge-canary'', ''microsoft-edge.desktop'', ''com.microsoft.edge.desktop'']"
| "browser_names Vivaldi = [''vivaldi'', ''vivaldi-stable'', ''vivaldi-bin'', ''vivaldi.desktop'', ''vivaldi-stable.desktop'',
     ''com.vivaldi.vivaldi.desktop'']"

text \<open>The names are tried browser by browser, in the order of \<open>MANAGED\<close>.\<close>

definition supported_browser_for_process :: "process_identity \<Rightarrow> supported_browser option" where
  "supported_browser_for_process process =
     (if (case pi_executable_path process of None \<Rightarrow> False | Some path \<Rightarrow> starts_with path ''/snap/chromium/'')
      then Some Chromium
      else find (\<lambda>browser. any_name (\<lambda>value. matches_normalized value (browser_names browser))
        [pi_executable_basename process, pi_command_name process, pi_desktop_id process]) managed_browsers)"

definition unsupported_browser_installation_for_process :: "process_identity \<Rightarrow> string option" where
  "unsupported_browser_installation_for_process process =
     (let path_in = (\<lambda>base. case pi_executable_path process of None \<Rightarrow> False | Some path \<Rightarrow> path_starts_with path base) in
      if path_in ''/snap/brave'' then Some ''brave-snap''
      else if path_in ''/snap/opera'' then Some ''opera-snap''
      else if path_in ''/snap/vivaldi'' then Some ''vivaldi-snap''
      else case pi_desktop_id process of
        Some desktop_id \<Rightarrow> if eq_ignore_ascii_case desktop_id ''org.chromium.Chromium.desktop'' then Some ''chromium-flatpak'' else None
      | None \<Rightarrow> None)"

section \<open>Signals\<close>

record process_kill_event =
  ke_pid :: u32
  ke_executable_path :: "string option"
  ke_executable_basename :: "string option"
  ke_command_name :: "string option"
  ke_desktop_id :: "string option"
  ke_window_titles :: "string list"

datatype process_kill_outcome = SignalSent | AlreadyGone

record process_kill_report =
  kr_events :: "process_kill_event list"
  kr_already_gone_pids :: "u32 list"
  kr_failures :: "(u32 \<times> daemon_error) list"

definition empty_report :: process_kill_report where
  "empty_report = \<lparr>kr_events = [], kr_already_gone_pids = [], kr_failures = []\<rparr>"

text \<open>\<open>kill(2)\<close> gives no error or an error number; \<open>ESRCH\<close> is 3.\<close>

definition signal_error_outcome :: "u32 \<Rightarrow> int \<Rightarrow> daemon_error + process_kill_outcome" where
  "signal_error_outcome pid errno = (if errno = 3 then Inr AlreadyGone else Inl (KillFailed pid errno))"

definition linux_signal_kill :: "(u32 \<Rightarrow> int option) \<Rightarrow> u32 \<Rightarrow> daemon_error + process_kill_outcome" where
  "linux_signal_kill signal pid =
     (case signal pid of None \<Rightarrow> Inr SignalSent | Some errno \<Rightarrow> signal_error_outcome pid errno)"

definition kill_event :: "process_info \<Rightarrow> process_kill_event" where
  "kill_event process = \<lparr>ke_pid = px_pid process, ke_executable_path = px_executable_path process,
     ke_executable_basename = px_executable_basename process, ke_command_name = px_command_name process,
     ke_desktop_id = px_desktop_id process, ke_window_titles = px_window_titles process\<rparr>"

text \<open>One round of the loop over the ids; \<open>handled\<close> are those seen before.\<close>

fun kill_loop ::
  "(u32 \<Rightarrow> daemon_error + process_kill_outcome) \<Rightarrow> (u32 \<rightharpoonup> process_info) \<Rightarrow> u32 list \<Rightarrow> u32 list
     \<Rightarrow> process_kill_report \<Rightarrow> process_kill_report" where
  "kill_loop killer by_pid [] handled report = report"
| "kill_loop killer by_pid (pid # pids) handled report =
     (if pid \<in> set handled then kill_loop killer by_pid pids handled report
      else case by_pid pid of
        None \<Rightarrow> kill_loop killer by_pid pids (pid # handled) report
      | Some process \<Rightarrow>
          kill_loop killer by_pid pids (pid # handled)
            (case killer pid of
               Inr SignalSent \<Rightarrow> report\<lparr>kr_events := kr_events report @ [(kill_event process)\<lparr>ke_pid := pid\<rparr>]\<rparr>
             | Inr AlreadyGone \<Rightarrow> report\<lparr>kr_already_gone_pids := kr_already_gone_pids report @ [pid]\<rparr>
             | Inl err \<Rightarrow> report\<lparr>kr_failures := kr_failures report @ [(pid, err)]\<rparr>))"

definition kill_processes ::
  "(u32 \<Rightarrow> daemon_error + process_kill_outcome) \<Rightarrow> process_info list \<Rightarrow> u32 list \<Rightarrow> process_kill_report" where
  "kill_processes killer processes blocked_pids =
     kill_loop killer (processes_by_pid processes) blocked_pids [] empty_report"

end
