(* ===== verification/ScanLoop.thy ===== *)
theory ScanLoop imports ProcessScan Enforcement EditMethods Alerts Usage PolicyEngine begin

text \<open>
  The loop over processes, \<^verbatim>\<open>scan_processes_once\<close> of \<^verbatim>\<open>focusd/src/app.rs\<close>: which processes are to end, because
  of a list, an unsupported installation or a browser whose extension does not answer; the metering of
  applications; the grace a browser has to reconnect after a pause of the daemon; the report.
\<close>

section \<open>The state of the loop\<close>

text \<open>Moments of the monotonic clock are nanoseconds.\<close>

record reconnect_window =
  rw_started_at :: instant
  rw_deadline :: int
  rw_expiry_logged :: bool

record reconnect_grace =
  rg_last_scan :: "int option"
  rg_previously_healthy :: "supported_browser set"
  rg_windows :: "supported_browser \<rightharpoonup> reconnect_window"

definition no_grace :: reconnect_grace where
  "no_grace = \<lparr>rg_last_scan = None, rg_previously_healthy = {}, rg_windows = Map.empty\<rparr>"

record scan_app =
  sa_core :: focus_core
  sa_grace :: reconnect_grace

definition on_app_core :: "(focus_core, 'a) action \<Rightarrow> (scan_app, 'a) action" where
  "on_app_core m s = (let (r, core) = m (sa_core s) in (r, s\<lparr>sa_core := core\<rparr>))"

definition set_grace :: "(reconnect_grace \<Rightarrow> reconnect_grace) \<Rightarrow> (scan_app, unit) action" where
  "set_grace f s = (Inr (), s\<lparr>sa_grace := f (sa_grace s)\<rparr>)"

definition core_event :: "string \<Rightarrow> string option \<Rightarrow> string option \<Rightarrow> instant \<Rightarrow> (focus_core, unit) action" where
  "core_event kind target details now = on_db (db_bind (record_event kind target (map_option Details details) now) (\<lambda>_. db_return ()))"

text \<open>The elements for which a step returns true, in their order.\<close>

fun act_select :: "('a \<Rightarrow> ('s, bool) action) \<Rightarrow> 'a list \<Rightarrow> ('s, 'a list) action" where
  "act_select f [] = act_return []"
| "act_select f (x # xs) =
     act_bind (f x) (\<lambda>b. act_bind (act_select f xs) (\<lambda>ys. act_return (if b then x # ys else ys)))"

section \<open>Strict mode\<close>

definition min_browser_startup_heartbeat_grace_seconds :: int where
  "min_browser_startup_heartbeat_grace_seconds = 60"

definition browser_reconnect_grace_seconds :: int where
  "browser_reconnect_grace_seconds = 60"

definition missing_since_key :: "supported_browser \<Rightarrow> string" where
  "missing_since_key browser = ''strict_mode.'' @ browser_label browser @ ''_missing_since''"

definition session_started_at_key :: "supported_browser \<Rightarrow> string" where
  "session_started_at_key browser = ''strict_mode.'' @ browser_label browser @ ''_browser_session_started_at''"

definition browser_required_by_strict_mode :: "supported_browser \<Rightarrow> strict_mode_config \<Rightarrow> bool" where
  "browser_required_by_strict_mode browser strict =
     (if is_firefox_based browser then sm_require_firefox_extension strict else sm_require_chrome_extension strict)"

definition strict_supported_browser_enforcement_enabled :: "strict_mode_config \<Rightarrow> bool" where
  "strict_supported_browser_enforcement_enabled strict \<longleftrightarrow> sm_kill_supported_browser_if_extension_stale strict
     \<and> (sm_require_firefox_extension strict \<or> sm_require_chrome_extension strict)"

definition browser_startup_grace_seconds :: "strict_mode_config \<Rightarrow> int" where
  "browser_startup_grace_seconds strict = max (int (unat (sm_grace_seconds strict))) min_browser_startup_heartbeat_grace_seconds"

definition strict_browser_session_started_at ::
  "'f host_lib \<Rightarrow> supported_browser \<Rightarrow> focus_core \<Rightarrow> daemon_error + instant option" where
  "strict_browser_session_started_at H browser core =
     and_then (core_query (service_state (session_started_at_key browser)) core) (\<lambda>value.
       Inr (case value of None \<Rightarrow> None
            | Some v \<Rightarrow> (case hl_parse_rfc3339 H v of Inl _ \<Rightarrow> None | Inr t \<Rightarrow> Some t)))"

definition browser_session_started_at ::
  "'f host_lib \<Rightarrow> supported_browser \<Rightarrow> instant \<Rightarrow> (focus_core, instant) action" where
  "browser_session_started_at H browser now =
     act_bind (act_read (strict_browser_session_started_at H browser)) (\<lambda>found.
       case found of
         Some started_at \<Rightarrow> act_return started_at
       | None \<Rightarrow> act_bind (on_db (set_service_state (session_started_at_key browser) (hl_rfc3339 H now) now)) (\<lambda>_.
           act_return now))"

definition elapsed_seconds :: "instant \<Rightarrow> instant \<Rightarrow> int" where
  "elapsed_seconds now earlier = max 0 (num_seconds (now - earlier))"

definition strict_browser_unhealthy_reason ::
  "'f host_lib \<Rightarrow> supported_browser \<Rightarrow> strict_mode_config \<Rightarrow> instant \<Rightarrow> (focus_core, string option) action" where
  "strict_browser_unhealthy_reason H browser strict now =
     act_bind (browser_session_started_at H browser now) (\<lambda>session_started_at.
     let startup_grace = browser_startup_grace_seconds strict;
         startup_elapsed = elapsed_seconds now session_started_at;
         names = ''browser='' @ browser_label browser @ '';component='' @ browser_extension_component browser in
     act_bind (act_read (core_query (heartbeat (browser_extension_component browser)))) (\<lambda>beat.
     case (case beat of None \<Rightarrow> None | Some h \<Rightarrow> if hb_last_seen_at h \<ge> session_started_at then Some h else None) of
       None \<Rightarrow>
         act_bind (on_db (set_service_state (missing_since_key browser) (hl_rfc3339 H session_started_at) now)) (\<lambda>_.
           if startup_elapsed \<le> startup_grace then act_return None
           else act_return (Some (names @ '';heartbeat_missing_since_launch_seconds='' @ show_int startup_elapsed
                  @ '';startup_grace_seconds='' @ show_int startup_grace)))
     | Some h \<Rightarrow>
         act_bind (on_db (set_service_state (missing_since_key browser) ''healthy'' now)) (\<lambda>_.
           let age = elapsed_seconds now (hb_last_seen_at h) in
           if age \<le> int (unat (sm_grace_seconds strict)) then act_return None
           else act_return (Some (names @ '';heartbeat_age_seconds='' @ show_int age
                  @ '';grace_seconds='' @ show_nat (unat (sm_grace_seconds strict)))))))"

definition browser_of :: "process_info \<Rightarrow> supported_browser option" where
  "browser_of process = supported_browser_for_process (process_identity_of process)"

text \<open>The map of details as a list of its entries; the order of a hash map is not given.\<close>

definition put_details :: "u32 list \<Rightarrow> string \<Rightarrow> (u32 \<times> string) list \<Rightarrow> (u32 \<times> string) list" where
  "put_details pids reason details = fold (\<lambda>pid details. upsert pid reason details) pids details"

definition strict_browser_step ::
  "'f host_lib \<Rightarrow> process_info list \<Rightarrow> strict_mode_config \<Rightarrow> instant \<Rightarrow> supported_browser set \<Rightarrow> supported_browser
     \<Rightarrow> (u32 \<times> string) list \<Rightarrow> (focus_core, (u32 \<times> string) list) action" where
  "strict_browser_step H processes strict now deferred browser details =
     (if browser \<in> deferred \<or> \<not> browser_required_by_strict_mode browser strict then act_return details
      else let browser_pids = map px_pid (filter (\<lambda>process. browser_of process = Some browser) processes) in
      if browser_pids = []
      then act_bind (on_db (set_service_state (missing_since_key browser) ''inactive'' now)) (\<lambda>_.
           act_bind (on_db (set_service_state (session_started_at_key browser) ''inactive'' now)) (\<lambda>_. act_return details))
      else act_bind (strict_browser_unhealthy_reason H browser strict now) (\<lambda>found.
           act_return (case found of None \<Rightarrow> details | Some reason \<Rightarrow> put_details browser_pids reason details)))"

fun act_fold :: "('a \<Rightarrow> 'b \<Rightarrow> ('s, 'b) action) \<Rightarrow> 'a list \<Rightarrow> 'b \<Rightarrow> ('s, 'b) action" where
  "act_fold f [] y = act_return y"
| "act_fold f (x # xs) y = act_bind (f x y) (act_fold f xs)"

definition strict_browser_kill_details_except ::
  "'f host_lib \<Rightarrow> process_info list \<Rightarrow> strict_mode_config \<Rightarrow> instant \<Rightarrow> supported_browser set
     \<Rightarrow> (focus_core, (u32 \<times> string) list) action" where
  "strict_browser_kill_details_except H processes strict now deferred =
     (if \<not> sm_kill_supported_browser_if_extension_stale strict then act_return []
      else act_fold (strict_browser_step H processes strict now deferred) managed_browsers [])"

section \<open>The grace after a pause of the daemon\<close>

definition duration_max :: int where
  "duration_max = (2 ^ 64 - 1) * nanos_per_second + 999999999"

text \<open>A browser that is not running, or that strict mode does not ask for, is forgotten.\<close>

definition forget_browser :: "supported_browser \<Rightarrow> reconnect_grace \<Rightarrow> reconnect_grace" where
  "forget_browser browser g = g\<lparr>rg_windows := (rg_windows g)(browser := None),
     rg_previously_healthy := rg_previously_healthy g - {browser}\<rparr>"

definition set_healthy :: "supported_browser \<Rightarrow> bool \<Rightarrow> reconnect_grace \<Rightarrow> reconnect_grace" where
  "set_healthy browser healthy g = g\<lparr>rg_previously_healthy :=
     (if healthy then insert browser (rg_previously_healthy g) else rg_previously_healthy g - {browser})\<rparr>"

definition set_window :: "supported_browser \<Rightarrow> reconnect_window option \<Rightarrow> reconnect_grace \<Rightarrow> reconnect_grace" where
  "set_window browser window g = g\<lparr>rg_windows := (rg_windows g)(browser := window)\<rparr>"

text \<open>The heartbeat of the session of the browser that runs now, and whether it is recent.\<close>

definition current_heartbeat :: "instant option \<Rightarrow> heartbeat_state option \<Rightarrow> heartbeat_state option" where
  "current_heartbeat session beat = (case (session, beat) of
     (Some start, Some h) \<Rightarrow> if hb_last_seen_at h \<ge> start then Some h else None | _ \<Rightarrow> None)"

definition heartbeat_is_recent :: "strict_mode_config \<Rightarrow> instant \<Rightarrow> heartbeat_state option \<Rightarrow> bool" where
  "heartbeat_is_recent strict now current = (case current of
     None \<Rightarrow> False | Some h \<Rightarrow> elapsed_seconds now (hb_last_seen_at h) \<le> int (unat (sm_grace_seconds strict)))"

text \<open>A browser whose window is open: it ends with a heartbeat, and is not opened again when it has passed.\<close>

definition open_window_step ::
  "supported_browser \<Rightarrow> instant \<Rightarrow> int \<Rightarrow> bool \<Rightarrow> heartbeat_state option \<Rightarrow> reconnect_window \<Rightarrow> (scan_app, bool) action" where
  "open_window_step browser now monotonic healthy current window =
     (if healthy \<and> (case current of None \<Rightarrow> False | Some h \<Rightarrow> hb_last_seen_at h \<ge> rw_started_at window)
      then act_bind (set_grace (\<lambda>g. set_healthy browser True (set_window browser None g))) (\<lambda>_.
           act_bind (on_app_core (core_event ''browser_reconnect_grace_completed'' (Some (browser_label browser)) None now)) (\<lambda>_.
             act_return False))
      else act_bind (set_grace (set_healthy browser False)) (\<lambda>_.
        if monotonic \<le> rw_deadline window then act_return True
        else if rw_expiry_logged window then act_return False
        else act_bind (set_grace (set_window browser (Some (window\<lparr>rw_expiry_logged := True\<rparr>)))) (\<lambda>_.
          act_bind (on_app_core (core_event ''browser_reconnect_grace_expired'' (Some (browser_label browser)) None now)) (\<lambda>_.
            act_return False))))"

definition reconnect_step ::
  "'f host_lib \<Rightarrow> bool \<Rightarrow> bool \<Rightarrow> strict_mode_config \<Rightarrow> instant \<Rightarrow> int \<Rightarrow> supported_browser set \<Rightarrow> supported_browser
     \<Rightarrow> (scan_app, bool) action" where
  "reconnect_step H first_scan interrupted strict now monotonic present browser =
     (if browser \<notin> present \<or> \<not> sm_kill_supported_browser_if_extension_stale strict
         \<or> \<not> browser_required_by_strict_mode browser strict
      then act_bind (set_grace (forget_browser browser)) (\<lambda>_. act_return False)
      else act_bind (act_read (\<lambda>s. strict_browser_session_started_at H browser (sa_core s))) (\<lambda>session.
        act_bind (act_read (\<lambda>s. core_query (heartbeat (browser_extension_component browser)) (sa_core s))) (\<lambda>beat.
        let current = current_heartbeat session beat; healthy = heartbeat_is_recent strict now current in
        act_bind (act_read (\<lambda>s. Inr (sa_grace s))) (\<lambda>g.
        case rg_windows g browser of
          Some window \<Rightarrow> open_window_step browser now monotonic healthy current window
        | None \<Rightarrow>
            if (first_scan \<and> current \<noteq> None \<or> interrupted \<and> browser \<in> rg_previously_healthy g) \<and> \<not> healthy
            then act_bind (set_grace (\<lambda>g. set_healthy browser False (set_window browser (Some
                   \<lparr>rw_started_at = now, rw_deadline = monotonic + browser_reconnect_grace_seconds * nanos_per_second,
                    rw_expiry_logged = False\<rparr>) g))) (\<lambda>_.
              act_bind (on_app_core (core_event ''browser_reconnect_grace_started'' (Some (browser_label browser))
                 (Some (''trigger='' @ (if first_scan then ''daemon_start'' else ''process_scan_gap'')
                    @ '';grace_seconds='' @ show_int browser_reconnect_grace_seconds)) now)) (\<lambda>_. act_return True))
            else act_bind (set_grace (set_healthy browser healthy)) (\<lambda>_. act_return False)))))"

definition scan_gap_threshold :: "strict_mode_config \<Rightarrow> int \<Rightarrow> int" where
  "scan_gap_threshold strict scan_interval =
     max (int (unat (sm_grace_seconds strict)) * nanos_per_second) (min duration_max (2 * scan_interval))"

definition deferred_browsers ::
  "'f host_lib \<Rightarrow> process_info list \<Rightarrow> strict_mode_config \<Rightarrow> instant \<Rightarrow> int \<Rightarrow> int \<Rightarrow> (scan_app, supported_browser list) action" where
  "deferred_browsers H processes strict now monotonic scan_interval =
     act_bind (act_read (\<lambda>s. Inr (rg_last_scan (sa_grace s)))) (\<lambda>last_scan.
     let first_scan = (last_scan = None);
         interrupted = (case last_scan of None \<Rightarrow> False
           | Some t \<Rightarrow> max 0 (monotonic - t) > scan_gap_threshold strict scan_interval);
         present = set (filter_map browser_of processes) in
     act_bind (set_grace (\<lambda>g. g\<lparr>rg_last_scan := Some monotonic\<rparr>)) (\<lambda>_.
       act_select (reconnect_step H first_scan interrupted strict now monotonic present) managed_browsers))"

section \<open>Blocked processes\<close>

definition is_blockuntu_name :: "string \<Rightarrow> bool" where
  "is_blockuntu_name value = starts_with (to_ascii_lowercase (trim value)) ''blockuntu''"

definition is_blockuntu_process :: "process_identity \<Rightarrow> bool" where
  "is_blockuntu_process process \<longleftrightarrow>
     (case Option.bind (pi_executable_path process) path_file_name of None \<Rightarrow> False | Some name \<Rightarrow> is_blockuntu_name name)
     \<or> any_name is_blockuntu_name [pi_executable_basename process, pi_command_name process, pi_desktop_id process]"

fun blocked_rule_id :: "block_reason \<Rightarrow> string option" where
  "blocked_rule_id (Detox _ _ rule_id _ _ _) = Some rule_id"
| "blocked_rule_id (HardBlock rule_id _) = Some rule_id"
| "blocked_rule_id (ScheduledBlockReason rule_id _) = Some rule_id"
| "blocked_rule_id (ControlledAccessReason rule_id _ _) = Some rule_id"
| "blocked_rule_id (InvalidUrl _) = None"
| "blocked_rule_id (RuntimeError _) = None"

definition with_app_mode :: "list_mode \<Rightarrow> config \<Rightarrow> config" where
  "with_app_mode mode config = config\<lparr>cfg_app_rules := filter (\<lambda>rule. ac_mode rule = mode) (cfg_app_rules config)\<rparr>"

definition context_for :: "config \<Rightarrow> datetime \<Rightarrow> bool \<Rightarrow> evaluation_context" where
  "context_for config now clock_tampered = \<lparr>ec_config = config, ec_now = now, ec_clock_tampered = clock_tampered\<rparr>"

text \<open>The processes that are never looked at: the first ones, the daemon itself and BlocKuntu.\<close>

definition spared_process :: "u32 \<Rightarrow> process_info \<Rightarrow> bool" where
  "spared_process own_pid process \<longleftrightarrow> px_pid process \<le> 1 \<or> px_pid process = own_pid
     \<or> is_blockuntu_process (process_identity_of process)"

definition blocked_allowlist_processes ::
  "'u lib \<Rightarrow> config \<Rightarrow> database \<Rightarrow> process_info list \<Rightarrow> datetime \<Rightarrow> bool \<Rightarrow> (process_info \<times> string) list" where
  "blocked_allowlist_processes L config db processes now clock_tampered =
     (let allowlist_config = with_app_mode Allowlist config; ctx = context_for allowlist_config now clock_tampered;
          exempt_pids = application_allowlist_exempt_process_ids processes in
      if cfg_app_rules allowlist_config = [] then []
      else filter_map (\<lambda>process.
          case evaluate_app L ctx (process_identity_of process) db of
            Allow \<Rightarrow> None
          | Block reason \<Rightarrow> map_option (\<lambda>rule_id. (process, rule_id)) (blocked_rule_id reason))
        (filter (\<lambda>process. px_pid process > 1 \<and> px_pid process \<notin> exempt_pids) processes))"

text \<open>The lists charged for what runs, in order; each process is charged only where it is not blocked otherwise.\<close>

definition metered_lists ::
  "'u lib \<Rightarrow> evaluation_context \<Rightarrow> database \<Rightarrow> (process_info \<Rightarrow> bool) \<Rightarrow> process_info list \<Rightarrow> daemon_error + string list" where
  "metered_lists L ctx db skip processes =
     and_then (map_err DaemonCore (try_map (\<lambda>process. metered_app_rule_ids_for_process L ctx (process_identity_of process) db)
       (filter (\<lambda>process. \<not> skip process) processes))) (\<lambda>ids. Inr (concat ids))"

definition sync_metered_app_usage_sessions ::
  "'u lib \<Rightarrow> u32 \<Rightarrow> config \<Rightarrow> process_info list \<Rightarrow> datetime \<Rightarrow> (focus_core, string list) action" where
  "sync_metered_app_usage_sessions L own_pid config processes now =
     act_bind (act_read (\<lambda>core.
       let db = fc_database core;
           block_ctx = context_for (with_app_mode Blocklist config) now False;
           allow_ctx = context_for (with_app_mode Allowlist config) now False;
           blocks = (\<lambda>ctx process. is_block (evaluate_app L ctx (process_identity_of process) db));
           blocklist_blocked = px_pid ` set (filter (blocks block_ctx) processes);
           exempt = application_allowlist_exempt_process_ids processes;
           allowlist_blocked = px_pid ` set (filter (\<lambda>process. px_pid process \<notin> exempt \<and> blocks allow_ctx process) processes) in
       and_then (metered_lists L block_ctx db
           (\<lambda>process. spared_process own_pid process \<or> px_pid process \<in> allowlist_blocked) processes) (\<lambda>first.
       and_then (metered_lists L allow_ctx db
           (\<lambda>process. px_pid process \<le> 1 \<or> px_pid process = own_pid \<or> px_pid process \<in> exempt
              \<or> px_pid process \<in> blocklist_blocked) processes) (\<lambda>second.
         Inr (sorted_list_of_set (set first \<union> set second)))))) (\<lambda>rule_ids.
     act_bind (on_db (sync_app_usage_sessions rule_ids (dt_utc now))) (\<lambda>_. act_return rule_ids))"

section \<open>The plan of a scan\<close>

text \<open>The ids to end, in order, and what is known of each.\<close>

record kill_plan =
  kp_blocked_pids :: "u32 list"
  kp_details :: "u32 \<rightharpoonup> string"
  kp_event_kinds :: "u32 \<rightharpoonup> string"
  kp_rule_ids :: "u32 \<rightharpoonup> string"
  kp_names :: "u32 \<rightharpoonup> string"

definition empty_plan :: kill_plan where
  "empty_plan = \<lparr>kp_blocked_pids = [], kp_details = Map.empty, kp_event_kinds = Map.empty, kp_rule_ids = Map.empty,
     kp_names = Map.empty\<rparr>"

definition plan_kill :: "u32 \<Rightarrow> string \<Rightarrow> string \<Rightarrow> kill_plan \<Rightarrow> kill_plan" where
  "plan_kill pid details kind plan = plan\<lparr>kp_details := (kp_details plan)(pid \<mapsto> details),
     kp_event_kinds := (kp_event_kinds plan)(pid \<mapsto> kind)\<rparr>"

definition push_pid :: "u32 \<Rightarrow> kill_plan \<Rightarrow> kill_plan" where
  "push_pid pid plan = plan\<lparr>kp_blocked_pids := kp_blocked_pids plan @ [pid]\<rparr>"

definition name_rule :: "u32 \<Rightarrow> string \<Rightarrow> kill_plan \<Rightarrow> kill_plan" where
  "name_rule pid rule_id plan = plan\<lparr>kp_rule_ids := (kp_rule_ids plan)(pid \<mapsto> rule_id)\<rparr>"

definition plan_blocklist ::
  "'u lib \<Rightarrow> evaluation_context \<Rightarrow> database \<Rightarrow> u32 \<Rightarrow> process_info \<Rightarrow> kill_plan \<Rightarrow> kill_plan" where
  "plan_blocklist L ctx db own_pid process plan =
     (if spared_process own_pid process then plan
      else case evaluate_app L ctx (process_identity_of process) db of
        Allow \<Rightarrow> plan
      | Block reason \<Rightarrow>
          let pid = px_pid process; plan' = push_pid pid plan in
          (case blocked_rule_id reason of
             None \<Rightarrow> plan'
           | Some rule_id \<Rightarrow> name_rule pid rule_id (plan_kill pid (''rule_id='' @ rule_id) ''app_killed'' plan')))"

text \<open>Only the first process of a list is announced.\<close>

definition plan_allowlist ::
  "process_info \<times> string \<Rightarrow> kill_plan \<times> string list \<Rightarrow> kill_plan \<times> string list" where
  "plan_allowlist blocked state =
     (let (process, rule_id) = blocked; (plan, announced) = state; pid = px_pid process in
      if pid \<in> set (kp_blocked_pids plan) then state
      else let plan' = plan_kill pid (''rule_id='' @ rule_id) ''app_killed_allowlist'' (push_pid pid plan) in
      if rule_id \<in> set announced then (plan', announced)
      else ((name_rule pid rule_id plan')\<lparr>kp_names := (kp_names plan')(pid \<mapsto>
              (case or_else (or_else (px_command_name process) (px_executable_basename process)) (px_desktop_id process) of
                 None \<Rightarrow> ''Process'' | Some name \<Rightarrow> name))\<rparr>, rule_id # announced))"

definition plan_unsupported :: "u32 \<Rightarrow> process_info \<Rightarrow> kill_plan \<Rightarrow> kill_plan" where
  "plan_unsupported own_pid process plan =
     (if spared_process own_pid process then plan
      else case unsupported_browser_installation_for_process (process_identity_of process) of
        None \<Rightarrow> plan
      | Some installation \<Rightarrow>
          let pid = px_pid process in
          name_rule pid unsupported_browser_rule_id (plan_kill pid
             (''rule_id='' @ unsupported_browser_rule_id @ '';browser_installation='' @ installation)
             ''browser_killed_unsupported_installation''
             (if pid \<in> set (kp_blocked_pids plan) then plan else push_pid pid plan)))"

definition plan_strict :: "u32 \<times> string \<Rightarrow> kill_plan \<Rightarrow> kill_plan" where
  "plan_strict entry plan =
     (let (pid, detail) = entry in
      if pid \<in> set (kp_blocked_pids plan) then plan
      else plan_kill pid detail ''browser_killed_extension_stale'' (push_pid pid plan))"

text \<open>What the scan reads from the system, and the settings of the daemon it uses.\<close>

record scan_input =
  si_enforcement :: instant
  si_end_sessions :: instant
  si_directory :: "string + (string + proc_entry) list"
  si_session_type :: "string option"
  si_wmctrl :: command_result
  si_clock :: clock_reading
  si_monotonic :: int
  si_signal :: "u32 \<Rightarrow> int option"
  si_reported_at :: instant

record scan_settings =
  ss_own_pid :: u32
  ss_defer_firefox :: bool
  ss_defer_chrome :: bool
  ss_scan_interval :: int

definition heartbeats_awaited :: "scan_settings \<Rightarrow> (focus_core, supported_browser list) action" where
  "heartbeats_awaited G =
     act_select (\<lambda>browser.
       if is_firefox_based browser \<and> ss_defer_firefox G \<or> is_chromium_based browser \<and> ss_defer_chrome G
       then act_bind (act_read (has_extension_heartbeat (browser_extension_component browser))) (\<lambda>heard. act_return (\<not> heard))
       else act_return False) managed_browsers"

text \<open>The policy without the rule for unsupported browsers while that block is not active.\<close>

definition scan_config :: "bool \<Rightarrow> config \<Rightarrow> config" where
  "scan_config block_active config =
     (if block_active then config
      else config\<lparr>cfg_app_rules := filter (\<lambda>rule. ac_id rule \<noteq> unsupported_browser_rule_id) (cfg_app_rules config)\<rparr>)"

definition plan_lists ::
  "'u lib \<Rightarrow> scan_settings \<Rightarrow> config \<Rightarrow> database \<Rightarrow> process_info list \<Rightarrow> datetime \<Rightarrow> bool \<Rightarrow> bool \<Rightarrow> kill_plan" where
  "plan_lists L G config db processes now clock_tampered block_active =
     (let ctx = context_for (with_app_mode Blocklist config) now clock_tampered;
          plan1 = fold (plan_blocklist L ctx db (ss_own_pid G)) processes empty_plan;
          (plan2, _) = fold plan_allowlist (blocked_allowlist_processes L config db processes now clock_tampered) (plan1, []) in
      if block_active then fold (plan_unsupported (ss_own_pid G)) processes plan2 else plan2)"

definition plan_scan ::
  "'u lib \<Rightarrow> 'f host_lib \<Rightarrow> scan_settings \<Rightarrow> scan_input \<Rightarrow> process_info list \<Rightarrow> (scan_app, kill_plan) action" where
  "plan_scan L H G i processes =
     act_bind (on_app_core (on_database (guarded_now L H (si_clock i) None False))) (\<lambda>g.
     let now = gn_now g; tampered = (ci_state (gn_integrity g) = status_tampered) in
     act_bind (on_app_core (act_read (unsupported_browser_block_is_active L now tampered))) (\<lambda>block_active.
     act_bind (on_app_core (act_read (\<lambda>core. Inr (scan_config block_active (fc_config core))))) (\<lambda>config.
     act_bind (act_when (\<not> tampered) (on_app_core
        (act_bind (sync_metered_app_usage_sessions L (ss_own_pid G) config processes now) (\<lambda>_. act_return ())))) (\<lambda>_.
     act_bind (on_app_core (act_read (\<lambda>core. Inr
        (plan_lists L G config (fc_database core) processes now tampered block_active)))) (\<lambda>plan.
     act_bind (on_app_core (act_read (\<lambda>core. Inr (cfg_strict_mode (fc_config core))))) (\<lambda>strict.
     act_bind (if tampered then act_return []
        else deferred_browsers H processes strict (dt_utc now) (si_monotonic i) (ss_scan_interval G)) (\<lambda>reconnecting.
     act_bind (on_app_core (heartbeats_awaited G)) (\<lambda>awaited.
     act_bind (on_app_core (strict_browser_kill_details_except H processes strict (dt_utc now)
        (set reconnecting \<union> set awaited))) (\<lambda>stale.
       act_return (fold plan_strict stale plan))))))))))"

section \<open>The report\<close>

definition shown :: "string option \<Rightarrow> string" where
  "shown v = (case v of None \<Rightarrow> ''<unknown>'' | Some t \<Rightarrow> t)"

definition kill_details :: "string \<Rightarrow> process_kill_event \<Rightarrow> string" where
  "kill_details detail_prefix event =
     ''pid='' @ show_nat (unat (ke_pid event)) @ '';'' @ detail_prefix @ '';exe='' @ shown (ke_executable_path event)
       @ '';basename='' @ shown (ke_executable_basename event) @ '';command='' @ shown (ke_command_name event)
       @ '';desktop_id='' @ shown (ke_desktop_id event)
       @ '';window_titles='' @ (if ke_window_titles event = [] then ''<none>'' else join '' | '' (ke_window_titles event))"

definition report_event :: "kill_plan \<Rightarrow> instant \<Rightarrow> process_kill_event \<Rightarrow> (focus_core, unit) action" where
  "report_event plan now event =
     (let pid = ke_pid event;
          application_name = (case or_else (or_else (ke_command_name event) (ke_executable_basename event)) (ke_desktop_id event) of
            None \<Rightarrow> ''Application'' | Some name \<Rightarrow> name) in
      act_bind (core_event (case kp_event_kinds plan pid of None \<Rightarrow> ''app_killed'' | Some kind \<Rightarrow> kind) (Some application_name)
        (Some (kill_details (case kp_details plan pid of None \<Rightarrow> ''reason=<unknown>'' | Some d \<Rightarrow> d) event)) now) (\<lambda>_.
      case kp_rule_ids plan pid of
        None \<Rightarrow> act_return ()
      | Some rule_id \<Rightarrow> act_ignore (enqueue_application_block_notification rule_id
          (case kp_names plan pid of None \<Rightarrow> application_name | Some name \<Rightarrow> name) now)))"

text \<open>\<open>show_error\<close> is the text of an error, given by its attributes.\<close>

definition record_process_kill_report ::
  "(daemon_error \<Rightarrow> string) \<Rightarrow> process_kill_report \<Rightarrow> kill_plan \<Rightarrow> instant \<Rightarrow> (focus_core, unit) action" where
  "record_process_kill_report show_error report plan now =
     act_bind (act_for (kr_events report) (report_event plan now)) (\<lambda>_.
       if kr_failures report = [] then act_return ()
       else act_read (\<lambda>_. Inl (KillBatchFailed (join ''; ''
         (map (\<lambda>(pid, err). ''pid='' @ show_nat (unat pid) @ '': '' @ show_error err) (kr_failures report))))))"

section \<open>One pass\<close>

text \<open>The signals sent are part of the result: the report is \<open>None\<close> when nothing was scanned or nothing is blocked.\<close>

definition scan_needed :: "config \<Rightarrow> bool" where
  "scan_needed config \<longleftrightarrow> cfg_app_rules config \<noteq> []
     \<or> strict_supported_browser_enforcement_enabled (cfg_strict_mode config)
     \<or> sm_block_unsupported_browsers (cfg_strict_mode config)"

definition scan_and_kill ::
  "'u lib \<Rightarrow> 'f host_lib \<Rightarrow> (daemon_error \<Rightarrow> string) \<Rightarrow> scan_settings \<Rightarrow> scan_input \<Rightarrow> (scan_app, process_kill_report option) action" where
  "scan_and_kill L H show_error G i =
     act_bind (act_read (\<lambda>_. scan_procfs (si_directory i))) (\<lambda>found.
     let processes = fst (attach_detected_window_titles (si_session_type i) (si_wmctrl i) found) in
     act_bind (plan_scan L H G i processes) (\<lambda>plan.
     if kp_blocked_pids plan = [] then act_return None
     else let report = kill_processes (linux_signal_kill (si_signal i)) processes (kp_blocked_pids plan) in
       act_bind (on_app_core (record_process_kill_report show_error report plan (si_reported_at i))) (\<lambda>_.
         act_return (Some report))))"

definition scan_processes_once ::
  "'u lib \<Rightarrow> 'f host_lib \<Rightarrow> (daemon_error \<Rightarrow> string) \<Rightarrow> scan_settings \<Rightarrow> scan_input \<Rightarrow> (scan_app, process_kill_report option) action" where
  "scan_processes_once L H show_error G i =
     (let end_sessions = act_bind (on_app_core (on_db (end_open_app_usage_sessions (si_end_sessions i)))) (\<lambda>_. act_return None) in
      act_bind (on_app_core (act_read (enforcement_active_from_core H (si_enforcement i)))) (\<lambda>active.
      act_bind (on_app_core (act_read (\<lambda>core. Inr (scan_needed (fc_config core))))) (\<lambda>needed.
        if \<not> active \<or> \<not> needed then end_sessions else scan_and_kill L H show_error G i)))"

end
