(* ===== verification/Diagnostics.thy ===== *)
theory Diagnostics imports ScanLoop begin

text \<open>
  Diagnostics and the loops that report them, from \<^verbatim>\<open>focusd/src/rpc.rs\<close> and \<^verbatim>\<open>focusd/src/app.rs\<close>: events a client
  sends are checked, recorded once and counted; the daemon records its own; the log a client exports has no
  line older than the retention.
\<close>

section \<open>Events of a client\<close>

definition max_diagnostic_events_per_batch :: nat where "max_diagnostic_events_per_batch = 100"
definition max_diagnostic_id_length :: nat where "max_diagnostic_id_length = 160"
definition max_diagnostic_component_length :: nat where "max_diagnostic_component_length = 80"
definition max_diagnostic_kind_length :: nat where "max_diagnostic_kind_length = 80"
definition max_diagnostic_message_length :: nat where "max_diagnostic_message_length = 4000"

record client_diagnostic_event =
  ce_id :: string
  ce_component :: string
  ce_severity :: string
  ce_kind :: string
  ce_message :: string
  ce_observed_at :: "string option"
  ce_request_id :: "string option"
  ce_method :: "string option"
  ce_browser_session :: "string option"

definition is_ascii_alphanumeric :: "char \<Rightarrow> bool" where
  "is_ascii_alphanumeric c \<longleftrightarrow> is_ascii_digit c \<or> (let n = code_point c in (65 \<le> n \<and> n \<le> 90) \<or> (97 \<le> n \<and> n \<le> 122))"

definition validate_diagnostic_token :: "string \<Rightarrow> string \<Rightarrow> nat \<Rightarrow> bool \<Rightarrow> daemon_error + unit" where
  "validate_diagnostic_token field v max_length allow_colon =
     ensure (v \<noteq> [] \<and> str_len v \<le> max_length
         \<and> list_all (\<lambda>c. is_ascii_alphanumeric c \<or> c \<in> {CHR ''_'', CHR ''-'', CHR ''.''} \<or> (allow_colon \<and> c = CHR '':'')) v)
       (InvalidRequest (DiagnosticInvalid field))"

definition validate_optional_length :: "string \<times> string option \<Rightarrow> daemon_error + unit" where
  "validate_optional_length = (\<lambda>(field, v).
     ensure (case v of None \<Rightarrow> True | Some v \<Rightarrow> str_len v \<le> max_diagnostic_id_length) (InvalidRequest (DiagnosticTooLong field)))"

definition validate_client_diagnostic :: "'f host_lib \<Rightarrow> client_diagnostic_event \<Rightarrow> daemon_error + unit" where
  "validate_client_diagnostic H e =
     and_then (validate_diagnostic_token ''id'' (ce_id e) max_diagnostic_id_length True) (\<lambda>_.
     and_then (validate_diagnostic_token ''component'' (ce_component e) max_diagnostic_component_length False) (\<lambda>_.
     and_then (validate_diagnostic_token ''kind'' (ce_kind e) max_diagnostic_kind_length False) (\<lambda>_.
     and_then (ensure (ce_severity e \<in> {''info'', ''warn'', ''error''}) (InvalidRequest DiagnosticSeverity)) (\<lambda>_.
     and_then (ensure (ce_message e \<noteq> [] \<and> str_len (ce_message e) \<le> max_diagnostic_message_length)
       (InvalidRequest DiagnosticMessageSize)) (\<lambda>_.
     and_then (ensure (CHR 0x00 \<notin> set (ce_message e)) (InvalidRequest DiagnosticNullByte)) (\<lambda>_.
     and_then (case ce_observed_at e of
         None \<Rightarrow> Inr ()
       | Some t \<Rightarrow> (case hl_parse_rfc3339 H t of Inl _ \<Rightarrow> invalid DiagnosticObservedAt | Inr _ \<Rightarrow> Inr ())) (\<lambda>_.
     and_then (try_map validate_optional_length
         [(''request_id'', ce_request_id e), (''method'', ce_method e), (''browser_session'', ce_browser_session e)])
       (\<lambda>_. Inr ()))))))))"

definition text_or_null :: "string option \<Rightarrow> json" where
  "text_or_null s = (case s of None \<Rightarrow> JNull | Some s \<Rightarrow> JString s)"

definition client_diagnostic_details :: "client_diagnostic_event \<Rightarrow> json" where
  "client_diagnostic_details e = object_of
     [(''severity'', JString (ce_severity e)), (''kind'', JString (ce_kind e)), (''message'', JString (ce_message e)),
      (''observed_at'', text_or_null (ce_observed_at e)), (''request_id'', text_or_null (ce_request_id e)),
      (''method'', text_or_null (ce_method e)), (''browser_session'', text_or_null (ce_browser_session e))]"

text \<open>How many events of a batch were recorded, known already, and refused.\<close>

record diagnostic_counts =
  dg_accepted :: nat
  dg_duplicates :: nat
  dg_rejected :: nat

definition diagnostic_step ::
  "'f host_lib \<Rightarrow> json_lib \<Rightarrow> instant \<Rightarrow> client_diagnostic_event \<Rightarrow> diagnostic_counts
     \<Rightarrow> (focus_core, diagnostic_counts) action" where
  "diagnostic_step H J received_at e counts =
     (if isl (validate_client_diagnostic H e) then act_return (counts\<lparr>dg_rejected := Suc (dg_rejected counts)\<rparr>)
      else act_bind (act_read (\<lambda>_. map_err DaemonJson (jl_print J (client_diagnostic_details e)))) (\<lambda>details.
        act_bind (on_db (record_diagnostic_event (ce_id e) (ce_component e) details received_at)) (\<lambda>recorded.
          act_return (if recorded then counts\<lparr>dg_accepted := Suc (dg_accepted counts)\<rparr>
            else counts\<lparr>dg_duplicates := Suc (dg_duplicates counts)\<rparr>))))"

definition no_counts :: diagnostic_counts where
  "no_counts = \<lparr>dg_accepted = 0, dg_duplicates = 0, dg_rejected = 0\<rparr>"

definition record_diagnostics_method ::
  "'f host_lib \<Rightarrow> json_lib \<Rightarrow> instant \<Rightarrow> client_diagnostic_event list \<Rightarrow> (focus_core, diagnostic_counts) action" where
  "record_diagnostics_method H J received_at events =
     (if events = [] \<or> max_diagnostic_events_per_batch < length events
      then act_read (\<lambda>_. invalid DiagnosticBatchSize)
      else act_fold (diagnostic_step H J received_at) events no_counts)"

section \<open>Events of the daemon\<close>

text \<open>\<open>Value::to_string\<close>, which does not fail: a printer that refuses leaves the event unrecorded.\<close>

definition daemon_diagnostic_details :: "string \<Rightarrow> string \<Rightarrow> string \<Rightarrow> json" where
  "daemon_diagnostic_details severity kind message =
     object_of [(''severity'', JString severity), (''kind'', JString kind), (''message'', JString message)]"

definition record_daemon_diagnostic ::
  "json_lib \<Rightarrow> instant \<Rightarrow> string \<Rightarrow> string \<Rightarrow> string \<Rightarrow> (focus_core, unit) action" where
  "record_daemon_diagnostic J now severity kind message =
     act_ignore (act_bind (act_read (\<lambda>_. map_err DaemonJson (jl_print J (daemon_diagnostic_details severity kind message))))
       (\<lambda>details. act_bind (on_db (record_event ''runtime_diagnostic'' (Some ''daemon'') (Some (Details details)) now))
         (\<lambda>_. act_return ())))"

section \<open>The log and the state shown\<close>

text \<open>\<open>split_inclusive\<close> at line feeds.\<close>

fun lines_inclusive :: "string \<Rightarrow> string list" where
  "lines_inclusive [] = []"
| "lines_inclusive (c # cs) =
     (if c = CHR 0x0A then [c] # lines_inclusive cs
      else case lines_inclusive cs of [] \<Rightarrow> [[c]] | l # ls \<Rightarrow> (c # l) # ls)"

text \<open>Lines without a time at their start are kept.\<close>

definition line_retained :: "'f host_lib \<Rightarrow> instant \<Rightarrow> string \<Rightarrow> bool" where
  "line_retained H cutoff line =
     (case split_whitespace line of
        [] \<Rightarrow> True
      | word # _ \<Rightarrow> (case hl_parse_rfc3339 H word of Inl _ \<Rightarrow> True | Inr t \<Rightarrow> t \<ge> cutoff))"

definition retained_event_log_contents :: "'f host_lib \<Rightarrow> string \<Rightarrow> instant \<Rightarrow> string" where
  "retained_event_log_contents H contents cutoff = concat (filter (line_retained H cutoff) (lines_inclusive contents))"

text \<open>\<open>contents\<close> is what reading the log gives: an error, no file, or its text.\<close>

definition export_event_log_method :: "'f host_lib \<Rightarrow> instant \<Rightarrow> string + string option \<Rightarrow> daemon_error + string" where
  "export_event_log_method H exported_at contents =
     and_then (map_err DaemonIo contents) (\<lambda>found.
       Inr (retained_event_log_contents H (case found of None \<Rightarrow> [] | Some text \<Rightarrow> text)
         (exported_at - 30 * nanos_per_day)))"

definition log_summary :: "focus_core \<Rightarrow> daemon_error + event_summary" where
  "log_summary core = core_query event_summary core"

record 'f daemon_status =
  st_enforcement_state :: string
  st_clock_integrity :: "'f clock_integrity_status"
  st_rules :: nat
  st_app_rules :: nat
  st_schedules :: nat
  st_allowances :: nat

definition status_method ::
  "'u lib \<Rightarrow> 'f host_lib \<Rightarrow> clock_reading \<Rightarrow> instant \<Rightarrow> (daemon, 'f daemon_status) action" where
  "status_method L H rd enforcement d =
     act_bind (core_read (enforcement_state_from_core H enforcement)) (\<lambda>state.
     act_bind (on_core (on_database (guarded_now L H rd None (dm_trust_client_time d)))) (\<lambda>g.
     act_bind (core_read (\<lambda>core. Inr (fc_config core))) (\<lambda>config.
       act_return \<lparr>st_enforcement_state = state, st_clock_integrity = gn_integrity g,
         st_rules = length (cfg_rules config), st_app_rules = length (cfg_app_rules config),
         st_schedules = length (cfg_schedules config), st_allowances = length (cfg_allowances config)\<rparr>))) d"

definition check_daemon :: "'u lib \<Rightarrow> instant \<Rightarrow> (focus_core, unit) action" where
  "check_daemon L now core =
     act_bind (act_read (\<lambda>core. map_err DaemonCore (validate_config L (fc_config core)))) (\<lambda>_.
       on_db (set_service_state ''last_check'' ''ok'' now)) core"

section \<open>Every event of a batch is counted\<close>

definition counted :: "diagnostic_counts \<Rightarrow> nat" where
  "counted c = dg_accepted c + dg_duplicates c + dg_rejected c"

lemma diagnostic_step_counts:
  "diagnostic_step H J now e c core = (Inr c', core') \<Longrightarrow> counted c' = Suc (counted c)"
  unfolding diagnostic_step_def
  by (auto simp: counted_def act_bind_Inr act_return_def split: if_splits)

lemma diagnostic_fold_counts:
  "act_fold (diagnostic_step H J now) events c core = (Inr c', core') \<Longrightarrow> counted c' = length events + counted c"
proof (induction events arbitrary: c core)
  case (Cons e events)
  then obtain c1 core1 where "diagnostic_step H J now e c core = (Inr c1, core1)"
    "act_fold (diagnostic_step H J now) events c1 core1 = (Inr c', core')"
    by (auto simp: act_bind_Inr)
  then show ?case using Cons.IH diagnostic_step_counts by fastforce
qed (simp add: act_return_def)

lemma recorded_diagnostics_are_counted:
  assumes "record_diagnostics_method H J now events core = (Inr c, core')"
  shows "dg_accepted c + dg_duplicates c + dg_rejected c = length events \<and> length events \<le> 100"
  using assms diagnostic_fold_counts [of H J now events no_counts core c core']
  by (auto simp: record_diagnostics_method_def counted_def no_counts_def max_diagnostic_events_per_batch_def
      act_read_def invalid_def split: if_splits)

lemma concat_lines_inclusive: "concat (lines_inclusive s) = s"
  by (induction s) (auto split: list.splits)

lemma exported_log_is_unchanged_when_recent:
  assumes "\<forall>line\<in>set (lines_inclusive contents). line_retained H cutoff line"
  shows "retained_event_log_contents H contents cutoff = contents"
  using assms by (simp add: retained_event_log_contents_def concat_lines_inclusive filter_id_conv)

end
