(* ===== verification/Startup.thy ===== *)
theory Startup imports EditMethods begin

text \<open>
  The start of the daemon, \<open>DaemonApp::load\<close> of \<^verbatim>\<open>focusd/src/app.rs\<close>: which of the three places a policy can
  come from is used, and where it is published. Opening the database file is a state of the database, reading
  the configuration file and opening the event log are given by their results.
\<close>

record startup =
  su_database :: database
  su_recovery :: snapshot_store

definition on_start_db :: "(database, 'a) action \<Rightarrow> (startup, 'a) action" where
  "on_start_db m s = (let (r, db) = m (su_database s) in (r, s\<lparr>su_database := db\<rparr>))"

definition on_start_recovery :: "(snapshot_store, 'a) action \<Rightarrow> (startup, 'a) action" where
  "on_start_recovery m s = (let (r, store) = m (su_recovery s) in (r, s\<lparr>su_recovery := store\<rparr>))"

definition event_detail_retention_days :: int where
  "event_detail_retention_days = 30"

text \<open>
  \<open>sp_loaded\<close> is what \<open>load_config\<close> makes of the configuration file, \<open>sp_event_log\<close> the lines of the event log file or
  the error of opening it; the path is shown in an error and an event.
\<close>

record startup_input =
  sp_serve :: bool
  sp_database_preexisting :: bool
  sp_loaded :: "daemon_error + config"
  sp_recovery_path :: string
  sp_event_log :: "string + log_line list"
  sp_clock :: clock_reading
  sp_recorded_at :: instant
  sp_local_now :: datetime

definition load_startup_policy ::
  "'u lib \<Rightarrow> toml_lib \<Rightarrow> startup_input \<Rightarrow> bool \<Rightarrow> (startup, config \<times> bool) action" where
  "load_startup_policy L T i persist_policy =
     act_bind (act_read (\<lambda>s. map_err DaemonCore (has_policy_config (su_database s)))) (\<lambda>has.
     if has then act_bind (act_read (\<lambda>s. map_err DaemonCore (load_policy_config L (su_database s)))) (\<lambda>config.
       act_return (config, False))
     else act_bind (act_read (\<lambda>s. load_snapshot L T (su_recovery s))) (\<lambda>snapshot.
       case snapshot of
         Some config \<Rightarrow>
           act_bind (act_when persist_policy (on_start_db (db_action (replace_policy_config L config)))) (\<lambda>_.
             act_return (config, True))
       | None \<Rightarrow>
           if sp_database_preexisting i then act_read (\<lambda>_. Inl (MissingPolicyRecovery (sp_recovery_path i)))
           else act_bind (act_read (\<lambda>_. sp_loaded i)) (\<lambda>config.
             act_bind (act_when persist_policy (on_start_db (db_action (replace_policy_config L config)))) (\<lambda>_.
               act_return (config, False)))))"

definition set_event_log_path :: "string + log_line list \<Rightarrow> (database, unit) action" where
  "set_event_log_path log db =
     (case log of Inl e \<Rightarrow> (Inl (DaemonIo e), db) | Inr contents \<Rightarrow> (Inr (), db\<lparr>db_event_log := Some contents\<rparr>))"

text \<open>Events older than the retention go, unless the clock cannot be trusted.\<close>

definition retention_pass :: "'u lib \<Rightarrow> 'f host_lib \<Rightarrow> clock_reading \<Rightarrow> (database, unit) action" where
  "retention_pass L H rd =
     act_bind (guarded_now L H rd None False) (\<lambda>g.
       if ci_state (gn_integrity g) = status_tampered then act_return ()
       else act_bind (db_action (enforce_event_retention (dt_utc (gn_now g)) (event_detail_retention_days * nanos_per_day)))
         (\<lambda>_. act_return ()))"

text \<open>Maintenance commands use what they load without publishing it, unless they create the database.\<close>

definition persists_policy :: "startup_input \<Rightarrow> bool" where
  "persists_policy i \<longleftrightarrow> sp_serve i \<or> \<not> sp_database_preexisting i"

definition announce :: "startup_input \<Rightarrow> (startup, unit) action" where
  "announce i = on_start_db (act_bind (db_action (record_event ''policy_recovered'' (Some ''policy'')
     (Some (Details (''restored from '' @ sp_recovery_path i))) (sp_recorded_at i))) (\<lambda>_. act_return ()))"

definition settle_policy :: "'u lib \<Rightarrow> toml_lib \<Rightarrow> startup_input \<Rightarrow> (startup, config) action" where
  "settle_policy L T i =
     (let persist_policy = persists_policy i in
      act_bind (load_startup_policy L T i persist_policy) (\<lambda>(loaded, recovered).
      let (config, changed) = ensure_mandatory_app_rules loaded in
      act_bind (act_when (changed \<and> persist_policy) (on_start_db (db_action (replace_policy_config L config)))) (\<lambda>_.
      act_bind (act_when persist_policy (on_start_recovery (write_snapshot L T config))) (\<lambda>_.
      act_bind (act_when (recovered \<and> persist_policy) (announce i)) (\<lambda>_.
        act_return config)))))"

definition daemon_load ::
  "'u lib \<Rightarrow> 'f host_lib \<Rightarrow> toml_lib \<Rightarrow> startup_input \<Rightarrow> (startup, focus_core) action" where
  "daemon_load L H T i =
     act_bind (on_start_recovery lock_recovery) (\<lambda>_.
     act_bind (on_start_db (set_event_log_path (sp_event_log i))) (\<lambda>_.
     act_bind (on_start_db (retention_pass L H (sp_clock i))) (\<lambda>_.
     act_bind (settle_policy L T i) (\<lambda>config.
     act_bind (act_read (\<lambda>s. map_err DaemonCore (core_new L config (su_database s)))) (\<lambda>core.
     act_bind (on_start_db (db_action (sync_schedule_activity_totals L (cfg_schedules config) (sp_local_now i)))) (\<lambda>_.
     act_read (\<lambda>s. Inr (core\<lparr>fc_database := su_database s\<rparr>))))))))"

end
