(* ===== verification/Repairs.thy ===== *)
theory Repairs imports Diagnostics Startup begin

text \<open>
  The repair loop of \<^verbatim>\<open>focusd/src/app.rs\<close>: the policies of the browsers and the hosts file are repaired, the
  failures are reported, and the loop sleeps until the next boundary of a schedule, the next end of a Detox or
  the interval, whatever comes first.
\<close>

section \<open>One round of repairs\<close>

definition daemon_enforcement_active :: "'f host_lib \<Rightarrow> instant \<Rightarrow> (machine, bool) action" where
  "daemon_enforcement_active H now = on_daemon (core_read (enforcement_active_from_core H now))"

definition heard_from :: "bool \<Rightarrow> supported_browser \<Rightarrow> (machine, bool) action" where
  "heard_from deferred browser =
     (if deferred then on_daemon (core_read (has_extension_heartbeat (browser_extension_component browser)))
      else act_return True)"

definition repair_gecko_policy ::
  "'f host_lib \<Rightarrow> json_lib \<Rightarrow> backup_lib \<Rightarrow> managers \<Rightarrow> instant \<Rightarrow> supported_browser \<Rightarrow> (machine, policy_repair_status) action" where
  "repair_gecko_policy H J B G now browser =
     (if \<not> mg_manage_firefox_policy G then act_return PolicySkippedDisabled
      else act_bind (heard_from (mg_defer_firefox_policy_repair G) browser) (\<lambda>heard.
        if \<not> heard then act_return PolicySkippedDeferred
        else act_bind (daemon_enforcement_active H now) (\<lambda>active.
          if \<not> active then act_return PolicySkippedInactive
          else act_bind (act_read (\<lambda>_. gecko_policy G browser)) (\<lambda>M. on_documents (verify_and_repair J B M)))))"

definition repair_gecko_policies ::
  "'f host_lib \<Rightarrow> json_lib \<Rightarrow> backup_lib \<Rightarrow> managers \<Rightarrow> instant
     \<Rightarrow> (machine, (supported_browser \<times> policy_repair_status) list) action" where
  "repair_gecko_policies H J B G now = act_map (\<lambda>browser.
     act_bind (repair_gecko_policy H J B G now browser) (\<lambda>status. act_return (browser, status))) firefox_browsers"

definition repair_chromium_policy_with_settings ::
  "'f host_lib \<Rightarrow> json_lib \<Rightarrow> managers \<Rightarrow> instant \<Rightarrow> incognito_policy_settings \<Rightarrow> supported_browser
     \<Rightarrow> (machine, policy_repair_status) action" where
  "repair_chromium_policy_with_settings H J G now settings browser =
     (if \<not> mg_manage_chrome_policy G then act_return PolicySkippedDisabled
      else act_bind (heard_from (mg_defer_chrome_policy_repair G) browser) (\<lambda>heard.
        if \<not> heard then act_return PolicySkippedDeferred
        else act_bind (daemon_enforcement_active H now) (\<lambda>active.
          if \<not> active then act_return PolicySkippedInactive
          else act_bind (act_read (\<lambda>_. ensure_chromium_incognito_url_blocklist_within_limit settings)) (\<lambda>_.
            act_bind (act_read (\<lambda>_. chromium_policy G browser)) (\<lambda>M.
              on_documents (chrome_verify_and_repair_with J M (ip_mode settings) (ip_url_blocklist settings)))))))"

definition app_chromium_settings :: "'u lib \<Rightarrow> 'f host_lib \<Rightarrow> clock_reading \<Rightarrow> (machine, incognito_policy_settings) action" where
  "app_chromium_settings L H rd = on_daemon (
     act_bind (on_core (on_database (guarded_now L H rd None False))) (\<lambda>g.
       core_read (current_chromium_incognito_policy_settings L (gn_now g) (ci_state (gn_integrity g) = status_tampered))))"

definition repair_chromium_policies ::
  "'u lib \<Rightarrow> 'f host_lib \<Rightarrow> json_lib \<Rightarrow> managers \<Rightarrow> clock_reading \<Rightarrow> instant
     \<Rightarrow> (machine, (supported_browser \<times> policy_repair_status) list) action" where
  "repair_chromium_policies L H J G rd now =
     act_bind (app_chromium_settings L H rd) (\<lambda>settings. act_map (\<lambda>browser.
       act_bind (repair_chromium_policy_with_settings H J G now settings browser) (\<lambda>status. act_return (browser, status)))
       chromium_browsers)"

definition repair_hosts ::
  "'u lib \<Rightarrow> 'f host_lib \<Rightarrow> clock_reading \<Rightarrow> instant \<Rightarrow> (machine, hosts_repair_status) action" where
  "repair_hosts L H rd now =
     act_bind (daemon_enforcement_active H now) (\<lambda>active.
     if \<not> active then act_return SkippedInactive
     else on_daemon (
       act_bind (on_core (on_database (guarded_now L H rd None False))) (\<lambda>g.
       let tampered = (ci_state (gn_integrity g) = status_tampered) in
       act_bind (core_read (hosts_detox_sessions_for_clock (dt_utc (gn_now g)) tampered)) (\<lambda>sessions.
       act_bind (core_read (\<lambda>core. Inr (fc_config core))) (\<lambda>config.
         on_hosts (verify_and_repair_with_active_detox L config sessions (gn_now g) tampered))))))"

text \<open>A failure is recorded with its text, and the round goes on.\<close>

definition reporting ::
  "json_lib \<Rightarrow> (daemon_error \<Rightarrow> string) \<Rightarrow> instant \<Rightarrow> string \<Rightarrow> string \<Rightarrow> (machine, 'a) action \<Rightarrow> (machine, unit) action" where
  "reporting J show_error now kind label m s =
     (case m s of
        (Inr _, s) \<Rightarrow> (Inr (), s)
      | (Inl e, s) \<Rightarrow> on_daemon (on_core (record_daemon_diagnostic J now ''error'' kind (label @ '' failed: '' @ show_error e))) s)"

text \<open>The clocks of a round: the readings of the repairs and the moment a failure is recorded at.\<close>

record repair_clock =
  rk_chromium :: clock_reading
  rk_hosts :: clock_reading
  rk_enforcement :: instant
  rk_failed_at :: instant

definition repair_round ::
  "'u lib \<Rightarrow> 'f host_lib \<Rightarrow> json_lib \<Rightarrow> backup_lib \<Rightarrow> managers \<Rightarrow> (daemon_error \<Rightarrow> string) \<Rightarrow> repair_clock \<Rightarrow> (machine, unit) action" where
  "repair_round L H J B G show_error k =
     act_bind (reporting J show_error (rk_failed_at k) ''policy_repair_failed'' ''Firefox-family policy repair''
       (repair_gecko_policies H J B G (rk_enforcement k))) (\<lambda>_.
     act_bind (reporting J show_error (rk_failed_at k) ''policy_repair_failed'' ''Chromium-family policy repair''
       (repair_chromium_policies L H J G (rk_chromium k) (rk_enforcement k))) (\<lambda>_.
     reporting J show_error (rk_failed_at k) ''hosts_repair_failed'' ''hosts repair''
       (repair_hosts L H (rk_hosts k) (rk_enforcement k))))"

section \<open>One round of retention\<close>

definition event_retention_round ::
  "'u lib \<Rightarrow> 'f host_lib \<Rightarrow> json_lib \<Rightarrow> (daemon_error \<Rightarrow> string) \<Rightarrow> clock_reading \<Rightarrow> instant \<Rightarrow> (machine, unit) action" where
  "event_retention_round L H J show_error rd failed_at =
     reporting J show_error failed_at ''event_retention_failed'' ''event retention maintenance''
       (on_daemon (on_core (on_database (retention_pass L H rd))))"

section \<open>How long the loop sleeps\<close>

text \<open>A time of day of a civil day, where it is in the calendar.\<close>

definition boundary_at :: "'u lib \<Rightarrow> datetime \<Rightarrow> int \<Rightarrow> time_of_day \<Rightarrow> instant option" where
  "boundary_at L now date t =
     (let utc = local_instant (dt_offset now) date t in
      if first_day L \<le> day_number utc \<and> day_number utc \<le> last_day L then Some utc else None)"

definition checked_add_days :: "'u lib \<Rightarrow> int \<Rightarrow> int \<Rightarrow> int option" where
  "checked_add_days L date n = (if date + n \<le> last_day L then Some (date + n) else None)"

definition closer :: "instant \<Rightarrow> instant \<Rightarrow> instant option \<Rightarrow> instant option" where
  "closer now boundary next_boundary =
     (if boundary > now \<and> (case next_boundary of None \<Rightarrow> True | Some current \<Rightarrow> boundary < current)
      then Some boundary else next_boundary)"

text \<open>The question mark leaves the whole search with nothing.\<close>

fun search_fold :: "('a \<Rightarrow> 'b \<Rightarrow> 'b option) \<Rightarrow> 'a list \<Rightarrow> 'b \<Rightarrow> 'b option" where
  "search_fold f [] y = Some y"
| "search_fold f (x # xs) y = (case f x y of None \<Rightarrow> None | Some y' \<Rightarrow> search_fold f xs y')"

definition window_boundaries :: "'u lib \<Rightarrow> datetime \<Rightarrow> int \<Rightarrow> schedule_window \<Rightarrow> (instant \<times> instant) option" where
  "window_boundaries L now date window =
     Option.bind (boundary_at L now date (sw_start window)) (\<lambda>start.
     Option.bind (if sw_start window < sw_end window then Some date else checked_add_days L date 1) (\<lambda>end_date.
     Option.bind (boundary_at L now end_date (sw_end window)) (\<lambda>stop. Some (start, stop))))"

definition boundary_day ::
  "'u lib \<Rightarrow> datetime \<Rightarrow> schedule_config \<Rightarrow> int \<Rightarrow> instant option \<Rightarrow> instant option option" where
  "boundary_day L now schedule day_offset next_boundary =
     (case checked_add_days L (day_number (local_nanos now)) day_offset of
        None \<Rightarrow> Some next_boundary
      | Some date \<Rightarrow>
          search_fold (\<lambda>window next_boundary.
              case window_boundaries L now date window of
                None \<Rightarrow> None
              | Some (start, stop) \<Rightarrow> Some (closer (dt_utc now) stop (closer (dt_utc now) start next_boundary)))
            (filter (\<lambda>window. day_includes (sw_weekday window) (weekday_from (day_weekday L date))) (sc_windows schedule))
            next_boundary)"

definition next_tier2_site_schedule_boundary :: "'u lib \<Rightarrow> config \<Rightarrow> datetime \<Rightarrow> int option" where
  "next_tier2_site_schedule_boundary L config now =
     Option.bind (search_fold (\<lambda>schedule. search_fold (boundary_day L now schedule) [0, 1, 2, 3, 4, 5, 6, 7, 8])
        (cfg_schedules config) None)
       (map_option (\<lambda>boundary. boundary - dt_utc now))"

definition min_delay :: "int option \<Rightarrow> int \<Rightarrow> int" where
  "min_delay found delay = (case found of None \<Rightarrow> delay | Some d \<Rightarrow> min d delay)"

definition nearest_detox_end :: "instant \<Rightarrow> detox_session list \<Rightarrow> int option" where
  "nearest_detox_end now sessions =
     (case map (\<lambda>session. ds_ends_at session - now) (filter (\<lambda>session. ds_ends_at session > now) sessions) of
        [] \<Rightarrow> None
      | d # ds \<Rightarrow> Some (fold min ds d))"

text \<open>Nothing fails: a clock that cannot be read, or a database that cannot, leaves the interval.\<close>

definition next_policy_repair_delay ::
  "'u lib \<Rightarrow> 'f host_lib \<Rightarrow> clock_reading \<Rightarrow> int \<Rightarrow> focus_core \<Rightarrow> int \<times> focus_core" where
  "next_policy_repair_delay L H rd interval core =
     (case on_database (guarded_now L H rd None False) core of
        (Inl _, core) \<Rightarrow> (interval, core)
      | (Inr g, core) \<Rightarrow>
          if ci_state (gn_integrity g) = status_tampered then (interval, core)
          else
            (let now = dt_utc (gn_now g);
                 schedule_delay = min_delay (next_tier2_site_schedule_boundary L (fc_config core) (gn_now g)) interval;
                 detox_delay = (case core_query (active_detox_sessions now) core of
                   Inl _ \<Rightarrow> None | Inr sessions \<Rightarrow> nearest_detox_end now sessions)
             in (min_delay detox_delay schedule_delay, core)))"

end
