(* ===== verification/Extensions.thy ===== *)
theory Extensions imports Diagnostics Repairs begin

text \<open>
  The extensions of the browsers, the running applications and the activity of the schedules, from \<^verbatim>\<open>focusd/src/rpc.rs\<close>: which browser a heartbeat
  stands for, what is shown of it, and what is shown of each process. The processes are those a scan of \<open>/proc\<close>
  gives, or the error it ends with.
\<close>

section \<open>The browser of a heartbeat\<close>

definition chrome_extension_heartbeat_timeout_seconds :: u64 where
  "chrome_extension_heartbeat_timeout_seconds = 75"

definition component_of_reported_browser :: "string \<Rightarrow> string option" where
  "component_of_reported_browser browser =
     map_option browser_extension_component
       (find (\<lambda>candidate. browser_label candidate = to_ascii_lowercase (trim browser)) managed_browsers)"

definition extension_component :: "string option \<Rightarrow> string option \<Rightarrow> string option \<Rightarrow> string" where
  "extension_component component browser extension_id =
     (case Option.bind component (\<lambda>c. if supported_browser_for_extension_component c \<noteq> None then Some c else None) of
        Some c \<Rightarrow> c
      | None \<Rightarrow> (case Option.bind browser component_of_reported_browser of
            Some c \<Rightarrow> c
          | None \<Rightarrow> if extension_id = Some ''opfljaancedgklbpnbpjfhdbbhbfpnoc'' then browser_extension_component Chrome
                    else browser_extension_component Firefox))"

definition infer_browser_from_running_browsers ::
  "supported_browser \<Rightarrow> supported_browser list \<Rightarrow> supported_browser" where
  "infer_browser_from_running_browsers reported running =
     (if reported \<notin> {Chrome, Firefox} then reported
      else case fold (\<lambda>browser candidates.
          if is_chromium_based browser = is_chromium_based reported \<and> browser \<notin> set candidates
          then candidates @ [browser] else candidates) running [] of
        [browser] \<Rightarrow> browser
      | _ \<Rightarrow> reported)"

definition resolve_extension_heartbeat_component ::
  "daemon_error + process_info list \<Rightarrow> string \<Rightarrow> daemon_error + string" where
  "resolve_extension_heartbeat_component scan reported =
     (case supported_browser_for_extension_component reported of
        None \<Rightarrow> Inr reported
      | Some browser \<Rightarrow>
          if browser \<notin> {Chrome, Firefox} then Inr reported
          else and_then scan (\<lambda>processes. Inr (browser_extension_component
                 (infer_browser_from_running_browsers browser (filter_map browser_of processes)))))"

definition extension_browser_running :: "daemon_error + process_info list \<Rightarrow> string \<Rightarrow> daemon_error + bool" where
  "extension_browser_running scan component =
     (case supported_browser_for_extension_component component of
        None \<Rightarrow> Inr False
      | Some browser \<Rightarrow> and_then scan (\<lambda>processes.
          Inr (list_ex (\<lambda>process. browser_of process = Some browser) processes)))"

definition extension_heartbeat_timeout_seconds :: "u64 \<Rightarrow> string \<Rightarrow> u64" where
  "extension_heartbeat_timeout_seconds configured component =
     (case supported_browser_for_extension_component component of
        Some browser \<Rightarrow> if is_chromium_based browser then max configured chrome_extension_heartbeat_timeout_seconds
                        else configured
      | None \<Rightarrow> configured)"

definition browser_name_for_component :: "string \<Rightarrow> string" where
  "browser_name_for_component component =
     (case supported_browser_for_extension_component component of
        None \<Rightarrow> ''Unknown browser'' | Some browser \<Rightarrow> browser_display_name browser)"

section \<open>A heartbeat\<close>

record extension_heartbeat_params =
  hp_now :: "string option"
  hp_component :: "string option"
  hp_browser :: "string option"
  hp_extension_id :: "string option"
  hp_extension_version :: "string option"

definition heartbeat_details_json :: "extension_heartbeat_params \<Rightarrow> string \<Rightarrow> string \<Rightarrow> json" where
  "heartbeat_details_json p reported component = object_of
     [(''browser'', text_or_null (hp_browser p)), (''extension_id'', text_or_null (hp_extension_id p)),
      (''extension_version'', text_or_null (hp_extension_version p)),
      (''reported_component'', JString reported), (''resolved_component'', JString component),
      (''identity_resolution'', JString (if component = reported then ''reported'' else ''process_inferred''))]"

definition browser_extension_mode_from_core :: "'f host_lib \<Rightarrow> instant \<Rightarrow> focus_core \<Rightarrow> daemon_error + string" where
  "browser_extension_mode_from_core H now core =
     and_then (uninstall_handoff_active H now core) (\<lambda>active.
       Inr (if active then browser_extension_mode_uninstalling else ''active''))"

record heartbeat_reply =
  hr_enforcement_state :: string
  hr_browser_extension_mode :: string
  hr_policy_repair :: deferred_repair

definition extension_heartbeat_method ::
  "'u lib \<Rightarrow> 'f host_lib \<Rightarrow> json_lib \<Rightarrow> backup_lib \<Rightarrow> managers \<Rightarrow> request_clock \<Rightarrow> clock_reading
     \<Rightarrow> daemon_error + process_info list \<Rightarrow> extension_heartbeat_params \<Rightarrow> (machine, heartbeat_reply) action" where
  "extension_heartbeat_method L H J B G k settings_clock scan p =
     act_bind (on_daemon (rpc_guarded_now L H k (hp_now p))) (\<lambda>now.
     let reported = extension_component (hp_component p) (hp_browser p) (hp_extension_id p) in
     act_bind (act_read (\<lambda>_. resolve_extension_heartbeat_component scan reported)) (\<lambda>component.
     act_bind (act_read (\<lambda>_. map_err DaemonJson (jl_print J (heartbeat_details_json p reported component)))) (\<lambda>details.
     act_bind (on_daemon (on_core (on_db (upsert_heartbeat component (Some details) (dt_utc now))))) (\<lambda>_.
     act_bind (on_daemon (core_read (enforcement_state_from_core H (request_clock.rk_enforcement k)))) (\<lambda>state.
     act_bind (on_daemon (core_read (browser_extension_mode_from_core H (request_clock.rk_enforcement k)))) (\<lambda>mode.
     act_bind (repair_deferred_policy_after_heartbeat L H J B G settings_clock (request_clock.rk_enforcement k) component) (\<lambda>repair.
       act_return \<lparr>hr_enforcement_state = state, hr_browser_extension_mode = mode, hr_policy_repair = repair\<rparr>)))))))"

section \<open>What is shown of an extension\<close>

record extension_status =
  xs_state :: string
  xs_component :: string
  xs_installed_enabled :: string
  xs_last_seen_at :: "instant option"
  xs_age_seconds :: "int option"
  xs_heartbeat_timeout_seconds :: u64
  xs_browser :: string
  xs_browser_running :: bool
  xs_session_started_at :: "instant option"
  xs_current_session_heartbeat :: bool
  xs_startup_grace_seconds :: int
  xs_startup_grace_remaining_seconds :: int
  xs_extension_id :: "string option"
  xs_extension_version :: "string option"
  xs_detail :: string

definition heartbeat_details :: "json_lib \<Rightarrow> string option \<Rightarrow> json option" where
  "heartbeat_details J details = Option.bind details (\<lambda>t. case jl_parse J t of Inl _ \<Rightarrow> None | Inr v \<Rightarrow> Some v)"

definition detail_text :: "json_lib \<Rightarrow> heartbeat_state option \<Rightarrow> string \<Rightarrow> string option" where
  "detail_text J beat key = Option.bind (Option.bind beat (\<lambda>h. heartbeat_details J (hb_details h)))
     (\<lambda>details. Option.bind (get details key) as_str)"

definition is_current_session :: "heartbeat_state option \<Rightarrow> instant option \<Rightarrow> bool" where
  "is_current_session beat session =
     (case (beat, session) of (Some h, Some started_at) \<Rightarrow> hb_last_seen_at h \<ge> started_at | _ \<Rightarrow> False)"

text \<open>The timeout is compared as a signed number, as the cast of the code has it.\<close>

definition extension_state ::
  "heartbeat_state option \<Rightarrow> string \<Rightarrow> u64 \<Rightarrow> instant \<Rightarrow> bool \<Rightarrow> instant option \<Rightarrow> int \<Rightarrow> string \<times> string" where
  "extension_state beat component timeout now browser_running session startup_grace =
     (let label = browser_name_for_component component;
          elapsed = map_option (elapsed_seconds now) session in
      if \<not> browser_running then
        (''inactive'', label @ '' is not running; no extension heartbeat is expected'')
      else case (if is_current_session beat session then beat else None) of
        None \<Rightarrow>
          if (case elapsed of None \<Rightarrow> True | Some e \<Rightarrow> e \<le> startup_grace) then
            (''starting'', label @ '' is starting; waiting for an extension heartbeat from this launch (''
               @ show_int (case elapsed of None \<Rightarrow> startup_grace | Some e \<Rightarrow> max 0 (startup_grace - e)) @ '' second(s) remaining)'')
          else
            (''missing'', label @ '' is running, but no extension heartbeat from this launch arrived within the ''
               @ show_int startup_grace @ ''-second startup grace period'')
      | Some h \<Rightarrow>
          let age = elapsed_seconds now (hb_last_seen_at h) in
          if age \<le> sint timeout then
            (''active'', ''current-session heartbeat received '' @ show_int age
               @ '' second(s) ago; extension installation and enabled state are confirmed'')
          else
            (''stale'', label @ '' is running, but its current-session heartbeat is '' @ show_int age
               @ '' second(s) old (extension fail-closed timeout: '' @ show_nat (unat timeout) @ '' seconds)''))"

definition browser_extension_status_json ::
  "json_lib \<Rightarrow> heartbeat_state option \<Rightarrow> string \<Rightarrow> u64 \<Rightarrow> instant \<Rightarrow> bool \<Rightarrow> instant option \<Rightarrow> int \<Rightarrow> extension_status" where
  "browser_extension_status_json J beat component timeout now browser_running session startup_grace =
     (let (state, detail) = extension_state beat component timeout now browser_running session startup_grace;
          remaining = map_option (\<lambda>started_at. max 0 (startup_grace - elapsed_seconds now started_at)) session in
      \<lparr>xs_state = state, xs_component = component,
       xs_installed_enabled = (if beat \<noteq> None then ''confirmed'' else ''unconfirmed''),
       xs_last_seen_at = map_option hb_last_seen_at beat,
       xs_age_seconds = map_option (\<lambda>h. elapsed_seconds now (hb_last_seen_at h)) beat,
       xs_heartbeat_timeout_seconds = timeout,
       xs_browser = (case detail_text J beat ''browser'' of None \<Rightarrow> browser_name_for_component component | Some b \<Rightarrow> b),
       xs_browser_running = browser_running, xs_session_started_at = session,
       xs_current_session_heartbeat = is_current_session beat session,
       xs_startup_grace_seconds = startup_grace,
       xs_startup_grace_remaining_seconds =
         (if state = ''starting'' then case remaining of None \<Rightarrow> startup_grace | Some r \<Rightarrow> r else 0),
       xs_extension_id = detail_text J beat ''extension_id'',
       xs_extension_version = detail_text J beat ''extension_version'', xs_detail = detail\<rparr>)"

definition browser_extension_status_from_core ::
  "'f host_lib \<Rightarrow> json_lib \<Rightarrow> string \<Rightarrow> u64 \<Rightarrow> instant \<Rightarrow> bool \<Rightarrow> focus_core \<Rightarrow> daemon_error + extension_status" where
  "browser_extension_status_from_core H J component timeout now browser_running core =
     and_then (core_query (heartbeat component) core) (\<lambda>beat.
     and_then (case (browser_running, supported_browser_for_extension_component component) of
         (True, Some browser) \<Rightarrow> strict_browser_session_started_at H browser core
       | _ \<Rightarrow> Inr None) (\<lambda>session.
       Inr (browser_extension_status_json J beat component timeout now browser_running session
         (browser_startup_grace_seconds (cfg_strict_mode (fc_config core))))))"

definition extension_status_method ::
  "'u lib \<Rightarrow> 'f host_lib \<Rightarrow> json_lib \<Rightarrow> u64 \<Rightarrow> request_clock \<Rightarrow> daemon_error + process_info list \<Rightarrow> string option
     \<Rightarrow> string option \<Rightarrow> (daemon, extension_status) action" where
  "extension_status_method L H J configured k scan client_now component =
     act_bind (rpc_guarded_now L H k client_now) (\<lambda>now.
     let component = extension_component component None None in
     act_bind (act_read (\<lambda>_. extension_browser_running scan component)) (\<lambda>running.
       core_read (browser_extension_status_from_core H J component
         (extension_heartbeat_timeout_seconds configured component) (dt_utc now) running)))"

section \<open>What is shown of the processes\<close>

record running_app =
  ra_pid :: u32
  ra_display_name :: string
  ra_executable_path :: "string option"
  ra_executable_basename :: "string option"
  ra_command_name :: "string option"
  ra_desktop_id :: "string option"
  ra_window_titles :: "string list"
  ra_decision :: string
  ra_blocking_rule_id :: "string option"
  ra_blocking_rule_name :: "string option"

definition running_app_display_name :: "process_identity \<Rightarrow> string option" where
  "running_app_display_name process =
     or_else (or_else (or_else (pi_command_name process) (pi_executable_basename process)) (pi_desktop_id process))
       (case pi_window_titles process of [] \<Rightarrow> None | title # _ \<Rightarrow> Some title)"

fun running_app_decision_details :: "decision \<Rightarrow> string \<times> string option \<times> string option" where
  "running_app_decision_details Allow = (''allow'', None, None)"
| "running_app_decision_details (Block (HardBlock rule_id rule_name)) = (''block'', Some rule_id, Some rule_name)"
| "running_app_decision_details (Block (ScheduledBlockReason rule_id rule_name)) = (''block'', Some rule_id, Some rule_name)"
| "running_app_decision_details (Block (ControlledAccessReason rule_id rule_name _)) = (''block'', Some rule_id, Some rule_name)"
| "running_app_decision_details (Block (Detox _ _ rule_id rule_name _ _)) = (''block'', Some rule_id, Some rule_name)"
| "running_app_decision_details (Block (InvalidUrl _)) = (''block'', None, None)"
| "running_app_decision_details (Block (RuntimeError _)) = (''block'', None, None)"

definition running_app_snapshot_from_identity :: "u32 \<Rightarrow> process_identity \<Rightarrow> decision \<Rightarrow> running_app option" where
  "running_app_snapshot_from_identity pid identity decision =
     map_option (\<lambda>display_name.
       let (label, rule_id, rule_name) = running_app_decision_details decision in
       \<lparr>ra_pid = pid, ra_display_name = display_name, ra_executable_path = pi_executable_path identity,
        ra_executable_basename = pi_executable_basename identity, ra_command_name = pi_command_name identity,
        ra_desktop_id = pi_desktop_id identity, ra_window_titles = pi_window_titles identity, ra_decision = label,
        ra_blocking_rule_id = rule_id, ra_blocking_rule_name = rule_name\<rparr>)
     (running_app_display_name identity)"

definition shown_decision ::
  "'u lib \<Rightarrow> config \<Rightarrow> database \<Rightarrow> datetime \<Rightarrow> bool \<Rightarrow> process_info \<Rightarrow> decision" where
  "shown_decision L config db now clock_tampered process =
     (let identity = process_identity_of process;
          blocklist_decision = evaluate_app L (context_for (with_app_mode Blocklist config) now clock_tampered) identity db in
      if is_block blocklist_decision then blocklist_decision
      else evaluate_app L (context_for (with_app_mode Allowlist config) now clock_tampered) identity db)"

text \<open>Sorting by the process id first and stably by the name after orders by both.\<close>

definition running_app_snapshots_from_processes ::
  "'u lib \<Rightarrow> process_info list \<Rightarrow> datetime \<Rightarrow> bool \<Rightarrow> focus_core \<Rightarrow> daemon_error + running_app list" where
  "running_app_snapshots_from_processes L processes now clock_tampered core =
     and_then (unsupported_browser_block_is_active L now clock_tampered core) (\<lambda>block_active.
     let config = scan_config block_active (fc_config core);
         exempt_pids = application_allowlist_exempt_process_ids processes in
       Inr (sort_key (\<lambda>app. to_ascii_lowercase (ra_display_name app)) (sort_key ra_pid
         (filter_map (\<lambda>process. running_app_snapshot_from_identity (px_pid process) (process_identity_of process)
             (shown_decision L config (fc_database core) now clock_tampered process))
           (filter (\<lambda>process. px_pid process > 1 \<and> px_pid process \<notin> exempt_pids) processes)))))"

definition running_apps_method ::
  "'u lib \<Rightarrow> 'f host_lib \<Rightarrow> request_clock \<Rightarrow> daemon_error + process_info list \<Rightarrow> string option \<Rightarrow> command_result
     \<Rightarrow> string option \<Rightarrow> (daemon, running_app list \<times> window_title_support) action" where
  "running_apps_method L H k scan session_variable wmctrl client_now =
     act_bind (rpc_guarded_now_with_status L H k client_now) (\<lambda>g.
     act_bind (act_read (\<lambda>_. scan)) (\<lambda>processes.
     let (processes, support) = attach_detected_window_titles session_variable wmctrl processes in
     act_bind (core_read (running_app_snapshots_from_processes L processes (gn_now g)
         (ci_state (gn_integrity g) = status_tampered))) (\<lambda>apps.
       act_return (apps, support))))"

section \<open>What is shown of the schedules\<close>

record schedule_activity =
  sy_id :: string
  sy_name :: "string option"
  sy_total_active_seconds :: int

definition schedule_activity_summary ::
  "'u lib \<Rightarrow> 'f host_lib \<Rightarrow> request_clock \<Rightarrow> string option \<Rightarrow> (daemon, instant \<times> schedule_activity list) action" where
  "schedule_activity_summary L H k client_now =
     act_bind (rpc_guarded_now L H k client_now) (\<lambda>now.
     act_bind (core_read (\<lambda>core. Inr (cfg_schedules (fc_config core)))) (\<lambda>schedules.
     act_bind (on_core (on_db (sync_schedule_activity_totals L schedules now))) (\<lambda>totals.
       act_return (dt_utc now, map (\<lambda>(schedule, total).
         \<lparr>sy_id = sc_id schedule, sy_name = sc_name schedule, sy_total_active_seconds = st_total_active_seconds total\<rparr>)
         (zip schedules totals)))))"

definition export_policy_toml_method :: "'u lib \<Rightarrow> toml_lib \<Rightarrow> (daemon, string) action" where
  "export_policy_toml_method L T = core_read (\<lambda>core. map_err DaemonConfig (to_toml_string L T (fc_config core)))"

end
