(* ===== verification/Dispatch.thy ===== *)
theory Dispatch imports BlockViews Extensions Uninstall EditMethods begin

text \<open>
  Every request the daemon answers (\<open>handle_method\<close> of \<^verbatim>\<open>focusd/src/rpc.rs\<close>), one after another: the lock around
  the core makes them a sequence. A request is a method with its parameters and the clocks, process table and
  files the method reads; older messages are the methods \<open>evaluate_url\<close> and \<open>extension_heartbeat\<close>. A name that
  is no method and parameters that cannot be read are refused.
\<close>

type_synonym process_scan = "daemon_error + process_info list"

text \<open>Requests that show a state. Some of them check the clock, and so write what the clock guard remembers.\<close>

datatype view_request =
  Status clock_reading instant
| ClockIntegrityStatus clock_reading
| ConfigSnapshot
| ExportPolicyToml
| LogSummary
| ExportEventLog instant "string + string option"
| ScheduleActivitySummary request_clock "string option"
| NotificationPreferences
| RunningApps request_clock process_scan "string option" command_result "string option"
| ExtensionStatus request_clock process_scan "string option" "string option"

text \<open>Requests of the clients: what the extension and the desktop application report, and what they ask for.\<close>

datatype client_request =
  EvaluateUrl request_clock string bool "string option"
| ExtensionHeartbeat request_clock clock_reading process_scan extension_heartbeat_params
| RecordDiagnostics instant "client_diagnostic_event list"
| SetNotificationPreferences instant instant notification_preferences
| PendingNotifications instant instant instant "instant option" u32
| AcknowledgeNotifications instant "int list"
| RecordNotificationDelivery instant int bool "string option"
| UnlockRequest request_clock string string "string option"
| VisitStart request_clock string string "string option"
| VisitHeartbeat request_clock int "string option"
| VisitEnd request_clock int "string option"

datatype machine_request =
  ControlRequest control_clock control_request
| PolicyRequest request_clock policy_request "string option"
| ViewRequest view_request
| ClientRequest client_request
| RefusedRequest daemon_error

definition ignoring :: "('s, 'a) action \<Rightarrow> 's \<Rightarrow> 's" where
  "ignoring m s = snd (m s)"

text \<open>The reply is given up: what counts here is what a request leaves behind.\<close>

definition forget :: "('s, 'a) action \<Rightarrow> ('s, unit) action" where
  "forget m = act_bind m (\<lambda>_. act_return ())"

fun handle_view_request ::
  "'u lib \<Rightarrow> 'f host_lib \<Rightarrow> toml_lib \<Rightarrow> json_lib \<Rightarrow> managers \<Rightarrow> view_request \<Rightarrow> (daemon, unit) action" where
  "handle_view_request L H T J G (Status rd enforcement) = forget (status_method L H rd enforcement)"
| "handle_view_request L H T J G (ClockIntegrityStatus rd) = forget (clock_integrity_status_method L H rd)"
| "handle_view_request L H T J G ConfigSnapshot = forget (core_read (\<lambda>core. Inr (fc_config core)))"
| "handle_view_request L H T J G ExportPolicyToml = forget (export_policy_toml_method L T)"
| "handle_view_request L H T J G LogSummary = forget (core_read log_summary)"
| "handle_view_request L H T J G (ExportEventLog exported_at contents) =
     forget (act_read (\<lambda>_. export_event_log_method H exported_at contents))"
| "handle_view_request L H T J G (ScheduleActivitySummary k now) = forget (schedule_activity_summary L H k now)"
| "handle_view_request L H T J G NotificationPreferences = forget (core_read (core_query notification_preferences))"
| "handle_view_request L H T J G (RunningApps k scan session_variable wmctrl now) =
     forget (running_apps_method L H k scan session_variable wmctrl now)"
| "handle_view_request L H T J G (ExtensionStatus k scan now component) =
     forget (extension_status_method L H J (mg_heartbeat_timeout_seconds G) k scan now component)"

fun handle_client_request ::
  "'u lib \<Rightarrow> 'f host_lib \<Rightarrow> text_lib \<Rightarrow> json_lib \<Rightarrow> backup_lib \<Rightarrow> managers \<Rightarrow> client_request \<Rightarrow> (machine, unit) action" where
  "handle_client_request L H X J B G (EvaluateUrl k url probe now) = forget (on_daemon (evaluate_url_method L H X k url probe now))"
| "handle_client_request L H X J B G (ExtensionHeartbeat k settings_clock scan p) =
     forget (extension_heartbeat_method L H J B G k settings_clock scan p)"
| "handle_client_request L H X J B G (RecordDiagnostics received_at events) =
     forget (on_daemon (on_core (record_diagnostics_method H J received_at events)))"
| "handle_client_request L H X J B G (SetNotificationPreferences discard_at event_at requested) =
     forget (on_daemon (on_core (set_notification_preferences_method discard_at event_at requested)))"
| "handle_client_request L H X J B G (PendingNotifications since_now discard_at now block_events_since limit) =
     forget (on_daemon (on_core (pending_notifications_method since_now discard_at now block_events_since limit)))"
| "handle_client_request L H X J B G (AcknowledgeNotifications now ids) =
     forget (on_daemon (on_core (acknowledge_notifications_method now ids)))"
| "handle_client_request L H X J B G (RecordNotificationDelivery now ident delivered detail) =
     forget (on_daemon (on_core (record_notification_delivery_method now ident delivered detail)))"
| "handle_client_request L H X J B G (UnlockRequest k target reason now) =
     forget (on_daemon (request_unlock_method L H k target reason now))"
| "handle_client_request L H X J B G (VisitStart k url tab_id now) =
     forget (on_daemon (record_visit_start_method L H k url tab_id now))"
| "handle_client_request L H X J B G (VisitHeartbeat k ident now) =
     forget (on_daemon (record_visit_heartbeat_method L H k ident now))"
| "handle_client_request L H X J B G (VisitEnd k ident now) = forget (on_daemon (record_visit_end_method L H k ident now))"

fun handle_request ::
  "'u lib \<Rightarrow> 'f host_lib \<Rightarrow> toml_lib \<Rightarrow> text_lib \<Rightarrow> json_lib \<Rightarrow> backup_lib \<Rightarrow> ('k, 's) signature_lib \<Rightarrow> (u8 list \<Rightarrow> string)
     \<Rightarrow> managers \<Rightarrow> machine_request \<Rightarrow> machine \<Rightarrow> machine" where
  "handle_request L H T X J B S sha G (ControlRequest k request) = ignoring (handle_control_request L H J B S sha G k request)"
| "handle_request L H T X J B S sha G (PolicyRequest k request now) =
     ignoring (on_daemon (handle_policy_request L H T k request now))"
| "handle_request L H T X J B S sha G (ViewRequest request) = ignoring (on_daemon (handle_view_request L H T J G request))"
| "handle_request L H T X J B S sha G (ClientRequest request) = ignoring (handle_client_request L H X J B G request)"
| "handle_request L H T X J B S sha G (RefusedRequest e) = ignoring (act_read (\<lambda>_. Inl e :: daemon_error + unit))"

text \<open>A history: whether a request succeeds or fails, the next one finds what it left.\<close>

definition run_requests ::
  "'u lib \<Rightarrow> 'f host_lib \<Rightarrow> toml_lib \<Rightarrow> text_lib \<Rightarrow> json_lib \<Rightarrow> backup_lib \<Rightarrow> ('k, 's) signature_lib \<Rightarrow> (u8 list \<Rightarrow> string)
     \<Rightarrow> managers \<Rightarrow> machine_request list \<Rightarrow> machine \<Rightarrow> machine" where
  "run_requests L H T X J B S sha G = fold (handle_request L H T X J B S sha G)"

end
