(* ===== verification/AlertLaws.thy ===== *)
theory AlertLaws imports Alerts begin

text \<open>
  What the notifications of the daemon guarantee: accepted preferences are in force at once and are
  what is stored, and a change of a schedule is announced once.
\<close>

section \<open>What queueing and recording leave alone\<close>

definition alert_frame :: "database \<Rightarrow> database \<Rightarrow> bool" where
  "alert_frame db db' \<longleftrightarrow> db_fault db' = db_fault db \<and> db_lifecycle db' = db_lifecycle db
     \<and> db_preferences db' = db_preferences db"

lemma alert_frame_refl [simp]: "alert_frame db db"
  by (simp add: alert_frame_def)

lemma alert_frame_trans: "alert_frame db db1 \<Longrightarrow> alert_frame db1 db2 \<Longrightarrow> alert_frame db db2"
  by (simp add: alert_frame_def)

lemma append_log_frame [simp]:
  "db_lifecycle (append_event_log t k g d db) = db_lifecycle db"
  "db_preferences (append_event_log t k g d db) = db_preferences db"
  by (auto simp: append_event_log_def split: option.splits)

lemma added_frame [simp]:
  "db_lifecycle (event_added k t d now db) = db_lifecycle db"
  "db_preferences (event_added k t d now db) = db_preferences db"
  by (simp_all add: event_added_def bump_rowid_def)

lemma total_of_append_log [simp]: "total_of (append_event_log t k g d db) kind = total_of db kind"
  by (simp add: total_of_def)

lemma record_event_alert:
  assumes "record_event kind target details now db = (Inr i, db')"
  shows "alert_frame db db'" "total_of db' k = total_of db k + (if k = kind then 1 else 0)" "db_outbox db' = db_outbox db"
  using assms by (auto elim!: record_event_cases simp: alert_frame_def)

lemma enqueue_alert:
  assumes "enqueue_notification kind title body key now cooldown ttl db = (Inr r, db')"
  shows "alert_frame db db'" "k \<noteq> ''notification_queued'' \<Longrightarrow> total_of db' k = total_of db k"
proof -
  have "alert_frame db db' \<and> (k \<noteq> ''notification_queued'' \<longrightarrow> total_of db' k = total_of db k)"
  proof (cases r)
    case None
    then show ?thesis using assms
      by (auto simp: enqueue_notification_def db_bind_Inr query_Inr split: if_splits)
  next
    case (Some ident)
    then obtain db1 i where e: "record_event ''notification_queued'' (Some (kind @ '':'' @ show_id ident))
        (Some (QueuedDetails title body (format_time (now + ttl)))) now db1 = (Inr i, db')"
      and d: "db1 = (bump_rowid OutboxIds db)\<lparr>db_outbox := db_outbox db @
        [\<lparr>ob_id = ident, ob_kind = kind, ob_title = title, ob_body = body, ob_dedupe_key = key,
          ob_created_at = format_time now, ob_expires_at = format_time (now + ttl), ob_delivered_at = None\<rparr>]\<rparr>"
      using assms by (auto simp: enqueue_notification_def db_bind_Inr exec_Inr Let_def split: if_splits)
    have "alert_frame db db1" "total_of db1 k = total_of db k"
      by (simp_all add: d alert_frame_def total_of_def bump_rowid_def)
    then show ?thesis using record_event_alert [OF e] alert_frame_trans by auto
  qed
  then show "alert_frame db db'" "k \<noteq> ''notification_queued'' \<Longrightarrow> total_of db' k = total_of db k" by auto
qed

section \<open>Preferences\<close>

lemma normalize_Inr:
  "normalize_notification_preferences requested = Inr p \<longleftrightarrow>
     length (np_allowance_warning_minutes requested) \<le> 10
     \<and> (\<forall>m\<in>set (np_allowance_warning_minutes requested). 0 < m \<and> m \<le> 1440)
     \<and> p = requested\<lparr>np_allowance_warning_minutes := remdups_adj (rev (sort (np_allowance_warning_minutes requested)))\<rparr>"
proof -
  have m: "m = 0 \<or> m > max_notification_threshold_minutes \<longleftrightarrow> \<not> (0 < m \<and> m \<le> 1440)" for m
    by (auto simp: max_notification_threshold_minutes_def not_le word_gt_0)
  show ?thesis
    by (auto simp: normalize_notification_preferences_def Let_def max_notification_thresholds_def list_ex_iff m)
qed

lemma sorted_remdups_adj_strict: "sorted (xs :: 'a::linorder list) \<Longrightarrow> sorted_wrt (<) (remdups_adj xs)"
proof (induction xs rule: remdups_adj.induct)
  case (3 x y xs)
  then show ?case by (cases "x = y") (auto simp: le_less intro: less_le_trans)
qed simp_all

text \<open>Kinds the preferences turn off.\<close>

definition kind_disabled :: "notification_preferences \<Rightarrow> string \<Rightarrow> bool" where
  "kind_disabled p kind \<longleftrightarrow> \<not> np_enabled p \<or> kind \<in> set (disabled_kinds p)"

definition all_done :: "(string \<Rightarrow> bool) \<Rightarrow> database \<Rightarrow> bool" where
  "all_done Q db \<longleftrightarrow> (\<forall>row\<in>set (db_outbox db). Q (ob_kind row) \<longrightarrow> ob_delivered_at row \<noteq> None)"

lemma all_done_deliver:
  "all_done Q db \<Longrightarrow> all_done (\<lambda>k. k = kind \<or> Q k) (deliver_rows t (\<lambda>row. ob_kind row = kind) db)"
  by (auto simp: all_done_def deliver_rows_def)

lemma alert_frame_deliver [simp]: "alert_frame (deliver_rows t P db) db' = alert_frame db db'"
  by (simp add: alert_frame_def deliver_rows_def)

lemma discard_kinds:
  assumes "db_for kinds (\<lambda>kind. update_rows tag (deliver_rows t (\<lambda>row. ob_kind row = kind))) db = (Inr u, db')"
    and "all_done Q db"
  shows "alert_frame db db' \<and> all_done (\<lambda>k. k \<in> set kinds \<or> Q k) db'"
  using assms
proof (induction kinds arbitrary: db Q)
  case (Cons kind kinds)
  let ?db = "deliver_rows t (\<lambda>row. ob_kind row = kind) db"
  have r: "db_for kinds (\<lambda>kind. update_rows tag (deliver_rows t (\<lambda>row. ob_kind row = kind))) ?db = (Inr u, db')"
    using Cons.prems(1) by (auto simp: db_bind_Inr update_rows_Inr)
  have "alert_frame ?db db' \<and> all_done (\<lambda>k. k \<in> set kinds \<or> k = kind \<or> Q k) db'"
    using r all_done_deliver [OF Cons.prems(2)] by (rule Cons.IH)
  then show ?case by (simp add: disj_assoc disj_left_commute)
qed (auto simp: alert_frame_def)

lemma discard_disabled_result:
  assumes "discard_disabled_notifications p now db = (Inr u, db')"
  shows "alert_frame db db'" "row \<in> set (db_outbox db') \<Longrightarrow> kind_disabled p (ob_kind row) \<Longrightarrow> ob_delivered_at row \<noteq> None"
proof -
  have "alert_frame db db' \<and> (\<forall>row\<in>set (db_outbox db'). kind_disabled p (ob_kind row) \<longrightarrow> ob_delivered_at row \<noteq> None)"
  proof (cases "np_enabled p")
    case False
    then show ?thesis using assms
      by (auto simp: discard_disabled_notifications_def update_rows_Inr deliver_rows_def alert_frame_def)
  next
    case True
    then have "db_for (disabled_kinds p) (\<lambda>kind. update_rows ''notification_outbox.discard_kind''
        (deliver_rows (format_time now) (\<lambda>row. ob_kind row = kind))) db = (Inr u, db')"
      using assms by (simp add: discard_disabled_notifications_def)
    from discard_kinds [OF this, of "\<lambda>_. False"] True show ?thesis by (auto simp: kind_disabled_def all_done_def)
  qed
  then show "alert_frame db db'" "row \<in> set (db_outbox db') \<Longrightarrow> kind_disabled p (ob_kind row) \<Longrightarrow> ob_delivered_at row \<noteq> None"
    by auto
qed

text \<open>
  Preferences a client sets, when the request succeeds, take effect at once: the thresholds are in
  range, at most ten, strictly decreasing and the ones asked for; what is stored reads back as the
  reply; and no notification of a kind now turned off is left to deliver.
\<close>

lemma accepted_preferences_take_effect:
  assumes "set_notification_preferences_method discard_at event_at requested core = (Inr p, core')"
    and "db_fault (fc_database core) ''notification_preferences.select'' = None"
  shows "notification_preferences (fc_database core') = Inr p
    \<and> set (np_allowance_warning_minutes p) = set (np_allowance_warning_minutes requested)
    \<and> sorted_wrt (>) (np_allowance_warning_minutes p) \<and> length (np_allowance_warning_minutes p) \<le> 10
    \<and> (\<forall>m\<in>set (np_allowance_warning_minutes p). 0 < m \<and> m \<le> 1440)
    \<and> (\<forall>row\<in>set (db_outbox (fc_database core')). kind_disabled p (ob_kind row) \<longrightarrow> ob_delivered_at row \<noteq> None)"
proof -
  let ?db = "fc_database core" and ?db' = "fc_database core'"
  from assms(1) obtain db1 db2 i where n: "normalize_notification_preferences requested = Inr p"
    and 1: "set_notification_preferences p ?db = (Inr (), db1)"
    and 2: "discard_disabled_notifications p discard_at db1 = (Inr (), db2)"
    and 3: "record_event ''notification_preferences_updated'' (Some ''notifications'') None event_at db2 = (Inr i, ?db')"
    by (auto simp: set_notification_preferences_method_def act_read_bind_Inr act_bind_Inr on_db_Inr)
  have m: "filter (\<lambda>m. m > 0) (np_allowance_warning_minutes p) = np_allowance_warning_minutes p"
    using n by (auto simp: normalize_Inr filter_id_conv)
  have "notification_preferences db1 = Inr p"
    using preferences_roundtrip [OF 1 assms(2)] m by simp
  moreover have "alert_frame db1 ?db'"
    using discard_disabled_result(1) [OF 2] record_event_alert(1) [OF 3] by (rule alert_frame_trans)
  ultimately have "notification_preferences ?db' = Inr p"
    by (auto simp: notification_preferences_def query_def alert_frame_def split: option.splits)
  moreover have "length (remdups_adj (rev (sort (np_allowance_warning_minutes requested)))) \<le> 10"
    using n remdups_adj_length [of "rev (sort (np_allowance_warning_minutes requested))"] by (simp add: normalize_Inr)
  ultimately show ?thesis
    using n discard_disabled_result(2) [OF 2] record_event_alert(3) [OF 3]
      sorted_remdups_adj_strict [of "sort (np_allowance_warning_minutes requested)"]
    by (auto simp: normalize_Inr sorted_wrt_rev)
qed

section \<open>Changes of schedules\<close>

text \<open>The state stored for a target, as the loops read it.\<close>

definition stored_state :: "string \<Rightarrow> database \<Rightarrow> string \<Rightarrow> bool option" where
  "stored_state kind db ident = map_option fst (map_of (db_lifecycle db) (kind, ident))"

lemma states_read:
  assumes "notification_lifecycle_states kind db = Inr states"
  shows "map_of states = stored_state kind db"
proof -
  have "map_of (map (\<lambda>((_, target_id), active, _). (target_id, active)) (filter (\<lambda>row. fst (fst row) = kind) rows)) ident
      = map_option fst (map_of rows (kind, ident))" for rows :: "((string \<times> string) \<times> bool \<times> stamp) list" and ident
    by (induction rows) auto
  then show ?thesis using assms
    by (auto simp: notification_lifecycle_states_def query_Inr stored_state_def fun_eq_iff)
qed

lemma set_state_result:
  assumes "set_notification_lifecycle_state kind ident active now db = (Inr u, db')"
  shows "stored_state k db' = (if k = kind then (stored_state k db)(ident \<mapsto> active) else stored_state k db)"
    "total_of db' = total_of db" "db_fault db' = db_fault db"
  using assms
  by (auto simp: set_notification_lifecycle_state_def update_rows_Inr stored_state_def total_of_def fun_eq_iff)

lemma delete_state_result:
  assumes "delete_notification_lifecycle_state kind ident db = (Inr u, db')"
  shows "stored_state k db' = (if k = kind then (stored_state k db)(ident := None) else stored_state k db)"
    "total_of db' = total_of db"
  using assms
  by (auto simp: delete_notification_lifecycle_state_def update_rows_Inr stored_state_def total_of_def fun_eq_iff
      map_of_filter_key)

lemma on_db_result:
  "on_db m core = (Inr x, core') \<Longrightarrow> m (fc_database core) = (Inr x, fc_database core') \<and> fc_config core' = fc_config core"
  by (auto simp: on_db_Inr)

definition change_kind :: "bool \<Rightarrow> string" where
  "change_kind active = (if active then ''schedule_started'' else ''schedule_ended'')"

lemma change_kind_simps [simp]: "change_kind active \<noteq> ''notification_queued''" "change_kind a = change_kind b \<longleftrightarrow> a = b"
  by (auto simp: change_kind_def)

lemma notify_schedule_result:
  assumes "notify_schedule preferences was active now schedule core = (Inr u, core')"
  shows "fc_config core' = fc_config core" "stored_state k (fc_database core') = stored_state k (fc_database core)"
    "total_of (fc_database core') (change_kind b)
      = total_of (fc_database core) (change_kind b) + (if was = Some (\<not> active) \<and> b = active then 1 else 0)"
proof -
  have "fc_config core' = fc_config core \<and> stored_state k (fc_database core') = stored_state k (fc_database core)
    \<and> total_of (fc_database core') (change_kind b)
      = total_of (fc_database core) (change_kind b) + (if was = Some (\<not> active) \<and> b = active then 1 else 0)"
  proof (cases "was = Some (\<not> active)")
    case False
    then show ?thesis using assms by (simp add: notify_schedule_def)
  next
    case True
    obtain kind title detail enabled where c: "schedule_change preferences schedule active = (kind, title, detail, enabled)"
      by (metis prod_cases4)
    then have k: "kind = change_kind active" by (auto simp: schedule_change_def change_kind_def Let_def split: if_splits)
    from assms True c obtain core1 i where
      e: "on_db (record_event kind (Some (sc_id schedule)) (Some (Details detail)) now) core = (Inr i, core1)"
      and q: "act_when (np_enabled preferences \<and> enabled)
          (act_bind (on_db (enqueue_notification kind title detail (kind @ '':'' @ sc_id schedule) now
             nanos_per_minute (lifecycle_notification_ttl_minutes * nanos_per_minute))) (\<lambda>_. act_return ())) core1 = (Inr u, core')"
      by (auto simp: notify_schedule_def act_bind_Inr [of "on_db (record_event _ _ _ _)"])
    note e = on_db_result [OF e]
    have 1: "alert_frame (fc_database core) (fc_database core1)"
      "total_of (fc_database core1) (change_kind b) = total_of (fc_database core) (change_kind b) + (if b = active then 1 else 0)"
      using record_event_alert [OF conjunct1 [OF e]] k by simp_all
    have 2: "alert_frame (fc_database core1) (fc_database core')
        \<and> total_of (fc_database core') (change_kind b) = total_of (fc_database core1) (change_kind b)
        \<and> fc_config core' = fc_config core1"
    proof (cases "np_enabled preferences \<and> enabled")
      case True
      with q obtain r core2 where "on_db (enqueue_notification kind title detail (kind @ '':'' @ sc_id schedule) now
             nanos_per_minute (lifecycle_notification_ttl_minutes * nanos_per_minute)) core1 = (Inr r, core2)" "core' = core2"
        by (auto simp: act_bind_Inr)
      with on_db_result [OF this(1)] enqueue_alert show ?thesis by (metis change_kind_simps(1))
    next
      case False
      then show ?thesis using q by (auto simp: act_when_def split: if_splits)
    qed
    have "alert_frame (fc_database core) (fc_database core')" using alert_frame_trans [OF 1(1)] 2 by blast
    then show ?thesis using 1 2 e True by (simp add: alert_frame_def stored_state_def fun_eq_iff)
  qed
  then show "fc_config core' = fc_config core" "stored_state k (fc_database core') = stored_state k (fc_database core)"
    "total_of (fc_database core') (change_kind b)
      = total_of (fc_database core) (change_kind b) + (if was = Some (\<not> active) \<and> b = active then 1 else 0)" by auto
qed

text \<open>The pass over the schedules, with what each was and is.\<close>

lemma schedule_pass:
  assumes "act_for schedules (\<lambda>schedule.
      act_bind (notify_schedule preferences (was (sc_id schedule)) (act (sc_id schedule)) now schedule) (\<lambda>_.
        on_db (set_notification_lifecycle_state ''schedule'' (sc_id schedule) (act (sc_id schedule)) now))) core = (Inr u, core')"
  shows "fc_config core' = fc_config core
    \<and> stored_state ''schedule'' (fc_database core') = (\<lambda>ident. if ident \<in> sc_id ` set schedules then Some (act ident)
         else stored_state ''schedule'' (fc_database core) ident)
    \<and> total_of (fc_database core') (change_kind b) = total_of (fc_database core) (change_kind b)
        + int (length (filter (\<lambda>schedule. was (sc_id schedule) = Some (\<not> b) \<and> act (sc_id schedule) = b) schedules))"
  using assms
proof (induction schedules arbitrary: core)
  case (Cons schedule schedules)
  from Cons.prems obtain core1 core2 where
    1: "notify_schedule preferences (was (sc_id schedule)) (act (sc_id schedule)) now schedule core = (Inr (), core1)"
    and 2: "set_notification_lifecycle_state ''schedule'' (sc_id schedule) (act (sc_id schedule)) now (fc_database core1)
       = (Inr (), fc_database core2)" "fc_config core2 = fc_config core1"
    and 3: "act_for schedules (\<lambda>schedule.
      act_bind (notify_schedule preferences (was (sc_id schedule)) (act (sc_id schedule)) now schedule) (\<lambda>_.
        on_db (set_notification_lifecycle_state ''schedule'' (sc_id schedule) (act (sc_id schedule)) now))) core2 = (Inr u, core')"
    by (auto simp: act_bind_Inr dest!: on_db_result)
  note n = notify_schedule_result [OF 1]
  note m = set_state_result [OF 2(1)]
  have c: "fc_config core2 = fc_config core" using n(1) 2(2) by simp
  have st: "stored_state ''schedule'' (fc_database core2)
      = (stored_state ''schedule'' (fc_database core))(sc_id schedule \<mapsto> act (sc_id schedule))"
    using m(1) [of "''schedule''"] n(2) [of "''schedule''"] by simp
  have t: "total_of (fc_database core2) (change_kind b) = total_of (fc_database core) (change_kind b)
      + (if was (sc_id schedule) = Some (\<not> b) \<and> act (sc_id schedule) = b then 1 else 0)"
    using m(2) n(3) [of b] by auto
  show ?case using Cons.IH [OF 3] unfolding c st t by (auto simp: fun_eq_iff)
qed (simp add: fun_eq_iff)

lemma forget_one:
  assumes "(if name \<in> set ids then act_return () else on_db (delete_notification_lifecycle_state kind name)) core = (Inr u, core1)"
  shows "stored_state kind (fc_database core1) = (if name \<in> set ids then stored_state kind (fc_database core)
      else (stored_state kind (fc_database core))(name := None))"
    "total_of (fc_database core1) = total_of (fc_database core)"
proof -
  have "stored_state kind (fc_database core1) = (if name \<in> set ids then stored_state kind (fc_database core)
      else (stored_state kind (fc_database core))(name := None))
    \<and> total_of (fc_database core1) = total_of (fc_database core)"
  proof (cases "name \<in> set ids")
    case False
    with assms have "on_db (delete_notification_lifecycle_state kind name) core = (Inr u, core1)" by simp
    from delete_state_result [OF conjunct1 [OF on_db_result [OF this]]] False show ?thesis by simp
  qed (use assms in simp)
  then show "stored_state kind (fc_database core1) = (if name \<in> set ids then stored_state kind (fc_database core)
      else (stored_state kind (fc_database core))(name := None))"
    "total_of (fc_database core1) = total_of (fc_database core)" by auto
qed

lemma forget_pass:
  assumes "forget_missing kind ids states core = (Inr u, core')"
  shows "stored_state kind (fc_database core') = (\<lambda>ident. if ident \<in> fst ` set states \<and> ident \<notin> set ids then None
         else stored_state kind (fc_database core) ident)
    \<and> total_of (fc_database core') = total_of (fc_database core)"
proof -
  have "stored_state kind (fc_database core') = (\<lambda>ident. if ident \<in> set names \<and> ident \<notin> set ids then None
         else stored_state kind (fc_database core) ident)
    \<and> total_of (fc_database core') = total_of (fc_database core)"
    if "act_for names (\<lambda>ident. if ident \<in> set ids then act_return ()
       else on_db (delete_notification_lifecycle_state kind ident)) core = (Inr u, core')" for names
    using that
  proof (induction names arbitrary: core)
    case (Cons name names)
    then obtain core1 where
      1: "(if name \<in> set ids then act_return () else on_db (delete_notification_lifecycle_state kind name)) core = (Inr (), core1)"
      and 2: "act_for names (\<lambda>ident. if ident \<in> set ids then act_return ()
         else on_db (delete_notification_lifecycle_state kind ident)) core1 = (Inr u, core')"
      by (auto simp: act_bind_Inr)
    show ?case using Cons.IH [OF 2] forget_one [OF 1] by (auto simp: fun_eq_iff)
  qed (simp add: fun_eq_iff)
  from this [of "map fst states"] assms show ?thesis by (simp add: forget_missing_def)
qed

text \<open>
  A pass of the notification loop that succeeds leaves exactly the schedules of the policy with a
  stored state, each with what it is at the moment, and records one start for every schedule that was
  stored as idle and is active now and one end for every schedule that was stored as active and is
  idle now; a schedule seen for the first time is not announced.
\<close>

lemma schedule_changes_are_announced_once:
  assumes "sync_schedule_notifications L now core = (Inr u, core')"
    and "\<And>ident. act ident = schedule_ids_are_active_at L [ident] (fc_config core) now False"
  shows "stored_state ''schedule'' (fc_database core') = (\<lambda>ident.
        if ident \<in> sc_id ` set (cfg_schedules (fc_config core)) then Some (act ident) else None)
    \<and> (\<forall>b. total_of (fc_database core') (change_kind b) = total_of (fc_database core) (change_kind b)
        + int (length (filter (\<lambda>schedule. stored_state ''schedule'' (fc_database core) (sc_id schedule) = Some (\<not> b)
            \<and> act (sc_id schedule) = b) (cfg_schedules (fc_config core)))))"
proof -
  let ?S = "cfg_schedules (fc_config core)"
  from assms(1) obtain preferences states core1 where
    s: "notification_lifecycle_states ''schedule'' (fc_database core) = Inr states"
    and p: "act_for ?S (\<lambda>schedule.
      act_bind (notify_schedule preferences (map_of states (sc_id schedule)) (act (sc_id schedule)) (dt_utc now) schedule) (\<lambda>_.
        on_db (set_notification_lifecycle_state ''schedule'' (sc_id schedule) (act (sc_id schedule)) (dt_utc now)))) core
      = (Inr (), core1)"
    and f: "forget_missing ''schedule'' (map sc_id ?S) states core1 = (Inr u, core')"
    by (auto simp: sync_schedule_notifications_def act_read_bind_Inr act_bind_Inr assms(2) Let_def)
  have "ident \<in> fst ` set states \<longleftrightarrow> stored_state ''schedule'' (fc_database core) ident \<noteq> None" for ident
    using states_read [OF s] by (metis map_of_eq_None_iff)
  with forget_pass [OF f] schedule_pass [OF p] show ?thesis
    unfolding states_read [OF s] by (auto simp: fun_eq_iff)
qed

section \<open>Concrete checks\<close>

definition alert_core :: focus_core where
  "alert_core = \<lparr>fc_config = engine_policy,
     fc_database = empty_database\<lparr>db_lifecycle := map (\<lambda>s. ((''schedule'', sc_id s), (True, 0))) (cfg_schedules engine_policy)\<rparr>\<rparr>"

definition late_warnings :: notification_preferences where
  "late_warnings = default_notification_preferences\<lparr>np_allowance_warning_minutes := [1, 5, 5], np_detox_ended := False\<rparr>"

lemma accepted_preferences_take_effect_witness:
  "notification_preferences (fc_database (snd (set_notification_preferences_method 7 8 late_warnings alert_core)))
     = Inr (late_warnings\<lparr>np_allowance_warning_minutes := [5, 1]\<rparr>)"
proof -
  have "fst (set_notification_preferences_method 7 8 late_warnings alert_core)
      = Inr (late_warnings\<lparr>np_allowance_warning_minutes := [5, 1]\<rparr>)" by code_simp
  then have "set_notification_preferences_method 7 8 late_warnings alert_core
      = (Inr (late_warnings\<lparr>np_allowance_warning_minutes := [5, 1]\<rparr>),
         snd (set_notification_preferences_method 7 8 late_warnings alert_core))" by (simp add: prod_eq_iff)
  from accepted_preferences_take_effect [OF this] show ?thesis by (simp add: alert_core_def empty_database_def)
qed

definition alert_pass :: "(daemon_error + unit) \<times> focus_core" where
  "alert_pass = sync_schedule_notifications sample_lib (at_offset 0 tuesday_eight) alert_core"

lemma alert_pass_ok: "fst alert_pass = Inr ()"
  by code_simp

lemma schedule_changes_are_announced_once_witness:
  "stored_state ''schedule'' (fc_database (snd alert_pass)) ''absent'' = None
    \<and> total_of (fc_database (snd alert_pass)) (change_kind True) = total_of (fc_database alert_core) (change_kind True)"
proof -
  have r: "sync_schedule_notifications sample_lib (at_offset 0 tuesday_eight) alert_core = (Inr (), snd alert_pass)"
    using alert_pass_ok by (simp add: alert_pass_def [symmetric] prod_eq_iff)
  have s: "\<not> stored_state ''schedule'' (fc_database alert_core) (sc_id schedule) = Some False"
    for schedule :: schedule_config
    by (auto simp: stored_state_def alert_core_def dest!: map_of_SomeD)
  have n: "''absent'' \<notin> sc_id ` set (cfg_schedules (fc_config alert_core))"
    by (simp add: alert_core_def engine_policy_def night_schedule_def)
  from schedule_changes_are_announced_once [OF r refl] n s show ?thesis by simp
qed

end
