(* ===== verification/PolicyLaws.thy ===== *)
theory PolicyLaws imports ChromiumPolicy begin

text \<open>
  What the browser policies guarantee: a repair that succeeds leaves a compliant document and has
  nothing to do the next time, and removing a united policy gives the document of before back.
\<close>

section \<open>The expected document\<close>

definition object_map :: "(string \<times> json) list \<Rightarrow> json_map" where
  "object_map entries = fold (\<lambda>(k, v). map_insert k v) entries []"

lemma object_of_map: "object_of entries = JObject (object_map entries)"
  by (simp add: object_of_def object_map_def)

lemma object_map_get [simp]: "map_of (object_map entries) = map_of (rev entries)"
  by (simp add: object_map_def map_of_fold_insert)

lemma object_map_sorted [simp]: "sorted_map (object_map entries)"
  using sorted_object_of [of entries] by (auto simp: object_of_map)

lemma object_map_single [simp]: "object_map [(k, v)] = [(k, v)]"
  by (simp add: object_map_def)

definition extension_entry :: "firefox_policy_manager \<Rightarrow> json" where
  "extension_entry M = object_of [
     (''installation_mode'', JString ''force_installed''), (''install_url'', JString (fp_install_url M)),
     (''default_area'', JString ''navbar''), (''private_browsing'', JBool True)]"

definition preference_entry :: json where
  "preference_entry = object_of [(''Value'', JBool False), (''Status'', JString ''locked'')]"

definition managed_value :: "string \<Rightarrow> json" where
  "managed_value key = (if key = ''PrivateBrowsingModeAvailability'' then JInt 0 else JBool True)"

definition expected_map :: "firefox_policy_manager \<Rightarrow> json_map" where
  "expected_map M = object_map [
     (''BlockAboutConfig'', JBool True), (''BlockAboutProfiles'', JBool True), (''BlockAboutSupport'', JBool True),
     (''DisableDeveloperTools'', JBool True), (''DisableSafeMode'', JBool True),
     (''PrivateBrowsingModeAvailability'', JInt 0),
     (''ExtensionSettings'', JObject [(fp_extension_id M, extension_entry M)]),
     (''Preferences'', JObject [(quarantined_domains_preference, preference_entry)])]"

lemma expected_policy_map: "expected_policy M = JObject [(''policies'', JObject (expected_map M))]"
  by (simp add: expected_policy_def expected_map_def extension_entry_def preference_entry_def object_of_map)

lemma expected_policies [simp]: "policies_of (expected_policy M) = Some (expected_map M)"
  by (simp add: policies_of_def expected_policy_map)

lemma managed_keys_simps [simp]:
  "''ExtensionSettings'' \<notin> set managed_policy_keys" "''Preferences'' \<notin> set managed_policy_keys"
  "distinct managed_policy_keys"
  by (simp_all add: managed_policy_keys_def)

lemma expected_values:
  "key \<in> set managed_policy_keys \<Longrightarrow> map_of (expected_map M) key = Some (managed_value key)"
  "map_of (expected_map M) ''ExtensionSettings'' = Some (JObject [(fp_extension_id M, extension_entry M)])"
  "map_of (expected_map M) ''Preferences'' = Some (JObject [(quarantined_domains_preference, preference_entry)])"
  by (auto simp: expected_map_def managed_policy_keys_def managed_value_def)

lemma expected_keys:
  "key \<notin> set managed_policy_keys \<Longrightarrow> key \<noteq> ''ExtensionSettings'' \<Longrightarrow> key \<noteq> ''Preferences''
    \<Longrightarrow> map_of (expected_map M) key = None"
  by (simp add: expected_map_def managed_policy_keys_def)

section \<open>Merging and restoring a document\<close>

text \<open>The object under a key, empty where there is none; \<open>None\<close> where the value is no object.\<close>

definition nested :: "string \<Rightarrow> json_map \<Rightarrow> json_map option" where
  "nested key m = (case map_get m key of None \<Rightarrow> Some [] | Some v \<Rightarrow> as_object v)"

lemma insert_nested_Inr:
  "insert_nested parent child v m = Inr m' \<longleftrightarrow>
     (\<exists>sub. nested parent m = Some sub \<and> m' = map_insert parent (JObject (map_insert child v sub)) m)"
  by (auto simp: insert_nested_def nested_def invalid_data_def split: option.splits)

lemma insert_managed:
  assumes "\<And>key. key \<in> set keys \<Longrightarrow> map_of E key = Some (f key)"
  shows "\<exists>m'. try_fold (\<lambda>key m. case map_get E key of
       None \<Rightarrow> Inl (DaemonCore (Panicked ''BlocKuntu policy must contain every managed key''))
     | Some v \<Rightarrow> Inr (map_insert key v m)) keys m = Inr m'
     \<and> map_of m' = (\<lambda>k. if k \<in> set keys then Some (f k) else map_of m k) \<and> (sorted_map m \<longrightarrow> sorted_map m')"
  using assms
proof (induction keys arbitrary: m)
  case (Cons key keys)
  from Cons.IH [of "map_insert key (f key) m"] Cons.prems obtain m' where
    "try_fold (\<lambda>key m. case map_get E key of
       None \<Rightarrow> Inl (DaemonCore (Panicked ''BlocKuntu policy must contain every managed key''))
     | Some v \<Rightarrow> Inr (map_insert key v m)) keys (map_insert key (f key) m) = Inr m'"
    "map_of m' = (\<lambda>k. if k \<in> set keys then Some (f k) else map_of (map_insert key (f key) m) k)"
    "sorted_map (map_insert key (f key) m) \<longrightarrow> sorted_map m'" by auto
  then show ?case using Cons.prems by (auto simp: fun_eq_iff)
qed (simp add: fun_eq_iff)

text \<open>What a united document holds.\<close>

definition merged_map :: "firefox_policy_manager \<Rightarrow> json_map \<Rightarrow> json_map \<Rightarrow> json_map \<Rightarrow> string \<Rightarrow> json option" where
  "merged_map M es prefs pol key =
     (if key \<in> set managed_policy_keys then Some (managed_value key)
      else if key = ''ExtensionSettings'' then Some (JObject (map_insert (fp_extension_id M) (extension_entry M) es))
      else if key = ''Preferences'' then Some (JObject (map_insert quarantined_domains_preference preference_entry prefs))
      else map_of pol key)"

lemma merge_result:
  assumes "merge_managed_settings policy (expected_policy M) (fp_extension_id M) = Inr united"
  obtains root pol es prefs pol' where "policy = JObject root" "map_of root ''policies'' = Some (JObject pol)"
    "nested ''ExtensionSettings'' pol = Some es" "nested ''Preferences'' pol = Some prefs"
    "united = JObject (map_insert ''policies'' (JObject pol') root)"
    "map_of pol' = merged_map M es prefs pol" "sorted_map pol \<longrightarrow> sorted_map pol'"
proof -
  obtain root where p: "policy = JObject root"
    using assms by (cases policy) (auto simp: merge_managed_settings_def on_policies_def invalid_data_def)
  obtain pol where q: "map_of root ''policies'' = Some (JObject pol)"
    using assms p
    by (auto simp: merge_managed_settings_def on_policies_def invalid_data_def policies_of_def split: option.splits
        elim!: as_object.elims)
  obtain m1 where m1: "try_fold (\<lambda>key m. case map_get (expected_map M) key of
       None \<Rightarrow> Inl (DaemonCore (Panicked ''BlocKuntu policy must contain every managed key''))
     | Some v \<Rightarrow> Inr (map_insert key v m)) managed_policy_keys pol = Inr m1"
    "map_of m1 = (\<lambda>k. if k \<in> set managed_policy_keys then Some (managed_value k) else map_of pol k)"
    "sorted_map pol \<longrightarrow> sorted_map m1"
    using insert_managed [of managed_policy_keys "expected_map M" managed_value pol] expected_values(1) by blast
  have "policies_of policy = Some pol" using p q by (simp add: policies_of_def)
  with assms p m1(1) obtain es m2 prefs where
    "nested ''ExtensionSettings'' m1 = Some es" "nested ''Preferences'' m2 = Some prefs"
    and m2: "m2 = map_insert ''ExtensionSettings'' (JObject (map_insert (fp_extension_id M) (extension_entry M) es)) m1"
    and r: "united = JObject (map_insert ''policies''
       (JObject (map_insert ''Preferences'' (JObject (map_insert quarantined_domains_preference preference_entry prefs)) m2)) root)"
    by (auto simp: merge_managed_settings_def on_policies_def and_then_Inr_iff insert_nested_Inr expected_values index_json_def)
  moreover have "nested ''ExtensionSettings'' m1 = nested ''ExtensionSettings'' pol"
    "nested ''Preferences'' m2 = nested ''Preferences'' pol"
    by (simp_all add: nested_def m1(2) m2)
  ultimately show ?thesis
    using p q m1 by (intro that [OF p q _ _ r]) (auto simp: merged_map_def fun_eq_iff)
qed

lemma merged_includes:
  assumes "merge_managed_settings policy (expected_policy M) (fp_extension_id M) = Inr united"
  shows "policy_includes_managed_settings united (expected_policy M) (fp_extension_id M)"
proof -
  obtain root pol' es prefs pol where "united = JObject (map_insert ''policies'' (JObject pol') root)"
    and m: "map_of pol' = merged_map M es prefs pol" using assms by (rule merge_result) blast
  then have "policies_of united = Some pol'" by (simp add: policies_of_def)
  then show ?thesis
    using m by (simp add: policy_includes_managed_settings_def list_all_iff merged_map_def expected_values)
qed

lemma expected_includes: "policy_includes_managed_settings (expected_policy M) (expected_policy M) (fp_extension_id M)"
  by (simp add: policy_includes_managed_settings_def list_all_iff)

section \<open>Putting a document back\<close>

text \<open>A value whose maps are in key order throughout.\<close>

fun key_ordered :: "json \<Rightarrow> bool" where
  "key_ordered (JObject m) = (sorted_map m \<and> list_all (\<lambda>(_, v). key_ordered v) m)"
| "key_ordered (JArray vs) = list_all key_ordered vs"
| "key_ordered _ = True"

lemma key_ordered_get: "key_ordered (JObject m) \<Longrightarrow> map_of m key = Some v \<Longrightarrow> key_ordered v"
  by (auto simp: list_all_iff dest!: map_of_SomeD)

lemma restore_keys:
  assumes "distinct keys" "\<And>key. key \<in> set keys \<Longrightarrow> find (\<lambda>(name, _). name = key) (mb_policy_values b) = Some (key, f key)"
  shows "map_of (fold (restore_key b) keys m) = (\<lambda>k. if k \<in> set keys then f k else map_of m k)
    \<and> (sorted_map m \<longrightarrow> sorted_map (fold (restore_key b) keys m))"
  using assms
proof (induction keys arbitrary: m)
  case (Cons key keys)
  have "find (\<lambda>(name, _). name = key) (mb_policy_values b) = Some (key, f key)" using Cons.prems by simp
  then have r: "map_of (restore_key b key m) = (map_of m)(key := f key)"
    "sorted_map m \<longrightarrow> sorted_map (restore_key b key m)"
    by (auto simp: restore_key_def split: option.splits)
  have "map_of (fold (restore_key b) keys (restore_key b key m))
      = (\<lambda>k. if k \<in> set keys then f k else map_of (restore_key b key m) k)
    \<and> (sorted_map (restore_key b key m) \<longrightarrow> sorted_map (fold (restore_key b) keys (restore_key b key m)))"
    by (rule Cons.IH) (use Cons.prems in auto)
  then show ?case using r Cons.prems(1) by (auto simp: fun_eq_iff)
qed simp

lemma restore_nothing:
  assumes "mb_policy_values b = []"
  shows "map_of (fold (restore_key b) keys m) = (\<lambda>k. if k \<in> set keys then None else map_of m k)"
proof (induction keys arbitrary: m)
  case (Cons key keys)
  have "map_of (restore_key b key m) = (map_of m)(key := None)" by (simp add: restore_key_def assms)
  then show ?case by (auto simp: Cons.IH fun_eq_iff)
qed simp

text \<open>
  What putting back needs: the document's objects are in key order, no managed setting is the value
  \<open>null\<close> (a backup does not tell it from a missing one), and an object of extension settings or
  preferences is not empty (an empty one is dropped).
\<close>

definition nonempty_object :: "string \<Rightarrow> json_map \<Rightarrow> bool" where
  "nonempty_object key m \<longleftrightarrow> (case map_get m key of None \<Rightarrow> True | Some v \<Rightarrow> (case v of JObject sub \<Rightarrow> sub \<noteq> [] | _ \<Rightarrow> False))"

definition backup_has_null :: "merged_policy_backup \<Rightarrow> bool" where
  "backup_has_null b \<longleftrightarrow> Some JNull \<in> snd ` set (mb_policy_values b) \<or> mb_extension_setting b = Some JNull
     \<or> mb_preference_setting b = Some JNull"

definition restorable :: "string \<Rightarrow> json \<Rightarrow> bool" where
  "restorable extension_id policy \<longleftrightarrow> key_ordered policy
     \<and> (case policies_of policy of None \<Rightarrow> False | Some pol \<Rightarrow>
          nonempty_object ''ExtensionSettings'' pol \<and> nonempty_object ''Preferences'' pol)
     \<and> (case merged_policy_backup_of (Some policy) extension_id of Inl _ \<Rightarrow> False | Inr b \<Rightarrow> \<not> backup_has_null b)"

text \<open>A nested setting, inserted and put back, leaves the object as it was.\<close>

lemma restore_nested_back:
  assumes "map_of m parent = Some (JObject (map_insert child v sub))"
    and "nested parent pol = Some sub" "nonempty_object parent pol" "sorted_map sub" "sorted_map m"
  shows "\<exists>m'. restore_nested_setting parent child (get_in (map_get pol parent) child) m = Inr m'
    \<and> map_of m' = (map_of m)(parent := map_of pol parent) \<and> sorted_map m'"
proof -
  let ?sub = "case map_of sub child of Some w \<Rightarrow> map_insert child w (map_insert child v sub)
      | None \<Rightarrow> map_remove child (map_insert child v sub)"
  have same: "?sub = sub"
    by (rule sorted_map_eq) (use assms(4) in \<open>auto split: option.splits simp: fun_eq_iff\<close>)
  have orig: "get_in (map_get pol parent) child = map_of sub child"
    using assms(2) by (auto simp: nested_def get_def split: option.splits)
  have "restore_nested_setting parent child (get_in (map_get pol parent) child) m
      = Inr (if ?sub = [] then map_remove parent m else map_insert parent (JObject ?sub) m)"
    by (simp add: restore_nested_setting_def assms(1) orig Let_def)
  moreover have "(if sub = [] then None else Some (JObject sub)) = map_of pol parent"
    using assms(2,3) by (auto simp: nested_def nonempty_object_def split: option.splits json.splits elim!: as_object.elims)
  ultimately show ?thesis unfolding same using assms(5) by (auto simp: fun_eq_iff)
qed

lemma merged_policy_back:
  assumes "merge_managed_settings policy (expected_policy M) (fp_extension_id M) = Inr united"
    and "merged_policy_backup_of (Some policy) (fp_extension_id M) = Inr b" "restorable (fp_extension_id M) policy"
  shows "restore_managed_settings united (fp_extension_id M) b = Inr policy"
proof -
  let ?x = "fp_extension_id M"
  obtain root pol es prefs pol' where p: "policy = JObject root" "map_of root ''policies'' = Some (JObject pol)"
    and n: "nested ''ExtensionSettings'' pol = Some es" "nested ''Preferences'' pol = Some prefs"
    and u: "united = JObject (map_insert ''policies'' (JObject pol') root)"
    and m: "map_of pol' = merged_map M es prefs pol" "sorted_map pol \<longrightarrow> sorted_map pol'"
    using assms(1) by (rule merge_result)
  have pol: "policies_of policy = Some pol" using p by (simp add: policies_of_def)
  then have b: "b = \<lparr>mb_policy_was_missing = False, mb_policy_values = map (\<lambda>key. (key, map_get pol key)) managed_policy_keys,
      mb_extension_setting = get_in (map_get pol ''ExtensionSettings'') ?x,
      mb_preference_setting = get_in (map_get pol ''Preferences'') quarantined_domains_preference\<rparr>"
    using assms(2) by (simp add: merged_policy_backup_of_def)
  have o: "key_ordered policy" "nonempty_object ''ExtensionSettings'' pol" "nonempty_object ''Preferences'' pol"
    using assms(3) pol by (auto simp: restorable_def)
  have s: "sorted_map root" using o(1) p(1) by simp
  have k: "key_ordered (JObject pol)" by (rule key_ordered_get [OF _ p(2)]) (use o(1) p(1) in simp)
  then have sp: "sorted_map pol" by simp
  have sub: "sorted_map sub" if "nested key pol = Some sub" for key sub
  proof (cases "map_of pol key")
    case None
    then show ?thesis using that by (simp add: nested_def)
  next
    case (Some v)
    then have "v = JObject sub" using that by (auto simp: nested_def elim!: as_object.elims)
    then show ?thesis using key_ordered_get [OF k Some] by simp
  qed
  let ?m1 = "fold (restore_key b) managed_policy_keys pol'"
  have "find (\<lambda>(name, _). name = key) (mb_policy_values b) = Some (key, map_of pol key)"
    if "key \<in> set managed_policy_keys" for key
    using that by (auto simp: b managed_policy_keys_def)
  from restore_keys [of managed_policy_keys b "map_of pol", OF managed_keys_simps(3) this]
  have m1: "map_of ?m1 = (\<lambda>k. if k \<in> set managed_policy_keys then map_of pol k else map_of pol' k)" "sorted_map ?m1"
    using m(2) sp by auto
  have "map_of ?m1 ''ExtensionSettings'' = Some (JObject (map_insert ?x (extension_entry M) es))"
    by (simp add: m1 m merged_map_def)
  from restore_nested_back [OF this n(1) o(2) sub [OF n(1)] m1(2)] obtain m2 where
    m2: "restore_nested_setting ''ExtensionSettings'' ?x (mb_extension_setting b) ?m1 = Inr m2"
    "map_of m2 = (map_of ?m1)(''ExtensionSettings'' := map_of pol ''ExtensionSettings'')" "sorted_map m2"
    by (auto simp: b)
  have "map_of m2 ''Preferences'' = Some (JObject (map_insert quarantined_domains_preference preference_entry prefs))"
    by (simp add: m2(2) m1(1) m merged_map_def)
  from restore_nested_back [OF this n(2) o(3) sub [OF n(2)] m2(3)] obtain m3 where
    m3: "restore_nested_setting ''Preferences'' quarantined_domains_preference (mb_preference_setting b) m2 = Inr m3"
    "map_of m3 = (map_of m2)(''Preferences'' := map_of pol ''Preferences'')" "sorted_map m3"
    by (auto simp: b)
  have "m3 = pol" using m3(3) sp by (rule sorted_map_eq) (auto simp: m3(2) m2(2) m1(1) m merged_map_def fun_eq_iff)
  moreover have "map_insert ''policies'' (JObject pol) (map_insert ''policies'' (JObject pol') root) = root"
    using s by (intro sorted_map_eq) (auto simp: fun_eq_iff p(2))
  moreover have "policies_of united = Some pol'" by (simp add: u policies_of_def)
  ultimately show ?thesis using m2(1) m3(1) by (simp add: restore_managed_settings_def on_policies_def u p)
qed

lemma sorted_expected: "sorted_map (expected_map M)"
  by (simp add: expected_map_def)

lemma expected_back:
  "\<exists>restored. restore_managed_settings (expected_policy M) (fp_extension_id M)
     \<lparr>mb_policy_was_missing = True, mb_policy_values = [], mb_extension_setting = None, mb_preference_setting = None\<rparr>
     = Inr restored \<and> nothing_left restored"
proof -
  let ?b = "\<lparr>mb_policy_was_missing = True, mb_policy_values = [], mb_extension_setting = None, mb_preference_setting = None\<rparr>"
  let ?m1 = "fold (restore_key ?b) managed_policy_keys (expected_map M)"
  have m1: "map_of ?m1 = (\<lambda>k. if k \<in> set managed_policy_keys then None else map_of (expected_map M) k)"
    by (rule restore_nothing) simp
  have r1: "restore_nested_setting ''ExtensionSettings'' (fp_extension_id M) None ?m1
      = Inr (map_remove ''ExtensionSettings'' ?m1)"
    by (simp add: restore_nested_setting_def m1 expected_values map_remove_def)
  have r2: "restore_nested_setting ''Preferences'' quarantined_domains_preference None (map_remove ''ExtensionSettings'' ?m1)
      = Inr (map_remove ''Preferences'' (map_remove ''ExtensionSettings'' ?m1))"
    by (simp add: restore_nested_setting_def m1 expected_values) (simp add: map_remove_def)
  have "map_of (map_remove ''Preferences'' (map_remove ''ExtensionSettings'' ?m1)) = Map.empty"
    by (auto simp: m1 fun_eq_iff expected_keys)
  then have e: "map_remove ''Preferences'' (map_remove ''ExtensionSettings'' ?m1) = []" by (simp only: map_of_eq_empty_iff)
  show ?thesis
    using r1 r2 by (simp add: restore_managed_settings_def on_policies_def expected_policy_map policies_of_def e nothing_left_def)
qed

section \<open>The documents on disk\<close>

text \<open>Reading a backup gives what was printed, where no \<open>null\<close> is in it.\<close>

definition backup_roundtrip :: "backup_lib \<Rightarrow> bool" where
  "backup_roundtrip B \<longleftrightarrow> (\<forall>b contents. \<not> backup_has_null b \<and> bl_print B b = Inr contents
     \<longrightarrow> bl_parse B (contents @ [CHR 0x0A]) = Inr b)"

text \<open>The policy document there is, \<open>None\<close> if there is no content.\<close>

definition existing_policy :: "json_lib \<Rightarrow> firefox_policy_manager \<Rightarrow> document_store \<Rightarrow> json option \<Rightarrow> bool" where
  "existing_policy J M s existing \<longleftrightarrow>
     (case do_files s (fp_policy_path M) of
        None \<Rightarrow> existing = None
      | Some c \<Rightarrow> (case existing of None \<Rightarrow> False | Some policy \<Rightarrow> jl_parse J c = Inr policy))"

definition unmanaged :: "firefox_policy_manager \<Rightarrow> json option \<Rightarrow> bool" where
  "unmanaged M existing \<longleftrightarrow>
     (case existing of None \<Rightarrow> True
      | Some policy \<Rightarrow> \<not> policy_includes_managed_settings policy (expected_policy M) (fp_extension_id M))"

lemma ensure_backup_fresh:
  assumes "ensure_merge_backup J B M existing s = (Inr u, s')" "fp_backup_path M = Some bp" "do_files s bp = None"
    and "unmanaged M existing"
  obtains b c where "merged_policy_backup_of existing (fp_extension_id M) = Inr b" "bl_print B b = Inr c"
    "s' = s\<lparr>do_files := (do_files s)(bp := Some (c @ [CHR 0x0A]))\<rparr>"
  using assms
  by (cases existing)
    (auto simp: ensure_merge_backup_def unmanaged_def act_read_bind_Inr and_then_Inr_iff write_printed_Inr
      write_document_Inr intro!: that)

lemma merge_reads:
  assumes "existing_policy J M s existing"
  shows "(case do_files s (fp_policy_path M) of None \<Rightarrow> Inr None
       | Some c \<Rightarrow> and_then (parse_existing J message c) (\<lambda>v. Inr (Some v))) = Inr existing"
  using assms by (auto simp: existing_policy_def parse_existing_def split: option.splits)

lemma verify_merging:
  assumes "verify_and_repair J B M s = (Inr status, s')" "fp_merge_with_existing M"
    and "fp_backup_path M = Some bp" "do_files s bp = None" "existing_policy J M s existing" "unmanaged M existing"
  obtains b c united s1 where "merged_policy_backup_of existing (fp_extension_id M) = Inr b" "bl_print B b = Inr c"
    "(case existing of None \<Rightarrow> Inr (expected_policy M)
      | Some policy \<Rightarrow> merge_managed_settings policy (expected_policy M) (fp_extension_id M)) = Inr united"
    "s1 = s\<lparr>do_files := (do_files s)(bp := Some (c @ [CHR 0x0A]))\<rparr>"
    "write_json J (fp_policy_path M) united s1 = (Inr (), s')" "status = PolicyRepaired"
proof -
  have n: "\<not> (case existing of None \<Rightarrow> False
      | Some policy \<Rightarrow> policy_includes_managed_settings policy (expected_policy M) (fp_extension_id M))"
    using assms(6) by (simp add: unmanaged_def split: option.splits)
  from assms(1,2) merge_reads [OF assms(5)] n obtain s1 united where
    b: "ensure_merge_backup J B M existing s = (Inr (), s1)"
    and u: "(case existing of None \<Rightarrow> Inr (expected_policy M)
      | Some policy \<Rightarrow> merge_managed_settings policy (expected_policy M) (fp_extension_id M)) = Inr united"
    and w: "write_json J (fp_policy_path M) united s1 = (Inr (), s')" "status = PolicyRepaired"
    by (auto simp: verify_and_repair_def merge_and_repair_def act_read_bind_Inr act_bind_Inr read_document_def Let_def)
  obtain b c where "merged_policy_backup_of existing (fp_extension_id M) = Inr b" "bl_print B b = Inr c"
    "s1 = s\<lparr>do_files := (do_files s)(bp := Some (c @ [CHR 0x0A]))\<rparr>"
    by (rule ensure_backup_fresh [OF b assms(3,4,6)])
  with u w show ?thesis by (intro that)
qed

lemma remove_merging:
  assumes "json_roundtrip J" "remove_policy J B M s = (Inr status, s')" "fp_merge_with_existing M"
    and "fp_backup_path M = Some bp" "do_files s bp = Some t" "bl_parse B t = Inr b" "bp \<noteq> fp_policy_path M"
    and "do_files s (fp_policy_path M) = Some c" "jl_parse J c = Inr current"
    and "restore_managed_settings current (fp_extension_id M) b = Inr restored"
  shows "\<exists>content. do_files s' = (do_files s)(bp := None, fp_policy_path M := content)
    \<and> (if mb_policy_was_missing b \<and> nothing_left restored then content = None
       else \<exists>c. content = Some c \<and> jl_parse J c = Inr restored)"
proof (cases "mb_policy_was_missing b \<and> nothing_left restored")
  case True
  then show ?thesis using assms
    by (auto simp: remove_policy_def remove_merged_policy_def act_read_bind_Inr act_bind_Inr read_document_def
        parse_existing_def remove_document_Inr and_then_Inr_iff fun_eq_iff)
next
  case False
  then obtain s1 where w: "write_json J (fp_policy_path M) restored s = (Inr (), s1)"
    and r: "do_files s' = (do_files s1)(bp := None)"
    using assms
    by (auto simp: remove_policy_def remove_merged_policy_def act_read_bind_Inr act_bind_Inr read_document_def
        parse_existing_def remove_document_Inr and_then_Inr_iff)
  from write_json_files [OF assms(1) w] r assms(7) False show ?thesis by (auto simp: fun_upd_twist)
qed

text \<open>
  C28. Merging and removing again gives the vendor's document back: where a repair that merged the
  managed settings into a document for the first time and a later removal both succeed, the document
  reads as it did before, or is gone if there was none, the backup is gone, and no other file is
  touched. Of the document it must hold that it lacked a managed setting before, that its objects are
  in key order as a JSON map is, that none of the settings saved was \<open>null\<close> and that no object of
  extension settings or preferences was empty.
\<close>

theorem merged_policy_removal_restores:
  assumes "json_roundtrip J" "backup_roundtrip B" "fp_merge_with_existing M" "fp_backup_path M = Some bp"
    and "bp \<noteq> fp_policy_path M" "do_files s bp = None" "existing_policy J M s existing" "unmanaged M existing"
    and "\<And>policy. existing = Some policy \<Longrightarrow> restorable (fp_extension_id M) policy"
    and "verify_and_repair J B M s = (Inr status, s1)" "remove_policy J B M s1 = (Inr status', s2)"
  shows "existing_policy J M s2 existing
    \<and> (\<forall>path. path \<noteq> fp_policy_path M \<longrightarrow> do_files s2 path = do_files s path)"
proof -
  obtain b c united s0 where
    b: "merged_policy_backup_of existing (fp_extension_id M) = Inr b" "bl_print B b = Inr c"
    and u: "(case existing of None \<Rightarrow> Inr (expected_policy M)
      | Some policy \<Rightarrow> merge_managed_settings policy (expected_policy M) (fp_extension_id M)) = Inr united"
    and s0: "s0 = s\<lparr>do_files := (do_files s)(bp := Some (c @ [CHR 0x0A]))\<rparr>"
    and w: "write_json J (fp_policy_path M) united s0 = (Inr (), s1)"
    by (rule verify_merging [OF assms(10,3,4,6,7,8)])
  from write_json_files [OF assms(1) w] s0 obtain c1 where
    s1: "do_files s1 = (do_files s)(bp := Some (c @ [CHR 0x0A]), fp_policy_path M := Some c1)" "jl_parse J c1 = Inr united"
    by auto
  have "\<not> backup_has_null b"
    using b(1) assms(9) by (cases existing) (auto simp: merged_policy_backup_of_def backup_has_null_def restorable_def)
  then have pb: "bl_parse B (c @ [CHR 0x0A]) = Inr b" using assms(2) b(2) by (auto simp: backup_roundtrip_def)
  have "\<exists>restored. restore_managed_settings united (fp_extension_id M) b = Inr restored
      \<and> (case existing of None \<Rightarrow> mb_policy_was_missing b \<and> nothing_left restored
         | Some policy \<Rightarrow> restored = policy \<and> \<not> mb_policy_was_missing b)"
  proof (cases existing)
    case None
    then show ?thesis using b(1) u expected_back [of M] by (auto simp: merged_policy_backup_of_def)
  next
    case (Some policy)
    then have "restore_managed_settings united (fp_extension_id M) b = Inr policy"
      using merged_policy_back [of policy M united b] b(1) u assms(9) by simp
    then show ?thesis using Some b(1) by (auto simp: merged_policy_backup_of_def invalid_data_def split: option.splits)
  qed
  then obtain restored where r: "restore_managed_settings united (fp_extension_id M) b = Inr restored"
    and e: "case existing of None \<Rightarrow> mb_policy_was_missing b \<and> nothing_left restored
         | Some policy \<Rightarrow> restored = policy \<and> \<not> mb_policy_was_missing b" by blast
  have "do_files s1 bp = Some (c @ [CHR 0x0A])" "do_files s1 (fp_policy_path M) = Some c1"
    using s1(1) assms(5) by simp_all
  from remove_merging [OF assms(1,11,3,4) this(1) pb assms(5) this(2) s1(2) r] obtain content where
    "do_files s2 = (do_files s1)(bp := None, fp_policy_path M := content)"
    "if mb_policy_was_missing b \<and> nothing_left restored then content = None
     else \<exists>c. content = Some c \<and> jl_parse J c = Inr restored" by blast
  then show ?thesis using e s1(1) assms(6) by (cases existing) (auto simp: existing_policy_def)
qed

section \<open>Repairs converge\<close>

lemma ensure_backup_result:
  assumes "ensure_merge_backup J B M existing s = (Inr u, s')" "fp_backup_path M = Some bp"
  shows "do_files s' bp \<noteq> None" "do_fault s' = do_fault s" "path \<noteq> bp \<Longrightarrow> do_files s' path = do_files s path"
  using assms
  by (auto simp: ensure_merge_backup_def act_read_bind_Inr write_printed_Inr write_document_Inr split: if_splits)

lemma ensure_backup_path: "ensure_merge_backup J B M existing s = (Inr u, s') \<Longrightarrow> \<exists>bp. fp_backup_path M = Some bp"
  by (auto simp: ensure_merge_backup_def invalid_data_def split: option.splits)

lemma merge_and_repair_result:
  assumes "json_roundtrip J" "merge_and_repair J B M (expected_policy M) s = (Inr status, s')"
    and "\<And>bp. fp_backup_path M = Some bp \<Longrightarrow> bp \<noteq> fp_policy_path M"
  obtains bp c v where "fp_backup_path M = Some bp" "do_files s' bp \<noteq> None" "do_fault s' = do_fault s"
    "do_fault s ''read'' (fp_policy_path M) = None" "do_files s' (fp_policy_path M) = Some c" "jl_parse J c = Inr v"
    "policy_includes_managed_settings v (expected_policy M) (fp_extension_id M)"
proof -
  have rd: "do_fault s ''read'' (fp_policy_path M) = None"
    using assms(2) by (auto simp: merge_and_repair_def act_read_bind_Inr read_document_def)
  have "\<exists>existing. existing_policy J M s existing"
  proof (cases "do_files s (fp_policy_path M)")
    case None
    then show ?thesis by (auto simp: existing_policy_def)
  next
    case (Some c)
    then obtain v where "jl_parse J c = Inr v"
      using assms(2) rd by (auto simp: merge_and_repair_def act_read_bind_Inr read_document_def parse_existing_def and_then_Inr_iff)
    then show ?thesis using Some by (intro exI [of _ "Some v"]) (simp add: existing_policy_def)
  qed
  then obtain existing where e: "existing_policy J M s existing" by blast
  from assms(2) rd merge_reads [OF e] obtain s1 where b: "ensure_merge_backup J B M existing s = (Inr (), s1)"
    and w: "(if (case existing of None \<Rightarrow> False
           | Some policy \<Rightarrow> policy_includes_managed_settings policy (expected_policy M) (fp_extension_id M))
       then act_return PolicyCompliant
       else act_bind (act_read (\<lambda>_. case existing of
              None \<Rightarrow> Inr (expected_policy M)
            | Some policy \<Rightarrow> merge_managed_settings policy (expected_policy M) (fp_extension_id M))) (\<lambda>united.
            act_bind (write_json J (fp_policy_path M) united) (\<lambda>_. act_return PolicyRepaired))) s1 = (Inr status, s')"
    unfolding merge_and_repair_def act_read_bind_Inr act_bind_Inr [of "ensure_merge_backup _ _ _ _"] read_document_def faulty_Inr
    by auto
  obtain bp where bp: "fp_backup_path M = Some bp" using ensure_backup_path [OF b] by blast
  note r = ensure_backup_result [OF b bp]
  have n: "bp \<noteq> fp_policy_path M" using assms(3) bp by simp
  show ?thesis
  proof (cases "case existing of None \<Rightarrow> False
           | Some policy \<Rightarrow> policy_includes_managed_settings policy (expected_policy M) (fp_extension_id M)")
    case True
    then obtain v where v: "existing = Some v" "policy_includes_managed_settings v (expected_policy M) (fp_extension_id M)"
      by (auto split: option.splits)
    then obtain c where "do_files s (fp_policy_path M) = Some c" "jl_parse J c = Inr v"
      using e by (auto simp: existing_policy_def split: option.splits)
    moreover have "s' = s1" using w True by simp
    ultimately show ?thesis using r n v by (intro that [OF bp]) (auto simp: rd)
  next
    case False
    then obtain united where u: "(case existing of None \<Rightarrow> Inr (expected_policy M)
            | Some policy \<Rightarrow> merge_managed_settings policy (expected_policy M) (fp_extension_id M)) = Inr united"
      "write_json J (fp_policy_path M) united s1 = (Inr (), s')"
      using w by (auto simp: act_read_bind_Inr act_bind_Inr)
    from write_json_files [OF assms(1) u(2)] obtain c where
      c: "s' = s1\<lparr>do_files := (do_files s1)(fp_policy_path M := Some c)\<rparr>" "jl_parse J c = Inr united" by blast
    have "policy_includes_managed_settings united (expected_policy M) (fp_extension_id M)"
      using u(1) merged_includes expected_includes by (cases existing) auto
    then show ?thesis using c r n by (intro that [OF bp]) (auto simp: rd)
  qed
qed

text \<open>
  A repair of a Firefox-family policy that succeeds, merging or not and whatever was there before,
  leaves a document whose status is compliant, and a second repair changes nothing, where the system
  tells the daemon of the backup it made.
\<close>

lemma repaired_firefox_policy_is_compliant:
  assumes "json_roundtrip J" "verify_and_repair J B M s = (Inr status, s')"
    and "\<And>bp. fp_backup_path M = Some bp \<Longrightarrow> bp \<noteq> fp_policy_path M \<and> do_fault s ''exists'' bp = None"
  shows "fs_compliant (firefox_status J M s') \<and> verify_and_repair J B M s' = (Inr PolicyCompliant, s')"
proof (cases "fp_merge_with_existing M")
  case True
  then have m: "merge_and_repair J B M (expected_policy M) s = (Inr status, s')"
    using assms(2) by (simp add: verify_and_repair_def Let_def)
  obtain bp c v where bp: "fp_backup_path M = Some bp" "do_files s' bp \<noteq> None" and f: "do_fault s' = do_fault s"
    and rd: "do_fault s ''read'' (fp_policy_path M) = None" and c: "do_files s' (fp_policy_path M) = Some c" "jl_parse J c = Inr v"
    and v: "policy_includes_managed_settings v (expected_policy M) (fp_extension_id M)"
    by (rule merge_and_repair_result [OF assms(1) m]) (use assms(3) in auto)
  have "read_document (fp_policy_path M) s' = Inr (Some c)" using c rd f by (simp add: read_document_def)
  moreover have "ensure_merge_backup J B M (Some v) s' = (Inr (), s')"
    using bp f assms(3) by (simp add: ensure_merge_backup_def)
  ultimately show ?thesis using True c v rd f
    by (simp add: firefox_status_def Let_def verify_and_repair_def merge_and_repair_def act_bind_def parse_existing_def)
next
  case False
  from assms(2) False obtain c where "do_fault s' ''read'' (fp_policy_path M) = None"
    "do_files s' (fp_policy_path M) = Some c" "jl_parse J c = Inr (expected_policy M)"
    by (auto simp: verify_and_repair_def Let_def act_read_bind_Inr act_bind_Inr read_document_def split: option.splits if_splits
        dest!: write_json_files [OF assms(1)])
  then show ?thesis using False
    by (simp add: firefox_status_def verify_and_repair_def Let_def act_bind_def read_document_def faulty_def)
qed

lemma repair_paths_result:
  assumes "json_roundtrip J" "repair_paths J v paths s = (Inr r, s')"
  shows "(\<forall>path\<in>set paths. holds_json J s' path v \<and> do_fault s ''read'' path = None)
    \<and> (\<forall>path. holds_json J s path v \<longrightarrow> holds_json J s' path v)
    \<and> do_fault s' = do_fault s \<and> do_linked_dir s' = do_linked_dir s"
  using assms(2)
proof (induction paths arbitrary: s r)
  case (Cons path paths)
  from Cons.prems obtain same s1 r1 where q: "file_json_equals J path v s = Inr same"
    and w: "(if same then act_return () else write_json J path v) s = (Inr (), s1)"
    and t: "repair_paths J v paths s1 = (Inr r1, s')"
    by (auto simp: act_read_bind_Inr act_bind_Inr)
  have one: "holds_json J s1 path v \<and> do_fault s ''read'' path = None
      \<and> (\<forall>p. holds_json J s p v \<longrightarrow> holds_json J s1 p v) \<and> do_fault s1 = do_fault s \<and> do_linked_dir s1 = do_linked_dir s"
  proof (cases same)
    case True
    then show ?thesis using q w
      by (auto simp: file_json_equals_def read_document_def holds_json_def and_then_Inr_iff split: option.splits)
  next
    case False
    with w have "write_json J path v s = (Inr (), s1)" by simp
    from write_json_files [OF assms(1) this] q show ?thesis
      by (auto simp: holds_json_def file_json_equals_def read_document_def and_then_Inr_iff)
  qed
  with Cons.IH [OF t] show ?case by auto
qed simp

lemma repair_paths_idle:
  "(\<And>path. path \<in> set paths \<Longrightarrow> holds_json J s path v \<and> do_fault s ''read'' path = None)
     \<Longrightarrow> repair_paths J v paths s = (Inr False, s)"
proof (induction paths)
  case (Cons path paths)
  have "file_json_equals J path v s = Inr True"
    using Cons.prems [of path] by (auto simp: holds_json_def file_json_equals_def read_document_def faulty_def)
  then show ?case using Cons by (simp add: act_bind_def)
qed simp

text \<open>
  A repair of a Chromium-family policy that succeeds leaves the expected document at the browser's
  path and at that of its Snap, its status is compliant, and a second repair changes nothing.
\<close>

lemma repaired_chromium_policy_is_compliant:
  assumes "json_roundtrip J" "chrome_verify_and_repair_with J M mode blocklist s = (Inr status, s')"
  shows "(\<forall>path\<in>set (policy_paths M s). holds_json J s' path (expected_policy_for M mode blocklist))
    \<and> ct_compliant (chrome_status_with J M mode blocklist s')
    \<and> chrome_verify_and_repair_with J M mode blocklist s' = (Inr PolicyCompliant, s')"
proof -
  let ?v = "expected_policy_for M mode blocklist"
  obtain r where "repair_paths J ?v (policy_paths M s) s = (Inr r, s')"
    using assms(2) by (auto simp: chrome_verify_and_repair_with_def act_bind_Inr)
  from repair_paths_result [OF assms(1) this]
  have h: "\<And>path. path \<in> set (policy_paths M s) \<Longrightarrow> holds_json J s' path ?v \<and> do_fault s' ''read'' path = None"
    and l: "do_linked_dir s' = do_linked_dir s" by auto
  have p: "policy_paths M s' = policy_paths M s" "active_snap_policy_path M s' = active_snap_policy_path M s"
    by (simp_all only: policy_paths_def active_snap_policy_path_def l)
  have "snd (snap_policy_status J M ?v s') \<noteq> Some False"
  proof (cases "active_snap_policy_path M s")
    case (Some path)
    then have "path \<in> set (policy_paths M s)" by (simp add: policy_paths_def)
    from h [OF this] Some show ?thesis
      by (auto simp: snap_policy_status_def p file_json_equals_def read_document_def faulty_def holds_json_def)
  qed (simp add: snap_policy_status_def p)
  moreover obtain c where "do_files s' (cp_policy_path M) = Some c" "jl_parse J c = Inr ?v"
    "do_fault s' ''read'' (cp_policy_path M) = None"
    using h [of "cp_policy_path M"] by (auto simp: holds_json_def policy_paths_def)
  ultimately have "ct_compliant (chrome_status_with J M mode blocklist s')"
    by (simp add: chrome_status_with_def Let_def read_document_def faulty_def)
  moreover have "chrome_verify_and_repair_with J M mode blocklist s' = (Inr PolicyCompliant, s')"
    using repair_paths_idle [of "policy_paths M s" J s' ?v] h p by (simp add: chrome_verify_and_repair_with_def act_bind_def)
  ultimately show ?thesis using h by blast
qed

section \<open>Concrete checks\<close>

text \<open>A vendor's document with one setting of its own, and a printer of just the documents written.\<close>

definition sample_firefox :: firefox_policy_manager where
  "sample_firefox = \<lparr>fp_policy_path = ''policies.json'', fp_extension_id = ''focus'', fp_install_url = ''addon.xpi'',
     fp_merge_with_existing = True, fp_backup_path = Some ''backup.json''\<rparr>"

definition vendor_policy :: json where
  "vendor_policy = object_of [(''policies'', object_of [(''DisableTelemetry'', JBool True), (''BlockAboutConfig'', JBool False)])]"

definition vendor_united :: json where
  "vendor_united = projr (merge_managed_settings vendor_policy (expected_policy sample_firefox) ''focus'')"

definition sample_chrome :: chrome_policy_manager where
  "sample_chrome = (for_browser ''chrome.json'' ''focus'' ''Chrome'')\<lparr>cp_snap_policy_current_dir := Some ''snap''\<rparr>"

definition sample_json :: json_lib where
  "sample_json = \<lparr>
     jl_parse = (\<lambda>c. if c = ''vendor'' @ [CHR 0x0A] then Inr vendor_policy
       else if c = ''united'' @ [CHR 0x0A] then Inr vendor_united
       else if c = ''chrome'' @ [CHR 0x0A] then Inr (expected_policy_for sample_chrome PolicyUrlBlocking [''bets.com''])
       else Inl ''expected value''),
     jl_print = (\<lambda>v. if v = vendor_policy then Inr ''vendor'' else if v = vendor_united then Inr ''united''
       else if v = expected_policy_for sample_chrome PolicyUrlBlocking [''bets.com''] then Inr ''chrome''
       else Inl ''unsupported'')\<rparr>"

definition vendor_backup :: merged_policy_backup where
  "vendor_backup = projr (merged_policy_backup_of (Some vendor_policy) ''focus'')"

definition sample_backup :: backup_lib where
  "sample_backup = \<lparr>bl_parse = (\<lambda>c. if c = ''saved'' @ [CHR 0x0A] then Inr vendor_backup else Inl ''expected value''),
     bl_print = (\<lambda>b. if b = vendor_backup then Inr ''saved'' else Inl ''unsupported'')\<rparr>"

definition vendor_store :: document_store where
  "vendor_store = \<lparr>do_files = (\<lambda>path. if path = ''policies.json'' then Some (''vendor'' @ [CHR 0x0A]) else None),
     do_fault = (\<lambda>_ _. None), do_linked_dir = (\<lambda>_. True)\<rparr>"

lemma sample_json_roundtrip: "json_roundtrip sample_json"
  by (simp add: json_roundtrip_def sample_json_def)

lemma sample_backup_roundtrip: "backup_roundtrip sample_backup"
  by (simp add: backup_roundtrip_def sample_backup_def)

definition merged_store :: "(daemon_error + policy_repair_status) \<times> document_store" where
  "merged_store = verify_and_repair sample_json sample_backup sample_firefox vendor_store"

definition restored_store :: "(daemon_error + policy_repair_status) \<times> document_store" where
  "restored_store = remove_policy sample_json sample_backup sample_firefox (snd merged_store)"

lemma merged_ok: "fst merged_store = Inr PolicyRepaired"
  by code_simp

lemma restored_ok: "fst restored_store = Inr PolicyRepaired"
  by code_simp

lemma vendor_restorable: "restorable ''focus'' vendor_policy"
  by code_simp

lemma vendor_unmanaged: "unmanaged sample_firefox (Some vendor_policy)"
  by code_simp

lemma vendor_existing: "existing_policy sample_json sample_firefox vendor_store (Some vendor_policy)"
  by code_simp

theorem merged_policy_removal_restores_witness:
  "existing_policy sample_json sample_firefox (snd restored_store) (Some vendor_policy)
    \<and> \<not> existing_policy sample_json sample_firefox (snd merged_store) (Some vendor_policy)"
proof -
  have m: "verify_and_repair sample_json sample_backup sample_firefox vendor_store = (Inr PolicyRepaired, snd merged_store)"
    using merged_ok by (simp add: merged_store_def [symmetric] prod_eq_iff)
  have r: "remove_policy sample_json sample_backup sample_firefox (snd merged_store) = (Inr PolicyRepaired, snd restored_store)"
    using restored_ok by (simp add: restored_store_def [symmetric] prod_eq_iff)
  have f: "fp_merge_with_existing sample_firefox" "fp_backup_path sample_firefox = Some ''backup.json''"
    "''backup.json'' \<noteq> fp_policy_path sample_firefox" "fp_extension_id sample_firefox = ''focus''"
    by (simp_all add: sample_firefox_def)
  have n: "do_files vendor_store ''backup.json'' = None" by (simp add: vendor_store_def)
  have p: "restorable (fp_extension_id sample_firefox) policy" if "Some vendor_policy = Some policy" for policy
    using that vendor_restorable f(4) by simp
  have "\<not> existing_policy sample_json sample_firefox (snd merged_store) (Some vendor_policy)" by code_simp
  then show ?thesis
    using merged_policy_removal_restores [OF sample_json_roundtrip sample_backup_roundtrip f(1-3) n vendor_existing
        vendor_unmanaged p m r] by blast
qed

lemma repaired_firefox_policy_is_compliant_witness:
  "fs_compliant (firefox_status sample_json sample_firefox (snd merged_store))"
proof -
  have "verify_and_repair sample_json sample_backup sample_firefox vendor_store = (Inr PolicyRepaired, snd merged_store)"
    using merged_ok by (simp add: merged_store_def [symmetric] prod_eq_iff)
  from repaired_firefox_policy_is_compliant [OF sample_json_roundtrip this] show ?thesis
    by (simp add: sample_firefox_def vendor_store_def)
qed

definition chrome_store :: "(daemon_error + policy_repair_status) \<times> document_store" where
  "chrome_store = chrome_verify_and_repair_with sample_json sample_chrome PolicyUrlBlocking [''bets.com''] vendor_store"

lemma chrome_ok: "fst chrome_store = Inr PolicyRepaired"
  by code_simp

lemma repaired_chromium_policy_is_compliant_witness:
  "ct_compliant (chrome_status_with sample_json sample_chrome PolicyUrlBlocking [''bets.com''] (snd chrome_store))"
proof -
  have "chrome_verify_and_repair_with sample_json sample_chrome PolicyUrlBlocking [''bets.com''] vendor_store
      = (Inr PolicyRepaired, snd chrome_store)"
    using chrome_ok by (simp add: chrome_store_def [symmetric] prod_eq_iff)
  from repaired_chromium_policy_is_compliant [OF sample_json_roundtrip this] show ?thesis by blast
qed

end
