(* ===== verification/ControlLaws.thy ===== *)
theory ControlLaws imports Dispatch EditLaws AlertLaws PolicyLaws begin

text \<open>
  What the requests can and cannot do to what the daemon remembers: the keys each writes, the Detox
  sessions that no request ends, the edit window and the hand-over that only their own requests open.
  A property of the database that lasts under the few statements that matter lasts under every
  request; the locale \<open>lasting\<close> states this once and is interpreted for the Detox sessions and for the
  states under given keys.
\<close>

section \<open>The tables that count\<close>

definition live_tables ::
  "database \<Rightarrow> (string \<times> string \<times> stamp) list \<times> detox_row list \<times> detox_rule_row list \<times> detox_rule_row list" where
  "live_tables db = (db_service_state db, db_detox_sessions db, db_detox_site_rules db, db_detox_app_rules db)"

definition keeps_tables :: "'a operation \<Rightarrow> bool" where
  "keeps_tables m \<longleftrightarrow> (\<forall>t. keeps (\<lambda>db. live_tables db = t) m)"

lemma keeps_tables_bind: "keeps_tables m \<Longrightarrow> (\<And>x. keeps_tables (f x)) \<Longrightarrow> keeps_tables (db_bind m f)"
  by (auto simp: keeps_tables_def intro: keeps_bind)

lemma keeps_tables_simple:
  "keeps_tables (db_return x)" "keeps_tables (db_fail e)" "keeps_tables (reading q)"
  "(\<And>db. live_tables (g db) = live_tables db) \<Longrightarrow> keeps_tables (update_rows tag g)"
  "(\<And>db x db'. h db = Inr (x, db') \<Longrightarrow> live_tables db' = live_tables db) \<Longrightarrow> keeps_tables (exec tag' h)"
  by (auto simp: keeps_tables_def intro!: keeps_update_rows keeps_exec)

lemma keeps_tables_loops:
  "(\<And>x. keeps_tables (f x)) \<Longrightarrow> keeps_tables (db_for xs f)" "(\<And>x. keeps_tables (g x)) \<Longrightarrow> keeps_tables (db_map g xs)"
  "keeps_tables m \<Longrightarrow> keeps_tables (transaction m)"
  by (auto simp: keeps_tables_def intro: keeps_for keeps_db_map keeps_transaction)

lemmas live_rules = keeps_tables_bind keeps_tables_simple keeps_tables_loops

lemma live_tables_bump [simp]: "live_tables (bump_rowid t db) = live_tables db"
  by (simp add: live_tables_def bump_rowid_def)

lemma log_tables [simp]:
  "db_service_state (append_event_log t k g d db) = db_service_state db"
  "db_detox_sessions (append_event_log t k g d db) = db_detox_sessions db"
  "db_detox_site_rules (append_event_log t k g d db) = db_detox_site_rules db"
  "db_detox_app_rules (append_event_log t k g d db) = db_detox_app_rules db"
  by (auto simp: append_event_log_def split: option.splits)

lemma keeps_tables_pure: "(\<And>db. live_tables (g db) = live_tables db) \<Longrightarrow> keeps_tables (\<lambda>db. (r, g db))"
  by (simp add: keeps_tables_def keeps_def)

lemma live_event: "keeps_tables (record_event kind target details now)"
  unfolding record_event_def insert_event_def
  by (auto simp: Let_def live_tables_def bump_rowid_def intro!: live_rules keeps_tables_pure split: option.splits)

lemma live_lifecycle:
  "keeps_tables (set_notification_lifecycle_state kind i active now)"
  "keeps_tables (delete_notification_lifecycle_state kind i)"
  unfolding set_notification_lifecycle_state_def delete_notification_lifecycle_state_def
  by (intro live_rules; simp add: live_tables_def)+

lemma live_enqueue: "keeps_tables (enqueue_notification kind title body key now cooldown ttl)"
  unfolding enqueue_notification_def
  by (intro live_rules) (auto intro!: live_rules live_event simp: Let_def live_tables_def bump_rowid_def)

lemma live_totals: "keeps_tables (sync_schedule_activity_totals L schedules now)"
  unfolding sync_schedule_activity_totals_def sync_schedule_total_def
  by (intro live_rules) (auto simp: Let_def live_tables_def intro!: live_rules split: option.splits if_splits)

lemma live_stmt: "keeps_tables (policy_stmt tag f)"
  unfolding policy_stmt_def by (rule keeps_tables_simple) (auto simp: live_tables_def and_then_Inr_iff)

lemma live_replace: "keeps_tables (replace_policy_config L c)"
  unfolding replace_policy_config_def store_tables_def store_schedule_def store_site_list_def store_app_list_def
  by (intro live_rules live_stmt) (auto simp: live_tables_def revoke_missing_def)

lemma live_unlock: "keeps_tables (request_unlock L ctx target reason)"
proof -
  have "keeps_tables (insert_unlock t ids m r s e)" for t ids m r s e
    unfolding insert_unlock_def insert_unlock_target_def
    by (cases ids) (auto intro!: live_rules simp: Let_def live_tables_def bump_rowid_def split: if_splits)
  then have "keeps_tables (grant_unlock now rules r)" for now rules r
    unfolding grant_unlock_def Let_def by (cases rules) (auto intro!: live_rules live_event)
  then show ?thesis unfolding request_unlock_def by (auto intro!: live_rules split: prod.splits)
qed

lemma live_visits:
  "keeps_tables (record_visit_start L ctx url tab_id)" "keeps_tables (record_visit_heartbeat ctx i)"
  "keeps_tables (record_visit_end ctx i)"
proof -
  have e: "live_tables (end_visits p t db) = live_tables db" for p t db
    by (simp add: live_tables_def end_visits_def)
  have "keeps_tables (insert_visit_start r t u tab now)" for r t u tab now
    unfolding insert_visit_start_def
    by (intro live_rules e) (auto simp: Let_def live_tables_def bump_rowid_def)
  then show "keeps_tables (record_visit_start L ctx url tab_id)"
    by (auto simp: record_visit_start_def keeps_tables_def keeps_def split: sum.splits)
  show "keeps_tables (record_visit_heartbeat ctx i)" "keeps_tables (record_visit_end ctx i)"
    unfolding record_visit_heartbeat_def record_visit_end_def update_visit_heartbeat_def end_visit_def
    by (intro live_rules e; simp add: live_tables_def)+
qed

lemma live_deliveries:
  "live_tables (deliver_rows t p db) = live_tables db" "live_tables (delete_outbox p db) = live_tables db"
  by (simp_all add: live_tables_def deliver_rows_def delete_outbox_def)

lemma live_preferences:
  "keeps_tables (set_notification_preferences p)" "keeps_tables (discard_disabled_notifications p now)"
proof -
  show "keeps_tables (set_notification_preferences p)"
    unfolding set_notification_preferences_def by (intro live_rules) (simp add: live_tables_def)
  show "keeps_tables (discard_disabled_notifications p now)"
    unfolding discard_disabled_notifications_def by (auto intro!: live_rules simp: live_deliveries)
qed

lemma live_historical: "keeps_tables (discard_historical_block_notifications before now)"
  unfolding discard_historical_block_notifications_def
  by (intro live_rules) (auto simp: Let_def live_deliveries)

lemma live_pending: "keeps_tables (pending_notifications now limit)"
  unfolding pending_notifications_def by (intro live_rules live_historical live_deliveries)

lemma live_acknowledge: "keeps_tables (acknowledge_notifications ids now)"
  unfolding acknowledge_notifications_def by (intro live_rules live_deliveries)

lemma live_delivery: "keeps_tables (record_notification_delivery_result ident delivered detail now)"
  unfolding record_notification_delivery_result_def
  by (auto intro!: live_rules live_acknowledge live_event simp: live_tables_def split: option.splits)

lemma live_heartbeat: "keeps_tables (upsert_heartbeat component details now)"
  unfolding upsert_heartbeat_def by (intro live_rules) (simp add: live_tables_def)

lemma live_insert_event: "keeps_tables (insert_event kind target details at)"
  unfolding insert_event_def
  by (auto simp: Let_def live_tables_def bump_rowid_def intro!: live_rules)

lemma live_diagnostic: "keeps_tables (record_diagnostic_event i component details now)"
  unfolding record_diagnostic_event_def Let_def
  by (intro live_rules)
    (auto intro!: live_rules live_insert_event keeps_tables_pure simp: live_tables_def split: if_splits)

section \<open>What lasts\<close>

definition in_core :: "(database \<Rightarrow> bool) \<Rightarrow> focus_core \<Rightarrow> bool" where
  "in_core P core \<longleftrightarrow> P (fc_database core)"

definition in_daemon :: "(database \<Rightarrow> bool) \<Rightarrow> daemon \<Rightarrow> bool" where
  "in_daemon P d \<longleftrightarrow> in_core P (dm_core d)"

definition in_machine :: "(database \<Rightarrow> bool) \<Rightarrow> machine \<Rightarrow> bool" where
  "in_machine P s \<longleftrightarrow> in_daemon P (mc_daemon s)"

lemma keeps_on_db: "keeps P m \<Longrightarrow> act_keeps (in_core P) (on_db m)"
  using act_keeps_on_db [of P m] by (simp add: act_keeps_def in_core_def)

lemma keeps_on_database: "act_keeps P m \<Longrightarrow> act_keeps (in_core P) (on_database m)"
  by (auto simp: act_keeps_def in_core_def on_database_def Let_def split: prod.splits)

lemma keeps_on_core: "act_keeps (in_core P) m \<Longrightarrow> act_keeps (in_daemon P) (on_core m)"
  using act_keeps_on_core [of "in_core P" m] by (simp add: act_keeps_def in_daemon_def)

lemma keeps_on_recovery: "act_keeps (in_daemon P) (on_recovery m)"
  using act_keeps_on_recovery [of "in_core P" m] by (simp add: act_keeps_def in_daemon_def)

lemma keeps_on_hosts: "act_keeps (in_daemon P) (on_hosts m)"
  by (auto simp: act_keeps_def in_daemon_def on_hosts_def Let_def split: prod.splits option.splits)

lemma keeps_on_daemon: "act_keeps (in_daemon P) m \<Longrightarrow> act_keeps (in_machine P) (on_daemon m)"
  by (simp add: act_keeps_def in_machine_def)

lemma keeps_on_documents: "act_keeps (in_machine P) (on_documents m)"
  by (simp add: act_keeps_def in_machine_def)

lemma keeps_act_map: "(\<And>x. act_keeps Q (f x)) \<Longrightarrow> act_keeps Q (act_map f xs)"
  by (induction xs) (auto intro!: act_keeps_bind)

lemma keeps_answer: "act_keeps Q m \<Longrightarrow> act_keeps Q (answer f m)"
  unfolding answer_def by (intro act_keeps_bind act_keeps_return)

lemma keeps_replace_config: "act_keeps (in_core P) (replace_config L c)"
  unfolding replace_config_def by (intro act_keeps_bind act_keeps_read) (auto simp: act_keeps_def in_core_def)

lemma keeps_hosts_repair: "act_keeps (in_daemon P) (repair_hosts_after_policy_change L H k now)"
  by (simp add: act_keeps_def in_daemon_def repair_hosts_core)

lemmas act_frames = act_keeps_bind act_keeps_return act_keeps_read act_keeps_core_read keeps_on_db keeps_on_core
  keeps_on_recovery keeps_on_hosts keeps_on_daemon keeps_on_documents keeps_act_map keeps_answer keeps_replace_config
  keeps_hosts_repair act_keeps_for act_keeps_when act_keeps_ignore

text \<open>The keys a request may write besides those of the clock guard.\<close>

fun written_keys :: "control_request \<Rightarrow> string set" where
  "written_keys (UnlockTier1Edit phrase now) = {tier1_edit_unlock_until_key}"
| "written_keys (ConfigureTier1EditCredential salt phrase) = {tier1_edit_credential_salt_key, tier1_edit_credential_hash_key}"
| "written_keys HideRecoveryCredentials = {tier1_edit_credential_salt_key, tier1_edit_credential_hash_key}"
| "written_keys (SetOperatorWindowRestriction enabled) = set access_mode_keys"
| "written_keys (SetProtectedAccessMode mode) = set access_mode_keys"
| "written_keys (SetUnsupportedBrowserBlockMode mode) = set access_mode_keys"
| "written_keys (SetChromiumIncognitoChangeAccessMode mode) = set access_mode_keys"
| "written_keys (SetChromiumIncognitoMode mode) = {chromium_incognito_mode_key}"
| "written_keys (SetChromiumIncognitoDisableScope scope) = {chromium_incognito_disable_scope_key}"
| "written_keys (PrepareUninstall token code now) = {browser_extension_mode_key, browser_extension_uninstalling_until_key}"
| "written_keys _ = {}"

locale lasting =
  fixes P :: "database \<Rightarrow> bool" and W :: "string set"
  assumes tables: "live_tables db' = live_tables db \<Longrightarrow> P db \<Longrightarrow> P db'"
    and state: "key \<in> W \<Longrightarrow> keeps P (write_service_state t (key, v))"
    and detox: "keeps P (insert_detox_session session)"
    and guard: "guard_keys \<subseteq> W"
begin

lemma by_tables: "keeps_tables m \<Longrightarrow> keeps P m"
  unfolding keeps_tables_def keeps_def using tables by blast

lemma states: "fst ` set kvs \<subseteq> W \<Longrightarrow> keeps P (set_service_states kvs now)"
  unfolding set_service_states_def by (intro keeps_transaction keeps_for) (force intro: state)

lemma one_state: "key \<in> W \<Longrightarrow> keeps P (set_service_state key v now)"
  unfolding set_service_state_def by (rule states) simp

lemma clock: "act_keeps P (guarded_now L H rd client_now trust)"
proof -
  have e: "keeps P (record_event kind target details now)" for kind target details now
    by (rule by_tables [OF live_event])
  have p: "act_keeps P (persist_sample H sample st detail)" for sample st detail
    unfolding persist_sample_def using guard by (intro act_keeps_db states) (auto simp: guard_keys_def)
  have v: "act_keeps P (clock_verdict ps pd v t)" for ps pd v t
    unfolding clock_verdict_def by (auto split: option.splits intro!: act_keeps_bind act_keeps_ignore act_keeps_db e)
  have "act_keeps P (update_clock_integrity L H rd now)" for now
    unfolding update_clock_integrity_def
    by (intro act_keeps_bind act_keeps_read) (auto intro!: act_keeps_bind v p split: prod.splits)
  then show ?thesis unfolding guarded_now_def
    by (intro act_keeps_if act_keeps_bind act_keeps_read act_keeps_return)
qed

lemma daemon_clock:
  "act_keeps (in_daemon P) (rpc_guarded_now_with_status L H k client_now)"
  "act_keeps (in_daemon P) (rpc_guarded_now L H k client_now)"
  "act_keeps (in_daemon P) (reject_if_clock_tampered H k)"
proof -
  show g: "act_keeps (in_daemon P) (rpc_guarded_now_with_status L H k client_now)"
    unfolding rpc_guarded_now_with_status_def
    by (rule act_keeps_state) (intro keeps_on_core keeps_on_database clock)
  show "act_keeps (in_daemon P) (rpc_guarded_now L H k client_now)"
    unfolding rpc_guarded_now_def by (intro act_frames g)
  show "act_keeps (in_daemon P) (reject_if_clock_tampered H k)"
    unfolding reject_if_clock_tampered_def by (rule act_keeps_read)
qed

lemma settings_clock: "act_keeps (in_daemon P) (context_settings L H rd)"
proof -
  show ?thesis unfolding context_settings_def
    by (rule act_keeps_state) (intro act_keeps_bind keeps_on_core keeps_on_database clock act_keeps_core_read)
qed

lemma event: "act_keeps (in_daemon P) (rpc_event kind target details now)"
  unfolding rpc_event_def by (intro act_frames by_tables live_event)

lemma machine_steps:
  "act_keeps (in_machine P) (machine_read q)" "act_keeps (in_machine P) (credential_read sha r)"
  "act_keeps (in_machine P) (machine_event kind target details now)"
  "key \<in> W \<Longrightarrow> act_keeps (in_machine P) (put_state key v t)"
  unfolding machine_read_def credential_read_def machine_event_def put_state_def on_machine_core_def
  by (intro act_frames event one_state; assumption?)+

end

context lasting begin

lemma browser_repairs:
  "act_keeps (in_machine P) (repair_chromium_policies_for_settings_change H J G e settings)"
  "act_keeps (in_machine P) (repair_chromium_policies_for_current_settings L H J G rd e)"
proof -
  show 1: "act_keeps (in_machine P) (repair_chromium_policies_for_settings_change H J G e settings)" for settings
    unfolding repair_chromium_policies_for_settings_change_def repair_chromium_policy_def
    by (intro act_frames act_keeps_if)
  show "act_keeps (in_machine P) (repair_chromium_policies_for_current_settings L H J G rd e)"
    unfolding repair_chromium_policies_for_current_settings_def by (intro act_frames settings_clock 1)
qed

lemma browser_removals:
  "act_keeps (in_machine P) (remove_gecko_policies_from_context J B G)"
  "act_keeps (in_machine P) (remove_chromium_policies_from_context G)"
  unfolding remove_gecko_policies_from_context_def remove_chromium_policies_from_context_def
  by (intro act_frames act_keeps_if)+

lemma browser_statuses:
  "act_keeps (in_machine P) (gecko_policy_status J G browser)" "act_keeps (in_machine P) (gecko_policy_statuses J G)"
  "act_keeps (in_machine P) (chromium_policy_status L H J G rd browser)"
  "act_keeps (in_machine P) (chromium_policy_statuses L H J G rd)"
proof -
  show 1: "act_keeps (in_machine P) (gecko_policy_status J G browser)" for browser
    unfolding gecko_policy_status_def Let_def by (intro act_frames)
  show 2: "act_keeps (in_machine P) (chromium_policy_status L H J G rd browser)" for browser
    unfolding chromium_policy_status_def Let_def by (intro act_frames settings_clock)
  show "act_keeps (in_machine P) (gecko_policy_statuses J G)" "act_keeps (in_machine P) (chromium_policy_statuses L H J G rd)"
    unfolding gecko_policy_statuses_def chromium_policy_statuses_def by (intro act_frames 1 2)+
qed

lemma enforcement: "act_keeps (in_machine P) (enforcement_status L H J G k)"
proof -
  have 1: "act_keeps (in_daemon P) (\<lambda>d. on_core (on_database (guarded_now L H rd None (dm_trust_client_time d))) d)" for rd
    by (rule act_keeps_state) (intro keeps_on_core keeps_on_database clock)
  have 2: "act_keeps (in_daemon P) (clock_integrity_status_method L H rd)" for rd
    unfolding clock_integrity_status_method_def
    by (rule act_keeps_state) (intro act_frames keeps_on_database clock)
  show ?thesis unfolding enforcement_status_def Let_def by (intro act_frames 1 2 browser_statuses)
qed

lemma detox_start: "act_keeps (in_machine P) (start_detox_method L H J G k name minutes sites apps client_now)"
proof -
  have n: "act_keeps (in_core P) (enqueue_detox_notification session active early now)" for session active early now
    unfolding enqueue_detox_notification_def Let_def
    by (auto intro!: act_frames by_tables live_lifecycle live_enqueue split: prod.splits)
  have i: "act_keeps (in_daemon P) (insert_detox L H rk now name minutes sites apps until)" for rk now name minutes sites apps until
    unfolding insert_detox_def by (intro act_frames act_keeps_if detox event n)
  show ?thesis unfolding start_detox_method_def Let_def
    by (auto intro!: act_frames daemon_clock i browser_repairs split: prod.splits)
qed

lemma window_methods:
  "tier1_edit_unlock_until_key \<in> W \<Longrightarrow> act_keeps (in_machine P) (unlock_tier1_edit_method L H sha k phrase client_now)"
  "{tier1_edit_credential_salt_key, tier1_edit_credential_hash_key} \<subseteq> W
     \<Longrightarrow> act_keeps (in_machine P) (configure_tier1_edit_credential_method sha k salt phrase)"
  "{tier1_edit_credential_salt_key, tier1_edit_credential_hash_key} \<subseteq> W
     \<Longrightarrow> act_keeps (in_machine P) (hide_recovery_credentials_method k)"
  "act_keeps (in_machine P) (tier1_edit_status_method L H sha k client_now)"
  unfolding unlock_tier1_edit_method_def configure_tier1_edit_credential_method_def hide_recovery_credentials_method_def
    tier1_edit_status_method_def Let_def
  by (auto intro!: act_frames machine_steps daemon_clock)

lemma setting_methods:
  "set access_mode_keys \<subseteq> W \<Longrightarrow> act_keeps (in_machine P) (set_protected_access_mode k mode)"
  "chromium_incognito_mode_key \<in> W \<Longrightarrow> act_keeps (in_machine P) (set_chromium_incognito_mode_method L H J G k incognito)"
  "chromium_incognito_disable_scope_key \<in> W
     \<Longrightarrow> act_keeps (in_machine P) (set_chromium_incognito_disable_scope_method L H J G k scope)"
  unfolding set_protected_access_mode_def set_chromium_incognito_mode_method_def
    set_chromium_incognito_disable_scope_method_def Let_def
  by (auto intro!: act_frames machine_steps daemon_clock browser_repairs)

lemma uninstall:
  assumes "{browser_extension_mode_key, browser_extension_uninstalling_until_key} \<subseteq> W"
  shows "act_keeps (in_machine P) (prepare_uninstall L H J B S G k token code client_now)"
proof -
  have a: "act_keeps (in_machine P) (authorize_uninstall L H S G k now code)" for now
    unfolding authorize_uninstall_def by (auto intro!: act_frames machine_steps daemon_clock)
  have h: "act_keeps (in_machine P) (hand_over H G token t now until)" for t now until
    unfolding hand_over_def using assms by (auto intro!: act_frames machine_steps)
  show ?thesis unfolding prepare_uninstall_def Let_def
    by (auto intro!: act_frames machine_steps daemon_clock a h browser_removals enforcement split: prod.splits)
qed

lemma control_requests:
  assumes "written_keys request \<subseteq> W"
  shows "act_keeps (in_machine P) (handle_control_request L H J B S sha G k request)"
proof -
  have c: "act_keeps (in_machine P) (cancel_detox_method L H k ident client_now)" for ident client_now
    unfolding cancel_detox_method_def by (intro act_frames machine_steps daemon_clock)
  have d: "act_keeps (in_machine P) (detox_sessions_method L H k limit only client_now)" for limit only client_now
    unfolding detox_sessions_method_def by (intro act_frames machine_steps daemon_clock)
  show ?thesis using assms
    by (cases request) (auto intro!: act_frames machine_steps detox_start c d window_methods setting_methods uninstall enforcement
        simp: set_operator_window_restriction_method_def set_unsupported_browser_block_mode_method_def)
qed

lemma edits:
  "act_keeps (in_daemon P) (persist_policy_config L T k c)"
  "act_keeps (in_daemon P) (commit_edit L H T k now b kind target c)"
proof -
  have 1: "act_keeps (in_core P) (\<lambda>core. act_for (cfg_schedules (fc_config core)) (\<lambda>schedule.
         on_db (set_notification_lifecycle_state ''schedule'' (sc_id schedule)
           (rpc_schedule_ids_are_active_at L [sc_id schedule] (fc_config core) now) (dt_utc now))) core)" for now
    by (rule act_keeps_state) (intro act_keeps_for keeps_on_db by_tables live_lifecycle)
  have 2: "act_keeps (in_core P) (\<lambda>core. act_for existing (\<lambda>(schedule_id, _).
         if list_ex (\<lambda>schedule. sc_id schedule = schedule_id) (cfg_schedules (fc_config core)) then act_return ()
         else on_db (delete_notification_lifecycle_state ''schedule'' schedule_id)) core)" for existing :: "(string \<times> bool) list"
    by (rule act_keeps_state) (auto intro!: act_keeps_for keeps_on_db by_tables live_lifecycle)
  have r: "act_keeps (in_core P) (rebaseline_schedule_notification_states L now)" for now
    unfolding rebaseline_schedule_notification_states_def by (intro act_keeps_bind act_keeps_read 1 2)
  have s: "act_keeps (in_daemon P) (store_policy L T old c)" for old c
    unfolding act_keeps_def store_policy_def
    using keeps_on_core [OF keeps_on_db [OF by_tables [OF live_replace [of L c]]]] keeps_on_recovery [of P "write_snapshot L T old"]
    unfolding act_keeps_def by (fastforce split: prod.splits sum.splits)
  have t: "act_keeps (in_core P) (\<lambda>core. on_db (sync_schedule_activity_totals L (cfg_schedules (fc_config core)) now) core)" for now
    by (rule act_keeps_state) (intro keeps_on_db by_tables live_totals)
  show p: "act_keeps (in_daemon P) (persist_policy_config L T k c)" for c
    unfolding persist_policy_config_def
    by (intro act_frames by_tables live_totals s r t)
  show "act_keeps (in_daemon P) (commit_edit L H T k now b kind target c)"
    unfolding commit_edit_def by (intro act_frames act_keeps_if p event)
qed

lemma policy_requests: "act_keeps (in_daemon P) (handle_policy_request L H T k request client_now)"
proof -
  have g: "act_keeps (in_daemon P) (guarded_edit L H k client_now f)" if "\<And>now. act_keeps (in_daemon P) (f now)"
    for f :: "datetime \<Rightarrow> (daemon, config) action"
    unfolding guarded_edit_def by (intro act_frames daemon_clock that)
  show ?thesis
  proof (cases rule: request_edit [where request = request and L = L and H = H and T = T and k = k and client_now = client_now])
    case (import toml)
    then show ?thesis
      by (auto simp: import_policy_toml_method_def intro!: g act_frames edits event split: prod.splits)
  next
    case (edit b kind target)
    show ?thesis unfolding edit edit_method_def by (intro g act_frames edits)
  qed
qed

lemma in_context:
  "(\<And>ctx. keeps_tables (m ctx)) \<Longrightarrow> act_keeps (in_daemon P) (in_request_context L H k client_now m)"
  unfolding in_request_context_def
  by (intro act_frames daemon_clock act_keeps_state [of _ "\<lambda>core. on_db (m (request_context g core))" for g] by_tables)

lemma other_requests:
  "act_keeps (in_daemon P) (request_unlock_method L H k target reason client_now)"
  "act_keeps (in_daemon P) (record_visit_start_method L H k url tab_id client_now)"
  "act_keeps (in_daemon P) (record_visit_heartbeat_method L H k ident client_now)"
  "act_keeps (in_daemon P) (record_visit_end_method L H k ident client_now)"
proof -
  show "act_keeps (in_daemon P) (request_unlock_method L H k target reason client_now)"
    unfolding request_unlock_method_def request_unlock_at_def [abs_def]
    by (intro act_frames daemon_clock act_keeps_state [of _ "\<lambda>core. on_db (request_unlock L (context_new (fc_config core) now) target reason)" for now]
        by_tables live_unlock)
  show "act_keeps (in_daemon P) (record_visit_start_method L H k url tab_id client_now)"
    "act_keeps (in_daemon P) (record_visit_heartbeat_method L H k ident client_now)"
    "act_keeps (in_daemon P) (record_visit_end_method L H k ident client_now)"
    unfolding record_visit_start_method_def record_visit_heartbeat_method_def record_visit_end_method_def
    by (intro in_context live_visits)+
qed

lemma forgotten: "act_keeps Q m \<Longrightarrow> act_keeps Q (forget m)"
  unfolding forget_def by (intro act_keeps_bind act_keeps_return)

lemma folds: "(\<And>x y. act_keeps Q (f x y)) \<Longrightarrow> act_keeps Q (act_fold f xs y)"
  by (induction xs arbitrary: y) (auto intro!: act_keeps_bind)

lemma on_tables: "keeps_tables m \<Longrightarrow> act_keeps (in_core P) (on_db m)"
  by (intro keeps_on_db by_tables)

lemma notification_methods:
  "act_keeps (in_core P) (set_notification_preferences_method discard_at event_at requested)"
  "act_keeps (in_core P) (pending_notifications_method since_now discard_at now since limit)"
  "act_keeps (in_core P) (acknowledge_notifications_method now ids)"
  "act_keeps (in_core P) (record_notification_delivery_method now ident delivered detail)"
  unfolding set_notification_preferences_method_def pending_notifications_method_def
    acknowledge_notifications_method_def record_notification_delivery_method_def
  by (auto intro!: act_keeps_bind act_keeps_read on_tables live_preferences live_event live_historical live_pending
      live_acknowledge live_delivery split: option.splits)

lemma diagnostics: "act_keeps (in_core P) (record_diagnostics_method H J received_at events)"
  unfolding record_diagnostics_method_def diagnostic_step_def
  by (intro act_keeps_if act_keeps_read folds act_keeps_return act_keeps_bind on_tables live_diagnostic)

lemma url_requests: "act_keeps (in_daemon P) (evaluate_url_method L H X k url probe client_now)"
proof -
  have q: "act_keeps (in_core P) (enqueue_website_block_notification L url decision now)" for decision now
    unfolding enqueue_website_block_notification_def Let_def
    by (auto intro!: act_keeps_bind act_keeps_read on_tables live_enqueue split: decision.splits option.splits)
  have b: "act_keeps (in_core P) (log_website_block L X url decision now)" for decision now
    unfolding log_website_block_def by (intro act_keeps_bind on_tables live_event act_keeps_ignore q)
  show ?thesis unfolding evaluate_url_method_def Let_def
    by (auto intro!: act_frames act_keeps_if daemon_clock b split: decision.splits block_reason.splits option.splits)
qed

lemma heartbeat_requests: "act_keeps (in_machine P) (extension_heartbeat_method L H J B G k settings_clock scan p)"
proof -
  have r: "act_keeps (in_machine P) (repair_deferred_policy_after_heartbeat L H J B G settings_clock e component)" for e component
    unfolding repair_deferred_policy_after_heartbeat_def
    by (auto intro!: act_frames settings_clock split: option.splits)
  show ?thesis unfolding extension_heartbeat_method_def Let_def
    by (intro act_frames daemon_clock by_tables live_heartbeat r)
qed

lemma view_requests: "act_keeps (in_daemon P) (handle_view_request L H T J G request)"
proof -
  have c: "act_keeps (in_daemon P) (clock_integrity_status_method L H rd)" for rd
    unfolding clock_integrity_status_method_def
    by (rule act_keeps_state) (intro act_frames keeps_on_database clock)
  have s: "act_keeps (in_daemon P) (status_method L H rd enforcement)" for rd enforcement
    unfolding status_method_def
    by (rule act_keeps_state) (intro act_frames keeps_on_database clock)
  have "act_keeps (in_daemon P) (schedule_activity_summary L H k now)" for k now
    unfolding schedule_activity_summary_def by (intro act_frames daemon_clock by_tables live_totals)
  moreover have "act_keeps (in_daemon P) (running_apps_method L H k scan session_variable wmctrl now)"
      "act_keeps (in_daemon P) (extension_status_method L H J timeout k scan now component)"
    for k scan session_variable wmctrl now timeout component
    unfolding running_apps_method_def extension_status_method_def Let_def
    by (auto intro!: act_frames daemon_clock split: prod.splits)
  ultimately show ?thesis
    by (cases request) (auto intro!: forgotten c s act_keeps_read act_keeps_core_read simp: export_policy_toml_method_def)
qed

lemma client_requests: "act_keeps (in_machine P) (handle_client_request L H X J B G request)"
  by (cases request) (auto intro!: forgotten keeps_on_daemon keeps_on_core url_requests heartbeat_requests
      notification_methods diagnostics other_requests)

end

section \<open>Detox sessions and states\<close>

definition database_of :: "machine \<Rightarrow> database" where
  "database_of s = fc_database (dm_core (mc_daemon s))"

lemma in_machine_iff: "in_machine P s \<longleftrightarrow> P (database_of s)"
  by (simp add: in_machine_def in_daemon_def in_core_def database_of_def)

text \<open>Every session stored in the one database is stored in the other, with the same lists and times.\<close>

definition detox_kept :: "database \<Rightarrow> database \<Rightarrow> bool" where
  "detox_kept db0 db \<longleftrightarrow> (\<forall>row\<in>set (db_detox_sessions db0).
     row \<in> set (db_detox_sessions db) \<and> stored_session db row = stored_session db0 row)"

lemma insert_session_effect:
  obtains "snd (insert_detox_session session db) = db"
  | "ds_id session \<notin> dx_id ` set (db_detox_sessions db)" "snd (insert_detox_session session db) = session_inserted session db"
proof (cases "insert_detox_session session db")
  case (Pair r db')
  show ?thesis
  proof (cases r)
    case (Inl e)
    then have "db' = db" using Pair transaction_rollback by (auto simp: insert_detox_session_def)
    then show ?thesis using Pair that(1) by simp
  next
    case (Inr s')
    then have "insert_detox_session session db = (Inr s', db')" using Pair by simp
    from insert_detox_session_Inr [OF this] show ?thesis using Pair by (intro that(2)) auto
  qed
qed

lemma detox_kept_insert: "keeps (detox_kept db0) (insert_detox_session session)"
  unfolding keeps_def
proof (intro allI impI)
  fix db assume k: "detox_kept db0 db"
  show "detox_kept db0 (snd (insert_detox_session session db))"
  proof (cases rule: insert_session_effect [of session db])
    case 2
    have "stored_session (session_inserted session db) row = stored_session db row"
      if "row \<in> set (db_detox_sessions db)" for row
    proof -
      have "ds_id session \<noteq> dx_id row" using that 2(1) by auto
      then have "filter (\<lambda>r. dr_session_id r = dx_id row) (rule_rows (ds_id session) n ids) = []" for n ids
        by (auto simp: filter_empty_conv dest!: rule_rows_session)
      then show ?thesis by (simp add: stored_session_def session_inserted_def session_rule_ids_def)
    qed
    then show ?thesis unfolding 2(2) using k by (auto simp: detox_kept_def session_inserted_def)
  qed (use k in simp)
qed

interpretation sessions: lasting "detox_kept db0" UNIV for db0
proof
  fix db db' :: database
  assume "live_tables db' = live_tables db" "detox_kept db0 db"
  then show "detox_kept db0 db'" by (auto simp: detox_kept_def live_tables_def stored_session_def)
next
  fix key t v
  show "keeps (detox_kept db0) (write_service_state t (key, v))"
    unfolding write_service_state_def by (rule keeps_update_rows) (auto simp: detox_kept_def stored_session_def)
qed (auto intro: detox_kept_insert)

definition states_kept :: "string set \<Rightarrow> database \<Rightarrow> database \<Rightarrow> bool" where
  "states_kept K db0 db \<longleftrightarrow> (\<forall>key\<in>K - guard_keys. clock_value key db = clock_value key db0)"

interpretation states: lasting "states_kept K db0" "- (K - guard_keys)" for K db0
proof
  fix db db' :: database
  assume "live_tables db' = live_tables db" "states_kept K db0 db"
  then show "states_kept K db0 db'" by (auto simp: states_kept_def live_tables_def clock_value_def)
next
  fix key t v assume "key \<in> - (K - guard_keys)"
  then show "keeps (states_kept K db0) (write_service_state t (key, v))"
    unfolding write_service_state_def by (intro keeps_update_rows) (auto simp: states_kept_def clock_value_def)
next
  fix session
  have "states_kept K db0 (snd (insert_detox_session session db))" if "states_kept K db0 db" for db
    by (rule insert_session_effect [of session db]) (use that in \<open>auto simp: states_kept_def clock_value_def session_inserted_def\<close>)
  then show "keeps (states_kept K db0) (insert_detox_session session)" by (simp add: keeps_def)
qed auto

text \<open>The keys any request may write.\<close>

fun request_keys :: "machine_request \<Rightarrow> string set" where
  "request_keys (ControlRequest k request) = written_keys request"
| "request_keys _ = {}"

lemma request_keys_cases:
  assumes "key \<in> request_keys request"
  obtains k control where "request = ControlRequest k control" "key \<in> written_keys control"
  using assms by (cases request) auto

definition handles :: "(database \<Rightarrow> bool) \<Rightarrow> (machine \<Rightarrow> machine) \<Rightarrow> bool" where
  "handles P f \<longleftrightarrow> (\<forall>s. P (database_of s) \<longrightarrow> P (database_of (f s)))"

lemma handles_ignoring: "act_keeps (in_machine P) m \<Longrightarrow> handles P (ignoring m)"
  by (simp add: act_keeps_def handles_def ignoring_def in_machine_iff)

lemma handles_daemon: "act_keeps (in_daemon P) m \<Longrightarrow> handles P (ignoring (on_daemon m))"
  by (intro handles_ignoring keeps_on_daemon)

lemma requests_keep_sessions: "handles (detox_kept db0) (handle_request L H T X J B S sha G request)"
  by (cases request) (auto intro!: handles_ignoring handles_daemon act_keeps_read sessions.control_requests
      sessions.policy_requests sessions.view_requests sessions.client_requests)

lemma requests_keep_states:
  "request_keys request \<subseteq> - (K - guard_keys) \<Longrightarrow> handles (states_kept K db0) (handle_request L H T X J B S sha G request)"
  by (cases request) (auto intro!: handles_ignoring handles_daemon act_keeps_read states.control_requests
      states.policy_requests states.view_requests states.client_requests)

lemma load_sessions_stored: "load_detox_sessions select db = Inr ss \<Longrightarrow> ss = map (stored_session db) (select db)"
proof -
  assume "load_detox_sessions select db = Inr ss"
  then have "list_all2 (\<lambda>row x. load_detox_session db row = Inr x) (select db) ss"
    by (auto simp: load_detox_sessions_def and_then_Inr_iff query_Inr try_map_Inr_iff)
  moreover have "load_detox_session db row = Inr x \<Longrightarrow> x = stored_session db row" for row x
    by (auto simp: load_detox_session_def and_then_Inr_iff query_Inr stored_session_def)
  ultimately show ?thesis by (auto simp: list_all2_conv_all_nth intro!: nth_equalityI)
qed

text \<open>
  C1. No sequence of requests ends a Detox. Whatever is asked of the daemon and whether it succeeds or
  fails, every session that is active at some moment by the database before is active at that moment
  by the database after, with the lists it blocks and the end it had.
\<close>

theorem running_detox_survives_requests:
  assumes "active_detox_sessions t (database_of s) = Inr before"
    and "active_detox_sessions t (database_of (run_requests L H T X J B S sha G requests s)) = Inr after"
  shows "set before \<subseteq> set after"
proof -
  have "detox_kept (database_of s) (database_of (run_requests L H T X J B S sha G requests s'))"
    if "detox_kept (database_of s) (database_of s')" for s'
    using that
  proof (induction requests arbitrary: s')
    case (Cons request requests)
    from Cons.prems have "detox_kept (database_of s) (database_of (handle_request L H T X J B S sha G request s'))"
      by (rule requests_keep_sessions [unfolded handles_def, rule_format])
    then show ?case using Cons.IH by (simp add: run_requests_def)
  qed (simp add: run_requests_def)
  then have "detox_kept (database_of s) (database_of (run_requests L H T X J B S sha G requests s))"
    by (simp add: detox_kept_def)
  then show ?thesis
    using assms [unfolded active_detox_sessions_def, THEN load_sessions_stored] by (force simp: detox_kept_def by_end_def)
qed

section \<open>The edit window\<close>

lemma key_not_guarded [simp]:
  "tier1_edit_unlock_until_key \<notin> guard_keys" "browser_extension_mode_key \<notin> guard_keys"
  "browser_extension_uninstalling_until_key \<notin> guard_keys" "tier1_edit_credential_salt_key \<notin> guard_keys"
  "tier1_edit_credential_hash_key \<notin> guard_keys" "protected_access_mode_key \<notin> guard_keys"
  by (simp_all add: guard_keys_def rpc_keys status_key_def detail_key_def last_wall_utc_key_def last_boot_id_key_def
      last_boottime_seconds_key_def)

text \<open>A key that changed: only a control request that writes it can have done so.\<close>

lemma changed_key:
  assumes "clock_value key (database_of (handle_request L H T X J B S sha G request s)) \<noteq> clock_value key (database_of s)"
    and "key \<notin> guard_keys"
  shows "key \<in> request_keys request"
proof (rule ccontr)
  assume "key \<notin> request_keys request"
  then have "handles (states_kept {key} (database_of s)) (handle_request L H T X J B S sha G request)"
    by (intro requests_keep_states) auto
  moreover have "states_kept {key} (database_of s) (database_of s)" by (simp add: states_kept_def)
  ultimately have "states_kept {key} (database_of s) (database_of (handle_request L H T X J B S sha G request s))"
    by (simp add: handles_def)
  then show False using assms by (simp add: states_kept_def)
qed

text \<open>What an operation that keeps the states leaves of one key.\<close>

lemma same_key:
  assumes "act_keeps (in_machine (states_kept {key} (database_of s))) m" "m s = (r, s')" "key \<notin> guard_keys"
  shows "clock_value key (database_of s') = clock_value key (database_of s)"
proof -
  have "states_kept {key} (database_of s) (database_of s')"
    using act_keepsD [OF assms(1) _ assms(2)] by (simp add: in_machine_iff states_kept_def)
  then show ?thesis using assms(3) by (simp add: states_kept_def)
qed

lemma put_state_effect:
  assumes "put_state key v t s = (r, s')"
  obtains "database_of s' = database_of s" "isl r" | "clock_value key (database_of s') = Some v" "\<not> isl r"
proof -
  let ?m = "set_service_states [(key, v)] t (database_of s)"
  have r: "r = map_err DaemonCore (fst ?m)" "database_of s' = snd ?m"
    using assms by (auto simp: put_state_def on_machine_core_def on_daemon_def on_core_def on_db_def on_database_def
        db_action_def database_of_def set_service_state_def Let_def)
  show thesis
  proof (cases ?m)
    case (Pair x db)
    show ?thesis
    proof (cases x)
      case (Inl e)
      then have "db = database_of s" using Pair transaction_rollback by (auto simp: set_service_states_def)
      then show ?thesis using Inl Pair r by (intro that(1)) auto
    next
      case (Inr u)
      then have "clock_value key db = Some v" using Pair
        by (auto simp: set_service_states_def transaction_Inr db_bind_Inr write_service_state_def update_rows_def exec_Inr
            clock_value_def upsert_def update_conv')
      then show ?thesis using Inr Pair r by (intro that(2)) auto
    qed
  qed
qed

text \<open>A change after a step that keeps the key comes from what follows the step.\<close>

definition changes :: "string \<Rightarrow> (machine, 'a) action \<Rightarrow> machine \<Rightarrow> machine \<Rightarrow> bool" where
  "changes key m s s' \<longleftrightarrow> snd (m s) = s' \<and> clock_value key (database_of s') \<noteq> clock_value key (database_of s)"

abbreviation keeps_key :: "string \<Rightarrow> (machine, 'a) action \<Rightarrow> bool" where
  "keeps_key key m \<equiv> \<forall>db. act_keeps (in_machine (states_kept {key} db)) m"

lemma keeps_key_same:
  assumes "keeps_key key m" "key \<notin> guard_keys"
  shows "clock_value key (database_of (snd (m s))) = clock_value key (database_of s)"
  by (rule same_key [of key s m "fst (m s)"]) (use assms in auto)

lemma changes_bind:
  assumes "changes key (act_bind m f) s s'" "keeps_key key m" "key \<notin> guard_keys"
  obtains x s1 where "m s = (Inr x, s1)" "changes key (f x) s1 s'"
proof -
  obtain r s1 where m: "m s = (r, s1)" by fastforce
  have k: "clock_value key (database_of s1) = clock_value key (database_of s)"
    using keeps_key_same [OF assms(2,3), of s] m by simp
  show thesis using assms(1) m k that by (cases r) (auto simp: changes_def act_bind_def)
qed

lemma changes_read: "changes key (act_bind (act_read q) f) s s' \<longleftrightarrow> (\<exists>x. q s = Inr x \<and> changes key (f x) s s')"
  by (cases "q s") (simp_all add: changes_def act_bind_def)

lemma changes_simple [simp]: "\<not> changes key (act_read q) s s'" "\<not> changes key (act_return x) s s'"
  by (auto simp: changes_def)

lemma changes_machine_read:
  "changes key (act_bind (machine_read q) f) s s' \<longleftrightarrow> (\<exists>x. q (dm_core (mc_daemon s)) = Inr x \<and> changes key (f x) s s')"
  by (cases "q (dm_core (mc_daemon s))") (simp_all add: changes_def act_bind_def machine_read_def on_daemon_def core_read_def)

lemma changes_reject:
  "changes key (act_bind (on_daemon (reject_if_clock_tampered H k)) f) s s' \<longleftrightarrow>
     fst (reject_if_clock_tampered H k (mc_daemon s)) = Inr () \<and> changes key (f ()) s s'"
  by (cases "fst (reject_if_clock_tampered H k (mc_daemon s))")
    (simp_all add: changes_def act_bind_def on_daemon_def reject_if_clock_tampered_def)

lemma changes_guarded:
  assumes "changes key (act_bind (on_daemon (rpc_guarded_now L H k client_now)) f) s s'" "key \<notin> guard_keys"
  obtains now d where "rpc_guarded_now L H k client_now (mc_daemon s) = (Inr now, d)" "changes key (f now) (s\<lparr>mc_daemon := d\<rparr>) s'"
proof -
  have "keeps_key key (on_daemon (rpc_guarded_now L H k client_now))"
    using keeps_on_daemon [OF states.daemon_clock(2)] by blast
  from changes_bind [OF assms(1) this assms(2)] show thesis
    using that by (auto simp: on_daemon_Inr)
qed

lemma changes_put:
  assumes "changes key (act_bind (put_state key v t) f) s s'" "\<And>x. keeps_key key (f x)" "key \<notin> guard_keys"
  shows "clock_value key (database_of s') = Some v"
proof -
  obtain r s1 where m: "put_state key v t s = (r, s1)" by fastforce
  then show ?thesis
  proof (cases rule: put_state_effect)
    case 1
    then show ?thesis using assms(1) m by (cases r) (auto simp: changes_def act_bind_def)
  next
    case 2
    then obtain x where "r = Inr x" by (cases r) auto
    then show ?thesis using keeps_key_same [OF assms(2,3), of x s1] assms(1) m 2 by (auto simp: act_bind_def changes_def)
  qed
qed

lemma changes_answer: "changes key (answer f m) s s' \<longleftrightarrow> changes key m s s'"
  by (cases "m s"; cases "fst (m s)") (auto simp: changes_def answer_def act_bind_def)

text \<open>
  C5. The edit window opens only for the credential. When a request changes the time until which lists
  can be edited, it is a request to unlock, its phrase matched the credential in force, protected
  access was open, and the window it opens ends five minutes after the request.
\<close>

theorem edit_window_opens_only_for_credential:
  assumes "clock_value tier1_edit_unlock_until_key (database_of (handle_request L H T X J B S sha G request s))
      \<noteq> clock_value tier1_edit_unlock_until_key (database_of s)"
  shows "\<exists>k phrase client_now now d. request = ControlRequest k (UnlockTier1Edit phrase client_now)
    \<and> rpc_guarded_now L H (kc_request k) client_now (mc_daemon s) = (Inr now, d)
    \<and> tier1_edit_credential_matches (credentials_of sha (mc_documents s)) (trim phrase) (dm_core d) = Inr True
    \<and> protected_access_is_open L now False (dm_core d) = Inr True
    \<and> clock_value tier1_edit_unlock_until_key (database_of (handle_request L H T X J B S sha G request s))
       = Some (hl_rfc3339 H (dt_utc now + 5 * nanos_per_minute))"
proof -
  let ?key = "tier1_edit_unlock_until_key"
  have "?key \<in> request_keys request" using changed_key [OF assms] by simp
  then obtain k phrase client_now where q: "request = ControlRequest k (UnlockTier1Edit phrase client_now)"
    by (elim request_keys_cases; case_tac control) (auto simp: access_mode_keys_def rpc_keys)
  have h: "handle_request L H T X J B S sha G request s = snd (answer EditStatus (unlock_tier1_edit_method L H sha k phrase client_now) s)"
    by (simp add: q ignoring_def)
  have "changes ?key (unlock_tier1_edit_method L H sha k phrase client_now) s (handle_request L H T X J B S sha G request s)"
    using assms unfolding changes_answer [of _ EditStatus, symmetric] by (simp add: changes_def h)
  then show ?thesis unfolding unlock_tier1_edit_method_def
  proof (rule changes_guarded, goal_cases)
    case (2 now d)
    from 2(2) obtain e where m: "tier1_edit_credential_matches (credentials_of sha (mc_documents s)) (trim phrase) (dm_core d) = Inr True"
      "protected_access_is_open L now False (dm_core d) = Inr True" "add_millis L (dt_utc now) (60000 * tier1_edit_unlock_minutes) = Inr e"
      and c: "changes ?key (act_bind (put_state ?key (hl_rfc3339 H e) (dt_utc now)) (\<lambda>_.
         act_bind (machine_event ''tier1_edit_unlocked'' ''site_lists'' unlock_details (dt_utc now)) (\<lambda>_.
         credential_read sha (tier1_edit_status_json L H (rk_status (kc_request k)) now)))) (s\<lparr>mc_daemon := d\<rparr>)
         (handle_request L H T X J B S sha G request s)"
      by (auto simp: changes_reject changes_read changes_machine_read credential_read_def split: if_splits)
    have "e = dt_utc now + 5 * nanos_per_minute"
      using m(3) by (auto simp: add_millis_def tier1_edit_unlock_minutes_def nanos_per_minute_def Let_def split: if_splits)
    moreover have "clock_value ?key (database_of (handle_request L H T X J B S sha G request s)) = Some (hl_rfc3339 H e)"
      by (rule changes_put [OF c]) (auto intro: act_frames states.machine_steps)
    ultimately show ?case using q 2(1) m by blast
  qed simp
qed

section \<open>The hand-over\<close>

lemma hosts_present: "on_daemon (on_hosts (act_return ())) s = (r, s1) \<Longrightarrow> s1 = s"
  by (cases "dm_hosts (mc_daemon s)") (auto simp: on_daemon_def on_hosts_def Let_def)

lemma authorized:
  assumes "authorize_uninstall L H S G k now code s = (Inr (emergency, mode), s1)"
  shows "s1 = s" "active_detox_sessions (dt_utc now) (database_of s) = Inr []"
    "(\<exists>c. code = Some c \<and> emergency_uninstall_code_matches S G c (mc_documents s))
     \<or> protected_access_is_open L now False (dm_core (mc_daemon s)) = Inr True
       \<and> fst (reject_if_clock_tampered H (kc_request k) (mc_daemon s)) = Inr ()"
proof -
  have "s1 = s \<and> active_detox_sessions (dt_utc now) (database_of s) = Inr [] \<and>
    ((\<exists>c. code = Some c \<and> emergency_uninstall_code_matches S G c (mc_documents s))
     \<or> protected_access_is_open L now False (dm_core (mc_daemon s)) = Inr True
       \<and> fst (reject_if_clock_tampered H (kc_request k) (mc_daemon s)) = Inr ())"
    using assms
    by (auto simp: authorize_uninstall_def act_bind_Inr machine_read_def on_daemon_Inr core_read_def ensure_no_detox_def
        and_then_Inr_iff database_of_def reject_if_clock_tampered_def split: if_splits option.splits)
  then show "s1 = s" "active_detox_sessions (dt_utc now) (database_of s) = Inr []"
    "(\<exists>c. code = Some c \<and> emergency_uninstall_code_matches S G c (mc_documents s))
     \<or> protected_access_is_open L now False (dm_core (mc_daemon s)) = Inr True
       \<and> fst (reject_if_clock_tampered H (kc_request k) (mc_daemon s)) = Inr ()" by auto
qed

text \<open>
  C6. Enforcement is handed over only with authority. When a request changes the mode that tells the
  daemon an uninstall is under way, it is a request to uninstall, no Detox was active, and either the
  emergency code it names was signed for this installation or protected access was open and the clock
  trusted.
\<close>

theorem uninstall_needs_authority:
  assumes "clock_value browser_extension_mode_key (database_of (handle_request L H T X J B S sha G request s))
      \<noteq> clock_value browser_extension_mode_key (database_of s)"
  shows "\<exists>k token code client_now now d. request = ControlRequest k (PrepareUninstall token code client_now)
    \<and> rpc_guarded_now L H (kc_request k) client_now (mc_daemon s) = (Inr now, d)
    \<and> active_detox_sessions (dt_utc now) (fc_database (dm_core d)) = Inr []
    \<and> ((\<exists>c. code = Some c \<and> emergency_uninstall_code_matches S G c (mc_documents s))
      \<or> protected_access_is_open L now False (dm_core d) = Inr True
        \<and> fst (reject_if_clock_tampered H (kc_request k) d) = Inr ())"
proof -
  let ?key = "browser_extension_mode_key"
  have "?key \<in> request_keys request" using changed_key [OF assms] by simp
  then obtain k token code client_now where q: "request = ControlRequest k (PrepareUninstall token code client_now)"
    by (elim request_keys_cases; case_tac control) (auto simp: access_mode_keys_def rpc_keys)
  have "changes ?key (prepare_uninstall L H J B S G k token code client_now) s (handle_request L H T X J B S sha G request s)"
    using assms unfolding changes_answer [of _ HandedOver, symmetric] by (simp add: changes_def q ignoring_def)
  then show ?thesis unfolding prepare_uninstall_def
  proof (rule changes_bind, goal_cases)
    case (3 u s1)
    have "s1 = s" using 3(1) by (rule hosts_present)
    then show ?case using 3(2)
    proof (rule_tac changes_guarded, simp, simp, goal_cases)
      case (1 now d)
      have "keeps_key ?key (authorize_uninstall L H S G k now code)"
        unfolding authorize_uninstall_def by (auto intro!: act_frames states.machine_steps keeps_on_daemon states.daemon_clock)
      from 1(4) this obtain em mode s2 where "authorize_uninstall L H S G k now code (s\<lparr>mc_daemon := d\<rparr>) = (Inr (em, mode), s2)"
        by (rule changes_bind) auto
      from authorized(2,3) [OF this] q 1(3) show ?case by (auto simp: database_of_def)
    qed
  qed (auto intro: act_frames)
qed

section \<open>A new Detox finds an id\<close>

lemma digit_char_inj: "a < 10 \<Longrightarrow> b < 10 \<Longrightarrow> digit_char a = digit_char b \<Longrightarrow> a = b"
  by (auto simp: digit_char_def dest: arg_cong [where f = of_char])

lemma show_digits_nonempty: "show_digits n \<noteq> []"
  by (subst show_digits.simps) auto

lemma show_digits_inj: "0 \<le> m \<Longrightarrow> 0 \<le> n \<Longrightarrow> show_digits m = show_digits n \<Longrightarrow> m = n"
proof (induction m arbitrary: n rule: show_digits.induct)
  case (1 m)
  have s: "show_digits m = (if m < 10 then [digit_char (nat m)] else show_digits (m div 10) @ [digit_char (nat (m mod 10))])"
    "show_digits n = (if n < 10 then [digit_char (nat n)] else show_digits (n div 10) @ [digit_char (nat (n mod 10))])"
    by (rule show_digits.simps)+
  show ?case
  proof (cases "m < 10 \<or> n < 10")
    case True
    then have "m < 10 \<and> n < 10" using 1(4) s show_digits_nonempty [of "m div 10"] show_digits_nonempty [of "n div 10"]
      by (auto split: if_splits)
    then have "nat m = nat n" using 1(4) s by (intro digit_char_inj) auto
    then show ?thesis using 1(2,3) by simp
  next
    case False
    then have e: "show_digits (m div 10) = show_digits (n div 10)" "digit_char (nat (m mod 10)) = digit_char (nat (n mod 10))"
      using 1(4) s by auto
    have "nat (m mod 10) = nat (n mod 10)" using e(2) by (intro digit_char_inj) auto
    then have "m mod 10 = n mod 10" by (simp add: eq_nat_nat_iff)
    moreover have "m div 10 = n div 10" using 1(1) [OF _ _ _ e(1)] 1(2,3) False by (simp add: pos_imp_zdiv_nonneg_iff)
    ultimately show ?thesis by (metis div_mult_mod_eq)
  qed
qed

definition numbered :: "string \<Rightarrow> int \<Rightarrow> string" where
  "numbered base n = base @ ''-'' @ show_int n"

lemma numbered_inj: "2 \<le> m \<Longrightarrow> 2 \<le> n \<Longrightarrow> numbered base m = numbered base n \<Longrightarrow> m = n"
  using show_digits_inj [of m n] by (simp add: numbered_def show_int_def)

lemma free_id_result:
  assumes "\<And>i. \<exists>found. core_query (detox_session i) core = Inr found"
  shows "case free_detox_id base ident n core of
      Inr i \<Rightarrow> core_query (detox_session i) core = Inr None
    | Inl _ \<Rightarrow> core_query (detox_session ident) core \<noteq> Inr None
        \<and> (\<forall>m\<in>{n..<2147483647}. core_query (detox_session (numbered base m)) core \<noteq> Inr None)"
  using assms
proof (induction base ident n core rule: free_detox_id.induct)
  case (1 base ident n core)
  obtain found where f: "core_query (detox_session ident) core = Inr found" using 1(2) by blast
  show ?case
  proof (cases "found = None \<or> n \<ge> 2147483647")
    case True
    then show ?thesis by (subst free_detox_id.simps) (auto simp del: core_query_Inr simp: f split: option.splits)
  next
    case False
    then obtain session where s: "found = Some session" "n < 2147483647" by auto
    have e: "free_detox_id base ident n core = free_detox_id base (numbered base n) (n + 1) core"
      using s by (subst free_detox_id.simps) (simp del: core_query_Inr add: f numbered_def)
    have ih: "case free_detox_id base (numbered base n) (n + 1) core of
        Inr i \<Rightarrow> core_query (detox_session i) core = Inr None
      | Inl _ \<Rightarrow> core_query (detox_session (numbered base n)) core \<noteq> Inr None
          \<and> (\<forall>m\<in>{n + 1..<2147483647}. core_query (detox_session (numbered base m)) core \<noteq> Inr None)"
      using 1(1) [OF f s(1)] s(2) 1(2) unfolding numbered_def by (simp del: append.simps core_query_Inr)
    have "{n..<2147483647} = insert n {n + 1..<2147483647}" using s(2) by auto
    with ih show ?thesis unfolding e f s(1) by (auto simp del: core_query_Inr split: sum.splits)
  qed
qed

lemma taken_id:
  "core_query (detox_session i) core = Inr (Some session) \<Longrightarrow> i \<in> dx_id ` set (db_detox_sessions (fc_database core))"
  by (auto simp: detox_session_def and_then_Inr_iff dest!: load_sessions_stored split: if_splits)
    (metis (mono_tags, lifting) filter_empty_conv image_eqI)

text \<open>
  Starting a Detox always finds an id. While fewer than 2147483646 sessions are stored and the table
  can be read, the search over numbered ids ends with an id that no session has.
\<close>

lemma detox_id_is_found:
  assumes "\<And>i. \<exists>found. core_query (detox_session i) core = Inr found"
    and "length (db_detox_sessions (fc_database core)) < 2147483646"
  shows "\<exists>ident. next_detox_session_id now core = Inr ident \<and> core_query (detox_session ident) core = Inr None"
proof (rule ccontr)
  let ?base = "''detox-'' @ show_int (now div 1000)"
  let ?ids = "dx_id ` set (db_detox_sessions (fc_database core))"
  assume no: "\<nexists>ident. next_detox_session_id now core = Inr ident \<and> core_query (detox_session ident) core = Inr None"
  from free_id_result [OF assms(1), where base = ?base and ident = ?base and n = 2] no
  have t: "core_query (detox_session ?base) core \<noteq> Inr None"
    "\<forall>m\<in>{2..<2147483647}. core_query (detox_session (numbered ?base m)) core \<noteq> Inr None"
    by (auto simp: next_detox_session_id_def Let_def split: sum.splits)
  have present: "i \<in> ?ids" if "core_query (detox_session i) core \<noteq> Inr None" for i
  proof -
    obtain found where f: "core_query (detox_session i) core = Inr found" using assms(1) by blast
    have "found \<noteq> None" using that f by (simp del: core_query_Inr)
    then obtain session where "found = Some session" by blast
    then show ?thesis using f taken_id by blast
  qed
  have "insert ?base (numbered ?base ` {2..<2147483647}) \<subseteq> ?ids"
    using t present by blast
  then have "card (insert ?base (numbered ?base ` {2..<2147483647})) \<le> card ?ids" by (intro card_mono) auto
  moreover have "card ?ids \<le> length (db_detox_sessions (fc_database core))"
    by (metis card_image_le card_length le_trans List.finite_set)
  moreover have "card (numbered ?base ` {2..<2147483647}) = 2147483645"
    by (subst card_image) (auto simp: inj_on_def dest: numbered_inj)
  moreover have "?base \<notin> numbered ?base ` {2..<2147483647}" by (auto simp: numbered_def)
  ultimately show False using assms(2) by simp
qed

section \<open>A sample machine\<close>

text \<open>The sample daemon on a Tuesday morning, no policy documents to manage, and two files of the installation.\<close>

definition sample_documents :: document_store where
  "sample_documents = \<lparr>do_files = [tier1_edit_key_path \<mapsto> ''open sesame'',
       ''/serial'' \<mapsto> ''BKI-7A91C246-398AF072-5E70DA11-D9B4C83F''],
     do_fault = (\<lambda>_ _. None), do_linked_dir = (\<lambda>_. False)\<rparr>"

definition sample_managers :: managers where
  "sample_managers = \<lparr>mg_gecko_policies = [], mg_chromium_policies = [], mg_manage_firefox_policy = False,
     mg_manage_chrome_policy = False, mg_defer_firefox_policy_repair = False, mg_defer_chrome_policy_repair = False,
     mg_heartbeat_timeout_seconds = 90, mg_installation_serial_path = ''/serial'',
     mg_package_removal_lease_path = ''/lease''\<rparr>"

definition sample_machine :: machine where
  "sample_machine = \<lparr>mc_daemon = sample_daemon\<lparr>dm_hosts := Some sample_hosts\<rparr>, mc_documents = sample_documents\<rparr>"

definition tuesday_controls :: control_clock where
  "tuesday_controls = \<lparr>kc_request = tuesday_clock, kc_settings = machine_at tuesday_eight ''90000 11'',
     kc_enforcement = tuesday_eight,
     kc_status = \<lparr>tk_first = machine_at tuesday_eight ''90000 11'', tk_enforcement = tuesday_eight,
       tk_integrity = machine_at tuesday_eight ''90000 11'', tk_browser = (\<lambda>_. machine_at tuesday_eight ''90000 11'')\<rparr>\<rparr>"

definition sample_sha :: "u8 list \<Rightarrow> string" where
  "sample_sha bytes = show_int (int (length bytes))"

definition sample_text :: text_lib where
  "sample_text = \<lparr>tx_rfc3339 = (\<lambda>t. show_int (dt_utc t)), tx_json_time = show_int, tx_error = (\<lambda>_. ''error''),
     tx_decision = (\<lambda>d. if is_block d then ''block'' else ''allow'')\<rparr>"

definition sample_run :: "control_request list \<Rightarrow> machine" where
  "sample_run requests = run_requests sample_lib sample_host sample_toml sample_text sample_json sample_backup sample_signatures
     sample_sha sample_managers (map (ControlRequest tuesday_controls) requests) sample_machine"

definition start_hour :: control_request where
  "start_hour = StartDetox (Some ''Focus'') 60 [''feeds''] [''chat''] None"

text \<open>A Detox of an hour, cancelled a moment later: it still runs half an hour after its start.\<close>

theorem running_detox_survives_requests_witness:
  "\<exists>session\<in>set (projr (active_detox_sessions (tuesday_eight + 30 * nanos_per_minute)
       (database_of (sample_run [start_hour, CancelDetox ''detox-460800000000'' None, SetProtectedAccessMode AllTime])))).
     ds_site_rule_ids session = [''feeds''] \<and> ds_app_rule_ids session = [''chat'']"
proof -
  let ?t = "tuesday_eight + 30 * nanos_per_minute"
  let ?cancel = "[CancelDetox ''detox-460800000000'' None, SetProtectedAccessMode AllTime]"
  let ?after = "active_detox_sessions ?t (database_of (sample_run (start_hour # ?cancel)))"
  let ?hour = "\<lparr>ds_id = ''detox-460800000000'', ds_name = Some ''Focus'', ds_starts_at = tuesday_eight,
    ds_ends_at = tuesday_eight + 60 * nanos_per_minute, ds_cancelled_at = None,
    ds_site_rule_ids = [''feeds''], ds_app_rule_ids = [''chat'']\<rparr>"
  have before: "active_detox_sessions ?t (database_of (sample_run [start_hour])) = Inr [?hour]"
    by code_simp
  have "\<not> isl ?after" by code_simp
  then have after: "?after = Inr (projr ?after)" by simp
  have e: "sample_run (start_hour # ?cancel) = run_requests sample_lib sample_host sample_toml sample_text sample_json sample_backup
      sample_signatures sample_sha sample_managers (map (ControlRequest tuesday_controls) ?cancel) (sample_run [start_hour])"
    by (simp add: sample_run_def run_requests_def del: handle_request.simps)
  from running_detox_survives_requests [OF before after [unfolded e]]
  show ?thesis unfolding e by (intro bexI [of _ ?hour]) auto
qed

definition sample_request_of :: "control_request \<Rightarrow> machine" where
  "sample_request_of request = handle_request sample_lib sample_host sample_toml sample_text sample_json sample_backup sample_signatures
     sample_sha sample_managers (ControlRequest tuesday_controls request) sample_machine"

text \<open>The phrase of the key file opens the edit window for five minutes.\<close>

theorem edit_window_opens_only_for_credential_witness:
  "\<exists>d::daemon. tier1_edit_credential_matches (credentials_of sample_sha sample_documents) ''open sesame'' (dm_core d) = Inr True
    \<and> clock_value tier1_edit_unlock_until_key (database_of (sample_request_of (UnlockTier1Edit '' open sesame'' None)))
      = Some (show_digits (tuesday_eight + 5 * nanos_per_minute))"
proof -
  let ?request = "UnlockTier1Edit '' open sesame'' None"
  have "clock_value tier1_edit_unlock_until_key (database_of (sample_request_of ?request))
      \<noteq> clock_value tier1_edit_unlock_until_key (database_of sample_machine)"
    by code_simp
  from edit_window_opens_only_for_credential [OF this [unfolded sample_request_of_def]]
  obtain now d where g: "rpc_guarded_now sample_lib sample_host tuesday_clock None (mc_daemon sample_machine) = (Inr now, d)"
    and c: "tier1_edit_credential_matches (credentials_of sample_sha sample_documents) (trim '' open sesame'') (dm_core d) = Inr True"
    and v: "clock_value tier1_edit_unlock_until_key (database_of (sample_request_of ?request))
      = Some (hl_rfc3339 sample_host (dt_utc now + 5 * nanos_per_minute))"
    by (auto simp: tuesday_controls_def sample_machine_def sample_request_of_def)
  have "fst (rpc_guarded_now sample_lib sample_host tuesday_clock None (mc_daemon sample_machine)) = Inr (at_offset 0 tuesday_eight)"
    by code_simp
  with g have now: "now = at_offset 0 tuesday_eight" by simp
  have t: "trim '' open sesame'' = ''open sesame''" by code_simp
  show ?thesis using c v unfolding t now by (auto simp: sample_host_def)
qed

text \<open>The emergency code of the installation hands enforcement over.\<close>

theorem uninstall_needs_authority_witness:
  "clock_value browser_extension_mode_key (database_of (sample_request_of (PrepareUninstall (Inr ''abcd'') (Some sample_code) None)))
      = Some browser_extension_mode_uninstalling
    \<and> (\<exists>d::daemon. active_detox_sessions tuesday_eight (fc_database (dm_core d)) = Inr [])"
proof -
  let ?request = "PrepareUninstall (Inr ''abcd'') (Some sample_code) None"
  have mode: "clock_value browser_extension_mode_key (database_of (sample_request_of ?request))
      = Some browser_extension_mode_uninstalling" by code_simp
  have "clock_value browser_extension_mode_key (database_of sample_machine) = None" by code_simp
  with mode have "clock_value browser_extension_mode_key (database_of (sample_request_of ?request))
      \<noteq> clock_value browser_extension_mode_key (database_of sample_machine)" by simp
  from uninstall_needs_authority [OF this [unfolded sample_request_of_def]]
  obtain now d where g: "rpc_guarded_now sample_lib sample_host tuesday_clock None (mc_daemon sample_machine) = (Inr now, d)"
    and a: "active_detox_sessions (dt_utc now) (fc_database (dm_core d)) = Inr []"
    by (auto simp: tuesday_controls_def)
  have "fst (rpc_guarded_now sample_lib sample_host tuesday_clock None (mc_daemon sample_machine)) = Inr (at_offset 0 tuesday_eight)"
    by code_simp
  with g have "now = at_offset 0 tuesday_eight" by simp
  with a mode show ?thesis by auto
qed

lemma detox_id_is_found_witness:
  "\<exists>ident. next_detox_session_id tuesday_eight (dm_core sample_daemon) = Inr ident
     \<and> core_query (detox_session ident) (dm_core sample_daemon) = Inr None"
proof (rule detox_id_is_found)
  show "\<exists>found. core_query (detox_session i) (dm_core sample_daemon) = Inr found" for i
    by (simp add: sample_daemon_def empty_database_def detox_session_def load_detox_sessions_def core_query_def)
  show "length (db_detox_sessions (fc_database (dm_core sample_daemon))) < 2147483646"
    by (simp add: sample_daemon_def empty_database_def)
qed

section \<open>What is not guarded\<close>

text \<open>
  Access that a running schedule keeps closed is opened by one request: setting the mode asks for
  nothing (\<^verbatim>\<open>set_protected_access_mode\<close>).
\<close>

lemma access_mode_is_not_guarded:
  "let closed = sample_run [SetProtectedAccessMode NoActiveScheduleOrDetox];
       opened = sample_run [SetProtectedAccessMode NoActiveScheduleOrDetox, SetProtectedAccessMode AllTime];
       asked = (\<lambda>s. protected_access_is_open sample_lib (at_offset 0 tuesday_eight) False (dm_core (mc_daemon s))) in
     asked closed = Inr False \<and> asked opened = Inr True"
  by code_simp

text \<open>
  Hiding the recovery credentials also empties the credential of the edit window, after which any
  phrase can be configured: neither request asks for the credential it replaces.
\<close>

lemma credential_can_be_replaced:
  "let asked = (\<lambda>phrase s. tier1_edit_credential_matches (credentials_of sample_sha (mc_documents s)) phrase
         (dm_core (mc_daemon s)));
       replaced = sample_run [HideRecoveryCredentials, ConfigureTier1EditCredential (Inr ''a1'') ''a phrase of my own''] in
     asked ''open sesame'' sample_machine = Inr True
     \<and> asked ''a phrase of my own'' replaced = Inr True \<and> asked ''open sesame'' replaced = Inr False"
  by code_simp

end
