(* ===== verification/ScanLaws.thy ===== *)
theory ScanLaws imports ScanLoop EditLaws begin

text \<open>
  What the scan of processes ends and what it spares: the walk to the ancestors, the signals, the plan of a
  scan with its four reasons to end a process, and the bound on the grace of a browser.
\<close>

section \<open>Ancestors\<close>

definition parent_step :: "(u32 \<rightharpoonup> process_info) \<Rightarrow> (u32 \<times> u32) set" where
  "parent_step by_pid = {(p, q). parent_of by_pid p = Some q \<and> q \<noteq> 0 \<and> q \<noteq> p}"

lemma walk_finds_ancestor:
  "descends_walk A by_pid p visited \<Longrightarrow> \<exists>a\<in>A. (p, a) \<in> (parent_step by_pid)\<^sup>*"
proof (induction A by_pid p visited rule: descends_walk.induct)
  case (1 A by_pid p visited)
  note w = 1(2) [unfolded descends_walk.simps [of A by_pid p visited]]
  show ?case
  proof (cases "p \<in> A")
    case False
    then obtain q where q: "parent_of by_pid p = Some q" "\<not> (q = 0 \<or> q = p)" "descends_walk A by_pid q (p # visited)"
      using w by (auto split: if_splits option.splits)
    have "p \<notin> set visited" using w by (auto split: if_splits)
    from 1(1) [OF this False q(1,2,3)] q(1,2) show ?thesis
      by (auto simp: parent_step_def intro: converse_rtrancl_into_rtrancl)
  qed blast
qed

text \<open>A walk that fails leaves a set of processes closed under parents without an ancestor looked for.\<close>

lemma failed_walk_closes:
  assumes "\<not> descends_walk A by_pid p visited"
    and "set visited \<inter> A = {}" "\<And>x y. x \<in> set visited \<Longrightarrow> (x, y) \<in> parent_step by_pid \<Longrightarrow> y \<in> insert p (set visited)"
  shows "\<exists>W. p \<in> W \<and> W \<inter> A = {} \<and> (\<forall>x y. x \<in> W \<longrightarrow> (x, y) \<in> parent_step by_pid \<longrightarrow> y \<in> W)"
  using assms
proof (induction A by_pid p visited rule: descends_walk.induct)
  case (1 A by_pid p visited)
  note w = 1(2) [unfolded descends_walk.simps [of A by_pid p visited]]
  show ?case
  proof (cases "p \<in> set visited")
    case True
    then show ?thesis using 1(3,4) by (intro exI [of _ "set visited"]) auto
  next
    case new: False
    then have a: "p \<notin> A" using w by (auto split: if_splits)
    show ?thesis
    proof (cases "\<exists>q. (p, q) \<in> parent_step by_pid")
      case True
      then obtain q where q: "parent_of by_pid p = Some q" "\<not> (q = 0 \<or> q = p)" by (auto simp: parent_step_def)
      have f: "\<not> descends_walk A by_pid q (p # visited)" using w new a q by auto
      have d: "set (p # visited) \<inter> A = {}" using 1(3) a by auto
      have s: "y \<in> insert q (set (p # visited))" if "x \<in> set (p # visited)" "(x, y) \<in> parent_step by_pid" for x y
        using that 1(4) q(1) by (auto simp: parent_step_def)
      have "\<exists>W. q \<in> W \<and> W \<inter> A = {} \<and> (\<forall>x y. x \<in> W \<longrightarrow> (x, y) \<in> parent_step by_pid \<longrightarrow> y \<in> W)"
        by (rule 1(1) [OF new a q f d]) (rule s)
      then obtain W
        where W: "q \<in> W" "W \<inter> A = {}" "\<forall>x y. x \<in> W \<longrightarrow> (x, y) \<in> parent_step by_pid \<longrightarrow> y \<in> W" by blast
      have "y \<in> insert p W" if "x \<in> insert p W" "(x, y) \<in> parent_step by_pid" for x y
        using that W(1,3) q(1) by (auto simp: parent_step_def)
      then show ?thesis using W(2) a by (intro exI [of _ "insert p W"]) auto
    next
      case False
      then show ?thesis using 1(3,4) a by (intro exI [of _ "insert p (set visited)"]) auto
    qed
  qed
qed

lemma closed_set_reaches: "(p, a) \<in> R\<^sup>* \<Longrightarrow> p \<in> W \<Longrightarrow> (\<forall>x y. x \<in> W \<longrightarrow> (x, y) \<in> R \<longrightarrow> y \<in> W) \<Longrightarrow> a \<in> W"
  by (induction rule: rtrancl_induct) blast+

text \<open>
  C10. The walk to the parents ends and finds exactly the descendants: a process counts as part of a
  tree when following parents, through any table of processes with cycles or missing entries, reaches
  one of its roots.
\<close>

theorem descends_iff_ancestor_reachable:
  "process_descends_from_any pid ancestors by_pid \<longleftrightarrow> (\<exists>a\<in>ancestors. (pid, a) \<in> (parent_step by_pid)\<^sup>*)"
proof
  assume "process_descends_from_any pid ancestors by_pid"
  then show "\<exists>a\<in>ancestors. (pid, a) \<in> (parent_step by_pid)\<^sup>*"
    unfolding process_descends_from_any_def by (rule walk_finds_ancestor)
next
  assume "\<exists>a\<in>ancestors. (pid, a) \<in> (parent_step by_pid)\<^sup>*"
  then obtain a where a: "a \<in> ancestors" "(pid, a) \<in> (parent_step by_pid)\<^sup>*" by blast
  show "process_descends_from_any pid ancestors by_pid"
  proof (rule ccontr)
    assume "\<not> process_descends_from_any pid ancestors by_pid"
    then obtain W where "pid \<in> W" "W \<inter> ancestors = {}" "\<forall>x y. x \<in> W \<longrightarrow> (x, y) \<in> parent_step by_pid \<longrightarrow> y \<in> W"
      using failed_walk_closes [of ancestors by_pid pid "[]"] by (auto simp: process_descends_from_any_def)
    with closed_set_reaches [OF a(2)] a(1) show False by blast
  qed
qed

section \<open>Signals\<close>

text \<open>Each id once, in the order of its first occurrence.\<close>

definition first_occurrences :: "'a list \<Rightarrow> 'a list" where
  "first_occurrences xs = rev (remdups (rev xs))"

lemma set_first_occurrences [simp]: "set (first_occurrences xs) = set xs"
  by (simp add: first_occurrences_def)

lemma distinct_first_occurrences [simp]: "distinct (first_occurrences xs)"
  by (simp add: first_occurrences_def)

lemma remdups_snoc: "remdups (xs @ [x]) = filter (\<lambda>y. y \<noteq> x) (remdups xs) @ [x]"
  by (induction xs) auto

lemma first_occurrences_simps [simp]:
  "first_occurrences [] = []"
  "first_occurrences (x # xs) = x # filter (\<lambda>y. y \<noteq> x) (first_occurrences xs)"
  by (simp_all add: first_occurrences_def remdups_snoc rev_filter)

definition outcome_is :: "(u32 \<Rightarrow> daemon_error + process_kill_outcome) \<Rightarrow> process_kill_outcome \<Rightarrow> u32 \<Rightarrow> bool" where
  "outcome_is killer r pid \<longleftrightarrow> killer pid = Inr r"

text \<open>The ids to be signalled: those of the table that are not handled yet, each once.\<close>

definition due_pids :: "(u32 \<rightharpoonup> process_info) \<Rightarrow> u32 list \<Rightarrow> u32 list \<Rightarrow> u32 list" where
  "due_pids by_pid handled pids = filter (\<lambda>pid. pid \<notin> set handled \<and> by_pid pid \<noteq> None) (first_occurrences pids)"

lemma due_pids_Cons:
  "due_pids by_pid handled (pid # pids) =
     (if pid \<notin> set handled \<and> by_pid pid \<noteq> None then [pid] else []) @ due_pids by_pid (pid # handled) pids"
  by (auto simp: due_pids_def conj_ac)

lemma due_pids_handled: "pid \<in> set handled \<Longrightarrow> due_pids by_pid (pid # handled) pids = due_pids by_pid handled pids"
  by (auto simp: due_pids_def intro!: filter_cong)

lemma kill_loop_report:
  "map ke_pid (kr_events (kill_loop killer by_pid pids handled report))
      = map ke_pid (kr_events report) @ filter (outcome_is killer SignalSent) (due_pids by_pid handled pids)
    \<and> kr_already_gone_pids (kill_loop killer by_pid pids handled report)
      = kr_already_gone_pids report @ filter (outcome_is killer AlreadyGone) (due_pids by_pid handled pids)
    \<and> map fst (kr_failures (kill_loop killer by_pid pids handled report))
      = map fst (kr_failures report) @ filter (\<lambda>pid. isl (killer pid)) (due_pids by_pid handled pids)"
proof (induction pids arbitrary: handled report)
  case (Cons pid pids)
  show ?case
  proof (cases "pid \<in> set handled")
    case True
    then show ?thesis using Cons.IH [of handled report] by (simp add: due_pids_Cons due_pids_handled)
  next
    case False
    then show ?thesis
      using Cons.IH [of "pid # handled"]
      by (auto simp: due_pids_Cons outcome_is_def split: option.splits sum.splits process_kill_outcome.splits)
  qed
qed (simp add: due_pids_def)

lemma processes_by_pid_known: "processes_by_pid processes pid \<noteq> None \<longleftrightarrow> pid \<in> px_pid ` set processes"
  "(\<exists>process. processes_by_pid processes pid = Some process) \<longleftrightarrow> pid \<in> px_pid ` set processes"
proof -
  show "processes_by_pid processes pid \<noteq> None \<longleftrightarrow> pid \<in> px_pid ` set processes"
    by (simp add: processes_by_pid_def map_of_eq_None_iff image_image)
  then show "(\<exists>process. processes_by_pid processes pid = Some process) \<longleftrightarrow> pid \<in> px_pid ` set processes"
    by auto
qed

text \<open>
  Each process of the table that is to end is signalled once, in the order of the plan: those that
  took the signal are reported as ended, those that were gone as gone, the others as failures, and no
  other process is touched.
\<close>

lemma kill_report_accounts_for_every_process:
  "let due = filter (\<lambda>pid. pid \<in> px_pid ` set processes) (first_occurrences blocked);
       report = kill_processes killer processes blocked in
   map ke_pid (kr_events report) = filter (outcome_is killer SignalSent) due
   \<and> kr_already_gone_pids report = filter (outcome_is killer AlreadyGone) due
   \<and> map fst (kr_failures report) = filter (\<lambda>pid. isl (killer pid)) due
   \<and> distinct due"
  using kill_loop_report [of killer "processes_by_pid processes" blocked "[]" empty_report]
  by (simp add: kill_processes_def due_pids_def processes_by_pid_known empty_report_def Let_def)

section \<open>The plan\<close>

lemma plan_simps [simp]:
  "kp_blocked_pids (plan_kill pid d kind plan) = kp_blocked_pids plan"
  "kp_blocked_pids (name_rule pid r plan) = kp_blocked_pids plan"
  "kp_blocked_pids (push_pid pid plan) = kp_blocked_pids plan @ [pid]"
  "kp_blocked_pids empty_plan = []"
  by (simp_all add: plan_kill_def name_rule_def push_pid_def empty_plan_def)

definition blocklist_objects :: "'u lib \<Rightarrow> evaluation_context \<Rightarrow> database \<Rightarrow> u32 \<Rightarrow> process_info \<Rightarrow> bool" where
  "blocklist_objects L ctx db own_pid process \<longleftrightarrow> \<not> spared_process own_pid process
     \<and> is_block (evaluate_app L ctx (process_identity_of process) db)"

definition unsupported_installation :: "u32 \<Rightarrow> process_info \<Rightarrow> bool" where
  "unsupported_installation own_pid process \<longleftrightarrow> \<not> spared_process own_pid process
     \<and> unsupported_browser_installation_for_process (process_identity_of process) \<noteq> None"

lemma plan_blocklist_pids:
  "set (kp_blocked_pids (fold (plan_blocklist L ctx db own_pid) processes plan))
     = set (kp_blocked_pids plan) \<union> px_pid ` {p \<in> set processes. blocklist_objects L ctx db own_pid p}"
  by (induction processes arbitrary: plan)
    (auto simp: plan_blocklist_def blocklist_objects_def is_block_def Let_def split: decision.splits option.splits)

lemma plan_allowlist_pids:
  "set (kp_blocked_pids (fst (fold plan_allowlist blocked state)))
     = set (kp_blocked_pids (fst state)) \<union> (px_pid \<circ> fst) ` set blocked"
  by (induction blocked arbitrary: state) (auto simp: plan_allowlist_def Let_def split: prod.splits)

lemma plan_unsupported_pids:
  "set (kp_blocked_pids (fold (plan_unsupported own_pid) processes plan))
     = set (kp_blocked_pids plan) \<union> px_pid ` {p \<in> set processes. unsupported_installation own_pid p}"
  by (induction processes arbitrary: plan)
    (auto simp: plan_unsupported_def unsupported_installation_def Let_def split: option.splits)

lemma plan_strict_pids:
  "set (kp_blocked_pids (fold plan_strict stale plan)) = set (kp_blocked_pids plan) \<union> fst ` set stale"
  by (induction stale arbitrary: plan) (auto simp: plan_strict_def Let_def split: prod.splits)

lemma plan_lists_pids:
  "set (kp_blocked_pids (plan_lists L G config db processes now tampered block_active))
     = px_pid ` {p \<in> set processes. blocklist_objects L (context_for (with_app_mode Blocklist config) now tampered) db (ss_own_pid G) p}
       \<union> (px_pid \<circ> fst) ` set (blocked_allowlist_processes L config db processes now tampered)
       \<union> (if block_active then px_pid ` {p \<in> set processes. unsupported_installation (ss_own_pid G) p} else {})"
proof -
  let ?blocked = "blocked_allowlist_processes L config db processes now tampered"
  let ?ctx = "context_for (with_app_mode Blocklist config) now tampered"
  obtain plan announced where f:
    "fold plan_allowlist ?blocked (fold (plan_blocklist L ?ctx db (ss_own_pid G)) processes empty_plan, []) = (plan, announced)"
    by (meson prod.exhaust)
  have "set (kp_blocked_pids plan) = set (kp_blocked_pids (fold (plan_blocklist L ?ctx db (ss_own_pid G)) processes empty_plan))
      \<union> (px_pid \<circ> fst) ` set ?blocked"
    using plan_allowlist_pids [of ?blocked "(fold (plan_blocklist L ?ctx db (ss_own_pid G)) processes empty_plan, [])"]
    by (simp add: f)
  then show ?thesis
    by (simp add: plan_lists_def Let_def f plan_blocklist_pids plan_unsupported_pids)
qed

text \<open>The processes a browser check can end are those of the browsers it asks for.\<close>

lemma upsert_keys: "fst ` set (upsert k v xs) = insert k (fst ` set xs)"
  by (induction xs) (auto simp: upsert_def)

lemma put_details_pids: "fst ` set (put_details pids reason details) = set pids \<union> fst ` set details"
  by (induction pids arbitrary: details) (auto simp: put_details_def upsert_keys)

lemma strict_step_pids:
  assumes "strict_browser_step H processes strict now deferred browser details core = (Inr details', core')"
  shows "fst ` set details' \<subseteq> fst ` set details \<union> px_pid ` {p \<in> set processes. browser_of p = Some browser}"
proof -
  have "details' = details \<or> (\<exists>reason. details' = put_details
      (map px_pid (filter (\<lambda>process. browser_of process = Some browser) processes)) reason details)"
    using assms by (auto simp: strict_browser_step_def Let_def act_bind_Inr split: if_splits option.splits)
  then show ?thesis by (elim disjE exE) (simp_all add: put_details_pids)
qed

lemma strict_fold_pids:
  "act_fold (strict_browser_step H processes strict now deferred) browsers details core = (Inr details', core') \<Longrightarrow>
     fst ` set details' \<subseteq> fst ` set details \<union> px_pid ` {p \<in> set processes. browser_of p \<noteq> None}"
proof (induction browsers arbitrary: details core)
  case (Cons browser browsers)
  from Cons.prems obtain d1 c1 where "strict_browser_step H processes strict now deferred browser details core = (Inr d1, c1)"
    "act_fold (strict_browser_step H processes strict now deferred) browsers d1 c1 = (Inr details', core')"
    by (auto simp: act_bind_Inr)
  from strict_step_pids [OF this(1)] Cons.IH [OF this(2)] show ?case by force
qed simp

lemma strict_details_pids:
  "strict_browser_kill_details_except H processes strict now deferred core = (Inr details, core') \<Longrightarrow>
     fst ` set details \<subseteq> px_pid ` {p \<in> set processes. browser_of p \<noteq> None}"
  using strict_fold_pids [of H processes strict now deferred managed_browsers "[]" core details core']
  by (auto simp: strict_browser_kill_details_except_def split: if_splits)

section \<open>What the scan reads of the policy\<close>

lemma app_config [simp]:
  "fc_config (sa_core (snd (on_app_core (on_database m) s))) = fc_config (sa_core s)"
  "fc_config (sa_core (snd (on_app_core (on_db m') s))) = fc_config (sa_core s)"
  by (simp_all add: on_app_core_def on_database_def on_db_def Let_def split: prod.splits)

lemma on_app_core_Inr:
  "on_app_core m s = (Inr x, s') \<longleftrightarrow> (\<exists>core. m (sa_core s) = (Inr x, core) \<and> s' = s\<lparr>sa_core := core\<rparr>)"
  by (auto simp: on_app_core_def Let_def split: prod.splits)

lemma sync_keeps_config:
  "sync_metered_app_usage_sessions L own_pid config processes now core = (Inr ids, core') \<Longrightarrow> fc_config core' = fc_config core"
  by (auto simp: sync_metered_app_usage_sessions_def act_bind_Inr on_db_Inr)

text \<open>The list of unsupported browsers counts in a pass when it is in force by the clock the pass reads.\<close>

definition browsers_are_blocked :: "'u lib \<Rightarrow> 'f host_lib \<Rightarrow> scan_input \<Rightarrow> scan_app \<Rightarrow> bool" where
  "browsers_are_blocked L H i s =
     (case on_app_core (on_database (guarded_now L H (si_clock i) None False)) s of
        (Inl _, _) \<Rightarrow> False
      | (Inr g, s1) \<Rightarrow> unsupported_browser_block_is_active L (gn_now g) (ci_state (gn_integrity g) = status_tampered)
          (sa_core s1) = Inr True)"

text \<open>The plan of a scan is that of the lists, over some database, with the stale browsers.\<close>

lemma plan_scan_parts:
  assumes "plan_scan L H G i processes s = (Inr plan, s')"
  obtains now tampered block_active db and stale :: "(u32 \<times> string) list" where
    "set (kp_blocked_pids plan) =
       set (kp_blocked_pids (plan_lists L G (scan_config block_active (fc_config (sa_core s))) db processes now tampered block_active))
       \<union> fst ` set stale"
    "fst ` set stale \<subseteq> px_pid ` {p \<in> set processes. browser_of p \<noteq> None}"
    "browsers_are_blocked L H i s \<Longrightarrow> block_active"
proof -
  from assms obtain g s1 block_active s2 config s3 s4 plan0 s5 strict deferred s8 stale s9 where
    g: "on_app_core (on_database (guarded_now L H (si_clock i) None False)) s = (Inr g, s1)"
    and b: "on_app_core (act_read (unsupported_browser_block_is_active L (gn_now g) (ci_state (gn_integrity g) = status_tampered))) s1
      = (Inr block_active, s2)"
    and c: "on_app_core (act_read (\<lambda>core. Inr (scan_config block_active (fc_config core)))) s2 = (Inr config, s3)"
    and p: "on_app_core (act_read (\<lambda>core. Inr (plan_lists L G config (fc_database core) processes (gn_now g)
        (ci_state (gn_integrity g) = status_tampered) block_active))) s4 = (Inr plan0, s5)"
    and t: "on_app_core (strict_browser_kill_details_except H processes strict (dt_utc (gn_now g)) deferred) s8 = (Inr stale, s9)"
    and r: "fold plan_strict stale plan0 = plan"
    unfolding plan_scan_def act_bind_Inr Let_def act_return_def prod.inject sum.inject
    by (elim exE conjE) (rule that; assumption)
  have "fc_config (sa_core s2) = fc_config (sa_core s)"
    using g b by (auto simp: on_app_core_Inr on_database_Inr)
  then have "config = scan_config block_active (fc_config (sa_core s))" using c by (auto simp: on_app_core_Inr)
  then have q: "plan0 = plan_lists L G (scan_config block_active (fc_config (sa_core s))) (fc_database (sa_core s4)) processes
      (gn_now g) (ci_state (gn_integrity g) = status_tampered) block_active"
    using p by (auto simp: on_app_core_Inr)
  have k: "browsers_are_blocked L H i s \<Longrightarrow> block_active"
    using g b by (auto simp: browsers_are_blocked_def on_app_core_Inr)
  have b: "fst ` set stale \<subseteq> px_pid ` {p \<in> set processes. browser_of p \<noteq> None}"
    using t unfolding on_app_core_Inr by (elim exE conjE) (rule strict_details_pids)
  show ?thesis by (rule that [OF _ b k]) (unfold r [symmetric] plan_strict_pids q, rule refl)
qed

lemma case_decision_Some:
  "(case d of Allow \<Rightarrow> None | Block r \<Rightarrow> f r) = Some y \<longleftrightarrow> (\<exists>r. d = Block r \<and> f r = Some y)"
  by (cases d) auto

lemma allowlist_blocked:
  "(process, rule_id) \<in> set (blocked_allowlist_processes L config db processes now tampered) \<Longrightarrow>
     process \<in> set processes \<and> px_pid process > 1 \<and> px_pid process \<notin> application_allowlist_exempt_process_ids processes
     \<and> is_block (evaluate_app L (context_for (with_app_mode Allowlist config) now tampered) (process_identity_of process) db)"
  by (auto simp: blocked_allowlist_processes_def Let_def set_filter_map case_decision_Some split: if_splits)

section \<open>What a pass ends\<close>

definition scanned :: "scan_input \<Rightarrow> process_info list \<Rightarrow> bool" where
  "scanned i processes \<longleftrightarrow> (\<exists>found. scan_procfs (si_directory i) = Inr found
     \<and> processes = fst (attach_detected_window_titles (si_session_type i) (si_wmctrl i) found))"

lemma scan_parts:
  assumes "scan_processes_once L H E G i s = (Inr result, s')"
    and "enforcement_active_from_core H (si_enforcement i) (sa_core s) = Inr True" "scan_needed (fc_config (sa_core s))"
    and "scanned i processes"
  obtains plan s1 where "plan_scan L H G i processes s = (Inr plan, s1)"
    and "case result of None \<Rightarrow> kp_blocked_pids plan = []
      | Some report \<Rightarrow> report = kill_processes (linux_signal_kill (si_signal i)) processes (kp_blocked_pids plan)
          \<and> kr_failures report = []"
  using assms unfolding scan_processes_once_def scan_and_kill_def scanned_def
  by (auto simp: act_bind_Inr on_app_core_Inr Let_def record_process_kill_report_def split: if_splits)

definition ended_pids :: "process_kill_report option \<Rightarrow> u32 set" where
  "ended_pids result = (case result of None \<Rightarrow> {}
     | Some report \<Rightarrow> ke_pid ` set (kr_events report) \<union> set (kr_already_gone_pids report))"

lemma kill_outcomes:
  assumes "kr_failures (kill_processes killer processes blocked) = []" "set blocked \<subseteq> px_pid ` set processes"
  shows "ke_pid ` set (kr_events (kill_processes killer processes blocked))
      \<union> set (kr_already_gone_pids (kill_processes killer processes blocked)) = set blocked"
proof -
  let ?due = "filter (\<lambda>pid. pid \<in> px_pid ` set processes) (first_occurrences blocked)"
  note report = kill_loop_report [of killer "processes_by_pid processes" blocked "[]" empty_report]
  have r: "map ke_pid (kr_events (kill_processes killer processes blocked)) = filter (outcome_is killer SignalSent) ?due"
    "kr_already_gone_pids (kill_processes killer processes blocked) = filter (outcome_is killer AlreadyGone) ?due"
    "filter (\<lambda>pid. isl (killer pid)) ?due = []"
    using report assms(1) by (simp_all add: kill_processes_def due_pids_def processes_by_pid_known empty_report_def)
  have d: "set ?due = set blocked" using assms(2) by auto
  have "outcome_is killer SignalSent pid \<or> outcome_is killer AlreadyGone pid" if "pid \<in> set blocked" for pid
  proof -
    have "\<not> isl (killer pid)" using r(3) that assms(2) by (auto simp: filter_empty_conv)
    then obtain outcome where "killer pid = Inr outcome" by (cases "killer pid") auto
    then show ?thesis by (cases outcome) (simp_all add: outcome_is_def)
  qed
  then have "set (filter (outcome_is killer SignalSent) ?due) \<union> set (filter (outcome_is killer AlreadyGone) ?due) = set blocked"
    using d by auto
  then show ?thesis using r(1,2) by (metis list.set_map)
qed

lemma hard_rule_blocks:
  assumes "rule \<in> set (cfg_app_rules config)" "ac_enabled rule" "ac_tier rule = Hard" "app_rule_applies rule process"
    and "ec_config ctx = config"
  shows "is_block (evaluate_app L ctx process db)"
proof -
  have "rule \<in> set (matching_app_rules config process Hard)" using assms by (simp add: matching_app_rules_def)
  then show ?thesis by (cases "matching_app_rules config process Hard") (auto simp: evaluate_app_def assms(5) is_block_def)
qed

text \<open>All planned ids are of the table.\<close>

lemma planned_pids_known:
  assumes "plan_scan L H G i processes s = (Inr plan, s')"
  shows "set (kp_blocked_pids plan) \<subseteq> px_pid ` set processes"
proof -
  have a: "(px_pid \<circ> fst) ` set (blocked_allowlist_processes L config db processes now tampered) \<subseteq> px_pid ` set processes"
    for config db now tampered by (auto dest: allowlist_blocked)
  have l: "set (kp_blocked_pids (plan_lists L G config db processes now tampered block_active)) \<subseteq> px_pid ` set processes"
    for config db now tampered block_active
    using a [of config db now tampered] unfolding plan_lists_pids by (auto simp del: o_apply)
  obtain now tampered block_active db and stale :: "(u32 \<times> string) list" where
    "set (kp_blocked_pids plan) =
       set (kp_blocked_pids (plan_lists L G (scan_config block_active (fc_config (sa_core s))) db processes now tampered block_active))
       \<union> fst ` set stale"
    "fst ` set stale \<subseteq> px_pid ` {p \<in> set processes. browser_of p \<noteq> None}"
    using assms by (rule plan_scan_parts)
  then show ?thesis using l by (auto simp del: o_apply)
qed

text \<open>Only planned ids are reported as ended.\<close>

lemma reported_pids_are_planned:
  assumes "scan_processes_once L H E G i s = (Inr result, s')"
    and "\<And>processes plan s1. scanned i processes \<Longrightarrow> plan_scan L H G i processes s = (Inr plan, s1)
      \<Longrightarrow> pid \<notin> set (kp_blocked_pids plan)"
  shows "pid \<notin> ended_pids result"
proof (cases "enforcement_active_from_core H (si_enforcement i) (sa_core s) = Inr True \<and> scan_needed (fc_config (sa_core s))")
  case True
  then obtain processes where s: "scanned i processes"
    using assms(1) by (auto simp: scan_processes_once_def scan_and_kill_def scanned_def act_bind_Inr on_app_core_Inr Let_def
        split: if_splits)
  from scan_parts [OF assms(1) conjunct1 [OF True] conjunct2 [OF True] s] obtain plan s1
    where p: "plan_scan L H G i processes s = (Inr plan, s1)"
    and r: "case result of None \<Rightarrow> kp_blocked_pids plan = []
      | Some report \<Rightarrow> report = kill_processes (linux_signal_kill (si_signal i)) processes (kp_blocked_pids plan)
          \<and> kr_failures report = []" .
  show ?thesis
    using r assms(2) [OF s p] kill_outcomes [OF _ planned_pids_known [OF p]] by (auto simp: ended_pids_def split: option.splits)
next
  case False
  then have "result = None"
    using assms(1) by (auto simp: scan_processes_once_def act_bind_Inr on_app_core_Inr Let_def split: if_splits)
  then show ?thesis by (simp add: ended_pids_def)
qed

text \<open>A signal no one sends makes no difference.\<close>

lemma kill_loop_cong:
  "(\<And>pid. pid \<in> set pids \<Longrightarrow> killer pid = killer' pid) \<Longrightarrow>
     kill_loop killer by_pid pids handled report = kill_loop killer' by_pid pids handled report"
  by (induction pids arbitrary: handled report) (auto split: option.splits)

lemma unsent_signal:
  assumes "pid \<notin> set pids"
  shows "kill_processes (linux_signal_kill (signal(pid := answer))) processes pids
      = kill_processes (linux_signal_kill signal) processes pids"
  unfolding kill_processes_def using assms by (intro kill_loop_cong) (auto simp: linux_signal_kill_def)

lemma plan_ignores_signals [simp]:
  "plan_scan L H G (i\<lparr>si_signal := signal\<rparr>) processes = plan_scan L H G i processes"
proof -
  have "si_clock (i\<lparr>si_signal := signal\<rparr>) = si_clock i" "si_monotonic (i\<lparr>si_signal := signal\<rparr>) = si_monotonic i"
    by simp_all
  then show ?thesis unfolding plan_scan_def by (simp only:)
qed

lemma pass_ignores_signal:
  assumes "\<And>processes plan s1. scanned i processes \<Longrightarrow> plan_scan L H G i processes s = (Inr plan, s1)
      \<Longrightarrow> pid \<notin> set (kp_blocked_pids plan)"
  shows "scan_processes_once L H E G (i\<lparr>si_signal := (si_signal i)(pid := answer)\<rparr>) s = scan_processes_once L H E G i s"
proof -
  let ?i = "i\<lparr>si_signal := (si_signal i)(pid := answer)\<rparr>"
  have k: "scan_and_kill L H E G ?i s = scan_and_kill L H E G i s"
  proof (cases "scan_procfs (si_directory i)")
    case (Inr found)
    let ?processes = "fst (attach_detected_window_titles (si_session_type i) (si_wmctrl i) found)"
    have "scanned i ?processes" using Inr by (auto simp: scanned_def)
    then have n: "pid \<notin> set (kp_blocked_pids plan)" if "plan_scan L H G i ?processes s = (Inr plan, s1)" for plan s1
      using assms that by blast
    show ?thesis
    proof (cases "plan_scan L H G i ?processes s")
      case (Pair r s1)
      then show ?thesis
        using n by (cases r) (simp_all add: scan_and_kill_def act_bind_def Inr Let_def unsent_signal)
    qed
  qed (simp add: scan_and_kill_def act_bind_def)
  have e: "on_app_core (act_read q) s = (r, s')  \<Longrightarrow> s' = s" for q :: "focus_core \<Rightarrow> daemon_error + 'x" and r s'
    by (auto simp: on_app_core_def)
  show ?thesis
    unfolding scan_processes_once_def Let_def
    by (auto simp: act_bind_def k split: prod.splits sum.splits dest!: e)
qed

text \<open>
  C7. No pass of the scan overlooks an application that is blocked always. When a pass that looks at the
  processes succeeds, every process in the table to which an enabled Tier 1 blocklist applies has been
  signalled or was gone, except the first processes, the daemon and BlocKuntu itself. The mandatory list of
  unsupported browsers is such a blocklist while its block is in force by the clock the pass reads; a
  pass outside of it leaves that one list out.
\<close>

theorem hard_blocked_applications_end:
  assumes "scan_processes_once L H E G i s = (Inr result, s')"
    and "enforcement_active_from_core H (si_enforcement i) (sa_core s) = Inr True" "scanned i processes"
    and "rule \<in> set (cfg_app_rules (fc_config (sa_core s)))" "ac_enabled rule" "ac_tier rule = Hard" "ac_mode rule = Blocklist"
    and "ac_id rule \<noteq> unsupported_browser_rule_id \<or> browsers_are_blocked L H i s"
    and "process \<in> set processes" "app_rule_applies rule (process_identity_of process)"
    and "\<not> spared_process (ss_own_pid G) process"
  shows "px_pid process \<in> ended_pids result"
proof -
  have "scan_needed (fc_config (sa_core s))" using assms(4) by (auto simp: scan_needed_def)
  from scan_parts [OF assms(1,2) this assms(3)] obtain plan s1
    where p: "plan_scan L H G i processes s = (Inr plan, s1)"
    and r: "case result of None \<Rightarrow> kp_blocked_pids plan = []
      | Some report \<Rightarrow> report = kill_processes (linux_signal_kill (si_signal i)) processes (kp_blocked_pids plan)
          \<and> kr_failures report = []" .
  from plan_scan_parts [OF p] obtain now tampered block_active db and stale :: "(u32 \<times> string) list" where parts:
    "set (kp_blocked_pids plan) =
       set (kp_blocked_pids (plan_lists L G (scan_config block_active (fc_config (sa_core s))) db processes now tampered block_active))
       \<union> fst ` set stale" "browsers_are_blocked L H i s \<Longrightarrow> block_active" by metis
  let ?config = "with_app_mode Blocklist (scan_config block_active (fc_config (sa_core s)))"
  have "rule \<in> set (cfg_app_rules ?config)" using assms(4,7,8) parts(2) by (auto simp: with_app_mode_def scan_config_def)
  from hard_rule_blocks [OF this assms(5,6,10), of "context_for ?config now tampered"]
  have "blocklist_objects L (context_for ?config now tampered) db (ss_own_pid G) process"
    using assms(11) by (simp add: blocklist_objects_def context_for_def)
  then have b: "px_pid process \<in> set (kp_blocked_pids plan)" using assms(9) parts(1) by (auto simp: plan_lists_pids)
  show ?thesis
    using r b kill_outcomes [OF _ planned_pids_known [OF p]] by (auto simp: ended_pids_def split: option.splits)
qed

lemma protected_pid_not_planned:
  assumes "plan_scan L H G i processes s = (Inr plan, s1)"
    and "\<And>p. p \<in> set processes \<Longrightarrow> px_pid p = pid \<Longrightarrow> spared_process (ss_own_pid G) p \<and> browser_of p = None"
    and "pid \<in> application_allowlist_exempt_process_ids processes"
  shows "pid \<notin> set (kp_blocked_pids plan)"
proof -
  from plan_scan_parts [OF assms(1)] obtain now tampered block_active db and stale :: "(u32 \<times> string) list" where parts:
    "set (kp_blocked_pids plan) =
       set (kp_blocked_pids (plan_lists L G (scan_config block_active (fc_config (sa_core s))) db processes now tampered block_active))
       \<union> fst ` set stale"
    "fst ` set stale \<subseteq> px_pid ` {p \<in> set processes. browser_of p \<noteq> None}" .
  then show ?thesis using assms(2,3)
    by (auto simp: plan_lists_pids blocklist_objects_def unsupported_installation_def dest!: allowlist_blocked split: if_splits)
qed

text \<open>
  C8. A pass ends only what it has a reason to end. Of the processes no browser check asks for, one that
  belongs to BlocKuntu or has the id of the daemon, of the first process or of the kernel is signalled
  by no pass when an application allowlist spares it, whatever the lists, the clock and the state, and
  whether the pass succeeds or fails: it is not among those reported as ended, and what the kernel would
  answer to a signal to it makes no difference to what the pass returns, fails with or leaves behind.
\<close>

theorem scan_spares_protected_processes:
  assumes "\<And>processes p. scanned i processes \<Longrightarrow> p \<in> set processes \<Longrightarrow> px_pid p = pid
      \<Longrightarrow> spared_process (ss_own_pid G) p \<and> browser_of p = None"
    and "\<And>processes. scanned i processes \<Longrightarrow> pid \<in> application_allowlist_exempt_process_ids processes"
  shows "scan_processes_once L H E G (i\<lparr>si_signal := (si_signal i)(pid := answer)\<rparr>) s = scan_processes_once L H E G i s
    \<and> (\<forall>result s'. scan_processes_once L H E G i s = (Inr result, s') \<longrightarrow> pid \<notin> ended_pids result)"
proof (intro conjI allI impI)
  have n: "pid \<notin> set (kp_blocked_pids plan)"
    if "scanned i processes" "plan_scan L H G i processes s = (Inr plan, s1)" for processes plan s1
    using assms that by (intro protected_pid_not_planned [OF that(2)]) blast+
  then show "scan_processes_once L H E G (i\<lparr>si_signal := (si_signal i)(pid := answer)\<rparr>) s = scan_processes_once L H E G i s"
    by (rule pass_ignores_signal)
  fix result s' assume "scan_processes_once L H E G i s = (Inr result, s')"
  then show "pid \<notin> ended_pids result"
    using n by (rule reported_pids_are_planned)
qed

section \<open>The grace is bounded\<close>

text \<open>No window reaches further than the grace from some moment that has passed.\<close>

definition grace_ok :: "int \<Rightarrow> reconnect_grace \<Rightarrow> bool" where
  "grace_ok monotonic g \<longleftrightarrow> (\<forall>browser window. rg_windows g browser = Some window
     \<longrightarrow> rw_deadline window \<le> monotonic + browser_reconnect_grace_seconds * nanos_per_second)"

text \<open>What a step for one browser does to the windows.\<close>

definition window_kept :: "reconnect_window option \<Rightarrow> reconnect_window option \<Rightarrow> int \<Rightarrow> bool" where
  "window_kept before after monotonic \<longleftrightarrow> (case (before, after) of
     (Some w, Some w') \<Rightarrow> rw_deadline w' = rw_deadline w
   | (None, Some w') \<Rightarrow> rw_deadline w' = monotonic + browser_reconnect_grace_seconds * nanos_per_second
   | _ \<Rightarrow> True)"

lemma app_grace [simp]: "sa_grace (snd (on_app_core m s)) = sa_grace s"
  by (simp add: on_app_core_def Let_def split: prod.splits)

lemma on_app_core_grace: "on_app_core m s = (r, s') \<Longrightarrow> sa_grace s' = sa_grace s"
  by (metis app_grace snd_conv)

lemma set_grace_Inr: "set_grace f s = (Inr u, s') \<longleftrightarrow> s' = s\<lparr>sa_grace := f (sa_grace s)\<rparr>"
  by (auto simp: set_grace_def)

lemma reconnect_step_effect:
  assumes "reconnect_step H first_scan interrupted strict now monotonic present browser s = (Inr deferred, s')"
  shows "(\<forall>other. other \<noteq> browser \<longrightarrow> rg_windows (sa_grace s') other = rg_windows (sa_grace s) other)
    \<and> window_kept (rg_windows (sa_grace s) browser) (rg_windows (sa_grace s') browser) monotonic
    \<and> (deferred \<longrightarrow> (\<exists>w. rg_windows (sa_grace s') browser = Some w \<and> monotonic \<le> rw_deadline w))"
  using assms
  by (auto simp: reconnect_step_def open_window_step_def act_bind_Inr set_grace_Inr Let_def window_kept_def
      forget_browser_def set_healthy_def set_window_def browser_reconnect_grace_seconds_def nanos_defs
      dest!: on_app_core_grace split: if_splits option.splits)

lemma reconnect_steps_effect:
  assumes "act_select (reconnect_step H first_scan interrupted strict now monotonic present) browsers s = (Inr ds, s')"
    and "distinct browsers"
  shows "(\<forall>browser. browser \<notin> set browsers \<longrightarrow> rg_windows (sa_grace s') browser = rg_windows (sa_grace s) browser)
    \<and> (\<forall>browser\<in>set browsers. window_kept (rg_windows (sa_grace s) browser) (rg_windows (sa_grace s') browser) monotonic)
    \<and> (\<forall>browser\<in>set ds. \<exists>w. rg_windows (sa_grace s') browser = Some w \<and> monotonic \<le> rw_deadline w)
    \<and> set ds \<subseteq> set browsers"
  using assms
proof (induction browsers arbitrary: s ds)
  case (Cons b bs)
  from Cons.prems(1) obtain deferred s1 ds1
    where step: "reconnect_step H first_scan interrupted strict now monotonic present b s = (Inr deferred, s1)"
    and rest: "act_select (reconnect_step H first_scan interrupted strict now monotonic present) bs s1 = (Inr ds1, s')"
    and ds: "ds = (if deferred then b # ds1 else ds1)"
    by (auto simp: act_bind_Inr)
  have "rg_windows (sa_grace s1) browser = rg_windows (sa_grace s) browser" if "browser \<in> set bs" for browser
    using reconnect_step_effect [OF step] Cons.prems(2) that by auto
  with reconnect_step_effect [OF step] Cons.IH [OF rest] Cons.prems(2)
  show ?case unfolding ds by (auto split: if_splits)
qed simp

text \<open>
  C11. The grace after a pause is bounded. A browser is deferred only inside a window, a window ends sixty
  seconds after it was opened, and no later pass prolongs it: when a pass defers a browser at some moment
  of the monotonic clock, the deadline is not before it, at most sixty seconds later, and still the one
  of the window that was open before the pass, if one was.
\<close>

theorem reconnect_grace_is_bounded:
  assumes "deferred_browsers H processes strict now monotonic scan_interval s = (Inr ds, s')"
    and "grace_ok earlier (sa_grace s)" "earlier \<le> monotonic"
  shows "grace_ok monotonic (sa_grace s')
    \<and> (\<forall>browser\<in>set ds. \<exists>w. rg_windows (sa_grace s') browser = Some w \<and> monotonic \<le> rw_deadline w
        \<and> (\<forall>w0. rg_windows (sa_grace s) browser = Some w0 \<longrightarrow> rw_deadline w = rw_deadline w0))"
proof -
  let ?s1 = "s\<lparr>sa_grace := sa_grace s\<lparr>rg_last_scan := Some monotonic\<rparr>\<rparr>"
  from assms(1) obtain first_scan interrupted present where
    steps: "act_select (reconnect_step H first_scan interrupted strict now monotonic present) managed_browsers ?s1 = (Inr ds, s')"
    by (auto simp: deferred_browsers_def act_bind_Inr set_grace_Inr Let_def)
  have w: "rg_windows (sa_grace ?s1) = rg_windows (sa_grace s)" by simp
  have d: "distinct managed_browsers" by (simp add: managed_browsers_def)
  note effect = reconnect_steps_effect [OF steps d, unfolded w]
  have kept: "window_kept (rg_windows (sa_grace s) browser) (rg_windows (sa_grace s') browser) monotonic" for browser
    using effect every_browser_is_managed by blast
  have "rw_deadline window \<le> monotonic + browser_reconnect_grace_seconds * nanos_per_second"
    if "rg_windows (sa_grace s') browser = Some window" for browser window
    using kept [of browser] assms(2,3) that by (fastforce simp: window_kept_def grace_ok_def split: option.splits)
  moreover have "\<exists>w. rg_windows (sa_grace s') browser = Some w \<and> monotonic \<le> rw_deadline w
      \<and> (\<forall>w0. rg_windows (sa_grace s) browser = Some w0 \<longrightarrow> rw_deadline w = rw_deadline w0)" if "browser \<in> set ds" for browser
    using effect kept [of browser] that by (fastforce simp: window_kept_def split: option.splits)
  ultimately show ?thesis by (auto simp: grace_ok_def)
qed

section \<open>A sample table\<close>

definition sample_entry :: "string \<Rightarrow> string \<Rightarrow> string \<Rightarrow> string \<Rightarrow> proc_entry" where
  "sample_entry pid name parent user = \<lparr>pe_name = Some pid, pe_exe = Some (''/usr/bin/'' @ name), pe_comm = Some (name @ [CHR 0x0A]),
     pe_stat = Some (pid @ '' ('' @ name @ '') S '' @ parent @ '' 1 1 0 -1 0 0 0 0 0 0 0 0 0 20 0 1 0 77 0''),
     pe_status = Some (''Name:'' @ [CHR 0x0A] @ ''Uid: '' @ user @ [CHR 0x0A]), pe_environ = None, pe_cmdline = None\<rparr>"

definition scan_policy :: config where
  "scan_policy = engine_policy\<lparr>cfg_app_rules := app_list ''cards'' Hard ''poker'' [] None # cfg_app_rules engine_policy,
     cfg_strict_mode := default_strict_mode\<lparr>sm_kill_supported_browser_if_extension_stale := False\<rparr>\<rparr>"

definition scan_state :: scan_app where
  "scan_state = \<lparr>sa_core = \<lparr>fc_config = scan_policy, fc_database = snd (set_service_state status_key status_tampered tuesday_eight empty_database)\<rparr>, sa_grace = no_grace\<rparr>"

definition scan_sample :: scan_input where
  "scan_sample = \<lparr>si_enforcement = tuesday_eight, si_end_sessions = tuesday_eight,
     si_directory = Inr [Inr (sample_entry ''7'' ''blockuntu'' ''1'' ''1000''), Inr (sample_entry ''42'' ''poker'' ''1'' ''1000'')],
     si_session_type = Some ''wayland'', si_wmctrl = CommandMissing, si_clock = machine_at tuesday_eight ''90000 11'',
     si_monotonic = 90000 * nanos_per_second, si_signal = (\<lambda>_. None), si_reported_at = tuesday_eight\<rparr>"

definition scan_defaults :: scan_settings where
  "scan_defaults = \<lparr>ss_own_pid = 6, ss_defer_firefox = False, ss_defer_chrome = False, ss_scan_interval = 2 * nanos_per_second\<rparr>"

definition sample_processes :: "process_info list" where
  "sample_processes = fst (attach_detected_window_titles (si_session_type scan_sample) (si_wmctrl scan_sample)
     (projr (scan_procfs (si_directory scan_sample))))"

abbreviation sample_pass :: "(daemon_error + process_kill_report option) \<times> scan_app" where
  "sample_pass \<equiv> scan_processes_once sample_lib sample_host (\<lambda>_. ''failed'') scan_defaults scan_sample scan_state"

lemma sample_scanned: "scanned scan_sample sample_processes"
proof -
  have "\<not> isl (scan_procfs (si_directory scan_sample))" by code_simp
  then show ?thesis by (auto simp: scanned_def sample_processes_def intro!: exI [of _ "projr (scan_procfs (si_directory scan_sample))"])
qed

lemma sample_pass_ok: "sample_pass = (Inr (projr (fst sample_pass)), snd sample_pass)"
proof -
  have "\<not> isl (fst sample_pass)" by code_simp
  then show ?thesis by (simp add: prod_eq_iff)
qed


text \<open>The card game is ended, although the clock is taken as tampered with.\<close>

theorem hard_blocked_applications_end_witness: "42 \<in> ended_pids (projr (fst sample_pass))"
proof -
  let ?rule = "app_list ''cards'' Hard ''poker'' [] None"
  let ?process = "sample_processes ! 1"
  have e: "enforcement_active_from_core sample_host (si_enforcement scan_sample) (sa_core scan_state) = Inr True" by code_simp
  have r: "?rule \<in> set (cfg_app_rules (fc_config (sa_core scan_state)))" by (simp add: scan_state_def scan_policy_def)
  have f: "ac_enabled ?rule" "ac_tier ?rule = Hard" "ac_mode ?rule = Blocklist" "ac_id ?rule \<noteq> unsupported_browser_rule_id \<or> browsers_are_blocked sample_lib sample_host scan_sample scan_state"
    by (simp_all add: app_list_def unsupported_browser_rule_id_def)
  have "1 < length sample_processes" by code_simp
  then have p: "?process \<in> set sample_processes" by simp
  have a: "app_rule_applies ?rule (process_identity_of ?process)" "\<not> spared_process (ss_own_pid scan_defaults) ?process"
    by code_simp+
  have "px_pid ?process = 42" by code_simp
  with hard_blocked_applications_end [OF sample_pass_ok e sample_scanned r f p a] show ?thesis by simp
qed

text \<open>A signal to BlocKuntu would be refused, and the pass would fail: it does not.\<close>

theorem scan_spares_protected_processes_witness:
  "scan_processes_once sample_lib sample_host (\<lambda>_. ''failed'') scan_defaults
      (scan_sample\<lparr>si_signal := (si_signal scan_sample)(7 := Some 1)\<rparr>) scan_state = sample_pass
   \<and> 7 \<notin> ended_pids (projr (fst sample_pass))"
proof -
  have u: "processes = sample_processes" if "scanned scan_sample processes" for processes
    using that by (auto simp: scanned_def sample_processes_def)
  have "list_all (\<lambda>p. px_pid p = 7 \<longrightarrow> spared_process (ss_own_pid scan_defaults) p \<and> browser_of p = None) sample_processes"
    by code_simp
  then have s: "spared_process (ss_own_pid scan_defaults) p \<and> browser_of p = None"
    if "scanned scan_sample processes" "p \<in> set processes" "px_pid p = 7" for processes p
    using that by (auto simp: list_all_iff dest!: u)
  have "7 \<in> application_allowlist_exempt_process_ids sample_processes" by code_simp
  then have x: "7 \<in> application_allowlist_exempt_process_ids processes" if "scanned scan_sample processes" for processes
    using that by (auto dest!: u)
  note spared = scan_spares_protected_processes [where i = scan_sample and pid = 7 and G = scan_defaults and s = scan_state
      and L = sample_lib and H = sample_host and E = "\<lambda>_. ''failed''" and answer = "Some 1"]
  have "scan_processes_once sample_lib sample_host (\<lambda>_. ''failed'') scan_defaults
      (scan_sample\<lparr>si_signal := (si_signal scan_sample)(7 := Some 1)\<rparr>) scan_state = sample_pass
    \<and> (\<forall>result s'. sample_pass = (Inr result, s') \<longrightarrow> 7 \<notin> ended_pids result)"
    by (rule spared) (use s x in blast)+
  then show ?thesis using sample_pass_ok by blast
qed

text \<open>Firefox has been given time to reconnect at the monotonic second 0; at 30 it is still deferred.\<close>

definition firefox_process :: process_info where
  "firefox_process = \<lparr>px_pid = 900, px_parent_pid = Some 1, px_user_id = Some 1000, px_process_group_id = None,
     px_session_id = None, px_start_time_ticks = None, px_executable_path = Some ''/usr/bin/firefox'',
     px_executable_basename = Some ''firefox'', px_command_name = Some ''firefox'', px_desktop_id = None, px_window_titles = []\<rparr>"

definition reconnecting_state :: scan_app where
  "reconnecting_state = \<lparr>sa_core = dm_core sample_daemon, sa_grace = no_grace\<lparr>rg_last_scan := Some 0,
     rg_windows := [Firefox \<mapsto> \<lparr>rw_started_at = tuesday_eight, rw_deadline = 60 * nanos_per_second, rw_expiry_logged = False\<rparr>]\<rparr>\<rparr>"

lemma absent_browsers:
  "set browsers \<inter> present = {} \<Longrightarrow>
     \<exists>g. act_select (reconnect_step H first_scan interrupted strict now monotonic present) browsers s = (Inr [], s\<lparr>sa_grace := g\<rparr>)"
proof (induction browsers arbitrary: s)
  case (Cons b bs)
  have "reconnect_step H first_scan interrupted strict now monotonic present b s
      = (Inr False, s\<lparr>sa_grace := forget_browser b (sa_grace s)\<rparr>)"
    using Cons.prems by (simp add: reconnect_step_def act_bind_def set_grace_def)
  then show ?case using Cons.IH [of "s\<lparr>sa_grace := forget_browser b (sa_grace s)\<rparr>"] Cons.prems by (auto simp: act_bind_def)
next
  case Nil
  show ?case by (simp, rule exI [of _ "sa_grace s"]) simp
qed

theorem reconnect_grace_is_bounded_witness:
  "\<exists>s' w. deferred_browsers sample_host [firefox_process] default_strict_mode tuesday_eight (30 * nanos_per_second)
       (2 * nanos_per_second) reconnecting_state = (Inr [Firefox], s')
     \<and> rg_windows (sa_grace s') Firefox = Some w \<and> rw_deadline w = 60 * nanos_per_second"
proof -
  let ?step = "reconnect_step sample_host False (max 0 (30 * nanos_per_second - 0)
      > scan_gap_threshold default_strict_mode (2 * nanos_per_second)) default_strict_mode tuesday_eight (30 * nanos_per_second) {Firefox}"
  have present: "set (filter_map browser_of [firefox_process]) = {Firefox}" by code_simp
  have read: "strict_browser_session_started_at sample_host Firefox (sa_core reconnecting_state) = Inr None"
    "core_query (heartbeat (browser_extension_component Firefox)) (sa_core reconnecting_state) = Inr None"
    by code_simp+
  let ?s = "reconnecting_state\<lparr>sa_grace := sa_grace reconnecting_state\<lparr>rg_last_scan := Some (30 * nanos_per_second)\<rparr>\<rparr>"
  have window: "rg_windows (sa_grace reconnecting_state) Firefox
      = Some \<lparr>rw_started_at = tuesday_eight, rw_deadline = 60 * nanos_per_second, rw_expiry_logged = False\<rparr>"
    by (simp add: reconnecting_state_def no_grace_def)
  obtain s1 where first: "?step Firefox ?s = (Inr True, s1)"
    using read window
    by (simp del: core_query_Inr add: reconnect_step_def open_window_step_def act_bind_def set_grace_def Let_def
        current_heartbeat_def heartbeat_is_recent_def browser_required_by_strict_mode_def is_firefox_based_def
        default_strict_mode_def nanos_defs)
  obtain g where rest: "act_select ?step [LibreWolf, Waterfox, Chrome, Chromium, Brave, Opera, Edge, Vivaldi] s1
      = (Inr [], s1\<lparr>sa_grace := g\<rparr>)"
    using absent_browsers [of "[LibreWolf, Waterfox, Chrome, Chromium, Brave, Opera, Edge, Vivaldi]" "{Firefox}"] by fastforce
  have last: "rg_last_scan (sa_grace reconnecting_state) = Some 0" by (simp add: reconnecting_state_def no_grace_def)
  have all: "deferred_browsers sample_host [firefox_process] default_strict_mode tuesday_eight (30 * nanos_per_second)
      (2 * nanos_per_second) reconnecting_state = (Inr [Firefox], s1\<lparr>sa_grace := g\<rparr>)"
    unfolding deferred_browsers_def present managed_browsers_def
    using first rest by (simp add: act_bind_def set_grace_def Let_def last)
  have "grace_ok 0 (sa_grace reconnecting_state)"
    by (simp add: grace_ok_def reconnecting_state_def no_grace_def browser_reconnect_grace_seconds_def)
  from reconnect_grace_is_bounded [OF all this]
  show ?thesis using all by (auto simp: nanos_defs reconnecting_state_def no_grace_def)
qed

end
