(* ===== verification/StartLaws.thy ===== *)
theory StartLaws imports Startup EditAgreement begin

text \<open>
  What a start publishes. A daemon that has started enforces one policy, in its memory, in the database and in
  the recovery snapshot; an installation that exists never falls back to the configuration file; a
  maintenance command publishes nothing.
\<close>

section \<open>What a start leaves alone\<close>

definition start_frame :: "database \<Rightarrow> database \<Rightarrow> bool" where
  "start_frame db0 db \<longleftrightarrow> db_fault db = db_fault db0 \<and> db_policy db = db_policy db0"

lemma start_frame_refl [simp]: "start_frame db db"
  by (simp add: start_frame_def)

lemma start_frame_trans: "start_frame a b \<Longrightarrow> start_frame b c \<Longrightarrow> start_frame a c"
  by (simp add: start_frame_def)

lemma start_frame_of_keeps:
  assumes "keeps (same_runtime db) m" "keeps (policy_is (db_policy db)) m" "m db = (r, db')"
  shows "start_frame db db'"
proof -
  have "same_runtime db (snd (m db))" "policy_is (db_policy db) (snd (m db))"
    using assms(1,2) unfolding keeps_def by auto
  then show ?thesis using assms(3) by (simp add: start_frame_def same_runtime_def)
qed

lemma start_frame_event: "record_event kind target details now db = (r, db') \<Longrightarrow> start_frame db db'"
  by (rule start_frame_of_keeps [OF keeps_runtime_event keeps_policy_event])

lemma start_frame_sync: "sync_schedule_activity_totals L schedules now db = (r, db') \<Longrightarrow> start_frame db db'"
  by (rule start_frame_of_keeps [OF keeps_runtime_sync keeps_policy_sync])

lemma start_frame_guard: "guarded_now L H rd client_now trust db = (r, db') \<Longrightarrow> start_frame db db'"
  using keeps_guarded_now [of db L H rd client_now trust]
  by (auto simp: act_keeps_def guard_frame_def start_frame_def same_runtime_def dest!: spec [of _ db])

lemma start_frame_retention_events: "enforce_event_retention now retention db = (r, db') \<Longrightarrow> start_frame db db'"
  by (auto simp: enforce_event_retention_def start_frame_def db_bind_def exec_def delete_events_before_def
      rewrite_event_log_def Let_def split: prod.splits sum.splits option.splits if_splits)

lemma db_action_state: "db_action m db = (r, db') \<Longrightarrow> \<exists>q. m db = (q, db')"
  by (cases "m db") (auto simp: db_action_def)

lemma start_frame_retention: "retention_pass L H rd db = (r, db') \<Longrightarrow> start_frame db db'"
  by (auto simp: retention_pass_def act_bind_def act_return_def Let_def
      dest!: db_action_state start_frame_guard start_frame_retention_events intro: start_frame_trans
      split: prod.splits sum.splits if_splits)

lemma start_event_log: "set_event_log_path log db = (r, db') \<Longrightarrow> start_frame db db'"
  by (auto simp: set_event_log_path_def start_frame_def split: sum.splits)

section \<open>Loading depends on the policy and the faults only\<close>

lemma load_depends:
  assumes "start_frame db db'"
  shows "load_policy_config L db' = load_policy_config L db" "has_policy_config db' = has_policy_config db"
proof -
  have q: "db_policy db' = db_policy db" "db_fault db' = db_fault db" using assms by (simp_all add: start_frame_def)
  have "load_policy_schedule_windows i db' = load_policy_schedule_windows i db" for i
    by (simp add: load_policy_schedule_windows_def query_def q cong: option.case_cong)
  moreover have "load_site_list db' = load_site_list db" "load_app_rule db' = load_app_rule db"
    by (rule ext, simp add: load_site_list_def load_app_rule_def load_policy_site_list_patterns_def
        load_policy_site_list_schedule_ids_def load_policy_app_rule_matchers_def load_policy_app_rule_schedule_ids_def
        query_def q cong: option.case_cong)+
  ultimately show "load_policy_config L db' = load_policy_config L db"
    unfolding load_policy_config_def
    by (simp add: load_policy_allowances_def load_policy_schedules_def load_policy_site_lists_def load_policy_app_rules_def
        load_policy_strict_mode_def query_def q cong: option.case_cong)
  show "has_policy_config db' = has_policy_config db" by (simp add: has_policy_config_def query_def q cong: option.case_cong)
qed

lemma replaced_fault: "replace_policy_config L c db = (r, db') \<Longrightarrow> db_fault db' = db_fault db"
proof -
  assume r: "replace_policy_config L c db = (r, db')"
  have "same_runtime db (snd (replace_policy_config L c db))"
    using keeps_runtime_replace [of db L c] unfolding keeps_def by simp
  then show ?thesis using r by (simp add: same_runtime_def)
qed

section \<open>Steps of a start\<close>

lemma on_start_db_Inr:
  "on_start_db m s = (Inr x, s') \<longleftrightarrow> (\<exists>db. m (su_database s) = (Inr x, db) \<and> s' = s\<lparr>su_database := db\<rparr>)"
  by (auto simp: on_start_db_def Let_def split: prod.splits)

lemma on_start_recovery_Inr:
  "on_start_recovery m s = (Inr x, s') \<longleftrightarrow> (\<exists>store. m (su_recovery s) = (Inr x, store) \<and> s' = s\<lparr>su_recovery := store\<rparr>)"
  by (auto simp: on_start_recovery_def Let_def split: prod.splits)

text \<open>The policy found is the one of the database, or of the snapshot, or of the file of a new installation.\<close>

lemma load_startup_cases:
  assumes "load_startup_policy L T i persist s = (Inr (config, recovered), s')"
  obtains (stored) "has_policy_config (su_database s) = Inr True" "load_policy_config L (su_database s) = Inr config"
      "s' = s" "\<not> recovered"
  | (snapshot) "has_policy_config (su_database s) = Inr False" "load_snapshot L T (su_recovery s) = Inr (Some config)" "recovered"
      "if persist then \<exists>db. replace_policy_config L config (su_database s) = (Inr (), db) \<and> s' = s\<lparr>su_database := db\<rparr> else s' = s"
  | (fresh) "has_policy_config (su_database s) = Inr False" "load_snapshot L T (su_recovery s) = Inr None"
      "\<not> sp_database_preexisting i" "sp_loaded i = Inr config" "\<not> recovered"
      "if persist then \<exists>db. replace_policy_config L config (su_database s) = (Inr (), db) \<and> s' = s\<lparr>su_database := db\<rparr> else s' = s"
proof -
  obtain has where h: "has_policy_config (su_database s) = Inr has"
    using assms by (auto simp: load_startup_policy_def act_read_bind_Inr)
  show thesis
  proof (cases has)
    case True
    then have "act_bind (act_read (\<lambda>s. map_err DaemonCore (load_policy_config L (su_database s))))
        (\<lambda>config. act_return (config, False)) s = (Inr (config, recovered), s')"
      using assms h by (simp add: load_startup_policy_def act_bind_def act_read_def)
    then have "load_policy_config L (su_database s) = Inr config" "s' = s" "\<not> recovered"
      by (auto simp: act_read_bind_Inr act_return_def)
    with True h show ?thesis by (intro stored) simp_all
  next
    case False
    then obtain found where f: "load_snapshot L T (su_recovery s) = Inr found"
      using assms h by (auto simp: load_startup_policy_def act_read_bind_Inr)
    show ?thesis
    proof (cases found)
      case None
      then have "\<not> sp_database_preexisting i" "act_bind (act_read (\<lambda>_. sp_loaded i)) (\<lambda>config.
          act_bind (act_when persist (on_start_db (db_action (replace_policy_config L config)))) (\<lambda>_.
            act_return (config, False))) s = (Inr (config, recovered), s')"
        using assms h False f by (simp_all add: load_startup_policy_def act_bind_def act_read_def split: if_splits)
      then have "\<not> sp_database_preexisting i" "sp_loaded i = Inr config" "\<not> recovered"
        "if persist then \<exists>db. replace_policy_config L config (su_database s) = (Inr (), db) \<and> s' = s\<lparr>su_database := db\<rparr> else s' = s"
        by (auto simp: act_bind_Inr act_when_def on_start_db_Inr db_action_Inr act_return_def split: if_splits)
      with None h False f show ?thesis by (intro fresh) simp_all
    next
      case (Some c)
      then have "act_bind (act_when persist (on_start_db (db_action (replace_policy_config L c)))) (\<lambda>_.
            act_return (c, True)) s = (Inr (config, recovered), s')"
        using assms h False f by (simp add: load_startup_policy_def act_bind_def act_read_def)
      then have "c = config" "recovered"
        "if persist then \<exists>db. replace_policy_config L config (su_database s) = (Inr (), db) \<and> s' = s\<lparr>su_database := db\<rparr> else s' = s"
        by (auto simp: act_bind_Inr act_when_def on_start_db_Inr db_action_Inr act_return_def split: if_splits)
      with Some h False f show ?thesis by (intro snapshot) simp_all
    qed
  qed
qed

lemma settle_parts:
  assumes "settle_policy L T i s = (Inr config, s')"
  obtains loaded recovered s1 changed s2 s3 where
    "load_startup_policy L T i (persists_policy i) s = (Inr (loaded, recovered), s1)"
    "ensure_mandatory_app_rules loaded = (config, changed)"
    "if changed \<and> persists_policy i
     then \<exists>db. replace_policy_config L config (su_database s1) = (Inr (), db) \<and> s2 = s1\<lparr>su_database := db\<rparr> else s2 = s1"
    "if persists_policy i
     then \<exists>store. write_snapshot L T config (su_recovery s2) = (Inr (), store) \<and> s3 = s2\<lparr>su_recovery := store\<rparr> else s3 = s2"
    "start_frame (su_database s3) (su_database s')" "su_recovery s' = su_recovery s3"
    "\<not> persists_policy i \<Longrightarrow> s' = s3"
proof -
  obtain loaded recovered s1 where l: "load_startup_policy L T i (persists_policy i) s = (Inr (loaded, recovered), s1)"
    using assms by (auto simp: settle_policy_def act_bind_def Let_def split: prod.splits sum.splits)
  obtain named changed where n: "ensure_mandatory_app_rules loaded = (named, changed)" by fastforce
  from assms obtain s2 s3 where
    r: "act_when (changed \<and> persists_policy i) (on_start_db (db_action (replace_policy_config L config))) s1 = (Inr (), s2)"
    and w: "act_when (persists_policy i) (on_start_recovery (write_snapshot L T config)) s2 = (Inr (), s3)"
    and e: "act_when (recovered \<and> persists_policy i) (announce i) s3 = (Inr (), s')"
    and c: "ensure_mandatory_app_rules loaded = (config, changed)"
    by (auto simp: settle_policy_def act_bind_Inr Let_def l n)
  show thesis
  proof (rule that [OF l c])
    show "if changed \<and> persists_policy i
     then \<exists>db. replace_policy_config L config (su_database s1) = (Inr (), db) \<and> s2 = s1\<lparr>su_database := db\<rparr> else s2 = s1"
      using r by (auto simp: act_when_def on_start_db_Inr db_action_Inr)
    show "if persists_policy i
     then \<exists>store. write_snapshot L T config (su_recovery s2) = (Inr (), store) \<and> s3 = s2\<lparr>su_recovery := store\<rparr> else s3 = s2"
      using w by (auto simp: act_when_def on_start_recovery_Inr)
    show "start_frame (su_database s3) (su_database s')" "su_recovery s' = su_recovery s3" "\<not> persists_policy i \<Longrightarrow> s' = s3"
      using e by (auto simp: announce_def act_when_def on_start_db_Inr act_bind_Inr db_action_Inr dest!: start_frame_event split: if_splits)
  qed
qed

lemma daemon_load_parts:
  assumes "daemon_load L H T i s = (Inr core, s')"
  obtains s1 s2 config where
    "start_frame (su_database s) (su_database s1)" "su_recovery s1 = su_recovery s"
    "settle_policy L T i s1 = (Inr config, s2)"
    "config_ok L config" "fc_config core = config" "fc_database core = su_database s'"
    "start_frame (su_database s2) (su_database s')" "su_recovery s' = su_recovery s2"
proof -
  from assms obtain s0 sl s1 config s2 core0 totals where
    l: "on_start_recovery lock_recovery s = (Inr (), s0)"
    and g: "on_start_db (set_event_log_path (sp_event_log i)) s0 = (Inr (), sl)"
    and r: "on_start_db (retention_pass L H (sp_clock i)) sl = (Inr (), s1)"
    and p: "settle_policy L T i s1 = (Inr config, s2)"
    and c: "core_new L config (su_database s2) = Inr core0"
    and y: "on_start_db (db_action (sync_schedule_activity_totals L (cfg_schedules config) (sp_local_now i))) s2 = (Inr totals, s')"
    and f: "core = core0\<lparr>fc_database := su_database s'\<rparr>"
    by (auto simp: daemon_load_def act_bind_Inr)
  have k: "lock_recovery store = (q, store') \<Longrightarrow> store' = store" for store q store'
    by (auto simp: lock_recovery_def act_bind_def syscall_def split: sum.splits option.splits)
  show thesis
  proof (rule that [OF _ _ p])
    show "start_frame (su_database s) (su_database s1)" "su_recovery s1 = su_recovery s"
      using l g r by (auto simp: on_start_recovery_Inr on_start_db_Inr dest!: k start_event_log start_frame_retention
          intro: start_frame_trans)
    show "config_ok L config" "fc_config core = config" "fc_database core = su_database s'"
      using c f by (auto simp: core_new_def and_then_Inr_iff validate_config_def validate_iff)
    show "start_frame (su_database s2) (su_database s')" "su_recovery s' = su_recovery s2"
      using y by (auto simp: on_start_db_Inr db_action_Inr dest!: start_frame_sync)
  qed
qed

section \<open>What is published\<close>

lemma sort_key_fixed: "sorted (map f xs) \<Longrightarrow> sort_key f xs = xs"
  by (induction xs) (simp_all add: insort_is_Cons)

lemma by_id_idem [simp]: "by_id (by_id c) = by_id c"
  by (simp add: by_id_def sort_key_fixed)

lemma replaced_matches:
  "replace_policy_config L c db = (Inr (), db') \<Longrightarrow> matches L (db_policy db') c"
  using replace_policy_result [of L c db "Inr ()" db'] by (auto simp: matches_def)

lemma ensure_unchanged: "ensure_mandatory_app_rules c = (c', False) \<Longrightarrow> c' = c"
  by (auto simp: ensure_mandatory_app_rules_def Let_def split: if_splits option.splits)

lemma ensure_schedules: "ensure_mandatory_app_rules c = (c', changed) \<Longrightarrow> cfg_schedules c' = cfg_schedules c"
  using mandatory_sel(2) [of c] by simp

text \<open>The tables of an installation, if there are any, are those a replacement of the policy has left.\<close>

definition tables_of_a_policy :: "'u lib \<Rightarrow> database \<Rightarrow> bool" where
  "tables_of_a_policy L db \<longleftrightarrow>
     (has_policy_config db = Inr True \<longrightarrow> (\<exists>c. db_policy db = tables_of c \<and> config_ok L c \<and> config_times_valid c))"

lemma settled_policy:
  assumes s: "settle_policy L T i s = (Inr config, s')" and p: "persists_policy i"
    and known: "tables_of_a_policy L (su_database s)" and ok: "config_ok L config"
  shows "matches L (db_policy (su_database s')) config"
    and "ss_fault (su_recovery s) ''read'' = None \<Longrightarrow> (\<And>text. tl_print T config = Inr text \<Longrightarrow> tl_parse T text = Inr config)
      \<Longrightarrow> load_snapshot L T (su_recovery s') = Inr (Some config)"
proof -
  obtain loaded recovered s1 changed s2 s3 where
    l: "load_startup_policy L T i True s = (Inr (loaded, recovered), s1)"
    and c: "ensure_mandatory_app_rules loaded = (config, changed)"
    and r: "if changed then \<exists>db. replace_policy_config L config (su_database s1) = (Inr (), db) \<and> s2 = s1\<lparr>su_database := db\<rparr>
            else s2 = s1"
    and w: "\<exists>store. write_snapshot L T config (su_recovery s2) = (Inr (), store) \<and> s3 = s2\<lparr>su_recovery := store\<rparr>"
    and e: "start_frame (su_database s3) (su_database s')" "su_recovery s' = su_recovery s3"
    using s by (rule settle_parts) (simp add: p)
  have s1: "matches L (db_policy (su_database s1)) loaded \<and> su_recovery s1 = su_recovery s"
    using l
  proof (cases rule: load_startup_cases)
    case stored
    then obtain c0 where c0: "db_policy (su_database s) = tables_of c0" "config_ok L c0" "config_times_valid c0"
      using known by (auto simp: tables_of_a_policy_def)
    then show ?thesis
      using loaded_stored_policy [OF stored(2) c0] stored
      by (auto simp: matches_def config_ok_by_id intro!: exI [of _ c0])
  next
    case snapshot
    then show ?thesis using replaced_matches by auto
  next
    case fresh
    then show ?thesis using replaced_matches by auto
  qed
  have s2: "matches L (db_policy (su_database s2)) config \<and> su_recovery s2 = su_recovery s"
  proof (cases changed)
    case True
    then show ?thesis using r s1 replaced_matches by auto
  next
    case False
    then show ?thesis using r s1 c ensure_unchanged by auto
  qed
  obtain store where store: "write_snapshot L T config (su_recovery s2) = (Inr (), store)" "s3 = s2\<lparr>su_recovery := store\<rparr>"
    using w by blast
  show "matches L (db_policy (su_database s')) config"
    using e s2 store by (simp add: start_frame_def)
  assume read: "ss_fault (su_recovery s) ''read'' = None"
    and toml: "\<And>text. tl_print T config = Inr text \<Longrightarrow> tl_parse T text = Inr config"
  have "load_snapshot L T store = Inr (Some config)"
    by (rule write_snapshot_loads [OF store(1)]) (use s2 read toml in auto)
  then show "load_snapshot L T (su_recovery s') = Inr (Some config)" using e store by simp
qed

text \<open>A first installation: no database, no snapshot, the policy of the configuration file; TOML for the policy it leaves.\<close>

definition first_policy :: config where
  "first_policy = fst (ensure_mandatory_app_rules sample_policy)"

definition first_toml :: toml_lib where
  "first_toml = \<lparr>
     tl_print = (\<lambda>config. if config = first_policy then Inr ''first'' else Inl ''unsupported''),
     tl_parse = (\<lambda>contents. if contents = ''first'' then Inr first_policy else Inl ''invalid TOML''),
     tl_parse_legacy = (\<lambda>_. Inl ''invalid TOML'')\<rparr>"

lemma first_toml_roundtrip: "tl_print first_toml config = Inr text \<Longrightarrow> tl_parse first_toml text = Inr config"
  by (auto simp: first_toml_def split: if_splits)

definition first_install :: startup_input where
  "first_install = \<lparr>sp_serve = True, sp_database_preexisting = False, sp_loaded = Inr sample_policy,
     sp_recovery_path = ''/var/lib/recovery.toml'', sp_event_log = Inr [], sp_clock = machine_at tuesday_ten ''100'',
     sp_recorded_at = tuesday_ten, sp_local_now = at_offset 0 tuesday_ten\<rparr>"

definition bare_machine :: startup where
  "bare_machine = \<lparr>su_database = empty_database,
     su_recovery = \<lparr>ss_fault = (\<lambda>_. None), ss_enforce_immutable = True, ss_snapshot = None\<rparr>\<rparr>"

definition first_load :: "(daemon_error + focus_core) \<times> startup" where
  "first_load = daemon_load sample_lib sample_host first_toml first_install bare_machine"

lemma first_load_ok: "\<not> isl (fst first_load)"
  by code_simp

lemma bare_has_no_policy: "has_policy_config (su_database bare_machine) = Inr False"
  by code_simp

section \<open>What a maintenance command leaves alone\<close>

definition unpublished :: "startup \<Rightarrow> startup \<Rightarrow> bool" where
  "unpublished s0 s \<longleftrightarrow> start_frame (su_database s0) (su_database s) \<and> su_recovery s = su_recovery s0"

lemma unpublished_database:
  assumes "\<And>db r db'. m db = (r, db') \<Longrightarrow> start_frame db db'"
  shows "act_keeps (unpublished s0) (on_start_db m)"
  using assms by (auto simp: act_keeps_def on_start_db_def unpublished_def Let_def split: prod.splits intro: start_frame_trans)

lemma start_frame_action:
  "(\<And>db r db'. m db = (r, db') \<Longrightarrow> start_frame db db') \<Longrightarrow> db_action m db = (r', db') \<Longrightarrow> start_frame db db'"
  using db_action_state by blast

lemma unpublished_retention: "act_keeps (unpublished s0) (on_start_db (retention_pass L H rd))"
  by (rule unpublished_database) (rule start_frame_retention)

lemma unpublished_log: "act_keeps (unpublished s0) (on_start_db (set_event_log_path log))"
  by (rule unpublished_database) (rule start_event_log)

lemma unpublished_sync: "act_keeps (unpublished s0) (on_start_db (db_action (sync_schedule_activity_totals L schedules now)))"
  by (rule unpublished_database) (rule start_frame_action, erule start_frame_sync, assumption)

lemma unpublished_lock: "act_keeps (unpublished s0) (on_start_recovery lock_recovery)"
proof -
  have "unpublished s0 (snd (on_start_recovery lock_recovery s))" if "unpublished s0 s" for s
  proof -
    obtain r store where l: "lock_recovery (su_recovery s) = (r, store)" by fastforce
    moreover have "store = su_recovery s" using l lock_state [of "su_recovery s"] by (metis snd_conv)
    ultimately show ?thesis using that by (simp add: on_start_recovery_def unpublished_def)
  qed
  then show ?thesis by (simp add: act_keeps_def)
qed

lemma keeps_Pair [intro!]: "act_keeps P (Pair r)"
  by (simp add: act_keeps_def)

lemma unpublished_load: "act_keeps (unpublished s0) (load_startup_policy L T i False)"
  unfolding load_startup_policy_def act_when_def
  by (intro act_keeps_bind act_keeps_read act_keeps_if act_keeps_return) (auto split: option.split intro!: act_keeps_bind)

lemma unpublished_settle: "\<not> persists_policy i \<Longrightarrow> act_keeps (unpublished s0) (settle_policy L T i)"
  unfolding settle_policy_def Let_def
  by (auto simp: act_when_def split: prod.split intro!: act_keeps_bind unpublished_load)

text \<open>
  A maintenance command on an installation that exists publishes nothing: whatever it loads and however it
  ends, the tables of the policy and the recovery snapshot are those the daemon works with.
\<close>

lemma maintenance_publishes_nothing:
  assumes "\<not> sp_serve i" and "sp_database_preexisting i"
  shows "db_policy (su_database (snd (daemon_load L H T i s))) = db_policy (su_database s)
    \<and> su_recovery (snd (daemon_load L H T i s)) = su_recovery s"
proof -
  have p: "\<not> persists_policy i" using assms by (simp add: persists_policy_def)
  have "act_keeps (unpublished s) (daemon_load L H T i)"
    unfolding daemon_load_def
    by (intro act_keeps_bind act_keeps_read unpublished_lock unpublished_log unpublished_settle [OF p] unpublished_retention unpublished_sync)
  then have "unpublished s (snd (daemon_load L H T i s))"
    by (simp add: act_keeps_def unpublished_def)
  then show ?thesis by (simp add: unpublished_def start_frame_def)
qed

lemma maintenance_publishes_nothing_witness:
  "db_policy (su_database (snd (daemon_load sample_lib sample_host first_toml
     (first_install\<lparr>sp_serve := False, sp_database_preexisting := True\<rparr>) bare_machine))) = db_policy empty_database"
  using maintenance_publishes_nothing [of "first_install\<lparr>sp_serve := False, sp_database_preexisting := True\<rparr>"
      sample_lib sample_host first_toml bare_machine] by (simp add: bare_machine_def)

section \<open>What a start leaves\<close>

text \<open>
  C15. A start that succeeds enforces a valid policy. A start that may write it (a daemon that serves, or any
  command on a new database) leaves that policy in the database and in the recovery snapshot, wherever it
  was found and whatever statements may fail: this is the agreement every later edit keeps. For this the
  database holds no policy or the tables that storing a policy left, and for what the snapshot gives back,
  it can be read and TOML parses what it prints of the policy. Every other start is a maintenance command
  on an installation that exists, which leaves the tables and the snapshot as they were.
\<close>

theorem start_publishes_one_policy:
  assumes "daemon_load L H T i s = (Inr core, s')"
  shows "config_ok L (fc_config core) \<and> fc_database core = su_database s'
    \<and> (if persists_policy i
       then (tables_of_a_policy L (su_database s) \<longrightarrow> agreed L (d\<lparr>dm_core := core\<rparr>)
         \<and> (ss_fault (su_recovery s) ''read'' = None
            \<and> (\<forall>text. tl_print T (fc_config core) = Inr text \<longrightarrow> tl_parse T text = Inr (fc_config core))
            \<longrightarrow> load_snapshot L T (su_recovery s') = Inr (Some (fc_config core))))
       else db_policy (su_database s') = db_policy (su_database s) \<and> su_recovery s' = su_recovery s)"
proof -
  obtain s1 s2 where
    f: "start_frame (su_database s) (su_database s1)" "su_recovery s1 = su_recovery s"
    and p: "settle_policy L T i s1 = (Inr (fc_config core), s2)" and ok: "config_ok L (fc_config core)"
    and e: "fc_database core = su_database s'" "start_frame (su_database s2) (su_database s')" "su_recovery s' = su_recovery s2"
    using assms by (rule daemon_load_parts) auto
  show ?thesis
  proof (cases "persists_policy i")
    case True
    have known: "tables_of_a_policy L (su_database s1)" if "tables_of_a_policy L (su_database s)"
      using that load_depends [OF f(1)] f(1) by (simp add: tables_of_a_policy_def start_frame_def)
    show ?thesis using True e ok f(2) settled_policy [OF p True known ok]
      by (auto simp: agreed_def start_frame_def)
  next
    case False
    then show ?thesis using ok e(1) maintenance_publishes_nothing [of i L H T s] assms
      by (auto simp: persists_policy_def)
  qed
qed

theorem start_publishes_one_policy_witness:
  "\<exists>core. fst first_load = Inr core \<and> agreed sample_lib (sample_daemon\<lparr>dm_core := core\<rparr>)
     \<and> load_snapshot sample_lib first_toml (su_recovery (snd first_load)) = Inr (Some (fc_config core))"
proof -
  obtain core s' where r: "first_load = (Inr core, s')"
    using first_load_ok by (metis obj_sumE isl_def prod.collapse)
  have p: "persists_policy first_install" by (simp add: persists_policy_def first_install_def)
  have known: "tables_of_a_policy sample_lib (su_database bare_machine)"
    by (simp add: tables_of_a_policy_def bare_has_no_policy)
  have read: "ss_fault (su_recovery bare_machine) ''read'' = None" by (simp add: bare_machine_def)
  from start_publishes_one_policy [OF r [unfolded first_load_def], of sample_daemon] p known read first_toml_roundtrip
  show ?thesis by (intro exI [of _ core]) (auto simp: r)
qed

section \<open>An installation without its policy\<close>

text \<open>
  C16. The configuration file counts for a new installation only. Where the database is there, a start does the same
  whatever the file says, and with no policy in the database and no snapshot it fails.
\<close>

theorem existing_installation_ignores_configuration_file:
  assumes "sp_database_preexisting i"
  shows "daemon_load L H T (i\<lparr>sp_loaded := other\<rparr>) s = daemon_load L H T i s
    \<and> (has_policy_config (su_database s) = Inr False \<longrightarrow> load_snapshot L T (su_recovery s) = Inr None
       \<longrightarrow> \<not> (\<exists>core. fst (daemon_load L H T i s) = Inr core))"
proof -
  have l: "load_startup_policy L T (i\<lparr>sp_loaded := other\<rparr>) p = load_startup_policy L T i p" for p
    using assms by (intro ext) (simp add: load_startup_policy_def cong: if_cong option.case_cong)
  have "settle_policy L T (i\<lparr>sp_loaded := other\<rparr>) = settle_policy L T i"
    unfolding settle_policy_def l by (simp add: persists_policy_def announce_def)
  then have same: "daemon_load L H T (i\<lparr>sp_loaded := other\<rparr>) = daemon_load L H T i"
    by (simp add: daemon_load_def)
  have "False" if none: "has_policy_config (su_database s) = Inr False" "load_snapshot L T (su_recovery s) = Inr None"
    and ended: "fst (daemon_load L H T i s) = Inr core" for core
  proof -
    obtain s' where r: "daemon_load L H T i s = (Inr core, s')" using ended by (cases "daemon_load L H T i s") auto
    obtain s1 s2 config where f: "start_frame (su_database s) (su_database s1)" "su_recovery s1 = su_recovery s"
      and p: "settle_policy L T i s1 = (Inr config, s2)"
      using r by (rule daemon_load_parts)
    obtain loaded recovered s1' where "load_startup_policy L T i (persists_policy i) s1 = (Inr (loaded, recovered), s1')"
      using p by (rule settle_parts)
    then show False
      by (cases rule: load_startup_cases) (use none f load_depends [OF f(1)] assms in auto)
  qed
  with same show ?thesis by auto
qed

theorem existing_installation_ignores_configuration_file_witness:
  "\<not> (\<exists>core. fst (daemon_load sample_lib sample_host first_toml
     (first_install\<lparr>sp_database_preexisting := True\<rparr>) bare_machine) = Inr core)"
proof -
  have "load_snapshot sample_lib first_toml (su_recovery bare_machine) = Inr None"
    by (simp add: load_snapshot_def snapshot_text_def bare_machine_def)
  then show ?thesis
    using existing_installation_ignores_configuration_file
        [of "first_install\<lparr>sp_database_preexisting := True\<rparr>" sample_lib sample_host first_toml "Inr default_config" bare_machine]
      bare_has_no_policy by auto
qed

end
