(* ===== verification/Framing.thy ===== *)
theory Framing imports Json Text begin

text \<open>
  Messages between the browser and the native host, \<^verbatim>\<open>native-host/src/native_messaging.rs\<close>, and the bytes
  either end of a socket reads. A stream is the list of what the reads of its other end find: the bytes that
  have arrived by then, or an error of the system call; after the last entry the stream has ended.
\<close>

unbundle bit_operations_syntax

section \<open>Streams\<close>

datatype io_kind = NotFound | ConnectionRefused | UnexpectedEof | Interrupted | OtherKind

datatype io_error = IoError (io_kind: io_kind) (io_text: string)

type_synonym byte_source = "(io_error + u8 list) list"

text \<open>\<open>Read::read\<close> into a buffer of \<open>n\<close> bytes: what has arrived as far as it fits; no bytes mean the end.\<close>

fun read_some :: "nat \<Rightarrow> byte_source \<Rightarrow> (io_error + u8 list) \<times> byte_source" where
  "read_some n [] = (Inr [], [])"
| "read_some n (Inl e # rest) = (Inl e, rest)"
| "read_some n (Inr bytes # rest) = (Inr (take n bytes), if length bytes \<le> n then rest else Inr (drop n bytes) # rest)"

fun source_size :: "byte_source \<Rightarrow> nat" where
  "source_size [] = 0"
| "source_size (Inl e # rest) = Suc (source_size rest)"
| "source_size (Inr bytes # rest) = Suc (length bytes) + source_size rest"

lemma read_some_less:
  "read_some n src = (r, rest) \<Longrightarrow> src \<noteq> [] \<Longrightarrow> 0 < n \<Longrightarrow> source_size rest < source_size src"
  by (induction n src rule: read_some.induct) (auto split: if_splits)

lemma read_some_piece:
  "(Inr bytes, rest) = read_some n src \<Longrightarrow> bytes \<noteq> [] \<Longrightarrow> 0 < n \<Longrightarrow> source_size rest < source_size src"
  using read_some_less [of n src "Inr bytes" rest] by (cases src) auto

lemma read_some_end: "read_some n [] = (r, rest) \<longleftrightarrow> r = Inr [] \<and> rest = []"
  by auto

text \<open>\<open>Read::read_exact\<close>: interrupted calls are repeated, an early end is an error.\<close>

function read_exact :: "nat \<Rightarrow> byte_source \<Rightarrow> (io_error + u8 list) \<times> byte_source" where
  "read_exact n src =
     (if n = 0 then (Inr [], src)
      else if src = [] then (Inl (IoError UnexpectedEof ''failed to fill whole buffer''), [])
      else case read_some n src of
        (Inl e, rest) \<Rightarrow> if io_kind e = Interrupted then read_exact n rest else (Inl e, rest)
      | (Inr bytes, rest) \<Rightarrow>
          if bytes = [] then (Inl (IoError UnexpectedEof ''failed to fill whole buffer''), rest)
          else (case read_exact (n - length bytes) rest of
                  (Inl e, rest) \<Rightarrow> (Inl e, rest)
                | (Inr others, rest) \<Rightarrow> (Inr (bytes @ others), rest)))"
  by pat_completeness auto

termination
  by (relation "measure (\<lambda>(n, src). source_size src)") (auto dest: read_some_less [OF sym])

declare read_exact.simps [simp del]

text \<open>What is written, until the other end has gone: \<open>sk_room\<close> bytes can still be written, all where it is \<open>None\<close>.\<close>

record byte_sink =
  sk_bytes :: "u8 list"
  sk_room :: "nat option"

definition write_all :: "u8 list \<Rightarrow> byte_sink \<Rightarrow> (io_error + unit) \<times> byte_sink" where
  "write_all bytes sink =
     (case sk_room sink of
        None \<Rightarrow> (Inr (), sink\<lparr>sk_bytes := sk_bytes sink @ bytes\<rparr>)
      | Some room \<Rightarrow>
          (if length bytes \<le> room then Inr () else Inl (IoError OtherKind ''Broken pipe''),
           sink\<lparr>sk_bytes := sk_bytes sink @ take room bytes, sk_room := Some (room - length bytes)\<rparr>))"

section \<open>Errors of the host\<close>

datatype native_host_error =
  HostIo io_error
| HostJson string
| MessageTooLarge nat nat
| ResponseTooLarge
| DaemonResponseTooLarge nat
| EmptyDaemonResponse string
| InvalidSnapBridgeToken
| InvalidDaemonResponse string

fun native_host_error_text :: "native_host_error \<Rightarrow> string" where
  "native_host_error_text (HostIo e) = io_text e"
| "native_host_error_text (HostJson s) = s"
| "native_host_error_text (MessageTooLarge len limit) =
     ''native message length '' @ show_nat len @ '' exceeds limit '' @ show_nat limit"
| "native_host_error_text ResponseTooLarge = ''native response is too large''"
| "native_host_error_text (DaemonResponseTooLarge limit) = ''daemon response exceeded limit '' @ show_nat limit"
| "native_host_error_text (EmptyDaemonResponse socket) = ''daemon returned an empty response from '' @ socket"
| "native_host_error_text InvalidSnapBridgeToken = ''Snap native bridge token must be exactly 64 hexadecimal characters''"
| "native_host_error_text (InvalidDaemonResponse s) = ''daemon response is not valid JSON: '' @ s"

section \<open>The length header\<close>

definition max_message_bytes :: nat where
  "max_message_bytes = 1024 * 1024"

text \<open>The bytes of a \<open>u32\<close> in the order of the machine, \<open>be\<close> for the big-endian ones.\<close>

definition to_ne_bytes :: "bool \<Rightarrow> u32 \<Rightarrow> u8 list" where
  "to_ne_bytes be w =
     (let bytes = map (\<lambda>i. ucast (drop_bit (8 * i) w)) [0, 1, 2, 3] in if be then rev bytes else bytes)"

definition from_ne_bytes :: "bool \<Rightarrow> u8 list \<Rightarrow> u32" where
  "from_ne_bytes be bytes =
     foldr (\<lambda>b w. push_bit 8 w OR ucast b) (if be then rev bytes else bytes) 0"

text \<open>The header is read piece by piece; an end before its first byte is the end of the messages.\<close>

function read_header :: "u8 list \<Rightarrow> byte_source \<Rightarrow> (native_host_error + u8 list option) \<times> byte_source" where
  "read_header found src =
     (if 4 \<le> length found then (Inr (Some found), src)
      else case read_some (4 - length found) src of
        (Inl e, rest) \<Rightarrow> (Inl (HostIo e), rest)
      | (Inr bytes, rest) \<Rightarrow>
          if bytes = [] then
            (if found = [] then Inr None
             else Inl (HostIo (IoError UnexpectedEof ''partial native messaging length header'')), rest)
          else read_header (found @ bytes) rest)"
  by pat_completeness auto

termination
  by (relation "measure (\<lambda>(found, src). source_size src)") (auto dest: read_some_piece)

declare read_header.simps [simp del]

definition read_native_message :: "bool \<Rightarrow> byte_source \<Rightarrow> (native_host_error + u8 list option) \<times> byte_source" where
  "read_native_message be src =
     (case read_header [] src of
        (Inl e, rest) \<Rightarrow> (Inl e, rest)
      | (Inr None, rest) \<Rightarrow> (Inr None, rest)
      | (Inr (Some length_bytes), rest) \<Rightarrow>
          (let n = unat (from_ne_bytes be length_bytes) in
           if max_message_bytes < n then (Inl (MessageTooLarge n max_message_bytes), rest)
           else (case read_exact n rest of
                   (Inl e, rest) \<Rightarrow> (Inl (HostIo e), rest)
                 | (Inr payload, rest) \<Rightarrow> (Inr (Some payload), rest))))"

definition write_native_message :: "bool \<Rightarrow> u8 list \<Rightarrow> byte_sink \<Rightarrow> (native_host_error + unit) \<times> byte_sink" where
  "write_native_message be payload sink =
     (if 2 ^ 32 \<le> int (length payload) then (Inl ResponseTooLarge, sink)
      else case write_all (to_ne_bytes be (of_nat (length payload))) sink of
        (Inl e, sink) \<Rightarrow> (Inl (HostIo e), sink)
      | (Inr _, sink) \<Rightarrow> (case write_all payload sink of
            (Inl e, sink) \<Rightarrow> (Inl (HostIo e), sink)
          | (Inr _, sink) \<Rightarrow> (Inr (), sink)))"

text \<open>Reading to the end with a limit: \<open>read_daemon_response\<close> of the host and \<open>read_limited\<close> of the daemon.\<close>

function read_to_limit :: "nat \<Rightarrow> 'e \<Rightarrow> (io_error \<Rightarrow> 'e) \<Rightarrow> u8 list \<Rightarrow> byte_source \<Rightarrow> 'e + u8 list" where
  "read_to_limit limit too_large io found src =
     (case read_some 8192 src of
        (Inl e, rest) \<Rightarrow> Inl (io e)
      | (Inr bytes, rest) \<Rightarrow>
          if bytes = [] then Inr found
          else if limit < length found + length bytes then Inl too_large
          else read_to_limit limit too_large io (found @ bytes) rest)"
  by pat_completeness auto

termination
  by (relation "measure (\<lambda>(limit, too_large, io, found, src). source_size src)") (auto dest: read_some_piece)

declare read_to_limit.simps [simp del]

definition read_daemon_response :: "byte_source \<Rightarrow> native_host_error + u8 list" where
  "read_daemon_response = read_to_limit max_message_bytes (DaemonResponseTooLarge max_message_bytes) HostIo []"

section \<open>Bytes that arrive in pieces\<close>

text \<open>The stream brings these bytes and no error, in pieces of any sizes.\<close>

fun delivers :: "byte_source \<Rightarrow> u8 list \<Rightarrow> bool" where
  "delivers [] bytes \<longleftrightarrow> bytes = []"
| "delivers (Inl e # rest) bytes \<longleftrightarrow> False"
| "delivers (Inr piece # rest) bytes \<longleftrightarrow>
     piece \<noteq> [] \<and> take (length piece) bytes = piece \<and> delivers rest (drop (length piece) bytes)"

lemma read_some_delivers:
  assumes "delivers src bytes" "0 < n"
  obtains k rest where "read_some n src = (Inr (take k bytes), rest)" "delivers rest (drop k bytes)"
    "k \<le> n" "k \<le> length bytes" "k = 0 \<longleftrightarrow> bytes = []"
proof (cases src)
  case Nil
  then show ?thesis using assms that [of 0 "[]"] by simp
next
  case (Cons a rest)
  then obtain piece where a: "a = Inr piece" using assms(1) by (cases a) auto
  then have p: "piece \<noteq> []" "take (length piece) bytes = piece" "delivers rest (drop (length piece) bytes)"
    using assms(1) Cons by auto
  then have len: "length piece \<le> length bytes" by (metis length_take min.cobounded1)
  show ?thesis
  proof (cases "length piece \<le> n")
    case True
    then show ?thesis using p len Cons a that [of "length piece" rest] by fastforce
  next
    case False
    have "take (length piece - n) (drop n bytes) = drop n piece"
      using p(2) by (metis drop_take)
    then have "delivers (Inr (drop n piece) # rest) (drop n bytes)"
      using p False by simp
    moreover have "take n piece = take n bytes"
      using p(2) False by (metis min.absorb1 nat_le_linear take_take)
    ultimately show ?thesis using False Cons a len p assms(2) that [of n "Inr (drop n piece) # rest"] by fastforce
  qed
qed

lemma read_exact_delivers:
  assumes "delivers src bytes" "n \<le> length bytes"
  shows "\<exists>rest. read_exact n src = (Inr (take n bytes), rest) \<and> delivers rest (drop n bytes)"
  using assms
proof (induction "source_size src" arbitrary: n src bytes rule: less_induct)
  case less
  show ?case
  proof (cases "n = 0")
    case True
    then show ?thesis using less.prems by (simp add: read_exact.simps)
  next
    case False
    then have ne: "bytes \<noteq> []" "src \<noteq> []" using less.prems by auto
    obtain k rest where r: "read_some n src = (Inr (take k bytes), rest)" "delivers rest (drop k bytes)"
      "k \<le> n" "k \<le> length bytes" "k = 0 \<longleftrightarrow> bytes = []"
      using less.prems(1) False by (auto elim: read_some_delivers)
    have "source_size rest < source_size src" using read_some_less [OF r(1) ne(2)] False by simp
    moreover have "n - k \<le> length (drop k bytes)" using less.prems(2) by (simp add: diff_le_mono)
    ultimately obtain rest' where "read_exact (n - k) rest = (Inr (take (n - k) (drop k bytes)), rest')"
      "delivers rest' (drop (n - k) (drop k bytes))"
      using less.hyps [OF _ r(2), of "n - k"] by blast
    then show ?thesis using r ne False by (auto simp: read_exact.simps [of n] min_def take_add [symmetric])
  qed
qed

lemma read_header_delivers:
  assumes "delivers src bytes" "length found \<le> 4" "4 \<le> length found + length bytes"
  shows "\<exists>rest. read_header found src = (Inr (Some (found @ take (4 - length found) bytes)), rest)
    \<and> delivers rest (drop (4 - length found) bytes)"
  using assms
proof (induction "source_size src" arbitrary: found src bytes rule: less_induct)
  case less
  show ?case
  proof (cases "length found = 4")
    case True
    then show ?thesis using less.prems by (simp add: read_header.simps)
  next
    case False
    then have ne: "bytes \<noteq> []" "src \<noteq> []" using less.prems by auto
    obtain k rest where r: "read_some (4 - length found) src = (Inr (take k bytes), rest)" "delivers rest (drop k bytes)"
      "k \<le> 4 - length found" "k \<le> length bytes" "k = 0 \<longleftrightarrow> bytes = []"
      using less.prems(1) by (rule read_some_delivers [where n = "4 - length found"]) (use less.prems(2) False in auto)
    have "source_size rest < source_size src" using read_some_less [OF r(1) ne(2)] False less.prems(2) by simp
    moreover have "length (found @ take k bytes) = length found + k" using r(4) by simp
    moreover have "length found + k \<le> 4" "4 \<le> length found + k + length (drop k bytes)"
      using r(3,4) less.prems(2,3) by auto
    ultimately obtain rest' where "read_header (found @ take k bytes) rest
        = (Inr (Some ((found @ take k bytes) @ take (4 - (length found + k)) (drop k bytes))), rest')"
      "delivers rest' (drop (4 - (length found + k)) (drop k bytes))"
      using less.hyps [OF _ r(2), of "found @ take k bytes"] by metis
    moreover have e: "k + (4 - (length found + k)) = 4 - length found" using r(3) by arith
    moreover have "take k bytes @ take (4 - (length found + k)) (drop k bytes) = take (4 - length found) bytes"
      using e by (simp add: take_add [symmetric])
    ultimately show ?thesis using r ne False less.prems by (auto simp: read_header.simps [of found])
  qed
qed

section \<open>Frames\<close>

lemma ne_bytes_length [simp]: "length (to_ne_bytes be w) = 4"
  by (simp add: to_ne_bytes_def Let_def)

lemma ne_bytes_back [simp]: "from_ne_bytes be (to_ne_bytes be w) = w"
proof -
  have "push_bit 8 (push_bit 8 (push_bit 8 (push_bit 8 0 OR ucast (ucast (drop_bit 24 w) :: u8)) OR ucast (ucast (drop_bit 16 w) :: u8))
      OR ucast (ucast (drop_bit 8 w) :: u8)) OR ucast (ucast w :: u8) = (w :: u32)" (is "?joined = w")
  proof (rule bit_word_eqI)
    fix n assume "n < LENGTH(32)"
    then consider "n < 8" | "8 \<le> n" "n < 16" | "16 \<le> n" "n < 24" | "24 \<le> n" "n < 32" by fastforce
    then show "bit ?joined n = bit w n"
      by cases (auto simp: bit_simps)
  qed
  then show ?thesis by (simp add: from_ne_bytes_def to_ne_bytes_def Let_def)
qed

definition frame_of :: "bool \<Rightarrow> u8 list \<Rightarrow> u8 list" where
  "frame_of be payload = to_ne_bytes be (of_nat (length payload)) @ payload"

lemma write_message:
  assumes "length payload < 2 ^ 32" "sk_room sink = None"
  shows "write_native_message be payload sink = (Inr (), sink\<lparr>sk_bytes := sk_bytes sink @ frame_of be payload\<rparr>)"
  using assms by (simp add: write_native_message_def write_all_def frame_of_def)

lemma read_message:
  assumes "delivers src (frame_of be payload @ others)" "length payload \<le> max_message_bytes"
  shows "\<exists>rest. read_native_message be src = (Inr (Some payload), rest) \<and> delivers rest others"
proof -
  have n: "unat (of_nat (length payload) :: u32) = length payload"
    using assms(2) by (simp add: max_message_bytes_def unsigned_of_nat take_bit_nat_eq_self)
  obtain rest where h: "read_header [] src = (Inr (Some (to_ne_bytes be (of_nat (length payload)))), rest)"
    "delivers rest (payload @ others)"
    using read_header_delivers [OF assms(1), of "[]"] by (auto simp: frame_of_def)
  obtain rest' where "read_exact (length payload) rest = (Inr payload, rest')" "delivers rest' others"
    using read_exact_delivers [OF h(2), of "length payload"] by auto
  then show ?thesis using h n assms(2) by (simp add: read_native_message_def Let_def)
qed

lemma read_end: "read_native_message be [] = (Inr None, [])"
  by (simp add: read_native_message_def read_header.simps)

lemma read_to_limit_delivers:
  assumes "delivers src bytes"
  shows "read_to_limit limit too_large io found src =
    (if bytes \<noteq> [] \<and> limit < length found + length bytes then Inl too_large else Inr (found @ bytes))"
  using assms
proof (induction "source_size src" arbitrary: found src bytes rule: less_induct)
  case less
  obtain k rest where r: "read_some 8192 src = (Inr (take k bytes), rest)" "delivers rest (drop k bytes)"
    "k \<le> 8192" "k \<le> length bytes" "k = 0 \<longleftrightarrow> bytes = []"
    using read_some_delivers [OF less.prems, of 8192] by auto
  show ?case
  proof (cases "bytes = []")
    case True
    then show ?thesis using r by (simp add: read_to_limit.simps [of limit _ _ found])
  next
    case False
    then have "src \<noteq> []" using less.prems by auto
    then have "source_size rest < source_size src" using read_some_less [OF r(1)] by simp
    then have "read_to_limit limit too_large io (found @ take k bytes) rest =
        (if drop k bytes \<noteq> [] \<and> limit < length found + length bytes then Inl too_large else Inr (found @ bytes))"
      using less.hyps [OF _ r(2), of "found @ take k bytes"] r(4) by simp
    then show ?thesis using r False by (auto simp: read_to_limit.simps [of limit _ _ found] min_def)
  qed
qed

end
