(* ===== verification/NativeHost.thy ===== *)
theory NativeHost imports Framing Emergency begin

text \<open>
  The native host, \<^verbatim>\<open>native-host/src\<close>: it translates between the messages of the browser and the requests of
  the daemon (\<open>protocol.rs\<close>), sends them to the daemon, which it may start again (\<open>daemon_client.rs\<close>), and
  answers every message (\<open>bridge.rs\<close>). Parsing and printing JSON (crate \<^verbatim>\<open>serde_json\<close>) is a parameter; a
  connection is given by what its system calls find.
\<close>

record wire_json_lib =
  wj_parse :: "u8 list \<Rightarrow> string + json"
  wj_print :: "json \<Rightarrow> u8 list"
  wj_text :: "json \<Rightarrow> string"

section \<open>Messages\<close>

datatype browser_message_kind = LegacyUrl | LegacyHeartbeat | JsonRpc | UnknownMessage

record prepared_request =
  pr_daemon_payload :: "u8 list"
  pr_browser_kind :: browser_message_kind

definition str_json :: "string option \<Rightarrow> json" where
  "str_json s = (case s of None \<Rightarrow> JNull | Some s \<Rightarrow> JString s)"

definition str_in :: "json \<Rightarrow> string \<Rightarrow> string option" where
  "str_in v key = Option.bind (get v key) as_str"

definition rpc_request :: "string \<Rightarrow> json \<Rightarrow> json" where
  "rpc_request method params =
     object_of [(''jsonrpc'', JString ''2.0''), (''id'', JNull), (''method'', JString method), (''params'', params)]"

definition prepare_daemon_request :: "wire_json_lib \<Rightarrow> u8 list \<Rightarrow> prepared_request" where
  "prepare_daemon_request J payload =
     (case wj_parse J payload of
        Inl _ \<Rightarrow> \<lparr>pr_daemon_payload = payload, pr_browser_kind = JsonRpc\<rparr>
      | Inr v \<Rightarrow>
          if get v ''method'' \<noteq> None then \<lparr>pr_daemon_payload = payload, pr_browser_kind = JsonRpc\<rparr>
          else if str_in v ''type'' = Some ''extension_heartbeat'' then
            \<lparr>pr_daemon_payload = wj_print J (rpc_request ''extension_heartbeat''
               (object_of [(''extension_id'', str_json (str_in v ''extensionId'')),
                  (''extension_version'', str_json (str_in v ''extensionVersion''))])),
             pr_browser_kind = LegacyHeartbeat\<rparr>
          else (case str_in v ''url'' of
              Some url \<Rightarrow> \<lparr>pr_daemon_payload = wj_print J (rpc_request ''evaluate_url'' (object_of [(''url'', JString url)])),
                           pr_browser_kind = LegacyUrl\<rparr>
            | None \<Rightarrow> \<lparr>pr_daemon_payload = payload, pr_browser_kind = UnknownMessage\<rparr>))"

definition classify_browser_payload :: "wire_json_lib \<Rightarrow> u8 list \<Rightarrow> browser_message_kind" where
  "classify_browser_payload J payload =
     (case wj_parse J payload of
        Inl _ \<Rightarrow> JsonRpc
      | Inr v \<Rightarrow>
          if get v ''method'' \<noteq> None then JsonRpc
          else if str_in v ''type'' = Some ''extension_heartbeat'' then LegacyHeartbeat
          else if get v ''url'' \<noteq> None then LegacyUrl
          else UnknownMessage)"

definition allow_with_error :: "json \<Rightarrow> json" where
  "allow_with_error e = object_of [(''action'', JString ''allow''), (''error'', e)]"

definition legacy_url_response :: "json \<Rightarrow> json" where
  "legacy_url_response response =
     (case get response ''error'' of
        Some e \<Rightarrow> allow_with_error e
      | None \<Rightarrow>
          (case get response ''result'' of
             None \<Rightarrow> allow_with_error (JString ''daemon response missing result'')
           | Some result \<Rightarrow>
               if str_in result ''decision'' = Some ''block'' then
                 object_of [(''action'', JString ''block''),
                   (''reason'', case get result ''reason'' of Some r \<Rightarrow> r | None \<Rightarrow> JNull)]
               else object_of [(''action'', JString ''allow'')]))"

definition legacy_heartbeat_response :: "json \<Rightarrow> json" where
  "legacy_heartbeat_response response =
     (case get response ''error'' of
        Some e \<Rightarrow> object_of [(''type'', JString ''extension_heartbeat''), (''status'', JString ''error''), (''error'', e)]
      | None \<Rightarrow> object_of [(''type'', JString ''extension_heartbeat''), (''status'', JString ''ok'')])"

fun fallback_response_for_kind :: "browser_message_kind \<Rightarrow> json \<Rightarrow> string \<Rightarrow> json option \<Rightarrow> json" where
  "fallback_response_for_kind LegacyHeartbeat request_id reason diagnostic =
     object_of [(''type'', JString ''extension_heartbeat''), (''status'', JString ''error''), (''error'', JString reason)]"
| "fallback_response_for_kind JsonRpc request_id reason diagnostic =
     object_of [(''jsonrpc'', JString ''2.0''), (''id'', request_id),
       (''error'', object_of [(''code'', JInt (- 32000)), (''message'', JString ''native host error''),
          (''data'', JString reason),
          (''blockuntu_diagnostic'', case diagnostic of None \<Rightarrow> JNull | Some d \<Rightarrow> d)])]"
| "fallback_response_for_kind LegacyUrl request_id reason diagnostic = allow_with_error (JString reason)"
| "fallback_response_for_kind UnknownMessage request_id reason diagnostic = allow_with_error (JString reason)"

definition prepare_browser_response :: "wire_json_lib \<Rightarrow> browser_message_kind \<Rightarrow> u8 list \<Rightarrow> u8 list" where
  "prepare_browser_response J kind response =
     wj_print J (case wj_parse J response of
        Inl _ \<Rightarrow> fallback_response_for_kind kind JNull ''daemon returned invalid JSON'' None
      | Inr v \<Rightarrow> (case kind of
            LegacyUrl \<Rightarrow> legacy_url_response v
          | LegacyHeartbeat \<Rightarrow> legacy_heartbeat_response v
          | _ \<Rightarrow> v))"

definition fallback_response :: "wire_json_lib \<Rightarrow> u8 list \<Rightarrow> string \<Rightarrow> json option \<Rightarrow> u8 list" where
  "fallback_response J payload reason diagnostic =
     wj_print J (fallback_response_for_kind (classify_browser_payload J payload)
       (case wj_parse J payload of
          Inl _ \<Rightarrow> JNull
        | Inr v \<Rightarrow> (case get v ''id'' of Some request_id \<Rightarrow> request_id | None \<Rightarrow> JNull))
       reason diagnostic)"

section \<open>Connections to the daemon\<close>

datatype daemon_endpoint = UnixSocket string | SnapBridge (sb_address: string) (sb_token: string)

text \<open>
  An attempt to reach the daemon: the error of connecting, how much can be written, what is read, and the
  time it takes. Setting the timeouts and shutting down the writing side fail like a write.
\<close>

record connection =
  cn_refused :: "io_error option"
  cn_sink :: byte_sink
  cn_shutdown :: "io_error option"
  cn_response :: byte_source
  cn_nanos :: nat

definition is_ascii_hexdigit :: "u8 \<Rightarrow> bool" where
  "is_ascii_hexdigit b \<longleftrightarrow> (48 \<le> b \<and> b \<le> 57) \<or> (65 \<le> b \<and> b \<le> 70) \<or> (97 \<le> b \<and> b \<le> 102)"

definition token_is_well_formed :: "string \<Rightarrow> bool" where
  "token_is_well_formed token \<longleftrightarrow>
     length (utf8_bytes token) = 64 \<and> list_all is_ascii_hexdigit (utf8_bytes token)"

text \<open>\<open>BLOCKUNTU-SNAP-BRIDGE\<close> and a space.\<close>

definition snap_bridge_header :: "u8 list" where
  "snap_bridge_header = utf8_bytes ''BLOCKUNTU-SNAP-BRIDGE ''"

fun write_pieces :: "u8 list list \<Rightarrow> byte_sink \<Rightarrow> (io_error + unit) \<times> byte_sink" where
  "write_pieces [] sink = (Inr (), sink)"
| "write_pieces (piece # pieces) sink =
     (case write_all piece sink of
        (Inl e, sink) \<Rightarrow> (Inl e, sink)
      | (Inr _, sink) \<Rightarrow> write_pieces pieces sink)"

definition request_pieces :: "daemon_endpoint \<Rightarrow> u8 list \<Rightarrow> u8 list list" where
  "request_pieces endpoint payload =
     (case endpoint of
        UnixSocket _ \<Rightarrow> [payload]
      | SnapBridge _ token \<Rightarrow> [snap_bridge_header, utf8_bytes token, [10], payload])"

definition endpoint_text :: "daemon_endpoint \<Rightarrow> string" where
  "endpoint_text endpoint = (case endpoint of UnixSocket path \<Rightarrow> path | SnapBridge address _ \<Rightarrow> address)"

text \<open>\<open>forward_to_daemon\<close> and \<open>forward_to_snap_bridge\<close>, which differ in the check of the token and the header.\<close>

definition forward :: "wire_json_lib \<Rightarrow> daemon_endpoint \<Rightarrow> connection \<Rightarrow> u8 list \<Rightarrow> native_host_error + u8 list" where
  "forward J endpoint cn payload =
     (if (case endpoint of UnixSocket _ \<Rightarrow> False | SnapBridge _ token \<Rightarrow> \<not> token_is_well_formed token)
      then Inl InvalidSnapBridgeToken
      else case cn_refused cn of
        Some e \<Rightarrow> Inl (HostIo e)
      | None \<Rightarrow>
          (case fst (write_pieces (request_pieces endpoint payload) (cn_sink cn)) of
             Inl e \<Rightarrow> Inl (HostIo e)
           | Inr _ \<Rightarrow>
               (case cn_shutdown cn of
                  Some e \<Rightarrow> Inl (HostIo e)
                | None \<Rightarrow>
                    and_then (read_daemon_response (cn_response cn)) (\<lambda>response.
                    and_then (ensure (response \<noteq> []) (EmptyDaemonResponse (endpoint_text endpoint))) (\<lambda>_.
                    case wj_parse J response of
                      Inl e \<Rightarrow> Inl (InvalidDaemonResponse e)
                    | Inr _ \<Rightarrow> Inr response)))))"

definition should_attempt_revival :: "native_host_error \<Rightarrow> bool" where
  "should_attempt_revival e =
     (case e of HostIo io \<Rightarrow> io_kind io = NotFound \<or> io_kind io = ConnectionRefused | _ \<Rightarrow> False)"

section \<open>Starting the daemon again\<close>

text \<open>Durations and moments in nanoseconds.\<close>

record daemon_revival_config =
  rv_wait_timeout :: nat
  rv_retry_interval :: nat
  rv_min_interval :: nat

record daemon_client =
  dc_endpoint :: daemon_endpoint
  dc_revival :: "daemon_revival_config option"

text \<open>The clock of the host, when it last started the daemon, every start, and how many connections were tried.\<close>

record client_state =
  cs_now :: nat
  cs_last_revival :: "nat option"
  cs_starts :: "nat list"
  cs_tried :: nat

definition forward_step ::
  "wire_json_lib \<Rightarrow> (nat \<Rightarrow> connection) \<Rightarrow> daemon_endpoint \<Rightarrow> u8 list \<Rightarrow> client_state \<Rightarrow> (native_host_error + u8 list) \<times> client_state" where
  "forward_step J net endpoint payload s =
     (let cn = net (cs_tried s) in
      (forward J endpoint cn payload, s\<lparr>cs_now := cs_now s + cn_nanos cn, cs_tried := Suc (cs_tried s)\<rparr>))"

definition spawn_revival_command_if_due :: "daemon_revival_config \<Rightarrow> client_state \<Rightarrow> client_state" where
  "spawn_revival_command_if_due rv s =
     (if (case cs_last_revival s of None \<Rightarrow> True | Some earlier \<Rightarrow> rv_min_interval rv \<le> cs_now s - earlier)
      then s\<lparr>cs_last_revival := Some (cs_now s), cs_starts := cs_starts s @ [cs_now s]\<rparr>
      else s)"

text \<open>Without an interval the loop need not end before the time is over; it then gives no result.\<close>

partial_function (option) retry_loop ::
  "wire_json_lib \<Rightarrow> (nat \<Rightarrow> connection) \<Rightarrow> daemon_endpoint \<Rightarrow> u8 list \<Rightarrow> nat \<Rightarrow> nat \<Rightarrow> client_state
   \<Rightarrow> ((native_host_error + u8 list) \<times> client_state) option" where
  "retry_loop J net endpoint payload interval deadline s =
     (let attempt = forward_step J net endpoint payload (s\<lparr>cs_now := cs_now s + interval\<rparr>) in
      case fst attempt of
        Inr response \<Rightarrow> Some (Inr response, snd attempt)
      | Inl e \<Rightarrow>
          if should_attempt_revival e \<and> cs_now (snd attempt) < deadline
          then retry_loop J net endpoint payload interval deadline (snd attempt)
          else Some (Inl e, snd attempt))"

definition retry_after_revival ::
  "wire_json_lib \<Rightarrow> (nat \<Rightarrow> connection) \<Rightarrow> daemon_endpoint \<Rightarrow> u8 list \<Rightarrow> daemon_revival_config \<Rightarrow> client_state
   \<Rightarrow> ((native_host_error + u8 list) \<times> client_state) option" where
  "retry_after_revival J net endpoint payload rv s =
     retry_loop J net endpoint payload (rv_retry_interval rv) (cs_now s + rv_wait_timeout rv) s"

definition send_with_optional_revival ::
  "wire_json_lib \<Rightarrow> (nat \<Rightarrow> connection) \<Rightarrow> daemon_client \<Rightarrow> u8 list \<Rightarrow> client_state
   \<Rightarrow> ((native_host_error + u8 list) \<times> client_state) option" where
  "send_with_optional_revival J net client payload s =
     (let first = forward_step J net (dc_endpoint client) payload s in
      case fst first of
        Inr response \<Rightarrow> Some (Inr response, snd first)
      | Inl first_error \<Rightarrow>
          (case dc_revival client of
             None \<Rightarrow> Some (Inl first_error, snd first)
           | Some rv \<Rightarrow>
               if \<not> should_attempt_revival first_error then Some (Inl first_error, snd first)
               else (case retry_after_revival J net (dc_endpoint client) payload rv
                             (spawn_revival_command_if_due rv (snd first)) of
                       None \<Rightarrow> None
                     | Some (Inr response, s') \<Rightarrow> Some (Inr response, s')
                     | Some (Inl _, s') \<Rightarrow> Some (Inl first_error, s'))))"

section \<open>The bridge\<close>

text \<open>What the diagnostics of a failure show of the process: its id, the clock, and the time a request took.\<close>

record bridge_host =
  bh_big_endian :: bool
  bh_pid :: nat
  bh_unix_nanos :: "nat \<Rightarrow> nat"
  bh_elapsed_ms :: "nat \<Rightarrow> nat"

definition request_metadata :: "wire_json_lib \<Rightarrow> u8 list \<Rightarrow> string \<times> string" where
  "request_metadata J payload =
     (case wj_parse J payload of
        Inl _ \<Rightarrow> (''invalid_json'', ''null'')
      | Inr v \<Rightarrow>
          (case str_in v ''method'' of
             Some method \<Rightarrow> method
           | None \<Rightarrow> (case str_in v ''type'' of
                 Some kind \<Rightarrow> kind
               | None \<Rightarrow> if get v ''url'' \<noteq> None then ''legacy_evaluate_url'' else ''unknown''),
           case get v ''id'' of Some request_id \<Rightarrow> wj_text J request_id | None \<Rightarrow> ''null''))"

definition failure_diagnostic :: "wire_json_lib \<Rightarrow> bridge_host \<Rightarrow> nat \<Rightarrow> nat \<Rightarrow> u8 list \<Rightarrow> native_host_error \<Rightarrow> json" where
  "failure_diagnostic J h n sequence payload e =
     (let (method, request_id) = request_metadata J payload in
      object_of
        [(''id'', JString (''native:'' @ show_nat (bh_pid h) @ '':'' @ show_nat (bh_unix_nanos h n) @ '':'' @ show_nat sequence)),
         (''component'', JString ''native_host''),
         (''severity'', JString ''error''),
         (''kind'', JString ''rpc_failed''),
         (''message'', JString (''pid='' @ show_nat (bh_pid h) @ '' id='' @ request_id @ '' method='' @ method
            @ '' elapsed_ms='' @ show_nat (bh_elapsed_ms h n) @ '' request_bytes='' @ show_nat (length payload)
            @ '' error='' @ native_host_error_text e)),
         (''request_id'', JString request_id),
         (''method'', JString method)])"

text \<open>The daemon client is a transport with a state of its own, which answers or fails.\<close>

type_synonym 't transport = "u8 list \<Rightarrow> 't \<Rightarrow> (native_host_error + u8 list) \<times> 't"

definition process_browser_payload :: "wire_json_lib \<Rightarrow> 't transport \<Rightarrow> u8 list \<Rightarrow> 't \<Rightarrow> (native_host_error + u8 list) \<times> 't" where
  "process_browser_payload J send payload t =
     (let prepared = prepare_daemon_request J payload in
      case send (pr_daemon_payload prepared) t of
        (Inl e, t) \<Rightarrow> (Inl e, t)
      | (Inr response, t) \<Rightarrow> (Inr (prepare_browser_response J (pr_browser_kind prepared) response), t))"

text \<open>The answer to the \<open>n\<close>th message, and the number of the next diagnostic.\<close>

definition answer_message ::
  "wire_json_lib \<Rightarrow> bridge_host \<Rightarrow> 't transport \<Rightarrow> nat \<Rightarrow> u8 list \<Rightarrow> nat \<times> 't \<Rightarrow> u8 list \<times> nat \<times> 't" where
  "answer_message J h send n payload = (\<lambda>(sequence, t).
     case process_browser_payload J send payload t of
       (Inr response, t) \<Rightarrow> (response, sequence, t)
     | (Inl e, t) \<Rightarrow>
         (fallback_response J payload ''backend unavailable'' (Some (failure_diagnostic J h n sequence payload e)),
          Suc sequence, t))"

lemma read_header_less:
  "read_header found src = (Inr (Some bytes), rest) \<Longrightarrow> source_size rest \<le> source_size src
    \<and> (length found < 4 \<longrightarrow> source_size rest < source_size src)"
proof (induction found src rule: read_header.induct)
  case (1 found src)
  show ?case
  proof (cases "4 \<le> length found")
    case True
    then show ?thesis using "1.prems" by (simp add: read_header.simps [of found])
  next
    case False
    obtain r next_src where s: "read_some (4 - length found) src = (r, next_src)" by fastforce
    then obtain piece where p: "r = Inr piece" "piece \<noteq> []"
      using "1.prems" False by (auto simp: read_header.simps [of found] split: sum.splits if_splits)
    then have "source_size next_src < source_size src"
      using s False by (intro read_some_piece [of piece _ "4 - length found"]) auto
    moreover have "source_size rest \<le> source_size next_src"
      using "1.IH" [of r next_src piece] "1.prems" s p False by (simp add: read_header.simps [of found src])
    ultimately show ?thesis by simp
  qed
qed

lemma read_exact_less: "read_exact n src = (r, rest) \<Longrightarrow> source_size rest \<le> source_size src"
proof (induction n src arbitrary: r rest rule: read_exact.induct)
  case (1 n src)
  show ?case
  proof (cases "n = 0 \<or> src = []")
    case True
    then show ?thesis using "1.prems" read_exact.simps [of n src] by (auto split: if_splits)
  next
    case False
    obtain q next_src where s: "read_some n src = (q, next_src)" by fastforce
    then have "source_size next_src < source_size src" using read_some_less False by blast
    moreover have "source_size rest \<le> source_size next_src"
      using "1.prems" "1.IH" [OF _ _ s [symmetric]] s False
      by (fastforce simp: read_exact.simps [of n src] split: sum.splits if_splits prod.splits)
    ultimately show ?thesis by simp
  qed
qed

lemma read_native_message_less:
  "(Inr (Some payload), rest) = read_native_message be src \<Longrightarrow> source_size rest < source_size src"
  by (auto simp: read_native_message_def Let_def dest!: read_header_less read_exact_less
      split: prod.splits sum.splits option.splits if_splits)

function run_bridge ::
  "wire_json_lib \<Rightarrow> bridge_host \<Rightarrow> 't transport \<Rightarrow> nat \<Rightarrow> byte_source \<Rightarrow> byte_sink \<Rightarrow> nat \<times> 't
   \<Rightarrow> (native_host_error + unit) \<times> byte_sink \<times> nat \<times> 't" where
  "run_bridge J h send n input sink st =
     (case read_native_message (bh_big_endian h) input of
        (Inl e, _) \<Rightarrow> (Inl e, sink, st)
      | (Inr None, _) \<Rightarrow> (Inr (), sink, st)
      | (Inr (Some payload), input') \<Rightarrow>
          (let (response, st) = answer_message J h send n payload st in
           case write_native_message (bh_big_endian h) response sink of
             (Inl e, sink) \<Rightarrow> (Inl e, sink, st)
           | (Inr _, sink) \<Rightarrow> run_bridge J h send (Suc n) input' sink st))"
  by pat_completeness auto

termination
  by (relation "measure (\<lambda>(J, h, send, n, input, sink, st). source_size input)") (auto dest: read_native_message_less)

declare run_bridge.simps [simp del]

end
