(* ===== verification/Wire.thy ===== *)
theory Wire imports NativeHost begin

text \<open>
  The daemon's end of a connection, \<^verbatim>\<open>focusd/src/app.rs\<close> and \<^verbatim>\<open>focusd/src/rpc.rs\<close>: what a connection of a
  confined browser must present before its request is read, and how a request becomes a call of a method and
  the result a response. The methods and the texts of their errors are parameters here.
\<close>

section \<open>Requests of confined browsers\<close>

datatype wire_rejection =
  RequestTooLarge nat
| BridgeTokenMalformed string
| BridgeHeaderMissing
| BridgeHeaderInvalid
| BridgeAuthenticationFailed
| BridgePayloadMissing
| WireIo string

definition max_payload_bytes :: nat where
  "max_payload_bytes = 1024 * 1024"

definition read_limited :: "byte_source \<Rightarrow> wire_rejection + u8 list" where
  "read_limited = read_to_limit max_payload_bytes (RequestTooLarge max_payload_bytes) (\<lambda>e. WireIo (io_text e)) []"

text \<open>\<open>contents\<close> is what reading the file of the token gives.\<close>

definition read_snap_native_bridge_token :: "string \<Rightarrow> string + string \<Rightarrow> wire_rejection + string" where
  "read_snap_native_bridge_token path contents =
     (case contents of
        Inl e \<Rightarrow> Inl (WireIo e)
      | Inr contents \<Rightarrow>
          (let token = trim contents in
           if length (utf8_bytes token) \<noteq> 64 \<or> \<not> list_all is_ascii_hexdigit (utf8_bytes token)
           then Inl (BridgeTokenMalformed path) else Inr token))"

definition constant_time_equals :: "u8 list \<Rightarrow> u8 list \<Rightarrow> bool" where
  "constant_time_equals left right =
     (if length left \<noteq> length right then False
      else fold (\<lambda>(l, r) difference. difference OR (l XOR r)) (zip left right) 0 = 0)"

definition strip_bytes :: "u8 list \<Rightarrow> u8 list \<Rightarrow> u8 list option" where
  "strip_bytes p bytes = (if take (length p) bytes = p then Some (drop (length p) bytes) else None)"

text \<open>The position of the first line feed, \<open>iter().position\<close>.\<close>

fun line_end :: "u8 list \<Rightarrow> nat option" where
  "line_end [] = None"
| "line_end (b # bytes) = (if b = 10 then Some 0 else map_option Suc (line_end bytes))"

definition snap_native_bridge_payload :: "u8 list \<Rightarrow> string \<Rightarrow> wire_rejection + u8 list" where
  "snap_native_bridge_payload request expected_token =
     (case line_end request of
        None \<Rightarrow> Inl BridgeHeaderMissing
      | Some header_end \<Rightarrow>
          (case strip_bytes snap_bridge_header (take header_end request) of
             None \<Rightarrow> Inl BridgeHeaderInvalid
           | Some supplied_token \<Rightarrow>
               if \<not> constant_time_equals supplied_token (utf8_bytes expected_token) then Inl BridgeAuthenticationFailed
               else (let payload = drop (Suc header_end) request in
                     if payload = [] then Inl BridgePayloadMissing else Inr payload)))"

section \<open>Requests and responses\<close>

text \<open>
  The texts the responses show: of a request \<^verbatim>\<open>serde_json\<close> cannot read, of a rejected request and of another
  error.
\<close>

record rpc_texts =
  rt_invalid_request :: "json \<Rightarrow> string"
  rt_rejection :: "rejection \<Rightarrow> string"
  rt_error :: "daemon_error \<Rightarrow> string"

definition jsonrpc_error :: "json option \<Rightarrow> int \<Rightarrow> string \<Rightarrow> string option \<Rightarrow> json" where
  "jsonrpc_error request_id code message data =
     object_of [(''jsonrpc'', JString ''2.0''), (''id'', case request_id of None \<Rightarrow> JNull | Some v \<Rightarrow> v),
       (''error'', object_of [(''code'', JInt code), (''message'', JString message), (''data'', str_json data)])]"

record json_rpc_request =
  jq_id :: "json option"
  jq_method :: "string option"
  jq_params :: json

text \<open>A field of type \<open>Option\<close>: missing and \<open>null\<close> are \<open>None\<close>, a value of another type is an error.\<close>

definition optional_string :: "json option \<Rightarrow> string option option" where
  "optional_string v =
     (case v of None \<Rightarrow> Some None | Some JNull \<Rightarrow> Some None | Some (JString s) \<Rightarrow> Some (Some s) | _ \<Rightarrow> None)"

definition optional_value :: "json option \<Rightarrow> json option" where
  "optional_value v = (if v = Some JNull then None else v)"

text \<open>\<open>serde\<close> reads a structure from an object, or from an array of its fields in order.\<close>

fun json_rpc_request_of :: "json \<Rightarrow> json_rpc_request option" where
  "json_rpc_request_of (JObject m) =
     (case (optional_string (map_get m ''jsonrpc''), optional_string (map_get m ''method'')) of
        (Some _, Some method) \<Rightarrow> Some \<lparr>jq_id = optional_value (map_get m ''id''), jq_method = method,
           jq_params = (case map_get m ''params'' of None \<Rightarrow> JNull | Some v \<Rightarrow> v)\<rparr>
      | _ \<Rightarrow> None)"
| "json_rpc_request_of (JArray (version # request_id # method # others)) =
     (case (optional_string (Some version), optional_string (Some method), others) of
        (Some _, Some method, []) \<Rightarrow>
          Some \<lparr>jq_id = optional_value (Some request_id), jq_method = method, jq_params = JNull\<rparr>
      | (Some _, Some method, [params]) \<Rightarrow>
          Some \<lparr>jq_id = optional_value (Some request_id), jq_method = method, jq_params = params\<rparr>
      | _ \<Rightarrow> None)"
| "json_rpc_request_of _ = None"

record legacy_request =
  lq_message_type :: "string option"
  lq_url :: "string option"
  lq_extension_id :: "string option"
  lq_extension_version :: "string option"

definition legacy_request_of :: "json \<Rightarrow> legacy_request option" where
  "legacy_request_of v =
     (case (optional_string (get v ''type''), optional_string (get v ''url''),
            optional_string (get v ''extensionId''), optional_string (get v ''extensionVersion'')) of
        (Some kind, Some url, Some extension_id, Some extension_version) \<Rightarrow>
          Some \<lparr>lq_message_type = kind, lq_url = url, lq_extension_id = extension_id,
            lq_extension_version = extension_version\<rparr>
      | _ \<Rightarrow> None)"

definition is_legacy_request :: "json \<Rightarrow> bool" where
  "is_legacy_request v \<longleftrightarrow>
     get v ''method'' = None \<and> (get v ''url'' \<noteq> None \<or> str_in v ''type'' = Some ''extension_heartbeat'')"

text \<open>
  The two methods older extensions reach: a heartbeat with the id and the version of the extension, and the
  evaluation of a URL. The others are called by name, and \<open>rm_diagnose\<close> records a diagnostic of the daemon
  with its severity, kind and message.
\<close>

record 's rpc_methods =
  rm_heartbeat :: "string option \<Rightarrow> string option \<Rightarrow> ('s, json) action"
  rm_evaluate_url :: "string \<Rightarrow> ('s, json) action"
  rm_method :: "string \<Rightarrow> json \<Rightarrow> ('s, json) action"
  rm_diagnose :: "string \<Rightarrow> string \<Rightarrow> string \<Rightarrow> 's \<Rightarrow> 's"

definition handle_legacy_request :: "rpc_texts \<Rightarrow> 's rpc_methods \<Rightarrow> json \<Rightarrow> 's \<Rightarrow> json \<times> 's" where
  "handle_legacy_request X M v s =
     (case legacy_request_of v of
        None \<Rightarrow> (allow_with_error (JString (''invalid legacy request: '' @ rt_invalid_request X v)), s)
      | Some request \<Rightarrow>
          if lq_message_type request = Some ''extension_heartbeat'' then
            (case rm_heartbeat M (lq_extension_id request) (lq_extension_version request) s of
               (Inr _, s) \<Rightarrow> (object_of [(''type'', JString ''extension_heartbeat''), (''status'', JString ''ok'')], s)
             | (Inl e, s) \<Rightarrow> (object_of [(''type'', JString ''extension_heartbeat''), (''status'', JString ''error''),
                 (''error'', JString (rt_error X e))], s))
          else (case lq_url request of
              None \<Rightarrow> (allow_with_error (JString ''missing url''), s)
            | Some url \<Rightarrow>
                (case rm_evaluate_url M url s of
                   (Inr result, s) \<Rightarrow>
                     (if str_in result ''decision'' = Some ''block'' then
                        object_of [(''action'', JString ''block''),
                          (''reason'', case get result ''reason'' of Some r \<Rightarrow> r | None \<Rightarrow> JNull)]
                      else object_of [(''action'', JString ''allow'')], s)
                 | (Inl e, s) \<Rightarrow> (allow_with_error (JString (rt_error X e)), s))))"

definition handle_json_value :: "rpc_texts \<Rightarrow> 's rpc_methods \<Rightarrow> json \<Rightarrow> 's \<Rightarrow> json \<times> 's" where
  "handle_json_value X M v s =
     (if is_legacy_request v then handle_legacy_request X M v s
      else case json_rpc_request_of v of
        None \<Rightarrow> (jsonrpc_error None (- 32600) ''invalid request'' (Some (rt_invalid_request X v)), s)
      | Some request \<Rightarrow>
          (case jq_method request of
             None \<Rightarrow> (jsonrpc_error (jq_id request) (- 32600) ''missing method'' None, s)
           | Some method \<Rightarrow>
               (case rm_method M method (jq_params request) s of
                  (Inr result, s) \<Rightarrow>
                    (object_of [(''jsonrpc'', JString ''2.0''),
                       (''id'', case jq_id request of None \<Rightarrow> JNull | Some v \<Rightarrow> v), (''result'', result)], s)
                | (Inl (UnsupportedMethod name), s) \<Rightarrow>
                    (jsonrpc_error (jq_id request) (- 32601) ''method not found'' (Some name), s)
                | (Inl (InvalidRequest r), s) \<Rightarrow>
                    (jsonrpc_error (jq_id request) (- 32602) ''invalid params'' (Some (rt_rejection X r)), s)
                | (Inl e, s) \<Rightarrow>
                    (jsonrpc_error (jq_id request) (- 32603) ''internal error'' (Some (rt_error X e)), s))))"

definition handle_payload :: "wire_json_lib \<Rightarrow> rpc_texts \<Rightarrow> 's rpc_methods \<Rightarrow> u8 list \<Rightarrow> 's \<Rightarrow> u8 list \<times> 's" where
  "handle_payload J X M payload s =
     (case wj_parse J payload of
        Inr v \<Rightarrow> (let (response, s) = handle_json_value X M v s in (wj_print J response, s))
      | Inl e \<Rightarrow> (wj_print J (jsonrpc_error None (- 32700) ''parse error'' (Some e)), s))"

text \<open>
  What the daemon notes of a connection: the label of its transport, how long its steps took and the texts of
  the errors of the last two.
\<close>

record wire_trace =
  wt_transport :: string
  wt_read_ms :: nat
  wt_handler_ms :: nat
  wt_write_ms :: nat
  wt_total_ms :: nat
  wt_write_error :: "string option"
  wt_shutdown_error :: "string option"

definition slow_rpc_threshold_ms :: nat where
  "slow_rpc_threshold_ms = 500"

definition rpc_request_metadata :: "wire_json_lib \<Rightarrow> u8 list \<Rightarrow> string \<times> string" where
  "rpc_request_metadata J payload =
     (case wj_parse J payload of
        Inl _ \<Rightarrow> (''invalid_json'', ''null'')
      | Inr v \<Rightarrow>
          (case str_in v ''method'' of
             Some method \<Rightarrow> method
           | None \<Rightarrow> (case str_in v ''type'' of
                 Some kind \<Rightarrow> kind
               | None \<Rightarrow> if get v ''url'' \<noteq> None then ''legacy_evaluate_url'' else ''unknown''),
           case get v ''id'' of Some request_id \<Rightarrow> wj_text J request_id | None \<Rightarrow> ''null''))"

definition step_times :: "wire_trace \<Rightarrow> string" where
  "step_times w = '' read_ms='' @ show_nat (wt_read_ms w) @ '' handler_ms='' @ show_nat (wt_handler_ms w)
     @ '' write_ms='' @ show_nat (wt_write_ms w)"

text \<open>Answering the request that was read, the same for both kinds of clients.\<close>

definition answer_client ::
  "wire_json_lib \<Rightarrow> rpc_texts \<Rightarrow> 's rpc_methods \<Rightarrow> wire_trace \<Rightarrow> u8 list \<Rightarrow> 's \<Rightarrow> (wire_rejection + u8 list) \<times> 's" where
  "answer_client J X M w payload s =
     (let (method, request_id) = rpc_request_metadata J payload;
          (response, s) = handle_payload J X M payload s;
          ids = wt_transport w @ '' id='' @ request_id @ '' method='' @ method;
          sizes = '' request_bytes='' @ show_nat (length payload) @ '' response_bytes='' @ show_nat (length response)
      in case wt_write_error w of
           Some e \<Rightarrow> (Inl (WireIo e), rm_diagnose M ''error'' ''rpc_response_write_failed''
             (''RPC response write failed transport='' @ ids @ step_times w @ sizes @ '' error='' @ e) s)
         | None \<Rightarrow>
             (case wt_shutdown_error w of
                Some e \<Rightarrow> (Inl (WireIo e), rm_diagnose M ''error'' ''rpc_shutdown_failed''
                  (''RPC shutdown failed transport='' @ ids @ step_times w @ '' error='' @ e) s)
              | None \<Rightarrow>
                  (Inr response,
                   if slow_rpc_threshold_ms \<le> wt_total_ms w \<and> method \<noteq> ''record_diagnostics''
                   then rm_diagnose M ''warn'' ''rpc_slow''
                     (''RPC slow transport='' @ ids @ '' total_ms='' @ show_nat (wt_total_ms w) @ step_times w @ sizes) s
                   else s)))"

definition handle_client ::
  "wire_json_lib \<Rightarrow> rpc_texts \<Rightarrow> 's rpc_methods \<Rightarrow> wire_trace \<Rightarrow> byte_source \<Rightarrow> 's \<Rightarrow> (wire_rejection + u8 list) \<times> 's" where
  "handle_client J X M w stream s =
     (case read_limited stream of
        Inl e \<Rightarrow> (Inl e, s)
      | Inr request \<Rightarrow> answer_client J X M w request s)"

definition handle_snap_native_bridge_client ::
  "wire_json_lib \<Rightarrow> rpc_texts \<Rightarrow> 's rpc_methods \<Rightarrow> wire_trace \<Rightarrow> string \<Rightarrow> byte_source \<Rightarrow> 's
   \<Rightarrow> (wire_rejection + u8 list) \<times> 's" where
  "handle_snap_native_bridge_client J X M w token stream s =
     (case read_limited stream of
        Inl e \<Rightarrow> (Inl e, s)
      | Inr request \<Rightarrow>
          (case snap_native_bridge_payload request token of
             Inl e \<Rightarrow> (Inl e, s)
           | Inr payload \<Rightarrow> answer_client J X M w payload s))"

end
