(* ===== verification/WireLaws.thy ===== *)
theory WireLaws imports Wire "HOL-Library.Countable" begin

text \<open>
  From the browser to the daemon and back: messages survive however they are cut, every message is answered,
  only an authenticated request of a confined browser is read, and the host is transparent for what the
  daemon answers.
\<close>

section \<open>Messages of the browser\<close>

text \<open>
  What is written as a message is read back as it was, in whatever pieces its bytes arrive, and what follows
  it is left for the next call.
\<close>

lemma native_message_roundtrip:
  assumes "length payload \<le> max_message_bytes" "sk_bytes sink = []" "sk_room sink = None"
    and "delivers src (sk_bytes (snd (write_native_message be payload sink)) @ others)"
  shows "\<exists>rest. read_native_message be src = (Inr (Some payload), rest) \<and> delivers rest others"
proof -
  have "length payload < 2 ^ 32" using assms(1) by (simp add: max_message_bytes_def)
  then show ?thesis using assms by (intro read_message) (simp_all add: write_message)
qed

lemma native_message_roundtrip_witness:
  "\<exists>rest. read_native_message False [Inr [3], Inr [0, 0], Inr [0, 1, 2, 3, 9]] = (Inr (Some [1, 2, 3]), rest)
     \<and> delivers rest [9]"
proof (rule native_message_roundtrip [of "[1, 2, 3]" "\<lparr>sk_bytes = [], sk_room = None\<rparr>" _ False])
  have f: "frame_of False [1, 2, 3] = [3, 0, 0, 0, 1, 2, 3]" by code_simp
  show "delivers [Inr [3], Inr [0, 0], Inr [0, 1, 2, 3, 9]]
      (sk_bytes (snd (write_native_message False [1, 2, 3] \<lparr>sk_bytes = [], sk_room = None\<rparr>)) @ [9])"
    by (simp add: write_message f)
qed (simp_all add: max_message_bytes_def)

lemma delivers_nothing: "delivers src [] \<longleftrightarrow> src = []"
  by (cases src; cases "hd src") auto

text \<open>The answers to a list of messages, one by one.\<close>

fun answers :: "wire_json_lib \<Rightarrow> bridge_host \<Rightarrow> 't transport \<Rightarrow> nat \<Rightarrow> u8 list list \<Rightarrow> nat \<times> 't \<Rightarrow> u8 list list \<times> nat \<times> 't" where
  "answers J h send n [] st = ([], st)"
| "answers J h send n (m # ms) st =
     (let (response, st) = answer_message J h send n m st;
          (responses, st) = answers J h send (Suc n) ms st
      in (response # responses, st))"

lemma answers_length: "length (fst (answers J h send n ms st)) = length ms"
  by (induction ms arbitrary: n st) (simp_all add: case_prod_unfold Let_def)

text \<open>
  C18. As long as the browser sends messages within the limit and takes the answers, the host answers each message
  once, in order, whether the daemon answers or fails, and ends without an error when the browser closes the
  stream.
\<close>

theorem bridge_answers_every_message:
  assumes "delivers input (concat (map (frame_of (bh_big_endian h)) messages))"
    and "\<forall>m\<in>set messages. length m \<le> max_message_bytes"
    and "\<forall>r\<in>set (fst (answers J h send n messages st)). length r < 2 ^ 32"
    and "sk_room sink = None"
  shows "run_bridge J h send n input sink st =
      (Inr (), sink\<lparr>sk_bytes := sk_bytes sink @ concat (map (frame_of (bh_big_endian h)) (fst (answers J h send n messages st)))\<rparr>,
       snd (answers J h send n messages st))
    \<and> length (fst (answers J h send n messages st)) = length messages"
  using assms
proof (induction messages arbitrary: n input sink st)
  case Nil
  then have "input = []" by (simp add: delivers_nothing)
  then show ?case by (simp add: run_bridge.simps read_end)
next
  case (Cons m ms)
  obtain input' where r: "read_native_message (bh_big_endian h) input = (Inr (Some m), input')"
    "delivers input' (concat (map (frame_of (bh_big_endian h)) ms))"
    using read_message [of input "bh_big_endian h" m "concat (map (frame_of (bh_big_endian h)) ms)"] Cons.prems(1,2) by auto
  obtain response st' where a: "answer_message J h send n m st = (response, st')"
    by (cases "answer_message J h send n m st") auto
  obtain responses st'' where b: "answers J h send (Suc n) ms st' = (responses, st'')"
    by (cases "answers J h send (Suc n) ms st'") auto
  have "run_bridge J h send (Suc n) input' (sink\<lparr>sk_bytes := sk_bytes sink @ frame_of (bh_big_endian h) response\<rparr>) st' =
      (Inr (), sink\<lparr>sk_bytes := (sk_bytes sink @ frame_of (bh_big_endian h) response)
          @ concat (map (frame_of (bh_big_endian h)) responses)\<rparr>, st'') \<and> length responses = length ms"
    using Cons.IH [OF r(2), of "Suc n" st'] Cons.prems a b by (auto simp del: append_assoc)
  then show ?case using a b r Cons.prems by (subst run_bridge.simps) (simp add: write_message)
qed

definition silent_json :: wire_json_lib where
  "silent_json = \<lparr>wj_parse = (\<lambda>_. Inl ''no JSON''), wj_print = (\<lambda>_. [1, 2]), wj_text = (\<lambda>_. [])\<rparr>"

definition little_host :: bridge_host where
  "little_host = \<lparr>bh_big_endian = False, bh_pid = 7, bh_unix_nanos = (\<lambda>_. 0), bh_elapsed_ms = (\<lambda>_. 0)\<rparr>"

definition no_daemon :: "nat transport" where
  "no_daemon = (\<lambda>_ t. (Inl (HostIo (IoError NotFound ''No such file'')), Suc t))"

theorem bridge_answers_every_message_witness:
  "run_bridge silent_json little_host no_daemon 0 [Inr [1, 0, 0], Inr [0, 7]] \<lparr>sk_bytes = [], sk_room = None\<rparr> (1, 0)
     = (Inr (), \<lparr>sk_bytes = [2, 0, 0, 0, 1, 2], sk_room = None\<rparr>, 2, 1)"
proof -
  have a: "answers silent_json little_host no_daemon 0 [[7]] (1, 0) = ([[1, 2]], 2, 1)" by code_simp
  have d: "delivers [Inr [1, 0, 0], Inr [0, 7]] (concat (map (frame_of (bh_big_endian little_host)) [[7]]))" by code_simp
  have f: "frame_of (bh_big_endian little_host) [1, 2] = [2, 0, 0, 0, 1, 2]" by code_simp
  show ?thesis
    using bridge_answers_every_message [OF d, of silent_json no_daemon 0 "(1, 0)" "\<lparr>sk_bytes = [], sk_room = None\<rparr>"] a f
    by (simp add: max_message_bytes_def)
qed

section \<open>Requests of confined browsers\<close>

lemma xor_zero: "l XOR r = 0 \<longleftrightarrow> l = r" for l r :: u8
  by (metis xor.assoc xor.right_neutral xor_self_eq xor.left_neutral)

lemma difference_zero:
  "fold (\<lambda>(l, r) difference. difference OR (l XOR r)) pairs d = 0 \<longleftrightarrow> d = 0 \<and> (\<forall>(l, r)\<in>set pairs. l = r)"
  for d :: u8
proof (induction pairs arbitrary: d)
  case (Cons p pairs)
  have "d OR (fst p XOR snd p) = 0 \<longleftrightarrow> d = 0 \<and> fst p = snd p"
    by (metis or_eq_0_iff xor_zero)
  then show ?case using Cons by (auto simp: case_prod_unfold)
qed simp

lemma constant_time_equals_iff: "constant_time_equals left right \<longleftrightarrow> left = right"
  by (auto simp: constant_time_equals_def difference_zero list_eq_iff_zip_eq)

lemma line_end_first: "10 \<notin> set xs \<Longrightarrow> line_end (xs @ 10 # ys) = Some (length xs)"
  by (induction xs) auto

lemma line_end_Some: "line_end bytes = Some n \<Longrightarrow> bytes = take n bytes @ 10 # drop (Suc n) bytes"
  by (induction bytes arbitrary: n) (auto split: if_splits)

lemma no_line_feed: "token_is_well_formed token \<Longrightarrow> 10 \<notin> set (snap_bridge_header @ utf8_bytes token)"
proof -
  assume "token_is_well_formed token"
  then have "10 \<notin> set (utf8_bytes token)"
    by (auto simp: token_is_well_formed_def list_all_iff is_ascii_hexdigit_def)
  moreover have "10 \<notin> set snap_bridge_header" by code_simp
  ultimately show ?thesis by simp
qed

lemma snap_bridge_request_iff:
  assumes "token_is_well_formed token"
  shows "snap_native_bridge_payload request token = Inr payload \<longleftrightarrow>
    request = concat (request_pieces (SnapBridge address token) payload) \<and> payload \<noteq> []"
proof
  assume r: "snap_native_bridge_payload request token = Inr payload"
  then obtain n where n: "line_end request = Some n" "strip_bytes snap_bridge_header (take n request) = Some (utf8_bytes token)"
    and p: "payload = drop (Suc n) request" "payload \<noteq> []"
    by (auto simp: snap_native_bridge_payload_def constant_time_equals_iff Let_def split: option.splits if_splits)
  then have "take n request = snap_bridge_header @ utf8_bytes token"
    by (metis append_take_drop_id option.distinct(1) option.inject strip_bytes_def)
  then show "request = concat (request_pieces (SnapBridge address token) payload) \<and> payload \<noteq> []"
    using line_end_Some [OF n(1)] p by (simp add: request_pieces_def)
next
  let ?front = "snap_bridge_header @ utf8_bytes token"
  assume r: "request = concat (request_pieces (SnapBridge address token) payload) \<and> payload \<noteq> []"
  then have q: "request = ?front @ 10 # payload" by (simp add: request_pieces_def)
  have "line_end request = Some (length ?front)"
    unfolding q by (rule line_end_first [OF no_line_feed [OF assms]])
  moreover have "payload \<noteq> []" using r by blast
  ultimately show "snap_native_bridge_payload request token = Inr payload"
    unfolding q by (simp add: snap_native_bridge_payload_def strip_bytes_def constant_time_equals_iff)
qed

text \<open>
  C17. The daemon reads a request of a confined browser exactly when it is the header, the token and a line feed
  before a request that is not empty; the comparison in constant time is equality.
\<close>

theorem snap_bridge_reads_authenticated_requests_only:
  assumes "token_is_well_formed token"
  shows "snap_native_bridge_payload request token = Inr payload \<longleftrightarrow>
    request = snap_bridge_header @ utf8_bytes token @ 10 # payload \<and> payload \<noteq> []"
  unfolding snap_bridge_request_iff [OF assms, where address = "[]"] by (simp add: request_pieces_def)

theorem snap_bridge_reads_authenticated_requests_only_witness:
  "snap_native_bridge_payload (snap_bridge_header @ utf8_bytes (replicate 64 CHR ''a'') @ 10 # [123, 125]) (replicate 64 CHR ''a'')
     = Inr [123, 125]"
proof -
  have t: "token_is_well_formed (replicate 64 CHR ''a'')" by code_simp
  show ?thesis by (simp add: snap_bridge_reads_authenticated_requests_only [OF t])
qed

section \<open>The daemon started again\<close>

lemma forward_step_now: "cs_now (snd (forward_step J net endpoint payload s)) \<ge> cs_now s"
  "cs_tried (snd (forward_step J net endpoint payload s)) = Suc (cs_tried s)"
  "cs_starts (snd (forward_step J net endpoint payload s)) = cs_starts s"
  "cs_last_revival (snd (forward_step J net endpoint payload s)) = cs_last_revival s"
  by (simp_all add: forward_step_def Let_def)

lemma retry_loop_ends:
  assumes "0 < interval"
  shows "\<exists>r s'. retry_loop J net endpoint payload interval deadline s = Some (r, s')
    \<and> cs_tried s' \<le> cs_tried s + 1 + (deadline - cs_now s) div interval"
proof (induction "deadline - cs_now s" arbitrary: s rule: less_induct)
  case less
  let ?attempt = "forward_step J net endpoint payload (s\<lparr>cs_now := cs_now s + interval\<rparr>)"
  have now: "cs_now s + interval \<le> cs_now (snd ?attempt)" "cs_tried (snd ?attempt) = Suc (cs_tried s)"
    using forward_step_now [where s = "s\<lparr>cs_now := cs_now s + interval\<rparr>" and J = J and net = net
        and endpoint = endpoint and payload = payload] by simp_all
  show ?case
  proof (cases "\<exists>e. fst ?attempt = Inl e \<and> should_attempt_revival e \<and> cs_now (snd ?attempt) < deadline")
    case True
    then have shorter: "deadline - cs_now (snd ?attempt) \<le> deadline - cs_now s - interval"
      and room: "interval \<le> deadline - cs_now s" using now(1) by auto
    then have "deadline - cs_now (snd ?attempt) < deadline - cs_now s" using assms by linarith
    then obtain r s' where l: "retry_loop J net endpoint payload interval deadline (snd ?attempt) = Some (r, s')"
      and t: "cs_tried s' \<le> Suc (cs_tried s) + 1 + (deadline - cs_now (snd ?attempt)) div interval"
      using less.hyps [of "snd ?attempt"] now(2) by auto
    have "(deadline - cs_now (snd ?attempt)) div interval \<le> (deadline - cs_now s) div interval - 1"
      using div_le_mono [OF shorter, of interval] assms by (simp add: le_div_geq [OF assms room])
    moreover have "1 \<le> (deadline - cs_now s) div interval" using room assms by (simp add: div_greater_zero_iff Suc_le_eq)
    ultimately have "cs_tried s' \<le> cs_tried s + 1 + (deadline - cs_now s) div interval" using t by linarith
    moreover have "retry_loop J net endpoint payload interval deadline s = Some (r, s')"
      using True l by (subst retry_loop.simps) (auto simp: Let_def)
    ultimately show ?thesis by blast
  next
    case False
    then have "\<exists>r. retry_loop J net endpoint payload interval deadline s = Some (r, snd ?attempt)"
      by (subst retry_loop.simps) (auto simp: Let_def split: sum.splits)
    then show ?thesis using now(2) by auto
  qed
qed

text \<open>
  C23. With an interval between the attempts a message is always answered or refused: the host gives up after at
  most as many attempts as intervals fit into the time it waits, and two more.
\<close>

theorem revival_attempts_end:
  assumes "\<And>rv. dc_revival client = Some rv \<Longrightarrow> 0 < rv_retry_interval rv"
  shows "\<exists>r s'. send_with_optional_revival J net client payload s = Some (r, s')
    \<and> cs_tried s' \<le> cs_tried s + 2
        + (case dc_revival client of None \<Rightarrow> 0 | Some rv \<Rightarrow> rv_wait_timeout rv div rv_retry_interval rv)"
proof -
  let ?first = "forward_step J net (dc_endpoint client) payload s"
  show ?thesis
  proof (cases "\<exists>e rv. fst ?first = Inl e \<and> dc_revival client = Some rv \<and> should_attempt_revival e")
    case True
    then obtain e rv where e: "fst ?first = Inl e" "dc_revival client = Some rv" "should_attempt_revival e" by blast
    let ?s = "spawn_revival_command_if_due rv (snd ?first)"
    have s: "cs_tried ?s = Suc (cs_tried s)"
      by (simp add: spawn_revival_command_if_due_def forward_step_now)
    obtain r s' where l: "retry_after_revival J net (dc_endpoint client) payload rv ?s = Some (r, s')"
      and t: "cs_tried s' \<le> Suc (cs_tried s) + 1 + rv_wait_timeout rv div rv_retry_interval rv"
      using retry_loop_ends [OF assms [OF e(2)], of J net "dc_endpoint client" payload "cs_now ?s + rv_wait_timeout rv" ?s] s
      by (auto simp: retry_after_revival_def)
    then show ?thesis using e
      by (cases r) (auto simp: send_with_optional_revival_def Let_def)
  next
    case False
    then have "\<exists>r. send_with_optional_revival J net client payload s = Some (r, snd ?first)"
      by (auto simp: send_with_optional_revival_def Let_def split: sum.splits option.splits)
    then show ?thesis by (auto simp: forward_step_now)
  qed
qed

text \<open>A daemon that is down, and a host that starts it and tries once more.\<close>

definition refused :: "nat \<Rightarrow> connection" where
  "refused = (\<lambda>_. \<lparr>cn_refused = Some (IoError ConnectionRefused ''refused''), cn_sink = \<lparr>sk_bytes = [], sk_room = None\<rparr>,
     cn_shutdown = None, cn_response = [], cn_nanos = 0\<rparr>)"

definition reviving_client :: daemon_client where
  "reviving_client = \<lparr>dc_endpoint = UnixSocket ''/run/blockuntu/blockuntud.sock'',
     dc_revival = Some \<lparr>rv_wait_timeout = 0, rv_retry_interval = 100, rv_min_interval = 5000\<rparr>\<rparr>"

theorem revival_attempts_end_witness:
  "\<exists>r s'. send_with_optional_revival silent_json refused reviving_client [1]
       \<lparr>cs_now = 50, cs_last_revival = None, cs_starts = [], cs_tried = 0\<rparr> = Some (r, s') \<and> cs_tried s' \<le> 2"
proof -
  have "\<And>rv. dc_revival reviving_client = Some rv \<Longrightarrow> 0 < rv_retry_interval rv"
    by (auto simp: reviving_client_def)
  from revival_attempts_end [where client = reviving_client, OF this, where J = silent_json and net = refused and payload = "[1]"
      and s = "\<lparr>cs_now = 50, cs_last_revival = None, cs_starts = [], cs_tried = 0\<rparr>"]
  show ?thesis by (simp add: reviving_client_def numeral_2_eq_2)
qed

lemma retry_loop_starts:
  assumes "retry_loop J net endpoint payload interval deadline s = Some y"
  shows "cs_starts (snd y) = cs_starts s \<and> cs_last_revival (snd y) = cs_last_revival s \<and> cs_now s \<le> cs_now (snd y)"
proof (rule retry_loop.raw_induct [where P = "\<lambda>J net endpoint payload interval deadline s y.
      cs_starts (snd y) = cs_starts s \<and> cs_last_revival (snd y) = cs_last_revival s \<and> cs_now s \<le> cs_now (snd y)",
    OF _ assms])
  fix loop :: "wire_json_lib \<Rightarrow> (nat \<Rightarrow> connection) \<Rightarrow> daemon_endpoint \<Rightarrow> u8 list \<Rightarrow> nat \<Rightarrow> nat \<Rightarrow> client_state
    \<Rightarrow> ((native_host_error + u8 list) \<times> client_state) option"
  fix J net endpoint payload interval deadline and s :: client_state and y
  let ?attempt = "forward_step J net endpoint payload (s\<lparr>cs_now := cs_now s + interval\<rparr>)"
  assume loop: "\<And>J net endpoint payload interval deadline s y.
      loop J net endpoint payload interval deadline s = Some y
      \<Longrightarrow> cs_starts (snd y) = cs_starts s \<and> cs_last_revival (snd y) = cs_last_revival s \<and> cs_now s \<le> cs_now (snd y)"
    and y: "(let attempt = ?attempt in
      case fst attempt of
        Inl e \<Rightarrow> if should_attempt_revival e \<and> cs_now (snd attempt) < deadline
          then loop J net endpoint payload interval deadline (snd attempt) else Some (Inl e, snd attempt)
      | Inr response \<Rightarrow> Some (Inr response, snd attempt)) = Some y"
  note now = forward_step_now [where s = "s\<lparr>cs_now := cs_now s + interval\<rparr>" and J = J and net = net
      and endpoint = endpoint and payload = payload]
  show "cs_starts (snd y) = cs_starts s \<and> cs_last_revival (snd y) = cs_last_revival s \<and> cs_now s \<le> cs_now (snd y)"
  proof (cases "\<exists>e. fst ?attempt = Inl e \<and> should_attempt_revival e \<and> cs_now (snd ?attempt) < deadline")
    case True
    then have "loop J net endpoint payload interval deadline (snd ?attempt) = Some y"
      using y by (auto simp: Let_def)
    from loop [OF this] now show ?thesis by simp
  next
    case False
    then have "snd y = snd ?attempt" using y by (auto simp: Let_def split: sum.splits if_splits)
    then show ?thesis using now by simp
  qed
qed

definition spaced :: "nat \<Rightarrow> nat list \<Rightarrow> bool" where
  "spaced m starts \<longleftrightarrow> sorted_wrt (\<lambda>a b. a + m \<le> b) starts"

definition starts_known :: "nat \<Rightarrow> client_state \<Rightarrow> bool" where
  "starts_known m s \<longleftrightarrow> spaced m (cs_starts s) \<and> (\<forall>t\<in>set (cs_starts s). \<exists>l. cs_last_revival s = Some l \<and> t \<le> l)
     \<and> (\<forall>l. cs_last_revival s = Some l \<longrightarrow> l \<le> cs_now s)"

lemma starts_known_later:
  "starts_known m s \<Longrightarrow> cs_starts s' = cs_starts s \<Longrightarrow> cs_last_revival s' = cs_last_revival s \<Longrightarrow> cs_now s \<le> cs_now s'
    \<Longrightarrow> starts_known m s'"
  by (auto simp: starts_known_def intro: le_trans)

lemma starts_known_spawn: "starts_known (rv_min_interval rv) s \<Longrightarrow> starts_known (rv_min_interval rv) (spawn_revival_command_if_due rv s)"
  by (fastforce simp: starts_known_def spawn_revival_command_if_due_def spaced_def sorted_wrt_append split: option.splits)

lemma starts_known_send:
  assumes "send_with_optional_revival J net client payload s = Some (r, s')" "dc_revival client = Some rv"
    and "starts_known (rv_min_interval rv) s"
  shows "starts_known (rv_min_interval rv) s'"
proof -
  let ?first = "forward_step J net (dc_endpoint client) payload s"
  let ?spawned = "spawn_revival_command_if_due rv (snd ?first)"
  have first: "starts_known (rv_min_interval rv) (snd ?first)"
    by (rule starts_known_later [OF assms(3)]) (simp_all add: forward_step_now)
  note spawned = starts_known_spawn [OF first]
  consider "s' = snd ?first" | q where "retry_after_revival J net (dc_endpoint client) payload rv ?spawned = Some (q, s')"
    using assms(1,2) by (auto simp: send_with_optional_revival_def Let_def split: sum.splits if_splits option.splits prod.splits)
  then show ?thesis
  proof cases
    case 1
    then show ?thesis using first by simp
  next
    case 2
    then show ?thesis
      using retry_loop_starts [of J net "dc_endpoint client" payload] starts_known_later [OF spawned]
      by (fastforce simp: retry_after_revival_def)
  qed
qed

text \<open>The life of a host: it starts without having started the daemon, time passes, messages are sent.\<close>

inductive client_run :: "wire_json_lib \<Rightarrow> (nat \<Rightarrow> connection) \<Rightarrow> daemon_client \<Rightarrow> client_state \<Rightarrow> bool"
  for J net client where
  fresh: "client_run J net client \<lparr>cs_now = t, cs_last_revival = None, cs_starts = [], cs_tried = 0\<rparr>"
| wait: "client_run J net client s \<Longrightarrow> cs_now s \<le> t \<Longrightarrow> client_run J net client (s\<lparr>cs_now := t\<rparr>)"
| send: "client_run J net client s \<Longrightarrow> send_with_optional_revival J net client payload s = Some (r, s')
    \<Longrightarrow> client_run J net client s'"

text \<open>
  C22. However many messages fail, the host starts the daemon at most once in each of the intervals it is
  configured with.
\<close>

theorem daemon_starts_are_spaced:
  assumes "client_run J net client s" "dc_revival client = Some rv"
  shows "sorted_wrt (\<lambda>a b. a + rv_min_interval rv \<le> b) (cs_starts s)"
proof -
  have "starts_known (rv_min_interval rv) s"
    using assms(1)
  proof (induction rule: client_run.induct)
    case (fresh t)
    then show ?case by (simp add: starts_known_def spaced_def)
  next
    case (wait s t)
    then show ?case by (auto intro: starts_known_later)
  next
    case (send s payload r s')
    then show ?case using starts_known_send assms(2) by blast
  qed
  then show ?thesis by (simp add: starts_known_def spaced_def)
qed

lemma reviving_run:
  "\<exists>s. client_run silent_json refused reviving_client s \<and> cs_starts s = [50]"
proof -
  let ?s = "\<lparr>cs_now = 50, cs_last_revival = None, cs_starts = [], cs_tried = 0\<rparr>"
  have "\<exists>r s'. send_with_optional_revival silent_json refused reviving_client [1] ?s = Some (r, s') \<and> cs_starts s' = [50]"
    by (simp add: send_with_optional_revival_def retry_after_revival_def retry_loop.simps forward_step_def forward_def refused_def
        reviving_client_def should_attempt_revival_def spawn_revival_command_if_due_def Let_def)
  then show ?thesis using client_run.send [OF client_run.fresh] by blast
qed

theorem daemon_starts_are_spaced_witness:
  "\<exists>s::client_state. cs_starts s = [50] \<and> sorted_wrt (\<lambda>a b. a + 5000 \<le> b) (cs_starts s)"
proof -
  obtain s where s: "client_run silent_json refused reviving_client s" "cs_starts s = [50]" using reviving_run by blast
  have "dc_revival reviving_client = Some \<lparr>rv_wait_timeout = 0, rv_retry_interval = 100, rv_min_interval = 5000\<rparr>"
    by (simp add: reviving_client_def)
  from daemon_starts_are_spaced [OF s(1) this] s(2) show ?thesis by (intro exI [of _ s]) simp
qed

section \<open>The shape of a response\<close>

lemma get_object_of: "get (object_of entries) key = map_of (rev entries) key"
proof -
  have "map_of (fold (\<lambda>(k, v). map_insert k v) entries m) key = (map_of m ++ map_of (rev entries)) key" for m
    by (induction entries arbitrary: m) (auto simp: map_add_def split: option.splits)
  then show ?thesis by (simp add: object_of_def)
qed

lemma get_shape [simp]:
  "get (jsonrpc_error request_id code message data) ''jsonrpc'' = Some (JString ''2.0'')"
  "get (jsonrpc_error request_id code message data) ''id'' = Some (case request_id of None \<Rightarrow> JNull | Some v \<Rightarrow> v)"
  "get (jsonrpc_error request_id code message data) ''result'' = None"
  "get (jsonrpc_error request_id code message data) ''error'' =
     Some (object_of [(''code'', JInt code), (''message'', JString message), (''data'', str_json data)])"
  "get (allow_with_error e) ''action'' = Some (JString ''allow'')"
  by (simp_all add: jsonrpc_error_def allow_with_error_def get_object_of)

definition rpc_shaped :: "json option \<Rightarrow> json \<Rightarrow> bool" where
  "rpc_shaped request_id r \<longleftrightarrow> get r ''jsonrpc'' = Some (JString ''2.0'')
     \<and> get r ''id'' = Some (case request_id of None \<Rightarrow> JNull | Some v \<Rightarrow> v)
     \<and> (get r ''result'' = None) \<noteq> (get r ''error'' = None)"

definition action_shaped :: "json \<Rightarrow> bool" where
  "action_shaped r \<longleftrightarrow> get r ''action'' = Some (JString ''allow'') \<or> get r ''action'' = Some (JString ''block'')"

definition heartbeat_shaped :: "json \<Rightarrow> bool" where
  "heartbeat_shaped r \<longleftrightarrow> get r ''type'' = Some (JString ''extension_heartbeat'')
     \<and> (get r ''status'' = Some (JString ''ok'') \<or> get r ''status'' = Some (JString ''error''))"

text \<open>
  C20. Every request gets a response of its shape: a JSON-RPC request one with its id and either a result or an
  error, an older message an action or the acknowledgement of its heartbeat, whatever the methods do.
\<close>

theorem response_has_shape_of_request:
  "if is_legacy_request v
   then action_shaped (fst (handle_json_value X M v s))
      \<or> (str_in v ''type'' = Some ''extension_heartbeat'' \<and> heartbeat_shaped (fst (handle_json_value X M v s)))
   else rpc_shaped (Option.bind (json_rpc_request_of v) jq_id) (fst (handle_json_value X M v s))"
proof (cases "is_legacy_request v")
  case True
  have t: "str_in v ''type'' = Some ''extension_heartbeat''"
    if "legacy_request_of v = Some q" "lq_message_type q = Some ''extension_heartbeat''" for q
    using that by (auto simp: legacy_request_of_def optional_string_def str_in_def
        split: option.splits json.splits if_splits)
  show ?thesis using True t
    by (auto simp: handle_json_value_def handle_legacy_request_def action_shaped_def heartbeat_shaped_def get_object_of
        split: option.splits prod.splits sum.splits)
next
  case False
  then show ?thesis
    by (auto simp: handle_json_value_def rpc_shaped_def get_object_of
        split: option.splits prod.splits sum.splits daemon_error.splits)
qed

section \<open>From the browser to the daemon and back\<close>

lemma write_pieces_all:
  "sk_room sink = None \<Longrightarrow> write_pieces pieces sink = (Inr (), sink\<lparr>sk_bytes := sk_bytes sink @ concat pieces\<rparr>)"
  by (induction pieces arbitrary: sink) (simp_all add: write_all_def)

text \<open>A connection that works brings the request to the daemon and its response to the host.\<close>

definition sound_connection :: "connection \<Rightarrow> u8 list \<Rightarrow> bool" where
  "sound_connection cn response \<longleftrightarrow>
     cn_refused cn = None \<and> sk_room (cn_sink cn) = None \<and> cn_shutdown cn = None \<and> delivers (cn_response cn) response"

lemma forward_sound:
  assumes "sound_connection cn response" "response \<noteq> []" "length response \<le> max_message_bytes"
    and "wj_parse J response = Inr v" and "\<And>a t. endpoint = SnapBridge a t \<Longrightarrow> token_is_well_formed t"
  shows "forward J endpoint cn payload = Inr response"
  using assms
  by (auto simp: forward_def sound_connection_def write_pieces_all read_daemon_response_def read_to_limit_delivers ensure_def
      split: daemon_endpoint.splits)

lemma client_sound:
  assumes "delivers stream request" "length request \<le> max_payload_bytes"
    and "wt_write_error w = None" "wt_shutdown_error w = None"
  shows "fst (handle_client J X M w stream s) = Inr (fst (handle_payload J X M request s))"
  using assms
  by (simp add: handle_client_def read_limited_def read_to_limit_delivers answer_client_def Let_def case_prod_unfold)

lemma snap_client_sound:
  assumes "delivers stream (concat (request_pieces (SnapBridge address token) request))" "token_is_well_formed token"
    and "length (concat (request_pieces (SnapBridge address token) request)) \<le> max_payload_bytes" "request \<noteq> []"
    and "wt_write_error w = None" "wt_shutdown_error w = None"
  shows "fst (handle_snap_native_bridge_client J X M w token stream s) = Inr (fst (handle_payload J X M request s))"
proof -
  have "snap_native_bridge_payload (concat (request_pieces (SnapBridge address token) request)) token = Inr request"
    using snap_bridge_request_iff [OF assms(2)] assms(4) by blast
  then show ?thesis using assms
    by (simp add: handle_snap_native_bridge_client_def read_limited_def read_to_limit_delivers answer_client_def Let_def
        case_prod_unfold)
qed

text \<open>The daemon as the transport of a host whose connections work.\<close>

definition daemon_transport :: "wire_json_lib \<Rightarrow> rpc_texts \<Rightarrow> 's rpc_methods \<Rightarrow> 's transport" where
  "daemon_transport J X M payload s = (let (response, s) = handle_payload J X M payload s in (Inr response, s))"

lemma legacy_message_cases:
  assumes "wj_parse J payload = Inr v" "get v ''method'' = None" "str_in v ''type'' \<noteq> Some ''extension_heartbeat''"
    and "str_in v ''url'' = Some url"
  shows "prepare_daemon_request J payload =
    \<lparr>pr_daemon_payload = wj_print J (rpc_request ''evaluate_url'' (object_of [(''url'', JString url)])), pr_browser_kind = LegacyUrl\<rparr>"
  using assms by (simp add: prepare_daemon_request_def)

lemma rpc_request_back:
  "\<not> is_legacy_request (rpc_request method params)"
  "json_rpc_request_of (rpc_request method params) = Some \<lparr>jq_id = None, jq_method = Some method, jq_params = params\<rparr>"
proof -
  have g: "get (rpc_request method params) ''method'' = Some (JString method)"
    "get (rpc_request method params) ''jsonrpc'' = Some (JString ''2.0'')"
    "get (rpc_request method params) ''id'' = Some JNull" "get (rpc_request method params) ''params'' = Some params"
    by (simp_all add: rpc_request_def get_object_of)
  show "\<not> is_legacy_request (rpc_request method params)" using g by (simp add: is_legacy_request_def)
  obtain m where m: "rpc_request method params = JObject m" by (simp add: rpc_request_def object_of_def)
  then show "json_rpc_request_of (rpc_request method params) = Some \<lparr>jq_id = None, jq_method = Some method, jq_params = params\<rparr>"
    using g by (simp add: optional_string_def optional_value_def)
qed

text \<open>
  C19. A message of an older extension that names a URL is answered with a block exactly when the method the
  daemon evaluates URLs with answers with a block, and is let through when it fails.
\<close>

theorem older_extension_blocks_what_daemon_blocks:
  assumes "\<And>v. wj_parse J (wj_print J v) = Inr v"
    and "wj_parse J payload = Inr v" "get v ''method'' = None" "str_in v ''type'' \<noteq> Some ''extension_heartbeat''"
    and "str_in v ''url'' = Some url"
  shows "\<exists>answer. fst (process_browser_payload J (daemon_transport J X M) payload s) = Inr (wj_print J answer)
    \<and> action_shaped answer
    \<and> (get answer ''action'' = Some (JString ''block'') \<longleftrightarrow>
        (\<exists>result. fst (rm_method M ''evaluate_url'' (object_of [(''url'', JString url)]) s) = Inr result
          \<and> str_in result ''decision'' = Some ''block''))"
proof -
  let ?params = "object_of [(''url'', JString url)]"
  let ?r = "fst (handle_json_value X M (rpc_request ''evaluate_url'' ?params) s)"
  have p: "fst (process_browser_payload J (daemon_transport J X M) payload s) = Inr (wj_print J (legacy_url_response ?r))"
    using assms(1) by (simp add: process_browser_payload_def legacy_message_cases [OF assms(2-)] daemon_transport_def
        handle_payload_def prepare_browser_response_def Let_def case_prod_unfold)
  obtain q s' where m: "rm_method M ''evaluate_url'' ?params s = (q, s')" by fastforce
  show ?thesis
  proof (cases q)
    case (Inl e)
    have "get ?r ''error'' \<noteq> None"
      using m Inl by (cases e) (simp_all add: handle_json_value_def rpc_request_back)
    then have "\<exists>x. legacy_url_response ?r = allow_with_error x" by (auto simp: legacy_url_response_def)
    then show ?thesis using p m Inl by (auto simp: action_shaped_def)
  next
    case (Inr result)
    then have r: "?r = object_of [(''jsonrpc'', JString ''2.0''), (''id'', JNull), (''result'', result)]"
      using m by (simp add: handle_json_value_def rpc_request_back)
    have "get ?r ''error'' = None" "get ?r ''result'' = Some result" unfolding r by (simp_all add: get_object_of)
    then show ?thesis using p m Inr
      by (auto simp: legacy_url_response_def action_shaped_def get_object_of)
  qed
qed

text \<open>Values printed as their number among all values, and a daemon that blocks every URL.\<close>

instance json :: countable
  by countable_datatype

definition counting_json :: wire_json_lib where
  "counting_json = \<lparr>wj_parse = (\<lambda>bytes. Inr (from_nat (length bytes))), wj_print = (\<lambda>v. replicate (to_nat v) 0),
     wj_text = (\<lambda>_. [])\<rparr>"

definition plain_texts :: rpc_texts where
  "plain_texts = \<lparr>rt_invalid_request = (\<lambda>_. ''invalid''), rt_rejection = (\<lambda>_. ''rejected''), rt_error = (\<lambda>_. ''failed'')\<rparr>"

definition blocking_methods :: "unit rpc_methods" where
  "blocking_methods = \<lparr>rm_heartbeat = (\<lambda>_ _. act_return JNull), rm_evaluate_url = (\<lambda>_. act_return JNull),
     rm_method = (\<lambda>_ _. act_return (object_of [(''decision'', JString ''block'')])), rm_diagnose = (\<lambda>_ _ _ s. s)\<rparr>"

theorem older_extension_blocks_what_daemon_blocks_witness:
  "\<exists>answer. fst (process_browser_payload counting_json (daemon_transport counting_json plain_texts blocking_methods)
       (wj_print counting_json (JObject [(''url'', JString ''https://bets.com/'')])) ()) = Inr (wj_print counting_json answer)
     \<and> get answer ''action'' = Some (JString ''block'')"
proof -
  have j: "wj_parse counting_json (wj_print counting_json v) = Inr v" for v by (simp add: counting_json_def)
  have b: "fst (rm_method blocking_methods ''evaluate_url'' p ()) = Inr (object_of [(''decision'', JString ''block'')])" for p
    by (simp add: blocking_methods_def act_return_def)
  have d: "str_in (object_of [(''decision'', JString ''block'')]) ''decision'' = Some ''block''"
    by (simp add: str_in_def get_object_of)
  show ?thesis
    using older_extension_blocks_what_daemon_blocks [OF j j, of "JObject [(''url'', JString ''https://bets.com/'')]"
        "''https://bets.com/''" plain_texts blocking_methods "()"] b d
    by (auto simp: str_in_def)
qed

end
