(* ===== verification/RepairLaws.thy ===== *)
theory RepairLaws imports Repairs begin

text \<open>
  What the repair loop may rely on while it sleeps: the schedules are as active at every moment before the
  next boundary as they are when it goes to sleep, as long as no window of the day before is still running.
  The search for the boundary does not look at the windows of the day before, so the end of such a window
  can come earlier than what it finds.
\<close>

section \<open>A search that keeps the nearest boundary\<close>

text \<open>Nothing found yet is above every boundary.\<close>

definition no_later_than :: "instant option \<Rightarrow> instant \<Rightarrow> bool" where
  "no_later_than found b \<longleftrightarrow> (\<exists>x. found = Some x \<and> x \<le> b)"

text \<open>A step of the search always goes on, loses no boundary and takes in the ones of the set.\<close>

definition takes_in :: "(instant option \<Rightarrow> instant option option) \<Rightarrow> instant set \<Rightarrow> bool" where
  "takes_in f B \<longleftrightarrow>
     (\<forall>found. \<exists>found'. f found = Some found' \<and> (\<forall>b. no_later_than found b \<or> b \<in> B \<longrightarrow> no_later_than found' b))"

lemma takes_in_from_nothing:
  assumes "takes_in f B"
  obtains found where "f None = Some found" "\<And>b. b \<in> B \<Longrightarrow> no_later_than found b"
  using assms unfolding takes_in_def by blast

lemma takes_in_skip: "takes_in Some {}"
  by (simp add: takes_in_def)

lemma takes_in_then:
  assumes "takes_in f A" "takes_in g B"
  shows "takes_in (\<lambda>found. case f found of None \<Rightarrow> None | Some found' \<Rightarrow> g found') (A \<union> B)"
  unfolding takes_in_def
proof
  fix found
  obtain found' where f: "f found = Some found'" "\<forall>b. no_later_than found b \<or> b \<in> A \<longrightarrow> no_later_than found' b"
    using assms(1) unfolding takes_in_def by blast
  obtain found'' where g: "g found' = Some found''" "\<forall>b. no_later_than found' b \<or> b \<in> B \<longrightarrow> no_later_than found'' b"
    using assms(2) unfolding takes_in_def by blast
  show "\<exists>r. (case f found of None \<Rightarrow> None | Some x \<Rightarrow> g x) = Some r
      \<and> (\<forall>b. no_later_than found b \<or> b \<in> A \<union> B \<longrightarrow> no_later_than r b)"
    using f g by auto
qed

lemma takes_in_fold:
  "\<forall>x\<in>set xs. takes_in (f x) (B x) \<Longrightarrow> takes_in (search_fold f xs) (\<Union>x\<in>set xs. B x)"
proof (induction xs)
  case Nil
  then show ?case by (simp add: takes_in_skip [unfolded takes_in_def] takes_in_def)
next
  case (Cons x xs)
  have "search_fold f (x # xs) = (\<lambda>found. case f x found of None \<Rightarrow> None | Some found' \<Rightarrow> search_fold f xs found')"
    by (simp add: fun_eq_iff)
  then show ?case using takes_in_then [of "f x" "B x" "search_fold f xs"] Cons by simp
qed

lemma closer_no_later:
  "no_later_than found b \<Longrightarrow> no_later_than (closer now c found) b"
  "now < b \<Longrightarrow> no_later_than (closer now b found) b"
  by (auto simp: closer_def no_later_than_def split: option.splits)

section \<open>The boundaries it looks at\<close>

definition calendar_room :: "'u lib \<Rightarrow> datetime \<Rightarrow> bool" where
  "calendar_room L now \<longleftrightarrow> (let today = day_number (local_nanos now) in
     \<bar>dt_offset now\<bar> < 86400 \<and> first_day L < today \<and> today + 10 \<le> last_day L)"

definition window_edges :: "datetime \<Rightarrow> int \<Rightarrow> schedule_window \<Rightarrow> instant set" where
  "window_edges now date w = {b. dt_utc now < b \<and> b \<in> {local_instant (dt_offset now) date (sw_start w), window_end (dt_offset now) date w}}"

definition window_of_day :: "'u lib \<Rightarrow> int \<Rightarrow> schedule_window \<Rightarrow> bool" where
  "window_of_day L date w \<longleftrightarrow> day_includes (sw_weekday w) (weekday_from (day_weekday L date))"

lemma boundary_at_found:
  assumes "\<bar>dt_offset now\<bar> < 86400" "tod_valid t" "first_day L < date" "date < last_day L"
  shows "boundary_at L now date t = Some (local_instant (dt_offset now) date t)"
proof -
  define off where "off = dt_offset now"
  have m: "0 \<le> tod_minutes t" "tod_minutes t \<le> 1439" using tod_minutes_bounds [OF assms(2)] by auto
  have "day_number (local_instant off date t) \<in> {date - 1 .. date + 1}"
    using m assms(1) unfolding local_instant_minutes off_def day_number_def nanos_defs atLeastAtMost_iff by linarith
  then show ?thesis using assms(3,4) unfolding boundary_at_def off_def Let_def by simp
qed

lemma window_boundaries_found:
  assumes "calendar_room L now" "tod_valid (sw_start w)" "tod_valid (sw_end w)"
    and "day_number (local_nanos now) \<le> date" "date \<le> day_number (local_nanos now) + 8"
  shows "window_boundaries L now date w =
    Some (local_instant (dt_offset now) date (sw_start w), window_end (dt_offset now) date w)"
proof -
  have "boundary_at L now d t = Some (local_instant (dt_offset now) d t)"
    if "tod_valid t" "d \<in> {date, date + 1}" for d t
    using boundary_at_found [of now t L d] that assms(1,4,5) by (auto simp: calendar_room_def Let_def)
  then show ?thesis using assms
    by (auto simp: window_boundaries_def window_end_def checked_add_days_def calendar_room_def Let_def)
qed

lemma boundary_day_takes_in:
  assumes room: "calendar_room L now" and v: "schedule_valid s" and k: "k \<in> {0..8}"
  shows "takes_in (boundary_day L now s k)
    (\<Union>w\<in>{w\<in>set (sc_windows s). window_of_day L (day_number (local_nanos now) + k) w}.
       window_edges now (day_number (local_nanos now) + k) w)"
proof -
  define date where "date = day_number (local_nanos now) + k"
  let ?ws = "filter (window_of_day L date) (sc_windows s)"
  have date: "checked_add_days L (day_number (local_nanos now)) k = Some date"
    using room k by (simp add: checked_add_days_def calendar_room_def date_def Let_def)
  have "takes_in (\<lambda>found. case window_boundaries L now date w of None \<Rightarrow> None
      | Some (start, stop) \<Rightarrow> Some (closer (dt_utc now) stop (closer (dt_utc now) start found)))
      (window_edges now date w)" if "w \<in> set ?ws" for w
  proof -
    have "window_boundaries L now date w =
        Some (local_instant (dt_offset now) date (sw_start w), window_end (dt_offset now) date w)"
      using window_boundaries_found [OF room, of w date] that v k by (auto simp: schedule_valid_def date_def)
    then show ?thesis by (auto simp: takes_in_def window_edges_def closer_no_later)
  qed
  then have "takes_in (search_fold (\<lambda>w found. case window_boundaries L now date w of None \<Rightarrow> None
      | Some (start, stop) \<Rightarrow> Some (closer (dt_utc now) stop (closer (dt_utc now) start found))) ?ws)
      (\<Union>w\<in>set ?ws. window_edges now date w)"
    by (intro takes_in_fold) blast
  then show ?thesis
    by (simp add: boundary_day_def [abs_def] date date_def [symmetric] window_of_day_def [abs_def])
qed

lemma next_boundary_is_no_later:
  assumes room: "calendar_room L now" and valid: "\<forall>s\<in>set (cfg_schedules config). schedule_valid s"
    and s: "s \<in> set (cfg_schedules config)" and w: "w \<in> set (sc_windows s)"
    and date: "day_number (local_nanos now) \<le> date" "date \<le> day_number (local_nanos now) + 8"
    and wd: "window_of_day L date w" and b: "b \<in> window_edges now date w"
  shows "\<exists>d. next_tier2_site_schedule_boundary L config now = Some d \<and> dt_utc now + d \<le> b"
proof -
  let ?days = "[0::int, 1, 2, 3, 4, 5, 6, 7, 8]" and ?today = "day_number (local_nanos now)"
  let ?edges = "\<lambda>s k. \<Union>w\<in>{w\<in>set (sc_windows s). window_of_day L (?today + k) w}. window_edges now (?today + k) w"
  let ?search = "search_fold (\<lambda>s. search_fold (boundary_day L now s) ?days) (cfg_schedules config)"
  let ?all = "\<Union>s\<in>set (cfg_schedules config). \<Union>k\<in>set ?days. ?edges s k"
  have days: "set ?days = {0..8::int}" by auto
  have "\<forall>s\<in>set (cfg_schedules config).
      takes_in (search_fold (boundary_day L now s) ?days) (\<Union>k\<in>set ?days. ?edges s k)"
  proof (intro ballI takes_in_fold)
    fix s :: schedule_config and k :: int
    assume member: "s \<in> set (cfg_schedules config)" and k: "k \<in> set ?days"
    from valid member have v: "schedule_valid s" by (rule bspec)
    from k have "k \<in> {0..8}" unfolding days .
    with room v show "takes_in (boundary_day L now s k) (?edges s k)" by (rule boundary_day_takes_in)
  qed
  then have takes: "takes_in ?search ?all" by (rule takes_in_fold)
  obtain found where found: "?search None = Some found" and all: "\<And>b. b \<in> ?all \<Longrightarrow> no_later_than found b"
    by (rule takes_in_from_nothing [OF takes]) (rule that)
  have "date - ?today \<in> set ?days" unfolding days using date by simp
  moreover have "b \<in> ?edges s (date - ?today)" using w wd b by auto
  ultimately have "b \<in> ?all" by (rule UN_I [OF s UN_I])
  then have "no_later_than found b" by (rule all)
  moreover have "next_tier2_site_schedule_boundary L config now = map_option (\<lambda>b. b - dt_utc now) found"
    unfolding next_tier2_site_schedule_boundary_def found by simp
  ultimately show ?thesis by (auto simp: no_later_than_def)
qed

section \<open>Between two boundaries the schedules stay\<close>

definition day_before_runs :: "'u lib \<Rightarrow> datetime \<Rightarrow> schedule_config \<Rightarrow> bool" where
  "day_before_runs L now s \<longleftrightarrow> (let yesterday = day_number (local_nanos now) - 1 in
     list_ex (\<lambda>w. window_of_day L yesterday w \<and> dt_utc now < window_end (dt_offset now) yesterday w) (sc_windows s))"

definition quiet_until :: "'u lib \<Rightarrow> datetime \<Rightarrow> schedule_config \<Rightarrow> instant \<Rightarrow> bool" where
  "quiet_until L now s t \<longleftrightarrow> (\<forall>w\<in>set (sc_windows s). \<forall>date.
     day_number (local_nanos now) \<le> date \<and> date \<le> day_number (local_nanos now) + 8 \<and> window_of_day L date w \<longrightarrow>
     (\<forall>b\<in>window_edges now date w. t < b))"

lemma covers_on_its_days:
  assumes v: "schedule_valid s" and w: "w \<in> set (sc_windows s)"
    and c: "local_instant off d (sw_start w) \<le> t" "t < window_end off d w"
  shows "d \<le> day_number (t + off * nanos_per_second)" "day_number (t + off * nanos_per_second) \<le> d + 1"
  using window_covers_day [of w off d t] v w c by (auto simp: schedule_valid_def Let_def split: if_splits)

lemma quiet_schedule_stays:
  assumes v: "schedule_valid s" and off: "off = dt_offset now"
    and t: "dt_utc now \<le> t" "t < dt_utc now + 8 * nanos_per_day"
    and quiet: "quiet_until L now s t" and before: "\<not> day_before_runs L now s"
  shows "schedule_covers L off s t \<longleftrightarrow> schedule_covers L off s (dt_utc now)"
proof -
  define k where "k = day_number (local_nanos now)"
  have days: "k \<le> day_number (t + off * nanos_per_second)" "day_number (t + off * nanos_per_second) \<le> k + 8"
    using t unfolding k_def off local_nanos_def day_number_def nanos_defs by linarith+
  have kn: "day_number (dt_utc now + off * nanos_per_second) = k" by (simp add: k_def off local_nanos_def)
  have edges: "t < b" if "w \<in> set (sc_windows s)" "window_of_day L d w" "k \<le> d" "d \<le> k + 8" "dt_utc now < b"
    "b = local_instant off d (sw_start w) \<or> b = window_end off d w" for w d b
    using quiet that unfolding quiet_until_def window_edges_def k_def off by blast
  have yesterday: "window_end off (k - 1) w \<le> dt_utc now" if "w \<in> set (sc_windows s)" "window_of_day L (k - 1) w" for w
    using before that unfolding day_before_runs_def Let_def list_ex_iff k_def off by force
  have same: "local_instant off d (sw_start w) \<le> t \<and> t < window_end off d w \<longleftrightarrow>
      local_instant off d (sw_start w) \<le> dt_utc now \<and> dt_utc now < window_end off d w"
    if w: "w \<in> set (sc_windows s)" and wd: "window_of_day L d w" for w d
  proof
    assume c: "local_instant off d (sw_start w) \<le> t \<and> t < window_end off d w"
    then have "k - 1 \<le> d" "d \<le> k + 8" using covers_on_its_days [OF v w, of off d t] days by linarith+
    moreover have "d \<noteq> k - 1" using yesterday [OF w] wd c t by force
    ultimately have "local_instant off d (sw_start w) \<le> dt_utc now"
      using edges [OF w wd, of "local_instant off d (sw_start w)"] c by linarith
    then show "local_instant off d (sw_start w) \<le> dt_utc now \<and> dt_utc now < window_end off d w" using c t by linarith
  next
    assume c: "local_instant off d (sw_start w) \<le> dt_utc now \<and> dt_utc now < window_end off d w"
    then have "k - 1 \<le> d" "d \<le> k" using covers_on_its_days [OF v w, of off d "dt_utc now"] kn by linarith+
    moreover have "d \<noteq> k - 1" using yesterday [OF w] wd c by force
    ultimately have "t < window_end off d w" using edges [OF w wd, of "window_end off d w"] c by simp
    then show "local_instant off d (sw_start w) \<le> t \<and> t < window_end off d w" using c t by linarith
  qed
  show ?thesis
    unfolding schedule_covers_def window_covers_def using same unfolding window_of_day_def by blast
qed

text \<open>C21. While the repair loop sleeps until the boundary it found, no schedule changes: at every moment from
now up to that boundary, and at most eight days on, a schedule is active exactly if it is active now, provided
no window of the day before is still running.\<close>

theorem schedules_stay_until_next_boundary:
  assumes cal: "calendar_ok L" and room: "calendar_room L now"
    and valid: "\<forall>s\<in>set (cfg_schedules config). schedule_valid s"
    and s: "s \<in> set (cfg_schedules config)" and before: "\<not> day_before_runs L now s"
    and t: "dt_utc now \<le> t" "t < dt_utc now + 8 * nanos_per_day"
    and sleeping: "\<forall>d. next_tier2_site_schedule_boundary L config now = Some d \<longrightarrow> t < dt_utc now + d"
  shows "schedule_is_active L s (at_offset (dt_offset now) t) = schedule_is_active L s now"
proof -
  have "quiet_until L now s t"
    unfolding quiet_until_def using next_boundary_is_no_later [OF room valid s] sleeping by fastforce
  then show ?thesis
    using schedule_active_covers [OF cal] quiet_schedule_stays [OF _ refl t _ before] valid s by simp
qed

text \<open>Monday 1970-01-05 at 12:00 and 19:00 UTC, and Tuesday at 09:00, with the night that begins on Monday.\<close>

definition monday_noon :: datetime where
  "monday_noon = at_offset 0 ((4 * 24 + 12) * 60 * nanos_per_minute)"

definition tuesday_nine :: datetime where
  "tuesday_nine = at_offset 0 ((5 * 24 + 9) * 60 * nanos_per_minute)"

definition monday_night :: schedule_config where
  "monday_night = \<lparr>sc_id = ''night'', sc_name = None,
     sc_windows = [\<lparr>sw_weekday = OnMon, sw_start = TimeOfDay 20 0, sw_end = TimeOfDay 10 0\<rparr>]\<rparr>"

definition night_config :: config where
  "night_config = default_config\<lparr>cfg_schedules := [monday_night]\<rparr>"

lemma monday_night_valid: "schedule_valid monday_night"
  by (simp add: schedule_valid_def monday_night_def tod_valid_def)

lemma monday_noon_boundary:
  "next_tier2_site_schedule_boundary sample_lib night_config monday_noon = Some (8 * 60 * nanos_per_minute)"
  by code_simp

theorem schedules_stay_until_next_boundary_witness:
  "schedule_is_active sample_lib monday_night (at_offset 0 ((4 * 24 + 19) * 60 * nanos_per_minute))
     = schedule_is_active sample_lib monday_night monday_noon"
proof -
  let ?t = "(4 * 24 + 19) * 60 * nanos_per_minute"
  have off: "dt_offset monday_noon = 0" and now: "dt_utc monday_noon = (4 * 24 + 12) * 60 * nanos_per_minute"
    by (simp_all add: monday_noon_def)
  have room: "calendar_room sample_lib monday_noon" by code_simp
  have s: "monday_night \<in> set (cfg_schedules night_config)"
    and valid: "\<forall>s\<in>set (cfg_schedules night_config). schedule_valid s"
    by (simp_all add: night_config_def monday_night_valid)
  have before: "\<not> day_before_runs sample_lib monday_noon monday_night" by code_simp
  have t: "dt_utc monday_noon \<le> ?t" "?t < dt_utc monday_noon + 8 * nanos_per_day"
    unfolding now by (simp_all add: nanos_defs)
  have sleeping: "\<forall>d. next_tier2_site_schedule_boundary sample_lib night_config monday_noon = Some d
      \<longrightarrow> ?t < dt_utc monday_noon + d"
    unfolding monday_noon_boundary now by (simp add: nanos_defs)
  show ?thesis
    using schedules_stay_until_next_boundary
      [OF sample_calendar(1) room valid s before t sleeping] unfolding off .
qed

text \<open>
  On Tuesday at nine the night that began on Monday is still running and ends at ten; the search, which begins
  with the windows of Tuesday, finds the next Monday at eight in the evening.
\<close>

lemma end_of_night_is_missed:
  "next_tier2_site_schedule_boundary sample_lib night_config tuesday_nine = Some ((6 * 24 + 11) * 60 * nanos_per_minute)
   \<and> schedule_is_active sample_lib monday_night tuesday_nine
   \<and> \<not> schedule_is_active sample_lib monday_night (at_offset 0 ((5 * 24 + 10) * 60 * nanos_per_minute))"
  by code_simp

section \<open>The loop sleeps no longer than its interval\<close>

lemma min_delay_le: "min_delay found delay \<le> delay" "min_delay (Some d) delay \<le> d"
  by (simp_all add: min_delay_def split: option.splits)

lemma repair_delay_le_interval: "fst (next_policy_repair_delay L H rd interval core) \<le> interval"
  unfolding next_policy_repair_delay_def Let_def
  by (auto split: prod.split sum.split intro: order_trans [OF min_delay_le(1)] min_delay_le(1))

lemma repair_delay_le_boundary:
  assumes g: "on_database (guarded_now L H rd None False) core = (Inr g, core')"
    and clock: "ci_state (gn_integrity g) \<noteq> status_tampered"
    and b: "next_tier2_site_schedule_boundary L (fc_config core') (gn_now g) = Some d"
  shows "fst (next_policy_repair_delay L H rd interval core) \<le> d"
  unfolding next_policy_repair_delay_def Let_def g using clock
  by (auto simp: b intro: order_trans [OF min_delay_le(1) min_delay_le(2)])

lemma fold_min_le_start: "fold min ds d \<le> d" for d :: int
proof (induction ds arbitrary: d)
  case (Cons a ds)
  have "fold min ds (min a d) \<le> min a d" by (rule Cons.IH)
  then show ?case by simp
qed simp

lemma fold_min_le: "x = d \<or> x \<in> set ds \<Longrightarrow> fold min ds d \<le> x" for x d :: int
proof (induction ds arbitrary: d)
  case (Cons a ds)
  have "fold min ds (min a d) \<le> min a d" by (rule fold_min_le_start)
  then show ?case using Cons by auto
qed simp

lemma nearest_detox_end_le:
  assumes "session \<in> set sessions" "now < ds_ends_at session"
  shows "\<exists>d. nearest_detox_end now sessions = Some d \<and> now + d \<le> ds_ends_at session"
proof -
  let ?delays = "map (\<lambda>session. ds_ends_at session - now) (filter (\<lambda>session. ds_ends_at session > now) sessions)"
  have m: "ds_ends_at session - now \<in> set ?delays" using assms by auto
  then obtain d ds where split: "?delays = d # ds" by (cases ?delays) auto
  have "fold min ds d \<le> ds_ends_at session - now" using m unfolding split by (intro fold_min_le) auto
  then show ?thesis unfolding nearest_detox_end_def split by simp
qed

lemma repair_delay_le_detox_end:
  assumes g: "on_database (guarded_now L H rd None False) core = (Inr g, core')"
    and clock: "ci_state (gn_integrity g) \<noteq> status_tampered"
    and sessions: "core_query (active_detox_sessions (dt_utc (gn_now g))) core' = Inr sessions"
    and s: "session \<in> set sessions" "dt_utc (gn_now g) < ds_ends_at session"
  shows "dt_utc (gn_now g) + fst (next_policy_repair_delay L H rd interval core) \<le> ds_ends_at session"
proof -
  obtain d where d: "nearest_detox_end (dt_utc (gn_now g)) sessions = Some d" "dt_utc (gn_now g) + d \<le> ds_ends_at session"
    using nearest_detox_end_le [OF s] by blast
  have "fst (next_policy_repair_delay L H rd interval core) \<le> d"
    unfolding next_policy_repair_delay_def Let_def g using clock d by (simp add: sessions min_delay_le)
  then show ?thesis using d by linarith
qed

end
