(* ===== verification/ExtensionLaws.thy ===== *)
theory ExtensionLaws imports Extensions ScanLaws begin

text \<open>
  What is shown agrees with what is done: an application is shown as blocked where the scan ends it, and a
  browser is shown without its extension where strict mode has a reason to end it.
\<close>

section \<open>Applications\<close>

lemma evaluate_app_without_lists:
  assumes "cfg_app_rules (ec_config ctx) = []"
  shows "evaluate_app L ctx process db = Allow \<or> (\<exists>e. evaluate_app L ctx process db = Block (RuntimeError e))"
  using assms
  by (auto simp: evaluate_app_def matching_app_rules_def detox_block_for_app_def runtime_error_def and_then_def detox_candidates_def
      split: sum.splits option.splits list.splits)

lemma shown_rule_id:
  "fst (snd (running_app_decision_details decision)) =
     (case decision of Allow \<Rightarrow> None | Block reason \<Rightarrow> blocked_rule_id reason)"
  "fst (running_app_decision_details decision) = ''block'' \<longleftrightarrow> is_block decision"
  by (cases decision rule: running_app_decision_details.cases; simp add: is_block_def)+

lemma snapshot_fields:
  assumes "running_app_snapshot_from_identity pid identity decision = Some app"
  shows "ra_pid app = pid" "ra_decision app = fst (running_app_decision_details decision)"
    "ra_blocking_rule_id app = fst (snd (running_app_decision_details decision))"
  using assms by (cases "running_app_decision_details decision"; auto simp: running_app_snapshot_from_identity_def)+

lemma shown_app_parts:
  assumes "running_app_snapshots_from_processes L processes now tampered core = Inr apps"
    and "unsupported_browser_block_is_active L now tampered core = Inr block_active"
  shows "app \<in> set apps \<longleftrightarrow> (\<exists>process\<in>set processes. px_pid process > 1
     \<and> px_pid process \<notin> application_allowlist_exempt_process_ids processes
     \<and> running_app_snapshot_from_identity (px_pid process) (process_identity_of process)
         (shown_decision L (scan_config block_active (fc_config core)) (fc_database core) now tampered process) = Some app)"
  using assms by (auto simp: running_app_snapshots_from_processes_def Let_def set_filter_map)

text \<open>Where an allowlist decides, the blocklists have let the process pass.\<close>

lemma shown_decision_cases:
  "shown_decision L config db now tampered process = d \<Longrightarrow> is_block d \<Longrightarrow>
     is_block (evaluate_app L (context_for (with_app_mode Blocklist config) now tampered) (process_identity_of process) db)
     \<or> evaluate_app L (context_for (with_app_mode Allowlist config) now tampered) (process_identity_of process) db = d"
  by (auto simp: shown_decision_def Let_def split: if_splits)

lemma allowlist_block_is_planned:
  assumes "process \<in> set processes" "px_pid process > 1"
    and "px_pid process \<notin> application_allowlist_exempt_process_ids processes"
    and "evaluate_app L (context_for (with_app_mode Allowlist config) now tampered) (process_identity_of process) db = Block reason"
    and "blocked_rule_id reason = Some rule_id"
  shows "(process, rule_id) \<in> set (blocked_allowlist_processes L config db processes now tampered)"
proof -
  have "cfg_app_rules (with_app_mode Allowlist config) \<noteq> []"
  proof
    assume none: "cfg_app_rules (with_app_mode Allowlist config) = []"
    have "cfg_app_rules (ec_config (context_for (with_app_mode Allowlist config) now tampered)) = []"
      by (simp add: context_for_def none)
    from evaluate_app_without_lists [OF this, of L "process_identity_of process" db] show False
      using assms(4,5) by auto
  qed
  then show ?thesis using assms
    by (auto simp: blocked_allowlist_processes_def Let_def set_filter_map intro!: bexI [of _ process])
qed

text \<open>C9. What is shown of a process agrees with the scan: where the list that blocks an application is named, the
scan plans to end the process, and where the scan plans to end a process for a list, the application is shown as
blocked.\<close>

theorem shown_applications_agree_with_scan:
  assumes shown: "running_app_snapshots_from_processes L processes now tampered core = Inr apps"
    and block: "unsupported_browser_block_is_active L now tampered core = Inr block_active"
    and plan: "plan = set (kp_blocked_pids (plan_lists L G (scan_config block_active (fc_config core)) (fc_database core)
        processes now tampered block_active))"
    and process: "process \<in> set processes" "px_pid process > 1"
      "px_pid process \<notin> application_allowlist_exempt_process_ids processes"
    and distinct: "distinct (map px_pid processes)"
    and looked_at: "\<not> spared_process (ss_own_pid G) process" "running_app_display_name (process_identity_of process) \<noteq> None"
      "unsupported_browser_installation_for_process (process_identity_of process) = None"
  shows "((\<exists>app\<in>set apps. ra_pid app = px_pid process \<and> ra_blocking_rule_id app \<noteq> None) \<longrightarrow> px_pid process \<in> plan)
    \<and> (px_pid process \<in> plan \<longrightarrow> (\<exists>app\<in>set apps. ra_pid app = px_pid process \<and> ra_decision app = ''block''))"
proof (intro conjI impI)
  let ?config = "scan_config block_active (fc_config core)" and ?db = "fc_database core"
  let ?identity = "process_identity_of process"
  let ?block = "evaluate_app L (context_for (with_app_mode Blocklist ?config) now tampered) ?identity ?db"
  let ?allow = "evaluate_app L (context_for (with_app_mode Allowlist ?config) now tampered) ?identity ?db"
  let ?d = "shown_decision L ?config ?db now tampered process"
  have same: "p = process" if "p \<in> set processes" "px_pid p = px_pid process" for p
    using distinct that process(1) by (auto simp: distinct_map inj_on_def)
  have blocklisted: "px_pid process \<in> plan" if "is_block ?block"
    using that process looked_at(1) unfolding plan plan_lists_pids blocklist_objects_def by blast
  have allowlisted: "px_pid process \<in> plan" if "?allow = Block reason" "blocked_rule_id reason = Some rule_id" for reason rule_id
    using allowlist_block_is_planned [OF process that] unfolding plan plan_lists_pids by force
  {
    assume "\<exists>app\<in>set apps. ra_pid app = px_pid process \<and> ra_blocking_rule_id app \<noteq> None"
    then obtain app where a: "app \<in> set apps" "ra_pid app = px_pid process" "ra_blocking_rule_id app \<noteq> None" by blast
    from shown_app_parts [OF shown block, THEN iffD1, OF a(1)] a(2,3)
    obtain p where app: "ra_pid app = px_pid process" "ra_blocking_rule_id app \<noteq> None" "p \<in> set processes"
      "running_app_snapshot_from_identity (px_pid p) (process_identity_of p)
         (shown_decision L ?config ?db now tampered p) = Some app"
      by blast
    have "p = process" using app(1,3) snapshot_fields(1) [OF app(4)] by (intro same) simp_all
    then have "fst (snd (running_app_decision_details ?d)) \<noteq> None" using app(2) snapshot_fields(3) [OF app(4)] by simp
    then obtain reason rule_id where d: "?d = Block reason" "blocked_rule_id reason = Some rule_id"
      unfolding shown_rule_id by (auto split: decision.splits)
    then show "px_pid process \<in> plan"
      using shown_decision_cases [OF d(1)] blocklisted allowlisted by (auto simp: is_block_def)
  next
    assume "px_pid process \<in> plan"
    then have "is_block ?block \<or> is_block ?allow"
      unfolding plan plan_lists_pids blocklist_objects_def unsupported_installation_def
      using looked_at(3) same by (auto split: if_splits dest!: allowlist_blocked)
    then have "is_block ?d" by (auto simp: shown_decision_def Let_def)
    then have label: "fst (running_app_decision_details ?d) = ''block''" by (simp add: shown_rule_id)
    obtain app where app: "running_app_snapshot_from_identity (px_pid process) ?identity ?d = Some app"
      using looked_at(2) by (auto simp: running_app_snapshot_from_identity_def)
    then have "app \<in> set apps" unfolding shown_app_parts [OF shown block] using process by blast
    moreover have "ra_pid app = px_pid process" "ra_decision app = ''block''"
      using snapshot_fields [OF app] label by simp_all
    ultimately show "\<exists>app\<in>set apps. ra_pid app = px_pid process \<and> ra_decision app = ''block''" by blast
  }
qed

theorem shown_applications_agree_with_scan_witness:
  "\<exists>app\<in>set (projr (running_app_snapshots_from_processes sample_lib sample_processes (at_offset 0 tuesday_eight) True (sa_core scan_state))).
     ra_pid app = 42 \<and> ra_decision app = ''block''"
proof -
  let ?process = "sample_processes ! 1" and ?now = "at_offset 0 tuesday_eight" and ?core = "sa_core scan_state"
  let ?apps = "projr (running_app_snapshots_from_processes sample_lib sample_processes ?now True ?core)"
  let ?plan = "set (kp_blocked_pids (plan_lists sample_lib scan_defaults (scan_config True (fc_config ?core)) (fc_database ?core)
      sample_processes ?now True True))"
  have shown: "running_app_snapshots_from_processes sample_lib sample_processes ?now True ?core = Inr ?apps" by code_simp
  have block: "unsupported_browser_block_is_active sample_lib ?now True ?core = Inr True" by code_simp
  have "1 < length sample_processes" by code_simp
  then have process: "?process \<in> set sample_processes" by simp
  have pid: "px_pid ?process > 1" "px_pid ?process = 42" by code_simp+
  have x: "px_pid ?process \<notin> application_allowlist_exempt_process_ids sample_processes" by code_simp
  have d: "distinct (map px_pid sample_processes)" by code_simp
  have l: "\<not> spared_process (ss_own_pid scan_defaults) ?process" "running_app_display_name (process_identity_of ?process) \<noteq> None"
    "unsupported_browser_installation_for_process (process_identity_of ?process) = None" by code_simp+
  have "px_pid ?process \<in> ?plan" by code_simp
  with shown_applications_agree_with_scan [OF shown block refl process pid(1) x d l, THEN conjunct2] pid(2)
  show ?thesis by simp
qed

section \<open>Extensions\<close>

text \<open>
  While a browser runs, it is shown as missing its extension exactly when strict mode has the same reason to
  end it; one that is starting has not been given up by strict mode.
\<close>

lemma shown_missing_iff_grace_is_over:
  "fst (extension_state beat component timeout now True (Some started_at) grace) = ''missing'' \<longleftrightarrow>
     \<not> is_current_session beat (Some started_at) \<and> grace < elapsed_seconds now started_at"
  by (auto simp: extension_state_def Let_def is_current_session_def split: option.splits)

lemma strict_mode_reason_when_missing:
  assumes "strict_browser_unhealthy_reason H browser strict now core = (Inr reason, core')"
    and "strict_browser_session_started_at H browser core = Inr (Some started_at)"
    and "core_query (heartbeat (browser_extension_component browser)) core = Inr beat"
    and "\<not> is_current_session beat (Some started_at)"
  shows "reason \<noteq> None \<longleftrightarrow>
    fst (extension_state beat (browser_extension_component browser) timeout now True (Some started_at)
      (browser_startup_grace_seconds strict)) = ''missing''"
  using assms unfolding shown_missing_iff_grace_is_over strict_browser_unhealthy_reason_def
  by (auto simp: browser_session_started_at_def act_bind_Inr act_return_def is_current_session_def Let_def not_le
      split: option.splits if_splits)

text \<open>A heartbeat of the two shared extensions is never credited to a browser of the other family.\<close>

lemma candidates_are_of_family:
  "set (fold (\<lambda>browser candidates. if P browser \<and> browser \<notin> set candidates then candidates @ [browser] else candidates) running found)
     = set found \<union> {browser \<in> set running. P browser}"
  by (induction running arbitrary: found) auto

lemma inferred_browser_is_of_family:
  "is_chromium_based (infer_browser_from_running_browsers reported running) = is_chromium_based reported"
proof -
  define found where "found = fold (\<lambda>browser candidates.
      if is_chromium_based browser = is_chromium_based reported \<and> browser \<notin> set candidates
      then candidates @ [browser] else candidates) running []"
  have "set found = {browser \<in> set running. is_chromium_based browser = is_chromium_based reported}"
    unfolding found_def by (simp add: candidates_are_of_family)
  then have "\<forall>browser\<in>set found. is_chromium_based browser = is_chromium_based reported" by simp
  then show ?thesis
    unfolding infer_browser_from_running_browsers_def found_def [symmetric] by (auto split: list.splits)
qed

section \<open>A failing read ends everything\<close>

text \<open>
  The engine blocks what it cannot decide. For the scan this means: where the Detox sessions cannot be read while
  the lists are evaluated, every process that is not spared is to end, listed or not.
\<close>

lemma failing_read_plans_every_process:
  assumes "context_detox_sessions (context_for (with_app_mode Blocklist config) now tampered) db = Inl e"
    and "process \<in> set processes" "\<not> spared_process (ss_own_pid G) process"
  shows "px_pid process \<in> set (kp_blocked_pids (plan_lists L G config db processes now tampered block_active))"
proof -
  have "is_block (evaluate_app L (context_for (with_app_mode Blocklist config) now tampered) (process_identity_of process) db)"
    using assms(1) by (auto simp: evaluate_app_def detox_block_for_app_def runtime_error_def is_block_def split: list.splits)
  then show ?thesis using assms(2,3) unfolding plan_lists_pids blocklist_objects_def by blast
qed

end
