(* ===== verification/Desktop.thy ===== *)
theory Desktop imports Wire Emergency begin

text \<open>
  The part of the desktop application that is not the webview, from \<^verbatim>\<open>focus-gui/src-tauri/src/lib.rs\<close>: calls to the
  daemon, the uninstall, the delivery of notifications and the reading of the daemon's answers for the page on
  the health of the system. Files, commands, the socket and the notification service are parameters.
\<close>

section \<open>What the application uses of the system\<close>

datatype gui_error =
  GuiIo string
| GuiJson string
| GuiRpc string
| InvalidRpcResponse
| InvalidUninstallPhrase
| InvalidInstallationSerial
| MissingPkexec
| MissingPackageCommand string
| UnsupportedPackageInstallation
| UninstallCommand string
| UnsupportedExtensionStoreUrl
| MissingUrlOpener

text \<open>A computation of the application changes the state of what is outside of it.\<close>

type_synonym ('s, 'a) gui = "'s \<Rightarrow> (gui_error + 'a) \<times> 's"

definition gui_return :: "gui_error + 'a \<Rightarrow> ('s, 'a) gui" where
  "gui_return r s = (r, s)"

definition gui_bind :: "('s, 'a) gui \<Rightarrow> ('a \<Rightarrow> ('s, 'b) gui) \<Rightarrow> ('s, 'b) gui" where
  "gui_bind m f s = (case m s of (Inl e, s) \<Rightarrow> (Inl e, s) | (Inr x, s) \<Rightarrow> f x s)"

record command_output =
  co_success :: bool
  co_status :: string
  co_stdout :: string
  co_stderr :: string

record 's desktop =
  dk_json :: wire_json_lib
  dk_is_file :: "string \<Rightarrow> bool"
  dk_exists :: "string \<Rightarrow> bool"
  dk_read :: "string \<Rightarrow> string + string"
  dk_run :: "string \<Rightarrow> string list \<Rightarrow> 's \<Rightarrow> (string + command_output) \<times> 's"
  dk_spawn :: "string \<Rightarrow> string list \<Rightarrow> 's \<Rightarrow> (string + unit) \<times> 's"
  dk_exchange :: "string \<Rightarrow> u8 list \<Rightarrow> 's \<Rightarrow> (string + u8 list) \<times> 's"
  dk_notify :: "string \<Rightarrow> string \<Rightarrow> 's \<Rightarrow> (string + unit) \<times> 's"

definition command_path :: "'s desktop \<Rightarrow> string list \<Rightarrow> string option" where
  "command_path D candidates = find (dk_is_file D) candidates"

definition run_command :: "'s desktop \<Rightarrow> string \<Rightarrow> string list \<Rightarrow> ('s, command_output) gui" where
  "run_command D command args s =
     (case dk_run D command args s of (Inl e, s) \<Rightarrow> (Inl (GuiIo e), s) | (Inr out, s) \<Rightarrow> (Inr out, s))"

section \<open>Links\<close>

definition firefox_extension_store_url :: string where
  "firefox_extension_store_url = ''https://addons.mozilla.org/en-US/firefox/addon/blockuntu/''"

definition chrome_extension_store_url :: string where
  "chrome_extension_store_url = ''https://chromewebstore.google.com/detail/blockuntu/opfljaancedgklbpnbpjfhdbbhbfpnoc''"

definition latest_release_url :: string where
  "latest_release_url = ''https://github.com/cstute1206/BlocKuntu/releases/latest''"

definition is_extension_store_url :: "string \<Rightarrow> bool" where
  "is_extension_store_url url \<longleftrightarrow> url = firefox_extension_store_url \<or> url = chrome_extension_store_url"

definition open_external_url :: "'s desktop \<Rightarrow> string \<Rightarrow> ('s, unit) gui" where
  "open_external_url D url s =
     (case command_path D [''/usr/bin/xdg-open'', ''/bin/xdg-open''] of
        None \<Rightarrow> (Inl MissingUrlOpener, s)
      | Some opener \<Rightarrow> (case dk_spawn D opener [url] s of
            (Inl e, s) \<Rightarrow> (Inl (GuiIo e), s)
          | (Inr _, s) \<Rightarrow> (Inr (), s)))"

definition open_extension_store :: "'s desktop \<Rightarrow> string \<Rightarrow> ('s, unit) gui" where
  "open_extension_store D url =
     (if \<not> is_extension_store_url url then gui_return (Inl UnsupportedExtensionStoreUrl) else open_external_url D url)"

definition open_latest_release :: "'s desktop \<Rightarrow> ('s, unit) gui" where
  "open_latest_release D = open_external_url D latest_release_url"

section \<open>Calls to the daemon\<close>

definition default_socket_path :: string where
  "default_socket_path = ''/run/blockuntu/blockuntud.sock''"

definition dev_socket_path :: string where
  "dev_socket_path = ''/tmp/blockuntu/blockuntud.sock''"

definition resolve_socket_path :: "'s desktop \<Rightarrow> string option \<Rightarrow> string" where
  "resolve_socket_path D socket_path =
     (let explicit = (case socket_path of None \<Rightarrow> [] | Some p \<Rightarrow> trim p) in
      if explicit \<noteq> [] then explicit
      else if dk_exists D default_socket_path then default_socket_path
      else if dk_exists D dev_socket_path then dev_socket_path
      else default_socket_path)"

definition daemon_request :: "string \<Rightarrow> json \<Rightarrow> json" where
  "daemon_request method params = object_of
     [(''jsonrpc'', JString ''2.0''), (''id'', JInt 1), (''method'', JString method), (''params'', params)]"

definition daemon_result :: "wire_json_lib \<Rightarrow> json \<Rightarrow> gui_error + json" where
  "daemon_result J response =
     (case get response ''error'' of
        Some e \<Rightarrow> Inl (GuiRpc (wj_text J e))
      | None \<Rightarrow> (case get response ''result'' of None \<Rightarrow> Inl InvalidRpcResponse | Some r \<Rightarrow> Inr r))"

text \<open>A timeout is a failing exchange.\<close>

definition call_daemon :: "'s desktop \<Rightarrow> string \<Rightarrow> string \<Rightarrow> json \<Rightarrow> ('s, json) gui" where
  "call_daemon D socket method params s =
     (case dk_exchange D socket (wj_print (dk_json D) (daemon_request method params)) s of
        (Inl e, s) \<Rightarrow> (Inl (GuiIo e), s)
      | (Inr response_bytes, s) \<Rightarrow>
          ((case wj_parse (dk_json D) response_bytes of
              Inl e \<Rightarrow> Inl (GuiJson e)
            | Inr response \<Rightarrow> daemon_result (dk_json D) response), s))"

section \<open>Uninstalling\<close>

datatype package_manager = Debian | Rpm | Pacman

fun uninstall_command_name :: "package_manager \<Rightarrow> string" where
  "uninstall_command_name Debian = ''dpkg''"
| "uninstall_command_name Rpm = ''dnf''"
| "uninstall_command_name Pacman = ''pacman''"

fun uninstall_command_label :: "package_manager \<Rightarrow> string" where
  "uninstall_command_label Debian = ''dpkg --purge blockuntu''"
| "uninstall_command_label Rpm = ''dnf remove --assumeyes blockuntu''"
| "uninstall_command_label Pacman = ''pacman -R --noconfirm blockuntu''"

fun command_candidates :: "package_manager \<Rightarrow> string list" where
  "command_candidates Debian = [''/usr/bin/dpkg'', ''/bin/dpkg'']"
| "command_candidates Rpm = [''/usr/bin/dnf'', ''/bin/dnf'']"
| "command_candidates Pacman = [''/usr/bin/pacman'', ''/bin/pacman'']"

fun uninstall_command_args :: "package_manager \<Rightarrow> string list" where
  "uninstall_command_args Debian = [''--purge'', ''blockuntu'']"
| "uninstall_command_args Rpm = [''remove'', ''--assumeyes'', ''blockuntu'']"
| "uninstall_command_args Pacman = [''-R'', ''--noconfirm'', ''blockuntu'']"

definition debian_package_installed :: "'s desktop \<Rightarrow> ('s, bool) gui" where
  "debian_package_installed D =
     (case command_path D [''/usr/bin/dpkg-query'', ''/bin/dpkg-query''] of
        None \<Rightarrow> gui_return (Inr False)
      | Some dpkg_query \<Rightarrow> gui_bind (run_command D dpkg_query [''-W'', ''-f=${db:Status-Abbrev}'', ''blockuntu'']) (\<lambda>out.
          gui_return (Inr (co_success out \<and> starts_with (co_stdout out) ''ii''))))"

definition package_known :: "'s desktop \<Rightarrow> string list \<Rightarrow> string list \<Rightarrow> ('s, bool) gui" where
  "package_known D candidates args =
     (case command_path D candidates of
        None \<Rightarrow> gui_return (Inr False)
      | Some command \<Rightarrow> gui_bind (run_command D command args) (\<lambda>out. gui_return (Inr (co_success out))))"

definition rpm_package_installed :: "'s desktop \<Rightarrow> ('s, bool) gui" where
  "rpm_package_installed D = package_known D [''/usr/bin/rpm'', ''/bin/rpm''] [''-q'', ''--quiet'', ''blockuntu'']"

definition pacman_package_installed :: "'s desktop \<Rightarrow> ('s, bool) gui" where
  "pacman_package_installed D = package_known D [''/usr/bin/pacman'', ''/bin/pacman''] [''-Q'', ''--quiet'', ''blockuntu'']"

definition installed_package_manager :: "'s desktop \<Rightarrow> ('s, package_manager option) gui" where
  "installed_package_manager D =
     gui_bind (debian_package_installed D) (\<lambda>debian.
     if debian then gui_return (Inr (Some Debian))
     else gui_bind (rpm_package_installed D) (\<lambda>rpm.
       if rpm then gui_return (Inr (Some Rpm))
       else gui_bind (pacman_package_installed D) (\<lambda>pacman.
         gui_return (Inr (if pacman then Some Pacman else None)))))"

definition gui_installation_serial :: "'s desktop \<Rightarrow> gui_error + string" where
  "gui_installation_serial D =
     (case dk_read D ''/etc/blockuntu/installation-id'' of
        Inl e \<Rightarrow> Inl (GuiIo e)
      | Inr contents \<Rightarrow> if installation_serial_is_valid (trim contents) then Inr (trim contents)
                        else Inl InvalidInstallationSerial)"

definition read_recovery_credential :: "'s desktop \<Rightarrow> string \<Rightarrow> gui_error + string" where
  "read_recovery_credential D path =
     (case dk_read D path of
        Inl e \<Rightarrow> Inl (GuiIo e)
      | Inr contents \<Rightarrow> if trim contents = [] then Inl (GuiIo (''recovery credential is empty: '' @ path))
                        else Inr (trim contents))"

record recovery_credentials_shown =
  rs_uninstall_phrase :: string
  rs_tier1_edit_key :: string

definition recovery_credentials :: "'s desktop \<Rightarrow> gui_error + recovery_credentials_shown" where
  "recovery_credentials D =
     (case read_recovery_credential D ''/etc/blockuntu/uninstall-recovery.txt'' of
        Inl e \<Rightarrow> Inl e
      | Inr phrase \<Rightarrow> (case read_recovery_credential D ''/etc/blockuntu/tier1-edit-key.txt'' of
            Inl e \<Rightarrow> Inl e
          | Inr key \<Rightarrow> Inr \<lparr>rs_uninstall_phrase = phrase, rs_tier1_edit_key = key\<rparr>))"

definition uninstall_phrase_matches :: "'s desktop \<Rightarrow> string \<Rightarrow> gui_error + bool" where
  "uninstall_phrase_matches D candidate =
     (if candidate = [] then Inr False
      else case read_recovery_credential D ''/etc/blockuntu/uninstall-recovery.txt'' of
        Inl e \<Rightarrow> Inl e
      | Inr phrase \<Rightarrow> Inr (candidate = trim phrase))"

definition prepare_package_removal :: "'s desktop \<Rightarrow> string \<Rightarrow> string option \<Rightarrow> ('s, string) gui" where
  "prepare_package_removal D now emergency_code =
     gui_bind (call_daemon D (resolve_socket_path D None) ''prepare_uninstall''
        (object_of [(''now'', JString now), (''emergency_code'', case emergency_code of None \<Rightarrow> JNull | Some c \<Rightarrow> JString c)]))
       (\<lambda>result. gui_return (case str_in result ''package_removal_lease'' of
          None \<Rightarrow> Inl InvalidRpcResponse
        | Some lease \<Rightarrow> if trim lease \<noteq> [] then Inr lease else Inl InvalidRpcResponse))"

definition command_failure_detail :: "string \<Rightarrow> command_output \<Rightarrow> string" where
  "command_failure_detail command out =
     command @ '' exited with '' @ co_status out @ '': '' @
       (if trim (co_stderr out) \<noteq> [] then trim (co_stderr out)
        else if trim (co_stdout out) \<noteq> [] then trim (co_stdout out) else ''no command output'')"

definition emergency_authorized :: "'s desktop \<Rightarrow> ('k, 'g) signature_lib \<Rightarrow> string \<Rightarrow> bool" where
  "emergency_authorized D S candidate =
     (case gui_installation_serial D of Inl _ \<Rightarrow> False | Inr serial \<Rightarrow> emergency_uninstall_code_is_valid S candidate serial)"

definition remove_package :: "'s desktop \<Rightarrow> package_manager \<Rightarrow> string \<Rightarrow> ('s, unit) gui" where
  "remove_package D manager lease =
     gui_bind (gui_return (case command_path D [''/usr/bin/pkexec'', ''/bin/pkexec''] of
          None \<Rightarrow> Inl MissingPkexec | Some p \<Rightarrow> Inr p)) (\<lambda>pkexec.
     gui_bind (gui_return (case command_path D (command_candidates manager) of
          None \<Rightarrow> Inl (MissingPackageCommand (uninstall_command_name manager)) | Some p \<Rightarrow> Inr p)) (\<lambda>package_command.
     gui_bind (run_command D pkexec ([''/usr/bin/env'', ''BLOCKUNTU_PACKAGE_REMOVAL_LEASE='' @ lease, package_command]
          @ uninstall_command_args manager)) (\<lambda>out.
       gui_return (if co_success out then Inr ()
         else Inl (UninstallCommand (command_failure_detail (uninstall_command_label manager) out))))))"

text \<open>Waiting for the browsers to take notice is left out.\<close>

definition uninstall_blockuntu :: "'s desktop \<Rightarrow> ('k, 'g) signature_lib \<Rightarrow> string \<Rightarrow> string \<Rightarrow> ('s, unit) gui" where
  "uninstall_blockuntu D S now phrase =
     (let candidate = trim phrase; emergency = emergency_authorized D S candidate in
      gui_bind (gui_return (if emergency then Inr True else uninstall_phrase_matches D candidate)) (\<lambda>authorized.
      if \<not> authorized then gui_return (Inl InvalidUninstallPhrase)
      else gui_bind (installed_package_manager D) (\<lambda>manager.
        case manager of
          None \<Rightarrow> gui_return (Inl UnsupportedPackageInstallation)
        | Some manager \<Rightarrow>
            gui_bind (prepare_package_removal D now (if emergency then Some candidate else None)) (\<lambda>lease.
              remove_package D manager lease))))"

section \<open>Notifications\<close>

definition record_delivery :: "'s desktop \<Rightarrow> string \<Rightarrow> int \<Rightarrow> string + unit \<Rightarrow> 's \<Rightarrow> 's" where
  "record_delivery D socket ident delivery s = snd (call_daemon D socket ''record_notification_delivery''
     (object_of [(''id'', JInt ident), (''delivered'', JBool (\<not> isl delivery)),
        (''detail'', JString (case delivery of
           Inl e \<Rightarrow> e
         | Inr _ \<Rightarrow> ''accepted by org.freedesktop.Notifications; D-Bus handle retained until close''))]) s)"

definition notification_parts :: "json \<Rightarrow> (int \<times> string \<times> string) option" where
  "notification_parts notification =
     Option.bind (Option.bind (get notification ''id'') as_i64) (\<lambda>ident.
     Option.bind (str_in notification ''title'') (\<lambda>title.
     Option.bind (str_in notification ''body'') (\<lambda>body. Some (ident, title, body))))"

definition deliver_notification :: "'s desktop \<Rightarrow> string \<Rightarrow> json \<Rightarrow> 's \<Rightarrow> 's" where
  "deliver_notification D socket notification s =
     (case notification_parts notification of
        None \<Rightarrow> s
      | Some (ident, title, body) \<Rightarrow>
          (let (delivery, s) = dk_notify D title body s in record_delivery D socket ident delivery s))"

text \<open>One pass at a time; \<open>since\<close> is the time at which the application began to deliver.\<close>

definition deliver_pending_notifications :: "'s desktop \<Rightarrow> string \<Rightarrow> string \<Rightarrow> 's \<Rightarrow> 's" where
  "deliver_pending_notifications D since socket s =
     (case call_daemon D socket ''pending_notifications''
         (object_of [(''limit'', JInt 20), (''block_events_since'', JString since)]) s of
        (Inl _, s) \<Rightarrow> s
      | (Inr v, s) \<Rightarrow> (case Option.bind (get v ''notifications'') as_array of
            None \<Rightarrow> s
          | Some notifications \<Rightarrow> fold (deliver_notification D socket) notifications s))"

section \<open>The health of the system\<close>

datatype health_state = HealthOk | HealthInactive | HealthPending | HealthWarn | HealthError | HealthUnknown

record health_check =
  hc_key :: string
  hc_label :: string
  hc_state :: health_state
  hc_detail :: string

definition bool_field :: "json \<Rightarrow> string \<Rightarrow> bool" where
  "bool_field v key = (case Option.bind (get v key) as_bool of None \<Rightarrow> False | Some b \<Rightarrow> b)"

definition bool_or :: "bool \<Rightarrow> json \<Rightarrow> string \<Rightarrow> bool" where
  "bool_or fallback v key = (case Option.bind (get v key) as_bool of None \<Rightarrow> fallback | Some b \<Rightarrow> b)"

definition string_or :: "string \<Rightarrow> json \<Rightarrow> string \<Rightarrow> string" where
  "string_or fallback v key = (case str_in v key of None \<Rightarrow> fallback | Some t \<Rightarrow> t)"

definition value_or_null :: "json \<Rightarrow> string \<Rightarrow> json" where
  "value_or_null v key = (case get v key of None \<Rightarrow> JNull | Some w \<Rightarrow> w)"

fun as_u64 :: "json \<Rightarrow> int option" where
  "as_u64 (JInt i) = (if 0 \<le> i \<and> i < 2 ^ 64 then Some i else None)"
| "as_u64 _ = None"

definition enforcement_mode_check :: "json \<Rightarrow> health_check" where
  "enforcement_mode_check status =
     (let state = string_or ''unknown'' status ''enforcement_state'' in
      \<lparr>hc_key = ''enforcement_mode'', hc_label = ''Enforcement mode'',
       hc_state = (if state = ''active'' then HealthOk else if state = ''uninstalling'' then HealthWarn else HealthUnknown),
       hc_detail = state\<rparr>)"

definition firefox_family_policy_enforcement_check :: "json \<Rightarrow> json \<Rightarrow> string \<Rightarrow> string \<Rightarrow> health_check" where
  "firefox_family_policy_enforcement_check status policy key label =
     (let active = (string_or ''active'' status ''enforcement_state'' = ''active'') in
      \<lparr>hc_key = key, hc_label = label,
       hc_state = (if \<not> active then HealthWarn
         else if \<not> bool_or True policy ''managed'' then HealthOk
         else if bool_field policy ''deferred_until_heartbeat'' \<and> \<not> bool_field policy ''active_after_heartbeat'' then HealthWarn
         else if bool_field policy ''compliant'' \<and> bool_field policy ''private_browsing_enabled''
              \<and> bool_field policy ''private_browsing_available'' then HealthOk
         else HealthError),
       hc_detail = string_or ''unknown'' policy ''path'' @ '': '' @ string_or ''no policy detail'' policy ''detail''\<rparr>)"

definition policy_enforcement_check :: "json \<Rightarrow> health_check" where
  "policy_enforcement_check status =
     firefox_family_policy_enforcement_check status (value_or_null status ''firefox_policy'') ''firefox_policy'' ''Firefox policy''"

definition chromium_policy_enforcement_check :: "json \<Rightarrow> json \<Rightarrow> string \<Rightarrow> string \<Rightarrow> health_check" where
  "chromium_policy_enforcement_check status policy key label =
     (let active = (string_or ''active'' status ''enforcement_state'' = ''active'');
          unsupported = (case Option.bind (get policy ''incognito_unsupported_pattern_count'') as_u64 of None \<Rightarrow> 0 | Some n \<Rightarrow> n) in
      \<lparr>hc_key = key, hc_label = label,
       hc_state = (if \<not> active then HealthWarn
         else if \<not> bool_or True policy ''managed'' then HealthOk
         else if bool_field policy ''deferred_until_heartbeat'' \<and> \<not> bool_field policy ''active_after_heartbeat'' then HealthWarn
         else if bool_field policy ''incognito_url_block_limit_exceeded''
              \<or> \<not> bool_or True policy ''incognito_mode_configured'' then HealthError
         else if string_or ''manual_consent'' policy ''incognito_mode'' = ''policy_url_blocking'' \<and> unsupported > 0 then HealthWarn
         else if bool_field policy ''compliant'' \<and> bool_field policy ''force_install_configured'' then HealthOk
         else HealthError),
       hc_detail = string_or ''unknown'' policy ''path'' @ '': '' @ string_or ''no browser policy detail'' policy ''detail''\<rparr>)"

definition chrome_policy_enforcement_check :: "json \<Rightarrow> health_check" where
  "chrome_policy_enforcement_check status =
     chromium_policy_enforcement_check status (value_or_null status ''chrome_policy'') ''chrome_policy'' ''Chrome policy''"

definition hosts_enforcement_check :: "json \<Rightarrow> health_check" where
  "hosts_enforcement_check status =
     (let active = (string_or ''active'' status ''enforcement_state'' = ''active''); hosts = value_or_null status ''hosts_file'';
          immutable_ok = (\<not> bool_field hosts ''immutable_required'' \<or> string_or ''unknown'' hosts ''immutable_state'' = ''enabled'') in
      \<lparr>hc_key = ''hosts_file'', hc_label = ''Hosts file'',
       hc_state = (if \<not> active then HealthWarn
         else if bool_field hosts ''managed_block_compliant'' \<and> immutable_ok then HealthOk else HealthError),
       hc_detail = string_or ''unknown'' hosts ''path'' @ '': '' @ string_or ''no hosts detail'' hosts ''detail'' @ ''; ''
         @ string_or [] hosts ''immutable_detail''\<rparr>)"

definition unsupported_browser_rule_state :: "json \<Rightarrow> bool \<times> nat" where
  "unsupported_browser_rule_state config =
     (let app_rules = (case Option.bind (get config ''app_rules'') as_array of None \<Rightarrow> [] | Some rules \<Rightarrow> rules) in
      case find (\<lambda>rule. str_in rule ''id'' = Some ''unsupported-browsers-hard'') app_rules of
        None \<Rightarrow> (False, 0)
      | Some rule \<Rightarrow> (bool_field rule ''enabled'' \<and> str_in rule ''tier'' = Some ''hard'',
          case Option.bind (get rule ''matchers'') as_array of None \<Rightarrow> 0 | Some matchers \<Rightarrow> length matchers))"

definition unsupported_browser_rule_check :: "'s desktop \<Rightarrow> (gui_error \<Rightarrow> string) \<Rightarrow> string \<Rightarrow> 's \<Rightarrow> health_check \<times> 's" where
  "unsupported_browser_rule_check D show_error socket s =
     (case call_daemon D socket ''config_snapshot'' (object_of []) s of
        (Inr config, s) \<Rightarrow>
          (let (hard_enabled, matcher_count) = unsupported_browser_rule_state config in
           (\<lparr>hc_key = ''unsupported_browser_hard_block'', hc_label = ''Unsupported browsers'',
             hc_state = (if hard_enabled then HealthOk else HealthError),
             hc_detail = (if hard_enabled
               then ''Tier 1 hard application rule active with '' @ show_nat matcher_count
                 @ '' matcher(s), including Chromium Flatpak and Brave, Opera and Vivaldi Snaps''
               else ''mandatory Tier 1 hard application rule is missing'')\<rparr>, s))
      | (Inl e, s) \<Rightarrow>
          (\<lparr>hc_key = ''unsupported_browser_hard_block'', hc_label = ''Unsupported browsers'', hc_state = HealthUnknown,
            hc_detail = ''daemon config unavailable: '' @ show_error e\<rparr>, s))"

definition browser_extension_health_state :: "string \<Rightarrow> health_state" where
  "browser_extension_health_state state =
     (if state = ''active'' then HealthOk
      else if state = ''inactive'' then HealthInactive
      else if state = ''starting'' then HealthPending
      else if state = ''stale'' \<or> state = ''missing'' then HealthError
      else HealthUnknown)"

definition browser_extension_identity :: "json \<Rightarrow> string" where
  "browser_extension_identity status =
     (case (str_in status ''browser'', str_in status ''extension_id'', str_in status ''extension_version'') of
        (Some browser, Some ident, Some version) \<Rightarrow> browser @ ''; '' @ ident @ '', version '' @ version
      | (None, Some ident, Some version) \<Rightarrow> ident @ '', version '' @ version
      | (Some browser, Some ident, None) \<Rightarrow> browser @ ''; '' @ ident
      | (None, Some ident, None) \<Rightarrow> ident
      | (Some browser, None, Some version) \<Rightarrow> browser @ ''; version '' @ version
      | (None, None, Some version) \<Rightarrow> ''version '' @ version
      | (_, None, None) \<Rightarrow> [])"

definition browser_extension_health_detail :: "json \<Rightarrow> string" where
  "browser_extension_health_detail status =
     (let state = string_or ''unknown'' status ''state''; detail = string_or ''daemon returned no detail'' status ''detail'';
          identity = browser_extension_identity status in
      if identity = [] then state @ '': '' @ detail else state @ '': '' @ detail @ ''; '' @ identity)"

definition browser_extension_runtime_check ::
  "'s desktop \<Rightarrow> (gui_error \<Rightarrow> string) \<Rightarrow> string \<Rightarrow> string \<Rightarrow> string \<Rightarrow> string \<Rightarrow> 's \<Rightarrow> health_check \<times> 's" where
  "browser_extension_runtime_check D show_error socket component key label s =
     (case call_daemon D socket ''extension_status'' (object_of [(''component'', JString component)]) s of
        (Inr status, s) \<Rightarrow>
          (\<lparr>hc_key = key, hc_label = label,
            hc_state = browser_extension_health_state (string_or ''unknown'' status ''state''),
            hc_detail = browser_extension_health_detail status\<rparr>, s)
      | (Inl e, s) \<Rightarrow>
          (\<lparr>hc_key = key, hc_label = label, hc_state = HealthUnknown,
            hc_detail = ''daemon '' @ label @ '' status unavailable: '' @ show_error e\<rparr>, s))"

section \<open>The tray\<close>

definition tray_enforcement_label :: "string \<Rightarrow> string" where
  "tray_enforcement_label state =
     (if state = ''active'' then ''Active'' else if state = ''uninstalling'' then ''Uninstalling'' else ''Unknown'')"

record tray_texts =
  ty_daemon :: string
  ty_enforcement :: string
  ty_detox :: string

definition tray_detox_status :: "'s desktop \<Rightarrow> string \<Rightarrow> string \<Rightarrow> 's \<Rightarrow> string \<times> 's" where
  "tray_detox_status D now socket s =
     (case call_daemon D socket ''detox_sessions''
         (object_of [(''active_only'', JBool True), (''limit'', JInt 80), (''now'', JString now)]) s of
        (Inr v, s) \<Rightarrow> (''Detox: '' @ show_nat (case Option.bind (get v ''sessions'') as_array of None \<Rightarrow> 0 | Some l \<Rightarrow> length l)
          @ '' active'', s)
      | (Inl _, s) \<Rightarrow> (''Detox: Unknown'', s))"

definition refresh_tray_menu :: "'s desktop \<Rightarrow> string \<Rightarrow> 's \<Rightarrow> tray_texts \<times> 's" where
  "refresh_tray_menu D now s =
     (let socket = resolve_socket_path D None in
      case call_daemon D socket ''status'' (object_of []) s of
        (Inr status, s) \<Rightarrow>
          (let (detox, s) = tray_detox_status D now socket s in
           (\<lparr>ty_daemon = ''Daemon: Online'',
             ty_enforcement = ''Enforcement: '' @ tray_enforcement_label (string_or ''unknown'' status ''enforcement_state''),
             ty_detox = detox\<rparr>, s))
      | (Inl _, s) \<Rightarrow>
          (\<lparr>ty_daemon = ''Daemon: Offline'', ty_enforcement = ''Enforcement: Unknown'', ty_detox = ''Detox: Unknown''\<rparr>, s))"

end
