(* ===== verification/DesktopLaws.thy ===== *)
theory DesktopLaws imports Desktop WireLaws begin

text \<open>
  The desktop application gets what the method of the daemon answers, over the bytes of both sides, and removes
  the package only with an authority and a lease of the daemon.
\<close>

section \<open>Calls\<close>

lemma daemon_request_back:
  "\<not> is_legacy_request (daemon_request method params)"
  "json_rpc_request_of (daemon_request method params) = Some \<lparr>jq_id = Some (JInt 1), jq_method = Some method, jq_params = params\<rparr>"
  by (simp_all add: daemon_request_def is_legacy_request_def object_of_def optional_string_def optional_value_def)

definition daemon_answers :: "'s desktop \<Rightarrow> rpc_texts \<Rightarrow> 's rpc_methods \<Rightarrow> bool" where
  "daemon_answers D X M \<longleftrightarrow> (\<forall>socket request s. dk_exchange D socket request s =
     (let (response, s) = handle_payload (dk_json D) X M request s in (Inr response, s)))"

text \<open>A result comes back as it is, an error of the method as an error of the call, and the state is the method's.\<close>

lemma call_gets_what_the_method_answers:
  assumes "\<And>v. wj_parse (dk_json D) (wj_print (dk_json D) v) = Inr v" and "daemon_answers D X M"
    and "rm_method M method params s = (r, s')"
  shows "snd (call_daemon D socket method params s) = s'
    \<and> (case r of Inr result \<Rightarrow> fst (call_daemon D socket method params s) = Inr result
       | Inl _ \<Rightarrow> \<exists>shown. fst (call_daemon D socket method params s) = Inl (GuiRpc shown))"
  using assms(1,3) assms(2) [unfolded daemon_answers_def]
  by (cases r; (cases "projl r")?)
    (auto simp: call_daemon_def handle_payload_def handle_json_value_def daemon_request_back daemon_result_def
      jsonrpc_error_def get_object_of split: prod.splits)

section \<open>Uninstalling\<close>

lemma gui_bind_Inr:
  "gui_bind m f s = (Inr y, s'') \<longleftrightarrow> (\<exists>x s'. m s = (Inr x, s') \<and> f x s' = (Inr y, s''))"
  by (auto simp: gui_bind_def split: prod.splits sum.splits)

lemma gui_return_bind [simp]:
  "gui_bind (gui_return (Inr x)) f = f x" "gui_bind (gui_return (Inl e)) f = gui_return (Inl e)"
  by (simp_all add: gui_bind_def gui_return_def fun_eq_iff)

definition uninstall_authorized :: "'s desktop \<Rightarrow> ('k, 'g) signature_lib \<Rightarrow> string \<Rightarrow> bool" where
  "uninstall_authorized D S phrase \<longleftrightarrow>
     emergency_authorized D S (trim phrase) \<or> uninstall_phrase_matches D (trim phrase) = Inr True"

text \<open>C14. The application uninstalls only what it may: without the phrase or the code of the installation nothing
is asked of the daemon, no command is run and an error is shown; and when it reports success, the daemon has
granted a lease for the removal that was asked for with that authority.\<close>

theorem uninstall_needs_phrase_and_lease:
  shows "(\<not> uninstall_authorized D S phrase \<longrightarrow> (\<exists>e. uninstall_blockuntu D S now phrase s = (Inl e, s)))
    \<and> (fst (uninstall_blockuntu D S now phrase s) = Inr () \<longrightarrow>
        uninstall_authorized D S phrase
        \<and> (\<exists>manager lease s1 s2. installed_package_manager D s = (Inr (Some manager), s1)
          \<and> prepare_package_removal D now (if emergency_authorized D S (trim phrase) then Some (trim phrase) else None) s1 = (Inr lease, s2)
          \<and> trim lease \<noteq> [] \<and> fst (remove_package D manager lease s2) = Inr ()))"
proof -
  have denied: "\<exists>e. uninstall_blockuntu D S now phrase s = (Inl e, s)" if "\<not> uninstall_authorized D S phrase"
    using that by (cases "uninstall_phrase_matches D (trim phrase)")
      (auto simp: uninstall_authorized_def uninstall_blockuntu_def Let_def gui_return_def)
  have lease: "trim lease \<noteq> []" if "prepare_package_removal D now code s1 = (Inr lease, s2)" for code lease s1 s2
    using that by (auto simp: prepare_package_removal_def gui_bind_Inr gui_return_def split: option.splits if_splits)
  have granted: "\<exists>manager lease s1 s2. installed_package_manager D s = (Inr (Some manager), s1)
      \<and> prepare_package_removal D now (if emergency_authorized D S (trim phrase) then Some (trim phrase) else None) s1 = (Inr lease, s2)
      \<and> fst (remove_package D manager lease s2) = Inr ()"
    if success: "uninstall_blockuntu D S now phrase s = (Inr (), s')" for s'
    using success unfolding uninstall_blockuntu_def Let_def
    by (auto simp: gui_bind_Inr gui_return_def split: option.splits if_splits)
  show ?thesis
    using denied granted lease by (metis fst_conv prod.collapse sum.distinct(1))
qed

text \<open>An installation from a Debian package whose daemon grants a lease.\<close>

definition debian_desktop :: "unit desktop" where
  "debian_desktop = \<lparr>
     dk_json = \<lparr>wj_parse = (\<lambda>_. Inr (object_of [(''result'', object_of [(''package_removal_lease'', JString ''lease-1'')])])),
       wj_print = (\<lambda>_. []), wj_text = (\<lambda>_. [])\<rparr>,
     dk_is_file = (\<lambda>path. path \<in> {''/usr/bin/dpkg-query'', ''/usr/bin/dpkg'', ''/usr/bin/pkexec''}),
     dk_exists = (\<lambda>_. True),
     dk_read = (\<lambda>path. if path = ''/etc/blockuntu/uninstall-recovery.txt'' then Inr ''open sesame'' else Inl ''no such file''),
     dk_run = (\<lambda>_ _ s. (Inr \<lparr>co_success = True, co_status = ''exit status: 0'', co_stdout = ''ii '', co_stderr = []\<rparr>, s)),
     dk_spawn = (\<lambda>_ _ s. (Inr (), s)),
     dk_exchange = (\<lambda>_ _ s. (Inr [], s)),
     dk_notify = (\<lambda>_ _ s. (Inr (), s))\<rparr>"

theorem uninstall_needs_phrase_and_lease_witness:
  "uninstall_authorized debian_desktop sample_signatures '' open sesame ''
   \<and> (\<exists>e. uninstall_blockuntu debian_desktop sample_signatures ''now'' ''sesame'' () = (Inl e, ()))"
proof -
  have u: "\<not> uninstall_authorized debian_desktop sample_signatures ''sesame''" by code_simp
  have s: "fst (uninstall_blockuntu debian_desktop sample_signatures ''now'' '' open sesame '' ()) = Inr ()" by code_simp
  show ?thesis
    using uninstall_needs_phrase_and_lease [of debian_desktop sample_signatures "''sesame''" "''now''" "()"] u
      uninstall_needs_phrase_and_lease [of debian_desktop sample_signatures "'' open sesame ''" "''now''" "()"] s
    by simp
qed

end
