(* ===== verification/Spec2Isabelle.thy ===== *)
theory Spec2Isabelle imports Notifications EditAgreement Emergency BlockViews ControlLaws ScanLaws StartLaws WireLaws RepairLaws ExtensionLaws DesktopLaws begin

text \<open>
  BlocKuntu keeps websites and applications blocked on a Linux desktop. A privileged daemon
  (\<^verbatim>\<open>src/focusd\<close>) holds the policy, enforces it on processes, on the hosts file and on the policies of
  the browsers, and answers the requests of a desktop application (\<^verbatim>\<open>src/focus-gui\<close>), of a browser
  extension behind a native messaging host (\<^verbatim>\<open>src/native-host\<close>) and of a command line. What the daemon
  decides is computed by a library (\<^verbatim>\<open>src/focus-core\<close>): the policy and its validation, the engine
  that decides for a URL or a process, and a SQLite database with the policy, Detox sessions,
  unlocks, usage, events and notifications.

  The library has three tiers of lists. Tier 1 is blocked always, Tier 2 while one of its schedules is
  active, Tier 3 opens for a daily allowance or an unlock; a Detox session blocks lists of the two
  upper tiers until it ends. The aim of the development is that what is to stay blocked stays blocked:
  through edits, changed clocks, failing statements and files, and any order of requests.

  \<^bold>\<open>How the code is modelled.\<close> Structs are records and enums datatypes with the constructors of the
  source; a message of an error is a constructor with the values it shows. Rust's \<open>Result\<close> is a sum, the
  error on the left. An operation on the database, on the core, on the daemon or on the files it
  writes maps the state to its result and the state after it, because an error does not undo what
  earlier statements did (theories \<^verbatim>\<open>Store\<close>, \<^verbatim>\<open>Core\<close>). Every statement, system call and
  command can fail: the oracles \<open>db_fault\<close>, \<open>hs_fault\<close>, the faults of the snapshot store and \<open>do_fault\<close> say which
  do, and every theorem holds for each of them. A panic (an unchecked index, an overflow of a date or
  of a loop counter) is the error \<open>Panicked\<close>. Integers have their width where it matters: \<open>u16\<close> minutes of
  the day, \<open>u32\<close> limits and durations; the row ids and counters of SQLite are \<open>int\<close>. Instants are
  nanoseconds from the epoch. Texts are lists of characters of the first Unicode block, on which the
  operations of theory \<^verbatim>\<open>Text\<close> agree with those of \<open>str\<close>.

  \<^bold>\<open>Parameters.\<close> Code that is not in the repository is an argument: \<open>lib\<close> (the URL parser of crate url and the
  calendar of chrono), \<open>host_lib\<close> (texts of times and of 64-bit floats), \<open>toml_lib\<close>, \<open>json_lib\<close>, \<open>wire_json_lib\<close> and
  \<open>backup_lib\<close> (printing and parsing of TOML and JSON), \<open>signature_lib\<close> (base64, Ed25519) and \<open>credential_lib\<close> (SHA-256). What a
  theorem needs of one of them is a named hypothesis (such as \<open>json_roundtrip\<close>), and its witness has a
  concrete instance.

  \<^bold>\<open>focus-core.\<close>
  \<^item> \<^verbatim>\<open>Prelude\<close>, \<^verbatim>\<open>Text\<close>: results, iterators, words, the operations of \<open>str\<close>.
  \<^item> \<^verbatim>\<open>Types\<close>, \<^verbatim>\<open>Config\<close>: the data model of \<^verbatim>\<open>config.rs\<close>, \<^verbatim>\<open>types.rs\<close> and \<^verbatim>\<open>error.rs\<close>; \<open>Config::validate\<close> is equivalent to
    the predicate \<open>config_ok\<close>; times of day are a linear order.
  \<^item> \<^verbatim>\<open>Schedule\<close>, \<^verbatim>\<open>Metering\<close>: schedules and the seconds charged for a span (\<^verbatim>\<open>policy.rs\<close>, \<^verbatim>\<open>db.rs\<close>), related to the set
    of active instants. The loop over civil days ends at the last day of the calendar, with the number
    of days left as its measure; no fuel is used anywhere.
  \<^item> \<^verbatim>\<open>Store\<close>, \<^verbatim>\<open>Keyed\<close>, \<^verbatim>\<open>Events\<close>, \<^verbatim>\<open>Notifications\<close>, \<^verbatim>\<open>Sessions\<close>, \<^verbatim>\<open>Usage\<close>, \<^verbatim>\<open>PolicyStore\<close>, \<^verbatim>\<open>PolicyRoundtrip\<close>: the tables of \<^verbatim>\<open>db.rs\<close>
    and its operations; keyed tables and text codecs are locales interpreted on each table and enum.
  \<^item> \<^verbatim>\<open>Matching\<close>, \<^verbatim>\<open>PolicyEngine\<close>, \<^verbatim>\<open>Decisions\<close>, \<^verbatim>\<open>Verdicts\<close>, \<^verbatim>\<open>Selection\<close>: \<^verbatim>\<open>policy.rs\<close>; what is allowed, list by list, which
    list is named (the locale \<open>preference\<close> at two orders), and that errors and a tampered clock only block
    more.
  \<^item> \<^verbatim>\<open>Unlocks\<close>, \<^verbatim>\<open>UnlockLaws\<close>: requests for an unlock and the quota of one in an hour over any history.
  \<^item> \<^verbatim>\<open>Core\<close>, \<^verbatim>\<open>Emergency\<close>: \<^verbatim>\<open>core.rs\<close>, the errors of the daemon, and \<^verbatim>\<open>emergency_uninstall.rs\<close>.

  \<^bold>\<open>focusd.\<close>
  \<^item> \<^verbatim>\<open>ClockGuard\<close>: \<^verbatim>\<open>clock_guard.rs\<close>, every request's comparison of wall clock and boot time.
  \<^item> \<^verbatim>\<open>Recovery\<close>, \<^verbatim>\<open>Hosts\<close>: \<^verbatim>\<open>policy_recovery.rs\<close> and \<^verbatim>\<open>hosts.rs\<close>, files replaced atomically.
  \<^item> \<^verbatim>\<open>Guards\<close>, \<^verbatim>\<open>Edits\<close>, \<^verbatim>\<open>EditMethods\<close>: the guards and the nine methods of \<^verbatim>\<open>rpc.rs\<close> that edit the policy;
    \<^verbatim>\<open>ProtectedLists\<close>, \<^verbatim>\<open>EditLaws\<close>, \<^verbatim>\<open>EditAgreement\<close>: what protected lists, decisions and the three copies of the
    policy keep through them.
  \<^item> \<^verbatim>\<open>Alerts\<close>, \<^verbatim>\<open>AlertLaws\<close>: the notification methods of \<^verbatim>\<open>rpc.rs\<close> and the notification loop of \<^verbatim>\<open>app.rs\<close>.
  \<^item> \<^verbatim>\<open>Json\<close>, \<^verbatim>\<open>Documents\<close>, \<^verbatim>\<open>GeckoPolicy\<close>, \<^verbatim>\<open>ChromiumPolicy\<close>, \<^verbatim>\<open>PolicyLaws\<close>: the browser policies of \<^verbatim>\<open>firefox_policy.rs\<close> and
    \<^verbatim>\<open>chrome_policy.rs\<close>, JSON values and the documents they are kept in.
  \<^item> \<^verbatim>\<open>Browsers\<close>, \<^verbatim>\<open>Enforcement\<close>, \<^verbatim>\<open>Controls\<close>, \<^verbatim>\<open>Uninstall\<close>, \<^verbatim>\<open>Requests\<close>: the methods of \<^verbatim>\<open>rpc.rs\<close> that start a Detox, open
    the edit window, change settings, hand over to an uninstall, and ask for unlocks and visits.
  \<^item> \<^verbatim>\<open>Dispatch\<close>, \<^verbatim>\<open>ControlLaws\<close>: every method of \<open>handle_method\<close>, in any sequence, and what no sequence of requests can
    do; the locale \<open>lasting\<close> carries a property of the database through all of them.
  \<^item> \<^verbatim>\<open>BlockViews\<close>: what a blocked page is told, and that the end it shows for a schedule is one.
  \<^item> \<^verbatim>\<open>ProcessScan\<close>, \<^verbatim>\<open>ScanLoop\<close>, \<^verbatim>\<open>ScanLaws\<close>: \<^verbatim>\<open>process_scan.rs\<close> and the loop over processes of \<^verbatim>\<open>app.rs\<close>: which
    processes end, which are spared, and for how long a browser may reconnect.
  \<^item> \<^verbatim>\<open>Diagnostics\<close>, \<^verbatim>\<open>Repairs\<close>, \<^verbatim>\<open>RepairLaws\<close>: the events clients and the daemon report, and the repair loop of \<^verbatim>\<open>app.rs\<close>;
    a search over eight days finds how long it may sleep, and no schedule changes before.
  \<^item> \<^verbatim>\<open>Extensions\<close>, \<^verbatim>\<open>ExtensionLaws\<close>: the methods of \<^verbatim>\<open>rpc.rs\<close> for the heartbeats and the status of the extensions, the
    running applications and the activity of schedules; what is shown of a process agrees with the scan.
  \<^item> \<^verbatim>\<open>Startup\<close>, \<^verbatim>\<open>StartLaws\<close>: \<open>DaemonApp::load\<close> of \<^verbatim>\<open>app.rs\<close>, the policy a start finds and publishes, which is what the edits
    then keep in agreement.
  \<^item> \<^verbatim>\<open>Wire\<close>: the connections of \<^verbatim>\<open>app.rs\<close> and the requests and responses of \<^verbatim>\<open>rpc.rs\<close>, over any methods.

  \<^bold>\<open>native-host.\<close>
  \<^item> \<^verbatim>\<open>Framing\<close>: \<^verbatim>\<open>native_messaging.rs\<close>, messages with a length header over a stream that brings its bytes in pieces; the
    reading loops end because every call consumes some of the stream.
  \<^item> \<^verbatim>\<open>NativeHost\<close>: \<^verbatim>\<open>protocol.rs\<close>, \<^verbatim>\<open>daemon_client.rs\<close> and \<^verbatim>\<open>bridge.rs\<close>. Without an interval the attempts to reach a daemon that
    was started again need not end: \<open>retry_loop\<close> is a partial function, and a theorem gives the bound it has with one.
  \<^item> \<^verbatim>\<open>WireLaws\<close>: every message is answered, in its shape, and a page is blocked through the host exactly when the daemon
    blocks it.

  \<^bold>\<open>focus-gui.\<close>
  \<^item> \<^verbatim>\<open>Desktop\<close>, \<^verbatim>\<open>DesktopLaws\<close>: the calls of the desktop application to the daemon, which return what the method answers,
    its uninstall, which needs an authority and a lease, the notifications it delivers and the states it shows.

  \<^bold>\<open>Not modelled.\<close> The lock around the core is taken to serialise the requests and never to be poisoned.
  Opening the SQLite file and migrating older schemas, sockets, timers, argument parsing, reading
  \<^verbatim>\<open>/proc\<close> and sending signals are input and output. The methods take
  JSON parameters as parsed; a name that is no method and parameters that cannot be read are a refused
  request. A reply is the value it shows. Of the desktop application the commands that only forward, its
  dialogs and windows, and the detection of installed browsers are left out.
\<close>

end
